(* ===== verification/RF_Prelude.thy ===== *)
theory RF_Prelude
  imports Main "HOL-Library.Word" "HOL-Library.Stream"
begin

unbundle bit_operations_syntax

text \<open>
  Shared vocabulary of the development: the machine integers of the code, byte buffers,
  the collections of simplification rules the components extend, and the lemmas on words
  assembled from digits that the identity text form, the identity byte form, the message
  encoding and the snapshot encoding all rest on.
\<close>

type_synonym u8 = "8 word"
type_synonym u16 = "16 word"
type_synonym u32 = "32 word"
type_synonym u64 = "64 word"
type_synonym bytes = "u8 list"

text \<open>\<open>std::int64_t\<close> shares its representation with \<open>u64\<close>: a two's complement word.\<close>
type_synonym i64 = "64 word"
type_synonym i32 = "32 word"

named_theorems op_defs "definitions of the controller's operations, unfolded together"
named_theorems map_simps "lookup and update laws of the ordered map"

section \<open>Words assembled from digits\<close>

text \<open>
  \<open>assemble k xs\<close> is the word whose base \<open>2 ^ k\<close> digits, most significant first, are
  \<open>xs\<close>: the loop \<open>v = (v << k) | digit\<close> of the code.
\<close>

definition assemble :: "nat \<Rightarrow> 'a::len word list \<Rightarrow> 'a word" where
  "assemble k xs = foldl (\<lambda>v d. push_bit k v OR d) 0 xs"

lemma assemble_Nil [simp]: "assemble k [] = 0"
  by (simp add: assemble_def)

lemma assemble_snoc: "assemble k (xs @ [x]) = push_bit k (assemble k xs) OR x"
  by (simp add: assemble_def)

lemma bit_assemble:
  fixes xs :: "'a::len word list"
  assumes "0 < k" and "\<forall>x \<in> set xs. \<forall>j \<ge> k. \<not> bit x j"
  shows "bit (assemble k xs) n \<longleftrightarrow>
    n < LENGTH('a) \<and> n div k < length xs \<and> bit (xs ! (length xs - 1 - n div k)) (n mod k)"
  using assms(2)
proof (induction xs arbitrary: n rule: rev_induct)
  case Nil
  then show ?case by simp
next
  case (snoc x xs)
  show ?case
  proof (cases "n < k")
    case True
    then show ?thesis
      by (auto simp: assemble_snoc bit_simps nth_append dest: bit_imp_le_length)
  next
    case False
    have sub: "(n - k) div k = n div k - 1" "(n - k) mod k = n mod k" "0 < n div k"
      using False assms(1) by (auto simp: le_div_geq le_mod_geq)
    have x: "\<not> bit x n" using snoc.prems False by simp
    have IH: "bit (assemble k xs) (n - k) \<longleftrightarrow>
      n - k < LENGTH('a) \<and> n div k - 1 < length xs \<and>
      bit (xs ! (length xs - 1 - (n div k - 1))) (n mod k)"
      using snoc by (simp add: sub)
    show ?thesis
      using False x IH sub(3)
      by (auto simp: assemble_snoc bit_simps nth_append)
  qed
qed

text \<open>The digits of a word, most significant first, as the code extracts them.\<close>

definition digits_of :: "nat \<Rightarrow> nat \<Rightarrow> 'a::len word \<Rightarrow> 'a word list" where
  "digits_of k m v = map (\<lambda>i. take_bit k (drop_bit ((m - 1 - i) * k) v)) [0..<m]"

lemma length_digits_of [simp]: "length (digits_of k m v) = m"
  by (simp add: digits_of_def)

lemma assemble_digits_of:
  fixes v :: "'a::len word"
  assumes "0 < k" and "LENGTH('a) \<le> m * k"
  shows "assemble k (digits_of k m v) = v"
proof (rule bit_word_eqI)
  fix n assume n: "n < LENGTH('a)"
  have small: "\<forall>x \<in> set (digits_of k m v). \<forall>j \<ge> k. \<not> bit x j"
    by (auto simp: digits_of_def bit_simps)
  have lt: "n div k < m" using n assms by (simp add: less_mult_imp_div_less)
  have "digits_of k m v ! (m - 1 - n div k) = take_bit k (drop_bit ((n div k) * k) v)"
    using lt by (simp add: digits_of_def)
  then show "bit (assemble k (digits_of k m v)) n = bit v n"
    using lt n assms(1) by (simp add: bit_assemble [OF assms(1) small] bit_simps)
qed

lemma digits_of_assemble:
  fixes xs :: "'a::len word list"
  assumes "0 < k" and "\<forall>x \<in> set xs. \<forall>j \<ge> k. \<not> bit x j"
    and "length xs * k \<le> LENGTH('a)"
  shows "digits_of k (length xs) (assemble k xs) = xs"
proof (rule nth_equalityI)
  fix i assume i: "i < length (digits_of k (length xs) (assemble k xs))"
  let ?j = "length xs - 1 - i"
  have "take_bit k (drop_bit (?j * k) (assemble k xs)) = xs ! i"
  proof (rule bit_word_eqI)
    fix n assume "n < LENGTH('a)"
    have le: "?j * k + n < LENGTH('a)" if "n < k"
    proof -
      have "?j * k + n < Suc ?j * k" using that by simp
      also have "Suc ?j * k \<le> length xs * k" using i by (intro mult_le_mono1) auto
      finally show ?thesis using assms(3) by simp
    qed
    have dm: "(?j * k + n) div k = ?j" "(?j * k + n) mod k = n" if "n < k"
      using that assms(1) by (simp_all add: div_mult_self3)
    have idx: "length xs - 1 - ?j = i" "?j < length xs" using i by auto
    show "bit (take_bit k (drop_bit (?j * k) (assemble k xs))) n = bit (xs ! i) n"
    proof (cases "n < k")
      case True
      then show ?thesis
        using le dm idx by (simp add: bit_simps bit_assemble [OF assms(1,2)])
    next
      case False
      then show ?thesis using assms(2) i by (simp add: bit_simps)
    qed
  qed
  with i show "digits_of k (length xs) (assemble k xs) ! i = xs ! i"
    by (simp add: digits_of_def)
qed simp

end
