(* ===== verification/Identity.thy ===== *)
theory Identity
  imports RF_Prelude
begin

unbundle bit_operations_syntax

text \<open>
  The strong 128-bit identities of \<open>core/identity.hpp\<close> and the identity kinds of
  \<open>core/identity_kinds.hpp\<close>: the value type with its order, its byte form, its
  hexadecimal text form with the two parsers, its random generation from a 64-bit engine,
  and one phantom tag per kind so that identities of different kinds have different types.
\<close>

section \<open>Values and order\<close>

text \<open>\<open>template <typename Tag> class Id\<close>; the tag is a phantom type parameter.\<close>

datatype 'tag Id = MkId (id_hi: u64) (id_lo: u64)

definition null_id :: "'tag Id" where
  "null_id = MkId 0 0"

definition is_null :: "'tag Id \<Rightarrow> bool" where
  "is_null i \<longleftrightarrow> id_hi i = 0 \<and> id_lo i = 0"

definition id_less :: "'tag Id \<Rightarrow> 'tag Id \<Rightarrow> bool" where
  "id_less a b = (if id_hi a \<noteq> id_hi b then id_hi a < id_hi b else id_lo a < id_lo b)"

definition id_less_eq :: "'tag Id \<Rightarrow> 'tag Id \<Rightarrow> bool" where
  "id_less_eq a b = (\<not> id_less b a)"

definition id_equal :: "'tag Id \<Rightarrow> 'tag Id \<Rightarrow> bool" where
  "id_equal a b = (id_hi a = id_hi b \<and> id_lo a = id_lo b)"

text \<open>\<open>operator==\<close> compares both halves, which is equality of the model.\<close>

lemma id_equal_iff [simp]: "id_equal a b \<longleftrightarrow> a = b"
  by (auto simp: id_equal_def Id.expand)

instantiation Id :: (type) linorder
begin

definition less_Id :: "'a Id \<Rightarrow> 'a Id \<Rightarrow> bool" where
  "less_Id a b = id_less a b"

definition less_eq_Id :: "'a Id \<Rightarrow> 'a Id \<Rightarrow> bool" where
  "less_eq_Id a b = id_less_eq a b"

instance
  by standard (auto simp: less_Id_def less_eq_Id_def id_less_eq_def id_less_def Id.expand split: if_splits)

end

lemma is_null_iff [simp]: "is_null i \<longleftrightarrow> i = null_id"
  by (cases i) (simp add: is_null_def null_id_def)

section \<open>Byte form\<close>

text \<open>
  \<open>std::array<uint8_t, 16>\<close> is a byte list of length 16. The two loops of
  \<open>from_bytes\<close> run over the first and the second eight bytes.
\<close>

definition from_bytes :: "bytes \<Rightarrow> 'tag Id" where
  "from_bytes b = MkId
     (foldl (\<lambda>hi x. push_bit 8 hi OR ucast x) 0 (take 8 b))
     (foldl (\<lambda>lo x. push_bit 8 lo OR ucast x) 0 (take 8 (drop 8 b)))"

definition to_bytes :: "'tag Id \<Rightarrow> bytes" where
  "to_bytes i =
     map (\<lambda>k. ucast (drop_bit ((7 - k) * 8) (id_hi i) AND 0xFF)) [0..<8] @
     map (\<lambda>k. ucast (drop_bit ((7 - k) * 8) (id_lo i) AND 0xFF)) [0..<8]"

lemma and_0xFF: "(w :: u64) AND 0xFF = take_bit 8 w"
  by (simp add: take_bit_eq_mask mask_eq_exp_minus_1)

lemma and_0xF: "(w :: u64) AND 0xF = take_bit 4 w"
  by (simp add: take_bit_eq_mask mask_eq_exp_minus_1)

lemma ucast_u8_take_bit: "ucast (ucast (take_bit 8 (w :: u64)) :: u8) = take_bit 8 w"
  by (rule bit_word_eqI) (auto simp: bit_simps)

lemma fold_bytes_assemble:
  "foldl (\<lambda>v x. push_bit 8 v OR ucast x) 0 b = assemble 8 (map ucast (b :: bytes) :: u64 list)"
  by (simp add: assemble_def foldl_map)

lemma to_bytes_digits:
  "to_bytes i = map ucast (digits_of 8 8 (id_hi i)) @ map ucast (digits_of 8 8 (id_lo i))"
  by (simp add: to_bytes_def digits_of_def and_0xFF)

lemma length_to_bytes [simp]: "length (to_bytes i) = 16"
  by (simp add: to_bytes_def)

lemma map_ucast_digits: "map ucast (map ucast (digits_of 8 8 (w :: u64)) :: bytes) = digits_of 8 8 w"
  by (simp add: digits_of_def ucast_u8_take_bit)

lemma from_to_bytes [simp]: "from_bytes (to_bytes i) = (i :: 'tag Id)"
  unfolding from_bytes_def to_bytes_digits fold_bytes_assemble
  by (simp add: map_ucast_digits [unfolded map_map] assemble_digits_of)

lemma bytes_small: "\<forall>x \<in> set (map ucast (b :: bytes) :: u64 list). \<forall>j \<ge> 8. \<not> bit x j"
  by (auto simp: bit_simps dest: bit_imp_le_length)

lemma digits_of_bytes:
  assumes "length (b :: bytes) = 8"
  shows "map ucast (digits_of 8 8 (assemble 8 (map ucast b :: u64 list))) = b"
proof -
  have "digits_of 8 (length (map ucast b :: u64 list)) (assemble 8 (map ucast b :: u64 list))
      = map ucast b"
    by (rule digits_of_assemble) (use assms bytes_small in auto)
  then have "digits_of 8 8 (assemble 8 (map ucast b :: u64 list)) = map ucast b"
    using assms by simp
  moreover have "(ucast (ucast x :: u64) :: u8) = x" for x :: u8
    by (rule bit_word_eqI) (simp add: bit_simps)
  ultimately show ?thesis by (simp add: o_def)
qed

lemma to_from_bytes:
  assumes "length b = 16"
  shows "to_bytes (from_bytes b :: 'tag Id) = b"
proof -
  have "b = take 8 b @ take 8 (drop 8 b)"
    using assms append_take_drop_id [of 8 b] by simp
  then show ?thesis
    unfolding from_bytes_def to_bytes_digits fold_bytes_assemble
    using assms digits_of_bytes [of "take 8 b"] digits_of_bytes [of "take 8 (drop 8 b)"] by simp
qed

text \<open>
  The byte form of an identity loses nothing and adds nothing: writing an identity and
  reading it back gives the same identity, and every 16-byte array is the byte form of the
  identity read from it. So distinct identities never share a byte form.
\<close>

theorem identity_bytes_bijection:
  "from_bytes (to_bytes i) = (i :: 'tag Id) \<and>
   (length b = 16 \<longrightarrow> to_bytes (from_bytes b :: 'tag Id) = b)"
  by (simp add: to_from_bytes)

theorem identity_bytes_bijection_witness:
  "to_bytes (from_bytes [0, 1, 2, 3, 4, 5, 6, 7, 8, 9, 10, 11, 12, 13, 14, 255] :: unit Id) =
     [0, 1, 2, 3, 4, 5, 6, 7, 8, 9, 10, 11, 12, 13, 14, 255]"
  using identity_bytes_bijection
    [of "null_id :: unit Id" "[0, 1, 2, 3, 4, 5, 6, 7, 8, 9, 10, 11, 12, 13, 14, 255]"]
  by simp

section \<open>Hexadecimal text form\<close>

text \<open>
  \<open>hex_digit\<close> compares character codes as the source does; characters above 127 fall
  outside every range whether \<open>char\<close> is signed or not.
\<close>

definition hex_digit :: "char \<Rightarrow> int" where
  "hex_digit c = (let v = (of_char c :: int) in
     if 48 \<le> v \<and> v \<le> 57 then v - 48
     else if 97 \<le> v \<and> v \<le> 102 then v - 97 + 10
     else if 65 \<le> v \<and> v \<le> 70 then v - 65 + 10
     else -1)"

definition kHex :: string where
  "kHex = ''0123456789abcdef''"

definition write_hex :: "u64 \<Rightarrow> string" where
  "write_hex v = map (\<lambda>i. kHex ! unat (drop_bit ((15 - i) * 4) v AND 0xF)) [0..<16]"

fun parse_hex_loop :: "string \<Rightarrow> u64 \<Rightarrow> bool \<Rightarrow> (u64 \<times> bool) option" where
  "parse_hex_loop [] v any = Some (v, any)"
| "parse_hex_loop (c # cs) v any =
     (let d = hex_digit c in
      if d < 0 then None
      else parse_hex_loop cs (push_bit 4 v OR word_of_int d) True)"

definition parse_hex :: "string \<Rightarrow> u64 option" where
  "parse_hex s =
     (if length s \<noteq> 16 then None
      else case parse_hex_loop s 0 False of
             None \<Rightarrow> None
           | Some (v, any) \<Rightarrow> if \<not> any then None else Some v)"

definition id_str :: "'tag Id \<Rightarrow> string" where
  "id_str i = write_hex (id_hi i) @ write_hex (id_lo i)"

definition try_parse :: "string \<Rightarrow> 'tag Id option" where
  "try_parse s =
     (if length s \<noteq> 32 then None
      else case parse_hex (take 16 s) of
             None \<Rightarrow> None
           | Some hi \<Rightarrow> (case parse_hex (take 16 (drop 16 s)) of
                 None \<Rightarrow> None
               | Some lo \<Rightarrow> Some (MkId hi lo)))"

datatype IdentityParseError = IdentityParseError string

fun clean_identity :: "string \<Rightarrow> string \<Rightarrow> IdentityParseError + string" where
  "clean_identity [] cleaned = Inr cleaned"
| "clean_identity (c # cs) cleaned =
     (if c = CHR ''-'' then clean_identity cs cleaned
      else if hex_digit c < 0 then Inl (IdentityParseError ''invalid character in identity'')
      else clean_identity cs (cleaned @ [c]))"

definition id_from_string :: "string \<Rightarrow> IdentityParseError + 'tag Id" where
  "id_from_string s =
     (case clean_identity s [] of
        Inl e \<Rightarrow> Inl e
      | Inr cleaned \<Rightarrow>
          if length cleaned \<noteq> 32
          then Inl (IdentityParseError ''identity must contain 32 hex digits'')
          else (case (parse_hex (take 16 cleaned), parse_hex (take 16 (drop 16 cleaned))) of
                  (Some hi, Some lo) \<Rightarrow> Inr (MkId hi lo)
                | _ \<Rightarrow> Inl (IdentityParseError ''identity parse failed'')))"

subsection \<open>Hexadecimal digits\<close>

lemma kHex_digits:
  "list_all (\<lambda>n. hex_digit (kHex ! n) = int n \<and> kHex ! n \<noteq> CHR ''-'') [0..<16]"
  by code_simp

lemma hex_digit_kHex:
  assumes "n < 16"
  shows "hex_digit (kHex ! n) = int n" "kHex ! n \<noteq> CHR ''-''"
  using kHex_digits assms by (auto simp: list_all_iff)

lemma hex_digit_range: "0 \<le> hex_digit c \<Longrightarrow> hex_digit c < 16"
  by (auto simp: hex_digit_def Let_def split: if_splits)

lemma write_hex_digits: "write_hex v = map (\<lambda>d. kHex ! unat d) (digits_of 4 16 v)"
  by (simp add: write_hex_def digits_of_def and_0xF)

lemma length_write_hex [simp]: "length (write_hex v) = 16"
  by (simp add: write_hex_def)

lemma length_id_str [simp]: "length (id_str i) = 32"
  by (simp add: id_str_def)

lemma unat_take_bit_4: "unat (take_bit 4 (w :: u64)) < 16"
  using take_bit_nat_less_exp [of 4 "unat w"] by (simp only: unsigned_take_bit_eq) simp

lemma digit_of_kHex: "d \<in> set (digits_of 4 16 (v :: u64)) \<Longrightarrow>
    word_of_int (hex_digit (kHex ! unat d)) = d \<and> 0 \<le> hex_digit (kHex ! unat d) \<and>
    kHex ! unat d \<noteq> CHR ''-''"
  by (auto simp: digits_of_def hex_digit_kHex unat_take_bit_4)

text \<open>Parsing digits is assembling them.\<close>

lemma parse_hex_loop_eq:
  "parse_hex_loop s v any =
     (if \<forall>c \<in> set s. 0 \<le> hex_digit c
      then Some (foldl (\<lambda>v d. push_bit 4 v OR d) v (map (word_of_int \<circ> hex_digit) s), any \<or> s \<noteq> [])
      else None)"
  by (induction s arbitrary: v any) (auto simp: Let_def)

lemma parse_hex_eq:
  "parse_hex s =
     (if length s = 16 \<and> (\<forall>c \<in> set s. 0 \<le> hex_digit c)
      then Some (assemble 4 (map (word_of_int \<circ> hex_digit) s)) else None)"
  by (auto simp: parse_hex_def parse_hex_loop_eq assemble_def)

lemma parse_write_hex [simp]: "parse_hex (write_hex v) = Some v"
proof -
  have "map (word_of_int \<circ> hex_digit) (write_hex v) = digits_of 4 16 v"
    unfolding write_hex_digits by (simp add: map_idI digit_of_kHex)
  moreover have "\<forall>c \<in> set (write_hex v). 0 \<le> hex_digit c"
    unfolding write_hex_digits using digit_of_kHex by auto
  ultimately show ?thesis
    by (simp add: parse_hex_eq assemble_digits_of)
qed

definition lower_hex :: "char \<Rightarrow> char" where
  "lower_hex c = kHex ! nat (hex_digit c)"

lemma write_parse_hex:
  assumes "length s = 16" and "\<forall>c \<in> set s. 0 \<le> hex_digit c"
  shows "write_hex (assemble 4 (map (word_of_int \<circ> hex_digit) s)) = map lower_hex s"
proof -
  let ?ds = "map (word_of_int \<circ> hex_digit) s :: u64 list"
  have small: "\<forall>x \<in> set ?ds. \<forall>j \<ge> 4. \<not> bit x j"
  proof (intro ballI allI impI)
    fix x j assume "x \<in> set ?ds" and j: "(4::nat) \<le> j"
    then obtain c where c: "c \<in> set s" "x = word_of_int (hex_digit c)" by auto
    with assms(2) have "0 \<le> hex_digit c" "hex_digit c < 2 ^ 4" using hex_digit_range by auto
    then have "take_bit 4 (hex_digit c) = hex_digit c" by (simp add: take_bit_int_eq_self)
    then have "x = take_bit 4 x" using c(2)
      by (metis of_int_take_bit)
    then show "\<not> bit x j" using j by (metis bit_take_bit_iff not_le)
  qed
  have "digits_of 4 (length ?ds) (assemble 4 ?ds) = ?ds"
    by (rule digits_of_assemble) (use assms(1) small in auto)
  then have "digits_of 4 16 (assemble 4 ?ds) = ?ds" using assms(1) by simp
  moreover have "unat (word_of_int (hex_digit c) :: u64) = nat (hex_digit c)" if "c \<in> set s" for c
    using that assms(2) hex_digit_range [of c]
    by (simp add: unat_eq_nat_uint uint_word_of_int)
  ultimately show ?thesis
    by (simp add: write_hex_digits lower_hex_def)
qed

subsection \<open>Whole identities\<close>

lemma try_parse_str: "try_parse (id_str i) = Some (i :: 'tag Id)"
  by (simp add: try_parse_def id_str_def)

lemma clean_identity_eq:
  "clean_identity s acc =
     (if \<forall>c \<in> set s. c \<noteq> CHR ''-'' \<longrightarrow> 0 \<le> hex_digit c
      then Inr (acc @ filter (\<lambda>c. c \<noteq> CHR ''-'') s)
      else Inl (IdentityParseError ''invalid character in identity''))"
  by (induction s arbitrary: acc) auto

lemma filter_no_hyphen_hex:
  "\<forall>c \<in> set s. c \<noteq> CHR ''-'' \<longrightarrow> 0 \<le> hex_digit c \<Longrightarrow>
   \<forall>c \<in> set (filter (\<lambda>c. c \<noteq> CHR ''-'') s). 0 \<le> hex_digit c"
  by auto

lemma parse_halves:
  assumes "length t = 32" and "\<forall>c \<in> set t. 0 \<le> hex_digit c"
  obtains hi lo where "parse_hex (take 16 t) = Some hi" "parse_hex (take 16 (drop 16 t)) = Some lo"
    "write_hex hi @ write_hex lo = map lower_hex t"
proof -
  let ?f = "\<lambda>s. assemble 4 (map (word_of_int \<circ> hex_digit) s) :: u64"
  have "\<forall>c \<in> set (take 16 t). 0 \<le> hex_digit c" "\<forall>c \<in> set (take 16 (drop 16 t)). 0 \<le> hex_digit c"
    using assms(2) by (auto dest: in_set_takeD in_set_dropD)
  moreover from this assms(1) have
    "write_hex (?f (take 16 t)) @ write_hex (?f (take 16 (drop 16 t))) = map lower_hex t"
    by (simp add: write_parse_hex take_map drop_map flip: map_append)
  ultimately show thesis
    using assms(1) that [of "?f (take 16 t)" "?f (take 16 (drop 16 t))"]
    by (simp add: parse_hex_eq)
qed

lemma id_str_inject [simp]: "id_str i = id_str j \<longleftrightarrow> i = (j :: 'tag Id)"
  by (metis option.inject try_parse_str)

lemma id_from_string_eq:
  "id_from_string s = (Inr i :: IdentityParseError + 'tag Id) \<longleftrightarrow>
     (\<forall>c \<in> set s. c \<noteq> CHR ''-'' \<longrightarrow> 0 \<le> hex_digit c) \<and>
     length (filter (\<lambda>c. c \<noteq> CHR ''-'') s) = 32 \<and>
     id_str i = map lower_hex (filter (\<lambda>c. c \<noteq> CHR ''-'') s)"
  (is "?L \<longleftrightarrow> ?hex \<and> ?len \<and> ?str")
proof (cases "?hex \<and> ?len")
  case True
  let ?t = "filter (\<lambda>c. c \<noteq> CHR ''-'') s"
  obtain hi lo where h: "parse_hex (take 16 ?t) = Some hi"
    "parse_hex (take 16 (drop 16 ?t)) = Some lo"
    "write_hex hi @ write_hex lo = map lower_hex ?t"
    by (rule parse_halves [OF conjunct2 [OF True] filter_no_hyphen_hex [OF conjunct1 [OF True]]])
  have parsed: "id_from_string s = (Inr (MkId hi lo) :: IdentityParseError + 'tag Id)"
    using True h(1,2) by (simp add: id_from_string_def clean_identity_eq)
  have str: "id_str (MkId hi lo :: 'tag Id) = map lower_hex ?t"
    using h(3) by (simp add: id_str_def)
  have "?L \<longleftrightarrow> id_str i = id_str (MkId hi lo :: 'tag Id)"
    unfolding parsed id_str_inject by auto
  then show ?thesis
    using True str by simp
next
  case False
  then show ?thesis
    by (auto simp: id_from_string_def clean_identity_eq)
qed

lemma filter_id_str: "filter (\<lambda>c. c \<noteq> CHR ''-'') (id_str i) = id_str i"
  using digit_of_kHex by (auto simp: filter_id_conv id_str_def write_hex_digits)

lemma id_str_hex: "\<forall>c \<in> set (id_str i). 0 \<le> hex_digit c"
  using digit_of_kHex by (auto simp: id_str_def write_hex_digits)

lemma lower_hex_id_str: "map lower_hex (id_str i) = id_str i"
  by (rule map_idI) (use digit_of_kHex in
      \<open>auto simp: id_str_def write_hex_digits lower_hex_def digits_of_def hex_digit_kHex unat_take_bit_4\<close>)

text \<open>
  The text form of an identity is 32 characters; the strict parser reads it back, and so
  does the lenient one.
\<close>

theorem identity_text_roundtrip:
  "length (id_str i) = 32 \<and> try_parse (id_str i) = Some (i :: 'tag Id) \<and>
   id_from_string (id_str i) = Inr i"
  by (simp add: try_parse_str id_from_string_eq filter_id_str id_str_hex lower_hex_id_str)

text \<open>
  What the lenient parser accepts, exactly: strings whose characters are hexadecimal
  digits or hyphens, with 32 digits in all and the hyphens anywhere; the identity read is
  the one whose text form is the digits in lower case. Every other string is an error.
\<close>

theorem from_string_accepts:
  "(\<exists>i. id_from_string s = (Inr i :: IdentityParseError + 'tag Id) \<and>
        id_str i = map lower_hex (filter (\<lambda>c. c \<noteq> CHR ''-'') s)) =
   (list_all (\<lambda>c. c = CHR ''-'' \<or> 0 \<le> hex_digit c) s \<and>
    length (filter (\<lambda>c. c \<noteq> CHR ''-'') s) = 32)"
proof (intro iffI)
  assume "list_all (\<lambda>c. c = CHR ''-'' \<or> 0 \<le> hex_digit c) s \<and>
    length (filter (\<lambda>c. c \<noteq> CHR ''-'') s) = 32"
  then have hex: "\<forall>c \<in> set s. c \<noteq> CHR ''-'' \<longrightarrow> 0 \<le> hex_digit c"
    and len: "length (filter (\<lambda>c. c \<noteq> CHR ''-'') s) = 32" by (auto simp: list_all_iff)
  obtain hi lo where "write_hex hi @ write_hex lo = map lower_hex (filter (\<lambda>c. c \<noteq> CHR ''-'') s)"
    by (rule parse_halves [OF len filter_no_hyphen_hex [OF hex]])
  then have "id_str (MkId hi lo :: 'tag Id) = map lower_hex (filter (\<lambda>c. c \<noteq> CHR ''-'') s)"
    by (simp add: id_str_def)
  with hex len show "\<exists>i. id_from_string s = (Inr i :: IdentityParseError + 'tag Id) \<and>
        id_str i = map lower_hex (filter (\<lambda>c. c \<noteq> CHR ''-'') s)"
    by (auto simp: id_from_string_eq)
qed (auto simp: id_from_string_eq list_all_iff)

section \<open>Hash and random generation\<close>

text \<open>\<open>std::hash\<close> of an identity; \<open>std::size_t\<close> has 64 bits.\<close>

definition id_hash :: "'tag Id \<Rightarrow> u64" where
  "id_hash i = (let h = id_hi i XOR (id_lo i * 0x9e3779b97f4a7c15) in h XOR drop_bit 32 h)"

text \<open>
  The 64-bit engine is the stream of values it will yield; a distribution over the whole
  range of \<open>uint64_t\<close> hands its outputs on. C++ leaves open which of the two draws
  of \<open>Id(dist(rng), dist(rng))\<close> comes first; no lemma depends on it.
\<close>

type_synonym engine = "u64 stream"

definition random_id :: "engine \<Rightarrow> 'tag Id \<times> engine" where
  "random_id g = (MkId (shd g) (shd (stl g)), stl (stl g))"

section \<open>Identity kinds\<close>

text \<open>One empty tag type per kind (\<open>core/identity_kinds.hpp\<close>).\<close>

datatype ReplicaIdTag = ReplicaIdTag
datatype ReplicaSetIdTag = ReplicaSetIdTag
datatype ModelIdTag = ModelIdTag
datatype ArtifactIdTag = ArtifactIdTag
datatype TenantIdTag = TenantIdTag
datatype WorkloadIdTag = WorkloadIdTag
datatype NodeIdTag = NodeIdTag
datatype WorkerIdTag = WorkerIdTag
datatype WorkerBootIdTag = WorkerBootIdTag
datatype PlacementIdTag = PlacementIdTag
datatype PromotionIdTag = PromotionIdTag
datatype DrainIdTag = DrainIdTag
datatype FailoverIdTag = FailoverIdTag
datatype AttemptIdTag = AttemptIdTag
datatype CoordinatorEpochTag = CoordinatorEpochTag
datatype ReplicaGenerationTag = ReplicaGenerationTag
datatype ReplicaSetGenerationTag = ReplicaSetGenerationTag
datatype ArtifactGenerationTag = ArtifactGenerationTag
datatype HealthGenerationTag = HealthGenerationTag
datatype PolicyGenerationTag = PolicyGenerationTag

type_synonym ReplicaId = "ReplicaIdTag Id"
type_synonym ReplicaSetId = "ReplicaSetIdTag Id"
type_synonym ModelId = "ModelIdTag Id"
type_synonym ArtifactId = "ArtifactIdTag Id"
type_synonym TenantId = "TenantIdTag Id"
type_synonym WorkloadId = "WorkloadIdTag Id"
type_synonym NodeId = "NodeIdTag Id"
type_synonym WorkerId = "WorkerIdTag Id"
type_synonym WorkerBootId = "WorkerBootIdTag Id"
type_synonym PlacementId = "PlacementIdTag Id"
type_synonym PromotionId = "PromotionIdTag Id"
type_synonym DrainId = "DrainIdTag Id"
type_synonym FailoverId = "FailoverIdTag Id"
type_synonym AttemptId = "AttemptIdTag Id"
type_synonym CoordinatorEpoch = "CoordinatorEpochTag Id"
type_synonym ReplicaGeneration = "ReplicaGenerationTag Id"
type_synonym ReplicaSetGeneration = "ReplicaSetGenerationTag Id"
type_synonym ArtifactGeneration = "ArtifactGenerationTag Id"
type_synonym HealthGeneration = "HealthGenerationTag Id"
type_synonym PolicyGeneration = "PolicyGenerationTag Id"

end
