(* ===== verification/Ordered_Map.thy ===== *)
theory Ordered_Map
  imports Identity
begin

text \<open>
  \<open>std::map\<close> as the code uses it: an association list in the order of its keys, which
  is the order a range-for visits. \<open>om_put\<close> is \<open>m[k] = v\<close>, \<open>om_emplace\<close> inserts
  only a new key and reports whether it did, \<open>om_erase\<close> removes a key, \<open>om_map\<close> is
  a loop that updates every element in place. The locale \<open>ordered_map\<close> states the
  container's contract; the list model interprets it, and the components use its facts.
\<close>

type_synonym ('k, 'v) omap = "('k \<times> 'v) list"

fun om_find :: "('k, 'v) omap \<Rightarrow> 'k \<Rightarrow> 'v option" where
  "om_find [] k = None"
| "om_find ((k', v) # m) k = (if k = k' then Some v else om_find m k)"

fun om_put :: "'k::linorder \<Rightarrow> 'v \<Rightarrow> ('k, 'v) omap \<Rightarrow> ('k, 'v) omap" where
  "om_put k v [] = [(k, v)]"
| "om_put k v ((k', v') # m) =
     (if k < k' then (k, v) # (k', v') # m
      else if k = k' then (k, v) # m
      else (k', v') # om_put k v m)"

definition om_emplace :: "'k::linorder \<Rightarrow> 'v \<Rightarrow> ('k, 'v) omap \<Rightarrow> ('k, 'v) omap \<times> bool" where
  "om_emplace k v m = (case om_find m k of None \<Rightarrow> (om_put k v m, True) | Some _ \<Rightarrow> (m, False))"

fun om_erase :: "'k \<Rightarrow> ('k, 'v) omap \<Rightarrow> ('k, 'v) omap" where
  "om_erase k [] = []"
| "om_erase k ((k', v) # m) = (if k = k' then m else (k', v) # om_erase k m)"

definition om_map :: "('k \<Rightarrow> 'v \<Rightarrow> 'w) \<Rightarrow> ('k, 'v) omap \<Rightarrow> ('k, 'w) omap" where
  "om_map f m = map (\<lambda>(k, v). (k, f k v)) m"

definition om_keys :: "('k, 'v) omap \<Rightarrow> 'k list" where
  "om_keys m = map fst m"

definition om_sorted :: "('k::linorder, 'v) omap \<Rightarrow> bool" where
  "om_sorted m \<longleftrightarrow> sorted_wrt (<) (om_keys m)"

definition om_count :: "('k \<Rightarrow> 'v \<Rightarrow> bool) \<Rightarrow> ('k, 'v) omap \<Rightarrow> nat" where
  "om_count P m = length (filter (\<lambda>(k, v). P k v) m)"

section \<open>The contract\<close>

locale ordered_map =
  fixes lookup :: "'m \<Rightarrow> 'k::linorder \<Rightarrow> 'v option"
    and put :: "'k \<Rightarrow> 'v \<Rightarrow> 'm \<Rightarrow> 'm"
    and erase :: "'k \<Rightarrow> 'm \<Rightarrow> 'm"
    and update_all :: "('k \<Rightarrow> 'v \<Rightarrow> 'v) \<Rightarrow> 'm \<Rightarrow> 'm"
    and entries :: "'m \<Rightarrow> ('k \<times> 'v) list"
    and invar :: "'m \<Rightarrow> bool"
  assumes lookup_put: "lookup (put k v m) k' = (if k' = k then Some v else lookup m k')"
    and lookup_erase: "invar m \<Longrightarrow> lookup (erase k m) k' = (if k' = k then None else lookup m k')"
    and lookup_update_all: "lookup (update_all f m) k = map_option (f k) (lookup m k)"
    and invar_put: "invar m \<Longrightarrow> invar (put k v m)"
    and invar_erase: "invar m \<Longrightarrow> invar (erase k m)"
    and invar_update_all: "invar m \<Longrightarrow> invar (update_all f m)"
    and entries_lookup: "invar m \<Longrightarrow> (k, v) \<in> set (entries m) \<longleftrightarrow> lookup m k = Some v"
    and entries_order: "invar m \<Longrightarrow> sorted_wrt (<) (map fst (entries m))"
begin

lemma entries_distinct: "invar m \<Longrightarrow> distinct (map fst (entries m))"
  using entries_order strict_sorted_iff by blast

lemma put_present: "lookup (put k v m) k = Some v"
  by (simp add: lookup_put)

lemma put_other: "k' \<noteq> k \<Longrightarrow> lookup (put k v m) k' = lookup m k'"
  by (simp add: lookup_put)

lemma put_twice: "lookup (put k v (put k w m)) = lookup (put k v m)"
  by (simp add: fun_eq_iff lookup_put)

text \<open>Two maps with the same lookups hold the same entries in the same order.\<close>

lemma entries_determined:
  assumes "invar m" and "invar m'" and "lookup m = lookup m'"
  shows "entries m = entries m'"
proof -
  have same: "set (entries m) = set (entries m')"
    using entries_lookup assms by (auto simp: set_eq_iff)
  have "inj_on fst (set (entries m) \<union> set (entries m'))"
    unfolding same by (rule inj_onI) (auto simp: entries_lookup assms(2))
  then show ?thesis
    using same assms(1,2) entries_order
    by (intro map_sorted_distinct_set_unique [of fst]) (auto simp: strict_sorted_iff)
qed

end

section \<open>The list model meets the contract\<close>

lemma om_keys_simps [simp]: "om_keys [] = []" "om_keys ((k, v) # m) = k # om_keys m"
  by (simp_all add: om_keys_def)

lemma om_find_map_of: "om_find m k = map_of m k"
  by (induction m k rule: om_find.induct) auto

lemma keys_om_put: "set (om_keys (om_put k v m)) = insert k (set (om_keys m))"
  by (induction k v m rule: om_put.induct) auto

lemma keys_om_erase: "set (om_keys (om_erase k m)) \<subseteq> set (om_keys m)"
  by (induction k m rule: om_erase.induct) auto

lemma keys_om_map [simp]: "om_keys (om_map f m) = om_keys m"
  by (induction m) (auto simp: om_keys_def om_map_def)

lemma om_find_put [map_simps, simp]:
  "om_find (om_put k v m) k' = (if k' = k then Some v else om_find m k')"
  by (induction k v m rule: om_put.induct) auto

lemma om_find_None: "om_find m k = None \<longleftrightarrow> k \<notin> set (om_keys m)"
  by (induction m k rule: om_find.induct) auto

lemma om_sorted_Nil [simp]: "om_sorted []"
  by (simp add: om_sorted_def om_keys_def)

lemma om_sorted_Cons: "om_sorted ((k, v) # m) \<longleftrightarrow> (\<forall>k' \<in> set (om_keys m). k < k') \<and> om_sorted m"
  by (simp add: om_sorted_def)

lemma om_sorted_put [simp]: "om_sorted m \<Longrightarrow> om_sorted (om_put k v m)"
proof (induction k v m rule: om_put.induct)
  case (2 k v k' v' m)
  then show ?case
    by (auto simp: om_sorted_Cons keys_om_put)
qed (simp add: om_sorted_Cons)

lemma om_find_erase [map_simps]:
  "om_sorted m \<Longrightarrow> om_find (om_erase k m) k' = (if k' = k then None else om_find m k')"
  by (induction k m rule: om_erase.induct) (auto simp: om_sorted_Cons om_find_None)

lemma om_sorted_erase [simp]: "om_sorted m \<Longrightarrow> om_sorted (om_erase k m)"
proof (induction k m rule: om_erase.induct)
  case (2 k k' v m)
  then show ?case using keys_om_erase [of k m] by (auto simp: om_sorted_Cons)
qed simp

lemma om_find_map [map_simps, simp]: "om_find (om_map f m) k = map_option (f k) (om_find m k)"
  by (induction m k rule: om_find.induct) (auto simp: om_map_def)

lemma om_sorted_map [simp]: "om_sorted (om_map f m) = om_sorted m"
  by (simp add: om_sorted_def)

lemma om_find_in: "om_sorted m \<Longrightarrow> (k, v) \<in> set m \<longleftrightarrow> om_find m k = Some v"
  by (simp add: om_find_map_of om_sorted_def om_keys_def strict_sorted_iff)

interpretation om: ordered_map om_find om_put om_erase om_map id om_sorted
  by unfold_locales (auto simp: om_find_erase om_find_in, simp add: om_sorted_def om_keys_def)

lemma om_eqI: "om_sorted m \<Longrightarrow> om_sorted m' \<Longrightarrow> om_find m = om_find m' \<Longrightarrow> m = m'"
  using om.entries_determined [of m m'] by simp

lemma om_sorted_distinct: "om_sorted m \<Longrightarrow> distinct (om_keys m)"
  using om.entries_distinct [of m] by (simp add: om_keys_def)

text \<open>
  \<open>om_emplace\<close> refuses a key that is present, which is how the snapshot decoder sees a
  duplicate.
\<close>

lemma om_emplace_new: "k \<notin> set (om_keys m) \<Longrightarrow> om_emplace k v m = (om_put k v m, True)"
  by (simp add: om_emplace_def flip: om_find_None)

lemma om_emplace_dup: "k \<in> set (om_keys m) \<Longrightarrow> om_emplace k v m = (m, False)"
  using om_find_None [of m k] by (auto simp: om_emplace_def split: option.splits)

text \<open>Putting a key past the last one appends it.\<close>

lemma om_put_append: "\<forall>k' \<in> set (om_keys m). k' < k \<Longrightarrow> om_put k v m = m @ [(k, v)]"
  by (induction k v m rule: om_put.induct) auto

lemma om_count_Nil [simp]: "om_count P [] = 0"
  by (simp add: om_count_def)

lemma om_count_Cons [simp]:
  "om_count P ((k, v) # m) = (if P k v then Suc (om_count P m) else om_count P m)"
  by (simp add: om_count_def)

lemma om_count_mono: "(\<And>k v. P k v \<Longrightarrow> Q k v) \<Longrightarrow> om_count P m \<le> om_count Q m"
  by (induction m) auto

lemma om_count_put_le: "om_count P (om_put k v m) \<le> Suc (om_count P m)"
  by (induction k v m rule: om_put.induct) auto

lemma om_count_put_same:
  assumes "om_find m k = Some w" and "P k v = P k w" and "om_sorted m"
  shows "om_count P (om_put k v m) = om_count P m"
  using assms
proof (induction k v m rule: om_put.induct)
  case (2 k v k' v' m)
  then show ?case
    by (auto simp: om_sorted_Cons split: if_splits)
       (metis om_find_None option.distinct(1) order_less_asym)+
qed simp

lemma om_count_erase_le: "om_count P (om_erase k m) \<le> om_count P m"
  by (induction k m rule: om_erase.induct) auto

lemma om_count_card:
  "om_sorted m \<Longrightarrow> om_count P m = card {k. \<exists>v. om_find m k = Some v \<and> P k v}"
proof -
  assume m: "om_sorted m"
  let ?xs = "filter (\<lambda>(k, v). P k v) m"
  have "distinct (map fst m)"
    using om_sorted_distinct [OF m] by (simp add: om_keys_def)
  then have "distinct (map fst ?xs)" by (rule distinct_map_filter)
  then have "om_count P m = card (set (map fst ?xs))"
    using distinct_card [of "map fst ?xs"] by (simp add: om_count_def)
  also have "set (map fst ?xs) = {k. \<exists>v. om_find m k = Some v \<and> P k v}"
    using om_find_in [OF m] by force
  finally show ?thesis .
qed

lemma om_count_put_unless: "\<not> P k v \<Longrightarrow> om_count P (om_put k v m) \<le> om_count P m"
  by (induction k v m rule: om_put.induct) auto

lemma om_put_twice [simp]: "om_put k v (om_put k w m) = om_put k v m"
  by (induction k w m rule: om_put.induct) auto

end
