(* ===== verification/Enums.thy ===== *)
theory Enums
  imports RF_Prelude
begin

text \<open>
  The enumerations of \<open>core/enums.hpp\<close>: each \<open>enum class\<close> is a datatype with
  the source's enumerators (written with the type's name, as in C++), its underlying value
  is a \<open>uint8_t\<close>, and its table of canonical names drives \<open>to_string\<close>,
  \<open>from_string\<close> and \<open>from_int\<close>. The locale \<open>enum_table\<close> states what a
  table owes its enumeration and proves the conversions inverse to each other once; every
  enumeration interprets it.
\<close>

named_theorems enum_simps "the conversions of an enumeration are inverse to each other"

section \<open>Table lookups\<close>

fun enum_to_string_lookup :: "'e \<Rightarrow> ('e \<times> string) list \<Rightarrow> string" where
  "enum_to_string_lookup v [] = ''?''"
| "enum_to_string_lookup v (p # t) =
     (if fst p = v then snd p else enum_to_string_lookup v t)"

fun enum_from_string_lookup :: "string \<Rightarrow> ('e \<times> string) list \<Rightarrow> 'e option" where
  "enum_from_string_lookup s [] = None"
| "enum_from_string_lookup s (p # t) =
     (if snd p = s then Some (fst p) else enum_from_string_lookup s t)"

definition enum_from_int_lookup :: "int \<Rightarrow> ('e \<times> string) list \<Rightarrow> 'e option" where
  "enum_from_int_lookup v t =
     (if v < 0 \<or> int (length t) \<le> v then None else Some (fst (t ! nat v)))"

lemma to_string_lookup_map_of:
  "enum_to_string_lookup v t = (case map_of t v of None \<Rightarrow> ''?'' | Some s \<Rightarrow> s)"
  by (induction t) auto

lemma from_string_lookup_map_of:
  "enum_from_string_lookup s t = map_of (map (\<lambda>p. (snd p, fst p)) t) s"
  by (induction t) auto

text \<open>
  The contract of a table: entry number \<open>k\<close> is the enumerator of underlying value
  \<open>k\<close>, every enumerator has an entry, and no two share a name.
\<close>

locale enum_table =
  fixes table :: "('e \<times> string) list" and cast :: "'e \<Rightarrow> u8"
  assumes complete: "v \<in> fst ` set table"
    and index: "map (\<lambda>p. unat (cast (fst p))) table = [0..<length table]"
    and names: "distinct (map snd table)"
begin

lemma nth_cast: "k < length table \<Longrightarrow> unat (cast (fst (table ! k))) = k"
  using index nth_map [of k table "\<lambda>p. unat (cast (fst p))"] by simp

lemma entry: "unat (cast v) < length table \<and> fst (table ! unat (cast v)) = v"
proof -
  obtain k where "k < length table" "fst (table ! k) = v"
    using complete [of v] by (auto simp: in_set_conv_nth)
  with nth_cast [of k] show ?thesis by simp
qed

lemma cast_inject: "cast v = cast w \<longleftrightarrow> v = w"
  using entry by metis

lemma in_table: "(v, enum_to_string_lookup v table) \<in> set table"
proof -
  have "distinct (map fst table)"
    unfolding distinct_conv_nth using nth_cast by (metis length_map nth_map)
  moreover have "(v, snd (table ! unat (cast v))) \<in> set table"
    using entry [of v] by (metis nth_mem prod.collapse)
  ultimately show ?thesis
    by (simp add: to_string_lookup_map_of)
qed

lemma from_to_string: "enum_from_string_lookup (enum_to_string_lookup v table) table = Some v"
proof -
  let ?rev = "map (\<lambda>p. (snd p, fst p)) table"
  have "distinct (map fst ?rev)" using names by (simp add: o_def)
  moreover have "(enum_to_string_lookup v table, v) \<in> set ?rev" using in_table [of v] by force
  ultimately show ?thesis
    unfolding from_string_lookup_map_of by simp
qed

lemma from_string_Some:
  "enum_from_string_lookup s table = Some v \<longleftrightarrow> s = enum_to_string_lookup v table"
proof
  assume L: "enum_from_string_lookup s table = Some v"
  then have "(v, s) \<in> set table"
    by (force simp: from_string_lookup_map_of dest: map_of_SomeD)
  with in_table [of v] show "s = enum_to_string_lookup v table"
    unfolding in_set_conv_nth using nth_cast by (metis fst_conv snd_conv)
qed (simp add: from_to_string)

lemma from_int_cast: "enum_from_int_lookup (uint (cast v)) table = Some v"
proof -
  have "uint (cast v) < int (length table)"
    using entry [of v] by (simp only: uint_nat of_nat_less_iff)
  then show ?thesis
    using entry [of v] unfolding enum_from_int_lookup_def unat_eq_nat_uint by simp
qed

lemma from_int_Some: "enum_from_int_lookup i table = Some v \<longleftrightarrow> i = uint (cast v)"
proof
  assume L: "enum_from_int_lookup i table = Some v"
  then have "0 \<le> i" "nat i < length table" "v = fst (table ! nat i)"
    by (auto simp: enum_from_int_lookup_def split: if_splits)
  moreover from this nth_cast have "unat (cast v) = nat i" by simp
  ultimately show "i = uint (cast v)" by (simp only: uint_nat)
qed (simp add: from_int_cast)

lemma from_u8_Some: "enum_from_int_lookup (uint b) table = Some v \<longleftrightarrow> b = cast v"
  by (simp only: from_int_Some word_uint_eq_iff)

lemma from_int_None: "enum_from_int_lookup i table = None \<longleftrightarrow> i < 0 \<or> int (length table) \<le> i"
  by (simp add: enum_from_int_lookup_def)

end

section \<open>ReplicaSetLifecycle\<close>

datatype ReplicaSetLifecycle =
    CREATED
  | PROVISIONING
  | AVAILABLE
  | DEGRADED
  | DRAINING
  | RETIRED
  | FAILED

fun ReplicaSetLifecycle_u8 :: "ReplicaSetLifecycle \<Rightarrow> u8" where
  "ReplicaSetLifecycle_u8 ReplicaSetLifecycle.CREATED = 0"
| "ReplicaSetLifecycle_u8 ReplicaSetLifecycle.PROVISIONING = 1"
| "ReplicaSetLifecycle_u8 ReplicaSetLifecycle.AVAILABLE = 2"
| "ReplicaSetLifecycle_u8 ReplicaSetLifecycle.DEGRADED = 3"
| "ReplicaSetLifecycle_u8 ReplicaSetLifecycle.DRAINING = 4"
| "ReplicaSetLifecycle_u8 ReplicaSetLifecycle.RETIRED = 5"
| "ReplicaSetLifecycle_u8 ReplicaSetLifecycle.FAILED = 6"

definition kReplicaSetLifecycleTable :: "(ReplicaSetLifecycle \<times> string) list" where
  "kReplicaSetLifecycleTable =
    [(ReplicaSetLifecycle.CREATED, ''CREATED''),
     (ReplicaSetLifecycle.PROVISIONING, ''PROVISIONING''),
     (ReplicaSetLifecycle.AVAILABLE, ''AVAILABLE''),
     (ReplicaSetLifecycle.DEGRADED, ''DEGRADED''),
     (ReplicaSetLifecycle.DRAINING, ''DRAINING''),
     (ReplicaSetLifecycle.RETIRED, ''RETIRED''),
     (ReplicaSetLifecycle.FAILED, ''FAILED'')]"

definition ReplicaSetLifecycle_to_string :: "ReplicaSetLifecycle \<Rightarrow> string" where
  "ReplicaSetLifecycle_to_string v = enum_to_string_lookup v kReplicaSetLifecycleTable"

definition ReplicaSetLifecycle_from_string :: "string \<Rightarrow> ReplicaSetLifecycle option" where
  "ReplicaSetLifecycle_from_string s = enum_from_string_lookup s kReplicaSetLifecycleTable"

definition ReplicaSetLifecycle_from_int :: "int \<Rightarrow> ReplicaSetLifecycle option" where
  "ReplicaSetLifecycle_from_int v = enum_from_int_lookup v kReplicaSetLifecycleTable"

interpretation replicaSetLifecycle: enum_table kReplicaSetLifecycleTable ReplicaSetLifecycle_u8
proof unfold_locales
  show "v \<in> fst ` set kReplicaSetLifecycleTable" for v
    by (cases v) (simp_all add: kReplicaSetLifecycleTable_def)
  show "map (\<lambda>p. unat (ReplicaSetLifecycle_u8 (fst p))) kReplicaSetLifecycleTable = [0..<length kReplicaSetLifecycleTable]"
    by code_simp
  show "distinct (map snd kReplicaSetLifecycleTable)"
    by (simp add: kReplicaSetLifecycleTable_def)
qed

lemma ReplicaSetLifecycle_from_string_iff [enum_simps]:
  "ReplicaSetLifecycle_from_string s = Some v \<longleftrightarrow> s = ReplicaSetLifecycle_to_string v"
  by (simp add: ReplicaSetLifecycle_from_string_def ReplicaSetLifecycle_to_string_def replicaSetLifecycle.from_string_Some)

lemma ReplicaSetLifecycle_from_int_iff [enum_simps]:
  "ReplicaSetLifecycle_from_int i = Some v \<longleftrightarrow> i = uint (ReplicaSetLifecycle_u8 v)"
  by (simp add: ReplicaSetLifecycle_from_int_def replicaSetLifecycle.from_int_Some)

section \<open>ReplicaLifecycle\<close>

datatype ReplicaLifecycle =
    DECLARED
  | ALLOCATING
  | STARTING
  | WARMING
  | READY
  | SERVING
  | DRAINING
  | QUIESCED
  | FAILED
  | RETIRED

fun ReplicaLifecycle_u8 :: "ReplicaLifecycle \<Rightarrow> u8" where
  "ReplicaLifecycle_u8 ReplicaLifecycle.DECLARED = 0"
| "ReplicaLifecycle_u8 ReplicaLifecycle.ALLOCATING = 1"
| "ReplicaLifecycle_u8 ReplicaLifecycle.STARTING = 2"
| "ReplicaLifecycle_u8 ReplicaLifecycle.WARMING = 3"
| "ReplicaLifecycle_u8 ReplicaLifecycle.READY = 4"
| "ReplicaLifecycle_u8 ReplicaLifecycle.SERVING = 5"
| "ReplicaLifecycle_u8 ReplicaLifecycle.DRAINING = 6"
| "ReplicaLifecycle_u8 ReplicaLifecycle.QUIESCED = 7"
| "ReplicaLifecycle_u8 ReplicaLifecycle.FAILED = 8"
| "ReplicaLifecycle_u8 ReplicaLifecycle.RETIRED = 9"

definition kReplicaLifecycleTable :: "(ReplicaLifecycle \<times> string) list" where
  "kReplicaLifecycleTable =
    [(ReplicaLifecycle.DECLARED, ''DECLARED''),
     (ReplicaLifecycle.ALLOCATING, ''ALLOCATING''),
     (ReplicaLifecycle.STARTING, ''STARTING''),
     (ReplicaLifecycle.WARMING, ''WARMING''),
     (ReplicaLifecycle.READY, ''READY''),
     (ReplicaLifecycle.SERVING, ''SERVING''),
     (ReplicaLifecycle.DRAINING, ''DRAINING''),
     (ReplicaLifecycle.QUIESCED, ''QUIESCED''),
     (ReplicaLifecycle.FAILED, ''FAILED''),
     (ReplicaLifecycle.RETIRED, ''RETIRED'')]"

definition ReplicaLifecycle_to_string :: "ReplicaLifecycle \<Rightarrow> string" where
  "ReplicaLifecycle_to_string v = enum_to_string_lookup v kReplicaLifecycleTable"

definition ReplicaLifecycle_from_string :: "string \<Rightarrow> ReplicaLifecycle option" where
  "ReplicaLifecycle_from_string s = enum_from_string_lookup s kReplicaLifecycleTable"

definition ReplicaLifecycle_from_int :: "int \<Rightarrow> ReplicaLifecycle option" where
  "ReplicaLifecycle_from_int v = enum_from_int_lookup v kReplicaLifecycleTable"

interpretation replicaLifecycle: enum_table kReplicaLifecycleTable ReplicaLifecycle_u8
proof unfold_locales
  show "v \<in> fst ` set kReplicaLifecycleTable" for v
    by (cases v) (simp_all add: kReplicaLifecycleTable_def)
  show "map (\<lambda>p. unat (ReplicaLifecycle_u8 (fst p))) kReplicaLifecycleTable = [0..<length kReplicaLifecycleTable]"
    by code_simp
  show "distinct (map snd kReplicaLifecycleTable)"
    by (simp add: kReplicaLifecycleTable_def)
qed

lemma ReplicaLifecycle_from_string_iff [enum_simps]:
  "ReplicaLifecycle_from_string s = Some v \<longleftrightarrow> s = ReplicaLifecycle_to_string v"
  by (simp add: ReplicaLifecycle_from_string_def ReplicaLifecycle_to_string_def replicaLifecycle.from_string_Some)

lemma ReplicaLifecycle_from_int_iff [enum_simps]:
  "ReplicaLifecycle_from_int i = Some v \<longleftrightarrow> i = uint (ReplicaLifecycle_u8 v)"
  by (simp add: ReplicaLifecycle_from_int_def replicaLifecycle.from_int_Some)

section \<open>HealthState\<close>

datatype HealthState =
    UNKNOWN
  | STARTING
  | HEALTHY
  | DEGRADED
  | UNHEALTHY
  | FAILED
  | QUARANTINED

fun HealthState_u8 :: "HealthState \<Rightarrow> u8" where
  "HealthState_u8 HealthState.UNKNOWN = 0"
| "HealthState_u8 HealthState.STARTING = 1"
| "HealthState_u8 HealthState.HEALTHY = 2"
| "HealthState_u8 HealthState.DEGRADED = 3"
| "HealthState_u8 HealthState.UNHEALTHY = 4"
| "HealthState_u8 HealthState.FAILED = 5"
| "HealthState_u8 HealthState.QUARANTINED = 6"

definition kHealthStateTable :: "(HealthState \<times> string) list" where
  "kHealthStateTable =
    [(HealthState.UNKNOWN, ''UNKNOWN''),
     (HealthState.STARTING, ''STARTING''),
     (HealthState.HEALTHY, ''HEALTHY''),
     (HealthState.DEGRADED, ''DEGRADED''),
     (HealthState.UNHEALTHY, ''UNHEALTHY''),
     (HealthState.FAILED, ''FAILED''),
     (HealthState.QUARANTINED, ''QUARANTINED'')]"

definition HealthState_to_string :: "HealthState \<Rightarrow> string" where
  "HealthState_to_string v = enum_to_string_lookup v kHealthStateTable"

definition HealthState_from_string :: "string \<Rightarrow> HealthState option" where
  "HealthState_from_string s = enum_from_string_lookup s kHealthStateTable"

definition HealthState_from_int :: "int \<Rightarrow> HealthState option" where
  "HealthState_from_int v = enum_from_int_lookup v kHealthStateTable"

interpretation healthState: enum_table kHealthStateTable HealthState_u8
proof unfold_locales
  show "v \<in> fst ` set kHealthStateTable" for v
    by (cases v) (simp_all add: kHealthStateTable_def)
  show "map (\<lambda>p. unat (HealthState_u8 (fst p))) kHealthStateTable = [0..<length kHealthStateTable]"
    by code_simp
  show "distinct (map snd kHealthStateTable)"
    by (simp add: kHealthStateTable_def)
qed

lemma HealthState_from_string_iff [enum_simps]:
  "HealthState_from_string s = Some v \<longleftrightarrow> s = HealthState_to_string v"
  by (simp add: HealthState_from_string_def HealthState_to_string_def healthState.from_string_Some)

lemma HealthState_from_int_iff [enum_simps]:
  "HealthState_from_int i = Some v \<longleftrightarrow> i = uint (HealthState_u8 v)"
  by (simp add: HealthState_from_int_def healthState.from_int_Some)

section \<open>HealthEvidenceKind\<close>

datatype HealthEvidenceKind =
    UNKNOWN
  | MEASURED
  | REPORTED
  | DERIVED
  | HEURISTIC

fun HealthEvidenceKind_u8 :: "HealthEvidenceKind \<Rightarrow> u8" where
  "HealthEvidenceKind_u8 HealthEvidenceKind.UNKNOWN = 0"
| "HealthEvidenceKind_u8 HealthEvidenceKind.MEASURED = 1"
| "HealthEvidenceKind_u8 HealthEvidenceKind.REPORTED = 2"
| "HealthEvidenceKind_u8 HealthEvidenceKind.DERIVED = 3"
| "HealthEvidenceKind_u8 HealthEvidenceKind.HEURISTIC = 4"

definition kHealthEvidenceKindTable :: "(HealthEvidenceKind \<times> string) list" where
  "kHealthEvidenceKindTable =
    [(HealthEvidenceKind.UNKNOWN, ''UNKNOWN''),
     (HealthEvidenceKind.MEASURED, ''MEASURED''),
     (HealthEvidenceKind.REPORTED, ''REPORTED''),
     (HealthEvidenceKind.DERIVED, ''DERIVED''),
     (HealthEvidenceKind.HEURISTIC, ''HEURISTIC'')]"

definition HealthEvidenceKind_to_string :: "HealthEvidenceKind \<Rightarrow> string" where
  "HealthEvidenceKind_to_string v = enum_to_string_lookup v kHealthEvidenceKindTable"

definition HealthEvidenceKind_from_string :: "string \<Rightarrow> HealthEvidenceKind option" where
  "HealthEvidenceKind_from_string s = enum_from_string_lookup s kHealthEvidenceKindTable"

definition HealthEvidenceKind_from_int :: "int \<Rightarrow> HealthEvidenceKind option" where
  "HealthEvidenceKind_from_int v = enum_from_int_lookup v kHealthEvidenceKindTable"

interpretation healthEvidenceKind: enum_table kHealthEvidenceKindTable HealthEvidenceKind_u8
proof unfold_locales
  show "v \<in> fst ` set kHealthEvidenceKindTable" for v
    by (cases v) (simp_all add: kHealthEvidenceKindTable_def)
  show "map (\<lambda>p. unat (HealthEvidenceKind_u8 (fst p))) kHealthEvidenceKindTable = [0..<length kHealthEvidenceKindTable]"
    by code_simp
  show "distinct (map snd kHealthEvidenceKindTable)"
    by (simp add: kHealthEvidenceKindTable_def)
qed

lemma HealthEvidenceKind_from_string_iff [enum_simps]:
  "HealthEvidenceKind_from_string s = Some v \<longleftrightarrow> s = HealthEvidenceKind_to_string v"
  by (simp add: HealthEvidenceKind_from_string_def HealthEvidenceKind_to_string_def healthEvidenceKind.from_string_Some)

lemma HealthEvidenceKind_from_int_iff [enum_simps]:
  "HealthEvidenceKind_from_int i = Some v \<longleftrightarrow> i = uint (HealthEvidenceKind_u8 v)"
  by (simp add: HealthEvidenceKind_from_int_def healthEvidenceKind.from_int_Some)

section \<open>WarmthState\<close>

datatype WarmthState =
    COLD
  | WARMING
  | WARM
  | STALE_WARMTH
  | INVALIDATED

fun WarmthState_u8 :: "WarmthState \<Rightarrow> u8" where
  "WarmthState_u8 WarmthState.COLD = 0"
| "WarmthState_u8 WarmthState.WARMING = 1"
| "WarmthState_u8 WarmthState.WARM = 2"
| "WarmthState_u8 WarmthState.STALE_WARMTH = 3"
| "WarmthState_u8 WarmthState.INVALIDATED = 4"

definition kWarmthStateTable :: "(WarmthState \<times> string) list" where
  "kWarmthStateTable =
    [(WarmthState.COLD, ''COLD''),
     (WarmthState.WARMING, ''WARMING''),
     (WarmthState.WARM, ''WARM''),
     (WarmthState.STALE_WARMTH, ''STALE_WARMTH''),
     (WarmthState.INVALIDATED, ''INVALIDATED'')]"

definition WarmthState_to_string :: "WarmthState \<Rightarrow> string" where
  "WarmthState_to_string v = enum_to_string_lookup v kWarmthStateTable"

definition WarmthState_from_string :: "string \<Rightarrow> WarmthState option" where
  "WarmthState_from_string s = enum_from_string_lookup s kWarmthStateTable"

definition WarmthState_from_int :: "int \<Rightarrow> WarmthState option" where
  "WarmthState_from_int v = enum_from_int_lookup v kWarmthStateTable"

interpretation warmthState: enum_table kWarmthStateTable WarmthState_u8
proof unfold_locales
  show "v \<in> fst ` set kWarmthStateTable" for v
    by (cases v) (simp_all add: kWarmthStateTable_def)
  show "map (\<lambda>p. unat (WarmthState_u8 (fst p))) kWarmthStateTable = [0..<length kWarmthStateTable]"
    by code_simp
  show "distinct (map snd kWarmthStateTable)"
    by (simp add: kWarmthStateTable_def)
qed

lemma WarmthState_from_string_iff [enum_simps]:
  "WarmthState_from_string s = Some v \<longleftrightarrow> s = WarmthState_to_string v"
  by (simp add: WarmthState_from_string_def WarmthState_to_string_def warmthState.from_string_Some)

lemma WarmthState_from_int_iff [enum_simps]:
  "WarmthState_from_int i = Some v \<longleftrightarrow> i = uint (WarmthState_u8 v)"
  by (simp add: WarmthState_from_int_def warmthState.from_int_Some)

section \<open>ReadinessState\<close>

datatype ReadinessState =
    UNKNOWN
  | NOT_READY
  | READY

fun ReadinessState_u8 :: "ReadinessState \<Rightarrow> u8" where
  "ReadinessState_u8 ReadinessState.UNKNOWN = 0"
| "ReadinessState_u8 ReadinessState.NOT_READY = 1"
| "ReadinessState_u8 ReadinessState.READY = 2"

definition kReadinessStateTable :: "(ReadinessState \<times> string) list" where
  "kReadinessStateTable =
    [(ReadinessState.UNKNOWN, ''UNKNOWN''),
     (ReadinessState.NOT_READY, ''NOT_READY''),
     (ReadinessState.READY, ''READY'')]"

definition ReadinessState_to_string :: "ReadinessState \<Rightarrow> string" where
  "ReadinessState_to_string v = enum_to_string_lookup v kReadinessStateTable"

definition ReadinessState_from_string :: "string \<Rightarrow> ReadinessState option" where
  "ReadinessState_from_string s = enum_from_string_lookup s kReadinessStateTable"

definition ReadinessState_from_int :: "int \<Rightarrow> ReadinessState option" where
  "ReadinessState_from_int v = enum_from_int_lookup v kReadinessStateTable"

interpretation readinessState: enum_table kReadinessStateTable ReadinessState_u8
proof unfold_locales
  show "v \<in> fst ` set kReadinessStateTable" for v
    by (cases v) (simp_all add: kReadinessStateTable_def)
  show "map (\<lambda>p. unat (ReadinessState_u8 (fst p))) kReadinessStateTable = [0..<length kReadinessStateTable]"
    by code_simp
  show "distinct (map snd kReadinessStateTable)"
    by (simp add: kReadinessStateTable_def)
qed

lemma ReadinessState_from_string_iff [enum_simps]:
  "ReadinessState_from_string s = Some v \<longleftrightarrow> s = ReadinessState_to_string v"
  by (simp add: ReadinessState_from_string_def ReadinessState_to_string_def readinessState.from_string_Some)

lemma ReadinessState_from_int_iff [enum_simps]:
  "ReadinessState_from_int i = Some v \<longleftrightarrow> i = uint (ReadinessState_u8 v)"
  by (simp add: ReadinessState_from_int_def readinessState.from_int_Some)

section \<open>PromotionState\<close>

datatype PromotionState =
    NOT_PROMOTED
  | STANDBY
  | CANARY
  | REPLACEMENT
  | RECOVERED
  | PRIMARY

fun PromotionState_u8 :: "PromotionState \<Rightarrow> u8" where
  "PromotionState_u8 PromotionState.NOT_PROMOTED = 0"
| "PromotionState_u8 PromotionState.STANDBY = 1"
| "PromotionState_u8 PromotionState.CANARY = 2"
| "PromotionState_u8 PromotionState.REPLACEMENT = 3"
| "PromotionState_u8 PromotionState.RECOVERED = 4"
| "PromotionState_u8 PromotionState.PRIMARY = 5"

definition kPromotionStateTable :: "(PromotionState \<times> string) list" where
  "kPromotionStateTable =
    [(PromotionState.NOT_PROMOTED, ''NOT_PROMOTED''),
     (PromotionState.STANDBY, ''STANDBY''),
     (PromotionState.CANARY, ''CANARY''),
     (PromotionState.REPLACEMENT, ''REPLACEMENT''),
     (PromotionState.RECOVERED, ''RECOVERED''),
     (PromotionState.PRIMARY, ''PRIMARY'')]"

definition PromotionState_to_string :: "PromotionState \<Rightarrow> string" where
  "PromotionState_to_string v = enum_to_string_lookup v kPromotionStateTable"

definition PromotionState_from_string :: "string \<Rightarrow> PromotionState option" where
  "PromotionState_from_string s = enum_from_string_lookup s kPromotionStateTable"

definition PromotionState_from_int :: "int \<Rightarrow> PromotionState option" where
  "PromotionState_from_int v = enum_from_int_lookup v kPromotionStateTable"

interpretation promotionState: enum_table kPromotionStateTable PromotionState_u8
proof unfold_locales
  show "v \<in> fst ` set kPromotionStateTable" for v
    by (cases v) (simp_all add: kPromotionStateTable_def)
  show "map (\<lambda>p. unat (PromotionState_u8 (fst p))) kPromotionStateTable = [0..<length kPromotionStateTable]"
    by code_simp
  show "distinct (map snd kPromotionStateTable)"
    by (simp add: kPromotionStateTable_def)
qed

lemma PromotionState_from_string_iff [enum_simps]:
  "PromotionState_from_string s = Some v \<longleftrightarrow> s = PromotionState_to_string v"
  by (simp add: PromotionState_from_string_def PromotionState_to_string_def promotionState.from_string_Some)

lemma PromotionState_from_int_iff [enum_simps]:
  "PromotionState_from_int i = Some v \<longleftrightarrow> i = uint (PromotionState_u8 v)"
  by (simp add: PromotionState_from_int_def promotionState.from_int_Some)

section \<open>ReplicaRole\<close>

datatype ReplicaRole =
    NONE
  | PRIMARY
  | SECONDARY
  | STANDBY
  | CANARY

fun ReplicaRole_u8 :: "ReplicaRole \<Rightarrow> u8" where
  "ReplicaRole_u8 ReplicaRole.NONE = 0"
| "ReplicaRole_u8 ReplicaRole.PRIMARY = 1"
| "ReplicaRole_u8 ReplicaRole.SECONDARY = 2"
| "ReplicaRole_u8 ReplicaRole.STANDBY = 3"
| "ReplicaRole_u8 ReplicaRole.CANARY = 4"

definition kReplicaRoleTable :: "(ReplicaRole \<times> string) list" where
  "kReplicaRoleTable =
    [(ReplicaRole.NONE, ''NONE''),
     (ReplicaRole.PRIMARY, ''PRIMARY''),
     (ReplicaRole.SECONDARY, ''SECONDARY''),
     (ReplicaRole.STANDBY, ''STANDBY''),
     (ReplicaRole.CANARY, ''CANARY'')]"

definition ReplicaRole_to_string :: "ReplicaRole \<Rightarrow> string" where
  "ReplicaRole_to_string v = enum_to_string_lookup v kReplicaRoleTable"

definition ReplicaRole_from_string :: "string \<Rightarrow> ReplicaRole option" where
  "ReplicaRole_from_string s = enum_from_string_lookup s kReplicaRoleTable"

definition ReplicaRole_from_int :: "int \<Rightarrow> ReplicaRole option" where
  "ReplicaRole_from_int v = enum_from_int_lookup v kReplicaRoleTable"

interpretation replicaRole: enum_table kReplicaRoleTable ReplicaRole_u8
proof unfold_locales
  show "v \<in> fst ` set kReplicaRoleTable" for v
    by (cases v) (simp_all add: kReplicaRoleTable_def)
  show "map (\<lambda>p. unat (ReplicaRole_u8 (fst p))) kReplicaRoleTable = [0..<length kReplicaRoleTable]"
    by code_simp
  show "distinct (map snd kReplicaRoleTable)"
    by (simp add: kReplicaRoleTable_def)
qed

lemma ReplicaRole_from_string_iff [enum_simps]:
  "ReplicaRole_from_string s = Some v \<longleftrightarrow> s = ReplicaRole_to_string v"
  by (simp add: ReplicaRole_from_string_def ReplicaRole_to_string_def replicaRole.from_string_Some)

lemma ReplicaRole_from_int_iff [enum_simps]:
  "ReplicaRole_from_int i = Some v \<longleftrightarrow> i = uint (ReplicaRole_u8 v)"
  by (simp add: ReplicaRole_from_int_def replicaRole.from_int_Some)

section \<open>DrainState\<close>

datatype DrainState =
    NOT_DRAINING
  | DRAINING
  | QUIESCING
  | QUIESCED
  | COMPLETE
  | CANCELLED

fun DrainState_u8 :: "DrainState \<Rightarrow> u8" where
  "DrainState_u8 DrainState.NOT_DRAINING = 0"
| "DrainState_u8 DrainState.DRAINING = 1"
| "DrainState_u8 DrainState.QUIESCING = 2"
| "DrainState_u8 DrainState.QUIESCED = 3"
| "DrainState_u8 DrainState.COMPLETE = 4"
| "DrainState_u8 DrainState.CANCELLED = 5"

definition kDrainStateTable :: "(DrainState \<times> string) list" where
  "kDrainStateTable =
    [(DrainState.NOT_DRAINING, ''NOT_DRAINING''),
     (DrainState.DRAINING, ''DRAINING''),
     (DrainState.QUIESCING, ''QUIESCING''),
     (DrainState.QUIESCED, ''QUIESCED''),
     (DrainState.COMPLETE, ''COMPLETE''),
     (DrainState.CANCELLED, ''CANCELLED'')]"

definition DrainState_to_string :: "DrainState \<Rightarrow> string" where
  "DrainState_to_string v = enum_to_string_lookup v kDrainStateTable"

definition DrainState_from_string :: "string \<Rightarrow> DrainState option" where
  "DrainState_from_string s = enum_from_string_lookup s kDrainStateTable"

definition DrainState_from_int :: "int \<Rightarrow> DrainState option" where
  "DrainState_from_int v = enum_from_int_lookup v kDrainStateTable"

interpretation drainState: enum_table kDrainStateTable DrainState_u8
proof unfold_locales
  show "v \<in> fst ` set kDrainStateTable" for v
    by (cases v) (simp_all add: kDrainStateTable_def)
  show "map (\<lambda>p. unat (DrainState_u8 (fst p))) kDrainStateTable = [0..<length kDrainStateTable]"
    by code_simp
  show "distinct (map snd kDrainStateTable)"
    by (simp add: kDrainStateTable_def)
qed

lemma DrainState_from_string_iff [enum_simps]:
  "DrainState_from_string s = Some v \<longleftrightarrow> s = DrainState_to_string v"
  by (simp add: DrainState_from_string_def DrainState_to_string_def drainState.from_string_Some)

lemma DrainState_from_int_iff [enum_simps]:
  "DrainState_from_int i = Some v \<longleftrightarrow> i = uint (DrainState_u8 v)"
  by (simp add: DrainState_from_int_def drainState.from_int_Some)

section \<open>FailoverState\<close>

datatype FailoverState =
    NONE
  | TRIGGERED
  | SELECTING
  | PROMOTING
  | COMPLETE
  | FAILED

fun FailoverState_u8 :: "FailoverState \<Rightarrow> u8" where
  "FailoverState_u8 FailoverState.NONE = 0"
| "FailoverState_u8 FailoverState.TRIGGERED = 1"
| "FailoverState_u8 FailoverState.SELECTING = 2"
| "FailoverState_u8 FailoverState.PROMOTING = 3"
| "FailoverState_u8 FailoverState.COMPLETE = 4"
| "FailoverState_u8 FailoverState.FAILED = 5"

definition kFailoverStateTable :: "(FailoverState \<times> string) list" where
  "kFailoverStateTable =
    [(FailoverState.NONE, ''NONE''),
     (FailoverState.TRIGGERED, ''TRIGGERED''),
     (FailoverState.SELECTING, ''SELECTING''),
     (FailoverState.PROMOTING, ''PROMOTING''),
     (FailoverState.COMPLETE, ''COMPLETE''),
     (FailoverState.FAILED, ''FAILED'')]"

definition FailoverState_to_string :: "FailoverState \<Rightarrow> string" where
  "FailoverState_to_string v = enum_to_string_lookup v kFailoverStateTable"

definition FailoverState_from_string :: "string \<Rightarrow> FailoverState option" where
  "FailoverState_from_string s = enum_from_string_lookup s kFailoverStateTable"

definition FailoverState_from_int :: "int \<Rightarrow> FailoverState option" where
  "FailoverState_from_int v = enum_from_int_lookup v kFailoverStateTable"

interpretation failoverState: enum_table kFailoverStateTable FailoverState_u8
proof unfold_locales
  show "v \<in> fst ` set kFailoverStateTable" for v
    by (cases v) (simp_all add: kFailoverStateTable_def)
  show "map (\<lambda>p. unat (FailoverState_u8 (fst p))) kFailoverStateTable = [0..<length kFailoverStateTable]"
    by code_simp
  show "distinct (map snd kFailoverStateTable)"
    by (simp add: kFailoverStateTable_def)
qed

lemma FailoverState_from_string_iff [enum_simps]:
  "FailoverState_from_string s = Some v \<longleftrightarrow> s = FailoverState_to_string v"
  by (simp add: FailoverState_from_string_def FailoverState_to_string_def failoverState.from_string_Some)

lemma FailoverState_from_int_iff [enum_simps]:
  "FailoverState_from_int i = Some v \<longleftrightarrow> i = uint (FailoverState_u8 v)"
  by (simp add: FailoverState_from_int_def failoverState.from_int_Some)

section \<open>WorkOutcome\<close>

datatype WorkOutcome =
    UNKNOWN
  | SUCCEEDED
  | FAILED
  | AMBIGUOUS

fun WorkOutcome_u8 :: "WorkOutcome \<Rightarrow> u8" where
  "WorkOutcome_u8 WorkOutcome.UNKNOWN = 0"
| "WorkOutcome_u8 WorkOutcome.SUCCEEDED = 1"
| "WorkOutcome_u8 WorkOutcome.FAILED = 2"
| "WorkOutcome_u8 WorkOutcome.AMBIGUOUS = 3"

definition kWorkOutcomeTable :: "(WorkOutcome \<times> string) list" where
  "kWorkOutcomeTable =
    [(WorkOutcome.UNKNOWN, ''UNKNOWN''),
     (WorkOutcome.SUCCEEDED, ''SUCCEEDED''),
     (WorkOutcome.FAILED, ''FAILED''),
     (WorkOutcome.AMBIGUOUS, ''AMBIGUOUS'')]"

definition WorkOutcome_to_string :: "WorkOutcome \<Rightarrow> string" where
  "WorkOutcome_to_string v = enum_to_string_lookup v kWorkOutcomeTable"

definition WorkOutcome_from_string :: "string \<Rightarrow> WorkOutcome option" where
  "WorkOutcome_from_string s = enum_from_string_lookup s kWorkOutcomeTable"

definition WorkOutcome_from_int :: "int \<Rightarrow> WorkOutcome option" where
  "WorkOutcome_from_int v = enum_from_int_lookup v kWorkOutcomeTable"

interpretation workOutcome: enum_table kWorkOutcomeTable WorkOutcome_u8
proof unfold_locales
  show "v \<in> fst ` set kWorkOutcomeTable" for v
    by (cases v) (simp_all add: kWorkOutcomeTable_def)
  show "map (\<lambda>p. unat (WorkOutcome_u8 (fst p))) kWorkOutcomeTable = [0..<length kWorkOutcomeTable]"
    by code_simp
  show "distinct (map snd kWorkOutcomeTable)"
    by (simp add: kWorkOutcomeTable_def)
qed

lemma WorkOutcome_from_string_iff [enum_simps]:
  "WorkOutcome_from_string s = Some v \<longleftrightarrow> s = WorkOutcome_to_string v"
  by (simp add: WorkOutcome_from_string_def WorkOutcome_to_string_def workOutcome.from_string_Some)

lemma WorkOutcome_from_int_iff [enum_simps]:
  "WorkOutcome_from_int i = Some v \<longleftrightarrow> i = uint (WorkOutcome_u8 v)"
  by (simp add: WorkOutcome_from_int_def workOutcome.from_int_Some)

section \<open>MemoryResidencyState\<close>

datatype MemoryResidencyState =
    UNKNOWN
  | NOT_RESIDENT
  | RESIDENT
  | EVICTED

fun MemoryResidencyState_u8 :: "MemoryResidencyState \<Rightarrow> u8" where
  "MemoryResidencyState_u8 MemoryResidencyState.UNKNOWN = 0"
| "MemoryResidencyState_u8 MemoryResidencyState.NOT_RESIDENT = 1"
| "MemoryResidencyState_u8 MemoryResidencyState.RESIDENT = 2"
| "MemoryResidencyState_u8 MemoryResidencyState.EVICTED = 3"

definition kMemoryResidencyStateTable :: "(MemoryResidencyState \<times> string) list" where
  "kMemoryResidencyStateTable =
    [(MemoryResidencyState.UNKNOWN, ''UNKNOWN''),
     (MemoryResidencyState.NOT_RESIDENT, ''NOT_RESIDENT''),
     (MemoryResidencyState.RESIDENT, ''RESIDENT''),
     (MemoryResidencyState.EVICTED, ''EVICTED'')]"

definition MemoryResidencyState_to_string :: "MemoryResidencyState \<Rightarrow> string" where
  "MemoryResidencyState_to_string v = enum_to_string_lookup v kMemoryResidencyStateTable"

definition MemoryResidencyState_from_string :: "string \<Rightarrow> MemoryResidencyState option" where
  "MemoryResidencyState_from_string s = enum_from_string_lookup s kMemoryResidencyStateTable"

definition MemoryResidencyState_from_int :: "int \<Rightarrow> MemoryResidencyState option" where
  "MemoryResidencyState_from_int v = enum_from_int_lookup v kMemoryResidencyStateTable"

interpretation memoryResidencyState: enum_table kMemoryResidencyStateTable MemoryResidencyState_u8
proof unfold_locales
  show "v \<in> fst ` set kMemoryResidencyStateTable" for v
    by (cases v) (simp_all add: kMemoryResidencyStateTable_def)
  show "map (\<lambda>p. unat (MemoryResidencyState_u8 (fst p))) kMemoryResidencyStateTable = [0..<length kMemoryResidencyStateTable]"
    by code_simp
  show "distinct (map snd kMemoryResidencyStateTable)"
    by (simp add: kMemoryResidencyStateTable_def)
qed

lemma MemoryResidencyState_from_string_iff [enum_simps]:
  "MemoryResidencyState_from_string s = Some v \<longleftrightarrow> s = MemoryResidencyState_to_string v"
  by (simp add: MemoryResidencyState_from_string_def MemoryResidencyState_to_string_def memoryResidencyState.from_string_Some)

lemma MemoryResidencyState_from_int_iff [enum_simps]:
  "MemoryResidencyState_from_int i = Some v \<longleftrightarrow> i = uint (MemoryResidencyState_u8 v)"
  by (simp add: MemoryResidencyState_from_int_def memoryResidencyState.from_int_Some)

section \<open>PlacementState\<close>

datatype PlacementState =
    PENDING
  | ASSIGNED
  | FAILED
  | INVALIDATED

fun PlacementState_u8 :: "PlacementState \<Rightarrow> u8" where
  "PlacementState_u8 PlacementState.PENDING = 0"
| "PlacementState_u8 PlacementState.ASSIGNED = 1"
| "PlacementState_u8 PlacementState.FAILED = 2"
| "PlacementState_u8 PlacementState.INVALIDATED = 3"

definition kPlacementStateTable :: "(PlacementState \<times> string) list" where
  "kPlacementStateTable =
    [(PlacementState.PENDING, ''PENDING''),
     (PlacementState.ASSIGNED, ''ASSIGNED''),
     (PlacementState.FAILED, ''FAILED''),
     (PlacementState.INVALIDATED, ''INVALIDATED'')]"

definition PlacementState_to_string :: "PlacementState \<Rightarrow> string" where
  "PlacementState_to_string v = enum_to_string_lookup v kPlacementStateTable"

definition PlacementState_from_string :: "string \<Rightarrow> PlacementState option" where
  "PlacementState_from_string s = enum_from_string_lookup s kPlacementStateTable"

definition PlacementState_from_int :: "int \<Rightarrow> PlacementState option" where
  "PlacementState_from_int v = enum_from_int_lookup v kPlacementStateTable"

interpretation placementState: enum_table kPlacementStateTable PlacementState_u8
proof unfold_locales
  show "v \<in> fst ` set kPlacementStateTable" for v
    by (cases v) (simp_all add: kPlacementStateTable_def)
  show "map (\<lambda>p. unat (PlacementState_u8 (fst p))) kPlacementStateTable = [0..<length kPlacementStateTable]"
    by code_simp
  show "distinct (map snd kPlacementStateTable)"
    by (simp add: kPlacementStateTable_def)
qed

lemma PlacementState_from_string_iff [enum_simps]:
  "PlacementState_from_string s = Some v \<longleftrightarrow> s = PlacementState_to_string v"
  by (simp add: PlacementState_from_string_def PlacementState_to_string_def placementState.from_string_Some)

lemma PlacementState_from_int_iff [enum_simps]:
  "PlacementState_from_int i = Some v \<longleftrightarrow> i = uint (PlacementState_u8 v)"
  by (simp add: PlacementState_from_int_def placementState.from_int_Some)

section \<open>AcceleratorKind\<close>

datatype AcceleratorKind =
    NONE
  | CPU
  | CUDA
  | ROCM
  | SYCL
  | CUSTOM

fun AcceleratorKind_u8 :: "AcceleratorKind \<Rightarrow> u8" where
  "AcceleratorKind_u8 AcceleratorKind.NONE = 0"
| "AcceleratorKind_u8 AcceleratorKind.CPU = 1"
| "AcceleratorKind_u8 AcceleratorKind.CUDA = 2"
| "AcceleratorKind_u8 AcceleratorKind.ROCM = 3"
| "AcceleratorKind_u8 AcceleratorKind.SYCL = 4"
| "AcceleratorKind_u8 AcceleratorKind.CUSTOM = 5"

definition kAcceleratorKindTable :: "(AcceleratorKind \<times> string) list" where
  "kAcceleratorKindTable =
    [(AcceleratorKind.NONE, ''NONE''),
     (AcceleratorKind.CPU, ''CPU''),
     (AcceleratorKind.CUDA, ''CUDA''),
     (AcceleratorKind.ROCM, ''ROCM''),
     (AcceleratorKind.SYCL, ''SYCL''),
     (AcceleratorKind.CUSTOM, ''CUSTOM'')]"

definition AcceleratorKind_to_string :: "AcceleratorKind \<Rightarrow> string" where
  "AcceleratorKind_to_string v = enum_to_string_lookup v kAcceleratorKindTable"

definition AcceleratorKind_from_string :: "string \<Rightarrow> AcceleratorKind option" where
  "AcceleratorKind_from_string s = enum_from_string_lookup s kAcceleratorKindTable"

definition AcceleratorKind_from_int :: "int \<Rightarrow> AcceleratorKind option" where
  "AcceleratorKind_from_int v = enum_from_int_lookup v kAcceleratorKindTable"

interpretation acceleratorKind: enum_table kAcceleratorKindTable AcceleratorKind_u8
proof unfold_locales
  show "v \<in> fst ` set kAcceleratorKindTable" for v
    by (cases v) (simp_all add: kAcceleratorKindTable_def)
  show "map (\<lambda>p. unat (AcceleratorKind_u8 (fst p))) kAcceleratorKindTable = [0..<length kAcceleratorKindTable]"
    by code_simp
  show "distinct (map snd kAcceleratorKindTable)"
    by (simp add: kAcceleratorKindTable_def)
qed

lemma AcceleratorKind_from_string_iff [enum_simps]:
  "AcceleratorKind_from_string s = Some v \<longleftrightarrow> s = AcceleratorKind_to_string v"
  by (simp add: AcceleratorKind_from_string_def AcceleratorKind_to_string_def acceleratorKind.from_string_Some)

lemma AcceleratorKind_from_int_iff [enum_simps]:
  "AcceleratorKind_from_int i = Some v \<longleftrightarrow> i = uint (AcceleratorKind_u8 v)"
  by (simp add: AcceleratorKind_from_int_def acceleratorKind.from_int_Some)

section \<open>BackendKind\<close>

datatype BackendKind =
    NONE
  | TRITON
  | TENSORRT
  | ONNX
  | VLLM
  | CUSTOM

fun BackendKind_u8 :: "BackendKind \<Rightarrow> u8" where
  "BackendKind_u8 BackendKind.NONE = 0"
| "BackendKind_u8 BackendKind.TRITON = 1"
| "BackendKind_u8 BackendKind.TENSORRT = 2"
| "BackendKind_u8 BackendKind.ONNX = 3"
| "BackendKind_u8 BackendKind.VLLM = 4"
| "BackendKind_u8 BackendKind.CUSTOM = 5"

definition kBackendKindTable :: "(BackendKind \<times> string) list" where
  "kBackendKindTable =
    [(BackendKind.NONE, ''NONE''),
     (BackendKind.TRITON, ''TRITON''),
     (BackendKind.TENSORRT, ''TENSORRT''),
     (BackendKind.ONNX, ''ONNX''),
     (BackendKind.VLLM, ''VLLM''),
     (BackendKind.CUSTOM, ''CUSTOM'')]"

definition BackendKind_to_string :: "BackendKind \<Rightarrow> string" where
  "BackendKind_to_string v = enum_to_string_lookup v kBackendKindTable"

definition BackendKind_from_string :: "string \<Rightarrow> BackendKind option" where
  "BackendKind_from_string s = enum_from_string_lookup s kBackendKindTable"

definition BackendKind_from_int :: "int \<Rightarrow> BackendKind option" where
  "BackendKind_from_int v = enum_from_int_lookup v kBackendKindTable"

interpretation backendKind: enum_table kBackendKindTable BackendKind_u8
proof unfold_locales
  show "v \<in> fst ` set kBackendKindTable" for v
    by (cases v) (simp_all add: kBackendKindTable_def)
  show "map (\<lambda>p. unat (BackendKind_u8 (fst p))) kBackendKindTable = [0..<length kBackendKindTable]"
    by code_simp
  show "distinct (map snd kBackendKindTable)"
    by (simp add: kBackendKindTable_def)
qed

lemma BackendKind_from_string_iff [enum_simps]:
  "BackendKind_from_string s = Some v \<longleftrightarrow> s = BackendKind_to_string v"
  by (simp add: BackendKind_from_string_def BackendKind_to_string_def backendKind.from_string_Some)

lemma BackendKind_from_int_iff [enum_simps]:
  "BackendKind_from_int i = Some v \<longleftrightarrow> i = uint (BackendKind_u8 v)"
  by (simp add: BackendKind_from_int_def backendKind.from_int_Some)

section \<open>NumericMode\<close>

datatype NumericMode =
    UNKNOWN
  | FP32
  | FP16
  | BF16
  | FP8
  | INT8
  | MIXED

fun NumericMode_u8 :: "NumericMode \<Rightarrow> u8" where
  "NumericMode_u8 NumericMode.UNKNOWN = 0"
| "NumericMode_u8 NumericMode.FP32 = 1"
| "NumericMode_u8 NumericMode.FP16 = 2"
| "NumericMode_u8 NumericMode.BF16 = 3"
| "NumericMode_u8 NumericMode.FP8 = 4"
| "NumericMode_u8 NumericMode.INT8 = 5"
| "NumericMode_u8 NumericMode.MIXED = 6"

definition kNumericModeTable :: "(NumericMode \<times> string) list" where
  "kNumericModeTable =
    [(NumericMode.UNKNOWN, ''UNKNOWN''),
     (NumericMode.FP32, ''FP32''),
     (NumericMode.FP16, ''FP16''),
     (NumericMode.BF16, ''BF16''),
     (NumericMode.FP8, ''FP8''),
     (NumericMode.INT8, ''INT8''),
     (NumericMode.MIXED, ''MIXED'')]"

definition NumericMode_to_string :: "NumericMode \<Rightarrow> string" where
  "NumericMode_to_string v = enum_to_string_lookup v kNumericModeTable"

definition NumericMode_from_string :: "string \<Rightarrow> NumericMode option" where
  "NumericMode_from_string s = enum_from_string_lookup s kNumericModeTable"

definition NumericMode_from_int :: "int \<Rightarrow> NumericMode option" where
  "NumericMode_from_int v = enum_from_int_lookup v kNumericModeTable"

interpretation numericMode: enum_table kNumericModeTable NumericMode_u8
proof unfold_locales
  show "v \<in> fst ` set kNumericModeTable" for v
    by (cases v) (simp_all add: kNumericModeTable_def)
  show "map (\<lambda>p. unat (NumericMode_u8 (fst p))) kNumericModeTable = [0..<length kNumericModeTable]"
    by code_simp
  show "distinct (map snd kNumericModeTable)"
    by (simp add: kNumericModeTable_def)
qed

lemma NumericMode_from_string_iff [enum_simps]:
  "NumericMode_from_string s = Some v \<longleftrightarrow> s = NumericMode_to_string v"
  by (simp add: NumericMode_from_string_def NumericMode_to_string_def numericMode.from_string_Some)

lemma NumericMode_from_int_iff [enum_simps]:
  "NumericMode_from_int i = Some v \<longleftrightarrow> i = uint (NumericMode_u8 v)"
  by (simp add: NumericMode_from_int_def numericMode.from_int_Some)

section \<open>All conversions\<close>

text \<open>
  For every enumeration, the text reader accepts exactly the canonical names and
  returns the enumerator of that name: reading what was printed returns what was printed,
  and no other string, in whatever case, is accepted.
\<close>

theorem enum_text_conversions:
  "(ReplicaSetLifecycle_from_string s = Some v0 \<longleftrightarrow> s = ReplicaSetLifecycle_to_string v0) \<and>
   (ReplicaLifecycle_from_string s = Some v1 \<longleftrightarrow> s = ReplicaLifecycle_to_string v1) \<and>
   (HealthState_from_string s = Some v2 \<longleftrightarrow> s = HealthState_to_string v2) \<and>
   (HealthEvidenceKind_from_string s = Some v3 \<longleftrightarrow> s = HealthEvidenceKind_to_string v3) \<and>
   (WarmthState_from_string s = Some v4 \<longleftrightarrow> s = WarmthState_to_string v4) \<and>
   (ReadinessState_from_string s = Some v5 \<longleftrightarrow> s = ReadinessState_to_string v5) \<and>
   (PromotionState_from_string s = Some v6 \<longleftrightarrow> s = PromotionState_to_string v6) \<and>
   (ReplicaRole_from_string s = Some v7 \<longleftrightarrow> s = ReplicaRole_to_string v7) \<and>
   (DrainState_from_string s = Some v8 \<longleftrightarrow> s = DrainState_to_string v8) \<and>
   (FailoverState_from_string s = Some v9 \<longleftrightarrow> s = FailoverState_to_string v9) \<and>
   (WorkOutcome_from_string s = Some v10 \<longleftrightarrow> s = WorkOutcome_to_string v10) \<and>
   (MemoryResidencyState_from_string s = Some v11 \<longleftrightarrow> s = MemoryResidencyState_to_string v11) \<and>
   (PlacementState_from_string s = Some v12 \<longleftrightarrow> s = PlacementState_to_string v12) \<and>
   (AcceleratorKind_from_string s = Some v13 \<longleftrightarrow> s = AcceleratorKind_to_string v13) \<and>
   (BackendKind_from_string s = Some v14 \<longleftrightarrow> s = BackendKind_to_string v14) \<and>
   (NumericMode_from_string s = Some v15 \<longleftrightarrow> s = NumericMode_to_string v15)"
  by (simp only: enum_simps)

text \<open>
  For every enumeration, the integer reader accepts exactly the underlying values of
  the enumerators and returns the enumerator of that value; negative values and values
  past the last enumerator are rejected.
\<close>

theorem enum_int_conversions:
  "(ReplicaSetLifecycle_from_int i = Some v0 \<longleftrightarrow> i = uint (ReplicaSetLifecycle_u8 v0)) \<and>
   (ReplicaLifecycle_from_int i = Some v1 \<longleftrightarrow> i = uint (ReplicaLifecycle_u8 v1)) \<and>
   (HealthState_from_int i = Some v2 \<longleftrightarrow> i = uint (HealthState_u8 v2)) \<and>
   (HealthEvidenceKind_from_int i = Some v3 \<longleftrightarrow> i = uint (HealthEvidenceKind_u8 v3)) \<and>
   (WarmthState_from_int i = Some v4 \<longleftrightarrow> i = uint (WarmthState_u8 v4)) \<and>
   (ReadinessState_from_int i = Some v5 \<longleftrightarrow> i = uint (ReadinessState_u8 v5)) \<and>
   (PromotionState_from_int i = Some v6 \<longleftrightarrow> i = uint (PromotionState_u8 v6)) \<and>
   (ReplicaRole_from_int i = Some v7 \<longleftrightarrow> i = uint (ReplicaRole_u8 v7)) \<and>
   (DrainState_from_int i = Some v8 \<longleftrightarrow> i = uint (DrainState_u8 v8)) \<and>
   (FailoverState_from_int i = Some v9 \<longleftrightarrow> i = uint (FailoverState_u8 v9)) \<and>
   (WorkOutcome_from_int i = Some v10 \<longleftrightarrow> i = uint (WorkOutcome_u8 v10)) \<and>
   (MemoryResidencyState_from_int i = Some v11 \<longleftrightarrow> i = uint (MemoryResidencyState_u8 v11)) \<and>
   (PlacementState_from_int i = Some v12 \<longleftrightarrow> i = uint (PlacementState_u8 v12)) \<and>
   (AcceleratorKind_from_int i = Some v13 \<longleftrightarrow> i = uint (AcceleratorKind_u8 v13)) \<and>
   (BackendKind_from_int i = Some v14 \<longleftrightarrow> i = uint (BackendKind_u8 v14)) \<and>
   (NumericMode_from_int i = Some v15 \<longleftrightarrow> i = uint (NumericMode_u8 v15))"
  by (simp only: enum_simps)

end
