(* ===== verification/Capability.thy ===== *)
theory Capability
  imports Enums
begin

text \<open>
  Typed capabilities and the resource inventory of \<open>core/capability.hpp\<close>. A C++
  \<open>int\<close> is a 32-bit word read as two's complement; a \<open>double\<close> that is only stored
  and copied is its 64-bit object representation.
\<close>

type_synonym f64 = "64 word"

record ComputeCapability =
  cc_major :: "i32"
  cc_minor :: "i32"

definition ComputeCapability_default :: ComputeCapability where
  "ComputeCapability_default = \<lparr>
     cc_major = 0,
     cc_minor = 0\<rparr>"

definition compute_less :: "ComputeCapability \<Rightarrow> ComputeCapability \<Rightarrow> bool" where
  "compute_less a b =
     (if cc_major a \<noteq> cc_major b then sint (cc_major a) < sint (cc_major b)
      else sint (cc_minor a) < sint (cc_minor b))"

definition compute_le :: "ComputeCapability \<Rightarrow> ComputeCapability \<Rightarrow> bool" where
  "compute_le a b = (\<not> compute_less b a)"

lemma compute_less_irrefl [simp]: "\<not> compute_less a a"
  by (simp add: compute_less_def)

lemma compute_less_trans: "compute_less a b \<Longrightarrow> compute_less b c \<Longrightarrow> compute_less a c"
  by (auto simp: compute_less_def split: if_splits)

lemma compute_le_total: "compute_le a b \<or> compute_le b a"
  by (auto simp: compute_le_def compute_less_def split: if_splits)

lemma compute_le_antisym: "compute_le a b \<Longrightarrow> compute_le b a \<Longrightarrow> a = (b :: ComputeCapability)"
  by (cases a; cases b) (auto simp: compute_le_def compute_less_def dest!: signed_word_eqI split: if_splits)

record BackendCapability =
  bc_kind :: "BackendKind"
  bc_name :: "string"
  bc_compute :: "ComputeCapability"
  bc_numeric :: "NumericMode"

definition BackendCapability_default :: BackendCapability where
  "BackendCapability_default = \<lparr>
     bc_kind = BackendKind.NONE,
     bc_name = [],
     bc_compute = ComputeCapability_default,
     bc_numeric = NumericMode.UNKNOWN\<rparr>"

record DeviceCapability =
  dv_kind :: "AcceleratorKind"
  dv_device_id :: "string"
  dv_compute :: "ComputeCapability"
  dv_memory_bytes :: "u64"

definition DeviceCapability_default :: DeviceCapability where
  "DeviceCapability_default = \<lparr>
     dv_kind = AcceleratorKind.NONE,
     dv_device_id = [],
     dv_compute = ComputeCapability_default,
     dv_memory_bytes = 0\<rparr>"

record ResourceInventory =
  ri_total_memory_bytes :: "u64"
  ri_free_memory_bytes :: "u64"
  ri_accelerator_count :: "i32"
  ri_devices :: "DeviceCapability list"
  ri_backends :: "BackendCapability list"

definition ResourceInventory_default :: ResourceInventory where
  "ResourceInventory_default = \<lparr>
     ri_total_memory_bytes = 0,
     ri_free_memory_bytes = 0,
     ri_accelerator_count = 0,
     ri_devices = [],
     ri_backends = []\<rparr>"

end
