(* ===== verification/Compatibility.thy ===== *)
theory Compatibility
  imports Capability Identity
begin

text \<open>
  The typed compatibility contract of \<open>core/compatibility.hpp\<close>: what a replica set
  requires, what a replica declares, and the evaluation that lists every reason why the
  second does not meet the first.
\<close>

record CompatibilityRequirements =
  cq_model_id :: "ModelId"
  cq_model_revision :: "string"
  cq_tokenizer_vocab :: "string"
  cq_required_adapters :: "string list"
  cq_backend :: "BackendKind"
  cq_runtime_name :: "string"
  cq_architecture :: "string"
  cq_min_compute :: "ComputeCapability"
  cq_numeric_mode :: "NumericMode"
  cq_artifact_generation :: "ArtifactGeneration"
  cq_kernel_abi :: "string"
  cq_policy_fingerprint :: "string"

definition CompatibilityRequirements_default :: CompatibilityRequirements where
  "CompatibilityRequirements_default = \<lparr>
     cq_model_id = null_id,
     cq_model_revision = [],
     cq_tokenizer_vocab = [],
     cq_required_adapters = [],
     cq_backend = BackendKind.NONE,
     cq_runtime_name = [],
     cq_architecture = [],
     cq_min_compute = ComputeCapability_default,
     cq_numeric_mode = NumericMode.UNKNOWN,
     cq_artifact_generation = null_id,
     cq_kernel_abi = [],
     cq_policy_fingerprint = []\<rparr>"

record ReplicaCompatibility =
  cp_model_id :: "ModelId"
  cp_model_revision :: "string"
  cp_tokenizer_vocab :: "string"
  cp_adapters :: "string list"
  cp_backend :: "BackendKind"
  cp_runtime_name :: "string"
  cp_architecture :: "string"
  cp_compute :: "ComputeCapability"
  cp_numeric_mode :: "NumericMode"
  cp_artifact_generation :: "ArtifactGeneration"
  cp_kernel_abi :: "string"
  cp_policy_fingerprint :: "string"

definition ReplicaCompatibility_default :: ReplicaCompatibility where
  "ReplicaCompatibility_default = \<lparr>
     cp_model_id = null_id,
     cp_model_revision = [],
     cp_tokenizer_vocab = [],
     cp_adapters = [],
     cp_backend = BackendKind.NONE,
     cp_runtime_name = [],
     cp_architecture = [],
     cp_compute = ComputeCapability_default,
     cp_numeric_mode = NumericMode.UNKNOWN,
     cp_artifact_generation = null_id,
     cp_kernel_abi = [],
     cp_policy_fingerprint = []\<rparr>"

datatype CompatibilityIssue =
    NONE
  | MODEL_MISMATCH
  | REVISION_MISMATCH
  | TOKENIZER_MISMATCH
  | ADAPTER_MISSING
  | BACKEND_MISMATCH
  | RUNTIME_MISMATCH
  | ARCHITECTURE_MISMATCH
  | COMPUTE_TOO_LOW
  | NUMERIC_MISMATCH
  | ARTIFACT_GENERATION_MISMATCH
  | KERNEL_ABI_MISMATCH
  | POLICY_FINGERPRINT_MISMATCH

fun compatibility_issue_str :: "CompatibilityIssue \<Rightarrow> string" where
  "compatibility_issue_str CompatibilityIssue.NONE = ''NONE''"
| "compatibility_issue_str CompatibilityIssue.MODEL_MISMATCH = ''MODEL_MISMATCH''"
| "compatibility_issue_str CompatibilityIssue.REVISION_MISMATCH = ''REVISION_MISMATCH''"
| "compatibility_issue_str CompatibilityIssue.TOKENIZER_MISMATCH = ''TOKENIZER_MISMATCH''"
| "compatibility_issue_str CompatibilityIssue.ADAPTER_MISSING = ''ADAPTER_MISSING''"
| "compatibility_issue_str CompatibilityIssue.BACKEND_MISMATCH = ''BACKEND_MISMATCH''"
| "compatibility_issue_str CompatibilityIssue.RUNTIME_MISMATCH = ''RUNTIME_MISMATCH''"
| "compatibility_issue_str CompatibilityIssue.ARCHITECTURE_MISMATCH = ''ARCHITECTURE_MISMATCH''"
| "compatibility_issue_str CompatibilityIssue.COMPUTE_TOO_LOW = ''COMPUTE_TOO_LOW''"
| "compatibility_issue_str CompatibilityIssue.NUMERIC_MISMATCH = ''NUMERIC_MISMATCH''"
| "compatibility_issue_str CompatibilityIssue.ARTIFACT_GENERATION_MISMATCH = ''ARTIFACT_GENERATION_MISMATCH''"
| "compatibility_issue_str CompatibilityIssue.KERNEL_ABI_MISMATCH = ''KERNEL_ABI_MISMATCH''"
| "compatibility_issue_str CompatibilityIssue.POLICY_FINGERPRINT_MISMATCH = ''POLICY_FINGERPRINT_MISMATCH''"

record CompatibilityResult =
  cr_compatible :: bool
  cr_issues :: "CompatibilityIssue list"

text \<open>One test of the evaluation: on failure the result is incompatible and the issue is appended.\<close>

definition issue_if :: "bool \<Rightarrow> CompatibilityIssue \<Rightarrow> CompatibilityResult \<Rightarrow> CompatibilityResult" where
  "issue_if bad i res =
     (if bad then res\<lparr>cr_compatible := False, cr_issues := cr_issues res @ [i]\<rparr> else res)"

fun adapter_present :: "string \<Rightarrow> string list \<Rightarrow> bool" where
  "adapter_present a [] = False"
| "adapter_present a (g # gs) = (if g = a then True else adapter_present a gs)"

fun check_adapters :: "string list \<Rightarrow> string list \<Rightarrow> CompatibilityResult \<Rightarrow> CompatibilityResult" where
  "check_adapters [] got res = res"
| "check_adapters (a # as) got res =
     check_adapters as got
       (issue_if (\<not> adapter_present a got) CompatibilityIssue.ADAPTER_MISSING res)"

definition check_compatibility ::
  "CompatibilityRequirements \<Rightarrow> ReplicaCompatibility \<Rightarrow> CompatibilityResult" where
  "check_compatibility req got =
     (let res = \<lparr>cr_compatible = True, cr_issues = []\<rparr>;
          res = issue_if (cp_model_id got \<noteq> cq_model_id req) CompatibilityIssue.MODEL_MISMATCH res;
          res = issue_if (cp_model_revision got \<noteq> cq_model_revision req)
                  CompatibilityIssue.REVISION_MISMATCH res;
          res = issue_if (cp_tokenizer_vocab got \<noteq> cq_tokenizer_vocab req)
                  CompatibilityIssue.TOKENIZER_MISMATCH res;
          res = check_adapters (cq_required_adapters req) (cp_adapters got) res;
          res = issue_if (cp_backend got \<noteq> cq_backend req) CompatibilityIssue.BACKEND_MISMATCH res;
          res = issue_if (cp_runtime_name got \<noteq> cq_runtime_name req)
                  CompatibilityIssue.RUNTIME_MISMATCH res;
          res = issue_if (cp_architecture got \<noteq> cq_architecture req)
                  CompatibilityIssue.ARCHITECTURE_MISMATCH res;
          res = issue_if (compute_less (cp_compute got) (cq_min_compute req))
                  CompatibilityIssue.COMPUTE_TOO_LOW res;
          res = issue_if (cp_numeric_mode got \<noteq> cq_numeric_mode req)
                  CompatibilityIssue.NUMERIC_MISMATCH res;
          res = issue_if (cp_artifact_generation got \<noteq> cq_artifact_generation req)
                  CompatibilityIssue.ARTIFACT_GENERATION_MISMATCH res;
          res = issue_if (cp_kernel_abi got \<noteq> cq_kernel_abi req)
                  CompatibilityIssue.KERNEL_ABI_MISMATCH res;
          res = issue_if (cp_policy_fingerprint got \<noteq> cq_policy_fingerprint req)
                  CompatibilityIssue.POLICY_FINGERPRINT_MISMATCH res
      in res)"

section \<open>What the evaluation decides\<close>

text \<open>The contract, factor by factor, without the order of evaluation.\<close>

definition meets :: "CompatibilityRequirements \<Rightarrow> ReplicaCompatibility \<Rightarrow> bool" where
  "meets req got \<longleftrightarrow>
     cp_model_id got = cq_model_id req \<and> cp_model_revision got = cq_model_revision req \<and>
     cp_tokenizer_vocab got = cq_tokenizer_vocab req \<and>
     list_all (\<lambda>a. a \<in> set (cp_adapters got)) (cq_required_adapters req) \<and>
     cp_backend got = cq_backend req \<and> cp_runtime_name got = cq_runtime_name req \<and>
     cp_architecture got = cq_architecture req \<and>
     compute_le (cq_min_compute req) (cp_compute got) \<and>
     cp_numeric_mode got = cq_numeric_mode req \<and>
     cp_artifact_generation got = cq_artifact_generation req \<and>
     cp_kernel_abi got = cq_kernel_abi req \<and>
     cp_policy_fingerprint got = cq_policy_fingerprint req"

lemma adapter_present_iff [simp]: "adapter_present a gs \<longleftrightarrow> a \<in> set gs"
  by (induction gs) auto

lemma issue_if_compatible [simp]: "cr_compatible (issue_if b i res) \<longleftrightarrow> \<not> b \<and> cr_compatible res"
  by (simp add: issue_if_def)

lemma issue_if_issues [simp]:
  "cr_issues (issue_if b i res) = cr_issues res @ (if b then [i] else [])"
  by (simp add: issue_if_def)

lemma check_adapters_compatible [simp]:
  "cr_compatible (check_adapters as gs res) \<longleftrightarrow>
     list_all (\<lambda>a. a \<in> set gs) as \<and> cr_compatible res"
  by (induction as gs res rule: check_adapters.induct) auto

lemma check_adapters_issues [simp]:
  "cr_issues (check_adapters as gs res) =
     cr_issues res @ map (\<lambda>_. CompatibilityIssue.ADAPTER_MISSING) (filter (\<lambda>a. a \<notin> set gs) as)"
  by (induction as gs res rule: check_adapters.induct) auto

lemma check_compatibility_meets: "cr_compatible (check_compatibility req got) = meets req got"
  by (auto simp: check_compatibility_def meets_def compute_le_def Let_def)

lemma check_compatibility_issues_empty:
  "cr_issues (check_compatibility req got) = [] \<longleftrightarrow> meets req got"
  by (auto simp: check_compatibility_def meets_def compute_le_def Let_def filter_empty_conv
      list_all_iff)

lemma count_list_map_const: "count_list (map (\<lambda>_. x) xs) x = length xs"
  by (induction xs) auto

text \<open>
  A replica is judged compatible exactly when it meets every factor of the contract of
  its set, and exactly when the evaluation lists no issue; one \<open>ADAPTER_MISSING\<close> is
  listed per required adapter that the replica lacks.
\<close>

theorem compatibility_sound_complete:
  "(cr_compatible (check_compatibility req got) \<longleftrightarrow> meets req got) \<and>
   (cr_issues (check_compatibility req got) = [] \<longleftrightarrow> meets req got) \<and>
   count_list (cr_issues (check_compatibility req got)) CompatibilityIssue.ADAPTER_MISSING =
     length (filter (\<lambda>a. a \<notin> set (cp_adapters got)) (cq_required_adapters req))"
  by (simp add: check_compatibility_meets check_compatibility_issues_empty)
     (simp add: check_compatibility_def Let_def count_list_map_const)

end
