(* ===== verification/Policies.thy ===== *)
theory Policies
  imports Capability
begin

text \<open>
  The policy records of \<open>core/policies.hpp\<close> with their default member values. The
  default of \<open>health_threshold\<close> is the representation of the double 0.5.
\<close>

record HealthPolicy =
  hp_enabled :: "bool"
  hp_expected_interval_ns :: "u64"
  hp_stale_after_ns :: "u64"
  hp_degrade_after_ns :: "u64"
  hp_unhealthy_after_misses :: "u32"
  hp_quarantine_after_failures :: "u32"
  hp_min_healthy_observations :: "u32"
  hp_health_threshold :: "f64"
  hp_initial :: "HealthState"

definition HealthPolicy_default :: HealthPolicy where
  "HealthPolicy_default = \<lparr>
     hp_enabled = True,
     hp_expected_interval_ns = 0,
     hp_stale_after_ns = 5000000000,
     hp_degrade_after_ns = 0,
     hp_unhealthy_after_misses = 3,
     hp_quarantine_after_failures = 3,
     hp_min_healthy_observations = 1,
     hp_health_threshold = 0x3FE0000000000000,
     hp_initial = HealthState.STARTING\<rparr>"

record WarmingPolicy =
  wp_enabled :: "bool"
  wp_require_artifact_loaded :: "bool"
  wp_require_weights_resident :: "bool"
  wp_require_adapters_active :: "bool"
  wp_require_kernel_init :: "bool"
  wp_require_graph_init :: "bool"
  wp_require_allocator_init :: "bool"
  wp_require_device_context :: "bool"
  wp_require_bounded_warmup :: "bool"
  wp_require_endpoint :: "bool"
  wp_warmup_work_steps :: "u64"
  wp_warmup_timeout_ns :: "u64"

definition WarmingPolicy_default :: WarmingPolicy where
  "WarmingPolicy_default = \<lparr>
     wp_enabled = True,
     wp_require_artifact_loaded = True,
     wp_require_weights_resident = True,
     wp_require_adapters_active = True,
     wp_require_kernel_init = True,
     wp_require_graph_init = True,
     wp_require_allocator_init = True,
     wp_require_device_context = True,
     wp_require_bounded_warmup = True,
     wp_require_endpoint = True,
     wp_warmup_work_steps = 0,
     wp_warmup_timeout_ns = 30000000000\<rparr>"

record DrainingPolicy =
  dp_reject_new_work :: "bool"
  dp_allow_existing_to_finish :: "bool"
  dp_allow_force_cancel :: "bool"
  dp_grace_period_ns :: "u64"
  dp_force_cancel_after_ns :: "u64"

definition DrainingPolicy_default :: DrainingPolicy where
  "DrainingPolicy_default = \<lparr>
     dp_reject_new_work = True,
     dp_allow_existing_to_finish = True,
     dp_allow_force_cancel = False,
     dp_grace_period_ns = 30000000000,
     dp_force_cancel_after_ns = 0\<rparr>"

record PromotionPolicy =
  pp_require_ready :: "bool"
  pp_require_healthy :: "bool"
  pp_min_health :: "HealthState"
  pp_require_compatible :: "bool"
  pp_require_placement_valid :: "bool"
  pp_require_resources :: "bool"
  pp_require_authority_current :: "bool"
  pp_allow_canary :: "bool"
  pp_auto_promote_standby :: "bool"

definition PromotionPolicy_default :: PromotionPolicy where
  "PromotionPolicy_default = \<lparr>
     pp_require_ready = True,
     pp_require_healthy = True,
     pp_min_health = HealthState.HEALTHY,
     pp_require_compatible = True,
     pp_require_placement_valid = True,
     pp_require_resources = True,
     pp_require_authority_current = True,
     pp_allow_canary = False,
     pp_auto_promote_standby = True\<rparr>"

record FailoverPolicy =
  fp_require_diversity :: "bool"
  fp_prefer_standby_first :: "bool"
  fp_max_attempts :: "u32"
  fp_preserve_generation :: "bool"
  fp_reject_ambiguous_outcome :: "bool"

definition FailoverPolicy_default :: FailoverPolicy where
  "FailoverPolicy_default = \<lparr>
     fp_require_diversity = True,
     fp_prefer_standby_first = True,
     fp_max_attempts = 1,
     fp_preserve_generation = True,
     fp_reject_ambiguous_outcome = False\<rparr>"

record PolicyBundle =
  pb_health :: "HealthPolicy"
  pb_warming :: "WarmingPolicy"
  pb_draining :: "DrainingPolicy"
  pb_promotion :: "PromotionPolicy"
  pb_failover :: "FailoverPolicy"

definition PolicyBundle_default :: PolicyBundle where
  "PolicyBundle_default = \<lparr>
     pb_health = HealthPolicy_default,
     pb_warming = WarmingPolicy_default,
     pb_draining = DrainingPolicy_default,
     pb_promotion = PromotionPolicy_default,
     pb_failover = FailoverPolicy_default\<rparr>"

end
