(* ===== verification/Model.thy ===== *)
theory Model
  imports Compatibility Policies
begin

text \<open>
  The value model of \<open>model/*.hpp\<close>: health evidence and records, readiness factors and
  records, warming records, the placement policy, the replica and the replica set.
\<close>

section \<open>Health\<close>

record HealthEvidence =
  he_state :: "HealthState"
  he_kind :: "HealthEvidenceKind"
  he_source :: "string"
  he_observed_at_mono :: "u64"
  he_observed_at_wall :: "i64"
  he_freshness_ns :: "u64"
  he_confidence :: "f64"
  he_generation :: "HealthGeneration"
  he_message :: "string"

definition HealthEvidence_default :: HealthEvidence where
  "HealthEvidence_default = \<lparr>
     he_state = HealthState.UNKNOWN,
     he_kind = HealthEvidenceKind.UNKNOWN,
     he_source = [],
     he_observed_at_mono = 0,
     he_observed_at_wall = 0,
     he_freshness_ns = 0,
     he_confidence = 0,
     he_generation = null_id,
     he_message = []\<rparr>"

record HealthRecord =
  hr_state :: "HealthState"
  hr_kind :: "HealthEvidenceKind"
  hr_source :: "string"
  hr_updated_at_mono :: "u64"
  hr_updated_at_wall :: "i64"
  hr_confidence :: "f64"
  hr_generation :: "HealthGeneration"
  hr_reason :: "string"
  hr_consecutive_stale :: "u32"
  hr_consecutive_failures :: "u32"

definition HealthRecord_default :: HealthRecord where
  "HealthRecord_default = \<lparr>
     hr_state = HealthState.UNKNOWN,
     hr_kind = HealthEvidenceKind.UNKNOWN,
     hr_source = [],
     hr_updated_at_mono = 0,
     hr_updated_at_wall = 0,
     hr_confidence = 0,
     hr_generation = null_id,
     hr_reason = [],
     hr_consecutive_stale = 0,
     hr_consecutive_failures = 0\<rparr>"

section \<open>Readiness\<close>

record ReadinessFactors =
  rf_model_loaded :: "bool"
  rf_artifact_validated :: "bool"
  rf_adapters_present :: "bool"
  rf_kernel_prepared :: "bool"
  rf_graph_prepared :: "bool"
  rf_memory_available :: "bool"
  rf_device_context_initialized :: "bool"
  rf_warmup_complete :: "bool"
  rf_dependencies_ready :: "bool"
  rf_endpoint_registered :: "bool"
  rf_policy_current :: "bool"

definition ReadinessFactors_default :: ReadinessFactors where
  "ReadinessFactors_default = \<lparr>
     rf_model_loaded = False,
     rf_artifact_validated = False,
     rf_adapters_present = False,
     rf_kernel_prepared = False,
     rf_graph_prepared = False,
     rf_memory_available = False,
     rf_device_context_initialized = False,
     rf_warmup_complete = False,
     rf_dependencies_ready = False,
     rf_endpoint_registered = False,
     rf_policy_current = False\<rparr>"

definition all_set :: "ReadinessFactors \<Rightarrow> bool" where
  "all_set f \<longleftrightarrow>
     rf_model_loaded f \<and> rf_artifact_validated f \<and> rf_adapters_present f \<and> rf_kernel_prepared f \<and>
     rf_graph_prepared f \<and> rf_memory_available f \<and> rf_device_context_initialized f \<and>
     rf_warmup_complete f \<and> rf_dependencies_ready f \<and> rf_endpoint_registered f \<and>
     rf_policy_current f"

record ReadinessRecord =
  rr_state :: "ReadinessState"
  rr_factors :: "ReadinessFactors"
  rr_updated_at_mono :: "u64"
  rr_updated_at_wall :: "i64"
  rr_reason :: "string"

definition ReadinessRecord_default :: ReadinessRecord where
  "ReadinessRecord_default = \<lparr>
     rr_state = ReadinessState.UNKNOWN,
     rr_factors = ReadinessFactors_default,
     rr_updated_at_mono = 0,
     rr_updated_at_wall = 0,
     rr_reason = []\<rparr>"

section \<open>Warming\<close>

record WarmingRecord =
  wm_state :: "WarmthState"
  wm_steps_completed :: "u64"
  wm_steps_required :: "u64"
  wm_artifact_loading_done :: "bool"
  wm_weights_resident :: "bool"
  wm_adapters_active :: "bool"
  wm_kernel_init_done :: "bool"
  wm_graph_init_done :: "bool"
  wm_allocator_init_done :: "bool"
  wm_device_context_done :: "bool"
  wm_warmup_execution_done :: "bool"
  wm_endpoint_registered :: "bool"
  wm_started_warming_mono :: "u64"
  wm_became_warm_mono :: "u64"
  wm_became_warm_wall :: "i64"
  wm_message :: "string"

definition WarmingRecord_default :: WarmingRecord where
  "WarmingRecord_default = \<lparr>
     wm_state = WarmthState.COLD,
     wm_steps_completed = 0,
     wm_steps_required = 0,
     wm_artifact_loading_done = False,
     wm_weights_resident = False,
     wm_adapters_active = False,
     wm_kernel_init_done = False,
     wm_graph_init_done = False,
     wm_allocator_init_done = False,
     wm_device_context_done = False,
     wm_warmup_execution_done = False,
     wm_endpoint_registered = False,
     wm_started_warming_mono = 0,
     wm_became_warm_mono = 0,
     wm_became_warm_wall = 0,
     wm_message = []\<rparr>"

section \<open>Placement policy\<close>

record SyntheticFailureDomain =
  sd_label :: "string"
  sd_kind :: "string"

definition SyntheticFailureDomain_default :: SyntheticFailureDomain where
  "SyntheticFailureDomain_default = \<lparr>
     sd_label = [],
     sd_kind = []\<rparr>"

record PlacementPolicy =
  pl_anti_affinity_domains :: "string list"
  pl_synthetic_domains :: "SyntheticFailureDomain list"
  pl_require_diversity :: "bool"
  pl_preferred_host :: "string"
  pl_preferred_numa :: "string"
  pl_preferred_device :: "string"
  pl_preferred_failure_domain :: "string"
  pl_tie_break_strategy :: "u32"

definition PlacementPolicy_default :: PlacementPolicy where
  "PlacementPolicy_default = \<lparr>
     pl_anti_affinity_domains = [],
     pl_synthetic_domains = [],
     pl_require_diversity = True,
     pl_preferred_host = [],
     pl_preferred_numa = [],
     pl_preferred_device = [],
     pl_preferred_failure_domain = [],
     pl_tie_break_strategy = 0\<rparr>"

section \<open>Replica\<close>

record ReplicaState =
  r_id :: "ReplicaId"
  r_set_id :: "ReplicaSetId"
  r_generation :: "ReplicaGeneration"
  r_node_id :: "NodeId"
  r_worker_id :: "WorkerId"
  r_boot_id :: "WorkerBootId"
  r_artifact_id :: "ArtifactId"
  r_artifact_generation :: "ArtifactGeneration"
  r_backend :: "BackendKind"
  r_backend_identity :: "string"
  r_device_identity :: "string"
  r_accelerator :: "AcceleratorKind"
  r_compute_capability :: "ComputeCapability"
  r_memory_residency :: "MemoryResidencyState"
  r_warmth :: "WarmthState"
  r_readiness :: "ReadinessState"
  r_health :: "HealthState"
  r_lifecycle :: "ReplicaLifecycle"
  r_placement_id :: "PlacementId"
  r_placement :: "PlacementState"
  r_promotion :: "PromotionState"
  r_role :: "ReplicaRole"
  r_serving_eligible :: "bool"
  r_active_requests :: "u64"
  r_reserved_capacity :: "u64"
  r_capacity_total :: "u64"
  r_start_time_mono :: "u64"
  r_start_time_wall :: "i64"
  r_health_record :: "HealthRecord"
  r_readiness_record :: "ReadinessRecord"
  r_warming_record :: "WarmingRecord"
  r_coordinator_epoch :: "CoordinatorEpoch"
  r_set_generation :: "ReplicaSetGeneration"
  r_health_generation :: "HealthGeneration"
  r_policy_generation :: "PolicyGeneration"
  r_policy_fingerprint :: "string"
  r_compatibility :: "ReplicaCompatibility"

definition ReplicaState_default :: ReplicaState where
  "ReplicaState_default = \<lparr>
     r_id = null_id,
     r_set_id = null_id,
     r_generation = null_id,
     r_node_id = null_id,
     r_worker_id = null_id,
     r_boot_id = null_id,
     r_artifact_id = null_id,
     r_artifact_generation = null_id,
     r_backend = BackendKind.NONE,
     r_backend_identity = [],
     r_device_identity = [],
     r_accelerator = AcceleratorKind.NONE,
     r_compute_capability = ComputeCapability_default,
     r_memory_residency = MemoryResidencyState.UNKNOWN,
     r_warmth = WarmthState.COLD,
     r_readiness = ReadinessState.UNKNOWN,
     r_health = HealthState.UNKNOWN,
     r_lifecycle = ReplicaLifecycle.DECLARED,
     r_placement_id = null_id,
     r_placement = PlacementState.PENDING,
     r_promotion = PromotionState.NOT_PROMOTED,
     r_role = ReplicaRole.NONE,
     r_serving_eligible = False,
     r_active_requests = 0,
     r_reserved_capacity = 0,
     r_capacity_total = 0,
     r_start_time_mono = 0,
     r_start_time_wall = 0,
     r_health_record = HealthRecord_default,
     r_readiness_record = ReadinessRecord_default,
     r_warming_record = WarmingRecord_default,
     r_coordinator_epoch = null_id,
     r_set_generation = null_id,
     r_health_generation = null_id,
     r_policy_generation = null_id,
     r_policy_fingerprint = [],
     r_compatibility = ReplicaCompatibility_default\<rparr>"

section \<open>Replica set\<close>

record ReplicaSetState =
  s_id :: "ReplicaSetId"
  s_model_id :: "ModelId"
  s_workload_id :: "WorkloadId"
  s_tenant_id :: "TenantId"
  s_desired_count :: "u32"
  s_min_healthy :: "u32"
  s_max_replicas :: "u32"
  s_artifact_id :: "ArtifactId"
  s_artifact_generation :: "ArtifactGeneration"
  s_generation :: "ReplicaSetGeneration"
  s_policy_generation :: "PolicyGeneration"
  s_lifecycle :: "ReplicaSetLifecycle"
  s_compatibility :: "CompatibilityRequirements"
  s_policies :: "PolicyBundle"
  s_placement_policy :: "PlacementPolicy"
  s_backend :: "BackendKind"
  s_runtime_name :: "string"
  s_min_compute :: "ComputeCapability"
  s_memory_requirement_bytes :: "u64"
  s_accelerator_requirement :: "u32"

definition ReplicaSetState_default :: ReplicaSetState where
  "ReplicaSetState_default = \<lparr>
     s_id = null_id,
     s_model_id = null_id,
     s_workload_id = null_id,
     s_tenant_id = null_id,
     s_desired_count = 1,
     s_min_healthy = 1,
     s_max_replicas = 1,
     s_artifact_id = null_id,
     s_artifact_generation = null_id,
     s_generation = null_id,
     s_policy_generation = null_id,
     s_lifecycle = ReplicaSetLifecycle.CREATED,
     s_compatibility = CompatibilityRequirements_default,
     s_policies = PolicyBundle_default,
     s_placement_policy = PlacementPolicy_default,
     s_backend = BackendKind.NONE,
     s_runtime_name = [],
     s_min_compute = ComputeCapability_default,
     s_memory_requirement_bytes = 0,
     s_accelerator_requirement = 0\<rparr>"

end
