(* ===== verification/Transition.thy ===== *)
theory Transition
  imports Enums
begin

text \<open>
  The error taxonomy of \<open>core/error.hpp\<close> and the guarded lifecycle transitions of
  \<open>authority/transition.hpp\<close>: the two transition tables, the guards that throw, and
  what the tables allow along any sequence of transitions.
\<close>

section \<open>Errors\<close>

text \<open>The exception classes; all derive from \<open>ReplicaFabricError\<close> and carry a message.\<close>

datatype ReplicaFabricError =
    ReplicaFabricError string
  | StateTransitionError string
  | StaleAuthorityError string
  | ValidationError string
  | PersistenceError string
  | ProtocolError string
  | PlacementError string

section \<open>Transition tables\<close>

definition set_can_transition :: "ReplicaSetLifecycle \<Rightarrow> ReplicaSetLifecycle \<Rightarrow> bool" where
  "set_can_transition from to =
     (case from of
        ReplicaSetLifecycle.CREATED \<Rightarrow> to = ReplicaSetLifecycle.PROVISIONING
      | ReplicaSetLifecycle.PROVISIONING \<Rightarrow>
          to = ReplicaSetLifecycle.AVAILABLE \<or> to = ReplicaSetLifecycle.DEGRADED \<or>
          to = ReplicaSetLifecycle.FAILED \<or> to = ReplicaSetLifecycle.RETIRED
      | ReplicaSetLifecycle.AVAILABLE \<Rightarrow>
          to = ReplicaSetLifecycle.DEGRADED \<or> to = ReplicaSetLifecycle.DRAINING \<or>
          to = ReplicaSetLifecycle.RETIRED
      | ReplicaSetLifecycle.DEGRADED \<Rightarrow>
          to = ReplicaSetLifecycle.AVAILABLE \<or> to = ReplicaSetLifecycle.DRAINING \<or>
          to = ReplicaSetLifecycle.RETIRED \<or> to = ReplicaSetLifecycle.FAILED
      | ReplicaSetLifecycle.DRAINING \<Rightarrow>
          to = ReplicaSetLifecycle.RETIRED \<or> to = ReplicaSetLifecycle.AVAILABLE
      | ReplicaSetLifecycle.RETIRED \<Rightarrow> False
      | ReplicaSetLifecycle.FAILED \<Rightarrow> to = ReplicaSetLifecycle.RETIRED)"

definition can_transition :: "ReplicaLifecycle \<Rightarrow> ReplicaLifecycle \<Rightarrow> bool" where
  "can_transition from to =
     (case from of
        ReplicaLifecycle.DECLARED \<Rightarrow>
          to = ReplicaLifecycle.ALLOCATING \<or> to = ReplicaLifecycle.STARTING \<or>
          to = ReplicaLifecycle.FAILED \<or> to = ReplicaLifecycle.RETIRED
      | ReplicaLifecycle.ALLOCATING \<Rightarrow>
          to = ReplicaLifecycle.STARTING \<or> to = ReplicaLifecycle.FAILED \<or>
          to = ReplicaLifecycle.RETIRED
      | ReplicaLifecycle.STARTING \<Rightarrow>
          to = ReplicaLifecycle.WARMING \<or> to = ReplicaLifecycle.READY \<or>
          to = ReplicaLifecycle.FAILED \<or> to = ReplicaLifecycle.RETIRED
      | ReplicaLifecycle.WARMING \<Rightarrow>
          to = ReplicaLifecycle.READY \<or> to = ReplicaLifecycle.STARTING \<or>
          to = ReplicaLifecycle.FAILED \<or> to = ReplicaLifecycle.RETIRED
      | ReplicaLifecycle.READY \<Rightarrow>
          to = ReplicaLifecycle.SERVING \<or> to = ReplicaLifecycle.WARMING \<or>
          to = ReplicaLifecycle.DRAINING \<or> to = ReplicaLifecycle.FAILED \<or>
          to = ReplicaLifecycle.RETIRED
      | ReplicaLifecycle.SERVING \<Rightarrow>
          to = ReplicaLifecycle.READY \<or> to = ReplicaLifecycle.DRAINING \<or>
          to = ReplicaLifecycle.FAILED \<or> to = ReplicaLifecycle.RETIRED
      | ReplicaLifecycle.DRAINING \<Rightarrow>
          to = ReplicaLifecycle.QUIESCED \<or> to = ReplicaLifecycle.READY \<or>
          to = ReplicaLifecycle.FAILED \<or> to = ReplicaLifecycle.RETIRED
      | ReplicaLifecycle.QUIESCED \<Rightarrow>
          to = ReplicaLifecycle.RETIRED \<or> to = ReplicaLifecycle.READY
      | ReplicaLifecycle.FAILED \<Rightarrow> to = ReplicaLifecycle.RETIRED
      | ReplicaLifecycle.RETIRED \<Rightarrow> False)"

definition guard_transition ::
  "ReplicaLifecycle \<Rightarrow> ReplicaLifecycle \<Rightarrow> ReplicaFabricError + unit" where
  "guard_transition from to =
     (if \<not> can_transition from to
      then Inl (StateTransitionError (''replica lifecycle transition '' @
             ReplicaLifecycle_to_string from @ '' -> '' @ ReplicaLifecycle_to_string to @
             '' is not allowed''))
      else Inr ())"

definition set_guard_transition ::
  "ReplicaSetLifecycle \<Rightarrow> ReplicaSetLifecycle \<Rightarrow> ReplicaFabricError + unit" where
  "set_guard_transition from to =
     (if \<not> set_can_transition from to
      then Inl (StateTransitionError (''replica-set lifecycle transition '' @
             ReplicaSetLifecycle_to_string from @ '' -> '' @ ReplicaSetLifecycle_to_string to @
             '' is not allowed''))
      else Inr ())"

section \<open>What one transition can do\<close>

lemma can_transition_SERVING:
  "can_transition l ReplicaLifecycle.SERVING \<longleftrightarrow> l = ReplicaLifecycle.READY"
  by (cases l) (simp_all add: can_transition_def)

lemma can_transition_READY:
  "can_transition l ReplicaLifecycle.READY \<longleftrightarrow>
     l \<in> {ReplicaLifecycle.STARTING, ReplicaLifecycle.WARMING, ReplicaLifecycle.SERVING,
          ReplicaLifecycle.DRAINING, ReplicaLifecycle.QUIESCED}"
  by (cases l) (simp_all add: can_transition_def)

lemma can_transition_WARMING:
  "can_transition l ReplicaLifecycle.WARMING \<longleftrightarrow>
     l = ReplicaLifecycle.STARTING \<or> l = ReplicaLifecycle.READY"
  by (cases l) (simp_all add: can_transition_def)

lemma can_transition_STARTING:
  "can_transition l ReplicaLifecycle.STARTING \<longleftrightarrow>
     l \<in> {ReplicaLifecycle.DECLARED, ReplicaLifecycle.ALLOCATING, ReplicaLifecycle.WARMING}"
  by (cases l) (simp_all add: can_transition_def)

lemma can_transition_ALLOCATING:
  "can_transition l ReplicaLifecycle.ALLOCATING \<longleftrightarrow> l = ReplicaLifecycle.DECLARED"
  by (cases l) (simp_all add: can_transition_def)

lemma can_transition_DRAINING:
  "can_transition l ReplicaLifecycle.DRAINING \<longleftrightarrow>
     l = ReplicaLifecycle.READY \<or> l = ReplicaLifecycle.SERVING"
  by (cases l) (simp_all add: can_transition_def)

lemma can_transition_QUIESCED:
  "can_transition l ReplicaLifecycle.QUIESCED \<longleftrightarrow> l = ReplicaLifecycle.DRAINING"
  by (cases l) (simp_all add: can_transition_def)

lemma can_transition_FAILED:
  "can_transition l ReplicaLifecycle.FAILED \<longleftrightarrow>
     l \<notin> {ReplicaLifecycle.QUIESCED, ReplicaLifecycle.FAILED, ReplicaLifecycle.RETIRED}"
  by (cases l) (simp_all add: can_transition_def)

lemma can_transition_RETIRED:
  "can_transition l ReplicaLifecycle.RETIRED \<longleftrightarrow> l \<noteq> ReplicaLifecycle.RETIRED"
  by (cases l) (simp_all add: can_transition_def)

lemma can_transition_from_FAILED:
  "can_transition ReplicaLifecycle.FAILED l \<longleftrightarrow> l = ReplicaLifecycle.RETIRED"
  by (simp add: can_transition_def)

lemma can_transition_from_RETIRED: "\<not> can_transition ReplicaLifecycle.RETIRED l"
  by (simp add: can_transition_def)

lemmas can_transition_to =
  can_transition_SERVING can_transition_READY can_transition_WARMING can_transition_STARTING
  can_transition_ALLOCATING can_transition_DRAINING can_transition_QUIESCED
  can_transition_FAILED can_transition_RETIRED

lemma set_can_transition_AVAILABLE:
  "set_can_transition l ReplicaSetLifecycle.AVAILABLE \<longleftrightarrow>
     l \<in> {ReplicaSetLifecycle.PROVISIONING, ReplicaSetLifecycle.DEGRADED,
          ReplicaSetLifecycle.DRAINING}"
  by (cases l) (simp_all add: set_can_transition_def)

lemma set_can_transition_DEGRADED:
  "set_can_transition l ReplicaSetLifecycle.DEGRADED \<longleftrightarrow>
     l \<in> {ReplicaSetLifecycle.PROVISIONING, ReplicaSetLifecycle.AVAILABLE}"
  by (cases l) (simp_all add: set_can_transition_def)

section \<open>Sequences of transitions\<close>

text \<open>A walk visits the states after the first one, each allowed by the table.\<close>

fun lifecycle_walk :: "ReplicaLifecycle \<Rightarrow> ReplicaLifecycle list \<Rightarrow> bool" where
  "lifecycle_walk l [] = True"
| "lifecycle_walk l (l' # ls) \<longleftrightarrow> can_transition l l' \<and> lifecycle_walk l' ls"

lemma walk_append:
  "lifecycle_walk l (xs @ ys) \<longleftrightarrow> lifecycle_walk l xs \<and> lifecycle_walk (last (l # xs)) ys"
  by (induction l xs rule: lifecycle_walk.induct) auto

lemma walk_from_FAILED:
  "lifecycle_walk ReplicaLifecycle.FAILED ls \<Longrightarrow> ls = [] \<or> ls = [ReplicaLifecycle.RETIRED]"
  by (cases ls; cases "tl ls")
     (auto simp: can_transition_from_FAILED can_transition_from_RETIRED)

lemma walk_to_SERVING_last:
  assumes "lifecycle_walk l (ls @ [ReplicaLifecycle.SERVING])"
  shows "last (l # ls) = ReplicaLifecycle.READY"
  using assms by (simp add: walk_append can_transition_SERVING)

lemma walk_hits_SERVING:
  assumes "lifecycle_walk l ls" and "ReplicaLifecycle.SERVING \<in> set ls"
  shows "l = ReplicaLifecycle.READY \<or> ReplicaLifecycle.READY \<in> set ls"
  using assms
proof (induction l ls rule: lifecycle_walk.induct)
  case (2 l l' ls)
  then show ?case by (auto simp: can_transition_SERVING)
qed simp

text \<open>
  No sequence of allowed transitions takes a replica that is draining or quiesced back
  to serving without an explicit pass through \<open>READY\<close>; a failed replica can only be
  retired, and a retired one stays as it is.
\<close>

theorem drained_not_silently_serving:
  assumes "lifecycle_walk l ls"
  shows "(l \<in> {ReplicaLifecycle.DRAINING, ReplicaLifecycle.QUIESCED} \<and>
          ReplicaLifecycle.SERVING \<in> set ls \<longrightarrow> ReplicaLifecycle.READY \<in> set ls) \<and>
         (l = ReplicaLifecycle.FAILED \<longrightarrow> set ls \<subseteq> {ReplicaLifecycle.RETIRED}) \<and>
         (l = ReplicaLifecycle.RETIRED \<longrightarrow> ls = [])"
proof -
  have "l = ReplicaLifecycle.RETIRED \<longrightarrow> ls = []"
    using assms by (cases ls) (auto simp: can_transition_from_RETIRED)
  with assms show ?thesis
    using walk_hits_SERVING walk_from_FAILED by fastforce
qed

theorem drained_not_silently_serving_witness:
  "ReplicaLifecycle.READY \<in> set [ReplicaLifecycle.QUIESCED, ReplicaLifecycle.READY,
     ReplicaLifecycle.SERVING]"
  using drained_not_silently_serving
    [of ReplicaLifecycle.DRAINING
        "[ReplicaLifecycle.QUIESCED, ReplicaLifecycle.READY, ReplicaLifecycle.SERVING]"]
  by (simp add: can_transition_def)

text \<open>
  The guard throws exactly on the moves the table does not allow, and its message names
  the two states; from every state but \<open>RETIRED\<close> the replica can be retired at once.
\<close>

theorem guard_transition_exact:
  "(guard_transition l l' = Inr () \<longleftrightarrow> can_transition l l') \<and>
   (guard_transition l l' = Inl (StateTransitionError (''replica lifecycle transition '' @
      ReplicaLifecycle_to_string l @ '' -> '' @ ReplicaLifecycle_to_string l' @
      '' is not allowed'')) \<longleftrightarrow> \<not> can_transition l l') \<and>
   (guard_transition l ReplicaLifecycle.RETIRED = Inr () \<longleftrightarrow> l \<noteq> ReplicaLifecycle.RETIRED) \<and>
   \<not> can_transition l l"
  by (cases l) (auto simp: guard_transition_def can_transition_RETIRED can_transition_def)

end
