(* ===== verification/Serving_Authority.thy ===== *)
theory Serving_Authority
  imports Model Transition
begin

text \<open>
  The serving-authority gate of \<open>authority/serving_authority.hpp\<close>: sixteen named
  factors are evaluated in a fixed order, every one is reported with its explanation, and
  the replica is eligible when all are satisfied; the rejection names the first that is not.
\<close>

section \<open>The gate\<close>

record AuthorityFactor =
  af_name :: string
  af_satisfied :: bool
  af_detail :: string

record ServingAuthorityContext =
  cx_epoch :: CoordinatorEpoch
  cx_set_generation :: ReplicaSetGeneration
  cx_policy_generation :: PolicyGeneration
  cx_artifact_generation :: ArtifactGeneration
  cx_health_generation :: HealthGeneration
  cx_worker_boot :: WorkerBootId
  cx_policy_fingerprint :: string

record ServingAuthorityDecision =
  sa_eligible :: bool
  sa_factors :: "AuthorityFactor list"
  sa_rejection :: string

definition ServingAuthorityDecision_default :: ServingAuthorityDecision where
  "ServingAuthorityDecision_default = \<lparr>sa_eligible = False, sa_factors = [], sa_rejection = []\<rparr>"

definition not_satisfied :: "string \<Rightarrow> string" where
  "not_satisfied name = ''authority factor '' @ [CHR 0x27] @ name @ [CHR 0x27] @ '' not satisfied''"

text \<open>The lambda \<open>add\<close> of the evaluation.\<close>

definition add_factor ::
  "string \<Rightarrow> bool \<Rightarrow> string \<Rightarrow> ServingAuthorityDecision \<Rightarrow> ServingAuthorityDecision" where
  "add_factor name ok detail d =
     (let d = d\<lparr>sa_factors := sa_factors d @ [\<lparr>af_name = name, af_satisfied = ok, af_detail = detail\<rparr>]\<rparr>
      in if \<not> ok
         then (let d = d\<lparr>sa_eligible := False\<rparr>
               in if sa_rejection d = [] then d\<lparr>sa_rejection := not_satisfied name\<rparr> else d)
         else d)"

definition evaluate_serving_authority ::
  "ReplicaState \<Rightarrow> ReplicaSetState \<Rightarrow> ServingAuthorityContext \<Rightarrow> ServingAuthorityDecision" where
  "evaluate_serving_authority r st cur =
     (let d = ServingAuthorityDecision_default\<lparr>sa_eligible := True\<rparr>;
          set_can_serve = (s_lifecycle st = ReplicaSetLifecycle.AVAILABLE \<or>
                           s_lifecycle st = ReplicaSetLifecycle.DEGRADED);
          d = add_factor ''SET_LIFECYCLE'' set_can_serve
                (if set_can_serve then ''replica set lifecycle permits serving''
                 else ''replica set lifecycle is '' @ ReplicaSetLifecycle_to_string (s_lifecycle st) @
                      '' and does not permit serving'') d;
          d = add_factor ''COORDINATOR_EPOCH'' (r_coordinator_epoch r = cx_epoch cur)
                (if r_coordinator_epoch r = cx_epoch cur then ''epoch matches''
                 else ''replica epoch stale'') d;
          d = add_factor ''SET_GENERATION'' (r_set_generation r = cx_set_generation cur)
                (if r_set_generation r = cx_set_generation cur
                 then ''replica-set generation matches'' else ''replica-set generation stale'') d;
          d = add_factor ''REPLICA_GENERATION'' (\<not> is_null (r_generation r))
                (''replica is a real incarnation (generation '' @ id_str (r_generation r) @ '')'') d;
          d = add_factor ''ARTIFACT_GENERATION''
                (r_artifact_generation r = cx_artifact_generation cur \<and>
                 r_artifact_generation r = s_artifact_generation st)
                ''artifact generation matches'' d;
          d = add_factor ''HEALTH_GENERATION'' (r_health_generation r = cx_health_generation cur)
                ''health generation current'' d;
          d = add_factor ''POLICY_GENERATION'' (r_policy_generation r = cx_policy_generation cur)
                ''policy generation current'' d;
          d = add_factor ''POLICY_FINGERPRINT''
                (r_policy_fingerprint r = cx_policy_fingerprint cur \<and>
                 cx_policy_fingerprint cur = cq_policy_fingerprint (s_compatibility st))
                ''policy fingerprint matches'' d;
          d = add_factor ''WORKER_BOOT'' (r_boot_id r = cx_worker_boot cur)
                (if r_boot_id r = cx_worker_boot cur then ''worker boot identity current''
                 else ''worker boot identity stale (process restarted)'') d;
          d = add_factor ''LIFECYCLE'' (r_lifecycle r = ReplicaLifecycle.SERVING)
                (''replica lifecycle is '' @ ReplicaLifecycle_to_string (r_lifecycle r)) d;
          health_ok = (r_health r = HealthState.HEALTHY \<or> r_health r = HealthState.DEGRADED);
          d = add_factor ''HEALTH'' health_ok
                (''health is '' @ HealthState_to_string (r_health r)) d;
          d = add_factor ''READINESS'' (r_readiness r = ReadinessState.READY)
                (''readiness is '' @ ReadinessState_to_string (r_readiness r)) d;
          d = add_factor ''WARMTH'' (r_warmth r = WarmthState.WARM)
                (''warmth is '' @ WarmthState_to_string (r_warmth r)) d;
          d = add_factor ''PROMOTION'' (r_promotion r \<noteq> PromotionState.NOT_PROMOTED)
                (''promotion state is '' @ PromotionState_to_string (r_promotion r)) d;
          d = add_factor ''SERVING_FLAG'' (r_serving_eligible r) ''serving_eligible flag set'' d;
          d = add_factor ''PLACEMENT'' (r_placement r = PlacementState.ASSIGNED)
                ''placement assigned'' d
      in d)"

section \<open>The factors as a specification\<close>

text \<open>What must agree for a replica to serve, factor by factor, in the order of evaluation.\<close>

definition authority_factors ::
  "ReplicaState \<Rightarrow> ReplicaSetState \<Rightarrow> ServingAuthorityContext \<Rightarrow> (string \<times> bool) list" where
  "authority_factors r st cur =
     [(''SET_LIFECYCLE'', s_lifecycle st \<in> {ReplicaSetLifecycle.AVAILABLE, ReplicaSetLifecycle.DEGRADED}),
      (''COORDINATOR_EPOCH'', r_coordinator_epoch r = cx_epoch cur),
      (''SET_GENERATION'', r_set_generation r = cx_set_generation cur),
      (''REPLICA_GENERATION'', r_generation r \<noteq> null_id),
      (''ARTIFACT_GENERATION'', r_artifact_generation r = cx_artifact_generation cur \<and>
                                r_artifact_generation r = s_artifact_generation st),
      (''HEALTH_GENERATION'', r_health_generation r = cx_health_generation cur),
      (''POLICY_GENERATION'', r_policy_generation r = cx_policy_generation cur),
      (''POLICY_FINGERPRINT'', r_policy_fingerprint r = cx_policy_fingerprint cur \<and>
                               cx_policy_fingerprint cur = cq_policy_fingerprint (s_compatibility st)),
      (''WORKER_BOOT'', r_boot_id r = cx_worker_boot cur),
      (''LIFECYCLE'', r_lifecycle r = ReplicaLifecycle.SERVING),
      (''HEALTH'', r_health r \<in> {HealthState.HEALTHY, HealthState.DEGRADED}),
      (''READINESS'', r_readiness r = ReadinessState.READY),
      (''WARMTH'', r_warmth r = WarmthState.WARM),
      (''PROMOTION'', r_promotion r \<noteq> PromotionState.NOT_PROMOTED),
      (''SERVING_FLAG'', r_serving_eligible r),
      (''PLACEMENT'', r_placement r = PlacementState.ASSIGNED)]"

text \<open>
  A decision reports a list of factors when it holds them in order, is eligible exactly when
  all hold, and its rejection names the first that does not.
\<close>

definition reports :: "ServingAuthorityDecision \<Rightarrow> (string \<times> bool) list \<Rightarrow> bool" where
  "reports d fs \<longleftrightarrow>
     map (\<lambda>f. (af_name f, af_satisfied f)) (sa_factors d) = fs \<and>
     sa_eligible d = list_all snd fs \<and>
     sa_rejection d = (case find (\<lambda>f. \<not> snd f) fs of None \<Rightarrow> [] | Some f \<Rightarrow> not_satisfied (fst f))"

lemma not_satisfied_nonempty [simp]: "not_satisfied name \<noteq> []"
  by (simp add: not_satisfied_def)

lemma find_append: "find P (xs @ ys) = (case find P xs of None \<Rightarrow> find P ys | Some x \<Rightarrow> Some x)"
  by (induction xs) auto

lemma list_all_find: "list_all snd xs \<longleftrightarrow> find (\<lambda>f. \<not> snd f) xs = None"
  by (induction xs) auto

lemma reports_add_factor:
  "reports d fs \<Longrightarrow> reports (add_factor name ok detail d) (fs @ [(name, ok)])"
  by (auto simp: reports_def add_factor_def Let_def find_append list_all_find
      split: option.splits)

lemma reports_start: "reports (ServingAuthorityDecision_default\<lparr>sa_eligible := True\<rparr>) []"
  by (simp add: reports_def ServingAuthorityDecision_default_def)

lemma evaluate_reports: "reports (evaluate_serving_authority r st cur) (authority_factors r st cur)"
proof -
  note step = reports_add_factor
  have "reports (evaluate_serving_authority r st cur)
     ((((((((((((((((([] @ [(''SET_LIFECYCLE'', s_lifecycle st = ReplicaSetLifecycle.AVAILABLE \<or>
                              s_lifecycle st = ReplicaSetLifecycle.DEGRADED)]) @
      [(''COORDINATOR_EPOCH'', r_coordinator_epoch r = cx_epoch cur)]) @
      [(''SET_GENERATION'', r_set_generation r = cx_set_generation cur)]) @
      [(''REPLICA_GENERATION'', \<not> is_null (r_generation r))]) @
      [(''ARTIFACT_GENERATION'', r_artifact_generation r = cx_artifact_generation cur \<and>
                                r_artifact_generation r = s_artifact_generation st)]) @
      [(''HEALTH_GENERATION'', r_health_generation r = cx_health_generation cur)]) @
      [(''POLICY_GENERATION'', r_policy_generation r = cx_policy_generation cur)]) @
      [(''POLICY_FINGERPRINT'', r_policy_fingerprint r = cx_policy_fingerprint cur \<and>
                               cx_policy_fingerprint cur = cq_policy_fingerprint (s_compatibility st))]) @
      [(''WORKER_BOOT'', r_boot_id r = cx_worker_boot cur)]) @
      [(''LIFECYCLE'', r_lifecycle r = ReplicaLifecycle.SERVING)]) @
      [(''HEALTH'', r_health r = HealthState.HEALTHY \<or> r_health r = HealthState.DEGRADED)]) @
      [(''READINESS'', r_readiness r = ReadinessState.READY)]) @
      [(''WARMTH'', r_warmth r = WarmthState.WARM)]) @
      [(''PROMOTION'', r_promotion r \<noteq> PromotionState.NOT_PROMOTED)]) @
      [(''SERVING_FLAG'', r_serving_eligible r)]) @
      [(''PLACEMENT'', r_placement r = PlacementState.ASSIGNED)]))"
    unfolding evaluate_serving_authority_def Let_def
    by (intro step reports_start)
  then show ?thesis
    by (simp add: authority_factors_def)
qed

lemma eligible_iff:
  "sa_eligible (evaluate_serving_authority r st cur) \<longleftrightarrow> list_all snd (authority_factors r st cur)"
  using evaluate_reports [of r st cur] by (simp add: reports_def)

text \<open>
  The gate is sound and complete: a replica is eligible exactly when every one of the
  sixteen authority factors holds, each factor is reported once, in order, with its truth,
  and the rejection is empty for an eligible replica and otherwise names the first factor
  that does not hold.
\<close>

theorem gate_reports_every_factor:
  "reports (evaluate_serving_authority r st cur) (authority_factors r st cur) \<and>
   length (sa_factors (evaluate_serving_authority r st cur)) = 16"
proof
  show "reports (evaluate_serving_authority r st cur) (authority_factors r st cur)"
    by (rule evaluate_reports)
  then have "map (\<lambda>f. (af_name f, af_satisfied f))
      (sa_factors (evaluate_serving_authority r st cur)) = authority_factors r st cur"
    by (simp add: reports_def)
  then have "length (sa_factors (evaluate_serving_authority r st cur)) =
      length (authority_factors r st cur)"
    by (metis length_map)
  then show "length (sa_factors (evaluate_serving_authority r st cur)) = 16"
    by (simp add: authority_factors_def)
qed

section \<open>The library's entry points\<close>

definition version_string :: string where
  "version_string = ''1.0.0''"

definition rf_serving_authority_smoke :: "ReplicaState \<Rightarrow> ReplicaSetState \<Rightarrow> ServingAuthorityContext \<Rightarrow> bool" where
  "rf_serving_authority_smoke r st ctx = sa_eligible (evaluate_serving_authority r st ctx)"

end
