(* ===== verification/Controller.thy ===== *)
theory Controller
  imports Ordered_Map Serving_Authority
begin

text \<open>
  The authoritative controller of \<open>core/replica_set_controller.hpp\<close> and
  \<open>src/replica_set_controller.cpp\<close>. The class's state is the record
  \<open>controller\<close>; every public operation is one definition that takes the state and
  returns the operation's result with the state after it, since each runs under the
  controller's single mutex. The random engine is part of the state. Map iterations are
  list functions in key order.
\<close>

section \<open>Results and records\<close>

datatype OpStatus = OK | REJECTED | INVALID

record OpResult =
  op_status :: OpStatus
  op_message :: string

definition op_ok :: "string \<Rightarrow> OpResult" where
  "op_ok msg = \<lparr>op_status = OpStatus.OK, op_message = msg\<rparr>"

definition op_rejected :: "string \<Rightarrow> OpResult" where
  "op_rejected msg = \<lparr>op_status = OpStatus.REJECTED, op_message = msg\<rparr>"

definition op_invalid :: "string \<Rightarrow> OpResult" where
  "op_invalid msg = \<lparr>op_status = OpStatus.INVALID, op_message = msg\<rparr>"

definition is_ok :: "OpResult \<Rightarrow> bool" where
  "is_ok res \<longleftrightarrow> op_status res = OpStatus.OK"

definition is_rejected :: "OpResult \<Rightarrow> bool" where
  "is_rejected res \<longleftrightarrow> op_status res = OpStatus.REJECTED"

lemma op_result_simps [simp]:
  "is_ok (op_ok m)" "\<not> is_ok (op_rejected m)" "\<not> is_ok (op_invalid m)"
  "is_rejected (op_rejected m)" "\<not> is_rejected (op_ok m)" "\<not> is_rejected (op_invalid m)"
  by (simp_all add: is_ok_def is_rejected_def op_ok_def op_rejected_def op_invalid_def)

record WorkerRegistration =
  w_worker_id :: "WorkerId"
  w_boot_id :: "WorkerBootId"
  w_node_id :: "NodeId"
  w_inventory :: "ResourceInventory"
  w_hosted_set_generation :: "ReplicaSetGeneration"
  w_protocol_version :: "u32"

definition WorkerRegistration_default :: WorkerRegistration where
  "WorkerRegistration_default = \<lparr>
     w_worker_id = null_id,
     w_boot_id = null_id,
     w_node_id = null_id,
     w_inventory = ResourceInventory_default,
     w_hosted_set_generation = null_id,
     w_protocol_version = 0\<rparr>"

record PromotionRecord =
  p_id :: "PromotionId"
  p_replica_id :: "ReplicaId"
  p_set_id :: "ReplicaSetId"
  p_replica_generation :: "ReplicaGeneration"
  p_set_generation :: "ReplicaSetGeneration"
  p_epoch :: "CoordinatorEpoch"
  p_from :: "PromotionState"
  p_to :: "PromotionState"
  p_when_mono :: "u64"
  p_when_wall :: "i64"
  p_reason :: "string"

definition PromotionRecord_default :: PromotionRecord where
  "PromotionRecord_default = \<lparr>
     p_id = null_id,
     p_replica_id = null_id,
     p_set_id = null_id,
     p_replica_generation = null_id,
     p_set_generation = null_id,
     p_epoch = null_id,
     p_from = PromotionState.NOT_PROMOTED,
     p_to = PromotionState.PRIMARY,
     p_when_mono = 0,
     p_when_wall = 0,
     p_reason = []\<rparr>"

record DrainRecord =
  d_id :: "DrainId"
  d_replica_id :: "ReplicaId"
  d_set_id :: "ReplicaSetId"
  d_state :: "DrainState"
  d_started_mono :: "u64"
  d_completed_mono :: "u64"
  d_force_cancelled :: "bool"
  d_quiesced_requests :: "u64"
  d_reason :: "string"

definition DrainRecord_default :: DrainRecord where
  "DrainRecord_default = \<lparr>
     d_id = null_id,
     d_replica_id = null_id,
     d_set_id = null_id,
     d_state = DrainState.NOT_DRAINING,
     d_started_mono = 0,
     d_completed_mono = 0,
     d_force_cancelled = False,
     d_quiesced_requests = 0,
     d_reason = []\<rparr>"

record FailoverRecord =
  f_id :: "FailoverId"
  f_set_id :: "ReplicaSetId"
  f_failed_replica :: "ReplicaId"
  f_replacement :: "ReplicaId"
  f_state :: "FailoverState"
  f_epoch :: "CoordinatorEpoch"
  f_started_mono :: "u64"
  f_completed_mono :: "u64"
  f_generation_preserved :: "bool"
  f_ambiguous_outcomes :: "WorkOutcome list"
  f_reason :: "string"

definition FailoverRecord_default :: FailoverRecord where
  "FailoverRecord_default = \<lparr>
     f_id = null_id,
     f_set_id = null_id,
     f_failed_replica = null_id,
     f_replacement = null_id,
     f_state = FailoverState.TRIGGERED,
     f_epoch = null_id,
     f_started_mono = 0,
     f_completed_mono = 0,
     f_generation_preserved = True,
     f_ambiguous_outcomes = [],
     f_reason = []\<rparr>"

section \<open>State\<close>

record controller =
  ct_sets :: "(ReplicaSetId, ReplicaSetState) omap"
  ct_replicas :: "(ReplicaId, ReplicaState) omap"
  ct_workers :: "(WorkerId, WorkerRegistration) omap"
  ct_promotions :: "PromotionRecord list"
  ct_drains :: "DrainRecord list"
  ct_failovers :: "FailoverRecord list"
  ct_epoch :: CoordinatorEpoch
  ct_rng :: engine

definition new_controller :: "engine \<Rightarrow> controller" where
  "new_controller g = \<lparr>ct_sets = [], ct_replicas = [], ct_workers = [], ct_promotions = [],
     ct_drains = [], ct_failovers = [], ct_epoch = null_id, ct_rng = g\<rparr>"

text \<open>The private helpers that mint identities from the engine.\<close>

definition fresh_generation :: "controller \<Rightarrow> ReplicaGeneration \<times> controller" where
  "fresh_generation c = (let (i, g) = random_id (ct_rng c) in (i, c\<lparr>ct_rng := g\<rparr>))"

definition fresh_set_generation :: "controller \<Rightarrow> ReplicaSetGeneration \<times> controller" where
  "fresh_set_generation c = (let (i, g) = random_id (ct_rng c) in (i, c\<lparr>ct_rng := g\<rparr>))"

definition fresh_placement :: "controller \<Rightarrow> PlacementId \<times> controller" where
  "fresh_placement c = (let (i, g) = random_id (ct_rng c) in (i, c\<lparr>ct_rng := g\<rparr>))"

text \<open>Writing through the reference \<open>it->second\<close> of a map.\<close>

definition put_replica :: "ReplicaId \<Rightarrow> ReplicaState \<Rightarrow> controller \<Rightarrow> controller" where
  "put_replica rid r c = c\<lparr>ct_replicas := om_put rid r (ct_replicas c)\<rparr>"

definition put_set :: "ReplicaSetId \<Rightarrow> ReplicaSetState \<Rightarrow> controller \<Rightarrow> controller" where
  "put_set sid s c = c\<lparr>ct_sets := om_put sid s (ct_sets c)\<rparr>"

definition controller_empty :: "controller \<Rightarrow> bool" where
  "controller_empty c \<longleftrightarrow> ct_sets c = [] \<and> ct_replicas c = []"

section \<open>Workers\<close>

definition fail_on_restart :: "ReplicaState \<Rightarrow> ReplicaState" where
  "fail_on_restart r = r\<lparr>
     r_serving_eligible := False,
     r_health := HealthState.FAILED,
     r_health_record := (r_health_record r)\<lparr>hr_state := HealthState.FAILED,
       hr_reason := ''worker restarted under a new boot identity''\<rparr>,
     r_lifecycle := ReplicaLifecycle.FAILED,
     r_promotion := PromotionState.NOT_PROMOTED,
     r_role := ReplicaRole.NONE,
     r_active_requests := 0\<rparr>"

definition register_worker ::
  "WorkerRegistration \<Rightarrow> u64 \<Rightarrow> i64 \<Rightarrow> controller \<Rightarrow> OpResult \<times> controller" where
  "register_worker wr t_mono t_wall c =
     (let restart = (case om_find (ct_workers c) (w_worker_id wr) of
                       None \<Rightarrow> False
                     | Some old \<Rightarrow> w_boot_id old \<noteq> w_boot_id wr);
          c = (if restart
               then c\<lparr>ct_replicas := om_map (\<lambda>rid r.
                        if r_worker_id r = w_worker_id wr \<and> r_lifecycle r = ReplicaLifecycle.SERVING
                        then fail_on_restart r else r) (ct_replicas c)\<rparr>
               else c);
          c = c\<lparr>ct_workers := om_put (w_worker_id wr) wr (ct_workers c)\<rparr>
      in (op_ok (''worker registered (boot '' @ id_str (w_boot_id wr) @ '')''), c))"

definition fail_on_disconnect :: "ReplicaState \<Rightarrow> ReplicaState" where
  "fail_on_disconnect r = r\<lparr>
     r_serving_eligible := False,
     r_health := HealthState.FAILED,
     r_health_record := (r_health_record r)\<lparr>hr_state := HealthState.FAILED,
       hr_reason := ''worker disconnected''\<rparr>,
     r_lifecycle := ReplicaLifecycle.FAILED,
     r_promotion := PromotionState.NOT_PROMOTED,
     r_role := ReplicaRole.NONE\<rparr>"

definition had_authority :: "ReplicaState \<Rightarrow> bool" where
  "had_authority r \<longleftrightarrow>
     r_serving_eligible r \<or> r_lifecycle r = ReplicaLifecycle.SERVING \<or>
     r_lifecycle r = ReplicaLifecycle.READY \<or> r_lifecycle r = ReplicaLifecycle.DRAINING"

definition unregister_worker :: "WorkerId \<Rightarrow> controller \<Rightarrow> OpResult \<times> controller" where
  "unregister_worker worker_id c =
     (if om_find (ct_workers c) worker_id = None then (op_rejected ''unknown worker'', c)
      else
        (let c = c\<lparr>ct_replicas := om_map (\<lambda>rid r.
                     if r_worker_id r = worker_id \<and> had_authority r
                     then fail_on_disconnect r else r) (ct_replicas c)\<rparr>;
             c = c\<lparr>ct_workers := om_erase worker_id (ct_workers c)\<rparr>
         in (op_ok ''worker unregistered'', c)))"

definition find_worker :: "WorkerId \<Rightarrow> controller \<Rightarrow> WorkerRegistration option" where
  "find_worker worker_id c = om_find (ct_workers c) worker_id"

section \<open>Replica sets\<close>

definition create_replica_set ::
  "ReplicaSetState \<Rightarrow> CoordinatorEpoch \<Rightarrow> controller \<Rightarrow> OpResult \<times> controller" where
  "create_replica_set st epoch c =
     (if om_find (ct_sets c) (s_id st) \<noteq> None
      then (op_rejected ''replica set already exists'', c)
      else if s_max_replicas st = 0 \<or> s_desired_count st = 0 \<or> s_min_healthy st = 0 \<or>
              s_min_healthy st > s_max_replicas st \<or> s_desired_count st > s_max_replicas st
      then (op_invalid ''replica set counts invalid (desired/min_healthy/max must satisfy 0 < min <= desired <= max)'', c)
      else (let c = put_set (s_id st) st c;
                c = c\<lparr>ct_epoch := epoch\<rparr>
            in (op_ok ''replica set created'', c)))"

definition transition_replica_set ::
  "ReplicaSetId \<Rightarrow> ReplicaSetLifecycle \<Rightarrow> controller \<Rightarrow> OpResult \<times> controller" where
  "transition_replica_set set_id to c =
     (case om_find (ct_sets c) set_id of
        None \<Rightarrow> (op_rejected ''unknown replica set'', c)
      | Some s \<Rightarrow>
          if \<not> set_can_transition (s_lifecycle s) to
          then (op_invalid (''replica-set lifecycle transition '' @
                  ReplicaSetLifecycle_to_string (s_lifecycle s) @ '' -> '' @
                  ReplicaSetLifecycle_to_string to @ '' is not allowed''), c)
          else (op_ok (''replica-set lifecycle -> '' @ ReplicaSetLifecycle_to_string to),
                put_set set_id (s\<lparr>s_lifecycle := to\<rparr>) c))"

definition find_set :: "ReplicaSetId \<Rightarrow> controller \<Rightarrow> ReplicaSetState option" where
  "find_set set_id c = om_find (ct_sets c) set_id"

section \<open>Provisioning and warming\<close>

definition worker_boot_matches :: "ReplicaState \<Rightarrow> WorkerId \<Rightarrow> WorkerBootId \<Rightarrow> bool" where
  "worker_boot_matches r worker boot \<longleftrightarrow> r_worker_id r = worker \<and> r_boot_id r = boot"

text \<open>The loop counter is a \<open>uint32_t\<close>.\<close>

definition replica_count :: "ReplicaSetId \<Rightarrow> controller \<Rightarrow> u32" where
  "replica_count set_id c = of_nat (om_count (\<lambda>rid r. r_set_id r = set_id) (ct_replicas c))"

text \<open>The replica that provisioning puts into the map, with its two fresh generations.\<close>

definition new_replica ::
  "ReplicaId \<Rightarrow> ReplicaSetId \<Rightarrow> WorkerId \<Rightarrow> ReplicaSetState \<Rightarrow> WorkerRegistration \<Rightarrow>
   ReplicaCompatibility \<Rightarrow> DeviceCapability \<Rightarrow> u64 \<Rightarrow> u64 \<Rightarrow> i64 \<Rightarrow> CoordinatorEpoch \<Rightarrow>
   ReplicaGeneration \<Rightarrow> HealthGeneration \<Rightarrow> ReplicaState" where
  "new_replica replica_id set_id worker_id st reg cmpt device capacity t_mono t_wall epoch gen hgen =
     ReplicaState_default\<lparr>
     r_id := replica_id,
     r_set_id := set_id,
     r_generation := gen,
     r_node_id := w_node_id reg,
     r_worker_id := worker_id,
     r_boot_id := w_boot_id reg,
     r_artifact_id := s_artifact_id st,
     r_artifact_generation := s_artifact_generation st,
     r_backend := cp_backend cmpt,
     r_backend_identity := cp_runtime_name cmpt,
     r_device_identity := dv_device_id device,
     r_accelerator := dv_kind device,
     r_compute_capability := dv_compute device,
     r_memory_residency := MemoryResidencyState.NOT_RESIDENT,
     r_warmth := WarmthState.COLD,
     r_readiness := ReadinessState.UNKNOWN,
     r_health := HealthState.UNKNOWN,
     r_lifecycle := ReplicaLifecycle.DECLARED,
     r_placement := PlacementState.PENDING,
     r_promotion := PromotionState.NOT_PROMOTED,
     r_role := ReplicaRole.NONE,
     r_serving_eligible := False,
     r_active_requests := 0,
     r_reserved_capacity := 0,
     r_capacity_total := capacity,
     r_start_time_mono := t_mono,
     r_start_time_wall := t_wall,
     r_coordinator_epoch := epoch,
     r_set_generation := s_generation st,
     r_health_generation := hgen,
     r_policy_generation := s_policy_generation st,
     r_policy_fingerprint := cq_policy_fingerprint (s_compatibility st),
     r_compatibility := cmpt\<rparr>"

definition provision_replica ::
  "ReplicaId \<Rightarrow> ReplicaSetId \<Rightarrow> WorkerId \<Rightarrow> ReplicaCompatibility \<Rightarrow> DeviceCapability \<Rightarrow>
   u64 \<Rightarrow> u64 \<Rightarrow> i64 \<Rightarrow> controller \<Rightarrow> OpResult \<times> controller" where
  "provision_replica replica_id set_id worker_id cmpt device capacity t_mono t_wall c =
     (case om_find (ct_sets c) set_id of
        None \<Rightarrow> (op_rejected ''unknown replica set'', c)
      | Some st \<Rightarrow>
          if s_lifecycle st = ReplicaSetLifecycle.RETIRED \<or> s_lifecycle st = ReplicaSetLifecycle.FAILED
          then (op_rejected ''replica set is not provisionable'', c)
          else
            (case om_find (ct_workers c) worker_id of
               None \<Rightarrow> (op_rejected ''unknown worker'', c)
             | Some reg \<Rightarrow>
                 if replica_count set_id c \<ge> s_max_replicas st
                 then (op_rejected ''replica set max_replicas reached'', c)
                 else
                   (let st = (if s_lifecycle st = ReplicaSetLifecycle.CREATED
                              then st\<lparr>s_lifecycle := ReplicaSetLifecycle.PROVISIONING\<rparr> else st);
                        c = put_set set_id st c;
                        (gen, c) = fresh_generation c;
                        (hgen, g) = random_id (ct_rng c);
                        c = c\<lparr>ct_rng := g\<rparr>;
                        r = new_replica replica_id set_id worker_id st reg cmpt device capacity t_mono t_wall
                              (ct_epoch c) gen hgen
                    in (op_ok ''replica provisioned'', put_replica replica_id r c))))"

definition set_allocating ::
  "ReplicaId \<Rightarrow> PlacementId \<Rightarrow> u64 \<Rightarrow> controller \<Rightarrow> OpResult \<times> controller" where
  "set_allocating replica_id placement_id t_mono c =
     (case om_find (ct_replicas c) replica_id of
        None \<Rightarrow> (op_rejected ''unknown replica'', c)
      | Some r \<Rightarrow>
          if \<not> can_transition (r_lifecycle r) ReplicaLifecycle.ALLOCATING
          then (op_invalid ''replica cannot move to ALLOCATING'', c)
          else
            (let placed = (\<not> is_null placement_id);
                 r = r\<lparr>r_lifecycle := ReplicaLifecycle.ALLOCATING,
                       r_placement_id := placement_id,
                       r_placement := (if placed then PlacementState.ASSIGNED else PlacementState.PENDING),
                       r_memory_residency := MemoryResidencyState.NOT_RESIDENT\<rparr>
             in (op_ok ''replica -> ALLOCATING'', put_replica replica_id r c)))"

definition set_starting ::
  "ReplicaId \<Rightarrow> u64 \<Rightarrow> i64 \<Rightarrow> controller \<Rightarrow> OpResult \<times> controller" where
  "set_starting replica_id t_mono t_wall c =
     (case om_find (ct_replicas c) replica_id of
        None \<Rightarrow> (op_rejected ''unknown replica'', c)
      | Some r \<Rightarrow>
          if \<not> can_transition (r_lifecycle r) ReplicaLifecycle.STARTING
          then (op_invalid ''replica cannot move to STARTING'', c)
          else
            (let r = r\<lparr>r_lifecycle := ReplicaLifecycle.STARTING,
                       r_health := HealthState.STARTING,
                       r_health_record := (r_health_record r)\<lparr>hr_state := HealthState.STARTING,
                         hr_updated_at_mono := t_mono, hr_updated_at_wall := t_wall\<rparr>\<rparr>
             in (op_ok ''replica -> STARTING'', put_replica replica_id r c)))"

definition warm_replica ::
  "ReplicaId \<Rightarrow> WarmingRecord \<Rightarrow> WorkerId \<Rightarrow> WorkerBootId \<Rightarrow> u64 \<Rightarrow> controller \<Rightarrow>
   OpResult \<times> controller" where
  "warm_replica replica_id warm worker boot t_mono c =
     (case om_find (ct_replicas c) replica_id of
        None \<Rightarrow> (op_rejected ''unknown replica'', c)
      | Some r \<Rightarrow>
          if \<not> worker_boot_matches r worker boot
          then (op_rejected ''stale worker boot identity'', c)
          else if \<not> can_transition (r_lifecycle r) ReplicaLifecycle.WARMING \<and>
                  r_lifecycle r \<noteq> ReplicaLifecycle.WARMING
          then (op_invalid ''replica is not in a state that accepts warming'', c)
          else
            (let r = r\<lparr>r_lifecycle := ReplicaLifecycle.WARMING, r_warming_record := warm\<rparr>;
                 r = (if \<not> wm_warmup_execution_done warm \<and> wm_steps_required warm > 0 \<and>
                         wm_steps_completed warm > 0
                      then r\<lparr>r_warmth := WarmthState.WARMING\<rparr>
                      else r\<lparr>r_warmth := WarmthState.WARM\<rparr>);
                 r = (if wm_started_warming_mono (r_warming_record r) = 0
                      then r\<lparr>r_warming_record :=
                             (r_warming_record r)\<lparr>wm_started_warming_mono := t_mono\<rparr>\<rparr>
                      else r)
             in (op_ok ''replica warming progressed'', put_replica replica_id r c)))"

section \<open>Evidence\<close>

definition is_terminated :: "ReplicaState \<Rightarrow> bool" where
  "is_terminated r \<longleftrightarrow>
     r_lifecycle r = ReplicaLifecycle.FAILED \<or> r_lifecycle r = ReplicaLifecycle.RETIRED \<or>
     r_lifecycle r = ReplicaLifecycle.QUIESCED"

definition report_health ::
  "ReplicaId \<Rightarrow> HealthEvidence \<Rightarrow> WorkerId \<Rightarrow> WorkerBootId \<Rightarrow> u64 \<Rightarrow> controller \<Rightarrow>
   OpResult \<times> controller" where
  "report_health replica_id ev worker boot t_mono c =
     (case om_find (ct_replicas c) replica_id of
        None \<Rightarrow> (op_rejected ''unknown replica'', c)
      | Some r \<Rightarrow>
          if \<not> worker_boot_matches r worker boot
          then (op_rejected ''stale worker boot identity'', c)
          else if r_coordinator_epoch r \<noteq> ct_epoch c
          then (op_rejected ''stale coordinator epoch'', c)
          else if he_generation ev \<noteq> r_health_generation r
          then (op_rejected ''stale health generation'', c)
          else if is_terminated r
          then (op_rejected ''replica is terminated; health evidence rejected'', c)
          else
            (let bad = (he_state ev = HealthState.FAILED \<or> he_state ev = HealthState.UNHEALTHY);
                 r = r\<lparr>r_health := he_state ev,
                       r_health_record := (r_health_record r)\<lparr>
                         hr_state := he_state ev,
                         hr_kind := he_kind ev,
                         hr_source := he_source ev,
                         hr_updated_at_mono := t_mono,
                         hr_updated_at_wall := he_observed_at_wall ev,
                         hr_confidence := he_confidence ev,
                         hr_generation := he_generation ev,
                         hr_reason := he_message ev,
                         hr_consecutive_failures :=
                           (if bad then hr_consecutive_failures (r_health_record r) + 1 else 0)\<rparr>\<rparr>;
                 r = (if r_serving_eligible r \<and> bad
                      then r\<lparr>r_serving_eligible := False, r_role := ReplicaRole.SECONDARY,
                             r_promotion := PromotionState.STANDBY\<rparr>
                      else r)
             in (op_ok (''health updated to '' @ HealthState_to_string (he_state ev)),
                 put_replica replica_id r c)))"

definition report_readiness ::
  "ReplicaId \<Rightarrow> ReadinessRecord \<Rightarrow> WorkerId \<Rightarrow> WorkerBootId \<Rightarrow> u64 \<Rightarrow> controller \<Rightarrow>
   OpResult \<times> controller" where
  "report_readiness replica_id rr worker boot t_mono c =
     (case om_find (ct_replicas c) replica_id of
        None \<Rightarrow> (op_rejected ''unknown replica'', c)
      | Some r \<Rightarrow>
          if \<not> worker_boot_matches r worker boot
          then (op_rejected ''stale worker boot identity'', c)
          else if r_coordinator_epoch r \<noteq> ct_epoch c
          then (op_rejected ''stale coordinator epoch'', c)
          else if is_terminated r
          then (op_rejected ''replica is terminated; readiness report rejected'', c)
          else
            (let r = r\<lparr>r_readiness_record := rr, r_readiness := rr_state rr\<rparr>;
                 r = (if all_set (rr_factors rr)
                      then (let can_ready = (r_lifecycle r = ReplicaLifecycle.WARMING \<or>
                                             r_lifecycle r = ReplicaLifecycle.STARTING);
                                r = (if can_ready \<and> can_transition (r_lifecycle r) ReplicaLifecycle.READY
                                     then r\<lparr>r_lifecycle := ReplicaLifecycle.READY\<rparr> else r)
                            in r\<lparr>r_readiness := ReadinessState.READY\<rparr>)
                      else r\<lparr>r_readiness := ReadinessState.NOT_READY\<rparr>)
             in (op_ok (''readiness updated to '' @ ReadinessState_to_string (r_readiness r)),
                 put_replica replica_id r c)))"

section \<open>Promotion\<close>

definition ready_to_promote :: "ReplicaState \<Rightarrow> bool" where
  "ready_to_promote r \<longleftrightarrow>
     r_lifecycle r = ReplicaLifecycle.READY \<or> r_lifecycle r = ReplicaLifecycle.SERVING"

text \<open>The checks of \<open>promote_replica\<close> in their order: the message of the first that refuses.\<close>

definition promote_refusal ::
  "ReplicaState \<Rightarrow> ReplicaSetState \<Rightarrow> CoordinatorEpoch \<Rightarrow> string option" where
  "promote_refusal r st epoch =
     (let pol = pb_promotion (s_policies st);
          cr = check_compatibility (s_compatibility st) (r_compatibility r)
      in if r_coordinator_epoch r \<noteq> epoch then Some ''stale coordinator epoch''
         else if r_set_generation r \<noteq> s_generation st then Some ''stale replica-set generation''
         else if r_policy_generation r \<noteq> s_policy_generation st then Some ''stale policy generation''
         else if r_artifact_generation r \<noteq> s_artifact_generation st
         then Some ''stale artifact generation''
         else if pp_require_ready pol \<and> \<not> ready_to_promote r
         then Some ''replica is not in a ready state''
         else if r_readiness r \<noteq> ReadinessState.READY then Some ''replica is not ready''
         else if pp_require_healthy pol \<and>
                 (r_health r = HealthState.UNKNOWN \<or> r_health r = HealthState.STARTING)
         then Some ''replica has no validated health''
         else if pp_require_healthy pol \<and> r_health r = HealthState.UNHEALTHY
         then Some ''replica is unhealthy''
         else if pp_require_compatible pol \<and> \<not> cr_compatible cr
         then Some (''replica incompatible: '' @
                concat (map (\<lambda>i. compatibility_issue_str i @ '' '') (cr_issues cr)))
         else if pp_require_placement_valid pol \<and> r_placement r \<noteq> PlacementState.ASSIGNED
         then Some ''replica placement is not assigned''
         else if pp_require_resources pol \<and> r_capacity_total r = 0
         then Some ''replica has no reserved capacity''
         else None)"

text \<open>The loop counter \<open>healthy\<close> is a \<open>uint32_t\<close>.\<close>

definition healthy_count :: "ReplicaSetId \<Rightarrow> controller \<Rightarrow> u32" where
  "healthy_count set_id c =
     of_nat (om_count (\<lambda>rid r. r_set_id r = set_id \<and> r_health r = HealthState.HEALTHY)
       (ct_replicas c))"

text \<open>The set's lifecycle follows the number of healthy replicas, as far as its table allows.\<close>

definition derive_set_lifecycle :: "u32 \<Rightarrow> ReplicaSetState \<Rightarrow> ReplicaSetState" where
  "derive_set_lifecycle healthy st =
     (if healthy < s_min_healthy st \<and> set_can_transition (s_lifecycle st) ReplicaSetLifecycle.DEGRADED
      then st\<lparr>s_lifecycle := ReplicaSetLifecycle.DEGRADED\<rparr>
      else if healthy \<ge> s_min_healthy st \<and>
              set_can_transition (s_lifecycle st) ReplicaSetLifecycle.AVAILABLE
      then st\<lparr>s_lifecycle := ReplicaSetLifecycle.AVAILABLE\<rparr>
      else st)"

definition make_primary :: "HealthGeneration \<Rightarrow> ReplicaState \<Rightarrow> ReplicaState" where
  "make_primary hgen r = r\<lparr>
     r_lifecycle := ReplicaLifecycle.SERVING,
     r_promotion := PromotionState.PRIMARY,
     r_role := ReplicaRole.PRIMARY,
     r_serving_eligible := True,
     r_health_generation := hgen,
     r_health_record := (r_health_record r)\<lparr>hr_generation := hgen\<rparr>\<rparr>"

definition promote_replica ::
  "ReplicaId \<Rightarrow> PromotionState \<Rightarrow> WorkerId \<Rightarrow> WorkerBootId \<Rightarrow> u64 \<Rightarrow> i64 \<Rightarrow> controller \<Rightarrow>
   OpResult \<times> controller" where
  "promote_replica replica_id target worker boot t_mono t_wall c =
     (case om_find (ct_replicas c) replica_id of
        None \<Rightarrow> (op_rejected ''unknown replica'', c)
      | Some r \<Rightarrow>
          if \<not> worker_boot_matches r worker boot
          then (op_rejected ''stale worker boot identity'', c)
          else
            (case om_find (ct_sets c) (r_set_id r) of
               None \<Rightarrow> (op_rejected ''unknown replica set'', c)
             | Some st \<Rightarrow>
                 (case promote_refusal r st (ct_epoch c) of
                    Some why \<Rightarrow> (op_rejected why, c)
                  | None \<Rightarrow>
                      if target = PromotionState.PRIMARY \<and> \<not> ready_to_promote r
                      then (op_rejected ''cannot promote a non-ready replica to PRIMARY'', c)
                      else if target = PromotionState.PRIMARY \<and>
                              r_lifecycle r \<noteq> ReplicaLifecycle.SERVING \<and>
                              \<not> can_transition (r_lifecycle r) ReplicaLifecycle.SERVING
                      then (op_invalid ''cannot move replica to SERVING'', c)
                      else
                        (let from = r_promotion r;
                             (r, g) =
                               (if target = PromotionState.PRIMARY
                                then (let (hgen, g) = random_id (ct_rng c);
                                          r = make_primary hgen r;
                                          r = (if r_health r = HealthState.UNKNOWN
                                               then r\<lparr>r_health := HealthState.HEALTHY\<rparr> else r)
                                      in (r, g))
                                else (r\<lparr>r_promotion := target,
                                        r_role := (if target = PromotionState.RECOVERED
                                                   then ReplicaRole.SECONDARY else ReplicaRole.STANDBY),
                                        r_serving_eligible := False\<rparr>, ct_rng c));
                             (pid, g) = random_id g;
                             c = (put_replica replica_id r c)\<lparr>ct_rng := g\<rparr>;
                             prec = PromotionRecord_default\<lparr>
                               p_id := pid,
                               p_replica_id := r_id r,
                               p_set_id := r_set_id r,
                               p_replica_generation := r_generation r,
                               p_set_generation := r_set_generation r,
                               p_epoch := ct_epoch c,
                               p_from := from,
                               p_to := target,
                               p_when_mono := t_mono,
                               p_when_wall := t_wall,
                               p_reason := ''promoted to '' @ PromotionState_to_string target\<rparr>;
                             c = c\<lparr>ct_promotions := ct_promotions c @ [prec]\<rparr>;
                             st = derive_set_lifecycle (healthy_count (s_id st) c) st
                         in (op_ok (''promoted to '' @ PromotionState_to_string target),
                             put_set (r_set_id r) st c)))))"

section \<open>Draining, failing, retiring\<close>

definition drain_replica ::
  "ReplicaId \<Rightarrow> WorkerId \<Rightarrow> WorkerBootId \<Rightarrow> u64 \<Rightarrow> controller \<Rightarrow> OpResult \<times> controller" where
  "drain_replica replica_id worker boot t_mono c =
     (case om_find (ct_replicas c) replica_id of
        None \<Rightarrow> (op_rejected ''unknown replica'', c)
      | Some r \<Rightarrow>
          if \<not> worker_boot_matches r worker boot
          then (op_rejected ''stale worker boot identity'', c)
          else if r_coordinator_epoch r \<noteq> ct_epoch c
          then (op_rejected ''stale coordinator epoch'', c)
          else if r_lifecycle r \<noteq> ReplicaLifecycle.READY \<and> r_lifecycle r \<noteq> ReplicaLifecycle.SERVING
          then (op_rejected ''only READY or SERVING replicas can be drained'', c)
          else
            (let r = r\<lparr>r_serving_eligible := False, r_role := ReplicaRole.SECONDARY,
                       r_promotion := PromotionState.STANDBY\<rparr>
             in if \<not> can_transition (r_lifecycle r) ReplicaLifecycle.DRAINING
                then (op_invalid ''cannot move replica to DRAINING'', put_replica replica_id r c)
                else
                  (let r = r\<lparr>r_lifecycle := ReplicaLifecycle.DRAINING\<rparr>;
                       (did, g) = random_id (ct_rng c);
                       dr = DrainRecord_default\<lparr>
                         d_id := did,
                         d_replica_id := r_id r,
                         d_set_id := r_set_id r,
                         d_state := DrainState.DRAINING,
                         d_started_mono := t_mono,
                         d_reason := ''drain requested: reject new work, allow existing to finish''\<rparr>;
                       c = (put_replica replica_id r c)\<lparr>ct_rng := g, ct_drains := ct_drains c @ [dr]\<rparr>
                   in (op_ok ''replica draining (reject new work)'', c))))"

fun complete_first_drain ::
  "ReplicaId \<Rightarrow> u64 \<Rightarrow> bool \<Rightarrow> u64 \<Rightarrow> DrainRecord list \<Rightarrow> DrainRecord list" where
  "complete_first_drain rid quiesced force_cancelled t_mono [] = []"
| "complete_first_drain rid quiesced force_cancelled t_mono (dr # drs) =
     (if d_replica_id dr = rid \<and> d_state dr = DrainState.DRAINING
      then dr\<lparr>d_state := DrainState.QUIESCED, d_completed_mono := t_mono,
              d_quiesced_requests := quiesced, d_force_cancelled := force_cancelled\<rparr> # drs
      else dr # complete_first_drain rid quiesced force_cancelled t_mono drs)"

definition complete_drain ::
  "ReplicaId \<Rightarrow> u64 \<Rightarrow> bool \<Rightarrow> u64 \<Rightarrow> controller \<Rightarrow> OpResult \<times> controller" where
  "complete_drain replica_id quiesced force_cancelled t_mono c =
     (case om_find (ct_replicas c) replica_id of
        None \<Rightarrow> (op_rejected ''unknown replica'', c)
      | Some r \<Rightarrow>
          if r_lifecycle r \<noteq> ReplicaLifecycle.DRAINING
          then (op_rejected ''replica is not draining'', c)
          else if \<not> force_cancelled \<and> r_active_requests r \<noteq> 0
          then (op_rejected ''replica still has active requests; drain not complete'', c)
          else if \<not> can_transition (r_lifecycle r) ReplicaLifecycle.QUIESCED
          then (op_invalid ''cannot move replica to QUIESCED'', c)
          else
            (let r = r\<lparr>r_lifecycle := ReplicaLifecycle.QUIESCED, r_active_requests := 0,
                       r_serving_eligible := False\<rparr>;
                 c = (put_replica replica_id r c)\<lparr>ct_drains :=
                        complete_first_drain (r_id r) quiesced force_cancelled t_mono (ct_drains c)\<rparr>
             in (op_ok ''replica quiesced'', c)))"

definition fail_replica ::
  "ReplicaId \<Rightarrow> WorkerId \<Rightarrow> WorkerBootId \<Rightarrow> string \<Rightarrow> u64 \<Rightarrow> controller \<Rightarrow> OpResult \<times> controller" where
  "fail_replica replica_id worker boot reason t_mono c =
     (case om_find (ct_replicas c) replica_id of
        None \<Rightarrow> (op_rejected ''unknown replica'', c)
      | Some r \<Rightarrow>
          if \<not> worker_boot_matches r worker boot
          then (op_rejected ''stale worker boot identity'', c)
          else
            (let r = r\<lparr>r_serving_eligible := False,
                       r_health := HealthState.FAILED,
                       r_health_record := (r_health_record r)\<lparr>hr_state := HealthState.FAILED,
                         hr_updated_at_mono := t_mono, hr_reason := reason\<rparr>,
                       r_promotion := PromotionState.NOT_PROMOTED,
                       r_role := ReplicaRole.NONE,
                       r_reserved_capacity := 0\<rparr>
             in if \<not> can_transition (r_lifecycle r) ReplicaLifecycle.FAILED
                then (op_rejected ''replica is already in a terminal/older state'',
                      put_replica replica_id r c)
                else (op_ok ''replica failed and its authority is obsolete'',
                      put_replica replica_id (r\<lparr>r_lifecycle := ReplicaLifecycle.FAILED\<rparr>) c)))"

definition retire_replica :: "ReplicaId \<Rightarrow> u64 \<Rightarrow> controller \<Rightarrow> OpResult \<times> controller" where
  "retire_replica replica_id t_mono c =
     (case om_find (ct_replicas c) replica_id of
        None \<Rightarrow> (op_rejected ''unknown replica'', c)
      | Some r \<Rightarrow>
          if \<not> can_transition (r_lifecycle r) ReplicaLifecycle.RETIRED
          then (op_rejected (''replica cannot be retired from '' @
                  ReplicaLifecycle_to_string (r_lifecycle r)), c)
          else
            (let r = r\<lparr>r_lifecycle := ReplicaLifecycle.RETIRED,
                       r_serving_eligible := False,
                       r_promotion := PromotionState.NOT_PROMOTED,
                       r_role := ReplicaRole.NONE,
                       r_reserved_capacity := 0,
                       r_active_requests := 0,
                       r_memory_residency := MemoryResidencyState.EVICTED,
                       r_warmth := WarmthState.INVALIDATED\<rparr>
             in (op_ok ''replica retired'', put_replica replica_id r c)))"

section \<open>Failover\<close>

definition obsolete_failed :: "string \<Rightarrow> ReplicaState \<Rightarrow> ReplicaState" where
  "obsolete_failed reason fr =
     (let fr = fr\<lparr>
            r_serving_eligible := False,
            r_health := HealthState.FAILED,
            r_health_record := (r_health_record fr)\<lparr>hr_state := HealthState.FAILED,
              hr_reason := reason\<rparr>,
            r_promotion := PromotionState.NOT_PROMOTED,
            r_role := ReplicaRole.NONE,
            r_reserved_capacity := 0\<rparr>
      in if r_lifecycle fr \<noteq> ReplicaLifecycle.FAILED
         then (if can_transition (r_lifecycle fr) ReplicaLifecycle.FAILED
               then fr\<lparr>r_lifecycle := ReplicaLifecycle.FAILED\<rparr> else fr)
         else fr)"

text \<open>The seven \<open>continue\<close> conditions of the candidate loop.\<close>

definition is_candidate ::
  "ReplicaSetId \<Rightarrow> ReplicaId \<Rightarrow> ReplicaSetState \<Rightarrow> ReplicaId \<Rightarrow> ReplicaState \<Rightarrow> bool" where
  "is_candidate set_id failed_replica st rid r \<longleftrightarrow>
     \<not> (r_set_id r \<noteq> set_id \<or> rid = failed_replica) \<and>
     (r_lifecycle r = ReplicaLifecycle.READY \<or> r_lifecycle r = ReplicaLifecycle.SERVING) \<and>
     \<not> (r_readiness r \<noteq> ReadinessState.READY) \<and>
     \<not> (r_health r \<noteq> HealthState.HEALTHY \<and> r_health r \<noteq> HealthState.DEGRADED) \<and>
     cr_compatible (check_compatibility (s_compatibility st) (r_compatibility r)) \<and>
     \<not> (r_placement r \<noteq> PlacementState.ASSIGNED) \<and>
     \<not> (r_set_generation r \<noteq> s_generation st)"

fun role_rank :: "PromotionState \<Rightarrow> nat" where
  "role_rank PromotionState.STANDBY = 0"
| "role_rank PromotionState.CANARY = 1"
| "role_rank PromotionState.REPLACEMENT = 2"
| "role_rank PromotionState.RECOVERED = 3"
| "role_rank _ = 4"

text \<open>The comparator of the sort, on candidate ids with the replicas they name.\<close>

definition candidate_less ::
  "FailoverPolicy \<Rightarrow> WorkerId \<Rightarrow> ReplicaId \<times> ReplicaState \<Rightarrow> ReplicaId \<times> ReplicaState \<Rightarrow> bool" where
  "candidate_less pol failed_worker a b =
     (let ra = snd a; rb = snd b;
          a_diff = (r_worker_id ra \<noteq> failed_worker);
          b_diff = (r_worker_id rb \<noteq> failed_worker)
      in if fp_prefer_standby_first pol \<and> role_rank (r_promotion ra) \<noteq> role_rank (r_promotion rb)
         then role_rank (r_promotion ra) < role_rank (r_promotion rb)
         else if fp_require_diversity pol \<and> a_diff \<noteq> b_diff then a_diff
         else fst a < fst b)"

text \<open>\<open>std::stable_sort\<close> by insertion: an element goes before the first one not less than it.\<close>

fun insert_by :: "('a \<Rightarrow> 'a \<Rightarrow> bool) \<Rightarrow> 'a \<Rightarrow> 'a list \<Rightarrow> 'a list" where
  "insert_by lt x [] = [x]"
| "insert_by lt x (y # ys) = (if lt y x then y # insert_by lt x ys else x # y # ys)"

fun stable_sort :: "('a \<Rightarrow> 'a \<Rightarrow> bool) \<Rightarrow> 'a list \<Rightarrow> 'a list" where
  "stable_sort lt [] = []"
| "stable_sort lt (x # xs) = insert_by lt x (stable_sort lt xs)"

definition failover_candidates ::
  "ReplicaSetId \<Rightarrow> ReplicaId \<Rightarrow> ReplicaSetState \<Rightarrow> WorkerId \<Rightarrow> controller \<Rightarrow>
   (ReplicaId \<times> ReplicaState) list" where
  "failover_candidates set_id failed_replica st failed_worker c =
     stable_sort (candidate_less (pb_failover (s_policies st)) failed_worker)
       (filter (\<lambda>(rid, r). is_candidate set_id failed_replica st rid r) (ct_replicas c))"

definition trigger_failover ::
  "ReplicaSetId \<Rightarrow> ReplicaId \<Rightarrow> string \<Rightarrow> u64 \<Rightarrow> i64 \<Rightarrow> controller \<Rightarrow> OpResult \<times> controller" where
  "trigger_failover set_id failed_replica reason t_mono t_wall c =
     (case om_find (ct_sets c) set_id of
        None \<Rightarrow> (op_rejected ''unknown replica set'', c)
      | Some st \<Rightarrow>
          (case om_find (ct_replicas c) failed_replica of
             None \<Rightarrow> (op_rejected ''unknown failed replica'', c)
           | Some fr \<Rightarrow>
               if r_set_id fr \<noteq> set_id
               then (op_rejected ''failed replica not in this set'', c)
               else
                 (let fr = obsolete_failed reason fr;
                      c = put_replica failed_replica fr c;
                      pol = pb_failover (s_policies st);
                      ambiguous = (if r_active_requests fr > 0 then [WorkOutcome.AMBIGUOUS] else [])
                  in case failover_candidates set_id failed_replica st (r_worker_id fr) c of
                       [] \<Rightarrow>
                         (let (fid, g) = random_id (ct_rng c);
                              f = FailoverRecord_default\<lparr>
                                f_id := fid,
                                f_set_id := set_id,
                                f_failed_replica := failed_replica,
                                f_state := FailoverState.FAILED,
                                f_epoch := ct_epoch c,
                                f_started_mono := t_mono,
                                f_completed_mono := t_mono,
                                f_generation_preserved := fp_preserve_generation pol,
                                f_ambiguous_outcomes := ambiguous,
                                f_reason := reason @ ''; no eligible replacement''\<rparr>
                          in (op_rejected ''no eligible replacement for failover'',
                              c\<lparr>ct_rng := g, ct_failovers := ct_failovers c @ [f]\<rparr>))
                     | (chosen, r) # _ \<Rightarrow>
                         (let (hgen, g) = random_id (ct_rng c);
                              r = make_primary hgen r;
                              (fid, g) = random_id g;
                              (pid, g) = random_id g;
                              f = FailoverRecord_default\<lparr>
                                f_id := fid,
                                f_set_id := set_id,
                                f_failed_replica := failed_replica,
                                f_replacement := chosen,
                                f_state := FailoverState.COMPLETE,
                                f_epoch := ct_epoch c,
                                f_started_mono := t_mono,
                                f_completed_mono := t_mono,
                                f_generation_preserved := fp_preserve_generation pol,
                                f_ambiguous_outcomes := ambiguous,
                                f_reason := reason @ ''; promoted '' @ id_str chosen\<rparr>;
                              prec = PromotionRecord_default\<lparr>
                                p_id := pid,
                                p_replica_id := chosen,
                                p_set_id := set_id,
                                p_replica_generation := r_generation r,
                                p_set_generation := r_set_generation r,
                                p_epoch := ct_epoch c,
                                p_from := PromotionState.STANDBY,
                                p_to := PromotionState.PRIMARY,
                                p_when_mono := t_mono,
                                p_when_wall := t_wall,
                                p_reason := ''failover replacement''\<rparr>;
                              c = (put_replica chosen r c)\<lparr>ct_rng := g,
                                    ct_failovers := ct_failovers c @ [f],
                                    ct_promotions := ct_promotions c @ [prec]\<rparr>;
                              st = derive_set_lifecycle (healthy_count set_id c) st
                          in (op_ok (''failover completed; promoted '' @ id_str chosen),
                              put_set set_id st c)))))"

section \<open>Queries\<close>

definition find_replica :: "ReplicaId \<Rightarrow> controller \<Rightarrow> ReplicaState option" where
  "find_replica replica_id c = om_find (ct_replicas c) replica_id"

definition list_replicas :: "ReplicaSetId \<Rightarrow> controller \<Rightarrow> ReplicaId list" where
  "list_replicas set_id c =
     sort (map fst (filter (\<lambda>(rid, r). r_set_id r = set_id) (ct_replicas c)))"

definition list_sets :: "controller \<Rightarrow> ReplicaSetId list" where
  "list_sets c = sort (map fst (ct_sets c))"

definition current_boot_for :: "ReplicaId \<Rightarrow> controller \<Rightarrow> WorkerBootId" where
  "current_boot_for replica_id c =
     (case om_find (ct_replicas c) replica_id of
        None \<Rightarrow> null_id
      | Some r \<Rightarrow> (case om_find (ct_workers c) (r_worker_id r) of
                     None \<Rightarrow> null_id
                   | Some w \<Rightarrow> w_boot_id w))"

definition servable :: "ReplicaId \<Rightarrow> controller \<Rightarrow> ServingAuthorityDecision" where
  "servable replica_id c =
     (case om_find (ct_replicas c) replica_id of
        None \<Rightarrow> ServingAuthorityDecision_default\<lparr>sa_eligible := False,
                  sa_rejection := ''unknown replica''\<rparr>
      | Some r \<Rightarrow>
          (case om_find (ct_sets c) (r_set_id r) of
             None \<Rightarrow> ServingAuthorityDecision_default\<lparr>sa_eligible := False,
                       sa_rejection := ''unknown replica set''\<rparr>
           | Some s \<Rightarrow>
               evaluate_serving_authority r s
                 \<lparr>cx_epoch = ct_epoch c,
                  cx_set_generation = s_generation s,
                  cx_policy_generation = s_policy_generation s,
                  cx_artifact_generation = s_artifact_generation s,
                  cx_health_generation = r_health_generation r,
                  cx_worker_boot = (case om_find (ct_workers c) (r_worker_id r) of
                                      None \<Rightarrow> null_id | Some w \<Rightarrow> w_boot_id w),
                  cx_policy_fingerprint = cq_policy_fingerprint (s_compatibility s)\<rparr>))"

definition set_epoch :: "CoordinatorEpoch \<Rightarrow> controller \<Rightarrow> controller" where
  "set_epoch epoch c = c\<lparr>ct_epoch := epoch\<rparr>"

end
