(* ===== verification/Controller_Lemmas.thy ===== *)
theory Controller_Lemmas
  imports Controller
begin

text \<open>
  What one controller operation can do to a replica that is already in the map. A replica's
  \<open>view\<close> is its lifecycle with its serving flag; \<open>view_step\<close> is the abstract machine of
  views: keep, lose the flag, move along an edge of \<open>op_edge\<close> without the flag, or enter
  \<open>SERVING\<close> with the flag from \<open>READY\<close> or \<open>SERVING\<close>. \<open>op_edge\<close> lists the edges of the
  lifecycle table that some operation takes: a strict part of the table, since no operation
  takes a serving, draining or quiesced replica back to \<open>READY\<close>. Each operation is shown
  to refine one such step for every replica (\<open>maps_evolve\<close>), to keep the fields that
  identify an incarnation, and to keep the flag tied to a serving primary (\<open>authority_ok\<close>).
\<close>

section \<open>Writes through the maps\<close>

lemma put_replica_simps [simp]:
  "ct_replicas (put_replica rid r c) = om_put rid r (ct_replicas c)"
  "ct_sets (put_replica rid r c) = ct_sets c"
  "ct_workers (put_replica rid r c) = ct_workers c"
  "ct_promotions (put_replica rid r c) = ct_promotions c"
  "ct_drains (put_replica rid r c) = ct_drains c"
  "ct_failovers (put_replica rid r c) = ct_failovers c"
  "ct_epoch (put_replica rid r c) = ct_epoch c"
  "ct_rng (put_replica rid r c) = ct_rng c"
  by (simp_all add: put_replica_def)

lemma put_set_simps [simp]:
  "ct_sets (put_set sid s c) = om_put sid s (ct_sets c)"
  "ct_replicas (put_set sid s c) = ct_replicas c"
  "ct_workers (put_set sid s c) = ct_workers c"
  "ct_promotions (put_set sid s c) = ct_promotions c"
  "ct_drains (put_set sid s c) = ct_drains c"
  "ct_failovers (put_set sid s c) = ct_failovers c"
  "ct_epoch (put_set sid s c) = ct_epoch c"
  "ct_rng (put_set sid s c) = ct_rng c"
  by (simp_all add: put_set_def)

section \<open>Views and their steps\<close>

definition same_incarnation :: "ReplicaState \<Rightarrow> ReplicaState \<Rightarrow> bool" where
  "same_incarnation r r' \<longleftrightarrow>
     r_id r' = r_id r \<and> r_set_id r' = r_set_id r \<and> r_generation r' = r_generation r \<and>
     r_node_id r' = r_node_id r \<and> r_worker_id r' = r_worker_id r \<and> r_boot_id r' = r_boot_id r \<and>
     r_artifact_id r' = r_artifact_id r \<and> r_artifact_generation r' = r_artifact_generation r \<and>
     r_coordinator_epoch r' = r_coordinator_epoch r \<and> r_set_generation r' = r_set_generation r \<and>
     r_policy_generation r' = r_policy_generation r \<and>
     r_policy_fingerprint r' = r_policy_fingerprint r \<and> r_compatibility r' = r_compatibility r"

definition authority_ok :: "ReplicaState \<Rightarrow> bool" where
  "authority_ok r \<longleftrightarrow> (r_serving_eligible r \<longrightarrow>
     r_lifecycle r = ReplicaLifecycle.SERVING \<and> r_promotion r = PromotionState.PRIMARY \<and>
     r_role r = ReplicaRole.PRIMARY)"

type_synonym view = "ReplicaLifecycle \<times> bool"

definition view_of :: "ReplicaState \<Rightarrow> view" where
  "view_of r = (r_lifecycle r, r_serving_eligible r)"

definition op_edge :: "ReplicaLifecycle \<Rightarrow> ReplicaLifecycle \<Rightarrow> bool" where
  "op_edge l l' \<longleftrightarrow> can_transition l l' \<and> l' \<noteq> ReplicaLifecycle.SERVING \<and>
     (l' = ReplicaLifecycle.READY \<longrightarrow> l = ReplicaLifecycle.STARTING \<or> l = ReplicaLifecycle.WARMING)"

inductive view_step :: "view \<Rightarrow> view \<Rightarrow> bool" where
  keep: "view_step (l, e) (l, e)"
| strip: "view_step (l, e) (l, False)"
| move: "op_edge l l' \<Longrightarrow> view_step (l, e) (l', False)"
| serve: "l = ReplicaLifecycle.READY \<or> l = ReplicaLifecycle.SERVING \<Longrightarrow>
    view_step (l, e) (ReplicaLifecycle.SERVING, True)"

inductive_simps view_step_iff: "view_step (l, e) (l', e')"

definition evolves :: "ReplicaState \<Rightarrow> ReplicaState \<Rightarrow> bool" where
  "evolves r r' \<longleftrightarrow> (authority_ok r \<longrightarrow>
     authority_ok r' \<and> same_incarnation r r' \<and> view_step (view_of r) (view_of r'))"

definition maps_evolve :: "(ReplicaId, ReplicaState) omap \<Rightarrow> (ReplicaId, ReplicaState) omap \<Rightarrow> bool" where
  "maps_evolve m m' \<longleftrightarrow> (\<forall>rid. rel_option evolves (om_find m rid) (om_find m' rid))"

lemmas evolves_simps =
  evolves_def authority_ok_def same_incarnation_def view_of_def view_step_iff op_edge_def

lemma evolves_refl [simp]: "evolves r r"
  by (simp add: evolves_simps)

lemma maps_evolve_same [simp]: "maps_evolve m m"
  by (simp add: maps_evolve_def option.rel_refl)

lemma maps_evolve_put [simp]:
  "om_find m rid = Some r \<Longrightarrow> maps_evolve m (om_put rid r' m) \<longleftrightarrow> evolves r r'"
  by (auto simp: maps_evolve_def option.rel_refl split: if_splits dest: spec [of _ rid])

lemma maps_evolve_map [simp]:
  "maps_evolve m (om_map f m) \<longleftrightarrow> (\<forall>rid r. om_find m rid = Some r \<longrightarrow> evolves r (f rid r))"
  by (force simp: maps_evolve_def option_rel_Some1 rel_option_iff split: option.splits)

section \<open>Operations on one replica\<close>

lemma set_allocating_evolves: "maps_evolve (ct_replicas c) (ct_replicas (snd (set_allocating rid pid t c)))"
  by (auto simp: set_allocating_def Let_def evolves_simps can_transition_to split: option.splits)

lemma set_starting_evolves: "maps_evolve (ct_replicas c) (ct_replicas (snd (set_starting rid t w c)))"
  by (auto simp: set_starting_def Let_def evolves_simps can_transition_to split: option.splits)

lemma warm_evolves: "maps_evolve (ct_replicas c) (ct_replicas (snd (warm_replica rid wm w b t c)))"
  by (auto simp: warm_replica_def Let_def evolves_simps can_transition_to split: option.splits)

lemma register_evolves: "maps_evolve (ct_replicas c) (ct_replicas (snd (register_worker wr t w c)))"
  by (auto simp: register_worker_def Let_def evolves_simps can_transition_to fail_on_restart_def
    split: option.splits)

lemma unregister_evolves: "maps_evolve (ct_replicas c) (ct_replicas (snd (unregister_worker w c)))"
  by (auto simp: unregister_worker_def Let_def evolves_simps can_transition_to fail_on_disconnect_def had_authority_def
    split: option.splits)

lemma report_health_evolves: "maps_evolve (ct_replicas c) (ct_replicas (snd (report_health rid ev w b t c)))"
  by (auto simp: report_health_def Let_def evolves_simps can_transition_to split: option.splits)

lemma report_readiness_evolves: "maps_evolve (ct_replicas c) (ct_replicas (snd (report_readiness rid ev w b t c)))"
  by (auto simp: report_readiness_def Let_def evolves_simps can_transition_to split: option.splits)

lemma promote_evolves: "maps_evolve (ct_replicas c) (ct_replicas (snd (promote_replica rid tg w b t u c)))"
  by (auto simp: promote_replica_def Let_def evolves_simps can_transition_to make_primary_def ready_to_promote_def
    split: option.splits prod.splits)

lemma drain_evolves: "maps_evolve (ct_replicas c) (ct_replicas (snd (drain_replica rid w b t c)))"
  by (auto simp: drain_replica_def Let_def evolves_simps can_transition_to split: option.splits prod.splits)

lemma complete_drain_evolves: "maps_evolve (ct_replicas c) (ct_replicas (snd (complete_drain rid q f t c)))"
  by (auto simp: complete_drain_def Let_def evolves_simps can_transition_to split: option.splits prod.splits)

lemma fail_evolves: "maps_evolve (ct_replicas c) (ct_replicas (snd (fail_replica rid w b rs t c)))"
  by (auto simp: fail_replica_def Let_def evolves_simps can_transition_to split: option.splits prod.splits)

lemma retire_evolves: "maps_evolve (ct_replicas c) (ct_replicas (snd (retire_replica rid t c)))"
  by (auto simp: retire_replica_def Let_def evolves_simps can_transition_to split: option.splits prod.splits)

section \<open>Failover\<close>

lemma maps_evolve_trans_put:
  "\<lbrakk>om_find m a = Some ra; evolves ra ra'; om_find (om_put a ra' m) b = Some rb; b \<noteq> a; evolves rb rb'\<rbrakk>
   \<Longrightarrow> maps_evolve m (om_put b rb' (om_put a ra' m))"
  by (auto simp: maps_evolve_def option.rel_refl dest: spec [of _ a])

lemma obsolete_failed_evolves: "evolves r (obsolete_failed reason r)"
  by (auto simp: obsolete_failed_def Let_def evolves_simps can_transition_to)

lemma make_primary_evolves:
  "r_lifecycle r = ReplicaLifecycle.READY \<or> r_lifecycle r = ReplicaLifecycle.SERVING \<Longrightarrow>
   evolves r (make_primary g r)"
  by (auto simp: make_primary_def evolves_simps)

lemma set_insert_by [simp]: "set (insert_by lt x xs) = insert x (set xs)"
  by (induction xs) auto

lemma set_stable_sort [simp]: "set (stable_sort lt xs) = set xs"
  by (induction xs) auto

lemma failover_candidates_set:
  "om_sorted (ct_replicas c) \<Longrightarrow> (rid, r) \<in> set (failover_candidates sid fid st w c) \<longleftrightarrow>
     om_find (ct_replicas c) rid = Some r \<and> is_candidate sid fid st rid r"
  by (auto simp: failover_candidates_def om_find_in)

lemma failover_chosen:
  assumes "failover_candidates sid fid st w c = (rid, r) # rest" and "om_sorted (ct_replicas c)"
  shows "om_find (ct_replicas c) rid = Some r \<and> is_candidate sid fid st rid r"
  using failover_candidates_set [OF assms(2), of rid r sid fid st w] assms(1) by simp

lemma is_candidate_props:
  "is_candidate sid fid st rid r \<Longrightarrow> rid \<noteq> fid \<and> r_set_id r = sid \<and>
     (r_lifecycle r = ReplicaLifecycle.READY \<or> r_lifecycle r = ReplicaLifecycle.SERVING)"
  by (simp add: is_candidate_def)

lemma trigger_failover_evolves:
  assumes "om_sorted (ct_replicas c)"
  shows "maps_evolve (ct_replicas c) (ct_replicas (snd (trigger_failover sid fid rs t w c)))"
proof -
  have "maps_evolve (ct_replicas c) (om_put rid (make_primary g r) (om_put fid (obsolete_failed rs fr) (ct_replicas c)))"
    if "om_find (ct_replicas c) fid = Some fr"
       "failover_candidates sid fid st wk (put_replica fid (obsolete_failed rs fr) c) = (rid, r) # rest"
    for fr rid r rest g st wk
    using failover_chosen [OF that(2)] assms is_candidate_props [of sid fid st rid r]
    by (intro maps_evolve_trans_put [OF that(1) obsolete_failed_evolves])
       (auto intro!: make_primary_evolves)
  then show ?thesis
    by (auto simp: trigger_failover_def Let_def obsolete_failed_evolves split: option.splits prod.splits list.splits)
qed

section \<open>Sets and provisioning\<close>

lemma create_replicas [simp]: "ct_replicas (snd (create_replica_set st e c)) = ct_replicas c"
  by (simp add: create_replica_set_def Let_def)

lemma transition_replicas [simp]: "ct_replicas (snd (transition_replica_set sid l c)) = ct_replicas c"
  by (simp add: transition_replica_set_def split: option.splits)



text \<open>What a provisioned replica starts as.\<close>

definition declared_on ::
  "ReplicaId \<Rightarrow> ReplicaSetState \<Rightarrow> WorkerRegistration \<Rightarrow> CoordinatorEpoch \<Rightarrow> ReplicaState \<Rightarrow> bool" where
  "declared_on rid st reg epoch r \<longleftrightarrow>
     r_id r = rid \<and> r_boot_id r = w_boot_id reg \<and>
     r_node_id r = w_node_id reg \<and> r_coordinator_epoch r = epoch \<and>
     r_set_generation r = s_generation st \<and> r_policy_generation r = s_policy_generation st \<and>
     r_artifact_generation r = s_artifact_generation st \<and>
     r_policy_fingerprint r = cq_policy_fingerprint (s_compatibility st) \<and>
     r_lifecycle r = ReplicaLifecycle.DECLARED \<and> \<not> r_serving_eligible r \<and>
     r_promotion r = PromotionState.NOT_PROMOTED \<and> r_role r = ReplicaRole.NONE"

lemma new_replica_declared:
  "declared_on rid st reg e (new_replica rid sid w st reg cm dv cap t u e gen hgen)"
  "r_set_id (new_replica rid sid w st reg cm dv cap t u e gen hgen) = sid"
  "r_worker_id (new_replica rid sid w st reg cm dv cap t u e gen hgen) = w"
  by (simp_all add: new_replica_def declared_on_def)

definition opened_set :: "ReplicaSetState \<Rightarrow> ReplicaSetState" where
  "opened_set st = (if s_lifecycle st = ReplicaSetLifecycle.CREATED
     then st\<lparr>s_lifecycle := ReplicaSetLifecycle.PROVISIONING\<rparr> else st)"

lemma opened_set_simps [simp]:
  "s_generation (opened_set st) = s_generation st" "s_id (opened_set st) = s_id st"
  "s_policy_generation (opened_set st) = s_policy_generation st"
  "s_artifact_generation (opened_set st) = s_artifact_generation st"
  "s_compatibility (opened_set st) = s_compatibility st"
  "s_max_replicas (opened_set st) = s_max_replicas st"
  by (simp_all add: opened_set_def)

text \<open>The two generations the engine yields for the next provisioned replica.\<close>

definition next_generations :: "controller \<Rightarrow> ReplicaGeneration \<times> HealthGeneration" where
  "next_generations c = (let (gen, g) = random_id (ct_rng c); (hgen, g) = random_id g in (gen, hgen))"

lemma provision_result:
  obtains (refused) msg where "provision_replica rid sid w cm dv cap t u c = (op_rejected msg, c)"
  | (placed) st reg g gen hgen r where
      "om_find (ct_sets c) sid = Some st" "om_find (ct_workers c) w = Some reg"
      "replica_count sid c < s_max_replicas st"
      "r = new_replica rid sid w (opened_set st) reg cm dv cap t u (ct_epoch c) gen hgen"
      "next_generations c = (gen, hgen)"
      "provision_replica rid sid w cm dv cap t u c = (op_ok ''replica provisioned'',
         put_replica rid r ((put_set sid (opened_set st) c)\<lparr>ct_rng := g\<rparr>))"
proof (cases "is_ok (fst (provision_replica rid sid w cm dv cap t u c))")
  case True
  then obtain st reg where *: "om_find (ct_sets c) sid = Some st" "om_find (ct_workers c) w = Some reg"
      "replica_count sid c < s_max_replicas st"
      "s_lifecycle st \<noteq> ReplicaSetLifecycle.RETIRED" "s_lifecycle st \<noteq> ReplicaSetLifecycle.FAILED"
    by (fastforce simp: provision_replica_def split: option.splits if_splits)
  then show ?thesis
    by (intro placed [OF *(1-3) refl, where gen = "fst (random_id (ct_rng c))" and
        hgen = "fst (random_id (snd (random_id (ct_rng c) :: ReplicaGeneration \<times> engine)))" and
        g = "stl (stl (stl (stl (ct_rng c))))"])
       (auto simp: provision_replica_def opened_set_def Let_def random_id_def put_set_def fresh_generation_def
        next_generations_def)
next
  case False
  then show ?thesis
    by (auto simp: provision_replica_def Let_def split: option.splits if_splits prod.splits intro: refused)
qed

text \<open>Registering a worker changes no replica's set.\<close>

lemma register_replica_count:
  "replica_count sid (snd (register_worker wr t u c)) = replica_count sid c"
proof -
  have "om_count (\<lambda>rid r. r_set_id r = sid) (om_map (\<lambda>rid r. if Q r then fail_on_restart r else r) m) =
      om_count (\<lambda>rid r. r_set_id r = sid) m" for Q and m :: "(ReplicaId, ReplicaState) omap"
    by (induction m) (auto simp: om_count_def om_map_def fail_on_restart_def split: if_splits)
  then show ?thesis
    by (simp add: replica_count_def register_worker_def Let_def)
qed

end
