(* ===== verification/Controller_System.thy ===== *)
theory Controller_System
  imports Controller_Lemmas
begin

text \<open>
  The controller as a system: \<open>command\<close> has one constructor per public operation,
  \<open>run_commands\<close> runs a sequence of them, \<open>reachable\<close> is what a fresh controller can come
  to. The invariant \<open>controller_ok\<close> says that the maps are ordered, that a replica sits under
  its own id in a set that exists and holds the serving flag only as a serving primary, and
  that no set has more replicas than its maximum. Every command keeps it.
\<close>

section \<open>Commands\<close>

datatype command =
    RegisterWorker WorkerRegistration u64 i64
  | UnregisterWorker WorkerId
  | CreateReplicaSet ReplicaSetState CoordinatorEpoch
  | TransitionReplicaSet ReplicaSetId ReplicaSetLifecycle
  | ProvisionReplica ReplicaId ReplicaSetId WorkerId ReplicaCompatibility DeviceCapability u64 u64 i64
  | SetAllocating ReplicaId PlacementId u64
  | SetStarting ReplicaId u64 i64
  | WarmReplica ReplicaId WarmingRecord WorkerId WorkerBootId u64
  | ReportHealth ReplicaId HealthEvidence WorkerId WorkerBootId u64
  | ReportReadiness ReplicaId ReadinessRecord WorkerId WorkerBootId u64
  | PromoteReplica ReplicaId PromotionState WorkerId WorkerBootId u64 i64
  | DrainReplica ReplicaId WorkerId WorkerBootId u64
  | CompleteDrain ReplicaId u64 bool u64
  | FailReplica ReplicaId WorkerId WorkerBootId string u64
  | RetireReplica ReplicaId u64
  | TriggerFailover ReplicaSetId ReplicaId string u64 i64
  | SetEpoch CoordinatorEpoch

fun run_command :: "command \<Rightarrow> controller \<Rightarrow> OpResult \<times> controller" where
  "run_command (RegisterWorker wr t w) c = register_worker wr t w c"
| "run_command (UnregisterWorker w) c = unregister_worker w c"
| "run_command (CreateReplicaSet st e) c = create_replica_set st e c"
| "run_command (TransitionReplicaSet sid l) c = transition_replica_set sid l c"
| "run_command (ProvisionReplica rid sid w cm dv cap t u) c =
     provision_replica rid sid w cm dv cap t u c"
| "run_command (SetAllocating rid pid t) c = set_allocating rid pid t c"
| "run_command (SetStarting rid t w) c = set_starting rid t w c"
| "run_command (WarmReplica rid wm w b t) c = warm_replica rid wm w b t c"
| "run_command (ReportHealth rid ev w b t) c = report_health rid ev w b t c"
| "run_command (ReportReadiness rid rr w b t) c = report_readiness rid rr w b t c"
| "run_command (PromoteReplica rid tg w b t u) c = promote_replica rid tg w b t u c"
| "run_command (DrainReplica rid w b t) c = drain_replica rid w b t c"
| "run_command (CompleteDrain rid q f t) c = complete_drain rid q f t c"
| "run_command (FailReplica rid w b rs t) c = fail_replica rid w b rs t c"
| "run_command (RetireReplica rid t) c = retire_replica rid t c"
| "run_command (TriggerFailover sid rid rs t u) c = trigger_failover sid rid rs t u c"
| "run_command (SetEpoch e) c = (op_ok [], set_epoch e c)"

definition run_commands :: "command list \<Rightarrow> controller \<Rightarrow> controller" where
  "run_commands cmds c = fold (\<lambda>cmd c. snd (run_command cmd c)) cmds c"

lemma run_commands_simps [simp]:
  "run_commands [] c = c"
  "run_commands (cmd # cmds) c = run_commands cmds (snd (run_command cmd c))"
  "run_commands (xs @ ys) c = run_commands ys (run_commands xs c)"
  by (simp_all add: run_commands_def)

inductive reachable :: "controller \<Rightarrow> bool" where
  start: "reachable (new_controller g)"
| step: "reachable c \<Longrightarrow> reachable (snd (run_command cmd c))"

lemma reachable_run: "reachable c \<Longrightarrow> reachable (run_commands cmds c)"
  by (induction cmds arbitrary: c) (auto intro: reachable.step)

lemma reachable_iff: "reachable c \<longleftrightarrow> (\<exists>g cmds. c = run_commands cmds (new_controller g))"
proof
  show "\<exists>g cmds. c = run_commands cmds (new_controller g)" if "reachable c"
    using that
  proof induction
    case (step c cmd)
    then obtain g cmds where "c = run_commands cmds (new_controller g)" by blast
    then have "snd (run_command cmd c) = run_commands (cmds @ [cmd]) (new_controller g)" by simp
    then show ?case by blast
  qed (metis run_commands_simps(1))
qed (auto intro: reachable_run reachable.start)

section \<open>How a command changes the sets\<close>

text \<open>Of a set only the lifecycle changes, one allowed move at a time.\<close>

definition set_evolves :: "ReplicaSetState \<Rightarrow> ReplicaSetState \<Rightarrow> bool" where
  "set_evolves s s' \<longleftrightarrow> s' = s \<or>
     (set_can_transition (s_lifecycle s) (s_lifecycle s') \<and>
      s' = s\<lparr>s_lifecycle := s_lifecycle s'\<rparr>)"

definition sets_evolve :: "(ReplicaSetId, ReplicaSetState) omap \<Rightarrow> (ReplicaSetId, ReplicaSetState) omap \<Rightarrow> bool" where
  "sets_evolve m m' \<longleftrightarrow> (\<forall>sid. rel_option set_evolves (om_find m sid) (om_find m' sid))"

lemma set_evolves_refl [simp]: "set_evolves s s"
  by (simp add: set_evolves_def)

lemma sets_evolve_refl [simp]: "sets_evolve m m"
  by (simp add: sets_evolve_def option.rel_refl)

lemma sets_evolve_put [simp]:
  "om_find m sid = Some s \<Longrightarrow> sets_evolve m (om_put sid s' m) \<longleftrightarrow> set_evolves s s'"
  by (auto simp: sets_evolve_def option.rel_refl split: if_splits dest: spec [of _ sid])

lemma derive_set_evolves [simp]: "set_evolves s (derive_set_lifecycle n s)"
  by (simp add: set_evolves_def derive_set_lifecycle_def)

lemma opened_set_evolves [simp]: "set_evolves s (opened_set s)"
  by (simp add: set_evolves_def opened_set_def set_can_transition_def)

lemma set_evolves_same:
  "set_evolves s s' \<Longrightarrow> s_id s' = s_id s \<and> s_desired_count s' = s_desired_count s \<and>
     s_min_healthy s' = s_min_healthy s \<and> s_max_replicas s' = s_max_replicas s \<and>
     s_generation s' = s_generation s \<and> s_artifact_generation s' = s_artifact_generation s \<and>
     s_policy_generation s' = s_policy_generation s \<and> s_compatibility s' = s_compatibility s \<and>
     s_policies s' = s_policies s"
  by (cases s; cases s') (auto simp: set_evolves_def)

lemma sets_other [simp]:
  "ct_sets (snd (register_worker wr t w c)) = ct_sets c"
  "ct_sets (snd (unregister_worker wk c)) = ct_sets c"
  "ct_sets (snd (set_allocating rid pid t c)) = ct_sets c"
  "ct_sets (snd (set_starting rid t w c)) = ct_sets c"
  "ct_sets (snd (warm_replica rid wm wk b t c)) = ct_sets c"
  "ct_sets (snd (report_health rid ev wk b t c)) = ct_sets c"
  "ct_sets (snd (report_readiness rid rr wk b t c)) = ct_sets c"
  "ct_sets (snd (drain_replica rid wk b t c)) = ct_sets c"
  "ct_sets (snd (complete_drain rid q f t c)) = ct_sets c"
  "ct_sets (snd (fail_replica rid wk b rs t c)) = ct_sets c"
  "ct_sets (snd (retire_replica rid t c)) = ct_sets c"
  "ct_sets (set_epoch e c) = ct_sets c"
  by (auto simp: register_worker_def unregister_worker_def set_allocating_def set_starting_def
      warm_replica_def report_health_def report_readiness_def drain_replica_def complete_drain_def
      fail_replica_def retire_replica_def set_epoch_def Let_def split: option.splits prod.splits)

lemma provision_sets: "sets_evolve (ct_sets c) (ct_sets (snd (provision_replica rid sid w cm dv cap t u c)))"
  by (rule provision_result [of rid sid w cm dv cap t u c]) auto

lemma promote_sets: "sets_evolve (ct_sets c) (ct_sets (snd (promote_replica rid tg w b t u c)))"
  by (auto simp: promote_replica_def Let_def make_primary_def split: option.splits prod.splits)

lemma failover_sets: "sets_evolve (ct_sets c) (ct_sets (snd (trigger_failover sid rid rs t u c)))"
  by (auto simp: trigger_failover_def Let_def split: option.splits prod.splits list.splits)

lemma transition_sets: "sets_evolve (ct_sets c) (ct_sets (snd (transition_replica_set sid l c)))"
  by (auto simp: transition_replica_set_def set_evolves_def split: option.splits)

definition creates :: "command \<Rightarrow> bool" where
  "creates cmd \<longleftrightarrow> (\<exists>st e. cmd = CreateReplicaSet st e)"

definition provisions :: "ReplicaId \<Rightarrow> command \<Rightarrow> bool" where
  "provisions rid cmd \<longleftrightarrow> (case cmd of ProvisionReplica r _ _ _ _ _ _ _ \<Rightarrow> r = rid | _ \<Rightarrow> False)"

lemma run_command_sets:
  "\<not> creates cmd \<Longrightarrow> sets_evolve (ct_sets c) (ct_sets (snd (run_command cmd c)))"
  by (cases cmd) (simp_all add: creates_def provision_sets promote_sets failover_sets transition_sets)

lemma set_counts_ok_create:
  obtains (refused) msg where "create_replica_set st e c = (msg, c)"
  | (created) "om_find (ct_sets c) (s_id st) = None" "0 < s_min_healthy st" "0 < s_desired_count st"
      "s_min_healthy st \<le> s_max_replicas st" "s_desired_count st \<le> s_max_replicas st"
      "snd (create_replica_set st e c) = (put_set (s_id st) st c)\<lparr>ct_epoch := e\<rparr>"
proof (cases "is_ok (fst (create_replica_set st e c))")
  case True
  then show ?thesis
    by (intro created) (auto simp: create_replica_set_def Let_def not_less word_gt_0 split: if_splits)
next
  case False
  then have "snd (create_replica_set st e c) = c"
    by (auto simp: create_replica_set_def Let_def)
  then show ?thesis
    using refused [of "fst (create_replica_set st e c)"] by (metis prod.collapse)
qed

section \<open>How a command changes the replicas\<close>

lemma provision_other:
  "rid' \<noteq> rid \<Longrightarrow> om_find (ct_replicas (snd (provision_replica rid sid w cm dv cap t u c))) rid' =
     om_find (ct_replicas c) rid'"
  by (rule provision_result [of rid sid w cm dv cap t u c]) auto

lemma maps_evolveD: "maps_evolve m m' \<Longrightarrow> rel_option evolves (om_find m rid) (om_find m' rid)"
  by (simp add: maps_evolve_def)

lemma run_command_replica:
  assumes "om_sorted (ct_replicas c)" and "\<not> provisions rid cmd"
  shows "rel_option evolves (om_find (ct_replicas c) rid)
    (om_find (ct_replicas (snd (run_command cmd c))) rid)"
proof (cases cmd)
  case (ProvisionReplica rid' sid w cm dv cap t u)
  then show ?thesis
    using assms by (simp add: provisions_def provision_other option.rel_refl)
qed (use assms in \<open>simp_all add: maps_evolveD set_allocating_evolves set_starting_evolves warm_evolves
       register_evolves unregister_evolves report_health_evolves report_readiness_evolves
       promote_evolves drain_evolves complete_drain_evolves fail_evolves retire_evolves
       trigger_failover_evolves set_epoch_def option.rel_refl\<close>)

section \<open>The invariant\<close>

definition set_counts_ok :: "ReplicaSetState \<Rightarrow> bool" where
  "set_counts_ok s \<longleftrightarrow> 0 < s_min_healthy s \<and> 0 < s_desired_count s \<and>
     s_min_healthy s \<le> s_max_replicas s \<and> s_desired_count s \<le> s_max_replicas s"

definition members :: "ReplicaSetId \<Rightarrow> controller \<Rightarrow> nat" where
  "members sid c = om_count (\<lambda>_ r. r_set_id r = sid) (ct_replicas c)"

definition maps_sorted :: "controller \<Rightarrow> bool" where
  "maps_sorted c \<longleftrightarrow> om_sorted (ct_sets c) \<and> om_sorted (ct_replicas c) \<and> om_sorted (ct_workers c)"

definition replicas_ok :: "controller \<Rightarrow> bool" where
  "replicas_ok c \<longleftrightarrow> (\<forall>rid r. om_find (ct_replicas c) rid = Some r \<longrightarrow>
     r_id r = rid \<and> authority_ok r \<and> om_find (ct_sets c) (r_set_id r) \<noteq> None)"

definition sets_ok :: "controller \<Rightarrow> bool" where
  "sets_ok c \<longleftrightarrow> (\<forall>sid s. om_find (ct_sets c) sid = Some s \<longrightarrow>
     s_id s = sid \<and> set_counts_ok s \<and> members sid c \<le> unat (s_max_replicas s))"

definition controller_ok :: "controller \<Rightarrow> bool" where
  "controller_ok c \<longleftrightarrow> maps_sorted c \<and> replicas_ok c \<and> sets_ok c"

lemma new_controller_ok: "controller_ok (new_controller g)"
  by (simp add: controller_ok_def maps_sorted_def replicas_ok_def sets_ok_def new_controller_def)

lemma run_command_sorted: "maps_sorted c \<Longrightarrow> maps_sorted (snd (run_command cmd c))"
proof (cases cmd)
  case (ProvisionReplica rid sid w cm dv cap t u)
  then show "maps_sorted c \<Longrightarrow> ?thesis"
    by (rule_tac provision_result [of rid sid w cm dv cap t u c]) (auto simp: maps_sorted_def)
qed (auto simp: maps_sorted_def register_worker_def unregister_worker_def set_allocating_def set_starting_def
      warm_replica_def report_health_def report_readiness_def drain_replica_def complete_drain_def
      fail_replica_def retire_replica_def set_epoch_def create_replica_set_def transition_replica_set_def
      promote_replica_def trigger_failover_def Let_def split: option.splits prod.splits list.splits)


lemma command_keeps_set:
  assumes "om_find (ct_sets c) sid = Some s"
  shows "\<exists>s'. om_find (ct_sets (snd (run_command cmd c))) sid = Some s' \<and> set_evolves s s'"
proof (cases "creates cmd")
  case True
  then show ?thesis
    using assms by (auto simp: creates_def create_replica_set_def Let_def)
next
  case False
  then show ?thesis
    using run_command_sets [of cmd c] assms
    by (auto simp: sets_evolve_def option_rel_Some1 dest!: spec [of _ sid])
qed

lemma replicas_okD:
  "replicas_ok c \<Longrightarrow> om_find (ct_replicas c) rid = Some r \<Longrightarrow>
     r_id r = rid \<and> authority_ok r \<and> (\<exists>s. om_find (ct_sets c) (r_set_id r) = Some s)"
  by (auto simp: replicas_ok_def)

lemma sets_okD:
  "sets_ok c \<Longrightarrow> om_find (ct_sets c) sid = Some s \<Longrightarrow>
     s_id s = sid \<and> set_counts_ok s \<and> members sid c \<le> unat (s_max_replicas s)"
  by (auto simp: sets_ok_def)

lemma new_replica_props [simp]:
  "r_id (new_replica rid sid w st reg cm dv cap t u e gen hgen) = rid"
  "r_set_id (new_replica rid sid w st reg cm dv cap t u e gen hgen) = sid"
  "authority_ok (new_replica rid sid w st reg cm dv cap t u e gen hgen)"
  "r_lifecycle (new_replica rid sid w st reg cm dv cap t u e gen hgen) = ReplicaLifecycle.DECLARED"
  "r_serving_eligible (new_replica rid sid w st reg cm dv cap t u e gen hgen) = False"
  by (simp_all add: new_replica_def authority_ok_def)

lemma provision_replica_at:
  assumes "om_find (ct_replicas (snd (provision_replica rid sid w cm dv cap t u c))) rid = Some r"
  obtains "om_find (ct_replicas c) rid = Some r"
  | "r_id r = rid" "authority_ok r" "r_set_id r = sid" "r_lifecycle r = ReplicaLifecycle.DECLARED"
    "om_find (ct_sets c) sid \<noteq> None"
  using assms
  by (rule_tac provision_result [of rid sid w cm dv cap t u c]) auto

lemma provisions_iff:
  "provisions rid cmd \<longleftrightarrow> (\<exists>sid w cm dv cap t u. cmd = ProvisionReplica rid sid w cm dv cap t u)"
  by (cases cmd) (auto simp: provisions_def)

lemma command_replicas_ok:
  assumes "maps_sorted c" and "replicas_ok c"
  shows "replicas_ok (snd (run_command cmd c))"
  unfolding replicas_ok_def
proof (intro allI impI)
  fix rid r'
  assume r': "om_find (ct_replicas (snd (run_command cmd c))) rid = Some r'"
  have keep: "om_find (ct_sets (snd (run_command cmd c))) sid \<noteq> None" if "om_find (ct_sets c) sid \<noteq> None" for sid
    using command_keeps_set [of c sid _ cmd] that by fastforce
  show "r_id r' = rid \<and> authority_ok r' \<and> om_find (ct_sets (snd (run_command cmd c))) (r_set_id r') \<noteq> None"
  proof (cases "provisions rid cmd")
    case True
    then show ?thesis
      using r' replicas_okD [OF assms(2)] keep
      by (auto simp: provisions_iff elim!: provision_replica_at)
  next
    case False
    then obtain r where r: "om_find (ct_replicas c) rid = Some r" "evolves r r'"
      using run_command_replica [of c rid cmd] assms(1) r'
      by (auto simp: maps_sorted_def option_rel_Some2)
    then show ?thesis
      using replicas_okD [OF assms(2) r(1)] keep by (auto simp: evolves_def same_incarnation_def)
  qed
qed

lemma command_members:
  assumes "maps_sorted c" and "replicas_ok c" and "\<And>r. provisions r cmd \<Longrightarrow> False"
  shows "members sid (snd (run_command cmd c)) = members sid c"
proof -
  have *: "rel_option evolves (om_find (ct_replicas c) rid) (om_find (ct_replicas (snd (run_command cmd c))) rid)" for rid
    using run_command_replica [of c rid cmd] assms by (auto simp: maps_sorted_def)
  have "(\<exists>r. om_find (ct_replicas (snd (run_command cmd c))) rid = Some r \<and> r_set_id r = sid) \<longleftrightarrow>
      (\<exists>r. om_find (ct_replicas c) rid = Some r \<and> r_set_id r = sid)" for rid
    using * [of rid] replicas_okD [OF assms(2), of rid]
    by (cases "om_find (ct_replicas c) rid"; cases "om_find (ct_replicas (snd (run_command cmd c))) rid")
       (simp_all add: evolves_def same_incarnation_def)
  then show ?thesis
    using assms(1) run_command_sorted [OF assms(1), of cmd]
    by (simp add: members_def om_count_card maps_sorted_def)
qed

lemma provision_members:
  assumes "replica_count sid c < s_max_replicas s" and "members sid c \<le> unat (s_max_replicas s)"
  shows "members sid c < unat (s_max_replicas s)"
proof -
  have "members sid c < 2 ^ 32"
    using assms(2) unsigned_less [of "s_max_replicas s", where 'a = nat] by simp
  then have "unat (replica_count sid c) = members sid c"
    by (simp add: replica_count_def members_def unat_of_nat take_bit_nat_eq_self)
  then show ?thesis
    using assms(1) by (simp add: word_less_nat_alt)
qed

lemma members_put_replica:
  "members sid (put_replica rid r c) \<le> (if r_set_id r = sid then Suc (members sid c) else members sid c)"
  by (simp add: members_def om_count_put_le om_count_put_unless)

lemma command_sets_ok:
  assumes "maps_sorted c" and "replicas_ok c" and "sets_ok c"
  shows "sets_ok (snd (run_command cmd c))"
proof (cases "\<exists>rid. provisions rid cmd")
  case True
  then obtain rid sid w cm dv cap t u where cmd: "cmd = ProvisionReplica rid sid w cm dv cap t u"
    by (auto simp: provisions_iff)
  show ?thesis
  proof (rule provision_result [of rid sid w cm dv cap t u c])
    fix st reg g gen hgen r
    assume *: "om_find (ct_sets c) sid = Some st" "replica_count sid c < s_max_replicas st"
      "r = new_replica rid sid w (opened_set st) reg cm dv cap t u (ct_epoch c) gen hgen"
      "next_generations c = (gen, hgen)"
      "provision_replica rid sid w cm dv cap t u c = (op_ok ''replica provisioned'',
         put_replica rid r (put_set sid (opened_set st) c\<lparr>ct_rng := g\<rparr>))"
    let ?c = "put_set sid (opened_set st) c\<lparr>ct_rng := g\<rparr>"
    have "members sid c < unat (s_max_replicas st)"
      using provision_members [OF *(2)] sets_okD [OF assms(3) *(1)] by simp
    moreover have "members sid' (put_replica rid r ?c) \<le> (if sid' = sid then Suc (members sid' c) else members sid' c)" for sid'
      using members_put_replica [of sid' rid r ?c] *(3) by (auto simp: members_def split: if_splits)
    ultimately have "members sid' (put_replica rid r ?c) \<le> unat (s_max_replicas s)"
      if "om_find (ct_sets c) sid' = Some s" for sid' s
      using that *(1) sets_okD [OF assms(3) that] order_trans by (fastforce split: if_splits)
    then have "members sid' (put_replica rid r ?c) \<le> unat (s_max_replicas s)"
      if "om_find (om_put sid (opened_set st) (ct_sets c)) sid' = Some s" for sid' s
      using that *(1) by (auto split: if_splits)
    moreover have "s_id s = sid' \<and> set_counts_ok s"
      if "om_find (om_put sid (opened_set st) (ct_sets c)) sid' = Some s" for sid' s
      using that *(1) sets_okD [OF assms(3)] by (auto simp: set_counts_ok_def opened_set_def split: if_splits)
    ultimately show ?thesis
      by (simp add: cmd *(5) sets_ok_def)
  qed (use assms(3) cmd in simp)
next
  case False
  then have mem: "members sid (snd (run_command cmd c)) = members sid c" for sid
    using command_members [OF assms(1,2)] by blast
  show ?thesis
  proof (cases "creates cmd")
    case True
    then obtain st e where cmd: "cmd = CreateReplicaSet st e" by (auto simp: creates_def)
    show ?thesis
    proof (rule set_counts_ok_create [of st e c])
      assume *: "om_find (ct_sets c) (s_id st) = None" "0 < s_min_healthy st" "0 < s_desired_count st"
        "s_min_healthy st \<le> s_max_replicas st" "s_desired_count st \<le> s_max_replicas st"
        "snd (create_replica_set st e c) = put_set (s_id st) st c\<lparr>ct_epoch := e\<rparr>"
      have none: "{k. \<exists>v. om_find (ct_replicas c) k = Some v \<and> r_set_id v = s_id st} = {}"
        using replicas_okD [OF assms(2)] *(1) by fastforce
      have "om_sorted (ct_replicas c)"
        using assms(1) by (simp add: maps_sorted_def)
      then have "members (s_id st) c = 0"
        by (simp only: members_def om_count_card none card.empty)
      then show ?thesis
        using mem sets_okD [OF assms(3)] * by (auto simp: cmd sets_ok_def set_counts_ok_def)
    qed (use assms(3) cmd in simp)
  next
    case False
    show ?thesis
      unfolding sets_ok_def mem
    proof (intro allI impI)
      fix sid s'
      assume s': "om_find (ct_sets (snd (run_command cmd c))) sid = Some s'"
      then obtain s where s: "om_find (ct_sets c) sid = Some s" "set_evolves s s'"
        using run_command_sets [OF False, of c]
        by (auto simp: sets_evolve_def option_rel_Some2 dest!: spec [of _ sid])
      then show "s_id s' = sid \<and> set_counts_ok s' \<and> members sid c \<le> unat (s_max_replicas s')"
        using sets_okD [OF assms(3) s(1)] set_evolves_same [OF s(2)] by (simp add: set_counts_ok_def)
    qed
  qed
qed

theorem command_ok: "controller_ok c \<Longrightarrow> controller_ok (snd (run_command cmd c))"
  by (simp add: controller_ok_def run_command_sorted command_replicas_ok command_sets_ok)

lemma commands_ok: "controller_ok c \<Longrightarrow> controller_ok (run_commands cmds c)"
  by (induction cmds arbitrary: c) (auto simp: command_ok)

lemma reachable_ok: "reachable c \<Longrightarrow> controller_ok c"
  by (induction rule: reachable.induct) (auto simp: new_controller_ok command_ok)

section \<open>A replica's way to serving, as commands\<close>

text \<open>The clocks are read at each step: \<open>t i\<close> and \<open>u i\<close> are the readings of the \<open>i\<close>-th.\<close>

definition prepare ::
  "ReplicaId \<Rightarrow> WorkerId \<Rightarrow> WorkerBootId \<Rightarrow> PlacementId \<Rightarrow> WarmingRecord \<Rightarrow> HealthEvidence \<Rightarrow>
   ReadinessRecord \<Rightarrow> (nat \<Rightarrow> u64) \<Rightarrow> (nat \<Rightarrow> i64) \<Rightarrow> command list" where
  "prepare rid w b pid wm ev rr t u =
     [SetAllocating rid pid (t 2), SetStarting rid (t 3) (u 3), WarmReplica rid wm w b (t 4),
      ReportHealth rid ev w b (t 5), ReportReadiness rid rr w b (t 6)]"

definition bring_up ::
  "ReplicaId \<Rightarrow> ReplicaSetId \<Rightarrow> WorkerId \<Rightarrow> WorkerBootId \<Rightarrow> ReplicaCompatibility \<Rightarrow> DeviceCapability \<Rightarrow>
   u64 \<Rightarrow> PlacementId \<Rightarrow> WarmingRecord \<Rightarrow> HealthEvidence \<Rightarrow> ReadinessRecord \<Rightarrow>
   (nat \<Rightarrow> u64) \<Rightarrow> (nat \<Rightarrow> i64) \<Rightarrow> command list" where
  "bring_up rid sid w b cm dv cap pid wm ev rr t u =
     ProvisionReplica rid sid w cm dv cap (t 1) (u 1) # prepare rid w b pid wm ev rr t u @
     [PromoteReplica rid PromotionState.PRIMARY w b (t 7) (u 7)]"

end
