(* ===== verification/Controller_Demo.thy ===== *)
theory Controller_Demo
  imports Controller_System
begin

text \<open>
  One concrete run, evaluated: a worker registers, a set is created and a replica is brought
  up to serving. \<open>demo\<close> is the state after it and \<open>demo_pair\<close> the same state with a standby
  beside the primary. The theorems of the later theories are applied to these states.
\<close>

definition demo_rng :: engine where "demo_rng = sconst 7"

lemma demo_rng_simps [simp]: "shd demo_rng = 7" "stl demo_rng = demo_rng"
  by (simp_all add: demo_rng_def)

lemma demo_random [simp]: "random_id demo_rng = (MkId 7 7, demo_rng)"
  by (simp add: random_id_def)

definition demo_worker :: WorkerRegistration where
  "demo_worker = WorkerRegistration_default\<lparr>w_worker_id := MkId 0 1, w_boot_id := MkId 0 11\<rparr>"

definition demo_set :: ReplicaSetState where
  "demo_set = ReplicaSetState_default\<lparr>s_id := MkId 0 100, s_max_replicas := 2, s_generation := MkId 0 101\<rparr>"

definition demo_warm :: WarmingRecord where
  "demo_warm = WarmingRecord_default\<lparr>wm_warmup_execution_done := True, wm_started_warming_mono := 1\<rparr>"

definition demo_health :: HealthEvidence where
  "demo_health = HealthEvidence_default\<lparr>he_state := HealthState.HEALTHY, he_generation := MkId 7 7\<rparr>"

definition demo_ready :: ReadinessRecord where
  "demo_ready = ReadinessRecord_default\<lparr>rr_factors := \<lparr>rf_model_loaded = True,
     rf_artifact_validated = True, rf_adapters_present = True, rf_kernel_prepared = True,
     rf_graph_prepared = True, rf_memory_available = True, rf_device_context_initialized = True,
     rf_warmup_complete = True, rf_dependencies_ready = True, rf_endpoint_registered = True,
     rf_policy_current = True\<rparr>\<rparr>"

definition demo_start :: "command list" where
  "demo_start = [RegisterWorker demo_worker 0 0, CreateReplicaSet demo_set (MkId 0 200)]"

lemmas demo_simps = demo_worker_def demo_set_def demo_warm_def demo_health_def demo_ready_def
  WorkerRegistration_default_def ReplicaSetState_default_def WarmingRecord_default_def
  HealthEvidence_default_def ReadinessRecord_default_def ReplicaState_default_def
  ReplicaCompatibility_default_def CompatibilityRequirements_default_def
  DeviceCapability_default_def ComputeCapability_default_def PolicyBundle_default_def
  PromotionPolicy_default_def new_controller_def put_set_def put_replica_def new_replica_def
  HealthRecord_default_def

definition demo_up :: "ReplicaId \<Rightarrow> command list" where
  "demo_up rid = bring_up rid (MkId 0 100) (MkId 0 1) (MkId 0 11) ReplicaCompatibility_default
     DeviceCapability_default 8 (MkId 0 3) demo_warm demo_health demo_ready of_nat of_nat"

definition demo1 :: controller where "demo1 = run_commands demo_start (new_controller demo_rng)"

lemma demo1: "demo1 = \<lparr>ct_sets = [(MkId 0 100, demo_set)], ct_replicas = [],
    ct_workers = [(MkId 0 1, demo_worker)], ct_promotions = [], ct_drains = [], ct_failovers = [],
    ct_epoch = MkId 0 200, ct_rng = demo_rng\<rparr>"
  by (simp add: demo1_def demo_start_def register_worker_def create_replica_set_def Let_def demo_simps)

lemmas run_simps = provision_replica_def fresh_generation_def set_allocating_def
    set_starting_def warm_replica_def report_health_def report_readiness_def promote_replica_def
    replica_count_def can_transition_def is_terminated_def worker_boot_matches_def all_set_def  Let_def null_id_def
    promote_refusal_def check_compatibility_def issue_if_def compute_less_def ready_to_promote_def make_primary_def
    healthy_count_def derive_set_lifecycle_def set_can_transition_def

definition live_set :: ReplicaSetState where
  "live_set = demo_set\<lparr>s_lifecycle := ReplicaSetLifecycle.AVAILABLE\<rparr>"

definition live_replica :: "ReplicaId \<Rightarrow> ReplicaState" where
  "live_replica rid =
     (new_replica rid (MkId 0 100) (MkId 0 1) demo_set demo_worker ReplicaCompatibility_default
        DeviceCapability_default 8 1 1 (MkId 0 200) (MkId 7 7) (MkId 7 7))
     \<lparr>r_warmth := WarmthState.WARM, r_readiness := ReadinessState.READY,
      r_health := HealthState.HEALTHY, r_lifecycle := ReplicaLifecycle.SERVING,
      r_placement_id := MkId 0 3, r_placement := PlacementState.ASSIGNED,
      r_promotion := PromotionState.PRIMARY, r_role := ReplicaRole.PRIMARY,
      r_serving_eligible := True,
      r_health_record := HealthRecord_default\<lparr>hr_state := HealthState.HEALTHY,
        hr_updated_at_mono := 5, hr_generation := MkId 7 7\<rparr>,
      r_readiness_record := demo_ready, r_warming_record := demo_warm\<rparr>"

definition live_promotion :: "ReplicaId \<Rightarrow> PromotionRecord" where
  "live_promotion rid = PromotionRecord_default\<lparr>p_id := MkId 7 7, p_replica_id := rid,
     p_set_id := MkId 0 100, p_replica_generation := MkId 7 7,
     p_set_generation := MkId 0 101, p_epoch := MkId 0 200, p_to := PromotionState.PRIMARY,
     p_when_mono := 7, p_when_wall := 7, p_reason := ''promoted to PRIMARY''\<rparr>"

lemmas live_simps = live_set_def live_replica_def live_promotion_def PromotionRecord_default_def

definition demo :: controller where
  "demo = run_commands (demo_start @ demo_up (MkId 0 1000)) (new_controller demo_rng)"

lemma demo_eq: "demo = \<lparr>ct_sets = [(MkId 0 100, live_set)],
    ct_replicas = [(MkId 0 1000, live_replica (MkId 0 1000))],
    ct_workers = [(MkId 0 1, demo_worker)], ct_promotions = [live_promotion (MkId 0 1000)], ct_drains = [], ct_failovers = [],
    ct_epoch = MkId 0 200, ct_rng = demo_rng\<rparr>"
  unfolding demo_def run_commands_simps(3) demo1_def [symmetric] demo1
  by (simp add: demo_up_def prepare_def bring_up_def run_simps demo_simps live_simps kPromotionStateTable_def PromotionState_to_string_def)

lemma demo_ok [simp]: "controller_ok demo"
  by (simp add: demo_def commands_ok new_controller_ok)

text \<open>A standby that is ready to take over, on the same worker.\<close>

definition standby_replica :: "ReplicaId \<Rightarrow> ReplicaState" where
  "standby_replica rid = (live_replica rid)\<lparr>r_lifecycle := ReplicaLifecycle.READY,
     r_promotion := PromotionState.STANDBY, r_role := ReplicaRole.STANDBY, r_serving_eligible := False\<rparr>"

definition demo_pair :: controller where
  "demo_pair = put_replica (MkId 0 2000) (standby_replica (MkId 0 2000)) demo"

lemma live_replica_fields [simp]:
  "r_id (live_replica rid) = rid" "r_set_id (live_replica rid) = MkId 0 100"
  "r_worker_id (live_replica rid) = MkId 0 1" "r_boot_id (live_replica rid) = MkId 0 11"
  "r_health (live_replica rid) = HealthState.HEALTHY"
  "r_lifecycle (live_replica rid) = ReplicaLifecycle.SERVING"
  "r_coordinator_epoch (live_replica rid) = MkId 0 200"
  "r_serving_eligible (live_replica rid)"
  "r_health_generation (live_replica rid) = MkId 7 7"
  "r_readiness (live_replica rid) = ReadinessState.READY"
  "r_placement (live_replica rid) = PlacementState.ASSIGNED"
  "r_active_requests (live_replica rid) = 0"
  "r_set_generation (live_replica rid) = MkId 0 101"
  "r_compatibility (live_replica rid) = ReplicaCompatibility_default"
  "authority_ok (live_replica rid)"
  by (simp_all add: live_replica_def new_replica_def authority_ok_def demo_set_def demo_worker_def
      ReplicaState_default_def)

lemma live_set_fields [simp]:
  "s_lifecycle live_set = ReplicaSetLifecycle.AVAILABLE"
  "s_max_replicas live_set = 2" "s_min_healthy live_set = 1" "s_desired_count live_set = 1"
  "s_id live_set = MkId 0 100" "s_generation live_set = MkId 0 101"
  "s_compatibility live_set = CompatibilityRequirements_default"
  by (simp_all add: live_set_def demo_set_def ReplicaSetState_default_def)

lemma demo_finds [simp]:
  "om_find (ct_replicas demo) (MkId 0 1000) = Some (live_replica (MkId 0 1000))"
  "om_find (ct_sets demo) (MkId 0 100) = Some live_set"
  "om_find (ct_workers demo) (MkId 0 1) = Some demo_worker"
  "ct_epoch demo = MkId 0 200"
  by (simp_all add: demo_eq)

lemma demo_pair_ok [simp]: "controller_ok demo_pair"
  using demo_ok
  by (auto simp: controller_ok_def maps_sorted_def replicas_ok_def sets_ok_def demo_pair_def
      standby_replica_def authority_ok_def members_def demo_eq less_Id_def id_less_def om_sorted_def
      split: if_splits)

lemma demo_boot [simp]: "w_boot_id demo_worker = MkId 0 11" "w_worker_id demo_worker = MkId 0 1"
  by (simp_all add: demo_worker_def)

lemma default_compatible [simp]:
  "cr_compatible (check_compatibility CompatibilityRequirements_default ReplicaCompatibility_default)"
  by (simp add: check_compatibility_meets meets_def compute_le_def
      CompatibilityRequirements_default_def ReplicaCompatibility_default_def)

end
