(* ===== verification/Controller_Safety.thy ===== *)
theory Controller_Safety
  imports Controller_Demo
begin

text \<open>
  What the controller never does, over every sequence of commands: serve without the flag of
  a serving primary, serve a replica that has been drained or failed or retired, serve under a
  stale worker boot (other than the null one) or coordinator epoch, exceed a set's maximum, or change on a refusal.
\<close>

lemma sorted_of_ok [simp]: "controller_ok c \<Longrightarrow> om_sorted (ct_replicas c)"
  "controller_ok c \<Longrightarrow> om_sorted (ct_sets c)" "controller_ok c \<Longrightarrow> om_sorted (ct_workers c)"
  by (simp_all add: controller_ok_def maps_sorted_def)

lemma ok_replica:
  "controller_ok c \<Longrightarrow> om_find (ct_replicas c) rid = Some r \<Longrightarrow>
     r_id r = rid \<and> authority_ok r \<and> (\<exists>s. om_find (ct_sets c) (r_set_id r) = Some s)"
  using replicas_okD unfolding controller_ok_def by blast

lemma ok_set:
  "controller_ok c \<Longrightarrow> om_find (ct_sets c) sid = Some s \<Longrightarrow>
     s_id s = sid \<and> set_counts_ok s \<and> members sid c \<le> unat (s_max_replicas s)"
  using sets_okD unfolding controller_ok_def by blast

lemma run_new_ok [simp]: "controller_ok (run_commands cmds (new_controller g))"
  by (simp add: commands_ok new_controller_ok)

section \<open>One replica over a sequence of commands\<close>

definition no_provision :: "ReplicaId \<Rightarrow> command list \<Rightarrow> bool" where
  "no_provision rid cmds \<longleftrightarrow> list_all (\<lambda>cmd. \<not> provisions rid cmd) cmds"

lemma command_follows:
  assumes "controller_ok c" and "om_find (ct_replicas c) rid = Some r" and "\<not> provisions rid cmd"
  obtains r' where "om_find (ct_replicas (snd (run_command cmd c))) rid = Some r'"
    "same_incarnation r r'" "view_step (view_of r) (view_of r')"
  using run_command_replica [of c rid cmd] assms ok_replica [OF assms(1,2)]
  by (auto simp: option_rel_Some1 evolves_def)

text \<open>
  Whatever holds of a view and is kept by every step holds along every sequence of commands
  that does not provision the replica again.
\<close>

lemma follows_invariant:
  assumes "controller_ok c" and "om_find (ct_replicas c) rid = Some r" and "no_provision rid cmds"
    and "P (view_of r)" and "\<And>v v'. P v \<Longrightarrow> view_step v v' \<Longrightarrow> P v'"
  shows "\<exists>r'. om_find (ct_replicas (run_commands cmds c)) rid = Some r' \<and> same_incarnation r r' \<and>
    P (view_of r')"
  using assms(1-4)
proof (induction cmds arbitrary: c r)
  case Nil
  then show ?case by (auto simp: same_incarnation_def)
next
  case (Cons cmd cmds)
  then obtain r1 where r1: "om_find (ct_replicas (snd (run_command cmd c))) rid = Some r1"
    "same_incarnation r r1" "view_step (view_of r) (view_of r1)"
    using command_follows [of c rid r cmd] by (auto simp: no_provision_def)
  then obtain r' where "om_find (ct_replicas (run_commands cmds (snd (run_command cmd c)))) rid = Some r'"
    "same_incarnation r1 r'" "P (view_of r')"
    using Cons.IH [of "snd (run_command cmd c)" r1] Cons.prems assms(5) [of "view_of r"] command_ok
    by (auto simp: no_provision_def)
  then show ?case
    using r1(2) by (auto simp: same_incarnation_def)
qed

section \<open>The serving gate on the controller's state\<close>

lemma servable_iff:
  "sa_eligible (servable rid c) \<longleftrightarrow>
     (\<exists>r s. om_find (ct_replicas c) rid = Some r \<and> om_find (ct_sets c) (r_set_id r) = Some s \<and>
        s_lifecycle s \<in> {ReplicaSetLifecycle.AVAILABLE, ReplicaSetLifecycle.DEGRADED} \<and>
        r_coordinator_epoch r = ct_epoch c \<and> r_set_generation r = s_generation s \<and>
        r_generation r \<noteq> null_id \<and> r_artifact_generation r = s_artifact_generation s \<and>
        r_policy_generation r = s_policy_generation s \<and>
        r_policy_fingerprint r = cq_policy_fingerprint (s_compatibility s) \<and>
        r_boot_id r = current_boot_for rid c \<and>
        r_lifecycle r = ReplicaLifecycle.SERVING \<and>
        r_health r \<in> {HealthState.HEALTHY, HealthState.DEGRADED} \<and>
        r_readiness r = ReadinessState.READY \<and> r_warmth r = WarmthState.WARM \<and>
        r_promotion r \<noteq> PromotionState.NOT_PROMOTED \<and> r_serving_eligible r \<and>
        r_placement r = PlacementState.ASSIGNED)"
  by (auto simp: servable_def current_boot_for_def eligible_iff authority_factors_def
      ServingAuthorityDecision_default_def split: option.splits)

lemma not_servable:
  "om_find (ct_replicas c) rid = Some r \<Longrightarrow>
   \<not> r_serving_eligible r \<or> r_lifecycle r \<noteq> ReplicaLifecycle.SERVING \<or>
   r_coordinator_epoch r \<noteq> ct_epoch c \<or> r_boot_id r \<noteq> current_boot_for rid c \<Longrightarrow>
   \<not> sa_eligible (servable rid c)"
  by (auto simp: servable_iff)

definition finished :: "view \<Rightarrow> bool" where
  "finished v \<longleftrightarrow> \<not> snd v \<and> fst v \<in> {ReplicaLifecycle.DRAINING, ReplicaLifecycle.QUIESCED,
     ReplicaLifecycle.FAILED, ReplicaLifecycle.RETIRED}"

lemma finished_step: "finished v \<Longrightarrow> view_step v v' \<Longrightarrow> finished v'"
  by (cases v; cases v'; cases "fst v'")
     (auto simp: finished_def view_step_iff op_edge_def can_transition_def)

text \<open>
  C7. Once a replica is draining, quiesced, failed or retired, no sequence of commands that does
  not provision its id again makes it serve: it stays the same incarnation in one of those
  four states, and the serving gate refuses it after every such sequence.
\<close>

theorem finished_never_serves:
  assumes "controller_ok c" and "find_replica rid c = Some r"
    and "r_lifecycle r \<in> {ReplicaLifecycle.DRAINING, ReplicaLifecycle.QUIESCED,
           ReplicaLifecycle.FAILED, ReplicaLifecycle.RETIRED}"
    and "no_provision rid cmds"
  shows "\<not> sa_eligible (servable rid (run_commands cmds c)) \<and>
    (\<exists>r'. find_replica rid (run_commands cmds c) = Some r' \<and> same_incarnation r r' \<and>
       r_lifecycle r' \<in> {ReplicaLifecycle.DRAINING, ReplicaLifecycle.QUIESCED,
         ReplicaLifecycle.FAILED, ReplicaLifecycle.RETIRED})"
proof -
  have "finished (view_of r)"
    using ok_replica [of c rid r] assms(1-3)
    by (auto simp: find_replica_def finished_def view_of_def authority_ok_def)
  then obtain r' where "om_find (ct_replicas (run_commands cmds c)) rid = Some r'"
    "same_incarnation r r'" "finished (view_of r')"
    using follows_invariant [of c rid r cmds finished] assms finished_step
    by (auto simp: find_replica_def)
  then show ?thesis
    using not_servable [of "run_commands cmds c" rid r']
    by (auto simp: find_replica_def finished_def view_of_def)
qed

theorem finished_never_serves_witness:
  "\<not> sa_eligible (servable (MkId 0 1000) (run_commands
     [ReportReadiness (MkId 0 1000) demo_ready (MkId 0 1) (MkId 0 11) 9,
      PromoteReplica (MkId 0 1000) PromotionState.PRIMARY (MkId 0 1) (MkId 0 11) 10 10]
     (snd (run_command (DrainReplica (MkId 0 1000) (MkId 0 1) (MkId 0 11) 8) demo))))"
proof -
  let ?c = "snd (run_command (DrainReplica (MkId 0 1000) (MkId 0 1) (MkId 0 11) 8) demo)"
  let ?cmds = "[ReportReadiness (MkId 0 1000) demo_ready (MkId 0 1) (MkId 0 11) 9,
      PromoteReplica (MkId 0 1000) PromotionState.PRIMARY (MkId 0 1) (MkId 0 11) 10 10]"
  let ?r = "(live_replica (MkId 0 1000))\<lparr>r_serving_eligible := False, r_role := ReplicaRole.SECONDARY,
      r_promotion := PromotionState.STANDBY, r_lifecycle := ReplicaLifecycle.DRAINING\<rparr>"
  have 1: "controller_ok ?c"
    by (rule command_ok) simp
  have 2: "find_replica (MkId 0 1000) ?c = Some ?r"
    by (simp add: find_replica_def drain_replica_def worker_boot_matches_def can_transition_DRAINING Let_def
        split: prod.split)
  have 3: "no_provision (MkId 0 1000) ?cmds"
    by (simp add: no_provision_def provisions_def)
  show ?thesis
    using finished_never_serves [OF 1 2 _ 3] by fastforce
qed

section \<open>Fencing\<close>

definition registers :: "WorkerId \<Rightarrow> WorkerBootId \<Rightarrow> command \<Rightarrow> bool" where
  "registers w b cmd \<longleftrightarrow> (case cmd of
     RegisterWorker wr _ _ \<Rightarrow> w_worker_id wr = w \<and> w_boot_id wr = b | _ \<Rightarrow> False)"

definition boot_of :: "WorkerId \<Rightarrow> controller \<Rightarrow> WorkerBootId" where
  "boot_of w c = (case om_find (ct_workers c) w of None \<Rightarrow> null_id | Some reg \<Rightarrow> w_boot_id reg)"

lemma current_boot_boot_of:
  "om_find (ct_replicas c) rid = Some r \<Longrightarrow> current_boot_for rid c = boot_of (r_worker_id r) c"
  by (simp add: current_boot_for_def boot_of_def)

lemma workers_other [simp]:
  "ct_workers (snd (create_replica_set st e c)) = ct_workers c"
  "ct_workers (snd (transition_replica_set sid l c)) = ct_workers c"
  "ct_workers (snd (provision_replica rid sid w cm dv cap t u c)) = ct_workers c"
  "ct_workers (snd (set_allocating rid pid t c)) = ct_workers c"
  "ct_workers (snd (set_starting rid t u c)) = ct_workers c"
  "ct_workers (snd (warm_replica rid wm wk b t c)) = ct_workers c"
  "ct_workers (snd (report_health rid ev wk b t c)) = ct_workers c"
  "ct_workers (snd (report_readiness rid rr wk b t c)) = ct_workers c"
  "ct_workers (snd (promote_replica rid tg wk b t u c)) = ct_workers c"
  "ct_workers (snd (drain_replica rid wk b t c)) = ct_workers c"
  "ct_workers (snd (complete_drain rid q f t c)) = ct_workers c"
  "ct_workers (snd (fail_replica rid wk b rs t c)) = ct_workers c"
  "ct_workers (snd (retire_replica rid t c)) = ct_workers c"
  "ct_workers (snd (trigger_failover sid rid rs t u c)) = ct_workers c"
  "ct_workers (set_epoch e c) = ct_workers c"
  by (auto simp: create_replica_set_def transition_replica_set_def provision_replica_def fresh_generation_def
      set_allocating_def set_starting_def warm_replica_def report_health_def report_readiness_def
      promote_replica_def drain_replica_def complete_drain_def fail_replica_def retire_replica_def
      trigger_failover_def set_epoch_def Let_def split: option.splits prod.splits list.splits)

lemma boot_of_command:
  assumes "controller_ok c" and "boot_of w c \<noteq> b" and "b \<noteq> null_id" and "\<not> registers w b cmd"
  shows "boot_of w (snd (run_command cmd c)) \<noteq> b"
  using assms
  by (cases cmd) (auto simp: boot_of_def registers_def register_worker_def unregister_worker_def
      om_find_erase Let_def split: option.splits)

text \<open>
  C8. A worker that restarts is fenced, provided it was given a boot identity: a replica whose boot
  is not the null identity, and not the one its worker is registered with, is not served after any
  sequence of commands, unless it is provisioned again or the worker registers under the old boot
  identity again.
\<close>

theorem stale_boot_never_serves:
  assumes "controller_ok c" and "find_replica rid c = Some r" and "r_boot_id r \<noteq> null_id"
    and "current_boot_for rid c \<noteq> r_boot_id r" and "no_provision rid cmds"
    and "list_all (\<lambda>cmd. \<not> registers (r_worker_id r) (r_boot_id r) cmd) cmds"
  shows "\<not> sa_eligible (servable rid (run_commands cmds c))"
proof -
  have "boot_of (r_worker_id r) (run_commands cmds c) \<noteq> r_boot_id r"
    using assms(1) assms(4) [unfolded current_boot_boot_of [OF assms(2) [unfolded find_replica_def]]] assms(6)
    by (induction cmds arbitrary: c) (auto simp: boot_of_command command_ok assms(3))
  moreover obtain r' where "om_find (ct_replicas (run_commands cmds c)) rid = Some r'" "same_incarnation r r'"
    using follows_invariant [of c rid r cmds "\<lambda>_. True"] assms by (auto simp: find_replica_def)
  ultimately show ?thesis
    using not_servable [of "run_commands cmds c" rid r']
    by (auto simp: current_boot_boot_of same_incarnation_def)
qed


theorem stale_boot_never_serves_witness:
  "\<not> sa_eligible (servable (MkId 0 1000) (run_commands
     [PromoteReplica (MkId 0 1000) PromotionState.PRIMARY (MkId 0 1) (MkId 0 11) 10 10,
      UnregisterWorker (MkId 0 1)]
     (snd (run_command (RegisterWorker (demo_worker\<lparr>w_boot_id := MkId 0 12\<rparr>) 8 8) demo))))"
proof -
  have "controller_ok (snd (run_command (RegisterWorker (demo_worker\<lparr>w_boot_id := MkId 0 12\<rparr>) 8 8) demo))"
    by (rule command_ok) simp
  from stale_boot_never_serves [OF this, of "MkId 0 1000" "fail_on_restart (live_replica (MkId 0 1000))"
      "[PromoteReplica (MkId 0 1000) PromotionState.PRIMARY (MkId 0 1) (MkId 0 11) 10 10,
      UnregisterWorker (MkId 0 1)]"]
  show ?thesis
    by (simp add: find_replica_def no_provision_def provisions_def registers_def register_worker_def
        current_boot_boot_of boot_of_def Let_def null_id_def fail_on_restart_def)
qed

text \<open>
  The null identity is the exception: it is also what \<open>current_boot_for\<close> gives for a worker that is not
  registered, and what \<open>rf_worker\<close> registers with when it is given no \<open>--boot\<close>. In the run below a
  replica is provisioned on such a worker, the worker registers again under a boot of its own, so the
  replica is stale, and then unregisters: the gate takes the replica's boot for the current one, and
  the replica is warmed, reported ready, promoted and served with no worker behind it.
\<close>

definition null_worker :: WorkerRegistration where
  "null_worker = demo_worker\<lparr>w_boot_id := null_id\<rparr>"

definition orphan_before :: "command list" where
  "orphan_before = [RegisterWorker null_worker 0 0, CreateReplicaSet demo_set (MkId 0 200),
     ProvisionReplica (MkId 0 1000) (MkId 0 100) (MkId 0 1) ReplicaCompatibility_default DeviceCapability_default 8 1 1,
     SetAllocating (MkId 0 1000) (MkId 0 3) 2, SetStarting (MkId 0 1000) 3 3,
     RegisterWorker demo_worker 4 4]"

definition orphan_after :: "command list" where
  "orphan_after = [UnregisterWorker (MkId 0 1), WarmReplica (MkId 0 1000) demo_warm (MkId 0 1) null_id 5,
     ReportHealth (MkId 0 1000) demo_health (MkId 0 1) null_id 6,
     ReportReadiness (MkId 0 1000) demo_ready (MkId 0 1) null_id 7,
     PromoteReplica (MkId 0 1000) PromotionState.PRIMARY (MkId 0 1) null_id 8 8]"

definition orphan :: ReplicaState where
  "orphan = (new_replica (MkId 0 1000) (MkId 0 100) (MkId 0 1) demo_set null_worker ReplicaCompatibility_default
        DeviceCapability_default 8 1 1 (MkId 0 200) (MkId 7 7) (MkId 7 7))
     \<lparr>r_health := HealthState.STARTING, r_lifecycle := ReplicaLifecycle.STARTING,
      r_placement_id := MkId 0 3, r_placement := PlacementState.ASSIGNED,
      r_health_record := HealthRecord_default\<lparr>hr_state := HealthState.STARTING,
        hr_updated_at_mono := 3, hr_updated_at_wall := 3\<rparr>\<rparr>"

lemma orphan_stale: "run_commands orphan_before (new_controller demo_rng) =
  \<lparr>ct_sets = [(MkId 0 100, demo_set\<lparr>s_lifecycle := ReplicaSetLifecycle.PROVISIONING\<rparr>)],
    ct_replicas = [(MkId 0 1000, orphan)], ct_workers = [(MkId 0 1, demo_worker)],
    ct_promotions = [], ct_drains = [], ct_failovers = [], ct_epoch = MkId 0 200, ct_rng = demo_rng\<rparr>"
  by (simp add: orphan_before_def null_worker_def orphan_def register_worker_def create_replica_set_def run_simps demo_simps om_map_def)

lemma orphan_fields:
  "r_boot_id orphan = MkId 0 0" "r_worker_id orphan = MkId 0 1"
  "MkId 0 11 \<noteq> (MkId 0 0 :: WorkerBootId)"
  by (simp_all add: orphan_def new_replica_def null_worker_def null_id_def)

lemma orphan_served:
  "sa_eligible (servable (MkId 0 1000) (run_commands orphan_after (run_commands orphan_before (new_controller demo_rng))))"
proof -
  have "\<exists>r p. run_commands orphan_after (run_commands orphan_before (new_controller demo_rng)) =
    \<lparr>ct_sets = [(MkId 0 100, live_set)], ct_replicas = [(MkId 0 1000, r)], ct_workers = [],
     ct_promotions = [p], ct_drains = [], ct_failovers = [], ct_epoch = MkId 0 200, ct_rng = demo_rng\<rparr> \<and>
    r = (live_replica (MkId 0 1000))\<lparr>r_boot_id := MkId 0 0, r_health_record := r_health_record r, r_readiness_record := r_readiness_record r,
      r_warming_record := r_warming_record r\<rparr>"
    unfolding orphan_stale orphan_after_def
    by (simp add: unregister_worker_def had_authority_def orphan_def null_worker_def run_simps demo_simps live_simps
        kPromotionStateTable_def PromotionState_to_string_def om_map_def)
  then obtain r p where run: "run_commands orphan_after (run_commands orphan_before (new_controller demo_rng)) =
    \<lparr>ct_sets = [(MkId 0 100, live_set)], ct_replicas = [(MkId 0 1000, r)], ct_workers = [],
     ct_promotions = [p], ct_drains = [], ct_failovers = [], ct_epoch = MkId 0 200, ct_rng = demo_rng\<rparr>" and
    r: "r = (live_replica (MkId 0 1000))\<lparr>r_boot_id := MkId 0 0, r_health_record := r_health_record r, r_readiness_record := r_readiness_record r,
      r_warming_record := r_warming_record r\<rparr>" by blast
  show ?thesis unfolding run
    by (subst r) (simp add: servable_iff current_boot_for_def null_id_def live_simps demo_simps)
qed

theorem null_boot_served_without_worker:
  "\<exists>c r. c = run_commands orphan_before (new_controller demo_rng) \<and> find_replica (MkId 0 1000) c = Some r \<and>
     current_boot_for (MkId 0 1000) c \<noteq> r_boot_id r \<and> no_provision (MkId 0 1000) orphan_after \<and>
     list_all (\<lambda>cmd. \<not> registers (r_worker_id r) (r_boot_id r) cmd) orphan_after \<and>
     find_worker (r_worker_id r) (run_commands orphan_after c) = None \<and>
     sa_eligible (servable (MkId 0 1000) (run_commands orphan_after c))"
proof -
  let ?c = "run_commands orphan_before (new_controller demo_rng)"
  have "find_worker (MkId 0 1) (run_commands orphan_after ?c) = None" 
    unfolding orphan_stale orphan_after_def
    by (simp add: find_worker_def unregister_worker_def had_authority_def orphan_def null_worker_def run_simps demo_simps live_simps
        kPromotionStateTable_def PromotionState_to_string_def om_map_def)
  moreover have "find_replica (MkId 0 1000) ?c = Some orphan" "current_boot_for (MkId 0 1000) ?c = MkId 0 11"
    by (simp_all add: orphan_stale find_replica_def current_boot_for_def orphan_fields)
  moreover have "no_provision (MkId 0 1000) orphan_after"
    "list_all (\<lambda>cmd. \<not> registers (r_worker_id orphan) (r_boot_id orphan) cmd) orphan_after"
    by (simp_all add: orphan_after_def no_provision_def provisions_def registers_def)
  ultimately show ?thesis using orphan_served by (intro exI [of _ ?c] exI [of _ orphan]) (simp add: orphan_fields)
qed

definition sets_epoch :: "CoordinatorEpoch \<Rightarrow> command \<Rightarrow> bool" where
  "sets_epoch e cmd \<longleftrightarrow> (case cmd of SetEpoch e' \<Rightarrow> e' = e | CreateReplicaSet _ e' \<Rightarrow> e' = e | _ \<Rightarrow> False)"

lemma epoch_other [simp]:
  "ct_epoch (snd (register_worker wr t u c)) = ct_epoch c"
  "ct_epoch (snd (unregister_worker wk c)) = ct_epoch c"
  "ct_epoch (snd (transition_replica_set sid l c)) = ct_epoch c"
  "ct_epoch (snd (provision_replica rid sid w cm dv cap t u c)) = ct_epoch c"
  "ct_epoch (snd (set_allocating rid pid t c)) = ct_epoch c"
  "ct_epoch (snd (set_starting rid t u c)) = ct_epoch c"
  "ct_epoch (snd (warm_replica rid wm wk b t c)) = ct_epoch c"
  "ct_epoch (snd (report_health rid ev wk b t c)) = ct_epoch c"
  "ct_epoch (snd (report_readiness rid rr wk b t c)) = ct_epoch c"
  "ct_epoch (snd (promote_replica rid tg wk b t u c)) = ct_epoch c"
  "ct_epoch (snd (drain_replica rid wk b t c)) = ct_epoch c"
  "ct_epoch (snd (complete_drain rid q f t c)) = ct_epoch c"
  "ct_epoch (snd (fail_replica rid wk b rs t c)) = ct_epoch c"
  "ct_epoch (snd (retire_replica rid t c)) = ct_epoch c"
  "ct_epoch (snd (trigger_failover sid rid rs t u c)) = ct_epoch c"
  "ct_epoch (set_epoch e c) = e"
  by (auto simp: register_worker_def unregister_worker_def transition_replica_set_def provision_replica_def fresh_generation_def
      set_allocating_def set_starting_def warm_replica_def report_health_def report_readiness_def
      promote_replica_def drain_replica_def complete_drain_def fail_replica_def retire_replica_def
      trigger_failover_def set_epoch_def Let_def split: option.splits prod.splits list.splits)

lemma epoch_command: "ct_epoch c \<noteq> e \<Longrightarrow> \<not> sets_epoch e cmd \<Longrightarrow> ct_epoch (snd (run_command cmd c)) \<noteq> e"
  by (cases cmd) (auto simp: sets_epoch_def create_replica_set_def Let_def)

text \<open>
  C9. A coordinator epoch change fences every older replica: a replica whose epoch is not the
  controller's is never served by any sequence of commands that neither provisions it again
  nor brings its epoch back.
\<close>

theorem stale_epoch_never_serves:
  assumes "controller_ok c" and "find_replica rid c = Some r" and "r_coordinator_epoch r \<noteq> ct_epoch c"
    and "no_provision rid cmds" and "list_all (\<lambda>cmd. \<not> sets_epoch (r_coordinator_epoch r) cmd) cmds"
  shows "\<not> sa_eligible (servable rid (run_commands cmds c))"
proof -
  have "ct_epoch (run_commands cmds c) \<noteq> r_coordinator_epoch r"
    using assms(3)[symmetric] assms(5)
    by (induction cmds arbitrary: c) (auto simp: epoch_command)
  moreover obtain r' where "om_find (ct_replicas (run_commands cmds c)) rid = Some r'" "same_incarnation r r'"
    using follows_invariant [of c rid r cmds "\<lambda>_. True"] assms by (auto simp: find_replica_def)
  ultimately show ?thesis
    using not_servable [of "run_commands cmds c" rid r'] by (auto simp: same_incarnation_def)
qed

theorem stale_epoch_never_serves_witness:
  "\<not> sa_eligible (servable (MkId 0 1000) (run_commands
     [PromoteReplica (MkId 0 1000) PromotionState.PRIMARY (MkId 0 1) (MkId 0 11) 10 10]
     (snd (run_command (SetEpoch (MkId 0 201)) demo))))"
proof -
  have "controller_ok (snd (run_command (SetEpoch (MkId 0 201)) demo))"
    by (rule command_ok) simp
  from stale_epoch_never_serves [OF this, of "MkId 0 1000" "live_replica (MkId 0 1000)"
      "[PromoteReplica (MkId 0 1000) PromotionState.PRIMARY (MkId 0 1) (MkId 0 11) 10 10]"]
  show ?thesis
    by (simp add: find_replica_def no_provision_def provisions_def sets_epoch_def set_epoch_def)
qed

section \<open>Refusals\<close>

text \<open>A refused operation returns the state it was given.\<close>

definition refusal_free :: "OpResult \<times> controller \<Rightarrow> controller \<Rightarrow> bool" where
  "refusal_free res c \<longleftrightarrow> is_ok (fst res) \<or> snd res = c"

lemma refusal_free_simps [simp]:
  "refusal_free (op_ok m, c') c" "refusal_free (op_rejected m, c') c \<longleftrightarrow> c' = c"
  "refusal_free (op_invalid m, c') c \<longleftrightarrow> c' = c"
  by (simp_all add: refusal_free_def)

lemma provision_refused: "refusal_free (provision_replica rid sid w cm dv cap t u c) c"
  by (rule provision_result [of rid sid w cm dv cap t u c]) auto

lemma promote_refused: "refusal_free (promote_replica rid tg w b t u c) c"
  by (simp add: promote_replica_def Let_def split: option.split prod.split)

lemma drain_refused: "refusal_free (drain_replica rid w b t c) c"
  by (auto simp: drain_replica_def Let_def can_transition_DRAINING split: option.split prod.split)

lemma other_refused:
  "refusal_free (set_allocating rid pid t c) c"
  "refusal_free (set_starting rid t u c) c"
  "refusal_free (warm_replica rid wm w b t c) c"
  "refusal_free (report_health rid ev w b t c) c"
  "refusal_free (report_readiness rid rr w b t c) c"
  "refusal_free (complete_drain rid q f t c) c"
  "refusal_free (retire_replica rid t c) c"
  "refusal_free (register_worker wr t u c) c"
  "refusal_free (unregister_worker w c) c"
  "refusal_free (create_replica_set st e c) c"
  "refusal_free (transition_replica_set sid l c) c"
  by (simp_all add: set_allocating_def set_starting_def warm_replica_def report_health_def
      report_readiness_def complete_drain_def retire_replica_def register_worker_def unregister_worker_def create_replica_set_def
      transition_replica_set_def Let_def split: option.split)

definition is_fail :: "command \<Rightarrow> bool" where
  "is_fail cmd \<longleftrightarrow> (case cmd of FailReplica _ _ _ _ _ \<Rightarrow> True | TriggerFailover _ _ _ _ _ \<Rightarrow> True | _ \<Rightarrow> False)"

text \<open>
  C38. A refusal is without effect: a command that does not return \<open>OK\<close> leaves the whole
  controller state, the random engine included, as it was, for every operation but
  \<open>fail_replica\<close> and \<open>trigger_failover\<close>.
\<close>

theorem refused_changes_nothing:
  assumes "\<not> is_ok (fst (run_command cmd c))" and "\<not> is_fail cmd"
  shows "snd (run_command cmd c) = c"
proof -
  have "refusal_free (run_command cmd c) c"
    using assms(2) by (cases cmd) (simp_all add: is_fail_def provision_refused promote_refused drain_refused other_refused)
  then show ?thesis using assms(1) by (simp add: refusal_free_def)
qed

theorem refused_changes_nothing_witness:
  "snd (run_command (CompleteDrain (MkId 0 1000) 0 False 9) demo) = demo"
  using refused_changes_nothing [of "CompleteDrain (MkId 0 1000) 0 False 9" demo]
  by (simp add: complete_drain_def is_fail_def)

section \<open>Isolation\<close>

text \<open>The one replica a command names, for the commands that name one.\<close>

fun target :: "command \<Rightarrow> ReplicaId option" where
  "target (ProvisionReplica rid _ _ _ _ _ _ _) = Some rid"
| "target (SetAllocating rid _ _) = Some rid"
| "target (SetStarting rid _ _) = Some rid"
| "target (WarmReplica rid _ _ _ _) = Some rid"
| "target (ReportHealth rid _ _ _ _) = Some rid"
| "target (ReportReadiness rid _ _ _ _) = Some rid"
| "target (PromoteReplica rid _ _ _ _ _) = Some rid"
| "target (DrainReplica rid _ _ _) = Some rid"
| "target (CompleteDrain rid _ _ _) = Some rid"
| "target (FailReplica rid _ _ _ _) = Some rid"
| "target (RetireReplica rid _) = Some rid"
| "target _ = None"

lemma target_frame:
  assumes "target cmd = Some rid" and "rid' \<noteq> rid"
  shows "om_find (ct_replicas (snd (run_command cmd c))) rid' = om_find (ct_replicas c) rid'"
  using assms
  by (cases cmd) (auto simp: provision_other set_allocating_def set_starting_def warm_replica_def report_health_def report_readiness_def
      promote_replica_def drain_replica_def complete_drain_def retire_replica_def fail_replica_def
      Let_def split: option.splits prod.splits)

text \<open>
  Isolation: a sequence of commands that each name another replica leaves a replica's
  record exactly as it was.
\<close>

theorem others_commands_leave_replica:
  assumes "list_all (\<lambda>cmd. \<exists>rid'. target cmd = Some rid' \<and> rid' \<noteq> rid) cmds"
  shows "find_replica rid (run_commands cmds c) = find_replica rid c"
  using assms
  by (induction cmds arbitrary: c) (auto simp: find_replica_def target_frame)

theorem others_commands_leave_replica_witness:
  "find_replica (MkId 0 1000) (run_commands (demo_up (MkId 0 2000)) demo) = Some (live_replica (MkId 0 1000))"
  using others_commands_leave_replica [of "MkId 0 1000" "demo_up (MkId 0 2000)" demo]
  by (simp add: demo_up_def bring_up_def prepare_def find_replica_def)

section \<open>Sets over a sequence of commands\<close>

text \<open>
  A replica set's contract is fixed when it is created: no sequence of commands removes a set
  or changes any field of it but the lifecycle, which only moves along the set lifecycle table.
\<close>

theorem set_contract_fixed:
  assumes "find_set sid c = Some s"
  shows "\<exists>l. find_set sid (run_commands cmds c) = Some (s\<lparr>s_lifecycle := l\<rparr>) \<and>
    set_can_transition\<^sup>*\<^sup>* (s_lifecycle s) l"
  using assms unfolding find_set_def
proof (induction cmds arbitrary: c s)
  case Nil
  then show ?case by (intro exI [of _ "s_lifecycle s"]) simp
next
  case (Cons cmd cmds)
  obtain s1 where s1: "om_find (ct_sets (snd (run_command cmd c))) sid = Some s1" "set_evolves s s1"
    using command_keeps_set [OF Cons.prems] by blast
  obtain l where "om_find (ct_sets (run_commands cmds (snd (run_command cmd c)))) sid = Some (s1\<lparr>s_lifecycle := l\<rparr>)"
    "set_can_transition\<^sup>*\<^sup>* (s_lifecycle s1) l"
    using Cons.IH [OF s1(1)] by blast
  moreover have "s1\<lparr>s_lifecycle := l\<rparr> = s\<lparr>s_lifecycle := l\<rparr>"
    using s1(2) by (cases s; cases s1) (auto simp: set_evolves_def)
  moreover have "set_can_transition\<^sup>*\<^sup>* (s_lifecycle s) (s_lifecycle s1)"
    using s1(2) by (auto simp: set_evolves_def)
  ultimately show ?case
    by (auto intro: rtranclp_trans)
qed

theorem set_contract_fixed_witness:
  "\<exists>l. find_set (MkId 0 100) (run_commands
       [TransitionReplicaSet (MkId 0 100) ReplicaSetLifecycle.DRAINING,
        CreateReplicaSet demo_set (MkId 0 201)] demo) = Some (live_set\<lparr>s_lifecycle := l\<rparr>) \<and>
     set_can_transition\<^sup>*\<^sup>* ReplicaSetLifecycle.AVAILABLE l"
  using set_contract_fixed [of "MkId 0 100" demo live_set
    "[TransitionReplicaSet (MkId 0 100) ReplicaSetLifecycle.DRAINING,
        CreateReplicaSet demo_set (MkId 0 201)]"]
  by (simp add: find_set_def)

section \<open>Capacity\<close>

lemma length_list_replicas: "length (list_replicas sid c) = members sid c"
  by (simp add: list_replicas_def members_def om_count_def)

text \<open>
  C36. The maximum of a set is a bound: in every state a fresh controller can come to, a set
  lists at most \<open>max_replicas\<close> replicas; the 32-bit counter that provisioning compares with
  it never wraps.
\<close>

theorem set_never_exceeds_max:
  assumes "find_set sid (run_commands cmds (new_controller g)) = Some s"
  shows "length (list_replicas sid (run_commands cmds (new_controller g))) \<le> unat (s_max_replicas s) \<and>
    unat (replica_count sid (run_commands cmds (new_controller g))) =
      length (list_replicas sid (run_commands cmds (new_controller g)))"
proof -
  let ?c = "run_commands cmds (new_controller g)"
  have "members sid ?c \<le> unat (s_max_replicas s)"
    using assms ok_set [of ?c sid s] by (simp add: find_set_def)
  moreover have "unat (s_max_replicas s) < 2 ^ 32"
    using unsigned_less [of "s_max_replicas s", where 'a = nat] by simp
  ultimately show ?thesis
    by (simp add: length_list_replicas replica_count_def members_def unat_of_nat take_bit_nat_eq_self)
qed

theorem set_never_exceeds_max_witness:
  "length (list_replicas (MkId 0 100) demo) \<le> 2"
  using set_never_exceeds_max [of "MkId 0 100" "demo_start @ demo_up (MkId 0 1000)" demo_rng live_set]
  unfolding demo_def [symmetric] by (simp add: find_set_def)

text \<open>
  The listing of a set is exact: in every state a fresh controller can come to it holds the
  ids of the replicas of the set, each once, in ascending order.
\<close>

theorem list_replicas_exact:
  "(rid \<in> set (list_replicas sid (run_commands cmds (new_controller g))) \<longleftrightarrow>
     (\<exists>r. find_replica rid (run_commands cmds (new_controller g)) = Some r \<and> r_set_id r = sid)) \<and>
   sorted_wrt (<) (list_replicas sid (run_commands cmds (new_controller g)))"
proof
  let ?c = "run_commands cmds (new_controller g)"
  have m: "om_sorted (ct_replicas ?c)" by simp
  show "rid \<in> set (list_replicas sid ?c) \<longleftrightarrow> (\<exists>r. find_replica rid ?c = Some r \<and> r_set_id r = sid)"
    using om_find_in [OF m] by (force simp: list_replicas_def find_replica_def)
  have "distinct (map fst (filter (\<lambda>(rid, r). r_set_id r = sid) (ct_replicas ?c)))"
    using om_sorted_distinct [OF m] by (simp add: om_keys_def distinct_map_filter)
  then show "sorted_wrt (<) (list_replicas sid ?c)"
    by (simp add: list_replicas_def strict_sorted_iff)
qed

section \<open>The gate, the refinement, refusals\<close>

text \<open>
  C6. The gate decides on current state only: a replica is servable exactly when it is known,
  its set is known and may serve, and its epoch, its set, policy and artifact generations, its
  policy fingerprint and its worker boot identity all equal the controller's current ones,
  and it is a healthy, ready, warm, placed, promoted replica in lifecycle \<open>SERVING\<close> with the
  flag. (The health-generation factor compares the replica's generation with itself.)
\<close>

theorem servable_exactly:
  "sa_eligible (servable rid c) \<longleftrightarrow>
     (\<exists>r s. find_replica rid c = Some r \<and> find_set (r_set_id r) c = Some s \<and>
        s_lifecycle s \<in> {ReplicaSetLifecycle.AVAILABLE, ReplicaSetLifecycle.DEGRADED} \<and>
        r_coordinator_epoch r = ct_epoch c \<and> r_set_generation r = s_generation s \<and>
        r_generation r \<noteq> null_id \<and> r_artifact_generation r = s_artifact_generation s \<and>
        r_policy_generation r = s_policy_generation s \<and>
        r_policy_fingerprint r = cq_policy_fingerprint (s_compatibility s) \<and>
        r_boot_id r = current_boot_for rid c \<and>
        r_lifecycle r = ReplicaLifecycle.SERVING \<and>
        r_health r \<in> {HealthState.HEALTHY, HealthState.DEGRADED} \<and>
        r_readiness r = ReadinessState.READY \<and> r_warmth r = WarmthState.WARM \<and>
        r_promotion r \<noteq> PromotionState.NOT_PROMOTED \<and> r_serving_eligible r \<and>
        r_placement r = PlacementState.ASSIGNED)"
  unfolding find_replica_def find_set_def by (rule servable_iff)



text \<open>
  C1. The invariant of the controller holds in a fresh controller and is kept by every
  command: ordered maps, every replica under its own id in a known set with the flag only as
  a serving primary, every set under its own id with valid counts and no more members than its
  maximum.
\<close>

theorem controller_invariant:
  "controller_ok (run_commands cmds (new_controller g))"
  by (rule run_new_ok)

end
