(* ===== verification/Controller_Liveness.thy ===== *)
theory Controller_Liveness
  imports Controller_Demo
begin

text \<open>
  That the controller can do its work: each operation's effect on a replica just written, and
  the theorem that a replica can be taken from provisioning to serving in every consistent
  state with room for it. Promotion's result is stated once (\<open>promote_primary_result\<close>).
\<close>

lemma put_replica_twice [simp]: "put_replica rid r' (put_replica rid r c) = put_replica rid r' c"
  by (simp add: put_replica_def)

section \<open>Each operation on a replica just written\<close>

lemma set_allocating_put:
  "r_lifecycle r = ReplicaLifecycle.DECLARED \<Longrightarrow> pid \<noteq> null_id \<Longrightarrow>
   snd (set_allocating rid pid t (put_replica rid r c)) =
     put_replica rid (r\<lparr>r_lifecycle := ReplicaLifecycle.ALLOCATING, r_placement_id := pid,
       r_placement := PlacementState.ASSIGNED,
       r_memory_residency := MemoryResidencyState.NOT_RESIDENT\<rparr>) c"
  by (simp add: set_allocating_def can_transition_def Let_def)

lemma set_starting_put:
  "r_lifecycle r = ReplicaLifecycle.ALLOCATING \<Longrightarrow>
   snd (set_starting rid t u (put_replica rid r c)) =
     put_replica rid (r\<lparr>r_lifecycle := ReplicaLifecycle.STARTING, r_health := HealthState.STARTING,
       r_health_record := (r_health_record r)\<lparr>hr_state := HealthState.STARTING,
         hr_updated_at_mono := t, hr_updated_at_wall := u\<rparr>\<rparr>) c"
  by (simp add: set_starting_def can_transition_def Let_def)

lemma warm_replica_put:
  assumes "r_lifecycle r = ReplicaLifecycle.STARTING" "worker_boot_matches r w b"
    "wm_warmup_execution_done wm"
  obtains wm' where "snd (warm_replica rid wm w b t (put_replica rid r c)) =
     put_replica rid (r\<lparr>r_lifecycle := ReplicaLifecycle.WARMING, r_warmth := WarmthState.WARM,
       r_warming_record := wm'\<rparr>) c"
proof (cases "wm_started_warming_mono wm = 0")
  case True
  show ?thesis
    by (rule that [of "wm\<lparr>wm_started_warming_mono := t\<rparr>"])
       (cases r, use assms True in \<open>simp add: warm_replica_def can_transition_def Let_def\<close>)
next
  case False
  show ?thesis
    by (rule that [of wm])
       (cases r, use assms False in \<open>simp add: warm_replica_def can_transition_def Let_def\<close>)
qed

lemma report_health_put:
  assumes "worker_boot_matches r w b" "r_coordinator_epoch r = ct_epoch c"
    "he_generation ev = r_health_generation r" "\<not> is_terminated r" "\<not> r_serving_eligible r"
  obtains hr where "snd (report_health rid ev w b t (put_replica rid r c)) =
     put_replica rid (r\<lparr>r_health := he_state ev, r_health_record := hr\<rparr>) c"
  using assms by (auto simp: report_health_def Let_def)

lemma report_readiness_put:
  "r_lifecycle r = ReplicaLifecycle.WARMING \<Longrightarrow> worker_boot_matches r w b \<Longrightarrow>
   r_coordinator_epoch r = ct_epoch c \<Longrightarrow> all_set (rr_factors rr) \<Longrightarrow>
   snd (report_readiness rid rr w b t (put_replica rid r c)) =
     put_replica rid (r\<lparr>r_readiness_record := rr, r_lifecycle := ReplicaLifecycle.READY,
       r_readiness := ReadinessState.READY\<rparr>) c"
  by (simp add: report_readiness_def can_transition_def is_terminated_def Let_def)

text \<open>What promotion to primary leaves behind, when nothing refuses it.\<close>

lemma promote_primary_result:
  assumes "om_find (ct_replicas c) rid = Some r" "om_find (ct_sets c) (r_set_id r) = Some s"
    "worker_boot_matches r w b" "promote_refusal r s (ct_epoch c) = None" "ready_to_promote r"
  obtains hgen r' g ps where
    "hgen = fst (random_id (ct_rng c))"
    "r' = (make_primary hgen r)\<lparr>r_health :=
        (if r_health r = HealthState.UNKNOWN then HealthState.HEALTHY else r_health r)\<rparr>"
    "promote_replica rid PromotionState.PRIMARY w b t u c =
      (op_ok (''promoted to '' @ PromotionState_to_string PromotionState.PRIMARY),
       put_set (r_set_id r) (derive_set_lifecycle (healthy_count (s_id s) (put_replica rid r' c)) s)
         ((put_replica rid r' c)\<lparr>ct_rng := g, ct_promotions := ps\<rparr>))"
proof -
  obtain hgen :: HealthGeneration and g where g: "random_id (ct_rng c) = (hgen, g)" by fastforce
  obtain pid :: PromotionId and g' where g': "random_id g = (pid, g')" by fastforce
  have hc: "healthy_count sid (c'\<lparr>ct_rng := x\<rparr>) = healthy_count sid c'"
    "healthy_count sid (c'\<lparr>ct_promotions := y\<rparr>) = healthy_count sid c'" for c' x y sid
    by (simp_all add: healthy_count_def)
  have hs: "(make_primary hgen r)\<lparr>r_health := r_health r\<rparr> = make_primary hgen r"
    by (simp add: make_primary_def)
  have tr: "r_lifecycle r = ReplicaLifecycle.SERVING \<or> can_transition (r_lifecycle r) ReplicaLifecycle.SERVING"
    using assms(5) by (auto simp: ready_to_promote_def can_transition_SERVING)
  show ?thesis
    by (rule that [OF _ refl, of hgen]) (use assms g g' tr hs in \<open>auto simp: promote_replica_def Let_def make_primary_def hc\<close>)
qed


section \<open>Bringing a replica up\<close>

text \<open>The replica as the steps before promotion leave it.\<close>

definition ready_form :: "ReplicaState \<Rightarrow> ReplicaState \<Rightarrow> bool" where
  "ready_form r0 r \<longleftrightarrow>
     r_id r = r_id r0 \<and> r_set_id r = r_set_id r0 \<and> r_generation r = r_generation r0 \<and>
     r_worker_id r = r_worker_id r0 \<and> r_boot_id r = r_boot_id r0 \<and>
     r_artifact_generation r = r_artifact_generation r0 \<and> r_capacity_total r = r_capacity_total r0 \<and>
     r_coordinator_epoch r = r_coordinator_epoch r0 \<and> r_set_generation r = r_set_generation r0 \<and>
     r_policy_generation r = r_policy_generation r0 \<and>
     r_policy_fingerprint r = r_policy_fingerprint r0 \<and> r_compatibility r = r_compatibility r0 \<and>
     r_lifecycle r = ReplicaLifecycle.READY \<and> r_readiness r = ReadinessState.READY \<and>
     r_warmth r = WarmthState.WARM \<and> r_health r = HealthState.HEALTHY \<and>
     r_placement r = PlacementState.ASSIGNED"

lemma prepare_new_replica:
  assumes "r0 = new_replica rid sid w st reg cm dv cap (t 1) (u 1) (ct_epoch c) gen hgen"
    and "b = w_boot_id reg" and "pid \<noteq> null_id" and "wm_warmup_execution_done wm"
    and "he_state ev = HealthState.HEALTHY" and "he_generation ev = hgen"
    and "all_set (rr_factors rr)"
  obtains r where "ready_form r0 r"
    "run_commands (prepare rid w b pid wm ev rr t u) (put_replica rid r0 c) =
       put_replica rid r c"
proof -
  have boot: "worker_boot_matches (r\<lparr>r_lifecycle := l\<rparr>) w b \<longleftrightarrow> worker_boot_matches r w b" for r l
    by (simp add: worker_boot_matches_def)
  let ?r1 = "r0\<lparr>r_lifecycle := ReplicaLifecycle.ALLOCATING, r_placement_id := pid,
       r_placement := PlacementState.ASSIGNED,
       r_memory_residency := MemoryResidencyState.NOT_RESIDENT\<rparr>"
  let ?r2 = "?r1\<lparr>r_lifecycle := ReplicaLifecycle.STARTING, r_health := HealthState.STARTING,
       r_health_record := (r_health_record ?r1)\<lparr>hr_state := HealthState.STARTING,
         hr_updated_at_mono := t 3, hr_updated_at_wall := u 3\<rparr>\<rparr>"
  note fields = assms(1) new_replica_def worker_boot_matches_def assms(2) is_terminated_def
  obtain wm' where w: "snd (warm_replica rid wm w b (t 4) (put_replica rid ?r2 c)) =
     put_replica rid (?r2\<lparr>r_lifecycle := ReplicaLifecycle.WARMING, r_warmth := WarmthState.WARM,
       r_warming_record := wm'\<rparr>) c"
    by (rule warm_replica_put [of ?r2 w b wm rid "t 4" c]) (use assms(4) in \<open>simp_all add: fields\<close>)
  let ?r3 = "?r2\<lparr>r_lifecycle := ReplicaLifecycle.WARMING, r_warmth := WarmthState.WARM,
       r_warming_record := wm'\<rparr>"
  obtain hr where h: "snd (report_health rid ev w b (t 5) (put_replica rid ?r3 c)) =
     put_replica rid (?r3\<lparr>r_health := he_state ev, r_health_record := hr\<rparr>) c"
    by (rule report_health_put [of ?r3 w b c ev rid "t 5"]) (use assms(6) in \<open>simp_all add: fields\<close>)
  let ?r4 = "?r3\<lparr>r_health := he_state ev, r_health_record := hr\<rparr>"
  let ?r5 = "?r4\<lparr>r_readiness_record := rr, r_lifecycle := ReplicaLifecycle.READY,
       r_readiness := ReadinessState.READY\<rparr>"
  have 1: "snd (set_allocating rid pid (t 2) (put_replica rid r0 c)) = put_replica rid ?r1 c"
    by (rule set_allocating_put) (use assms(3) in \<open>simp_all add: fields\<close>)
  have 2: "snd (set_starting rid (t 3) (u 3) (put_replica rid ?r1 c)) = put_replica rid ?r2 c"
    by (rule set_starting_put) simp
  have 5: "snd (report_readiness rid rr w b (t 6) (put_replica rid ?r4 c)) = put_replica rid ?r5 c"
    by (rule report_readiness_put) (use assms(7) in \<open>simp_all add: fields\<close>)
  show ?thesis
  proof (rule that [of ?r5])
    show "ready_form r0 ?r5"
      using assms(5) by (simp add: ready_form_def)
    show "run_commands (prepare rid w b pid wm ev rr t u) (put_replica rid r0 c) =
       put_replica rid ?r5 c"
      by (simp only: prepare_def run_commands_simps run_command.simps 1 2 w h 5)
  qed
qed


lemma derive_serving:
  "s_lifecycle s \<in> {ReplicaSetLifecycle.PROVISIONING, ReplicaSetLifecycle.AVAILABLE,
      ReplicaSetLifecycle.DEGRADED} \<Longrightarrow>
   s_lifecycle (derive_set_lifecycle n s) \<in> {ReplicaSetLifecycle.AVAILABLE, ReplicaSetLifecycle.DEGRADED}"
  by (auto simp: derive_set_lifecycle_def set_can_transition_def)

lemma derive_set_fields [simp]:
  "s_generation (derive_set_lifecycle n s) = s_generation s"
  "s_policy_generation (derive_set_lifecycle n s) = s_policy_generation s"
  "s_artifact_generation (derive_set_lifecycle n s) = s_artifact_generation s"
  "s_compatibility (derive_set_lifecycle n s) = s_compatibility s"
  "s_id (derive_set_lifecycle n s) = s_id s"
  by (simp_all add: derive_set_lifecycle_def)

lemma refusal_ready:
  assumes "ready_form (new_replica rid sid w s reg cm dv cap t u (ct_epoch c) gen hgen) r"
    and "cap \<noteq> 0" and "meets (s_compatibility s) cm"
  shows "promote_refusal r s (ct_epoch c) = None"
  using assms
  by (auto simp: promote_refusal_def ready_form_def new_replica_def ready_to_promote_def Let_def
      check_compatibility_meets)

lemma bring_up_eligible:
  assumes "controller_ok c" and "find_set sid c = Some s"
    and "s_lifecycle s \<in> {ReplicaSetLifecycle.CREATED, ReplicaSetLifecycle.PROVISIONING,
           ReplicaSetLifecycle.AVAILABLE, ReplicaSetLifecycle.DEGRADED}"
    and "find_worker w c = Some reg" and "replica_count sid c < s_max_replicas s"
    and "cr_compatible (check_compatibility (s_compatibility s) cm)" and "cap \<noteq> 0" and "pid \<noteq> null_id"
    and "wm_warmup_execution_done wm" and "he_state ev = HealthState.HEALTHY"
    and "next_generations c = (gen, he_generation ev)" and "gen \<noteq> null_id"
    and "all_set (rr_factors rr)"
  shows "sa_eligible (servable rid
    (run_commands (bring_up rid sid w (w_boot_id reg) cm dv cap pid wm ev rr t u) c))"
proof -
  let ?s = "opened_set s" and ?b = "w_boot_id reg"
  let ?r0 = "new_replica rid sid w ?s reg cm dv cap (t 1) (u 1) (ct_epoch c) gen (he_generation ev)"
  have s: "om_find (ct_sets c) sid = Some s" and reg: "om_find (ct_workers c) w = Some reg"
    using assms(2,4) by (simp_all add: find_set_def find_worker_def)
  have "is_ok (fst (provision_replica rid sid w cm dv cap (t 1) (u 1) c))"
    using assms(3,5) s reg by (auto simp: provision_replica_def Let_def split: prod.splits)
  then obtain g where 1: "snd (provision_replica rid sid w cm dv cap (t 1) (u 1) c) =
      put_replica rid ?r0 ((put_set sid ?s c)\<lparr>ct_rng := g\<rparr>)"
    using s reg assms(11) by (rule_tac provision_result [of rid sid w cm dv cap "t 1" "u 1" c]) auto
  define c1 where "c1 = (put_set sid ?s c)\<lparr>ct_rng := g\<rparr>"
  have c1: "ct_epoch c1 = ct_epoch c" "om_find (ct_sets c1) sid = Some ?s" "ct_workers c1 = ct_workers c"
    by (simp_all add: c1_def)
  obtain r where r: "ready_form ?r0 r" "run_commands (prepare rid w ?b pid wm ev rr t u) (put_replica rid ?r0 c1) = put_replica rid r c1"
    by (rule prepare_new_replica [of ?r0 rid sid w ?s reg cm dv cap t u c1 gen "he_generation ev" ?b pid wm ev rr])
       (use assms(8-10,13) c1 in simp_all)
  let ?c2 = "put_replica rid r c1"
  have refusal: "promote_refusal r ?s (ct_epoch ?c2) = None"
    using refusal_ready [of rid sid w ?s reg cm dv cap "t 1" "u 1" c gen "he_generation ev" r] r(1) c1 assms(6,7)
    by (simp add: check_compatibility_meets)
  have sid: "r_set_id r = sid" and wb: "worker_boot_matches r w ?b" "ready_to_promote r"
    using r(1) by (simp_all add: ready_form_def new_replica_def worker_boot_matches_def ready_to_promote_def)
  obtain hgen r' g' ps n where
    3: "r' = (make_primary hgen r)\<lparr>r_health := r_health r\<rparr>"
    "snd (promote_replica rid PromotionState.PRIMARY w ?b (t 7) (u 7) ?c2) =
       put_set sid (derive_set_lifecycle n ?s) ((put_replica rid r' ?c2)\<lparr>ct_rng := g', ct_promotions := ps\<rparr>)"
    by (rule promote_primary_result [of ?c2 rid r ?s w ?b "t 7" "u 7"])
       (use refusal sid wb c1 r(1) in \<open>auto simp: ready_form_def\<close>)
  have run: "run_commands (bring_up rid sid w ?b cm dv cap pid wm ev rr t u) c =
      put_set sid (derive_set_lifecycle n ?s) ((put_replica rid r' c1)\<lparr>ct_rng := g', ct_promotions := ps\<rparr>)"
    by (simp only: bring_up_def run_commands_simps run_command.simps 1 c1_def [symmetric] r(2) 3(2) put_replica_twice)
  have "s_lifecycle (derive_set_lifecycle n ?s) \<in> {ReplicaSetLifecycle.AVAILABLE, ReplicaSetLifecycle.DEGRADED}"
    using assms(3) by (intro derive_serving) (auto simp: opened_set_def)
  then show ?thesis
    using r(1) reg c1 assms(12) sid unfolding run servable_def
    by (auto simp: 3(1) eligible_iff authority_factors_def ready_form_def new_replica_def make_primary_def)
qed

text \<open>
  C10. The life of a replica can be completed: in every consistent controller state, for a set
  that accepts provisioning and is not draining, a registered worker and room under the set's
  maximum, the sequence provision, place, start, warm, report healthy, report ready, promote
  makes the replica pass the serving-authority gate, whatever the set's policies are.
\<close>

theorem bring_up_serves:
  assumes "controller_ok c" and "find_set sid c = Some s"
    and "s_lifecycle s \<in> {ReplicaSetLifecycle.CREATED, ReplicaSetLifecycle.PROVISIONING,
           ReplicaSetLifecycle.AVAILABLE, ReplicaSetLifecycle.DEGRADED}"
    and "find_worker w c = Some reg" and "replica_count sid c < s_max_replicas s"
    and "cr_compatible (check_compatibility (s_compatibility s) cm)" and "cap \<noteq> 0" and "pid \<noteq> null_id"
    and "wm_warmup_execution_done wm" and "he_state ev = HealthState.HEALTHY"
    and "next_generations c = (gen, he_generation ev)" and "gen \<noteq> null_id"
    and "all_set (rr_factors rr)"
  shows "sa_eligible (servable rid
    (run_commands (bring_up rid sid w (w_boot_id reg) cm dv cap pid wm ev rr t u) c))"
  by (rule bring_up_eligible [OF assms])

theorem bring_up_serves_witness:
  "sa_eligible (servable (MkId 0 1000) (run_commands (demo_up (MkId 0 1000)) demo1))"
proof -
  have "controller_ok demo1"
    unfolding demo1_def by (simp add: commands_ok new_controller_ok)
  from bring_up_serves [OF this, of "MkId 0 100" demo_set "MkId 0 1" demo_worker ReplicaCompatibility_default
      8 "MkId 0 3" demo_warm demo_health "MkId 7 7" demo_ready "MkId 0 1000" DeviceCapability_default of_nat of_nat]
  show ?thesis
    by (simp add: demo_up_def demo1 find_set_def find_worker_def replica_count_def demo_set_def
        ReplicaSetState_default_def next_generations_def demo_health_def demo_warm_def null_id_def
        demo_ready_def all_set_def)
qed

end
