(* ===== verification/Controller_Effects.thy ===== *)
theory Controller_Effects
  imports Controller_Safety Controller_Liveness
begin

text \<open>
  What each operation does when it is accepted, and exactly when it is: evidence, promotion,
  draining, failing and the loss of a worker.
\<close>

section \<open>The concrete run\<close>

lemma live_promotable [simp]:
  "promote_refusal (live_replica rid) live_set (MkId 0 200) = None"
  by (simp add: promote_refusal_def Let_def ready_to_promote_def live_set_def live_replica_def
      new_replica_def demo_set_def demo_worker_def ReplicaSetState_default_def ReplicaState_default_def
      PolicyBundle_default_def PromotionPolicy_default_def)

lemma standby_promotable [simp]:
  "promote_refusal (standby_replica rid) live_set (MkId 0 200) = None"
  using live_promotable [of rid]
  by (simp add: promote_refusal_def Let_def ready_to_promote_def standby_replica_def split: if_splits)

lemma demo_pair_finds [simp]:
  "om_find (ct_replicas demo_pair) (MkId 0 1000) = Some (live_replica (MkId 0 1000))"
  "om_find (ct_replicas demo_pair) (MkId 0 2000) = Some (standby_replica (MkId 0 2000))"
  "om_find (ct_sets demo_pair) (MkId 0 100) = Some live_set"
  "om_find (ct_workers demo_pair) (MkId 0 1) = Some demo_worker"
  "ct_epoch demo_pair = MkId 0 200" "ct_rng demo_pair = demo_rng"
  by (simp_all add: demo_pair_def) (simp add: demo_eq)

lemma demo_pair_serves [simp]: "sa_eligible (servable (MkId 0 1000) demo_pair)"
  by (simp add: servable_iff current_boot_for_def)
     (simp add: live_replica_def new_replica_def live_set_def demo_set_def demo_worker_def
        ReplicaSetState_default_def CompatibilityRequirements_default_def null_id_def)

section \<open>Health evidence\<close>

lemma report_health_ok:
  "is_ok (fst (report_health rid ev w b t c)) \<longleftrightarrow>
     (\<exists>r. find_replica rid c = Some r \<and> r_worker_id r = w \<and> r_boot_id r = b \<and>
        r_coordinator_epoch r = ct_epoch c \<and> he_generation ev = r_health_generation r \<and>
        r_lifecycle r \<notin> {ReplicaLifecycle.QUIESCED, ReplicaLifecycle.FAILED, ReplicaLifecycle.RETIRED})"
  by (auto simp: report_health_def find_replica_def worker_boot_matches_def is_terminated_def Let_def
      split: option.split)

text \<open>
  C39. Health evidence is accepted exactly from the worker and boot the replica was provisioned
  on, under the current epoch and the replica's current health generation, for a replica that
  is not quiesced, failed or retired; otherwise it is rejected and nothing changes.
\<close>

theorem health_evidence_exact:
  "(is_ok (fst (report_health rid ev w b t c)) \<longleftrightarrow>
     (\<exists>r. find_replica rid c = Some r \<and> r_worker_id r = w \<and> r_boot_id r = b \<and>
        r_coordinator_epoch r = ct_epoch c \<and> he_generation ev = r_health_generation r \<and>
        r_lifecycle r \<notin> {ReplicaLifecycle.QUIESCED, ReplicaLifecycle.FAILED, ReplicaLifecycle.RETIRED})) \<and>
   (is_ok (fst (report_health rid ev w b t c)) \<noteq>
     (is_rejected (fst (report_health rid ev w b t c)) \<and> snd (report_health rid ev w b t c) = c))"
  by (rule conjI [OF report_health_ok]) (simp add: report_health_def Let_def split: option.split)

text \<open>
  Evidence of failure takes authority away at once: after accepted \<open>FAILED\<close> or
  \<open>UNHEALTHY\<close> evidence the replica is not servable, has lost the flag, keeps its lifecycle and
  counts one more consecutive failure (modulo the counter's width).
\<close>

theorem failing_evidence_revokes:
  assumes "is_ok (fst (report_health rid ev w b t c))"
    and "he_state ev = HealthState.FAILED \<or> he_state ev = HealthState.UNHEALTHY"
  shows "\<not> sa_eligible (servable rid (snd (report_health rid ev w b t c))) \<and>
    (\<exists>r r'. find_replica rid c = Some r \<and> find_replica rid (snd (report_health rid ev w b t c)) = Some r' \<and>
       \<not> r_serving_eligible r' \<and> r_lifecycle r' = r_lifecycle r \<and>
       hr_consecutive_failures (r_health_record r') = hr_consecutive_failures (r_health_record r) + 1)"
proof -
  obtain r where r: "om_find (ct_replicas c) rid = Some r" "worker_boot_matches r w b"
    "r_coordinator_epoch r = ct_epoch c" "he_generation ev = r_health_generation r" "\<not> is_terminated r"
    using assms(1) by (auto simp: report_health_ok find_replica_def worker_boot_matches_def is_terminated_def)
  obtain r' where r': "om_find (ct_replicas (snd (report_health rid ev w b t c))) rid = Some r'"
    "\<not> r_serving_eligible r'" "r_lifecycle r' = r_lifecycle r"
    "hr_consecutive_failures (r_health_record r') = hr_consecutive_failures (r_health_record r) + 1"
    using r assms(2) by (auto simp: report_health_def Let_def)
  then show ?thesis
    using r(1) not_servable [OF r'(1)] by (auto simp: find_replica_def)
qed

theorem failing_evidence_revokes_witness:
  "\<not> sa_eligible (servable (MkId 0 1000) (snd (report_health (MkId 0 1000)
     (demo_health\<lparr>he_state := HealthState.UNHEALTHY\<rparr>) (MkId 0 1) (MkId 0 11) 9 demo)))"
proof -
  have "is_ok (fst (report_health (MkId 0 1000) (demo_health\<lparr>he_state := HealthState.UNHEALTHY\<rparr>)
      (MkId 0 1) (MkId 0 11) 9 demo))"
    by (simp add: report_health_ok find_replica_def demo_health_def)
  from failing_evidence_revokes [OF this] show ?thesis by simp
qed

section \<open>Promotion\<close>

lemma promote_refusal_None:
  "promote_refusal r s e = None \<longleftrightarrow>
     r_coordinator_epoch r = e \<and> r_set_generation r = s_generation s \<and>
     r_policy_generation r = s_policy_generation s \<and> r_artifact_generation r = s_artifact_generation s \<and>
     (pp_require_ready (pb_promotion (s_policies s)) \<longrightarrow> ready_to_promote r) \<and>
     r_readiness r = ReadinessState.READY \<and>
     (pp_require_healthy (pb_promotion (s_policies s)) \<longrightarrow>
        r_health r \<notin> {HealthState.UNKNOWN, HealthState.STARTING, HealthState.UNHEALTHY}) \<and>
     (pp_require_compatible (pb_promotion (s_policies s)) \<longrightarrow>
        meets (s_compatibility s) (r_compatibility r)) \<and>
     (pp_require_placement_valid (pb_promotion (s_policies s)) \<longrightarrow>
        r_placement r = PlacementState.ASSIGNED) \<and>
     (pp_require_resources (pb_promotion (s_policies s)) \<longrightarrow> r_capacity_total r \<noteq> 0)"
  by (auto simp: promote_refusal_def Let_def check_compatibility_meets)

lemma promote_ok_iff:
  "is_ok (fst (promote_replica rid PromotionState.PRIMARY w b t u c)) \<longleftrightarrow>
     (\<exists>r s. find_replica rid c = Some r \<and> find_set (r_set_id r) c = Some s \<and>
        r_worker_id r = w \<and> r_boot_id r = b \<and>
        r_lifecycle r \<in> {ReplicaLifecycle.READY, ReplicaLifecycle.SERVING} \<and>
        promote_refusal r s (ct_epoch c) = None)"
  by (auto simp: promote_replica_def find_replica_def find_set_def worker_boot_matches_def
      ready_to_promote_def can_transition_SERVING Let_def split: option.split prod.split)

text \<open>
  C12. Promotion to primary is accepted exactly for a ready or serving replica, named with its
  worker and boot, whose epoch and set, policy and artifact generations are current, that is
  \<open>READY\<close>, and that meets what the set's promotion policy asks for: validated health,
  compatibility with the set's contract, an assigned placement, capacity.
\<close>

theorem promote_primary_exact:
  "is_ok (fst (promote_replica rid PromotionState.PRIMARY w b t u c)) \<longleftrightarrow>
     (\<exists>r s. find_replica rid c = Some r \<and> find_set (r_set_id r) c = Some s \<and>
        r_worker_id r = w \<and> r_boot_id r = b \<and>
        r_lifecycle r \<in> {ReplicaLifecycle.READY, ReplicaLifecycle.SERVING} \<and>
        r_readiness r = ReadinessState.READY \<and>
        r_coordinator_epoch r = ct_epoch c \<and> r_set_generation r = s_generation s \<and>
        r_policy_generation r = s_policy_generation s \<and> r_artifact_generation r = s_artifact_generation s \<and>
        (pp_require_healthy (pb_promotion (s_policies s)) \<longrightarrow>
           r_health r \<notin> {HealthState.UNKNOWN, HealthState.STARTING, HealthState.UNHEALTHY}) \<and>
        (pp_require_compatible (pb_promotion (s_policies s)) \<longrightarrow>
           meets (s_compatibility s) (r_compatibility r)) \<and>
        (pp_require_placement_valid (pb_promotion (s_policies s)) \<longrightarrow>
           r_placement r = PlacementState.ASSIGNED) \<and>
        (pp_require_resources (pb_promotion (s_policies s)) \<longrightarrow> r_capacity_total r \<noteq> 0))"
  unfolding promote_ok_iff promote_refusal_None by (auto simp: ready_to_promote_def)

theorem promote_primary_exact_witness:
  "is_ok (fst (promote_replica (MkId 0 2000) PromotionState.PRIMARY (MkId 0 1) (MkId 0 11) 9 9 demo_pair))"
proof -
  have "promote_refusal (standby_replica (MkId 0 2000)) live_set (MkId 0 200) = None" by simp
  then show ?thesis
    unfolding promote_primary_exact promote_refusal_None
    by (intro exI [of _ "standby_replica (MkId 0 2000)"] exI [of _ live_set])
       (simp add: find_replica_def find_set_def, simp add: standby_replica_def)
qed

lemma promote_primary_state:
  assumes "is_ok (fst (promote_replica rid PromotionState.PRIMARY w b t u c))"
  obtains r s hgen r' g ps n where
    "om_find (ct_replicas c) rid = Some r" "om_find (ct_sets c) (r_set_id r) = Some s"
    "worker_boot_matches r w b" "promote_refusal r s (ct_epoch c) = None"
    "hgen = fst (random_id (ct_rng c))"
    "r' = (make_primary hgen r)\<lparr>r_health :=
        (if r_health r = HealthState.UNKNOWN then HealthState.HEALTHY else r_health r)\<rparr>"
    "snd (promote_replica rid PromotionState.PRIMARY w b t u c) =
       put_set (r_set_id r) (derive_set_lifecycle n s)
         ((put_replica rid r' c)\<lparr>ct_rng := g, ct_promotions := ps\<rparr>)"
proof -
  obtain r s where *: "om_find (ct_replicas c) rid = Some r" "om_find (ct_sets c) (r_set_id r) = Some s"
    "worker_boot_matches r w b" "promote_refusal r s (ct_epoch c) = None" "ready_to_promote r"
    using assms unfolding promote_ok_iff
    by (auto simp: find_replica_def find_set_def worker_boot_matches_def ready_to_promote_def)
  show ?thesis
    by (rule promote_primary_result [OF *, of t u]) (rule that [OF *(1-4)]; simp)
qed

lemma make_primary_fields [simp]:
  "r_set_id (make_primary h r) = r_set_id r" "r_generation (make_primary h r) = r_generation r"
  "r_worker_id (make_primary h r) = r_worker_id r" "r_boot_id (make_primary h r) = r_boot_id r"
  "r_coordinator_epoch (make_primary h r) = r_coordinator_epoch r"
  "r_set_generation (make_primary h r) = r_set_generation r"
  "r_artifact_generation (make_primary h r) = r_artifact_generation r"
  "r_policy_generation (make_primary h r) = r_policy_generation r"
  "r_policy_fingerprint (make_primary h r) = r_policy_fingerprint r"
  "r_health (make_primary h r) = r_health r" "r_readiness (make_primary h r) = r_readiness r"
  "r_warmth (make_primary h r) = r_warmth r" "r_placement (make_primary h r) = r_placement r"
  "r_lifecycle (make_primary h r) = ReplicaLifecycle.SERVING"
  "r_promotion (make_primary h r) = PromotionState.PRIMARY"
  "r_role (make_primary h r) = ReplicaRole.PRIMARY"
  "r_serving_eligible (make_primary h r)" "r_health_generation (make_primary h r) = h"
  by (simp_all add: make_primary_def)

lemma demo_pair_promote:
  "is_ok (fst (promote_replica (MkId 0 2000) PromotionState.PRIMARY (MkId 0 1) (MkId 0 11) t u demo_pair))"
  unfolding promote_ok_iff
  by (intro exI [of _ "standby_replica (MkId 0 2000)"] exI [of _ live_set])
     (simp add: find_replica_def find_set_def, simp add: standby_replica_def)



text \<open>
  Promotion starts a new health generation: evidence gathered before it (under any other
  generation than the fresh one) is rejected as stale and changes nothing.
\<close>

theorem promotion_outdates_evidence:
  assumes "is_ok (fst (promote_replica rid PromotionState.PRIMARY w b t u c))"
    and "he_generation ev \<noteq> fst (random_id (ct_rng c))"
  shows "report_health rid ev w b t' (snd (promote_replica rid PromotionState.PRIMARY w b t u c)) =
    (op_rejected ''stale health generation'', snd (promote_replica rid PromotionState.PRIMARY w b t u c))"
proof (rule promote_primary_state [OF assms(1)])
  fix r s hgen r' g ps n
  assume *: "om_find (ct_replicas c) rid = Some r" "worker_boot_matches r w b"
    "promote_refusal r s (ct_epoch c) = None" "hgen = fst (random_id (ct_rng c))"
    "r' = (make_primary hgen r)\<lparr>r_health :=
        (if r_health r = HealthState.UNKNOWN then HealthState.HEALTHY else r_health r)\<rparr>"
    "snd (promote_replica rid PromotionState.PRIMARY w b t u c) =
       put_set (r_set_id r) (derive_set_lifecycle n s)
         ((put_replica rid r' c)\<lparr>ct_rng := g, ct_promotions := ps\<rparr>)"
  then show ?thesis
    using assms(2) by (simp add: report_health_def worker_boot_matches_def promote_refusal_None)
qed

theorem promotion_outdates_evidence_witness:
  "is_rejected (fst (report_health (MkId 0 2000) (demo_health\<lparr>he_generation := MkId 1 1\<rparr>) (MkId 0 1) (MkId 0 11) 10
     (snd (promote_replica (MkId 0 2000) PromotionState.PRIMARY (MkId 0 1) (MkId 0 11) 9 9 demo_pair))))"
  using promotion_outdates_evidence [OF demo_pair_promote, of "demo_health\<lparr>he_generation := MkId 1 1\<rparr>" 10 9 9]
  by simp

text \<open>
  Promotion only adds authority: a replica that is servable stays servable when another one,
  of its own set or not, is promoted to primary. In particular a set can have two servable
  primaries, since no operation demotes the one it had.
\<close>

theorem promotion_keeps_other_primaries:
  assumes "is_ok (fst (promote_replica rid PromotionState.PRIMARY w b t u c))" and "rid' \<noteq> rid"
    and "sa_eligible (servable rid' c)"
  shows "sa_eligible (servable rid' (snd (promote_replica rid PromotionState.PRIMARY w b t u c)))"
proof (rule promote_primary_state [OF assms(1)])
  fix r s hgen r' g ps n
  assume *: "om_find (ct_replicas c) rid = Some r" "om_find (ct_sets c) (r_set_id r) = Some s"
    "snd (promote_replica rid PromotionState.PRIMARY w b t u c) =
       put_set (r_set_id r) (derive_set_lifecycle n s)
         ((put_replica rid r' c)\<lparr>ct_rng := g, ct_promotions := ps\<rparr>)"
  show ?thesis
    unfolding *(3) servable_iff
    using assms(2,3)[unfolded servable_iff] *(1,2) derive_serving [of s n]
    by (auto simp: current_boot_for_def)
qed

theorem promotion_keeps_other_primaries_witness:
  "sa_eligible (servable (MkId 0 1000) (snd (promote_replica (MkId 0 2000) PromotionState.PRIMARY
     (MkId 0 1) (MkId 0 11) 9 9 demo_pair)))"
  using promotion_keeps_other_primaries [OF demo_pair_promote, of "MkId 0 1000" 9 9] by simp

section \<open>Draining\<close>

text \<open>
  An accepted drain stops new work and lets old work finish: it is accepted only from
  \<open>READY\<close> or \<open>SERVING\<close>, leaves the replica \<open>DRAINING\<close> and refused by the serving gate, keeps
  its active requests, and opens one drain record.
\<close>

theorem drain_refuses_new_work:
  assumes "is_ok (fst (drain_replica rid w b t c))"
  shows "\<not> sa_eligible (servable rid (snd (drain_replica rid w b t c))) \<and>
    (\<exists>r r'. find_replica rid c = Some r \<and> find_replica rid (snd (drain_replica rid w b t c)) = Some r' \<and>
       r_lifecycle r \<in> {ReplicaLifecycle.READY, ReplicaLifecycle.SERVING} \<and>
       r_lifecycle r' = ReplicaLifecycle.DRAINING \<and> r_active_requests r' = r_active_requests r) \<and>
    (\<exists>dr. ct_drains (snd (drain_replica rid w b t c)) = ct_drains c @ [dr] \<and>
       d_state dr = DrainState.DRAINING)"
proof -
  obtain r where r: "om_find (ct_replicas c) rid = Some r" "worker_boot_matches r w b"
    "r_coordinator_epoch r = ct_epoch c" "r_lifecycle r = ReplicaLifecycle.READY \<or> r_lifecycle r = ReplicaLifecycle.SERVING"
    using assms by (auto simp: drain_replica_def split: option.splits if_splits)
  obtain did :: DrainId and g where g: "random_id (ct_rng c) = (did, g)" by fastforce
  define r' where "r' = r\<lparr>r_serving_eligible := False, r_role := ReplicaRole.SECONDARY,
     r_promotion := PromotionState.STANDBY, r_lifecycle := ReplicaLifecycle.DRAINING\<rparr>"
  have *: "\<exists>dr. snd (drain_replica rid w b t c) =
      (put_replica rid r' c)\<lparr>ct_rng := g, ct_drains := ct_drains c @ [dr]\<rparr> \<and> d_state dr = DrainState.DRAINING"
    using r g by (auto simp: drain_replica_def can_transition_DRAINING Let_def r'_def)
  then show ?thesis
    using r by (auto simp: find_replica_def r'_def not_servable)
qed

theorem drain_refuses_new_work_witness:
  "\<not> sa_eligible (servable (MkId 0 1000) (snd (drain_replica (MkId 0 1000) (MkId 0 1) (MkId 0 11) 9 demo)))"
proof -
  have "is_ok (fst (drain_replica (MkId 0 1000) (MkId 0 1) (MkId 0 11) 9 demo))"
    by (simp add: drain_replica_def worker_boot_matches_def can_transition_DRAINING Let_def split: prod.split)
  from drain_refuses_new_work [OF this] show ?thesis by simp
qed

text \<open>
  A drain completes exactly when the replica is draining and has no active request left or
  the caller forces it; then the replica is \<open>QUIESCED\<close> without active requests. The set's
  draining policy has no say in it.
\<close>

theorem complete_drain_exact:
  "(is_ok (fst (complete_drain rid q force t c)) \<longleftrightarrow>
     (\<exists>r. find_replica rid c = Some r \<and> r_lifecycle r = ReplicaLifecycle.DRAINING \<and>
        (force \<or> r_active_requests r = 0))) \<and>
   (is_ok (fst (complete_drain rid q force t c)) \<noteq> (snd (complete_drain rid q force t c) = c)) \<and>
   (is_ok (fst (complete_drain rid q force t c)) =
     (\<exists>r r'. find_replica rid c = Some r \<and> find_replica rid (snd (complete_drain rid q force t c)) = Some r' \<and>
        r_lifecycle r = ReplicaLifecycle.DRAINING \<and> r_lifecycle r' = ReplicaLifecycle.QUIESCED \<and>
        r_active_requests r' = 0))"
proof (cases "om_find (ct_replicas c) rid")
  case (Some r)
  have "r_lifecycle r = ReplicaLifecycle.DRAINING \<Longrightarrow>
      (put_replica rid (r\<lparr>r_lifecycle := ReplicaLifecycle.QUIESCED, r_active_requests := 0,
         r_serving_eligible := False\<rparr>) c)\<lparr>ct_drains := ds\<rparr> \<noteq> c" for ds
    using Some by (auto dest!: arg_cong [where f = "\<lambda>c. om_find (ct_replicas c) rid"]
        arg_cong [where f = r_lifecycle])
  then show ?thesis
    using Some by (simp add: complete_drain_def find_replica_def can_transition_def Let_def)
qed (simp add: complete_drain_def find_replica_def)

section \<open>Failing\<close>

text \<open>
  A failure reported for the right worker and boot always takes authority away, whatever
  the result says: the replica ends failed in health, without promotion, role or reserved
  capacity, with the reason recorded. From \<open>QUIESCED\<close>, \<open>FAILED\<close> and \<open>RETIRED\<close> the result is
  \<open>REJECTED\<close> and the lifecycle stays; from every other state it is \<open>OK\<close> and \<open>FAILED\<close>.
\<close>

theorem fail_always_revokes:
  assumes "find_replica rid c = Some r" and "r_worker_id r = w" and "r_boot_id r = b"
  shows "\<not> sa_eligible (servable rid (snd (fail_replica rid w b why t c))) \<and>
    (\<exists>r'. find_replica rid (snd (fail_replica rid w b why t c)) = Some r' \<and>
       r_health r' = HealthState.FAILED \<and> r_promotion r' = PromotionState.NOT_PROMOTED \<and>
       r_role r' = ReplicaRole.NONE \<and> r_reserved_capacity r' = 0 \<and> hr_reason (r_health_record r') = why \<and>
       (if r_lifecycle r \<in> {ReplicaLifecycle.QUIESCED, ReplicaLifecycle.FAILED, ReplicaLifecycle.RETIRED}
        then is_rejected (fst (fail_replica rid w b why t c)) \<and> r_lifecycle r' = r_lifecycle r
        else is_ok (fst (fail_replica rid w b why t c)) \<and> r_lifecycle r' = ReplicaLifecycle.FAILED))"
proof -
  obtain r' where r': "om_find (ct_replicas (snd (fail_replica rid w b why t c))) rid = Some r'"
    "\<not> r_serving_eligible r' \<and> r_health r' = HealthState.FAILED \<and> r_promotion r' = PromotionState.NOT_PROMOTED \<and>
       r_role r' = ReplicaRole.NONE \<and> r_reserved_capacity r' = 0 \<and> hr_reason (r_health_record r') = why \<and>
       (if r_lifecycle r \<in> {ReplicaLifecycle.QUIESCED, ReplicaLifecycle.FAILED, ReplicaLifecycle.RETIRED}
        then is_rejected (fst (fail_replica rid w b why t c)) \<and> r_lifecycle r' = r_lifecycle r
        else is_ok (fst (fail_replica rid w b why t c)) \<and> r_lifecycle r' = ReplicaLifecycle.FAILED)"
    by (cases "r_lifecycle r \<in> {ReplicaLifecycle.QUIESCED, ReplicaLifecycle.FAILED, ReplicaLifecycle.RETIRED}")
       (use assms in \<open>auto simp: fail_replica_def find_replica_def worker_boot_matches_def
        can_transition_FAILED Let_def\<close>)
  then show ?thesis
    using not_servable [OF r'(1)] by (auto simp: find_replica_def)
qed

theorem fail_always_revokes_witness:
  "\<not> sa_eligible (servable (MkId 0 1000) (snd (fail_replica (MkId 0 1000) (MkId 0 1) (MkId 0 11) ''oom'' 9 demo)))"
  using fail_always_revokes [of "MkId 0 1000" demo "live_replica (MkId 0 1000)" "MkId 0 1" "MkId 0 11" "''oom''" 9]
  by (simp add: find_replica_def)

section \<open>Worker loss\<close>

text \<open>
  A worker that registers under a new boot identity loses all serving authority it had: none
  of its replicas is servable afterwards; those that were serving are failed, the others keep
  their records.
\<close>

theorem restart_revokes_serving:
  assumes "find_worker (w_worker_id wr) c = Some old" and "w_boot_id old \<noteq> w_boot_id wr"
    and "find_replica rid c = Some r" and "r_worker_id r = w_worker_id wr"
  shows "\<not> sa_eligible (servable rid (snd (register_worker wr t u c))) \<and>
    find_replica rid (snd (register_worker wr t u c)) =
      Some (if r_lifecycle r = ReplicaLifecycle.SERVING then fail_on_restart r else r)"
proof -
  have f: "om_find (ct_replicas (snd (register_worker wr t u c))) rid =
      Some (if r_lifecycle r = ReplicaLifecycle.SERVING then fail_on_restart r else r)"
    using assms by (simp add: register_worker_def find_worker_def find_replica_def Let_def)
  moreover have "\<not> sa_eligible (servable rid (snd (register_worker wr t u c)))"
    by (rule not_servable [OF f]) (simp add: fail_on_restart_def)
  ultimately show ?thesis by (simp add: find_replica_def)
qed

theorem restart_revokes_serving_witness:
  "\<not> sa_eligible (servable (MkId 0 1000) (snd (register_worker (demo_worker\<lparr>w_boot_id := MkId 0 12\<rparr>) 9 9 demo)))"
  using restart_revokes_serving [of "demo_worker\<lparr>w_boot_id := MkId 0 12\<rparr>" demo demo_worker "MkId 0 1000"
    "live_replica (MkId 0 1000)" 9 9]
  by (simp add: find_worker_def find_replica_def)

text \<open>
  A worker that disconnects leaves nothing servable behind: none of its replicas passes the
  gate afterwards; those with the flag or in \<open>READY\<close>, \<open>SERVING\<close> or \<open>DRAINING\<close> are failed.
\<close>

theorem disconnect_revokes_serving:
  assumes "find_worker w c \<noteq> None" and "find_replica rid c = Some r" and "r_worker_id r = w"
  shows "\<not> sa_eligible (servable rid (snd (unregister_worker w c))) \<and>
    find_replica rid (snd (unregister_worker w c)) =
      Some (if had_authority r then fail_on_disconnect r else r)"
proof -
  have f: "om_find (ct_replicas (snd (unregister_worker w c))) rid =
      Some (if had_authority r then fail_on_disconnect r else r)"
    using assms by (auto simp: unregister_worker_def find_worker_def find_replica_def Let_def)
  moreover have "\<not> sa_eligible (servable rid (snd (unregister_worker w c)))"
    by (rule not_servable [OF f]) (simp add: fail_on_disconnect_def had_authority_def)
  ultimately show ?thesis by (simp add: find_replica_def)
qed

theorem disconnect_revokes_serving_witness:
  "\<not> sa_eligible (servable (MkId 0 1000) (snd (unregister_worker (MkId 0 1) demo)))"
  using disconnect_revokes_serving [of "MkId 0 1" demo "MkId 0 1000" "live_replica (MkId 0 1000)"]
  by (simp add: find_worker_def find_replica_def)

end
