(* ===== verification/Controller_Failover.thy ===== *)
theory Controller_Failover
  imports Controller_Effects "HOL-Library.Product_Lexorder"
begin

text \<open>
  Failover: the candidates are ordered by a key (promotion rank if standbys go first, same
  worker last if diversity is asked for, then the id), so the hand-written sort is the
  library's sort by that key. The locale \<open>keyed_order\<close> states what the sort needs of its
  comparator; the comparator of the failover interprets it.
\<close>

section \<open>The sort\<close>

locale keyed_order =
  fixes lt :: "'a \<Rightarrow> 'a \<Rightarrow> bool" and key :: "'a \<Rightarrow> 'k::linorder"
  assumes lt_key: "lt a b \<longleftrightarrow> key a < key b"
begin

lemma insert_by_key: "insert_by lt x xs = insort_key key x xs"
  by (induction xs) (auto simp: lt_key not_less)

lemma stable_sort_key: "stable_sort lt xs = sort_key key xs"
  by (induction xs) (simp_all add: insert_by_key)

lemma hd_least:
  assumes "stable_sort lt xs = y # ys" and "x \<in> set xs"
  shows "key y \<le> key x"
proof -
  have "sorted (map key (y # ys))"
    using sorted_sort_key [of key xs] assms(1) unfolding stable_sort_key by metis
  moreover have "x \<in> set (y # ys)"
    using assms set_stable_sort [of lt xs] by simp
  ultimately show ?thesis by auto
qed

end

text \<open>
  What failover should do, stated on its own: which replicas may replace the failed one, and which
  of two is preferred. The lemmas below show that the tests and the comparator of
  \<open>trigger_failover\<close> are these.
\<close>

definition eligible_replacement ::
  "ReplicaSetId \<Rightarrow> ReplicaId \<Rightarrow> ReplicaSetState \<Rightarrow> ReplicaId \<times> ReplicaState \<Rightarrow> bool" where
  "eligible_replacement sid failed st a = (case a of (rid, r) \<Rightarrow>
     rid \<noteq> failed \<and> r_set_id r = sid \<and>
     r_lifecycle r \<in> {ReplicaLifecycle.READY, ReplicaLifecycle.SERVING} \<and>
     r_readiness r = ReadinessState.READY \<and>
     r_health r \<in> {HealthState.HEALTHY, HealthState.DEGRADED} \<and>
     meets (s_compatibility st) (r_compatibility r) \<and>
     r_placement r = PlacementState.ASSIGNED \<and>
     r_set_generation r = s_generation st)"

text \<open>Standby before canary before replacement before recovered before any other.\<close>

definition promotion_preference :: "PromotionState \<Rightarrow> nat" where
  "promotion_preference p = length (takeWhile (\<lambda>x. x \<noteq> p)
     [PromotionState.STANDBY, PromotionState.CANARY, PromotionState.REPLACEMENT, PromotionState.RECOVERED])"

definition candidate_key ::
  "FailoverPolicy \<Rightarrow> WorkerId \<Rightarrow> ReplicaId \<times> ReplicaState \<Rightarrow> nat \<times> bool \<times> ReplicaId" where
  "candidate_key pol failed_worker a =
     (if fp_prefer_standby_first pol then promotion_preference (r_promotion (snd a)) else 0,
      fp_require_diversity pol \<and> r_worker_id (snd a) = failed_worker, fst a)"

lemma is_candidate_eligible: "is_candidate sid failed st rid r \<longleftrightarrow> eligible_replacement sid failed st (rid, r)"
  by (auto simp: is_candidate_def eligible_replacement_def check_compatibility_meets)

lemma role_rank_preference: "role_rank p = promotion_preference p"
  by (cases p) (simp_all add: promotion_preference_def)

interpretation cand: keyed_order "candidate_less pol w" "candidate_key pol w" for pol w
  by unfold_locales
     (auto simp: candidate_less_def candidate_key_def role_rank_preference less_prod_def' Let_def less_bool_def)

section \<open>What failover does\<close>

lemma obsolete_failed_props [simp]:
  "\<not> r_serving_eligible (obsolete_failed why r)" "r_worker_id (obsolete_failed why r) = r_worker_id r"
  "r_health (obsolete_failed why r) = HealthState.FAILED"
  "r_active_requests (obsolete_failed why r) = r_active_requests r"
  "r_role (obsolete_failed why r) = ReplicaRole.NONE"
  by (simp_all add: obsolete_failed_def Let_def)

definition candidates :: "ReplicaSetId \<Rightarrow> ReplicaId \<Rightarrow> ReplicaSetState \<Rightarrow> controller \<Rightarrow> (ReplicaId \<times> ReplicaState) set" where
  "candidates sid fid st c = {a. om_find (ct_replicas c) (fst a) = Some (snd a) \<and> eligible_replacement sid fid st a}"

lemma candidates_after_obsolete:
  assumes "om_sorted (ct_replicas c)"
  shows "set (failover_candidates sid fid st w (put_replica fid fr c)) = candidates sid fid st c"
  using failover_candidates_set [of "put_replica fid fr c"] assms
  by (auto simp: candidates_def is_candidate_eligible eligible_replacement_def)

lemma failover_least:
  assumes "failover_candidates sid fid st w (put_replica fid fr c) = y # ys" "om_sorted (ct_replicas c)"
    and "x \<in> candidates sid fid st c"
  shows "candidate_key (pb_failover (s_policies st)) w y \<le> candidate_key (pb_failover (s_policies st)) w x"
proof (rule cand.hd_least [OF assms(1) [unfolded failover_candidates_def]])
  show "x \<in> set (filter (\<lambda>(rid, r). is_candidate sid fid st rid r) (ct_replicas (put_replica fid fr c)))"
    using candidates_after_obsolete [OF assms(2), of sid fid st w fr] assms(3)
    by (simp add: failover_candidates_def)
qed

lemma failover_none:
  assumes "controller_ok c" "om_find (ct_sets c) sid = Some st" "om_find (ct_replicas c) fid = Some fr"
    "r_set_id fr = sid" "candidates sid fid st c = {}"
  obtains f g where "trigger_failover sid fid why t u c = (op_rejected ''no eligible replacement for failover'',
    (put_replica fid (obsolete_failed why fr) c)\<lparr>ct_rng := g, ct_failovers := ct_failovers c @ [f]\<rparr>)"
    "f_state f = FailoverState.FAILED" "f_failed_replica f = fid"
proof -
  have "failover_candidates sid fid st w (put_replica fid (obsolete_failed why fr) c) = []" for w
    using candidates_after_obsolete [of c sid fid st w "obsolete_failed why fr"] assms by simp
  moreover obtain fi :: FailoverId and g where "random_id (ct_rng c) = (fi, g)" by fastforce
  ultimately show ?thesis
    by (intro that) (use assms in \<open>simp add: trigger_failover_def FailoverRecord_default_def Let_def\<close>, simp_all)
qed

lemma failover_some:
  assumes "controller_ok c" "om_find (ct_sets c) sid = Some st" "om_find (ct_replicas c) fid = Some fr"
    "r_set_id fr = sid" "candidates sid fid st c \<noteq> {}"
  obtains rid r hgen n f p g where "(rid, r) \<in> candidates sid fid st c"
    "\<And>x. x \<in> candidates sid fid st c \<Longrightarrow>
       candidate_key (pb_failover (s_policies st)) (r_worker_id fr) (rid, r) \<le>
       candidate_key (pb_failover (s_policies st)) (r_worker_id fr) x"
    "trigger_failover sid fid why t u c = (op_ok (''failover completed; promoted '' @ id_str rid),
      put_set sid (derive_set_lifecycle n st)
        ((put_replica rid (make_primary hgen r) (put_replica fid (obsolete_failed why fr) c))
          \<lparr>ct_rng := g, ct_failovers := ct_failovers c @ [f], ct_promotions := ct_promotions c @ [p]\<rparr>))"
    "f_state f = FailoverState.COMPLETE" "f_failed_replica f = fid" "f_replacement f = rid"
    "f_ambiguous_outcomes f = (if r_active_requests fr > 0 then [WorkOutcome.AMBIGUOUS] else [])"
proof -
  let ?c = "put_replica fid (obsolete_failed why fr) c"
  have m: "om_sorted (ct_replicas c)" using assms(1) by simp
  have "failover_candidates sid fid st (r_worker_id fr) ?c \<noteq> []"
    using candidates_after_obsolete [OF m, of sid fid st "r_worker_id fr" "obsolete_failed why fr"] assms(5) by auto
  then obtain rid r rest where hd: "failover_candidates sid fid st (r_worker_id fr) ?c = (rid, r) # rest"
    by (metis list.exhaust surj_pair)
  have mem: "(rid, r) \<in> candidates sid fid st c"
    using candidates_after_obsolete [OF m, of sid fid st "r_worker_id fr" "obsolete_failed why fr"] hd by auto
  obtain hgen :: HealthGeneration and g1 where g1: "random_id (ct_rng c) = (hgen, g1)" by fastforce
  obtain fi :: FailoverId and g2 where g2: "random_id g1 = (fi, g2)" by fastforce
  obtain pid :: PromotionId and g3 where g3: "random_id g2 = (pid, g3)" by fastforce
  show ?thesis
    by (rule that [OF mem failover_least [OF hd m]])
       (assumption, use assms hd g1 g2 g3 in \<open>simp add: trigger_failover_def FailoverRecord_default_def Let_def\<close>, simp_all)
qed


lemma demo_candidate: "candidates (MkId 0 100) (MkId 0 1000) live_set demo_pair \<noteq> {}"
proof -
  have "(MkId 0 2000, standby_replica (MkId 0 2000)) \<in> candidates (MkId 0 100) (MkId 0 1000) live_set demo_pair"
    by (simp add: candidates_def) (simp add: eligible_replacement_def standby_replica_def flip: check_compatibility_meets)
  then show ?thesis by blast
qed

lemma demo_alone: "candidates (MkId 0 100) (MkId 0 1000) live_set demo = {}"
  by (auto simp: candidates_def eligible_replacement_def demo_eq split: if_splits)

text \<open>
  C13. Failover promotes the best replacement. Eligible is another replica of the set, READY or
  SERVING, of readiness READY, HEALTHY or DEGRADED, that meets the compatibility contract, has its
  placement and is of the generation of the set. When some replica is eligible, the one promoted is
  eligible itself and least in the order of the policy (standby, canary, replacement, recovered,
  other if standbys go first; then a worker other than the failed one if diversity is asked for;
  then the smaller id); it becomes the serving primary, the failover is recorded as complete, and work that was in flight on the failed
  replica is recorded as ambiguous.
\<close>

theorem failover_promotes_best:
  assumes "controller_ok c" and "find_set sid c = Some st" and "find_replica fid c = Some fr"
    and "r_set_id fr = sid" and "candidates sid fid st c \<noteq> {}"
  shows "\<exists>rid r r'. (rid, r) \<in> candidates sid fid st c \<and>
    (\<forall>x \<in> candidates sid fid st c.
       candidate_key (pb_failover (s_policies st)) (r_worker_id fr) (rid, r) \<le>
       candidate_key (pb_failover (s_policies st)) (r_worker_id fr) x) \<and>
    trigger_failover sid fid why t u c =
      (op_ok (''failover completed; promoted '' @ id_str rid), snd (trigger_failover sid fid why t u c)) \<and>
    find_replica rid (snd (trigger_failover sid fid why t u c)) = Some r' \<and>
    r_role r' = ReplicaRole.PRIMARY \<and> r_serving_eligible r' \<and> r_lifecycle r' = ReplicaLifecycle.SERVING \<and>
    (\<exists>f. ct_failovers (snd (trigger_failover sid fid why t u c)) = ct_failovers c @ [f] \<and>
       f_failed_replica f = fid \<and> f_replacement f = rid \<and> f_state f = FailoverState.COMPLETE \<and>
       f_ambiguous_outcomes f = (if r_active_requests fr > 0 then [WorkOutcome.AMBIGUOUS] else []))"
proof (rule failover_some [OF assms(1) _ _ assms(4,5), of why t u])
  fix rid r hgen n f p g
  assume mem: "(rid, r) \<in> candidates sid fid st c"
    and least: "\<And>x. x \<in> candidates sid fid st c \<Longrightarrow>
       candidate_key (pb_failover (s_policies st)) (r_worker_id fr) (rid, r) \<le>
       candidate_key (pb_failover (s_policies st)) (r_worker_id fr) x"
    and run: "trigger_failover sid fid why t u c = (op_ok (''failover completed; promoted '' @ id_str rid),
      put_set sid (derive_set_lifecycle n st)
        ((put_replica rid (make_primary hgen r) (put_replica fid (obsolete_failed why fr) c))
          \<lparr>ct_rng := g, ct_failovers := ct_failovers c @ [f], ct_promotions := ct_promotions c @ [p]\<rparr>))"
    and f: "f_state f = FailoverState.COMPLETE" "f_failed_replica f = fid" "f_replacement f = rid"
      "f_ambiguous_outcomes f = (if r_active_requests fr > 0 then [WorkOutcome.AMBIGUOUS] else [])"
  show ?thesis
    by (rule exI [of _ rid], rule exI [of _ r], rule exI [of _ "make_primary hgen r"])
       (use mem least f in \<open>simp add: run find_replica_def\<close>)
qed (use assms(2,3) in \<open>simp_all add: find_set_def find_replica_def\<close>)

theorem failover_promotes_best_witness:
  "\<exists>rid r. (rid, r) \<in> candidates (MkId 0 100) (MkId 0 1000) live_set demo_pair \<and>
     fst (trigger_failover (MkId 0 100) (MkId 0 1000) ''lost'' 9 9 demo_pair) =
       op_ok (''failover completed; promoted '' @ id_str rid)"
  using failover_promotes_best [OF demo_pair_ok, of "MkId 0 100" live_set "MkId 0 1000"
      "live_replica (MkId 0 1000)" "''lost''" 9 9] demo_candidate
  by (auto simp: find_set_def find_replica_def) (metis fst_conv)

text \<open>
  With no eligible replacement failover is rejected, yet not without effect: the failed
  replica loses its authority and a failed failover is recorded; no other replica and no set
  changes.
\<close>

theorem failover_without_candidate:
  assumes "controller_ok c" and "find_set sid c = Some st" and "find_replica fid c = Some fr"
    and "r_set_id fr = sid" and "candidates sid fid st c = {}"
  shows "is_rejected (fst (trigger_failover sid fid why t u c)) \<and>
    ct_replicas (snd (trigger_failover sid fid why t u c)) = om_put fid (obsolete_failed why fr) (ct_replicas c) \<and>
    ct_sets (snd (trigger_failover sid fid why t u c)) = ct_sets c \<and>
    (\<exists>f. ct_failovers (snd (trigger_failover sid fid why t u c)) = ct_failovers c @ [f] \<and>
       f_state f = FailoverState.FAILED \<and> f_failed_replica f = fid)"
  by (rule failover_none [OF assms(1) _ _ assms(4,5), of why t u])
     (use assms(2,3) in \<open>simp_all add: find_set_def find_replica_def\<close>)

theorem failover_without_candidate_witness:
  "is_rejected (fst (trigger_failover (MkId 0 100) (MkId 0 1000) ''lost'' 9 9 demo))"
  using failover_without_candidate [OF demo_ok, of "MkId 0 100" live_set "MkId 0 1000"
      "live_replica (MkId 0 1000)" "''lost''" 9 9] demo_alone
  by (simp add: find_set_def find_replica_def)

text \<open>
  C14. After a failover of its set the failed replica is never servable, replacement or not: its
  record is the old one with flag, health, promotion, role and reserved capacity cleared.
\<close>

theorem failover_revokes_failed:
  assumes "controller_ok c" and "find_set sid c = Some st" and "find_replica fid c = Some fr"
    and "r_set_id fr = sid"
  shows "\<not> sa_eligible (servable fid (snd (trigger_failover sid fid why t u c))) \<and>
    find_replica fid (snd (trigger_failover sid fid why t u c)) = Some (obsolete_failed why fr)"
proof -
  have *: "om_find (ct_replicas (snd (trigger_failover sid fid why t u c))) fid = Some (obsolete_failed why fr)"
  proof (cases "candidates sid fid st c = {}")
    case True
    then show ?thesis
      by (rule_tac failover_none [OF assms(1) _ _ assms(4) True, of why t u])
         (use assms(2,3) in \<open>simp_all add: find_set_def find_replica_def\<close>)
  next
    case False
    then show ?thesis
      by (rule_tac failover_some [OF assms(1) _ _ assms(4) False, of why t u])
         (use assms(2,3) in \<open>auto simp: find_set_def find_replica_def candidates_def eligible_replacement_def\<close>)
  qed
  then show ?thesis
    using not_servable [OF *] by (simp add: find_replica_def)
qed

theorem failover_revokes_failed_witness:
  "\<not> sa_eligible (servable (MkId 0 1000) (snd (trigger_failover (MkId 0 100) (MkId 0 1000) ''lost'' 9 9 demo_pair)))"
  using failover_revokes_failed [OF demo_pair_ok, of "MkId 0 100" live_set "MkId 0 1000"
      "live_replica (MkId 0 1000)" "''lost''" 9 9]
  by (simp add: find_set_def find_replica_def)

text \<open>
  What a completed failover gives: the replacement is then servable exactly when its epoch,
  its policy and artifact generations, its fingerprint and its worker boot are current and it
  is warm. Candidate selection checks none of these.
\<close>

theorem failover_grants_authority:
  assumes "controller_ok c" and "find_set sid c = Some st" and "find_replica fid c = Some fr"
    and "r_set_id fr = sid" and "candidates sid fid st c \<noteq> {}"
    and "s_lifecycle st \<in> {ReplicaSetLifecycle.PROVISIONING, ReplicaSetLifecycle.AVAILABLE,
           ReplicaSetLifecycle.DEGRADED}"
    and "rid = f_replacement (last (ct_failovers (snd (trigger_failover sid fid why t u c))))"
  shows "\<exists>r. find_replica rid c = Some r \<and>
    (sa_eligible (servable rid (snd (trigger_failover sid fid why t u c))) \<longleftrightarrow>
      r_coordinator_epoch r = ct_epoch c \<and> r_generation r \<noteq> null_id \<and>
      r_artifact_generation r = s_artifact_generation st \<and>
      r_policy_generation r = s_policy_generation st \<and>
      r_policy_fingerprint r = cq_policy_fingerprint (s_compatibility st) \<and>
      r_boot_id r = current_boot_for rid c \<and> r_warmth r = WarmthState.WARM)"
proof (rule failover_some [OF assms(1) _ _ assms(4,5), of why t u])
  fix rid' r hgen n f p g
  assume mem: "(rid', r) \<in> candidates sid fid st c"
    and run: "trigger_failover sid fid why t u c = (op_ok (''failover completed; promoted '' @ id_str rid'),
      put_set sid (derive_set_lifecycle n st)
        ((put_replica rid' (make_primary hgen r) (put_replica fid (obsolete_failed why fr) c))
          \<lparr>ct_rng := g, ct_failovers := ct_failovers c @ [f], ct_promotions := ct_promotions c @ [p]\<rparr>))"
    and f: "f_replacement f = rid'"
  have rid: "rid = rid'"
    by (simp add: assms(7) run f)
  have "sa_eligible (servable rid' (snd (trigger_failover sid fid why t u c))) \<longleftrightarrow>
      r_coordinator_epoch r = ct_epoch c \<and> r_generation r \<noteq> null_id \<and>
      r_artifact_generation r = s_artifact_generation st \<and>
      r_policy_generation r = s_policy_generation st \<and>
      r_policy_fingerprint r = cq_policy_fingerprint (s_compatibility st) \<and>
      r_boot_id r = current_boot_for rid' c \<and> r_warmth r = WarmthState.WARM"
    unfolding run servable_iff
    using mem derive_serving [OF assms(6), of n]
    by (auto simp: current_boot_for_def candidates_def eligible_replacement_def)
  then show ?thesis
    using mem by (intro exI [of _ r]) (simp add: rid candidates_def find_replica_def)
qed (use assms(2,3) in \<open>simp_all add: find_set_def find_replica_def\<close>)

theorem failover_grants_authority_witness:
  "\<exists>r. find_replica (f_replacement (last (ct_failovers (snd (trigger_failover (MkId 0 100) (MkId 0 1000)
     ''lost'' 9 9 demo_pair))))) demo_pair = Some r"
  using failover_grants_authority [OF demo_pair_ok, of "MkId 0 100" live_set "MkId 0 1000"
      "live_replica (MkId 0 1000)" _ "''lost''" 9 9] demo_candidate
  by (auto simp: find_set_def find_replica_def)

text \<open>
  The sort of the candidates is the stable sort by the key of the policy: the comparator is
  a strict order on keys, and sorting with it is sorting by the key.
\<close>

theorem stable_sort_is_sort:
  "stable_sort (candidate_less pol w) xs = sort_key (candidate_key pol w) xs \<and>
   (candidate_less pol w a b \<longleftrightarrow> candidate_key pol w a < candidate_key pol w b)"
  by (simp add: cand.stable_sort_key cand.lt_key)

end
