(* ===== verification/Codec.thy ===== *)
theory Codec
  imports Identity Enums
begin

text \<open>
  The byte codec of \<open>src/snapshot.cpp\<close>: the classes \<open>Writer\<close> and \<open>Reader\<close>. A writer is the
  list of bytes it appends; a reader takes the bytes that are left and returns the value with
  the rest, or the message of the failure (empty where the code fails without one). The
  locale \<open>codec\<close> is the contract of a pair of them: the reader accepts exactly what the writer
  of a representable value produces. Every pair of the snapshot interprets it.
\<close>

unbundle bit_operations_syntax

section \<open>Little-endian words\<close>

definition le_bytes :: "nat \<Rightarrow> 'a::len word \<Rightarrow> bytes" where
  "le_bytes n v = map (\<lambda>i. ucast (drop_bit (8 * i) v AND 0xFF)) [0..<n]"

definition le_word :: "nat \<Rightarrow> bytes \<Rightarrow> 'a::len word" where
  "le_word n bs = foldl (\<lambda>v i. v OR push_bit (8 * i) (ucast (bs ! i))) 0 [0..<n]"

lemma length_le_bytes [simp]: "length (le_bytes n v) = n"
  by (simp add: le_bytes_def)

lemma and_ff: "(w :: 'a::len word) AND 0xFF = take_bit 8 w"
  by (simp add: take_bit_eq_mask mask_eq_exp_minus_1)

lemma bit_foldl_or:
  "bit (foldl (\<lambda>v i. v OR f i) (a :: 'a::len word) xs) k \<longleftrightarrow> bit a k \<or> (\<exists>i \<in> set xs. bit (f i) k)"
  by (induction xs arbitrary: a) (auto simp: bit_simps)

lemma bit_le_word:
  "bit (le_word n bs :: 'a::len word) k \<longleftrightarrow> k < LENGTH('a) \<and> k div 8 < n \<and> bit (bs ! (k div 8)) (k mod 8)"
proof -
  have eq: "8 * i \<le> k \<and> bit (bs ! i :: u8) (k - 8 * i) \<longleftrightarrow> i = k div 8 \<and> bit (bs ! i) (k mod 8)" for i
  proof -
    obtain q m where k: "k = 8 * q + m" "m < 8"
      using mult_div_mod_eq [of 8 k] mod_less_divisor [of 8 k] by (metis zero_less_numeral)
    then have qm: "k div 8 = q" "k mod 8 = m" by auto
    show ?thesis
    proof (cases "i = q")
      case True
      then show ?thesis using k qm by simp
    next
      case False
      then have "8 * i \<le> k \<Longrightarrow> 8 \<le> k - 8 * i" using k by linarith
      then show ?thesis
        using bit_imp_le_length [of "bs ! i" "k - 8 * i"] False qm by fastforce
    qed
  qed
  have "bit (le_word n bs :: 'a word) k \<longleftrightarrow>
      k < LENGTH('a) \<and> (\<exists>i < n. 8 * i \<le> k \<and> bit (bs ! i) (k - 8 * i))"
    unfolding le_word_def bit_foldl_or by (auto simp: bit_simps)
  then show ?thesis
    unfolding eq by blast
qed

lemma le_word_bytes: "LENGTH('a) = 8 * n \<Longrightarrow> le_word n (le_bytes n v @ r) = (v :: 'a::len word)"
  by (rule bit_word_eqI) (auto simp: bit_le_word le_bytes_def nth_append and_ff bit_simps)

lemma le_bytes_word:
  assumes "n \<le> length bs" and "LENGTH('a) = 8 * n"
  shows "le_bytes n (le_word n bs :: 'a::len word) = take n bs"
proof (rule nth_equalityI)
  fix i assume "i < length (le_bytes n (le_word n bs :: 'a word))"
  then have i: "i < n" by simp
  have "ucast (drop_bit (8 * i) (le_word n bs :: 'a word) AND 0xFF) = (bs ! i :: u8)"
  proof (rule bit_word_eqI)
    fix k assume "k < LENGTH(8)"
    then have "(8 * i + k) div 8 = i" "(8 * i + k) mod 8 = k" "8 * i + k < 8 * n"
      using i by auto
    then show "bit (ucast (drop_bit (8 * i) (le_word n bs :: 'a word) AND 0xFF) :: u8) k = bit (bs ! i) k"
      using assms(2) i \<open>k < LENGTH(8)\<close> by (auto simp: bit_simps bit_le_word and_ff)
  qed
  then show "le_bytes n (le_word n bs :: 'a word) ! i = take n bs ! i"
    using i by (simp add: le_bytes_def)
qed (use assms in simp)

named_theorems codec_exact "what a reader that accepts has read"
named_theorems codec_write "what a reader does on the bytes of a writer"

section \<open>Readers\<close>

type_synonym 'a reader = "bytes \<Rightarrow> string + 'a \<times> bytes"

definition rret :: "'a \<Rightarrow> 'a reader" where
  "rret x bs = Inr (x, bs)"

definition rbind :: "'a reader \<Rightarrow> ('a \<Rightarrow> 'b reader) \<Rightarrow> 'b reader" where
  "rbind rd f bs = (case rd bs of Inl e \<Rightarrow> Inl e | Inr (x, rest) \<Rightarrow> f x rest)"

lemma rbind_Inr:
  "rbind rd f bs = Inr (y, rest) \<longleftrightarrow> (\<exists>x r. rd bs = Inr (x, r) \<and> f x r = Inr (y, rest))"
  by (auto simp: rbind_def split: sum.splits)

definition read_u8 :: "u8 reader" where
  "read_u8 bs = (if length bs < 1 then Inl ''u8 truncation'' else Inr (hd bs, tl bs))"

definition read_u32 :: "u32 reader" where
  "read_u32 bs = (if length bs < 4 then Inl ''u32 truncation'' else Inr (le_word 4 bs, drop 4 bs))"

definition read_u64 :: "u64 reader" where
  "read_u64 bs = (if length bs < 8 then Inl ''u64 truncation'' else Inr (le_word 8 bs, drop 8 bs))"

definition is_nan_or_inf :: "u64 \<Rightarrow> bool" where
  "is_nan_or_inf b \<longleftrightarrow> drop_bit 52 b AND 0x7FF = 0x7FF"

definition read_f64 :: "u64 reader" where
  "read_f64 = rbind read_u64 (\<lambda>b bs. if is_nan_or_inf b then Inl ''NaN/Inf double'' else Inr (b, bs))"

definition read_boolean :: "bool reader" where
  "read_boolean = rbind read_u8 (\<lambda>b bs. if b > 1 then Inl ''invalid boolean'' else Inr (b = 1, bs))"

definition read_bytes :: "nat \<Rightarrow> bytes reader" where
  "read_bytes n bs = (if n > length bs then Inl ''byte range overflow'' else Inr (take n bs, drop n bs))"

definition to_string :: "bytes \<Rightarrow> string" where
  "to_string bs = map (\<lambda>b. char_of (unat b)) bs"

definition of_string :: "string \<Rightarrow> bytes" where
  "of_string s = map (\<lambda>c. of_nat (of_char c)) s"

definition read_string :: "string reader" where
  "read_string = rbind read_u64 (\<lambda>n bs.
     if unat n > length bs then Inl ''string length overflow''
     else Inr (to_string (take (unat n) bs), drop (unat n) bs))"

primrec read_times :: "nat \<Rightarrow> 'a reader \<Rightarrow> 'a list reader" where
  "read_times 0 rd = rret []"
| "read_times (Suc n) rd = rbind rd (\<lambda>x. rbind (read_times n rd) (\<lambda>xs. rret (x # xs)))"

text \<open>A counted sequence: the count is refused when it exceeds the bytes that are left.\<close>

definition read_vector :: "string \<Rightarrow> 'a reader \<Rightarrow> 'a list reader" where
  "read_vector msg rd = rbind read_u64 (\<lambda>n bs.
     if unat n > length bs then Inl msg else read_times (unat n) rd bs)"

definition write_u8 :: "u8 \<Rightarrow> bytes" where "write_u8 v = [v]"
definition write_u32 :: "u32 \<Rightarrow> bytes" where "write_u32 v = le_bytes 4 v"
definition write_u64 :: "u64 \<Rightarrow> bytes" where "write_u64 v = le_bytes 8 v"
definition write_boolean :: "bool \<Rightarrow> bytes" where "write_boolean v = write_u8 (if v then 1 else 0)"
definition write_string :: "string \<Rightarrow> bytes" where
  "write_string s = write_u64 (of_nat (length s)) @ of_string s"
definition write_vector :: "('a \<Rightarrow> bytes) \<Rightarrow> 'a list \<Rightarrow> bytes" where
  "write_vector wr xs = write_u64 (of_nat (length xs)) @ concat (map wr xs)"

definition fits :: "'a list \<Rightarrow> bool" where
  "fits xs \<longleftrightarrow> length xs < 2 ^ 64"

locale codec =
  fixes wr :: "'a \<Rightarrow> bytes" and rd :: "'a reader" and ok :: "'a \<Rightarrow> bool"
  assumes exact: "rd bs = Inr (x, rest) \<longleftrightarrow> ok x \<and> bs = wr x @ rest"
    and nonempty: "wr x \<noteq> []"
begin

lemma bind_exact:
  "rbind rd f bs = Inr (y, rest) \<longleftrightarrow> (\<exists>x r. ok x \<and> bs = wr x @ r \<and> f x r = Inr (y, rest))"
  unfolding rbind_Inr exact by auto

lemma bind_wr: "ok x \<Longrightarrow> rbind rd f (wr x @ r) = f x r"
  using exact [of "wr x @ r" x r] by (simp add: rbind_def)

lemma times_exact:
  "read_times n rd bs = Inr (xs, rest) \<longleftrightarrow>
     length xs = n \<and> list_all ok xs \<and> bs = concat (map wr xs) @ rest"
proof (induction n arbitrary: bs xs rest)
  case (Suc n)
  show ?case
    unfolding read_times.simps rbind_Inr Suc exact rret_def by (cases xs) auto
qed (auto simp: rret_def)

lemma length_concat: "length xs \<le> length (concat (map wr xs))"
proof (induction xs)
  case (Cons x xs)
  then show ?case using nonempty [of x] by (cases "wr x") auto
qed simp

lemma roundtrip: "ok x \<Longrightarrow> rd (wr x @ rest) = Inr (x, rest)"
  by (simp add: exact)

lemma wr_inject: "ok x \<Longrightarrow> ok y \<Longrightarrow> wr x @ r = wr y @ s \<longleftrightarrow> x = y \<and> r = s"
  using exact [of "wr x @ r" x r] exact [of "wr x @ r" y s] by auto

end

section \<open>The primitive codecs\<close>

interpretation u8: codec write_u8 read_u8 "\<lambda>_. True"
proof
  show "read_u8 bs = Inr (x, rest) \<longleftrightarrow> True \<and> bs = write_u8 x @ rest" for bs x rest
    by (cases bs) (auto simp: read_u8_def write_u8_def)
qed (simp add: write_u8_def)

lemma le_exact:
  assumes "LENGTH('a) = 8 * n"
  shows "n \<le> length bs \<and> le_word n bs = (x :: 'a::len word) \<and> rest = drop n bs \<longleftrightarrow> bs = le_bytes n x @ rest"
proof
  assume *: "n \<le> length bs \<and> le_word n bs = x \<and> rest = drop n bs"
  then show "bs = le_bytes n x @ rest"
    using le_bytes_word [of n bs, where 'a = 'a] assms by auto
qed (simp add: le_word_bytes assms)

interpretation u32: codec write_u32 read_u32 "\<lambda>_. True"
proof
  show "read_u32 bs = Inr (x, rest) \<longleftrightarrow> True \<and> bs = write_u32 x @ rest" for bs x rest
    using le_exact [of 4 bs x rest] by (auto simp: read_u32_def write_u32_def not_less)
qed (simp add: write_u32_def le_bytes_def upt_rec)

interpretation u64: codec write_u64 read_u64 "\<lambda>_. True"
proof
  show "read_u64 bs = Inr (x, rest) \<longleftrightarrow> True \<and> bs = write_u64 x @ rest" for bs x rest
    using le_exact [of 8 bs x rest] by (auto simp: read_u64_def write_u64_def not_less)
qed (simp add: write_u64_def le_bytes_def upt_rec)

lemma write_u64_ne [simp]: "write_u64 x @ xs \<noteq> []"
  using u64.nonempty [of x] by simp

interpretation boolean: codec write_boolean read_boolean "\<lambda>_. True"
proof
  have small: "b > 1 \<or> b = 0 \<or> b = 1" for b :: u8
    by (auto simp: word_less_nat_alt word_unat_eq_iff)
  show "read_boolean bs = Inr (x, rest) \<longleftrightarrow> True \<and> bs = write_boolean x @ rest" for bs x rest
    using small by (cases x) (auto simp: read_boolean_def u8.bind_exact write_boolean_def write_u8_def cong: conj_cong)
qed (simp add: write_boolean_def u8.nonempty)


lemma string_bytes [simp]: "to_string (of_string s) = s"
proof -
  have "unat (of_nat (of_char c) :: u8) = (of_char c :: nat)" for c
    using nat_of_char_less_256 [of c] by (simp add: unat_of_nat take_bit_nat_eq_self)
  then show ?thesis by (simp add: to_string_def of_string_def o_def)
qed

lemma bytes_string [simp]: "of_string (to_string bs) = bs"
proof -
  have "(of_nat (unat b mod 256) :: u8) = b" for b
    using unsigned_less [of b, where 'a = nat] by simp
  then show ?thesis by (simp add: to_string_def of_string_def o_def of_char_of)
qed

lemma length_of_string [simp]: "length (of_string s) = length s" "length (to_string bs) = length bs"
  by (simp_all add: of_string_def to_string_def)

lemma u64_of_nat: "n < 2 ^ 64 \<Longrightarrow> unat (of_nat n :: u64) = n"
  by (simp add: unat_of_nat take_bit_nat_eq_self)

lemma u64_size: "unat (n :: u64) = length xs \<longleftrightarrow> length xs < 2 ^ 64 \<and> n = of_nat (length xs)"
  using unsigned_less [of n, where 'a = nat] by (auto simp: u64_of_nat word_unat_eq_iff)

interpretation string: codec write_string read_string fits
proof
  show "read_string bs = Inr (x, rest) \<longleftrightarrow> fits x \<and> bs = write_string x @ rest" for bs x rest
  proof
    assume "read_string bs = Inr (x, rest)"
    then obtain n r where *: "bs = write_u64 n @ r" "unat n \<le> length r"
      "x = to_string (take (unat n) r)" "rest = drop (unat n) r"
      by (auto simp: read_string_def u64.bind_exact not_less split: if_splits)
    then have "unat n = length x" by simp
    then show "fits x \<and> bs = write_string x @ rest"
      using * u64_size [of n x] by (auto simp: fits_def write_string_def)
  next
    assume "fits x \<and> bs = write_string x @ rest"
    then show "read_string bs = Inr (x, rest)"
      by (simp add: read_string_def u64.bind_wr fits_def write_string_def u64_of_nat)
  qed
qed (simp add: write_string_def u64.nonempty)

context codec
begin

lemma vector_exact:
  "read_vector msg rd bs = Inr (xs, rest) \<longleftrightarrow> fits xs \<and> list_all ok xs \<and> bs = write_vector wr xs @ rest"
proof
  assume "read_vector msg rd bs = Inr (xs, rest)"
  then obtain n r where "bs = write_u64 n @ r" "read_times (unat n) rd r = Inr (xs, rest)"
    by (auto simp: read_vector_def u64.bind_exact split: if_splits)
  then show "fits xs \<and> list_all ok xs \<and> bs = write_vector wr xs @ rest"
    using u64_size [of n xs] by (auto simp: times_exact fits_def write_vector_def)
next
  assume *: "fits xs \<and> list_all ok xs \<and> bs = write_vector wr xs @ rest"
  then have "read_times (length xs) rd (concat (map wr xs) @ rest) = Inr (xs, rest)"
    by (simp add: times_exact)
  then show "read_vector msg rd bs = Inr (xs, rest)"
    using * length_concat [of xs]
    by (simp add: read_vector_def u64.bind_wr fits_def write_vector_def u64_of_nat)
qed

lemma vector_codec: "codec (write_vector wr) (read_vector msg rd) (\<lambda>xs. fits xs \<and> list_all ok xs)"
  by unfold_locales (auto simp: vector_exact write_vector_def u64.nonempty)

end

section \<open>Identities and enumerations\<close>

definition write_id :: "'tag Id \<Rightarrow> bytes" where
  "write_id i = to_bytes i"

definition read_id :: "'tag Id reader" where
  "read_id = rbind (read_bytes 16) (\<lambda>b. rret (from_bytes b))"

interpretation ident: codec write_id read_id "\<lambda>_. True"
proof
  show "read_id bs = Inr (x, rest) \<longleftrightarrow> True \<and> bs = write_id x @ rest" for bs rest and x :: "'tag Id"
  proof
    assume "read_id bs = Inr (x, rest)"
    then have "16 \<le> length bs" "x = from_bytes (take 16 bs)" "rest = drop 16 bs"
      by (auto simp: read_id_def rbind_Inr read_bytes_def rret_def split: if_splits)
    then show "True \<and> bs = write_id x @ rest"
      by (simp add: write_id_def to_from_bytes)
  qed (auto simp: read_id_def rbind_Inr read_bytes_def rret_def write_id_def)
qed (metis length_0_conv length_to_bytes write_id_def zero_neq_numeral)

definition write_enum :: "('e \<Rightarrow> u8) \<Rightarrow> 'e \<Rightarrow> bytes" where
  "write_enum cast v = write_u8 (cast v)"

text \<open>A value outside the enumeration fails without a message of the reader's.\<close>

definition read_enum :: "(int \<Rightarrow> 'e option) \<Rightarrow> 'e reader" where
  "read_enum from_int = rbind read_u8 (\<lambda>b bs.
     case from_int (uint b) of None \<Rightarrow> Inl [] | Some v \<Rightarrow> Inr (v, bs))"

context enum_table
begin

lemma enum_codec:
  assumes "\<And>i. from_int i = enum_from_int_lookup i table"
  shows "codec (write_enum cast) (read_enum from_int) (\<lambda>_. True)"
proof
  show "read_enum from_int bs = Inr (x, rest) \<longleftrightarrow> True \<and> bs = write_enum cast x @ rest" for bs x rest
  proof
    assume "read_enum from_int bs = Inr (x, rest)"
    then show "True \<and> bs = write_enum cast x @ rest"
      by (auto simp: read_enum_def u8.bind_exact assms write_enum_def from_u8_Some split: option.splits)
  qed (simp add: read_enum_def write_enum_def u8.bind_wr assms from_int_cast)
qed (simp add: write_enum_def write_u8_def)

end

interpretation replicaSetLifecycle_codec: codec "write_enum ReplicaSetLifecycle_u8" "read_enum ReplicaSetLifecycle_from_int" "\<lambda>_. True"
  by (rule replicaSetLifecycle.enum_codec) (rule ReplicaSetLifecycle_from_int_def)

interpretation replicaLifecycle_codec: codec "write_enum ReplicaLifecycle_u8" "read_enum ReplicaLifecycle_from_int" "\<lambda>_. True"
  by (rule replicaLifecycle.enum_codec) (rule ReplicaLifecycle_from_int_def)

interpretation healthState_codec: codec "write_enum HealthState_u8" "read_enum HealthState_from_int" "\<lambda>_. True"
  by (rule healthState.enum_codec) (rule HealthState_from_int_def)

interpretation healthEvidenceKind_codec: codec "write_enum HealthEvidenceKind_u8" "read_enum HealthEvidenceKind_from_int" "\<lambda>_. True"
  by (rule healthEvidenceKind.enum_codec) (rule HealthEvidenceKind_from_int_def)

interpretation warmthState_codec: codec "write_enum WarmthState_u8" "read_enum WarmthState_from_int" "\<lambda>_. True"
  by (rule warmthState.enum_codec) (rule WarmthState_from_int_def)

interpretation readinessState_codec: codec "write_enum ReadinessState_u8" "read_enum ReadinessState_from_int" "\<lambda>_. True"
  by (rule readinessState.enum_codec) (rule ReadinessState_from_int_def)

interpretation promotionState_codec: codec "write_enum PromotionState_u8" "read_enum PromotionState_from_int" "\<lambda>_. True"
  by (rule promotionState.enum_codec) (rule PromotionState_from_int_def)

interpretation replicaRole_codec: codec "write_enum ReplicaRole_u8" "read_enum ReplicaRole_from_int" "\<lambda>_. True"
  by (rule replicaRole.enum_codec) (rule ReplicaRole_from_int_def)

interpretation drainState_codec: codec "write_enum DrainState_u8" "read_enum DrainState_from_int" "\<lambda>_. True"
  by (rule drainState.enum_codec) (rule DrainState_from_int_def)

interpretation failoverState_codec: codec "write_enum FailoverState_u8" "read_enum FailoverState_from_int" "\<lambda>_. True"
  by (rule failoverState.enum_codec) (rule FailoverState_from_int_def)

interpretation workOutcome_codec: codec "write_enum WorkOutcome_u8" "read_enum WorkOutcome_from_int" "\<lambda>_. True"
  by (rule workOutcome.enum_codec) (rule WorkOutcome_from_int_def)

interpretation memoryResidencyState_codec: codec "write_enum MemoryResidencyState_u8" "read_enum MemoryResidencyState_from_int" "\<lambda>_. True"
  by (rule memoryResidencyState.enum_codec) (rule MemoryResidencyState_from_int_def)

interpretation placementState_codec: codec "write_enum PlacementState_u8" "read_enum PlacementState_from_int" "\<lambda>_. True"
  by (rule placementState.enum_codec) (rule PlacementState_from_int_def)

interpretation acceleratorKind_codec: codec "write_enum AcceleratorKind_u8" "read_enum AcceleratorKind_from_int" "\<lambda>_. True"
  by (rule acceleratorKind.enum_codec) (rule AcceleratorKind_from_int_def)

interpretation backendKind_codec: codec "write_enum BackendKind_u8" "read_enum BackendKind_from_int" "\<lambda>_. True"
  by (rule backendKind.enum_codec) (rule BackendKind_from_int_def)

interpretation numericMode_codec: codec "write_enum NumericMode_u8" "read_enum NumericMode_from_int" "\<lambda>_. True"
  by (rule numericMode.enum_codec) (rule NumericMode_from_int_def)

text \<open>Signed words, doubles and lists of strings are the same bytes.\<close>

definition write_i64 :: "i64 \<Rightarrow> bytes" where "write_i64 v = write_u64 v"

definition read_i64 :: "i64 reader" where "read_i64 = rbind read_u64 rret"

definition write_f64 :: "u64 \<Rightarrow> bytes" where "write_f64 bits = write_u64 bits"

definition write_strings :: "string list \<Rightarrow> bytes" where
  "write_strings v = write_vector write_string v"

definition read_strings :: "string list reader" where
  "read_strings = read_vector ''string vector count'' read_string"

definition strings_ok :: "string list \<Rightarrow> bool" where
  "strings_ok v \<longleftrightarrow> fits v \<and> list_all fits v"

interpretation f64: codec write_f64 read_f64 "\<lambda>b. \<not> is_nan_or_inf b"
  by unfold_locales (auto simp: read_f64_def write_f64_def u64.bind_exact u64.nonempty)

interpretation i64: codec write_i64 read_i64 "\<lambda>_. True"
  by unfold_locales (auto simp: read_i64_def write_i64_def u64.bind_exact rret_def u64.nonempty)

interpretation strings: codec write_strings read_strings strings_ok
  unfolding write_strings_def [abs_def] read_strings_def strings_ok_def [abs_def]
  by (rule string.vector_codec)

interpretation workOutcome_vector: codec "write_vector (write_enum WorkOutcome_u8)"
  "read_vector [] (read_enum WorkOutcome_from_int)" fits
  using workOutcome_codec.vector_codec by (simp add: list_all_iff)

text \<open>To be a codec it is enough to read back what is written and to have read what is written.\<close>

lemma codecI:
  assumes "\<And>bs x rest. rd bs = Inr (x, rest) \<Longrightarrow> ok x \<and> bs = wr x @ rest"
    and "\<And>x rest. ok x \<Longrightarrow> rd (wr x @ rest) = Inr (x, rest)" and "\<And>x. wr x \<noteq> []"
  shows "codec wr rd ok"
  using assms by unfold_locales blast+

lemmas bind_exacts [codec_exact] =
  u8.bind_exact u32.bind_exact u64.bind_exact f64.bind_exact boolean.bind_exact 
  string.bind_exact ident.bind_exact replicaSetLifecycle_codec.bind_exact 
  replicaLifecycle_codec.bind_exact healthState_codec.bind_exact 
  healthEvidenceKind_codec.bind_exact warmthState_codec.bind_exact 
  readinessState_codec.bind_exact promotionState_codec.bind_exact replicaRole_codec.bind_exact 
  drainState_codec.bind_exact failoverState_codec.bind_exact workOutcome_codec.bind_exact 
  memoryResidencyState_codec.bind_exact placementState_codec.bind_exact 
  acceleratorKind_codec.bind_exact backendKind_codec.bind_exact numericMode_codec.bind_exact 
  i64.bind_exact strings.bind_exact workOutcome_vector.bind_exact

lemmas bind_writes [codec_write] =
  u8.bind_wr u32.bind_wr u64.bind_wr f64.bind_wr boolean.bind_wr string.bind_wr ident.bind_wr 
  replicaSetLifecycle_codec.bind_wr replicaLifecycle_codec.bind_wr healthState_codec.bind_wr 
  healthEvidenceKind_codec.bind_wr warmthState_codec.bind_wr readinessState_codec.bind_wr 
  promotionState_codec.bind_wr replicaRole_codec.bind_wr drainState_codec.bind_wr 
  failoverState_codec.bind_wr workOutcome_codec.bind_wr memoryResidencyState_codec.bind_wr 
  placementState_codec.bind_wr acceleratorKind_codec.bind_wr backendKind_codec.bind_wr 
  numericMode_codec.bind_wr i64.bind_wr strings.bind_wr workOutcome_vector.bind_wr

lemmas write_nonempty [codec_write] =
  u8.nonempty u32.nonempty u64.nonempty f64.nonempty boolean.nonempty string.nonempty 
  ident.nonempty replicaSetLifecycle_codec.nonempty replicaLifecycle_codec.nonempty 
  healthState_codec.nonempty healthEvidenceKind_codec.nonempty warmthState_codec.nonempty 
  readinessState_codec.nonempty promotionState_codec.nonempty replicaRole_codec.nonempty 
  drainState_codec.nonempty failoverState_codec.nonempty workOutcome_codec.nonempty 
  memoryResidencyState_codec.nonempty placementState_codec.nonempty 
  acceleratorKind_codec.nonempty backendKind_codec.nonempty numericMode_codec.nonempty 
  i64.nonempty strings.nonempty workOutcome_vector.nonempty

end
