(* ===== verification/Snapshot_Codec.thy ===== *)
theory Snapshot_Codec
  imports Codec Controller
begin

text \<open>
  The writers and readers of the persisted structures, in the order of \<open>src/snapshot.cpp\<close>. A
  structure is written field by field and read back in the same order; \<open>X_ok\<close> says that its
  strings and vectors have a length that fits 64 bits and that its doubles are finite, which
  is what the reader insists on. Each pair is a \<open>codec\<close>.
\<close>

section \<open>ComputeCapability\<close>

definition write_cc :: "ComputeCapability \<Rightarrow> bytes" where
  "write_cc x =
     write_u32 (cc_major x) @ write_u32 (cc_minor x)"

definition read_cc :: "ComputeCapability reader" where
  "read_cc =
     rbind read_u32 (\<lambda>v_major.
     rbind read_u32 (\<lambda>v_minor.
     rret \<lparr>cc_major = v_major, cc_minor = v_minor\<rparr>))"

interpretation cc_codec: codec write_cc read_cc "\<lambda>_. True"
  by (rule codecI, (auto simp: read_cc_def write_cc_def codec_exact rret_def)[1])
     (simp_all add: read_cc_def write_cc_def codec_write rret_def)

declare cc_codec.bind_exact [codec_exact] cc_codec.bind_wr [codec_write] cc_codec.nonempty [codec_write]

section \<open>DeviceCapability\<close>

definition write_device :: "DeviceCapability \<Rightarrow> bytes" where
  "write_device x =
     write_enum AcceleratorKind_u8 (dv_kind x) @ write_string (dv_device_id x) @
     write_cc (dv_compute x) @ write_u64 (dv_memory_bytes x)"

definition read_device :: "DeviceCapability reader" where
  "read_device =
     rbind (read_enum AcceleratorKind_from_int) (\<lambda>v_kind.
     rbind read_string (\<lambda>v_device_id.
     rbind read_cc (\<lambda>v_compute.
     rbind read_u64 (\<lambda>v_memory_bytes.
     rret \<lparr>dv_kind = v_kind, dv_device_id = v_device_id, dv_compute = v_compute,
       dv_memory_bytes = v_memory_bytes\<rparr>))))"

definition device_ok :: "DeviceCapability \<Rightarrow> bool" where
  "device_ok x \<longleftrightarrow>
     fits (dv_device_id x)"

interpretation device_codec: codec write_device read_device device_ok
  by (rule codecI, (auto simp: read_device_def write_device_def device_ok_def codec_exact rret_def)[1])
     (simp_all add: read_device_def write_device_def device_ok_def codec_write rret_def)

declare device_codec.bind_exact [codec_exact] device_codec.bind_wr [codec_write] device_codec.nonempty [codec_write]

definition device_vector_ok :: "DeviceCapability list \<Rightarrow> bool" where
  "device_vector_ok xs \<longleftrightarrow> fits xs \<and> list_all device_ok xs"

interpretation device_vector: codec "write_vector write_device" "read_vector [] read_device" device_vector_ok
  unfolding device_vector_ok_def [abs_def] by (rule device_codec.vector_codec)

declare device_vector.bind_exact [codec_exact] device_vector.bind_wr [codec_write] device_vector.nonempty [codec_write]

section \<open>BackendCapability\<close>

definition write_backend :: "BackendCapability \<Rightarrow> bytes" where
  "write_backend x =
     write_enum BackendKind_u8 (bc_kind x) @ write_string (bc_name x) @ write_cc (bc_compute x) @
     write_enum NumericMode_u8 (bc_numeric x)"

definition read_backend :: "BackendCapability reader" where
  "read_backend =
     rbind (read_enum BackendKind_from_int) (\<lambda>v_kind.
     rbind read_string (\<lambda>v_name.
     rbind read_cc (\<lambda>v_compute.
     rbind (read_enum NumericMode_from_int) (\<lambda>v_numeric.
     rret \<lparr>bc_kind = v_kind, bc_name = v_name, bc_compute = v_compute, bc_numeric = v_numeric\<rparr>))))"

definition backend_ok :: "BackendCapability \<Rightarrow> bool" where
  "backend_ok x \<longleftrightarrow>
     fits (bc_name x)"

interpretation backend_codec: codec write_backend read_backend backend_ok
  by (rule codecI, (auto simp: read_backend_def write_backend_def backend_ok_def codec_exact rret_def)[1])
     (simp_all add: read_backend_def write_backend_def backend_ok_def codec_write rret_def)

declare backend_codec.bind_exact [codec_exact] backend_codec.bind_wr [codec_write] backend_codec.nonempty [codec_write]

definition backend_vector_ok :: "BackendCapability list \<Rightarrow> bool" where
  "backend_vector_ok xs \<longleftrightarrow> fits xs \<and> list_all backend_ok xs"

interpretation backend_vector: codec "write_vector write_backend" "read_vector [] read_backend" backend_vector_ok
  unfolding backend_vector_ok_def [abs_def] by (rule backend_codec.vector_codec)

declare backend_vector.bind_exact [codec_exact] backend_vector.bind_wr [codec_write] backend_vector.nonempty [codec_write]

section \<open>ResourceInventory\<close>

definition write_inventory :: "ResourceInventory \<Rightarrow> bytes" where
  "write_inventory x =
     write_u64 (ri_total_memory_bytes x) @ write_u64 (ri_free_memory_bytes x) @
     write_u32 (ri_accelerator_count x) @ write_vector write_device (ri_devices x) @
     write_vector write_backend (ri_backends x)"

definition read_inventory :: "ResourceInventory reader" where
  "read_inventory =
     rbind read_u64 (\<lambda>v_total_memory_bytes.
     rbind read_u64 (\<lambda>v_free_memory_bytes.
     rbind read_u32 (\<lambda>v_accelerator_count.
     rbind (read_vector [] read_device) (\<lambda>v_devices.
     rbind (read_vector [] read_backend) (\<lambda>v_backends.
     rret \<lparr>ri_total_memory_bytes = v_total_memory_bytes, ri_free_memory_bytes = v_free_memory_bytes,
       ri_accelerator_count = v_accelerator_count, ri_devices = v_devices, ri_backends = v_backends\<rparr>)))))"

definition inventory_ok :: "ResourceInventory \<Rightarrow> bool" where
  "inventory_ok x \<longleftrightarrow>
     device_vector_ok (ri_devices x) \<and> backend_vector_ok (ri_backends x)"

interpretation inventory_codec: codec write_inventory read_inventory inventory_ok
  by (rule codecI, (auto simp: read_inventory_def write_inventory_def inventory_ok_def codec_exact rret_def)[1])
     (simp_all add: read_inventory_def write_inventory_def inventory_ok_def codec_write rret_def)

declare inventory_codec.bind_exact [codec_exact] inventory_codec.bind_wr [codec_write] inventory_codec.nonempty [codec_write]

section \<open>HealthPolicy\<close>

definition write_health_policy :: "HealthPolicy \<Rightarrow> bytes" where
  "write_health_policy x =
     write_boolean (hp_enabled x) @ write_u64 (hp_expected_interval_ns x) @
     write_u64 (hp_stale_after_ns x) @ write_u64 (hp_degrade_after_ns x) @
     write_u32 (hp_unhealthy_after_misses x) @ write_u32 (hp_quarantine_after_failures x) @
     write_u32 (hp_min_healthy_observations x) @ write_f64 (hp_health_threshold x) @
     write_enum HealthState_u8 (hp_initial x)"

definition read_health_policy :: "HealthPolicy reader" where
  "read_health_policy =
     rbind read_boolean (\<lambda>v_enabled.
     rbind read_u64 (\<lambda>v_expected_interval_ns.
     rbind read_u64 (\<lambda>v_stale_after_ns.
     rbind read_u64 (\<lambda>v_degrade_after_ns.
     rbind read_u32 (\<lambda>v_unhealthy_after_misses.
     rbind read_u32 (\<lambda>v_quarantine_after_failures.
     rbind read_u32 (\<lambda>v_min_healthy_observations.
     rbind read_f64 (\<lambda>v_health_threshold.
     rbind (read_enum HealthState_from_int) (\<lambda>v_initial.
     rret \<lparr>hp_enabled = v_enabled, hp_expected_interval_ns = v_expected_interval_ns,
       hp_stale_after_ns = v_stale_after_ns, hp_degrade_after_ns = v_degrade_after_ns,
       hp_unhealthy_after_misses = v_unhealthy_after_misses,
       hp_quarantine_after_failures = v_quarantine_after_failures,
       hp_min_healthy_observations = v_min_healthy_observations,
       hp_health_threshold = v_health_threshold, hp_initial = v_initial\<rparr>)))))))))"

definition health_policy_ok :: "HealthPolicy \<Rightarrow> bool" where
  "health_policy_ok x \<longleftrightarrow>
     \<not> is_nan_or_inf (hp_health_threshold x)"

interpretation health_policy_codec: codec write_health_policy read_health_policy health_policy_ok
  by (rule codecI, (auto simp: read_health_policy_def write_health_policy_def health_policy_ok_def codec_exact rret_def)[1])
     (simp_all add: read_health_policy_def write_health_policy_def health_policy_ok_def codec_write rret_def)

declare health_policy_codec.bind_exact [codec_exact] health_policy_codec.bind_wr [codec_write] health_policy_codec.nonempty [codec_write]

section \<open>WarmingPolicy\<close>

definition write_warming_policy :: "WarmingPolicy \<Rightarrow> bytes" where
  "write_warming_policy x =
     write_boolean (wp_enabled x) @ write_boolean (wp_require_artifact_loaded x) @
     write_boolean (wp_require_weights_resident x) @
     write_boolean (wp_require_adapters_active x) @ write_boolean (wp_require_kernel_init x) @
     write_boolean (wp_require_graph_init x) @ write_boolean (wp_require_allocator_init x) @
     write_boolean (wp_require_device_context x) @ write_boolean (wp_require_bounded_warmup x) @
     write_boolean (wp_require_endpoint x) @ write_u64 (wp_warmup_work_steps x) @
     write_u64 (wp_warmup_timeout_ns x)"

definition read_warming_policy :: "WarmingPolicy reader" where
  "read_warming_policy =
     rbind read_boolean (\<lambda>v_enabled.
     rbind read_boolean (\<lambda>v_require_artifact_loaded.
     rbind read_boolean (\<lambda>v_require_weights_resident.
     rbind read_boolean (\<lambda>v_require_adapters_active.
     rbind read_boolean (\<lambda>v_require_kernel_init.
     rbind read_boolean (\<lambda>v_require_graph_init.
     rbind read_boolean (\<lambda>v_require_allocator_init.
     rbind read_boolean (\<lambda>v_require_device_context.
     rbind read_boolean (\<lambda>v_require_bounded_warmup.
     rbind read_boolean (\<lambda>v_require_endpoint.
     rbind read_u64 (\<lambda>v_warmup_work_steps.
     rbind read_u64 (\<lambda>v_warmup_timeout_ns.
     rret \<lparr>wp_enabled = v_enabled, wp_require_artifact_loaded = v_require_artifact_loaded,
       wp_require_weights_resident = v_require_weights_resident,
       wp_require_adapters_active = v_require_adapters_active,
       wp_require_kernel_init = v_require_kernel_init,
       wp_require_graph_init = v_require_graph_init,
       wp_require_allocator_init = v_require_allocator_init,
       wp_require_device_context = v_require_device_context,
       wp_require_bounded_warmup = v_require_bounded_warmup,
       wp_require_endpoint = v_require_endpoint, wp_warmup_work_steps = v_warmup_work_steps,
       wp_warmup_timeout_ns = v_warmup_timeout_ns\<rparr>))))))))))))"

interpretation warming_policy_codec: codec write_warming_policy read_warming_policy "\<lambda>_. True"
  by (rule codecI, (auto simp: read_warming_policy_def write_warming_policy_def codec_exact rret_def)[1])
     (simp_all add: read_warming_policy_def write_warming_policy_def codec_write rret_def)

declare warming_policy_codec.bind_exact [codec_exact] warming_policy_codec.bind_wr [codec_write] warming_policy_codec.nonempty [codec_write]

section \<open>DrainingPolicy\<close>

definition write_draining_policy :: "DrainingPolicy \<Rightarrow> bytes" where
  "write_draining_policy x =
     write_boolean (dp_reject_new_work x) @ write_boolean (dp_allow_existing_to_finish x) @
     write_boolean (dp_allow_force_cancel x) @ write_u64 (dp_grace_period_ns x) @
     write_u64 (dp_force_cancel_after_ns x)"

definition read_draining_policy :: "DrainingPolicy reader" where
  "read_draining_policy =
     rbind read_boolean (\<lambda>v_reject_new_work.
     rbind read_boolean (\<lambda>v_allow_existing_to_finish.
     rbind read_boolean (\<lambda>v_allow_force_cancel.
     rbind read_u64 (\<lambda>v_grace_period_ns.
     rbind read_u64 (\<lambda>v_force_cancel_after_ns.
     rret \<lparr>dp_reject_new_work = v_reject_new_work,
       dp_allow_existing_to_finish = v_allow_existing_to_finish,
       dp_allow_force_cancel = v_allow_force_cancel, dp_grace_period_ns = v_grace_period_ns,
       dp_force_cancel_after_ns = v_force_cancel_after_ns\<rparr>)))))"

interpretation draining_policy_codec: codec write_draining_policy read_draining_policy "\<lambda>_. True"
  by (rule codecI, (auto simp: read_draining_policy_def write_draining_policy_def codec_exact rret_def)[1])
     (simp_all add: read_draining_policy_def write_draining_policy_def codec_write rret_def)

declare draining_policy_codec.bind_exact [codec_exact] draining_policy_codec.bind_wr [codec_write] draining_policy_codec.nonempty [codec_write]

section \<open>PromotionPolicy\<close>

definition write_promotion_policy :: "PromotionPolicy \<Rightarrow> bytes" where
  "write_promotion_policy x =
     write_boolean (pp_require_ready x) @ write_boolean (pp_require_healthy x) @
     write_enum HealthState_u8 (pp_min_health x) @ write_boolean (pp_require_compatible x) @
     write_boolean (pp_require_placement_valid x) @ write_boolean (pp_require_resources x) @
     write_boolean (pp_require_authority_current x) @ write_boolean (pp_allow_canary x) @
     write_boolean (pp_auto_promote_standby x)"

definition read_promotion_policy :: "PromotionPolicy reader" where
  "read_promotion_policy =
     rbind read_boolean (\<lambda>v_require_ready.
     rbind read_boolean (\<lambda>v_require_healthy.
     rbind (read_enum HealthState_from_int) (\<lambda>v_min_health.
     rbind read_boolean (\<lambda>v_require_compatible.
     rbind read_boolean (\<lambda>v_require_placement_valid.
     rbind read_boolean (\<lambda>v_require_resources.
     rbind read_boolean (\<lambda>v_require_authority_current.
     rbind read_boolean (\<lambda>v_allow_canary.
     rbind read_boolean (\<lambda>v_auto_promote_standby.
     rret \<lparr>pp_require_ready = v_require_ready, pp_require_healthy = v_require_healthy,
       pp_min_health = v_min_health, pp_require_compatible = v_require_compatible,
       pp_require_placement_valid = v_require_placement_valid,
       pp_require_resources = v_require_resources,
       pp_require_authority_current = v_require_authority_current,
       pp_allow_canary = v_allow_canary, pp_auto_promote_standby = v_auto_promote_standby\<rparr>)))))))))"

interpretation promotion_policy_codec: codec write_promotion_policy read_promotion_policy "\<lambda>_. True"
  by (rule codecI, (auto simp: read_promotion_policy_def write_promotion_policy_def codec_exact rret_def)[1])
     (simp_all add: read_promotion_policy_def write_promotion_policy_def codec_write rret_def)

declare promotion_policy_codec.bind_exact [codec_exact] promotion_policy_codec.bind_wr [codec_write] promotion_policy_codec.nonempty [codec_write]

section \<open>FailoverPolicy\<close>

definition write_failover_policy :: "FailoverPolicy \<Rightarrow> bytes" where
  "write_failover_policy x =
     write_boolean (fp_require_diversity x) @ write_boolean (fp_prefer_standby_first x) @
     write_u32 (fp_max_attempts x) @ write_boolean (fp_preserve_generation x) @
     write_boolean (fp_reject_ambiguous_outcome x)"

definition read_failover_policy :: "FailoverPolicy reader" where
  "read_failover_policy =
     rbind read_boolean (\<lambda>v_require_diversity.
     rbind read_boolean (\<lambda>v_prefer_standby_first.
     rbind read_u32 (\<lambda>v_max_attempts.
     rbind read_boolean (\<lambda>v_preserve_generation.
     rbind read_boolean (\<lambda>v_reject_ambiguous_outcome.
     rret \<lparr>fp_require_diversity = v_require_diversity,
       fp_prefer_standby_first = v_prefer_standby_first, fp_max_attempts = v_max_attempts,
       fp_preserve_generation = v_preserve_generation,
       fp_reject_ambiguous_outcome = v_reject_ambiguous_outcome\<rparr>)))))"

interpretation failover_policy_codec: codec write_failover_policy read_failover_policy "\<lambda>_. True"
  by (rule codecI, (auto simp: read_failover_policy_def write_failover_policy_def codec_exact rret_def)[1])
     (simp_all add: read_failover_policy_def write_failover_policy_def codec_write rret_def)

declare failover_policy_codec.bind_exact [codec_exact] failover_policy_codec.bind_wr [codec_write] failover_policy_codec.nonempty [codec_write]

section \<open>PolicyBundle\<close>

definition write_policies :: "PolicyBundle \<Rightarrow> bytes" where
  "write_policies x =
     write_health_policy (pb_health x) @ write_warming_policy (pb_warming x) @
     write_draining_policy (pb_draining x) @ write_promotion_policy (pb_promotion x) @
     write_failover_policy (pb_failover x)"

definition read_policies :: "PolicyBundle reader" where
  "read_policies =
     rbind read_health_policy (\<lambda>v_health.
     rbind read_warming_policy (\<lambda>v_warming.
     rbind read_draining_policy (\<lambda>v_draining.
     rbind read_promotion_policy (\<lambda>v_promotion.
     rbind read_failover_policy (\<lambda>v_failover.
     rret \<lparr>pb_health = v_health, pb_warming = v_warming, pb_draining = v_draining,
       pb_promotion = v_promotion, pb_failover = v_failover\<rparr>)))))"

definition policies_ok :: "PolicyBundle \<Rightarrow> bool" where
  "policies_ok x \<longleftrightarrow>
     health_policy_ok (pb_health x)"

interpretation policies_codec: codec write_policies read_policies policies_ok
  by (rule codecI, (auto simp: read_policies_def write_policies_def policies_ok_def codec_exact rret_def)[1])
     (simp_all add: read_policies_def write_policies_def policies_ok_def codec_write rret_def)

declare policies_codec.bind_exact [codec_exact] policies_codec.bind_wr [codec_write] policies_codec.nonempty [codec_write]

section \<open>SyntheticFailureDomain\<close>

definition write_synthetic_domain :: "SyntheticFailureDomain \<Rightarrow> bytes" where
  "write_synthetic_domain x =
     write_string (sd_label x) @ write_string (sd_kind x)"

definition read_synthetic_domain :: "SyntheticFailureDomain reader" where
  "read_synthetic_domain =
     rbind read_string (\<lambda>v_label.
     rbind read_string (\<lambda>v_kind.
     rret \<lparr>sd_label = v_label, sd_kind = v_kind\<rparr>))"

definition synthetic_domain_ok :: "SyntheticFailureDomain \<Rightarrow> bool" where
  "synthetic_domain_ok x \<longleftrightarrow>
     fits (sd_label x) \<and> fits (sd_kind x)"

interpretation synthetic_domain_codec: codec write_synthetic_domain read_synthetic_domain synthetic_domain_ok
  by (rule codecI, (auto simp: read_synthetic_domain_def write_synthetic_domain_def synthetic_domain_ok_def codec_exact rret_def)[1])
     (simp_all add: read_synthetic_domain_def write_synthetic_domain_def synthetic_domain_ok_def codec_write rret_def)

declare synthetic_domain_codec.bind_exact [codec_exact] synthetic_domain_codec.bind_wr [codec_write] synthetic_domain_codec.nonempty [codec_write]

definition synthetic_domain_vector_ok :: "SyntheticFailureDomain list \<Rightarrow> bool" where
  "synthetic_domain_vector_ok xs \<longleftrightarrow> fits xs \<and> list_all synthetic_domain_ok xs"

interpretation synthetic_domain_vector: codec "write_vector write_synthetic_domain" "read_vector [] read_synthetic_domain" synthetic_domain_vector_ok
  unfolding synthetic_domain_vector_ok_def [abs_def] by (rule synthetic_domain_codec.vector_codec)

declare synthetic_domain_vector.bind_exact [codec_exact] synthetic_domain_vector.bind_wr [codec_write] synthetic_domain_vector.nonempty [codec_write]

section \<open>PlacementPolicy\<close>

definition write_placement_policy :: "PlacementPolicy \<Rightarrow> bytes" where
  "write_placement_policy x =
     write_strings (pl_anti_affinity_domains x) @
     write_vector write_synthetic_domain (pl_synthetic_domains x) @
     write_boolean (pl_require_diversity x) @ write_string (pl_preferred_host x) @
     write_string (pl_preferred_numa x) @ write_string (pl_preferred_device x) @
     write_string (pl_preferred_failure_domain x) @ write_u32 (pl_tie_break_strategy x)"

definition read_placement_policy :: "PlacementPolicy reader" where
  "read_placement_policy =
     rbind read_strings (\<lambda>v_anti_affinity_domains.
     rbind (read_vector [] read_synthetic_domain) (\<lambda>v_synthetic_domains.
     rbind read_boolean (\<lambda>v_require_diversity.
     rbind read_string (\<lambda>v_preferred_host.
     rbind read_string (\<lambda>v_preferred_numa.
     rbind read_string (\<lambda>v_preferred_device.
     rbind read_string (\<lambda>v_preferred_failure_domain.
     rbind read_u32 (\<lambda>v_tie_break_strategy.
     rret \<lparr>pl_anti_affinity_domains = v_anti_affinity_domains,
       pl_synthetic_domains = v_synthetic_domains, pl_require_diversity = v_require_diversity,
       pl_preferred_host = v_preferred_host, pl_preferred_numa = v_preferred_numa,
       pl_preferred_device = v_preferred_device,
       pl_preferred_failure_domain = v_preferred_failure_domain,
       pl_tie_break_strategy = v_tie_break_strategy\<rparr>))))))))"

definition placement_policy_ok :: "PlacementPolicy \<Rightarrow> bool" where
  "placement_policy_ok x \<longleftrightarrow>
     strings_ok (pl_anti_affinity_domains x) \<and>
     synthetic_domain_vector_ok (pl_synthetic_domains x) \<and> fits (pl_preferred_host x) \<and>
     fits (pl_preferred_numa x) \<and> fits (pl_preferred_device x) \<and>
     fits (pl_preferred_failure_domain x)"

interpretation placement_policy_codec: codec write_placement_policy read_placement_policy placement_policy_ok
  by (rule codecI, (auto simp: read_placement_policy_def write_placement_policy_def placement_policy_ok_def codec_exact rret_def)[1])
     (simp_all add: read_placement_policy_def write_placement_policy_def placement_policy_ok_def codec_write rret_def)

declare placement_policy_codec.bind_exact [codec_exact] placement_policy_codec.bind_wr [codec_write] placement_policy_codec.nonempty [codec_write]

section \<open>CompatibilityRequirements\<close>

definition write_compat_req :: "CompatibilityRequirements \<Rightarrow> bytes" where
  "write_compat_req x =
     write_id (cq_model_id x) @ write_string (cq_model_revision x) @
     write_string (cq_tokenizer_vocab x) @ write_strings (cq_required_adapters x) @
     write_enum BackendKind_u8 (cq_backend x) @ write_string (cq_runtime_name x) @
     write_string (cq_architecture x) @ write_cc (cq_min_compute x) @
     write_enum NumericMode_u8 (cq_numeric_mode x) @ write_id (cq_artifact_generation x) @
     write_string (cq_kernel_abi x) @ write_string (cq_policy_fingerprint x)"

definition read_compat_req :: "CompatibilityRequirements reader" where
  "read_compat_req =
     rbind read_id (\<lambda>v_model_id.
     rbind read_string (\<lambda>v_model_revision.
     rbind read_string (\<lambda>v_tokenizer_vocab.
     rbind read_strings (\<lambda>v_required_adapters.
     rbind (read_enum BackendKind_from_int) (\<lambda>v_backend.
     rbind read_string (\<lambda>v_runtime_name.
     rbind read_string (\<lambda>v_architecture.
     rbind read_cc (\<lambda>v_min_compute.
     rbind (read_enum NumericMode_from_int) (\<lambda>v_numeric_mode.
     rbind read_id (\<lambda>v_artifact_generation.
     rbind read_string (\<lambda>v_kernel_abi.
     rbind read_string (\<lambda>v_policy_fingerprint.
     rret \<lparr>cq_model_id = v_model_id, cq_model_revision = v_model_revision,
       cq_tokenizer_vocab = v_tokenizer_vocab, cq_required_adapters = v_required_adapters,
       cq_backend = v_backend, cq_runtime_name = v_runtime_name, cq_architecture = v_architecture,
       cq_min_compute = v_min_compute, cq_numeric_mode = v_numeric_mode,
       cq_artifact_generation = v_artifact_generation, cq_kernel_abi = v_kernel_abi,
       cq_policy_fingerprint = v_policy_fingerprint\<rparr>))))))))))))"

definition compat_req_ok :: "CompatibilityRequirements \<Rightarrow> bool" where
  "compat_req_ok x \<longleftrightarrow>
     fits (cq_model_revision x) \<and> fits (cq_tokenizer_vocab x) \<and>
     strings_ok (cq_required_adapters x) \<and> fits (cq_runtime_name x) \<and>
     fits (cq_architecture x) \<and> fits (cq_kernel_abi x) \<and> fits (cq_policy_fingerprint x)"

interpretation compat_req_codec: codec write_compat_req read_compat_req compat_req_ok
  by (rule codecI, (auto simp: read_compat_req_def write_compat_req_def compat_req_ok_def codec_exact rret_def)[1])
     (simp_all add: read_compat_req_def write_compat_req_def compat_req_ok_def codec_write rret_def)

declare compat_req_codec.bind_exact [codec_exact] compat_req_codec.bind_wr [codec_write] compat_req_codec.nonempty [codec_write]

section \<open>ReplicaCompatibility\<close>

definition write_replica_compat :: "ReplicaCompatibility \<Rightarrow> bytes" where
  "write_replica_compat x =
     write_id (cp_model_id x) @ write_string (cp_model_revision x) @
     write_string (cp_tokenizer_vocab x) @ write_strings (cp_adapters x) @
     write_enum BackendKind_u8 (cp_backend x) @ write_string (cp_runtime_name x) @
     write_string (cp_architecture x) @ write_cc (cp_compute x) @
     write_enum NumericMode_u8 (cp_numeric_mode x) @ write_id (cp_artifact_generation x) @
     write_string (cp_kernel_abi x) @ write_string (cp_policy_fingerprint x)"

definition read_replica_compat :: "ReplicaCompatibility reader" where
  "read_replica_compat =
     rbind read_id (\<lambda>v_model_id.
     rbind read_string (\<lambda>v_model_revision.
     rbind read_string (\<lambda>v_tokenizer_vocab.
     rbind read_strings (\<lambda>v_adapters.
     rbind (read_enum BackendKind_from_int) (\<lambda>v_backend.
     rbind read_string (\<lambda>v_runtime_name.
     rbind read_string (\<lambda>v_architecture.
     rbind read_cc (\<lambda>v_compute.
     rbind (read_enum NumericMode_from_int) (\<lambda>v_numeric_mode.
     rbind read_id (\<lambda>v_artifact_generation.
     rbind read_string (\<lambda>v_kernel_abi.
     rbind read_string (\<lambda>v_policy_fingerprint.
     rret \<lparr>cp_model_id = v_model_id, cp_model_revision = v_model_revision,
       cp_tokenizer_vocab = v_tokenizer_vocab, cp_adapters = v_adapters, cp_backend = v_backend,
       cp_runtime_name = v_runtime_name, cp_architecture = v_architecture, cp_compute = v_compute,
       cp_numeric_mode = v_numeric_mode, cp_artifact_generation = v_artifact_generation,
       cp_kernel_abi = v_kernel_abi, cp_policy_fingerprint = v_policy_fingerprint\<rparr>))))))))))))"

definition replica_compat_ok :: "ReplicaCompatibility \<Rightarrow> bool" where
  "replica_compat_ok x \<longleftrightarrow>
     fits (cp_model_revision x) \<and> fits (cp_tokenizer_vocab x) \<and>
     strings_ok (cp_adapters x) \<and> fits (cp_runtime_name x) \<and>
     fits (cp_architecture x) \<and> fits (cp_kernel_abi x) \<and> fits (cp_policy_fingerprint x)"

interpretation replica_compat_codec: codec write_replica_compat read_replica_compat replica_compat_ok
  by (rule codecI, (auto simp: read_replica_compat_def write_replica_compat_def replica_compat_ok_def codec_exact rret_def)[1])
     (simp_all add: read_replica_compat_def write_replica_compat_def replica_compat_ok_def codec_write rret_def)

declare replica_compat_codec.bind_exact [codec_exact] replica_compat_codec.bind_wr [codec_write] replica_compat_codec.nonempty [codec_write]

section \<open>HealthRecord\<close>

definition write_health_record :: "HealthRecord \<Rightarrow> bytes" where
  "write_health_record x =
     write_enum HealthState_u8 (hr_state x) @ write_enum HealthEvidenceKind_u8 (hr_kind x) @
     write_string (hr_source x) @ write_u64 (hr_updated_at_mono x) @
     write_i64 (hr_updated_at_wall x) @ write_f64 (hr_confidence x) @
     write_id (hr_generation x) @ write_string (hr_reason x) @
     write_u32 (hr_consecutive_stale x) @ write_u32 (hr_consecutive_failures x)"

definition read_health_record :: "HealthRecord reader" where
  "read_health_record =
     rbind (read_enum HealthState_from_int) (\<lambda>v_state.
     rbind (read_enum HealthEvidenceKind_from_int) (\<lambda>v_kind.
     rbind read_string (\<lambda>v_source.
     rbind read_u64 (\<lambda>v_updated_at_mono.
     rbind read_i64 (\<lambda>v_updated_at_wall.
     rbind read_f64 (\<lambda>v_confidence.
     rbind read_id (\<lambda>v_generation.
     rbind read_string (\<lambda>v_reason.
     rbind read_u32 (\<lambda>v_consecutive_stale.
     rbind read_u32 (\<lambda>v_consecutive_failures.
     rret \<lparr>hr_state = v_state, hr_kind = v_kind, hr_source = v_source,
       hr_updated_at_mono = v_updated_at_mono, hr_updated_at_wall = v_updated_at_wall,
       hr_confidence = v_confidence, hr_generation = v_generation, hr_reason = v_reason,
       hr_consecutive_stale = v_consecutive_stale, hr_consecutive_failures = v_consecutive_failures\<rparr>))))))))))"

definition health_record_ok :: "HealthRecord \<Rightarrow> bool" where
  "health_record_ok x \<longleftrightarrow>
     fits (hr_source x) \<and> \<not> is_nan_or_inf (hr_confidence x) \<and> fits (hr_reason x)"

interpretation health_record_codec: codec write_health_record read_health_record health_record_ok
  by (rule codecI, (auto simp: read_health_record_def write_health_record_def health_record_ok_def codec_exact rret_def)[1])
     (simp_all add: read_health_record_def write_health_record_def health_record_ok_def codec_write rret_def)

declare health_record_codec.bind_exact [codec_exact] health_record_codec.bind_wr [codec_write] health_record_codec.nonempty [codec_write]

section \<open>ReadinessRecord\<close>

definition write_readiness_record :: "ReadinessRecord \<Rightarrow> bytes" where
  "write_readiness_record x =
     write_enum ReadinessState_u8 (rr_state x) @ write_boolean (rf_model_loaded (rr_factors x)) @
     write_boolean (rf_artifact_validated (rr_factors x)) @
     write_boolean (rf_adapters_present (rr_factors x)) @
     write_boolean (rf_kernel_prepared (rr_factors x)) @
     write_boolean (rf_graph_prepared (rr_factors x)) @
     write_boolean (rf_memory_available (rr_factors x)) @
     write_boolean (rf_device_context_initialized (rr_factors x)) @
     write_boolean (rf_warmup_complete (rr_factors x)) @
     write_boolean (rf_dependencies_ready (rr_factors x)) @
     write_boolean (rf_endpoint_registered (rr_factors x)) @
     write_boolean (rf_policy_current (rr_factors x)) @ write_u64 (rr_updated_at_mono x) @
     write_i64 (rr_updated_at_wall x) @ write_string (rr_reason x)"

definition read_readiness_record :: "ReadinessRecord reader" where
  "read_readiness_record =
     rbind (read_enum ReadinessState_from_int) (\<lambda>v_state.
     rbind read_boolean (\<lambda>v_factors_model_loaded.
     rbind read_boolean (\<lambda>v_factors_artifact_validated.
     rbind read_boolean (\<lambda>v_factors_adapters_present.
     rbind read_boolean (\<lambda>v_factors_kernel_prepared.
     rbind read_boolean (\<lambda>v_factors_graph_prepared.
     rbind read_boolean (\<lambda>v_factors_memory_available.
     rbind read_boolean (\<lambda>v_factors_device_context_initialized.
     rbind read_boolean (\<lambda>v_factors_warmup_complete.
     rbind read_boolean (\<lambda>v_factors_dependencies_ready.
     rbind read_boolean (\<lambda>v_factors_endpoint_registered.
     rbind read_boolean (\<lambda>v_factors_policy_current.
     rbind read_u64 (\<lambda>v_updated_at_mono.
     rbind read_i64 (\<lambda>v_updated_at_wall.
     rbind read_string (\<lambda>v_reason.
     rret \<lparr>rr_state = v_state,
       rr_factors = \<lparr>rf_model_loaded = v_factors_model_loaded, rf_artifact_validated = v_factors_artifact_validated, rf_adapters_present = v_factors_adapters_present, rf_kernel_prepared = v_factors_kernel_prepared, rf_graph_prepared = v_factors_graph_prepared, rf_memory_available = v_factors_memory_available, rf_device_context_initialized = v_factors_device_context_initialized, rf_warmup_complete = v_factors_warmup_complete, rf_dependencies_ready = v_factors_dependencies_ready, rf_endpoint_registered = v_factors_endpoint_registered, rf_policy_current = v_factors_policy_current\<rparr>,
       rr_updated_at_mono = v_updated_at_mono, rr_updated_at_wall = v_updated_at_wall,
       rr_reason = v_reason\<rparr>)))))))))))))))"

definition readiness_record_ok :: "ReadinessRecord \<Rightarrow> bool" where
  "readiness_record_ok x \<longleftrightarrow>
     fits (rr_reason x)"

interpretation readiness_record_codec: codec write_readiness_record read_readiness_record readiness_record_ok
  by (rule codecI, (auto simp: read_readiness_record_def write_readiness_record_def readiness_record_ok_def codec_exact rret_def)[1])
     (simp_all add: read_readiness_record_def write_readiness_record_def readiness_record_ok_def codec_write rret_def)

declare readiness_record_codec.bind_exact [codec_exact] readiness_record_codec.bind_wr [codec_write] readiness_record_codec.nonempty [codec_write]

section \<open>WarmingRecord\<close>

definition write_warming_record :: "WarmingRecord \<Rightarrow> bytes" where
  "write_warming_record x =
     write_enum WarmthState_u8 (wm_state x) @ write_u64 (wm_steps_completed x) @
     write_u64 (wm_steps_required x) @ write_boolean (wm_artifact_loading_done x) @
     write_boolean (wm_weights_resident x) @ write_boolean (wm_adapters_active x) @
     write_boolean (wm_kernel_init_done x) @ write_boolean (wm_graph_init_done x) @
     write_boolean (wm_allocator_init_done x) @ write_boolean (wm_device_context_done x) @
     write_boolean (wm_warmup_execution_done x) @ write_boolean (wm_endpoint_registered x) @
     write_u64 (wm_started_warming_mono x) @ write_u64 (wm_became_warm_mono x) @
     write_i64 (wm_became_warm_wall x) @ write_string (wm_message x)"

definition read_warming_record :: "WarmingRecord reader" where
  "read_warming_record =
     rbind (read_enum WarmthState_from_int) (\<lambda>v_state.
     rbind read_u64 (\<lambda>v_steps_completed.
     rbind read_u64 (\<lambda>v_steps_required.
     rbind read_boolean (\<lambda>v_artifact_loading_done.
     rbind read_boolean (\<lambda>v_weights_resident.
     rbind read_boolean (\<lambda>v_adapters_active.
     rbind read_boolean (\<lambda>v_kernel_init_done.
     rbind read_boolean (\<lambda>v_graph_init_done.
     rbind read_boolean (\<lambda>v_allocator_init_done.
     rbind read_boolean (\<lambda>v_device_context_done.
     rbind read_boolean (\<lambda>v_warmup_execution_done.
     rbind read_boolean (\<lambda>v_endpoint_registered.
     rbind read_u64 (\<lambda>v_started_warming_mono.
     rbind read_u64 (\<lambda>v_became_warm_mono.
     rbind read_i64 (\<lambda>v_became_warm_wall.
     rbind read_string (\<lambda>v_message.
     rret \<lparr>wm_state = v_state, wm_steps_completed = v_steps_completed,
       wm_steps_required = v_steps_required, wm_artifact_loading_done = v_artifact_loading_done,
       wm_weights_resident = v_weights_resident, wm_adapters_active = v_adapters_active,
       wm_kernel_init_done = v_kernel_init_done, wm_graph_init_done = v_graph_init_done,
       wm_allocator_init_done = v_allocator_init_done,
       wm_device_context_done = v_device_context_done,
       wm_warmup_execution_done = v_warmup_execution_done,
       wm_endpoint_registered = v_endpoint_registered,
       wm_started_warming_mono = v_started_warming_mono, wm_became_warm_mono = v_became_warm_mono,
       wm_became_warm_wall = v_became_warm_wall, wm_message = v_message\<rparr>))))))))))))))))"

definition warming_record_ok :: "WarmingRecord \<Rightarrow> bool" where
  "warming_record_ok x \<longleftrightarrow>
     fits (wm_message x)"

interpretation warming_record_codec: codec write_warming_record read_warming_record warming_record_ok
  by (rule codecI, (auto simp: read_warming_record_def write_warming_record_def warming_record_ok_def codec_exact rret_def)[1])
     (simp_all add: read_warming_record_def write_warming_record_def warming_record_ok_def codec_write rret_def)

declare warming_record_codec.bind_exact [codec_exact] warming_record_codec.bind_wr [codec_write] warming_record_codec.nonempty [codec_write]

section \<open>ReplicaSetState\<close>

definition write_replica_set :: "ReplicaSetState \<Rightarrow> bytes" where
  "write_replica_set x =
     write_id (s_id x) @ write_id (s_model_id x) @ write_id (s_workload_id x) @
     write_id (s_tenant_id x) @ write_u32 (s_desired_count x) @ write_u32 (s_min_healthy x) @
     write_u32 (s_max_replicas x) @ write_id (s_artifact_id x) @
     write_id (s_artifact_generation x) @ write_id (s_generation x) @
     write_id (s_policy_generation x) @ write_enum ReplicaSetLifecycle_u8 (s_lifecycle x) @
     write_compat_req (s_compatibility x) @ write_policies (s_policies x) @
     write_placement_policy (s_placement_policy x) @ write_enum BackendKind_u8 (s_backend x) @
     write_string (s_runtime_name x) @ write_cc (s_min_compute x) @
     write_u64 (s_memory_requirement_bytes x) @ write_u32 (s_accelerator_requirement x)"

definition read_replica_set :: "ReplicaSetState reader" where
  "read_replica_set =
     rbind read_id (\<lambda>v_id.
     rbind read_id (\<lambda>v_model_id.
     rbind read_id (\<lambda>v_workload_id.
     rbind read_id (\<lambda>v_tenant_id.
     rbind read_u32 (\<lambda>v_desired_count.
     rbind read_u32 (\<lambda>v_min_healthy.
     rbind read_u32 (\<lambda>v_max_replicas.
     rbind read_id (\<lambda>v_artifact_id.
     rbind read_id (\<lambda>v_artifact_generation.
     rbind read_id (\<lambda>v_generation.
     rbind read_id (\<lambda>v_policy_generation.
     rbind (read_enum ReplicaSetLifecycle_from_int) (\<lambda>v_lifecycle.
     rbind read_compat_req (\<lambda>v_compatibility.
     rbind read_policies (\<lambda>v_policies.
     rbind read_placement_policy (\<lambda>v_placement_policy.
     rbind (read_enum BackendKind_from_int) (\<lambda>v_backend.
     rbind read_string (\<lambda>v_runtime_name.
     rbind read_cc (\<lambda>v_min_compute.
     rbind read_u64 (\<lambda>v_memory_requirement_bytes.
     rbind read_u32 (\<lambda>v_accelerator_requirement.
     rret \<lparr>s_id = v_id, s_model_id = v_model_id, s_workload_id = v_workload_id,
       s_tenant_id = v_tenant_id, s_desired_count = v_desired_count, s_min_healthy = v_min_healthy,
       s_max_replicas = v_max_replicas, s_artifact_id = v_artifact_id,
       s_artifact_generation = v_artifact_generation, s_generation = v_generation,
       s_policy_generation = v_policy_generation, s_lifecycle = v_lifecycle,
       s_compatibility = v_compatibility, s_policies = v_policies,
       s_placement_policy = v_placement_policy, s_backend = v_backend,
       s_runtime_name = v_runtime_name, s_min_compute = v_min_compute,
       s_memory_requirement_bytes = v_memory_requirement_bytes,
       s_accelerator_requirement = v_accelerator_requirement\<rparr>))))))))))))))))))))"

definition replica_set_ok :: "ReplicaSetState \<Rightarrow> bool" where
  "replica_set_ok x \<longleftrightarrow>
     compat_req_ok (s_compatibility x) \<and> policies_ok (s_policies x) \<and>
     placement_policy_ok (s_placement_policy x) \<and> fits (s_runtime_name x)"

interpretation replica_set_codec: codec write_replica_set read_replica_set replica_set_ok
  by (rule codecI, (auto simp: read_replica_set_def write_replica_set_def replica_set_ok_def codec_exact rret_def)[1])
     (simp_all add: read_replica_set_def write_replica_set_def replica_set_ok_def codec_write rret_def)

declare replica_set_codec.bind_exact [codec_exact] replica_set_codec.bind_wr [codec_write] replica_set_codec.nonempty [codec_write]

section \<open>ReplicaState\<close>

definition write_replica :: "ReplicaState \<Rightarrow> bytes" where
  "write_replica x =
     write_id (r_id x) @ write_id (r_set_id x) @ write_id (r_generation x) @
     write_id (r_node_id x) @ write_id (r_worker_id x) @ write_id (r_boot_id x) @
     write_id (r_artifact_id x) @ write_id (r_artifact_generation x) @
     write_enum BackendKind_u8 (r_backend x) @ write_string (r_backend_identity x) @
     write_string (r_device_identity x) @ write_enum AcceleratorKind_u8 (r_accelerator x) @
     write_cc (r_compute_capability x) @
     write_enum MemoryResidencyState_u8 (r_memory_residency x) @
     write_enum WarmthState_u8 (r_warmth x) @ write_enum ReadinessState_u8 (r_readiness x) @
     write_enum HealthState_u8 (r_health x) @ write_enum ReplicaLifecycle_u8 (r_lifecycle x) @
     write_id (r_placement_id x) @ write_enum PlacementState_u8 (r_placement x) @
     write_enum PromotionState_u8 (r_promotion x) @ write_enum ReplicaRole_u8 (r_role x) @
     write_boolean (r_serving_eligible x) @ write_u64 (r_active_requests x) @
     write_u64 (r_reserved_capacity x) @ write_u64 (r_capacity_total x) @
     write_u64 (r_start_time_mono x) @ write_i64 (r_start_time_wall x) @
     write_health_record (r_health_record x) @ write_readiness_record (r_readiness_record x) @
     write_warming_record (r_warming_record x) @ write_id (r_coordinator_epoch x) @
     write_id (r_set_generation x) @ write_id (r_health_generation x) @
     write_id (r_policy_generation x) @ write_string (r_policy_fingerprint x) @
     write_replica_compat (r_compatibility x)"

definition read_replica :: "ReplicaState reader" where
  "read_replica =
     rbind read_id (\<lambda>v_id.
     rbind read_id (\<lambda>v_set_id.
     rbind read_id (\<lambda>v_generation.
     rbind read_id (\<lambda>v_node_id.
     rbind read_id (\<lambda>v_worker_id.
     rbind read_id (\<lambda>v_boot_id.
     rbind read_id (\<lambda>v_artifact_id.
     rbind read_id (\<lambda>v_artifact_generation.
     rbind (read_enum BackendKind_from_int) (\<lambda>v_backend.
     rbind read_string (\<lambda>v_backend_identity.
     rbind read_string (\<lambda>v_device_identity.
     rbind (read_enum AcceleratorKind_from_int) (\<lambda>v_accelerator.
     rbind read_cc (\<lambda>v_compute_capability.
     rbind (read_enum MemoryResidencyState_from_int) (\<lambda>v_memory_residency.
     rbind (read_enum WarmthState_from_int) (\<lambda>v_warmth.
     rbind (read_enum ReadinessState_from_int) (\<lambda>v_readiness.
     rbind (read_enum HealthState_from_int) (\<lambda>v_health.
     rbind (read_enum ReplicaLifecycle_from_int) (\<lambda>v_lifecycle.
     rbind read_id (\<lambda>v_placement_id.
     rbind (read_enum PlacementState_from_int) (\<lambda>v_placement.
     rbind (read_enum PromotionState_from_int) (\<lambda>v_promotion.
     rbind (read_enum ReplicaRole_from_int) (\<lambda>v_role.
     rbind read_boolean (\<lambda>v_serving_eligible.
     rbind read_u64 (\<lambda>v_active_requests.
     rbind read_u64 (\<lambda>v_reserved_capacity.
     rbind read_u64 (\<lambda>v_capacity_total.
     rbind read_u64 (\<lambda>v_start_time_mono.
     rbind read_i64 (\<lambda>v_start_time_wall.
     rbind read_health_record (\<lambda>v_health_record.
     rbind read_readiness_record (\<lambda>v_readiness_record.
     rbind read_warming_record (\<lambda>v_warming_record.
     rbind read_id (\<lambda>v_coordinator_epoch.
     rbind read_id (\<lambda>v_set_generation.
     rbind read_id (\<lambda>v_health_generation.
     rbind read_id (\<lambda>v_policy_generation.
     rbind read_string (\<lambda>v_policy_fingerprint.
     rbind read_replica_compat (\<lambda>v_compatibility.
     rret \<lparr>r_id = v_id, r_set_id = v_set_id, r_generation = v_generation, r_node_id = v_node_id,
       r_worker_id = v_worker_id, r_boot_id = v_boot_id, r_artifact_id = v_artifact_id,
       r_artifact_generation = v_artifact_generation, r_backend = v_backend,
       r_backend_identity = v_backend_identity, r_device_identity = v_device_identity,
       r_accelerator = v_accelerator, r_compute_capability = v_compute_capability,
       r_memory_residency = v_memory_residency, r_warmth = v_warmth, r_readiness = v_readiness,
       r_health = v_health, r_lifecycle = v_lifecycle, r_placement_id = v_placement_id,
       r_placement = v_placement, r_promotion = v_promotion, r_role = v_role,
       r_serving_eligible = v_serving_eligible, r_active_requests = v_active_requests,
       r_reserved_capacity = v_reserved_capacity, r_capacity_total = v_capacity_total,
       r_start_time_mono = v_start_time_mono, r_start_time_wall = v_start_time_wall,
       r_health_record = v_health_record, r_readiness_record = v_readiness_record,
       r_warming_record = v_warming_record, r_coordinator_epoch = v_coordinator_epoch,
       r_set_generation = v_set_generation, r_health_generation = v_health_generation,
       r_policy_generation = v_policy_generation, r_policy_fingerprint = v_policy_fingerprint,
       r_compatibility = v_compatibility\<rparr>)))))))))))))))))))))))))))))))))))))"

definition replica_ok :: "ReplicaState \<Rightarrow> bool" where
  "replica_ok x \<longleftrightarrow>
     fits (r_backend_identity x) \<and> fits (r_device_identity x) \<and>
     health_record_ok (r_health_record x) \<and>
     readiness_record_ok (r_readiness_record x) \<and>
     warming_record_ok (r_warming_record x) \<and> fits (r_policy_fingerprint x) \<and>
     replica_compat_ok (r_compatibility x)"

interpretation replica_codec: codec write_replica read_replica replica_ok
  by (rule codecI, (auto simp: read_replica_def write_replica_def replica_ok_def codec_exact rret_def)[1])
     (simp_all add: read_replica_def write_replica_def replica_ok_def codec_write rret_def)

declare replica_codec.bind_exact [codec_exact] replica_codec.bind_wr [codec_write] replica_codec.nonempty [codec_write]

section \<open>WorkerRegistration\<close>

definition write_worker :: "WorkerRegistration \<Rightarrow> bytes" where
  "write_worker x =
     write_id (w_worker_id x) @ write_id (w_boot_id x) @ write_id (w_node_id x) @
     write_inventory (w_inventory x) @ write_id (w_hosted_set_generation x) @
     write_u32 (w_protocol_version x)"

definition read_worker :: "WorkerRegistration reader" where
  "read_worker =
     rbind read_id (\<lambda>v_worker_id.
     rbind read_id (\<lambda>v_boot_id.
     rbind read_id (\<lambda>v_node_id.
     rbind read_inventory (\<lambda>v_inventory.
     rbind read_id (\<lambda>v_hosted_set_generation.
     rbind read_u32 (\<lambda>v_protocol_version.
     rret \<lparr>w_worker_id = v_worker_id, w_boot_id = v_boot_id, w_node_id = v_node_id,
       w_inventory = v_inventory, w_hosted_set_generation = v_hosted_set_generation,
       w_protocol_version = v_protocol_version\<rparr>))))))"

definition worker_ok :: "WorkerRegistration \<Rightarrow> bool" where
  "worker_ok x \<longleftrightarrow>
     inventory_ok (w_inventory x)"

interpretation worker_codec: codec write_worker read_worker worker_ok
  by (rule codecI, (auto simp: read_worker_def write_worker_def worker_ok_def codec_exact rret_def)[1])
     (simp_all add: read_worker_def write_worker_def worker_ok_def codec_write rret_def)

declare worker_codec.bind_exact [codec_exact] worker_codec.bind_wr [codec_write] worker_codec.nonempty [codec_write]

section \<open>PromotionRecord\<close>

definition write_promotion :: "PromotionRecord \<Rightarrow> bytes" where
  "write_promotion x =
     write_id (p_id x) @ write_id (p_replica_id x) @ write_id (p_set_id x) @
     write_id (p_replica_generation x) @ write_id (p_set_generation x) @ write_id (p_epoch x) @
     write_enum PromotionState_u8 (p_from x) @ write_enum PromotionState_u8 (p_to x) @
     write_u64 (p_when_mono x) @ write_i64 (p_when_wall x) @ write_string (p_reason x)"

definition read_promotion :: "PromotionRecord reader" where
  "read_promotion =
     rbind read_id (\<lambda>v_id.
     rbind read_id (\<lambda>v_replica_id.
     rbind read_id (\<lambda>v_set_id.
     rbind read_id (\<lambda>v_replica_generation.
     rbind read_id (\<lambda>v_set_generation.
     rbind read_id (\<lambda>v_epoch.
     rbind (read_enum PromotionState_from_int) (\<lambda>v_from.
     rbind (read_enum PromotionState_from_int) (\<lambda>v_to.
     rbind read_u64 (\<lambda>v_when_mono.
     rbind read_i64 (\<lambda>v_when_wall.
     rbind read_string (\<lambda>v_reason.
     rret \<lparr>p_id = v_id, p_replica_id = v_replica_id, p_set_id = v_set_id,
       p_replica_generation = v_replica_generation, p_set_generation = v_set_generation,
       p_epoch = v_epoch, p_from = v_from, p_to = v_to, p_when_mono = v_when_mono,
       p_when_wall = v_when_wall, p_reason = v_reason\<rparr>)))))))))))"

definition promotion_ok :: "PromotionRecord \<Rightarrow> bool" where
  "promotion_ok x \<longleftrightarrow>
     fits (p_reason x)"

interpretation promotion_codec: codec write_promotion read_promotion promotion_ok
  by (rule codecI, (auto simp: read_promotion_def write_promotion_def promotion_ok_def codec_exact rret_def)[1])
     (simp_all add: read_promotion_def write_promotion_def promotion_ok_def codec_write rret_def)

declare promotion_codec.bind_exact [codec_exact] promotion_codec.bind_wr [codec_write] promotion_codec.nonempty [codec_write]

section \<open>DrainRecord\<close>

definition write_drain :: "DrainRecord \<Rightarrow> bytes" where
  "write_drain x =
     write_id (d_id x) @ write_id (d_replica_id x) @ write_id (d_set_id x) @
     write_enum DrainState_u8 (d_state x) @ write_u64 (d_started_mono x) @
     write_u64 (d_completed_mono x) @ write_boolean (d_force_cancelled x) @
     write_u64 (d_quiesced_requests x) @ write_string (d_reason x)"

definition read_drain :: "DrainRecord reader" where
  "read_drain =
     rbind read_id (\<lambda>v_id.
     rbind read_id (\<lambda>v_replica_id.
     rbind read_id (\<lambda>v_set_id.
     rbind (read_enum DrainState_from_int) (\<lambda>v_state.
     rbind read_u64 (\<lambda>v_started_mono.
     rbind read_u64 (\<lambda>v_completed_mono.
     rbind read_boolean (\<lambda>v_force_cancelled.
     rbind read_u64 (\<lambda>v_quiesced_requests.
     rbind read_string (\<lambda>v_reason.
     rret \<lparr>d_id = v_id, d_replica_id = v_replica_id, d_set_id = v_set_id, d_state = v_state,
       d_started_mono = v_started_mono, d_completed_mono = v_completed_mono,
       d_force_cancelled = v_force_cancelled, d_quiesced_requests = v_quiesced_requests,
       d_reason = v_reason\<rparr>)))))))))"

definition drain_ok :: "DrainRecord \<Rightarrow> bool" where
  "drain_ok x \<longleftrightarrow>
     fits (d_reason x)"

interpretation drain_codec: codec write_drain read_drain drain_ok
  by (rule codecI, (auto simp: read_drain_def write_drain_def drain_ok_def codec_exact rret_def)[1])
     (simp_all add: read_drain_def write_drain_def drain_ok_def codec_write rret_def)

declare drain_codec.bind_exact [codec_exact] drain_codec.bind_wr [codec_write] drain_codec.nonempty [codec_write]

section \<open>FailoverRecord\<close>

definition write_failover :: "FailoverRecord \<Rightarrow> bytes" where
  "write_failover x =
     write_id (f_id x) @ write_id (f_set_id x) @ write_id (f_failed_replica x) @
     write_id (f_replacement x) @ write_enum FailoverState_u8 (f_state x) @
     write_id (f_epoch x) @ write_u64 (f_started_mono x) @ write_u64 (f_completed_mono x) @
     write_boolean (f_generation_preserved x) @
     write_vector (write_enum WorkOutcome_u8) (f_ambiguous_outcomes x) @
     write_string (f_reason x)"

definition read_failover :: "FailoverRecord reader" where
  "read_failover =
     rbind read_id (\<lambda>v_id.
     rbind read_id (\<lambda>v_set_id.
     rbind read_id (\<lambda>v_failed_replica.
     rbind read_id (\<lambda>v_replacement.
     rbind (read_enum FailoverState_from_int) (\<lambda>v_state.
     rbind read_id (\<lambda>v_epoch.
     rbind read_u64 (\<lambda>v_started_mono.
     rbind read_u64 (\<lambda>v_completed_mono.
     rbind read_boolean (\<lambda>v_generation_preserved.
     rbind (read_vector [] (read_enum WorkOutcome_from_int)) (\<lambda>v_ambiguous_outcomes.
     rbind read_string (\<lambda>v_reason.
     rret \<lparr>f_id = v_id, f_set_id = v_set_id, f_failed_replica = v_failed_replica,
       f_replacement = v_replacement, f_state = v_state, f_epoch = v_epoch,
       f_started_mono = v_started_mono, f_completed_mono = v_completed_mono,
       f_generation_preserved = v_generation_preserved,
       f_ambiguous_outcomes = v_ambiguous_outcomes, f_reason = v_reason\<rparr>)))))))))))"

definition failover_ok :: "FailoverRecord \<Rightarrow> bool" where
  "failover_ok x \<longleftrightarrow>
     fits (f_ambiguous_outcomes x) \<and> fits (f_reason x)"

interpretation failover_codec: codec write_failover read_failover failover_ok
  by (rule codecI, (auto simp: read_failover_def write_failover_def failover_ok_def codec_exact rret_def)[1])
     (simp_all add: read_failover_def write_failover_def failover_ok_def codec_write rret_def)

declare failover_codec.bind_exact [codec_exact] failover_codec.bind_wr [codec_write] failover_codec.nonempty [codec_write]

end
