(* ===== verification/Crc64.thy ===== *)
theory Crc64
  imports RF_Prelude
begin

text \<open>
  The checksum of \<open>src/snapshot.cpp\<close>: the table of \<open>make_crc64_table\<close> and the table-driven loop
  of \<open>crc64\<close>. The loop is shown to be the bit-serial division step by step, and the step to be
  injective in the state and in the byte, so that no change of a single byte goes unnoticed.
\<close>

unbundle bit_operations_syntax

definition crc_poly :: u64 where
  "crc_poly = 0xC96C5795D7870F42"

definition crc_bit :: "u64 \<Rightarrow> u64" where
  "crc_bit crc = (if crc AND 1 \<noteq> 0 then drop_bit 1 crc XOR crc_poly else drop_bit 1 crc)"

definition make_crc64_table :: "u64 list" where
  "make_crc64_table = map (\<lambda>i. (crc_bit ^^ 8) (of_nat i)) [0..<256]"

definition crc64 :: "bytes \<Rightarrow> u64" where
  "crc64 data = foldl (\<lambda>crc b. make_crc64_table ! unat (ucast crc XOR b :: u8) XOR drop_bit 8 crc) 0 data"

definition crc_step :: "u64 \<Rightarrow> u8 \<Rightarrow> u64" where
  "crc_step crc b = (crc_bit ^^ 8) (crc XOR ucast b)"

lemma and_one: "(w :: u64) AND 1 \<noteq> 0 \<longleftrightarrow> bit w 0"
  by (simp add: and_one_eq bit_0 odd_iff_mod_2_eq_one)

lemma crc_bit_alt: "crc_bit w = (if bit w 0 then drop_bit 1 w XOR crc_poly else drop_bit 1 w)"
  by (simp only: crc_bit_def and_one)

lemma crc_bit_xor: "crc_bit (v XOR w) = crc_bit v XOR crc_bit w"
  by (rule bit_word_eqI) (auto simp: crc_bit_alt bit_simps)

lemma crc_pow_xor: "(crc_bit ^^ n) (v XOR w) = (crc_bit ^^ n) v XOR (crc_bit ^^ n) w"
  by (induction n) (simp_all add: crc_bit_xor)

lemma crc_pow_shift: "(\<forall>i < n. \<not> bit w i) \<Longrightarrow> (crc_bit ^^ n) w = drop_bit n w"
proof (induction n arbitrary: w)
  case (Suc n)
  have "(crc_bit ^^ Suc n) w = (crc_bit ^^ n) (crc_bit w)"
    by (simp add: funpow_swap1)
  also have "crc_bit w = drop_bit 1 w"
    using Suc.prems by (auto simp: crc_bit_alt)
  also have "(crc_bit ^^ n) (drop_bit 1 w) = drop_bit n (drop_bit 1 w)"
    using Suc.prems by (intro Suc.IH) (auto simp: bit_simps)
  finally show ?case by (simp add: drop_bit_drop_bit)
qed simp

lemma table_step: "make_crc64_table ! unat (ucast crc XOR b :: u8) XOR drop_bit 8 crc = crc_step crc b"
proof -
  let ?k = "ucast crc XOR b :: u8"
  have lt: "unat ?k < 256" using unsigned_less [of ?k, where 'a = nat] by simp
  have low: "crc XOR ucast b = ucast ?k XOR push_bit 8 (drop_bit 8 crc)"
    by (rule bit_word_eqI) (auto simp: bit_simps)
  have "(crc_bit ^^ 8) (push_bit 8 (drop_bit 8 crc)) = drop_bit 8 (push_bit 8 (drop_bit 8 crc))"
    by (rule crc_pow_shift) (simp add: bit_simps)
  also have "\<dots> = drop_bit 8 crc"
    by (rule bit_word_eqI) (auto simp: bit_simps dest: bit_imp_le_length)
  moreover have "make_crc64_table ! unat ?k = (crc_bit ^^ 8) (ucast ?k)"
    using lt by (simp add: make_crc64_table_def)
  ultimately show ?thesis
    unfolding crc_step_def low crc_pow_xor by simp
qed

lemma crc64_steps: "crc64 data = foldl crc_step 0 data"
  by (simp add: crc64_def table_step [abs_def])

lemma xor_right_cancel: "v XOR u = w XOR u \<longleftrightarrow> v = (w :: u64)"
proof
  assume "v XOR u = w XOR u"
  then have "(v XOR u) XOR u = (w XOR u) XOR u" by simp
  then show "v = w" by (simp add: xor.assoc)
qed simp

lemma crc_bit_inject: "crc_bit v = crc_bit w \<longleftrightarrow> v = w"
proof
  assume eq: "crc_bit v = crc_bit w"
  have top: "bit (crc_bit u) 63 = bit u 0" for u
    using bit_imp_le_length [of u 64] by (auto simp: crc_bit_alt crc_poly_def bit_simps)
  have zero: "bit v 0 = bit w 0" using top eq by metis
  then have "drop_bit 1 v = drop_bit 1 w"
    using eq by (simp add: crc_bit_alt xor_right_cancel split: if_splits)
  then have "bit (drop_bit 1 v) n = bit (drop_bit 1 w) n" for n by simp
  then have "bit v (Suc n) = bit w (Suc n)" for n by (simp add: bit_drop_bit_eq)
  then show "v = w"
    by (intro bit_word_eqI) (metis zero not0_implies_Suc)
qed simp

lemma crc_pow_inject: "(crc_bit ^^ n) v = (crc_bit ^^ n) w \<longleftrightarrow> v = w"
  by (induction n) (simp_all add: crc_bit_inject)

lemma crc_step_inject: "crc_step v b = crc_step w b \<longleftrightarrow> v = w"
  by (simp add: crc_step_def crc_pow_inject xor_right_cancel)

lemma crc_step_byte_inject: "crc_step v a = crc_step v b \<longleftrightarrow> a = b"
proof -
  have narrow: "ucast (ucast c :: u64) = c" for c :: u8
    by (rule bit_word_eqI) (simp add: bit_simps)
  have "ucast a = (ucast b :: u64) \<longleftrightarrow> a = b"
  proof
    assume "ucast a = (ucast b :: u64)"
    then have "(ucast (ucast a :: u64) :: u8) = ucast (ucast b :: u64)" by (rule arg_cong)
    then show "a = b" by (simp only: narrow)
  qed simp
  then show ?thesis
    unfolding crc_step_def crc_pow_inject xor.commute [of v] xor_right_cancel .
qed

lemma crc_fold_inject: "foldl crc_step v bs = foldl crc_step w bs \<longleftrightarrow> v = w"
  by (induction bs arbitrary: v w) (simp_all add: crc_step_inject)

lemma crc64_update:
  assumes "i < length bs" and "b \<noteq> bs ! i"
  shows "crc64 (bs[i := b]) \<noteq> crc64 bs"
proof -
  have "crc64 (bs[i := b]) = foldl crc_step (crc_step (foldl crc_step 0 (take i bs)) b) (drop (Suc i) bs)"
    using assms(1) by (simp add: crc64_steps upd_conv_take_nth_drop)
  moreover have "crc64 bs = foldl crc_step (crc_step (foldl crc_step 0 (take i bs)) (bs ! i)) (drop (Suc i) bs)"
    using assms(1) by (subst id_take_nth_drop [OF assms(1)]) (simp add: crc64_steps)
  ultimately show ?thesis
    using assms(2) by (simp add: crc_fold_inject crc_step_byte_inject)
qed

text \<open>
  C37. The table-driven checksum is the bit-serial one: byte by byte, the table lookup equals
  eight steps of the polynomial division on the state with the byte mixed in.
\<close>

theorem crc64_is_bit_serial:
  "crc64 data = foldl (\<lambda>crc b. (crc_bit ^^ 8) (crc XOR ucast b)) 0 data"
  unfolding crc64_steps crc_step_def [abs_def] ..

end
