(* ===== verification/Snapshot.thy ===== *)
theory Snapshot
  imports Controller_Failover Snapshot_Codec Crc64
begin

text \<open>
  The snapshot of \<open>src/snapshot.cpp\<close>: \<open>make_snapshot\<close> frames the controller's maps and logs with a
  header and a checksum, \<open>decode_snapshot\<close> reads them back, \<open>validate_recovered_state\<close> checks them
  and \<open>install_recovered_state\<close> puts them into a controller without their authority. The lemmas
  show what the decoder accepts, byte for byte, that a snapshot recovers what was captured, that
  damage is detected and that a recovered replica does not serve.
\<close>

section \<open>Writing\<close>

definition kMagic :: bytes where
  "kMagic = [0x52, 0x46, 0x53, 0x4E, 0x41, 0x50, 0x30, 0x31]"

definition kFormatVersion :: u32 where "kFormatVersion = 1"

definition kSchemaVersion :: u32 where "kSchemaVersion = 1"

definition snapshot_body :: "controller \<Rightarrow> bytes" where
  "snapshot_body c =
     write_vector write_replica_set (sort_key s_id (map snd (ct_sets c))) @
     write_vector write_replica (sort_key r_id (map snd (ct_replicas c))) @
     write_vector write_worker (sort_key w_worker_id (map snd (ct_workers c))) @
     write_vector write_promotion (ct_promotions c) @
     write_vector write_drain (ct_drains c) @
     write_vector write_failover (ct_failovers c) @
     write_id (ct_epoch c)"

definition make_snapshot :: "controller \<Rightarrow> bytes" where
  "make_snapshot c =
     (let w = kMagic @ write_u32 kFormatVersion @ write_u32 kSchemaVersion;
          body = snapshot_body c;
          w = w @ write_u64 (of_nat (length body));
          w = w @ body
      in w @ write_u64 (crc64 w))"

definition capture_and_clear_authority :: "controller \<Rightarrow> bytes" where
  "capture_and_clear_authority c = make_snapshot c"

section \<open>Reading\<close>

record RecoveredState =
  rc_sets :: "(ReplicaSetId, ReplicaSetState) omap"
  rc_replicas :: "(ReplicaId, ReplicaState) omap"
  rc_workers :: "WorkerRegistration list"
  rc_promotions :: "PromotionRecord list"
  rc_drains :: "DrainRecord list"
  rc_failovers :: "FailoverRecord list"

text \<open>A step of the decoder that fails reports its own message.\<close>

definition on_fail :: "(string \<Rightarrow> string) \<Rightarrow> 'a reader \<Rightarrow> 'a reader" where
  "on_fail msg rd bs = (case rd bs of Inl e \<Rightarrow> Inl (msg e) | Inr x \<Rightarrow> Inr x)"

text \<open>The count before a group of records.\<close>

definition read_count :: "string \<Rightarrow> u64 reader" where
  "read_count what = rbind (on_fail (\<lambda>_. what @ '' count'') read_u64) (\<lambda>n bs.
     if unat n > length bs then Inl (what @ '' count overflow'') else Inr (n, bs))"

primrec read_into ::
  "nat \<Rightarrow> 'v reader \<Rightarrow> ('v \<Rightarrow> 'k::linorder) \<Rightarrow> string \<Rightarrow> ('k, 'v) omap \<Rightarrow> ('k, 'v) omap reader" where
  "read_into 0 rd key dup m = rret m"
| "read_into (Suc n) rd key dup m = rbind rd (\<lambda>v.
     case om_emplace (key v) v m of
       (m', True) \<Rightarrow> read_into n rd key dup m'
     | (m', False) \<Rightarrow> (\<lambda>bs. Inl dup))"

text \<open>
  A group of records: the count, then the records. A failing record reports the group's prefix
  with the reader's message. The keyed groups index the records by id and refuse a duplicate.
\<close>

definition read_group :: "string \<Rightarrow> 'v reader \<Rightarrow> 'v list reader" where
  "read_group what rd = rbind (read_count what) (\<lambda>n.
     read_times (unat n) (on_fail (\<lambda>e. what @ '' decode: '' @ e) rd))"

definition read_keyed_group ::
  "string \<Rightarrow> 'v reader \<Rightarrow> ('v \<Rightarrow> 'k::linorder) \<Rightarrow> string \<Rightarrow> ('k, 'v) omap reader" where
  "read_keyed_group what rd key dup = rbind (read_count what) (\<lambda>n.
     read_into (unat n) (on_fail (\<lambda>e. what @ '' decode: '' @ e) rd) key dup [])"

definition read_body :: "RecoveredState reader" where
  "read_body =
     rbind (read_keyed_group ''set'' read_replica_set s_id ''duplicate replica-set id'') (\<lambda>sets.
     rbind (read_keyed_group ''replica'' read_replica r_id ''duplicate replica id'') (\<lambda>replicas.
     rbind (read_group ''worker'' read_worker) (\<lambda>workers.
     rbind (read_group ''promotion'' read_promotion) (\<lambda>promotions.
     rbind (read_group ''drain'' read_drain) (\<lambda>drains.
     rbind (read_group ''failover'' read_failover) (\<lambda>failovers.
     rbind (on_fail (\<lambda>_. ''epoch decode'') (read_id :: CoordinatorEpoch reader)) (\<lambda>ep.
     rret \<lparr>rc_sets = sets, rc_replicas = replicas, rc_workers = workers, rc_promotions = promotions,
           rc_drains = drains, rc_failovers = failovers\<rparr>)))))))"

definition read_header :: "u64 reader" where
  "read_header =
     rbind (on_fail (\<lambda>_. ''bad magic'') (read_bytes 8)) (\<lambda>mg.
     rbind (on_fail (\<lambda>_. ''header truncation'') read_u32) (\<lambda>ver.
     rbind (on_fail (\<lambda>_. ''header truncation'') read_u32) (\<lambda>schema bs.
     if ver \<noteq> kFormatVersion then Inl ''incompatible format version''
     else if schema \<noteq> kSchemaVersion then Inl ''incompatible schema version''
     else on_fail (\<lambda>_. ''body length truncation'') read_u64 bs)))"

definition decode_snapshot :: "bytes \<Rightarrow> string + RecoveredState" where
  "decode_snapshot bytes =
     (let n = length bytes
      in if n < 24 + 8 then Inl ''snapshot too short''
         else if take 8 bytes \<noteq> kMagic then Inl ''bad magic''
         else case read_header bytes of
           Inl e \<Rightarrow> Inl e
         | Inr (body_len, _) \<Rightarrow>
             (let body_start = 24;
                  body_end = unat (24 + body_len)
              in if body_end > n \<or> n - body_end \<noteq> 8
                 then Inl ''body length mismatch or trailing garbage''
                 else (let stored_crc = le_word 8 (drop body_end bytes) :: u64
                       in if crc64 (take body_end bytes) \<noteq> stored_crc
                          then Inl ''checksum corruption''
                          else case read_body (take (unat body_len) (drop body_start bytes)) of
                            Inl e \<Rightarrow> Inl e
                          | Inr (state, rest) \<Rightarrow>
                              if rest \<noteq> [] then Inl ''trailing bytes in body'' else Inr state)))"

section \<open>Validation and installation\<close>

fun first_error :: "('a \<Rightarrow> string option) \<Rightarrow> 'a list \<Rightarrow> string option" where
  "first_error f [] = None"
| "first_error f (x # xs) = (case f x of Some e \<Rightarrow> Some e | None \<Rightarrow> first_error f xs)"

definition validate_replica :: "RecoveredState \<Rightarrow> ReplicaState \<Rightarrow> string option" where
  "validate_replica state r =
     (if is_null (r_id r) \<or> is_null (r_set_id r) \<or> is_null (r_generation r)
      then Some ''replica with null identity in recovered state''
      else if om_find (rc_sets state) (r_set_id r) = None
      then Some ''replica references an unknown replica set'' else None)"

definition validate_set :: "ReplicaSetState \<Rightarrow> string option" where
  "validate_set s =
     (if is_null (s_id s) then Some ''replica set with null identity''
      else if s_max_replicas s = 0 \<or> s_desired_count s = 0 \<or> s_min_healthy s = 0 \<or>
              s_min_healthy s > s_max_replicas s \<or> s_desired_count s > s_max_replicas s
      then Some ''replica set counts invalid in recovered state'' else None)"

definition validate_recovered_state :: "RecoveredState \<Rightarrow> string option" where
  "validate_recovered_state state =
     (case first_error (\<lambda>(rid, r). validate_replica state r) (rc_replicas state) of
        Some e \<Rightarrow> Some e
      | None \<Rightarrow> first_error (\<lambda>(sid, s). validate_set s) (rc_sets state))"

definition forget_authority :: "ReplicaState \<Rightarrow> ReplicaState" where
  "forget_authority r = r\<lparr>
     r_serving_eligible := False,
     r_boot_id := null_id,
     r_health := HealthState.STARTING,
     r_health_record := (r_health_record r)\<lparr>hr_state := HealthState.STARTING\<rparr>,
     r_readiness := ReadinessState.UNKNOWN,
     r_warmth := WarmthState.COLD,
     r_promotion := PromotionState.NOT_PROMOTED,
     r_role := ReplicaRole.NONE,
     r_active_requests := 0,
     r_reserved_capacity := 0\<rparr>"

fun emplace_all :: "('k::linorder \<times> 'v) list \<Rightarrow> ('k, 'v) omap \<Rightarrow> ('k, 'v) omap" where
  "emplace_all [] m = m"
| "emplace_all ((k, v) # xs) m = emplace_all xs (fst (om_emplace k v m))"

definition install_recovered_state :: "RecoveredState \<Rightarrow> controller \<Rightarrow> controller" where
  "install_recovered_state state c = c\<lparr>
     ct_sets := emplace_all (rc_sets state) [],
     ct_replicas := emplace_all (map (\<lambda>(rid, r). (rid, forget_authority r)) (rc_replicas state)) [],
     ct_workers := emplace_all (map (\<lambda>w. (w_worker_id w, w)) (rc_workers state)) [],
     ct_promotions := rc_promotions state,
     ct_drains := rc_drains state,
     ct_failovers := rc_failovers state\<rparr>"

definition recover_into :: "bytes \<Rightarrow> controller \<Rightarrow> (string + unit) \<times> controller" where
  "recover_into bytes c =
     (case decode_snapshot bytes of
        Inl e \<Rightarrow> (Inl e, c)
      | Inr rec \<Rightarrow>
          (case validate_recovered_state rec of
             Some e \<Rightarrow> (Inl e, c)
           | None \<Rightarrow> (Inr (), install_recovered_state rec c)))"

section \<open>What the decoder accepts\<close>

lemma on_fail_Inr [simp]: "on_fail msg rd bs = Inr x \<longleftrightarrow> rd bs = Inr x"
  by (simp add: on_fail_def split: sum.split)

lemma on_fail_codec: "codec wr rd ok \<Longrightarrow> codec wr (on_fail msg rd) ok"
  by (simp add: codec_def)

lemma read_count_Inr:
  "read_count what bs = Inr (n, rest) \<longleftrightarrow> bs = write_u64 n @ rest \<and> unat n \<le> length rest"
  by (auto simp: read_count_def rbind_Inr u64.exact not_less split: if_splits)

text \<open>The map a list of records with distinct keys is read into.\<close>

definition index_by :: "('v \<Rightarrow> 'k::linorder) \<Rightarrow> 'v list \<Rightarrow> ('k, 'v) omap" where
  "index_by key xs = foldl (\<lambda>m v. om_put (key v) v m) [] xs"

context codec
begin

lemma count_times_exact:
  "rbind (read_count what) (\<lambda>n. read_times (unat n) (on_fail msg rd)) bs = Inr (xs, rest) \<longleftrightarrow>
     (fits xs \<and> list_all ok xs) \<and> bs = write_vector wr xs @ rest"
proof -
  have "rbind (read_count what) (\<lambda>n. read_times (unat n) (on_fail msg rd)) bs = Inr (xs, rest) \<longleftrightarrow>
      read_vector [] rd bs = Inr (xs, rest)"
    by (auto simp: read_vector_def rbind_Inr read_count_Inr u64.exact times_exact not_less
        codec.times_exact [OF on_fail_codec [OF codec_axioms]] split: if_splits)
       (metis length_append)
  then show ?thesis by (simp add: vector_exact)
qed

lemma group_codec: "codec (write_vector wr) (read_group what rd) (\<lambda>xs. fits xs \<and> list_all ok xs)"
  by unfold_locales (simp_all add: read_group_def count_times_exact write_vector_def u64.nonempty)

lemma read_into_times:
  "read_into n (on_fail msg rd) key dup m bs = Inr (m', rest) \<longleftrightarrow>
     (\<exists>xs. read_times n (on_fail msg rd) bs = Inr (xs, rest) \<and>
        distinct (map key xs) \<and> set (map key xs) \<inter> set (om_keys m) = {} \<and>
        m' = foldl (\<lambda>m v. om_put (key v) v m) m xs)"
proof (induction n arbitrary: m bs)
  case (Suc n)
  have "read_into (Suc n) (on_fail msg rd) key dup m bs = Inr (m', rest) \<longleftrightarrow>
      (\<exists>x r. rd bs = Inr (x, r) \<and> key x \<notin> set (om_keys m) \<and>
         read_into n (on_fail msg rd) key dup (om_put (key x) x m) r = Inr (m', rest))"
    by (auto simp: rbind_Inr om_emplace_def om_find_None split: option.splits)
  then show ?case
    unfolding Suc keys_om_put by (auto simp: rbind_Inr rret_def)
qed (auto simp: rret_def)

lemma keyed_group_exact:
  "read_keyed_group what rd key dup bs = Inr (m, rest) \<longleftrightarrow>
     (\<exists>xs. fits xs \<and> list_all ok xs \<and> distinct (map key xs) \<and> m = index_by key xs \<and>
        bs = write_vector wr xs @ rest)"
proof -
  let ?msg = "\<lambda>e. what @ '' decode: '' @ e"
  have "read_keyed_group what rd key dup bs = Inr (m, rest) \<longleftrightarrow>
      (\<exists>xs. rbind (read_count what) (\<lambda>n. read_times (unat n) (on_fail ?msg rd)) bs = Inr (xs, rest) \<and>
         distinct (map key xs) \<and> m = index_by key xs)"
    by (auto simp: read_keyed_group_def rbind_Inr read_into_times index_by_def)
  then show ?thesis
    unfolding count_times_exact by blast
qed

lemma keyed_bind_exact:
  "rbind (read_keyed_group what rd key dup) k bs = Inr (y, rest) \<longleftrightarrow>
     (\<exists>xs r. fits xs \<and> list_all ok xs \<and> distinct (map key xs) \<and> bs = write_vector wr xs @ r \<and>
        k (index_by key xs) r = Inr (y, rest))"
  by (auto simp: rbind_Inr keyed_group_exact)

lemma keyed_bind_wr:
  "fits xs \<Longrightarrow> list_all ok xs \<Longrightarrow> distinct (map key xs) \<Longrightarrow>
     rbind (read_keyed_group what rd key dup) k (write_vector wr xs @ r) = k (index_by key xs) r"
  using keyed_group_exact [of what key dup "write_vector wr xs @ r" "index_by key xs" r]
  by (auto simp: rbind_def)

lemmas group_bind_exact = codec.bind_exact [OF group_codec]

lemmas group_bind_wr = codec.bind_wr [OF group_codec]

end

text \<open>The body as the groups it consists of, and what decoding makes of them.\<close>

definition body_bytes ::
  "ReplicaSetState list \<Rightarrow> ReplicaState list \<Rightarrow> WorkerRegistration list \<Rightarrow> PromotionRecord list \<Rightarrow>
   DrainRecord list \<Rightarrow> FailoverRecord list \<Rightarrow> CoordinatorEpoch \<Rightarrow> bytes" where
  "body_bytes sets replicas workers promotions drains failovers ep =
     write_vector write_replica_set sets @ write_vector write_replica replicas @
     write_vector write_worker workers @ write_vector write_promotion promotions @
     write_vector write_drain drains @ write_vector write_failover failovers @ write_id ep"

definition groups_ok ::
  "ReplicaSetState list \<Rightarrow> ReplicaState list \<Rightarrow> WorkerRegistration list \<Rightarrow> PromotionRecord list \<Rightarrow>
   DrainRecord list \<Rightarrow> FailoverRecord list \<Rightarrow> bool" where
  "groups_ok sets replicas workers promotions drains failovers \<longleftrightarrow>
     fits sets \<and> list_all replica_set_ok sets \<and> distinct (map s_id sets) \<and>
     fits replicas \<and> list_all replica_ok replicas \<and> distinct (map r_id replicas) \<and>
     fits workers \<and> list_all worker_ok workers \<and> fits promotions \<and> list_all promotion_ok promotions \<and>
     fits drains \<and> list_all drain_ok drains \<and> fits failovers \<and> list_all failover_ok failovers"

definition state_of ::
  "ReplicaSetState list \<Rightarrow> ReplicaState list \<Rightarrow> WorkerRegistration list \<Rightarrow> PromotionRecord list \<Rightarrow>
   DrainRecord list \<Rightarrow> FailoverRecord list \<Rightarrow> RecoveredState" where
  "state_of sets replicas workers promotions drains failovers =
     \<lparr>rc_sets = index_by s_id sets, rc_replicas = index_by r_id replicas, rc_workers = workers,
      rc_promotions = promotions, rc_drains = drains, rc_failovers = failovers\<rparr>"

lemma on_fail_bind_id:
  "rbind (on_fail msg read_id) k bs = Inr (y, rest) \<longleftrightarrow> (\<exists>x r. bs = write_id x @ r \<and> k x r = Inr (y, rest))"
  by (simp add: rbind_Inr ident.exact)

lemma on_fail_wr_id: "rbind (on_fail msg read_id) k (write_id x @ r) = k x r"
  using codec.bind_wr [OF on_fail_codec [OF ident.codec_axioms]] by blast

lemma read_body_wr:
  "groups_ok sets replicas workers promotions drains failovers \<Longrightarrow>
     read_body (body_bytes sets replicas workers promotions drains failovers ep @ rest) =
       Inr (state_of sets replicas workers promotions drains failovers, rest)"
  unfolding groups_ok_def read_body_def body_bytes_def state_of_def append_assoc
  by (simp add: replica_set_codec.keyed_bind_wr replica_codec.keyed_bind_wr
      worker_codec.group_bind_wr promotion_codec.group_bind_wr drain_codec.group_bind_wr
      failover_codec.group_bind_wr on_fail_wr_id rret_def)

lemma read_body_accepts:
  assumes "read_body bs = Inr (st, rest)"
  shows "\<exists>sets replicas workers promotions drains failovers ep.
        groups_ok sets replicas workers promotions drains failovers \<and>
        bs = body_bytes sets replicas workers promotions drains failovers ep @ rest \<and>
        st = state_of sets replicas workers promotions drains failovers"
  using assms
  unfolding read_body_def replica_set_codec.keyed_bind_exact replica_codec.keyed_bind_exact
    worker_codec.group_bind_exact promotion_codec.group_bind_exact drain_codec.group_bind_exact
    failover_codec.group_bind_exact on_fail_bind_id rret_def groups_ok_def body_bytes_def state_of_def
  by (elim exE conjE, intro exI conjI) (assumption | simp)+

text \<open>The frame around a body.\<close>

definition frame :: "bytes \<Rightarrow> bytes" where
  "frame body = kMagic @ write_u32 kFormatVersion @ write_u32 kSchemaVersion @
     write_u64 (of_nat (length body)) @ body"

lemma length_header_parts [simp]: "length kMagic = 8" "length (write_u32 x) = 4" "length (write_u64 y) = 8"
  by (simp_all add: kMagic_def write_u32_def write_u64_def)

lemma length_frame [simp]: "length (frame body) = 24 + length body"
  by (simp add: frame_def)

lemma make_snapshot_frame:
  "make_snapshot c = frame (snapshot_body c) @ write_u64 (crc64 (frame (snapshot_body c)))"
  by (simp add: make_snapshot_def frame_def Let_def)

lemma read_header_Inr:
  "read_header bs = Inr (n, rest) \<longleftrightarrow>
     (\<exists>mg. length mg = 8 \<and> bs = mg @ write_u32 kFormatVersion @ write_u32 kSchemaVersion @ write_u64 n @ rest)"
proof -
  have mg: "read_bytes 8 bs = Inr (mg, r) \<longleftrightarrow> length mg = 8 \<and> bs = mg @ r" for mg r
    by (auto simp: read_bytes_def split: if_splits)
  show ?thesis
    by (auto simp: read_header_def rbind_Inr mg u32.exact u64.exact split: if_splits)
qed

lemma body_end_exact:
  fixes body_len :: u64
  assumes "24 + 8 \<le> n" "\<not> (unat (24 + body_len) > n \<or> n - unat (24 + body_len) \<noteq> 8)"
  shows "unat (24 + body_len) = 24 + unat body_len" "n = 32 + unat body_len"
proof -
  have "unat (24 + body_len) = (24 + unat body_len) mod 2 ^ 64"
    by (simp add: unat_word_ariths)
  moreover have "24 \<le> unat (24 + body_len)" using assms by linarith
  ultimately show "unat (24 + body_len) = 24 + unat body_len"
    using unsigned_less [of body_len, where 'a = nat]
    by (cases "24 + unat body_len < 2 ^ 64") (auto simp: mod_if split: if_splits)
  then show "n = 32 + unat body_len" using assms by linarith
qed

lemma decode_accepts:
  assumes "decode_snapshot bytes = Inr st"
  shows "\<exists>body. length body + 24 < 2 ^ 64 \<and> bytes = frame body @ write_u64 (crc64 (frame body)) \<and>
     read_body body = Inr (st, [])"
proof -
  obtain body_len rest where h: "read_header bytes = Inr (body_len, rest)"
    and size: "24 + 8 \<le> length bytes" and magic: "take 8 bytes = kMagic"
    using assms by (auto simp: decode_snapshot_def Let_def split: if_splits sum.splits)
  let ?e = "unat (24 + body_len)"
  have fit: "\<not> (?e > length bytes \<or> length bytes - ?e \<noteq> 8)"
    and crc: "crc64 (take ?e bytes) = le_word 8 (drop ?e bytes)"
    and body: "read_body (take (unat body_len) (drop 24 bytes)) = Inr (st, [])"
    using assms size magic h by (auto simp: decode_snapshot_def Let_def split: if_splits sum.splits)
  note e = body_end_exact [OF size fit]
  let ?body = "take (unat body_len) (drop 24 bytes)"
  have len: "length ?body = unat body_len" using e by simp
  have bytes: "bytes = kMagic @ write_u32 kFormatVersion @ write_u32 kSchemaVersion @ write_u64 body_len @ rest"
    using h magic by (auto simp: read_header_Inr)
  have "take 24 bytes = kMagic @ write_u32 kFormatVersion @ write_u32 kSchemaVersion @ write_u64 body_len"
    by (subst bytes) simp
  moreover have "take (24 + unat body_len) bytes = take 24 bytes @ ?body"
    by (rule take_add)
  ultimately have front: "take ?e bytes = frame ?body"
    unfolding e(1) frame_def len by simp
  moreover have "drop ?e bytes = write_u64 (crc64 (take ?e bytes))"
    unfolding crc write_u64_def using le_bytes_word [of 8 "drop ?e bytes", where 'a = 64] e by simp
  ultimately have "bytes = frame ?body @ write_u64 (crc64 (frame ?body))"
    by (metis append_take_drop_id)
  moreover have "length ?body + 24 < 2 ^ 64"
    using e(1) unsigned_less [of "24 + body_len", where 'a = nat] len by simp
  ultimately show ?thesis using body by blast
qed

lemma decode_frame:
  assumes "length body + 24 < 2 ^ 64"
  shows "decode_snapshot (frame body @ write_u64 (crc64 (frame body))) =
     (case read_body body of Inl e \<Rightarrow> Inl e
      | Inr (st, rest) \<Rightarrow> if rest \<noteq> [] then Inl ''trailing bytes in body'' else Inr st)"
proof -
  let ?bytes = "frame body @ write_u64 (crc64 (frame body))"
  have "read_header ?bytes = Inr (of_nat (length body), body @ write_u64 (crc64 (frame body)))"
    by (auto simp: read_header_Inr frame_def)
  moreover have "unat (24 + of_nat (length body) :: u64) = 24 + length body"
    using assms u64_of_nat [of "24 + length body"] by simp
  moreover have "unat (of_nat (length body) :: u64) = length body"
    using assms by (simp add: u64_of_nat)
  moreover have "take 8 ?bytes = kMagic" by (simp add: frame_def)
  moreover have "drop 24 ?bytes = body @ write_u64 (crc64 (frame body))" by (simp add: frame_def)
  moreover have "le_word 8 (write_u64 v) = v" for v :: u64
    using le_word_bytes [of 8 v "[]"] by (simp add: write_u64_def)
  ultimately show ?thesis
    by (simp add: decode_snapshot_def Let_def)
qed

section \<open>The maps a snapshot is read into\<close>

definition keyed :: "('v \<Rightarrow> 'k) \<Rightarrow> ('k, 'v) omap \<Rightarrow> bool" where
  "keyed key m \<longleftrightarrow> list_all (\<lambda>(k, v). key v = k) m"

lemma keyed_find: "om_sorted m \<Longrightarrow> keyed key m \<longleftrightarrow> (\<forall>k v. om_find m k = Some v \<longrightarrow> key v = k)"
  using om_find_in [of m] by (fastforce simp: keyed_def list_all_iff)

lemma keyed_keys: "keyed key m \<Longrightarrow> map key (map snd m) = om_keys m"
  by (auto simp: keyed_def list_all_iff om_keys_def)

lemma foldl_put_sorted: "om_sorted (m @ m') \<Longrightarrow> foldl (\<lambda>m (k, v). om_put k v m) m m' = m @ m'"
proof (induction m' arbitrary: m)
  case (Cons p m')
  obtain k v where p: "p = (k, v)" by force
  have "om_put k v m = m @ [(k, v)]"
    using Cons.prems by (intro om_put_append) (auto simp: om_sorted_def om_keys_def p sorted_wrt_append)
  then show ?case using Cons by (simp add: p)
qed simp

lemma index_by_keyed:
  assumes "om_sorted m" and "keyed key m"
  shows "index_by key (map snd m) = m"
proof -
  have "foldl (\<lambda>m v. om_put (key v) v m) a (map snd m') = foldl (\<lambda>m (k, v). om_put k v m) a m'"
    if "keyed key m'" for a m'
    using that by (induction m' arbitrary: a) (auto simp: keyed_def)
  then show ?thesis using assms foldl_put_sorted [of "[]" m] by (simp add: index_by_def)
qed

lemma index_by_find:
  "om_sorted (index_by key xs) \<and> (\<forall>k v. om_find (index_by key xs) k = Some v \<longrightarrow> key v = k \<and> v \<in> set xs)"
  unfolding index_by_def by (induction xs rule: rev_induct) auto

lemma emplace_all_sorted: "om_sorted m \<Longrightarrow> emplace_all m [] = m"
proof -
  have "om_sorted (m' @ m) \<Longrightarrow> emplace_all m m' = m' @ m" for m'
  proof (induction m arbitrary: m')
    case (Cons p m)
    obtain k v where p: "p = (k, v)" by force
    have *: "\<forall>k' \<in> set (om_keys m'). k' < k"
      using Cons.prems by (auto simp: om_sorted_def om_keys_def p sorted_wrt_append)
    then have "om_emplace k v m' = (m' @ [(k, v)], True)"
      by (subst om_emplace_new) (auto simp: om_put_append)
    then show ?case using Cons by (simp add: p)
  qed simp
  then show "om_sorted m \<Longrightarrow> ?thesis" by simp
qed

lemma sort_keyed: "om_sorted m \<Longrightarrow> keyed key m \<Longrightarrow> sort_key key (map snd m) = map snd m"
  by (intro sort_key_id_if_sorted)
     (simp add: keyed_keys [simplified] om_sorted_def strict_sorted_imp_sorted)

lemma keyed_distinct: "om_sorted m \<Longrightarrow> keyed key m \<Longrightarrow> distinct (map key (map snd m))"
  using om_sorted_distinct keyed_keys by metis

section \<open>Round trip\<close>

text \<open>
  What can be written: every string and list has a length of 64 bits, no double of a capability
  is a NaN or infinite, and the body's length leaves room for the header.
\<close>

definition snapshot_ok :: "controller \<Rightarrow> bool" where
  "snapshot_ok c \<longleftrightarrow>
     list_all replica_set_ok (map snd (ct_sets c)) \<and> list_all replica_ok (map snd (ct_replicas c)) \<and>
     list_all worker_ok (map snd (ct_workers c)) \<and> list_all promotion_ok (ct_promotions c) \<and>
     list_all drain_ok (ct_drains c) \<and> list_all failover_ok (ct_failovers c) \<and>
     length (snapshot_body c) + 24 < 2 ^ 64"

definition recovered :: "controller \<Rightarrow> RecoveredState" where
  "recovered c = \<lparr>rc_sets = ct_sets c, rc_replicas = ct_replicas c, rc_workers = map snd (ct_workers c),
     rc_promotions = ct_promotions c, rc_drains = ct_drains c, rc_failovers = ct_failovers c\<rparr>"

definition maps_keyed :: "controller \<Rightarrow> bool" where
  "maps_keyed c \<longleftrightarrow> om_sorted (ct_sets c) \<and> om_sorted (ct_replicas c) \<and> om_sorted (ct_workers c) \<and>
     keyed s_id (ct_sets c) \<and> keyed r_id (ct_replicas c) \<and> keyed w_worker_id (ct_workers c)"

lemma body_of_controller:
  "maps_keyed c \<Longrightarrow> snapshot_body c = body_bytes (map snd (ct_sets c)) (map snd (ct_replicas c))
     (map snd (ct_workers c)) (ct_promotions c) (ct_drains c) (ct_failovers c) (ct_epoch c)"
  by (simp add: maps_keyed_def snapshot_body_def body_bytes_def sort_keyed)

lemma vector_fits: "(\<And>x. wr x \<noteq> []) \<Longrightarrow> length xs \<le> length (write_vector wr xs)"
proof (induction xs)
  case (Cons x xs)
  have "wr x \<noteq> []" by (rule Cons.prems)
  then show ?case using Cons by (cases "wr x") (auto simp: write_vector_def)
qed simp

lemma groups_of_controller:
  assumes "maps_keyed c" and "snapshot_ok c"
  shows "groups_ok (map snd (ct_sets c)) (map snd (ct_replicas c)) (map snd (ct_workers c))
     (ct_promotions c) (ct_drains c) (ct_failovers c)"
proof -
  have "length (write_vector write_replica_set (map snd (ct_sets c))) +
      length (write_vector write_replica (map snd (ct_replicas c))) +
      length (write_vector write_worker (map snd (ct_workers c))) +
      length (write_vector write_promotion (ct_promotions c)) +
      length (write_vector write_drain (ct_drains c)) +
      length (write_vector write_failover (ct_failovers c)) < 2 ^ 64"
    using assms(2) unfolding snapshot_ok_def body_of_controller [OF assms(1)] body_bytes_def by simp
  then show ?thesis
    using assms
      vector_fits [of write_replica_set "map snd (ct_sets c)", OF replica_set_codec.nonempty]
      vector_fits [of write_replica "map snd (ct_replicas c)", OF replica_codec.nonempty]
      vector_fits [of write_worker "map snd (ct_workers c)", OF worker_codec.nonempty]
      vector_fits [of write_promotion "ct_promotions c", OF promotion_codec.nonempty]
      vector_fits [of write_drain "ct_drains c", OF drain_codec.nonempty]
      vector_fits [of write_failover "ct_failovers c", OF failover_codec.nonempty]
    by (simp add: groups_ok_def snapshot_ok_def maps_keyed_def keyed_distinct [simplified] fits_def)
qed

lemma decode_make:
  assumes "maps_keyed c" and "snapshot_ok c"
  shows "decode_snapshot (make_snapshot c) = Inr (recovered c)"
proof -
  have "read_body (snapshot_body c) = Inr (recovered c, [])"
    using read_body_wr [OF groups_of_controller [OF assms], of "ct_epoch c" "[]"] assms
    by (simp add: body_of_controller state_of_def recovered_def maps_keyed_def index_by_keyed)
  then show ?thesis
    using assms(2) by (simp add: make_snapshot_frame decode_frame snapshot_ok_def)
qed

section \<open>Recovery\<close>

text \<open>The identities recovery insists on.\<close>

definition identified :: "controller \<Rightarrow> bool" where
  "identified c \<longleftrightarrow>
     list_all (\<lambda>(rid, r). \<not> is_null rid \<and> \<not> is_null (r_set_id r) \<and> \<not> is_null (r_generation r)) (ct_replicas c) \<and>
     list_all (\<lambda>(sid, s). \<not> is_null sid) (ct_sets c)"

lemma first_error_None: "first_error f xs = None \<longleftrightarrow> list_all (\<lambda>x. f x = None) xs"
  by (induction xs) (auto split: option.splits)

lemma controller_keyed:
  "controller_ok c \<Longrightarrow> keyed w_worker_id (ct_workers c) \<Longrightarrow> maps_keyed c"
  using ok_replica [of c] ok_set [of c] by (auto simp: maps_keyed_def keyed_find)

lemma keyed_put: "keyed key m \<Longrightarrow> key v = k \<Longrightarrow> keyed key (om_put k v m)"
  unfolding keyed_def by (induction k v m rule: om_put.induct) auto

lemma keyed_erase: "keyed key m \<Longrightarrow> keyed key (om_erase k m)"
  unfolding keyed_def by (induction k m rule: om_erase.induct) auto

lemma workers_of_put [simp]:
  "ct_workers (put_replica rid r c) = ct_workers c" "ct_workers (put_set sid s c) = ct_workers c"
  by (simp_all add: put_replica_def put_set_def)

lemma command_workers_keyed:
  "keyed w_worker_id (ct_workers c) \<Longrightarrow> keyed w_worker_id (ct_workers (snd (run_command cmd c)))"
proof (cases cmd)
  case (ProvisionReplica rid sid w cm dv cap t u)
  then show "keyed w_worker_id (ct_workers c) \<Longrightarrow> ?thesis"
    by (rule_tac provision_result [of rid sid w cm dv cap t u c]) auto
qed (auto simp: keyed_put keyed_erase register_worker_def unregister_worker_def set_allocating_def set_starting_def
      warm_replica_def report_health_def report_readiness_def drain_replica_def complete_drain_def
      fail_replica_def retire_replica_def set_epoch_def create_replica_set_def transition_replica_set_def
      promote_replica_def trigger_failover_def Let_def split: option.splits prod.splits list.splits)

lemma run_workers_keyed: "keyed w_worker_id (ct_workers (run_commands cmds (new_controller g)))"
proof -
  have "keyed w_worker_id (ct_workers c) \<Longrightarrow> keyed w_worker_id (ct_workers (run_commands cmds c))" for c
    by (induction cmds arbitrary: c) (simp_all add: command_workers_keyed)
  then show ?thesis by (simp add: new_controller_def keyed_def)
qed

lemma validate_None:
  "validate_recovered_state st = None \<longleftrightarrow>
     list_all (\<lambda>(rid, r). validate_replica st r = None) (rc_replicas st) \<and>
     list_all (\<lambda>(sid, s). validate_set s = None) (rc_sets st)"
  by (auto simp: validate_recovered_state_def case_prod_unfold simp flip: first_error_None
      split: option.splits)

lemma validate_captured:
  assumes "controller_ok c"
  shows "validate_recovered_state (recovered c) = None \<longleftrightarrow> identified c"
proof -
  have reps: "list_all (\<lambda>(rid, r). validate_replica (recovered c) r = None) (ct_replicas c) \<longleftrightarrow>
      list_all (\<lambda>(rid, r). \<not> is_null rid \<and> \<not> is_null (r_set_id r) \<and> \<not> is_null (r_generation r)) (ct_replicas c)"
    using ok_replica [OF assms] assms
    by (intro list_all_cong) (fastforce simp: validate_replica_def recovered_def om_find_in)+
  have sets: "list_all (\<lambda>(sid, s). validate_set s = None) (ct_sets c) \<longleftrightarrow>
      list_all (\<lambda>(sid, s). \<not> is_null sid) (ct_sets c)"
    using ok_set [OF assms] assms
    by (intro list_all_cong) (fastforce simp: validate_set_def set_counts_ok_def om_find_in not_less)+
  show ?thesis
    unfolding identified_def reps [symmetric] sets [symmetric] validate_None
    by (simp add: recovered_def)
qed

lemma emplace_forget:
  "om_sorted m \<Longrightarrow> emplace_all (map (\<lambda>(rid, r). (rid, forget_authority r)) m) [] =
     om_map (\<lambda>_. forget_authority) m"
  unfolding om_map_def [symmetric] by (rule emplace_all_sorted) simp

text \<open>The state a recovery leaves behind when the snapshot is of a controller's own.\<close>

definition restored :: "controller \<Rightarrow> controller \<Rightarrow> controller" where
  "restored c c' = c'\<lparr>ct_sets := ct_sets c, ct_replicas := om_map (\<lambda>_. forget_authority) (ct_replicas c),
     ct_workers := ct_workers c, ct_promotions := ct_promotions c, ct_drains := ct_drains c,
     ct_failovers := ct_failovers c\<rparr>"

lemma install_recovered:
  assumes "maps_keyed c"
  shows "install_recovered_state (recovered c) c' = restored c c'"
proof -
  have ws: "map (\<lambda>w. (w_worker_id w, w)) (map snd (ct_workers c)) = ct_workers c"
    using assms by (auto simp: maps_keyed_def keyed_def list_all_iff intro!: map_idI)
  show ?thesis
    using assms ws by (simp add: install_recovered_state_def recovered_def restored_def maps_keyed_def
        emplace_all_sorted emplace_forget)
qed

lemma om_count_map: "(\<And>k v. P k (f k v) = P k v) \<Longrightarrow> om_count P (om_map f m) = om_count P m"
  by (induction m) (auto simp: om_map_def)

lemma forget_fields [simp]:
  "r_id (forget_authority r) = r_id r" "r_set_id (forget_authority r) = r_set_id r"
  "r_worker_id (forget_authority r) = r_worker_id r" "r_lifecycle (forget_authority r) = r_lifecycle r"
  "r_boot_id (forget_authority r) = null_id" "\<not> r_serving_eligible (forget_authority r)"
  "authority_ok (forget_authority r)"
  by (simp_all add: forget_authority_def authority_ok_def)

lemma restored_ok:
  assumes "controller_ok c"
  shows "controller_ok (restored c c')"
proof -
  have "members sid (restored c c') = members sid c" for sid
    by (simp add: members_def restored_def om_count_map)
  then show ?thesis
    using assms unfolding controller_ok_def maps_sorted_def replicas_ok_def sets_ok_def
    by (auto simp: restored_def)
qed

text \<open>
  C15. What a coordinator persists is what it recovers: for every controller that a sequence of
  commands reaches and whose contents can be written, recovery of its snapshot succeeds exactly
  when no replica, set or generation identity is null, and then leaves a controller that
  satisfies the invariant and holds the same sets, workers, promotions, drains and failovers,
  and the same replicas with their authority forgotten; the epoch is the recovering
  controller's own.
\<close>

theorem capture_recover_roundtrip:
  fixes cmds :: "command list" and g :: engine
  defines "c \<equiv> run_commands cmds (new_controller g)"
  assumes "snapshot_ok c"
  shows "(fst (recover_into (capture_and_clear_authority c) c') = Inr () \<longleftrightarrow> identified c) \<and>
    (identified c \<longrightarrow> recover_into (capture_and_clear_authority c) c' = (Inr (), restored c c') \<and>
       controller_ok (restored c c'))"
proof -
  have ok: "controller_ok c" by (simp add: c_def)
  have k: "maps_keyed c" using ok run_workers_keyed unfolding c_def by (rule controller_keyed)
  show ?thesis
    using validate_captured [OF ok] restored_ok [OF ok, of c'] install_recovered [OF k, of c']
    by (auto simp: recover_into_def capture_and_clear_authority_def decode_make [OF k assms(2)]
        split: option.splits)
qed

section \<open>What recovery never does\<close>

lemma accepted_groups:
  assumes "recover_into bytes c = (Inr (), c')"
  obtains st where "validate_recovered_state st = None" "c' = install_recovered_state st c"
    "om_sorted (rc_sets st)" "om_sorted (rc_replicas st)" "keyed s_id (rc_sets st)" "keyed r_id (rc_replicas st)"
proof -
  obtain st where st: "decode_snapshot bytes = Inr st" "validate_recovered_state st = None"
    "c' = install_recovered_state st c"
    using assms by (auto simp: recover_into_def split: sum.splits option.splits)
  from decode_accepts [OF st(1)] obtain body where "read_body body = Inr (st, [])" by blast
  then obtain ss rs ws ps ds fs where "st = state_of ss rs ws ps ds fs"
    using read_body_accepts by blast
  then show ?thesis
    using st index_by_find [of s_id ss] index_by_find [of r_id rs]
    by (intro that) (auto simp: state_of_def keyed_find)
qed

lemma recovered_replica:
  assumes "recover_into bytes c = (Inr (), c')" and "om_find (ct_replicas c') rid = Some r"
  shows "\<exists>r0. r = forget_authority r0 \<and> r_id r = rid"
proof -
  obtain st where st: "c' = install_recovered_state st c" "om_sorted (rc_replicas st)" "keyed r_id (rc_replicas st)"
    using accepted_groups [OF assms(1)] by blast
  then have "ct_replicas c' = om_map (\<lambda>_. forget_authority) (rc_replicas st)"
    by (simp add: install_recovered_state_def emplace_forget)
  then show ?thesis
    using assms(2) st keyed_find [OF st(2)] by auto
qed

lemma prefix_free:
  assumes "decode_snapshot bytes = Inr st" and "decode_snapshot (bytes @ extra) = Inr st'"
  shows "extra = []"
proof -
  from decode_accepts [OF assms(1)] obtain body where b: "length body + 24 < 2 ^ 64"
    "bytes = frame body @ write_u64 (crc64 (frame body))" by blast
  from decode_accepts [OF assms(2)] obtain body' where b': "length body' + 24 < 2 ^ 64"
    "bytes @ extra = frame body' @ write_u64 (crc64 (frame body'))" by blast
  have d: "drop 16 (frame x) = write_u64 (of_nat (length x)) @ x" for x
    by (simp add: frame_def)
  have "write_u64 (of_nat (length body)) @ body @ write_u64 (crc64 (frame body)) @ extra = drop 16 (bytes @ extra)"
    by (simp add: b(2) d)
  also have "\<dots> = write_u64 (of_nat (length body')) @ body' @ write_u64 (crc64 (frame body'))"
    by (simp add: b'(2) d)
  finally have "of_nat (length body) = (of_nat (length body') :: u64)"
    using u64.wr_inject by blast
  then have "length body = length body'"
    using u64_of_nat [OF add_lessD1 [OF b(1)]] u64_of_nat [OF add_lessD1 [OF b'(1)]] by argo
  moreover have "length (bytes @ extra) = 32 + length body'"
    unfolding b'(2) by simp
  moreover have "length bytes = 32 + length body"
    unfolding b(2) by simp
  ultimately show ?thesis by simp
qed

lemma crc_bytes_determined:
  assumes "decode_snapshot bytes = Inr st"
  shows "drop (length bytes - 8) bytes = write_u64 (crc64 (take (length bytes - 8) bytes))"
  using decode_accepts [OF assms] by auto

lemma changed_byte_refused:
  assumes "decode_snapshot bytes = Inr st" and "i < length bytes" and "b \<noteq> bytes ! i"
  shows "decode_snapshot (bytes[i := b]) \<noteq> Inr st'"
proof
  assume "decode_snapshot (bytes[i := b]) = Inr st'"
  note new = crc_bytes_determined [OF this]
  note old = crc_bytes_determined [OF assms(1)]
  let ?n = "length bytes - 8"
  show False
  proof (cases "i < ?n")
    case True
    then have "write_u64 (crc64 ((take ?n bytes)[i := b])) = write_u64 (crc64 (take ?n bytes))"
      using new old by (simp add: take_update_swap)
    then have "crc64 ((take ?n bytes)[i := b]) = crc64 (take ?n bytes)"
      using u64.wr_inject [where r = "[]" and s = "[]"] by simp
    then show False
      using crc64_update [of i "take ?n bytes" b] True assms(3) by simp
  next
    case False
    then have "drop ?n (bytes[i := b]) = drop ?n bytes"
      using new old by simp
    then have "drop ?n (bytes[i := b]) ! (i - ?n) = drop ?n bytes ! (i - ?n)" by simp
    then show False using False assms(2,3) by simp
  qed
qed

lemma not_Inr_is_Inl: "(\<forall>y. x \<noteq> Inr y) \<longleftrightarrow> (\<exists>e. x = Inl e)"
  by (cases x) auto

text \<open>
  C19. A snapshot that has been damaged is refused: if a byte string is accepted, then so is no
  string that differs from it in exactly one byte, wherever it is, no proper prefix of it and
  no extension of it.
\<close>

theorem damaged_snapshot_refused:
  assumes "decode_snapshot bytes = Inr st"
  shows "(i < length bytes \<and> b \<noteq> bytes ! i \<longrightarrow> (\<exists>e. decode_snapshot (bytes[i := b]) = Inl e)) \<and>
    (n < length bytes \<longrightarrow> (\<exists>e. decode_snapshot (take n bytes) = Inl e)) \<and>
    (extra \<noteq> [] \<longrightarrow> (\<exists>e. decode_snapshot (bytes @ extra) = Inl e))"
proof (intro conjI impI; unfold not_Inr_is_Inl [symmetric]; intro allI)
  show "i < length bytes \<and> b \<noteq> bytes ! i \<Longrightarrow> decode_snapshot (bytes[i := b]) \<noteq> Inr y" for y
    using changed_byte_refused [OF assms] by blast
  show "extra \<noteq> [] \<Longrightarrow> decode_snapshot (bytes @ extra) \<noteq> Inr y" for y
    using prefix_free [OF assms] by blast
  show "n < length bytes \<Longrightarrow> decode_snapshot (take n bytes) \<noteq> Inr y" for y
    using prefix_free [of "take n bytes" y "drop n bytes"] assms by auto
qed

text \<open>
  C18. The decoder is strict: it accepts a byte string exactly when it is the magic, the two
  version numbers, the length of the body, the body and its checksum, the body being the
  encodings of representable records, group after group, with no two sets and no two replicas
  of the same id (the workers, promotions, drains and failovers may repeat ids, see
  \<open>duplicate_ids_accepted\<close>); and what it returns is those records, the sets and replicas indexed by
  id. A length field that wraps around is never accepted.
\<close>

theorem decode_accepts_exactly:
  "decode_snapshot bytes = Inr st \<longleftrightarrow>
     (\<exists>sets replicas workers promotions drains failovers ep.
        groups_ok sets replicas workers promotions drains failovers \<and>
        st = state_of sets replicas workers promotions drains failovers \<and>
        (let body = body_bytes sets replicas workers promotions drains failovers ep
         in length body + 24 < 2 ^ 64 \<and> bytes = frame body @ write_u64 (crc64 (frame body))))"
proof
  assume "decode_snapshot bytes = Inr st"
  from decode_accepts [OF this] obtain body where b: "length body + 24 < 2 ^ 64"
    "bytes = frame body @ write_u64 (crc64 (frame body))" "read_body body = Inr (st, [])" by blast
  from read_body_accepts [OF b(3)] b(1,2) show "\<exists>sets replicas workers promotions drains failovers ep.
        groups_ok sets replicas workers promotions drains failovers \<and>
        st = state_of sets replicas workers promotions drains failovers \<and>
        (let body = body_bytes sets replicas workers promotions drains failovers ep
         in length body + 24 < 2 ^ 64 \<and> bytes = frame body @ write_u64 (crc64 (frame body)))"
    unfolding Let_def append_Nil2 by blast
next
  assume "\<exists>sets replicas workers promotions drains failovers ep.
        groups_ok sets replicas workers promotions drains failovers \<and>
        st = state_of sets replicas workers promotions drains failovers \<and>
        (let body = body_bytes sets replicas workers promotions drains failovers ep
         in length body + 24 < 2 ^ 64 \<and> bytes = frame body @ write_u64 (crc64 (frame body)))"
  then show "decode_snapshot bytes = Inr st"
    using read_body_wr [where rest = "[]"] by (auto simp: Let_def decode_frame)
qed

text \<open>
  C16. Recovery clears authority, whatever the bytes: a recovery that fails leaves the controller
  as it was; after one that succeeds no replica is servable, and every replica is without the
  serving flag, a worker boot, a role, health, readiness and warmth, and with no request in
  flight, while the coordinator's epoch stays its own.
\<close>

theorem recovery_clears_authority:
  "case recover_into bytes c of
     (Inl e, c') \<Rightarrow> c' = c
   | (Inr _, c') \<Rightarrow> ct_epoch c' = ct_epoch c \<and>
       (\<forall>rid. \<not> sa_eligible (servable rid c')) \<and>
       (\<forall>rid r. find_replica rid c' = Some r \<longrightarrow> r_id r = rid \<and> \<not> r_serving_eligible r \<and>
          is_null (r_boot_id r) \<and> r_role r = ReplicaRole.NONE \<and> r_promotion r = PromotionState.NOT_PROMOTED \<and>
          r_health r = HealthState.STARTING \<and> r_readiness r = ReadinessState.UNKNOWN \<and>
          r_warmth r = WarmthState.COLD \<and> r_active_requests r = 0)"
proof (cases "recover_into bytes c")
  case (Pair res c')
  show ?thesis
  proof (cases res)
    case (Inl e)
    then show ?thesis
      using Pair by (auto simp: recover_into_def split: sum.splits option.splits)
  next
    case (Inr u)
    then have ok: "recover_into bytes c = (Inr (), c')" using Pair by simp
    note r = recovered_replica [OF ok]
    have "\<not> sa_eligible (servable rid c')" for rid
      using r [of rid] by (auto simp: servable_iff)
    moreover have "ct_epoch c' = ct_epoch c"
      using ok by (auto simp: recover_into_def install_recovered_state_def split: sum.splits option.splits)
    ultimately show ?thesis
      using r by (fastforce simp: Pair Inr find_replica_def forget_authority_def)
  qed
qed

text \<open>
  C17. A recovered replica does not come back by itself: after a successful recovery no sequence
  of commands makes it servable for as long as its worker is registered under a boot of its
  own, whatever evidence is reported for it and whoever promotes it; only provisioning it
  again gives it a boot.
\<close>

theorem recovered_replica_fenced:
  assumes "recover_into bytes c = (Inr (), c')" and "controller_ok c'"
    and "find_replica rid c' = Some r" and "no_provision rid cmds"
    and "om_find (ct_workers (run_commands cmds c')) (r_worker_id r) = Some w" and "w_boot_id w \<noteq> null_id"
  shows "\<not> sa_eligible (servable rid (run_commands cmds c'))"
proof -
  have "r_boot_id r = null_id"
    using recovered_replica [OF assms(1), of rid r] assms(3) by (auto simp: find_replica_def)
  moreover obtain r' where "om_find (ct_replicas (run_commands cmds c')) rid = Some r'" "same_incarnation r r'"
    using follows_invariant [of c' rid r cmds "\<lambda>_. True"] assms by (auto simp: find_replica_def)
  ultimately show ?thesis
    using not_servable [of "run_commands cmds c'" rid r'] assms(5,6)
    by (auto simp: current_boot_boot_of boot_of_def same_incarnation_def)
qed

section \<open>The snapshot of the example\<close>

lemmas write_defs = write_vector_def write_string_def write_id_def write_enum_def write_u8_def
  write_boolean_def write_f64_def write_i64_def write_strings_def write_cc_def write_device_def write_backend_def write_inventory_def write_health_policy_def write_warming_policy_def write_draining_policy_def write_promotion_policy_def write_failover_policy_def write_policies_def write_synthetic_domain_def write_placement_policy_def write_compat_req_def write_replica_compat_def write_health_record_def write_readiness_record_def write_warming_record_def write_replica_set_def write_replica_def write_worker_def write_promotion_def write_drain_def write_failover_def 

lemmas ok_defs = fits_def strings_ok_def is_nan_or_inf_def device_ok_def device_vector_ok_def backend_ok_def backend_vector_ok_def inventory_ok_def health_policy_ok_def policies_ok_def synthetic_domain_ok_def synthetic_domain_vector_ok_def placement_policy_ok_def compat_req_ok_def replica_compat_ok_def health_record_ok_def readiness_record_ok_def warming_record_ok_def replica_set_ok_def replica_ok_def worker_ok_def promotion_ok_def drain_ok_def failover_ok_def 

lemmas default_defs = ComputeCapability_default_def BackendCapability_default_def DeviceCapability_default_def ResourceInventory_default_def CompatibilityRequirements_default_def ReplicaCompatibility_default_def WorkerRegistration_default_def PromotionRecord_default_def DrainRecord_default_def FailoverRecord_default_def HealthEvidence_default_def HealthRecord_default_def ReadinessFactors_default_def ReadinessRecord_default_def WarmingRecord_default_def SyntheticFailureDomain_default_def PlacementPolicy_default_def ReplicaState_default_def ReplicaSetState_default_def HealthPolicy_default_def WarmingPolicy_default_def DrainingPolicy_default_def PromotionPolicy_default_def FailoverPolicy_default_def PolicyBundle_default_def ServingAuthorityDecision_default_def 

lemma demo_keyed: "maps_keyed demo"
  by (rule controller_keyed [OF demo_ok]) (simp add: demo_eq keyed_def)

lemma demo_records_ok:
  "replica_set_ok live_set" "replica_ok (live_replica (MkId 0 1000))" "worker_ok demo_worker"
  "promotion_ok (live_promotion (MkId 0 1000))"
  by (simp_all add: ok_defs default_defs live_simps demo_simps)

lemma demo_lengths:
  "length (write_replica_set live_set) < 10000" "length (write_replica (live_replica (MkId 0 1000))) < 10000"
  "length (write_worker demo_worker) < 10000"
  "length (write_promotion (live_promotion (MkId 0 1000))) < 10000"
  by (simp_all add: write_defs default_defs live_simps demo_simps)

lemma demo_snapshot_ok: "snapshot_ok demo"
  unfolding snapshot_ok_def body_of_controller [OF demo_keyed]
  using demo_lengths by (simp add: demo_eq body_bytes_def demo_records_ok write_vector_def write_id_def)

lemma demo_identified: "identified demo"
  by (simp add: identified_def demo_eq null_id_def live_replica_def new_replica_def)

lemma promote_workers: "ct_workers (snd (promote_replica rid tg w b t u c)) = ct_workers c"
  by (auto simp: promote_replica_def Let_def split: option.splits prod.splits)

theorem capture_recover_roundtrip_witness:
  "recover_into (capture_and_clear_authority demo) (new_controller demo_rng) =
     (Inr (), restored demo (new_controller demo_rng))"
  using capture_recover_roundtrip [of "demo_start @ demo_up (MkId 0 1000)" demo_rng "new_controller demo_rng"]
  unfolding demo_def [symmetric]
  by (simp add: demo_snapshot_ok demo_identified)

lemma demo_decodes: "decode_snapshot (make_snapshot demo) = Inr (recovered demo)"
  by (rule decode_make [OF demo_keyed demo_snapshot_ok])

theorem damaged_snapshot_refused_witness:
  "\<exists>e. decode_snapshot (make_snapshot demo @ [0]) = Inl e"
  using damaged_snapshot_refused [OF demo_decodes, of 0 0 0 "[0]"] by simp

lemma demo_recovers:
  "recover_into (make_snapshot demo) (new_controller demo_rng) =
     (Inr (), restored demo (new_controller demo_rng))"
  using validate_captured [OF demo_ok] install_recovered [OF demo_keyed]
  by (simp add: recover_into_def demo_decodes demo_identified)

theorem recovered_replica_fenced_witness:
  "\<not> sa_eligible (servable (MkId 0 1000) (run_commands
     [PromoteReplica (MkId 0 1000) PromotionState.PRIMARY (MkId 0 1) null_id 10 10]
     (restored demo (new_controller demo_rng))))"
proof (rule recovered_replica_fenced [OF demo_recovers])
  show "controller_ok (restored demo (new_controller demo_rng))" by (rule restored_ok) simp
  show "find_replica (MkId 0 1000) (restored demo (new_controller demo_rng)) =
      Some (forget_authority (live_replica (MkId 0 1000)))"
    by (simp add: find_replica_def restored_def)
  show "om_find (ct_workers (run_commands
      [PromoteReplica (MkId 0 1000) PromotionState.PRIMARY (MkId 0 1) null_id 10 10]
      (restored demo (new_controller demo_rng)))) (r_worker_id (forget_authority (live_replica (MkId 0 1000)))) =
      Some demo_worker"
    by (simp add: promote_workers restored_def)
qed (simp_all add: no_provision_def provisions_def null_id_def)

theorem recovery_clears_authority_witness:
  "ct_epoch (restored demo (new_controller demo_rng)) = null_id \<and>
   \<not> sa_eligible (servable (MkId 0 1000) (restored demo (new_controller demo_rng)))"
proof -
  have "ct_epoch (new_controller demo_rng) = null_id"
    by (simp add: new_controller_def)
  then show ?thesis
    using recovery_clears_authority [where bytes = "make_snapshot demo" and c = "new_controller demo_rng"]
    unfolding demo_recovers by simp
qed

text \<open>
  Ids are unique among the sets and among the replicas only. The bytes below hold two registrations of
  one worker, under different boots, and the same promotion, drain and failover twice; they are
  decoded and recovered, and of the two registrations the first is kept.
\<close>

definition other_boot :: WorkerRegistration where
  "other_boot = demo_worker\<lparr>w_boot_id := MkId 0 12\<rparr>"

abbreviation twice :: "'a \<Rightarrow> 'a list" where "twice x \<equiv> [x, x]"

definition duplicate_body :: bytes where
  "duplicate_body = body_bytes [] [] [demo_worker, other_boot] (twice (live_promotion (MkId 0 1000)))
     (twice DrainRecord_default) (twice FailoverRecord_default) (MkId 0 200)"

definition duplicates :: bytes where
  "duplicates = frame duplicate_body @ write_u64 (crc64 (frame duplicate_body))"

lemma other_records_ok:
  "worker_ok other_boot" "drain_ok DrainRecord_default" "failover_ok FailoverRecord_default"
  "length (write_worker other_boot) < 10000" "length (write_drain DrainRecord_default) < 10000"
  "length (write_failover FailoverRecord_default) < 10000"
  by (simp_all add: ok_defs write_defs default_defs other_boot_def demo_simps)

theorem duplicate_ids_accepted:
  "\<exists>st c. decode_snapshot duplicates = Inr st \<and> rc_workers st = [demo_worker, other_boot] \<and>
     w_worker_id other_boot = w_worker_id demo_worker \<and>
     rc_promotions st = twice (live_promotion (MkId 0 1000)) \<and> rc_drains st = twice DrainRecord_default \<and>
     rc_failovers st = twice FailoverRecord_default \<and>
     recover_into duplicates (new_controller demo_rng) = (Inr (), c) \<and> ct_workers c = [(MkId 0 1, demo_worker)]"
proof -
  let ?st = "state_of [] [] [demo_worker, other_boot] (twice (live_promotion (MkId 0 1000)))
     (twice DrainRecord_default) (twice FailoverRecord_default)"
  have "groups_ok [] [] [demo_worker, other_boot] (twice (live_promotion (MkId 0 1000)))
     (twice DrainRecord_default) (twice FailoverRecord_default)"
    by (simp add: groups_ok_def fits_def demo_records_ok other_records_ok)
  moreover have "length duplicate_body + 24 < 2 ^ 64"
    using demo_lengths other_records_ok by (simp add: duplicate_body_def body_bytes_def write_vector_def write_id_def)
  ultimately have "decode_snapshot duplicates = Inr ?st"
    unfolding duplicates_def duplicate_body_def using read_body_wr [where rest = "[]"] by (simp add: decode_frame)
  then show ?thesis
    by (simp add: recover_into_def state_of_def validate_recovered_state_def install_recovered_state_def
        index_by_def other_boot_def om_emplace_def)
qed

end
