(* ===== verification/Protocol.thy ===== *)
theory Protocol
  imports Codec
begin

text \<open>
  The framed messages of \<open>distributed/protocol.hpp\<close> and \<open>src/protocol.cpp\<close>. \<open>MessageKind\<close> has a
  fixed underlying type, so the decoder's cast can give it any byte; it is a byte here, with the
  enumerators as constants. \<open>decode_message\<close> has an out parameter that keeps what was read
  before a failure, and it reads the identities without a bounds check: such a read is the
  outcome \<open>Out_of_bounds\<close>.
\<close>

section \<open>Messages\<close>

type_synonym MessageKind = u8

definition HELLO :: MessageKind where "HELLO = 1"
definition REGISTER :: MessageKind where "REGISTER = 2"
definition REGISTER_ACK :: MessageKind where "REGISTER_ACK = 3"
definition CREATE_SET :: MessageKind where "CREATE_SET = 4"
definition CREATE_SET_ACK :: MessageKind where "CREATE_SET_ACK = 5"
definition PROVISION :: MessageKind where "PROVISION = 6"
definition PROVISION_ACK :: MessageKind where "PROVISION_ACK = 7"
definition WARM :: MessageKind where "WARM = 8"
definition WARM_DONE :: MessageKind where "WARM_DONE = 9"
definition HEALTH :: MessageKind where "HEALTH = 10"
definition READINESS :: MessageKind where "READINESS = 11"
definition PROMOTE :: MessageKind where "PROMOTE = 12"
definition PROMOTE_ACK :: MessageKind where "PROMOTE_ACK = 13"
definition DRAIN :: MessageKind where "DRAIN = 14"
definition DRAIN_ACK :: MessageKind where "DRAIN_ACK = 15"
definition FAILOVER :: MessageKind where "FAILOVER = 16"
definition FAILOVER_ACK :: MessageKind where "FAILOVER_ACK = 17"
definition EXECUTE :: MessageKind where "EXECUTE = 18"
definition EXECUTE_RESULT :: MessageKind where "EXECUTE_RESULT = 19"
definition SNAPSHOT :: MessageKind where "SNAPSHOT = 20"
definition MSG_ERROR :: MessageKind where "MSG_ERROR = 21"
definition PING :: MessageKind where "PING = 22"
definition PONG :: MessageKind where "PONG = 23"
definition QUERY :: MessageKind where "QUERY = 24"

lemmas message_kinds = HELLO_def REGISTER_def REGISTER_ACK_def CREATE_SET_def CREATE_SET_ACK_def PROVISION_def PROVISION_ACK_def WARM_def WARM_DONE_def HEALTH_def READINESS_def PROMOTE_def PROMOTE_ACK_def DRAIN_def DRAIN_ACK_def FAILOVER_def FAILOVER_ACK_def EXECUTE_def EXECUTE_RESULT_def SNAPSHOT_def MSG_ERROR_def PING_def PONG_def QUERY_def

record Message =
  m_kind :: MessageKind
  m_seq :: u64
  m_epoch :: CoordinatorEpoch
  m_worker :: WorkerId
  m_boot :: WorkerBootId
  m_replica :: ReplicaId
  m_set :: ReplicaSetId
  m_attempt :: AttemptId
  m_payload :: string

definition Message_default :: Message where
  "Message_default = \<lparr>m_kind = HELLO, m_seq = 0, m_epoch = null_id, m_worker = null_id, m_boot = null_id,
     m_replica = null_id, m_set = null_id, m_attempt = null_id, m_payload = []\<rparr>"

section \<open>Encoding and decoding\<close>

definition encode_message :: "Message \<Rightarrow> bytes" where
  "encode_message m =
     write_u8 (m_kind m) @ write_u64 (m_seq m) @ write_id (m_epoch m) @ write_id (m_worker m) @
     write_id (m_boot m) @ write_id (m_replica m) @ write_id (m_set m) @ write_id (m_attempt m) @
     (let plen = of_nat (length (m_payload m)) :: u32
      in le_bytes 4 plen @ of_string (m_payload m))"

definition msg_read_u8 :: "bytes \<Rightarrow> nat \<Rightarrow> (u8 \<times> nat) option" where
  "msg_read_u8 p pos = (if pos + 1 > length p then None else Some (p ! pos, pos + 1))"

definition msg_read_u64 :: "bytes \<Rightarrow> nat \<Rightarrow> (u64 \<times> nat) option" where
  "msg_read_u64 p pos = (if pos + 8 > length p then None else Some (le_word 8 (drop pos p), pos + 8))"

text \<open>\<open>read_id\<close> copies sixteen bytes wherever it is told to; \<open>None\<close> is a copy past the buffer.\<close>

definition msg_read_id :: "bytes \<Rightarrow> nat \<Rightarrow> 'tag Id option" where
  "msg_read_id p pos = (if pos + 16 > length p then None else Some (from_bytes (take 16 (drop pos p))))"

datatype decode_result = Decoded Message | Malformed Message | Out_of_bounds

definition decode_payload :: "bytes \<Rightarrow> nat \<Rightarrow> Message \<Rightarrow> decode_result" where
  "decode_payload bytes pos out =
     (if pos + 4 > length bytes then Malformed out
      else let plen = le_word 4 (drop pos bytes) :: u32; pos = pos + 4
           in if pos + unat plen > length bytes then Malformed out
              else let out = out\<lparr>m_payload := to_string (take (unat plen) (drop pos bytes))\<rparr>;
                       pos = pos + unat plen
                   in if pos = length bytes then Decoded out else Malformed out)"

definition decode_message :: "bytes \<Rightarrow> Message \<Rightarrow> decode_result" where
  "decode_message bytes out =
     (case msg_read_u8 bytes 0 of None \<Rightarrow> Malformed out
      | Some (kind, pos) \<Rightarrow>
     (let out = out\<lparr>m_kind := kind\<rparr> in case msg_read_u64 bytes pos of None \<Rightarrow> Malformed out
      | Some (seq, pos) \<Rightarrow>
     (let out = out\<lparr>m_seq := seq\<rparr> in case msg_read_id bytes pos of None \<Rightarrow> Out_of_bounds
      | Some epoch \<Rightarrow>
     (let out = out\<lparr>m_epoch := epoch\<rparr>; pos = pos + 16 in case msg_read_id bytes pos of None \<Rightarrow> Out_of_bounds
      | Some worker \<Rightarrow>
     (let out = out\<lparr>m_worker := worker\<rparr>; pos = pos + 16 in case msg_read_id bytes pos of None \<Rightarrow> Out_of_bounds
      | Some boot \<Rightarrow>
     (let out = out\<lparr>m_boot := boot\<rparr>; pos = pos + 16 in case msg_read_id bytes pos of None \<Rightarrow> Out_of_bounds
      | Some replica \<Rightarrow>
     (let out = out\<lparr>m_replica := replica\<rparr>; pos = pos + 16 in case msg_read_id bytes pos of None \<Rightarrow> Out_of_bounds
      | Some set_id \<Rightarrow>
     (let out = out\<lparr>m_set := set_id\<rparr>; pos = pos + 16 in case msg_read_id bytes pos of None \<Rightarrow> Out_of_bounds
      | Some attempt \<Rightarrow>
     (let out = out\<lparr>m_attempt := attempt\<rparr>; pos = pos + 16 in decode_payload bytes pos out)))))))))"

section \<open>Payload text\<close>

definition newline :: char where "newline = CHR 0x0A"

definition set_payload :: "string \<Rightarrow> string \<Rightarrow> string \<Rightarrow> string" where
  "set_payload s k v = s @ k @ ''='' @ v @ [newline]"

text \<open>The loop of \<open>get_payload\<close> on what is left of the text from \<open>pos\<close> on.\<close>

function find_line :: "string \<Rightarrow> string \<Rightarrow> string \<Rightarrow> string" where
  "find_line needle def rest =
     (let line = takeWhile (\<lambda>c. c \<noteq> newline) rest
      in if length line \<ge> length needle \<and> take (length needle) line = needle
         then drop (length needle) line
         else case dropWhile (\<lambda>c. c \<noteq> newline) rest of
                [] \<Rightarrow> def
              | _ # after \<Rightarrow> find_line needle def after)"
  by pat_completeness auto
termination
proof (relation "measure (\<lambda>(needle, def, rest). length rest)")
  fix needle def rest line :: string and c :: char and after
  assume "dropWhile (\<lambda>c. c \<noteq> newline) rest = c # after"
  then have "length (c # after) \<le> length rest"
    using length_dropWhile_le [of "\<lambda>c. c \<noteq> newline" rest] by simp
  then show "((needle, def, after), (needle, def, rest)) \<in> measure (\<lambda>(needle, def, rest). length rest)"
    by simp
qed simp

declare find_line.simps [simp del]

definition get_payload :: "string \<Rightarrow> string \<Rightarrow> string \<Rightarrow> string" where
  "get_payload s k def = find_line (k @ ''='') def s"

section \<open>The decoder is exact\<close>

lemma length_write_parts [simp]: "length (write_u8 b) = 1" "length (write_u64 w) = 8" "length (write_id i) = 16"
  by (simp_all add: write_u8_def write_u64_def write_id_def)

lemma length_encode [simp]: "length (encode_message m) = 109 + length (m_payload m)"
  by (simp add: encode_message_def Let_def)

text \<open>Cutting a buffer at the offsets of the header gives back the buffer.\<close>

lemma take_drop_step: "take n (drop m xs) @ drop (m + n) xs = drop m xs"
  by (metis add.commute append_take_drop_id drop_drop)

lemma u32_of_nat: "n < 2 ^ 32 \<Longrightarrow> unat (of_nat n :: u32) = n"
  by (simp add: unat_of_nat take_bit_nat_eq_self)

lemma decode_payload_encoded:
  assumes "length s < 2 ^ 32" and "length pre = pos"
  shows "decode_payload (pre @ le_bytes 4 (of_nat (length s) :: u32) @ of_string s) pos out =
    Decoded (out\<lparr>m_payload := s\<rparr>)"
  using assms by (simp add: decode_payload_def Let_def le_word_bytes u32_of_nat flip: append_assoc)

lemma decode_payload_exact:
  assumes "decode_payload bytes pos out = Decoded m"
  shows "length (m_payload m) < 2 ^ 32 \<and> m = out\<lparr>m_payload := m_payload m\<rparr> \<and>
    drop pos bytes = le_bytes 4 (of_nat (length (m_payload m)) :: u32) @ of_string (m_payload m)"
proof -
  let ?plen = "le_word 4 (drop pos bytes) :: u32"
  have *: "pos + 4 + unat ?plen = length bytes"
    and m: "m = out\<lparr>m_payload := to_string (take (unat ?plen) (drop (pos + 4) bytes))\<rparr>"
    using assms by (auto simp: decode_payload_def Let_def split: if_splits)
  have len: "length (m_payload m) = unat ?plen" using * m by simp
  then have "of_nat (length (m_payload m)) = ?plen" by simp
  moreover have "le_bytes 4 ?plen = take 4 (drop pos bytes)"
    using * by (intro le_bytes_word) simp_all
  moreover have "of_string (m_payload m) = drop 4 (drop pos bytes)"
    using * m by (simp add: add.commute)
  ultimately have "drop pos bytes = le_bytes 4 (of_nat (length (m_payload m)) :: u32) @ of_string (m_payload m)"
    by (metis append_take_drop_id)
  then show ?thesis
    using len unsigned_less [of ?plen, where 'a = nat] m by simp
qed

text \<open>Past the first 105 bytes the header is read without a failure.\<close>

definition header_of :: "bytes \<Rightarrow> Message \<Rightarrow> Message" where
  "header_of bytes out = out\<lparr>m_kind := bytes ! 0, m_seq := le_word 8 (drop 1 bytes),
     m_epoch := from_bytes (take 16 (drop 9 bytes)), m_worker := from_bytes (take 16 (drop 25 bytes)),
     m_boot := from_bytes (take 16 (drop 41 bytes)), m_replica := from_bytes (take 16 (drop 57 bytes)),
     m_set := from_bytes (take 16 (drop 73 bytes)), m_attempt := from_bytes (take 16 (drop 89 bytes))\<rparr>"

lemma decode_long: "105 \<le> length bytes \<Longrightarrow> decode_message bytes out = decode_payload bytes 105 (header_of bytes out)"
  by (auto simp: decode_message_def msg_read_u8_def msg_read_u64_def msg_read_id_def header_of_def Let_def)

lemma decode_short: "length bytes < 105 \<Longrightarrow>
  decode_message bytes out = Out_of_bounds \<and> 9 \<le> length bytes \<or>
  (\<exists>out'. decode_message bytes out = Malformed out') \<and> length bytes < 9"
  by (simp add: decode_message_def msg_read_u8_def msg_read_u64_def msg_read_id_def Let_def)

definition header_bytes :: "Message \<Rightarrow> bytes" where
  "header_bytes m = write_u8 (m_kind m) @ write_u64 (m_seq m) @ write_id (m_epoch m) @ write_id (m_worker m) @
     write_id (m_boot m) @ write_id (m_replica m) @ write_id (m_set m) @ write_id (m_attempt m)"

lemma from_written_id [simp]: "from_bytes (write_id i) = i"
  by (simp add: write_id_def)

lemma write_from_bytes:
  "n + 16 \<le> length bytes \<Longrightarrow> write_id (from_bytes (take 16 (drop n bytes))) = take 16 (drop n bytes)"
  by (simp add: write_id_def to_from_bytes)

lemma header_bytes_of:
  assumes "105 \<le> length bytes"
  shows "header_bytes (header_of bytes out) @ drop 105 bytes = bytes"
proof -
  have "write_u64 (le_word 8 (drop 1 bytes)) = take 8 (drop 1 bytes)"
    using assms unfolding write_u64_def by (intro le_bytes_word) simp_all
  moreover have "write_u8 (bytes ! 0) @ drop 1 bytes = bytes"
    using assms by (cases bytes) (simp_all add: write_u8_def)
  ultimately show ?thesis
    using assms take_drop_step [of 8 1 bytes] take_drop_step [of 16 9 bytes] take_drop_step [of 16 25 bytes]
      take_drop_step [of 16 41 bytes] take_drop_step [of 16 57 bytes] take_drop_step [of 16 73 bytes]
      take_drop_step [of 16 89 bytes]
    by (simp add: header_bytes_def header_of_def write_from_bytes)
qed

lemma header_of_bytes: "header_of (header_bytes m @ r) out = m\<lparr>m_payload := m_payload out\<rparr>"
proof -
  have "le_word 8 (write_u64 w @ s) = w" for w s
    unfolding write_u64_def by (rule le_word_bytes) simp
  then show ?thesis
    by (cases m; cases out) (simp add: header_of_def header_bytes_def write_u8_def)
qed

lemma length_header [simp]: "length (header_bytes m) = 105"
  by (simp add: header_bytes_def)

lemma encode_header:
  "encode_message m = header_bytes m @ le_bytes 4 (of_nat (length (m_payload m)) :: u32) @ of_string (m_payload m)"
  by (simp add: encode_message_def header_bytes_def Let_def)

lemma decode_encoded:
  "length (m_payload m) < 2 ^ 32 \<Longrightarrow> decode_message (encode_message m) out = Decoded m"
  by (simp add: decode_long encode_header header_of_bytes decode_payload_encoded)

text \<open>
  C32. The message codec is exact: a buffer decodes to a message exactly when it is the encoding
  of that message and the payload's length fits the 32-bit length field, whatever the out
  parameter held before. In particular encoding and decoding are inverse, no buffer decodes to
  two messages, and trailing bytes are refused.
\<close>

theorem message_codec_exact:
  "decode_message bytes out = Decoded m \<longleftrightarrow> length (m_payload m) < 2 ^ 32 \<and> bytes = encode_message m"
proof
  assume dec: "decode_message bytes out = Decoded m"
  then have long: "105 \<le> length bytes"
    using decode_short [of bytes out] by (cases "105 \<le> length bytes") auto
  from decode_payload_exact [OF dec [unfolded decode_long [OF long]]] header_bytes_of [OF long, of out]
  have "length (m_payload m) < 2 ^ 32" "m = (header_of bytes out)\<lparr>m_payload := m_payload m\<rparr>"
    "bytes = header_bytes (header_of bytes out) @ le_bytes 4 (of_nat (length (m_payload m)) :: u32) @ of_string (m_payload m)"
    by auto
  moreover from this(2) have "header_bytes m = header_bytes (header_of bytes out)"
    by (metis header_bytes_def Message.ext_inject Message.surjective Message.update_convs(9))
  ultimately show "length (m_payload m) < 2 ^ 32 \<and> bytes = encode_message m"
    by (simp add: encode_header)
next
  assume "length (m_payload m) < 2 ^ 32 \<and> bytes = encode_message m"
  then show "decode_message bytes out = Decoded m"
    by (simp add: decode_encoded)
qed

text \<open>
  What the decoder reads: it reads past the end of the buffer exactly on buffers of 9 to 104
  bytes, long enough for the kind and the sequence number and too short for the six identities;
  on every other buffer it stays inside.
\<close>

theorem decode_out_of_bounds_exact:
  "decode_message bytes out = Out_of_bounds \<longleftrightarrow> 9 \<le> length bytes \<and> length bytes < 105"
proof (cases "105 \<le> length bytes")
  case True
  then show ?thesis
    by (simp add: decode_long decode_payload_def Let_def)
next
  case False
  then show ?thesis
    using decode_short [of bytes out] by auto
qed

section \<open>Looking up the payload\<close>

text \<open>The lines of a text.\<close>

fun lines :: "string \<Rightarrow> string list" where
  "lines [] = [[]]"
| "lines (c # s) = (if c = newline then [] # lines s
     else case lines s of [] \<Rightarrow> [[c]] | l # ls \<Rightarrow> (c # l) # ls)"

lemma lines_unfold:
  "lines s = takeWhile (\<lambda>c. c \<noteq> newline) s #
     (case dropWhile (\<lambda>c. c \<noteq> newline) s of [] \<Rightarrow> [] | _ # t \<Rightarrow> lines t)"
  by (induction s) auto

definition has_prefix :: "string \<Rightarrow> string \<Rightarrow> bool" where
  "has_prefix p s \<longleftrightarrow> take (length p) s = p"

lemma has_prefix_length: "has_prefix p s \<longleftrightarrow> length s \<ge> length p \<and> take (length p) s = p"
  unfolding has_prefix_def by (metis length_take min.cobounded1)

lemma find_line_lines:
  "find_line needle def s = (case find (has_prefix needle) (lines s) of
     None \<Rightarrow> def | Some l \<Rightarrow> drop (length needle) l)"
proof (induction needle def s rule: find_line.induct)
  case (1 needle def rest)
  let ?line = "takeWhile (\<lambda>c. c \<noteq> newline) rest"
  show ?case
  proof (cases "has_prefix needle ?line")
    case True
    then show ?thesis
      by (subst find_line.simps, subst lines_unfold) (simp add: Let_def flip: has_prefix_length)
  next
    case False
    then show ?thesis
      using 1 [OF refl, folded has_prefix_length]
      by (subst find_line.simps, subst lines_unfold)
         (simp add: Let_def del: dropWhile_eq_Nil_conv flip: has_prefix_length split: list.split)
  qed
qed

definition plain_key :: "string \<Rightarrow> bool" where
  "plain_key k \<longleftrightarrow> newline \<notin> set k \<and> CHR ''='' \<notin> set k"

lemma prefix_key:
  assumes "plain_key k" and "plain_key k'"
  shows "has_prefix (k @ ''='') (k' @ ''='' @ v) \<longleftrightarrow> k = k'"
proof
  have before: "takeWhile (\<lambda>c. c \<noteq> CHR ''='') (x @ ''='' @ y) = x" if "plain_key x" for x y
    using that by (induction x) (auto simp: plain_key_def)
  assume "has_prefix (k @ ''='') (k' @ ''='' @ v)"
  then have "k' @ ''='' @ v = k @ ''='' @ drop (length k + 1) (k' @ ''='' @ v)"
    using append_take_drop_id [of "length (k @ ''='')" "k' @ ''='' @ v"] by (simp add: has_prefix_def)
  then show "k = k'"
    using before [OF assms(1)] before [OF assms(2)] by metis
qed (simp add: has_prefix_def)

lemma lines_cons: "newline \<notin> set l \<Longrightarrow> lines (l @ newline # s) = l # lines s"
  by (induction l) auto

lemma lines_last: "newline \<notin> set l \<Longrightarrow> lines l = [l]"
  by (induction l) auto

lemma newline_not_eq [simp]: "newline \<noteq> CHR ''=''" "CHR ''='' \<noteq> newline"
  by (simp_all add: newline_def)

text \<open>One entry of a payload, at its head or at its end without a newline.\<close>

lemma get_payload_entry:
  assumes "plain_key k" and "plain_key k'" and "newline \<notin> set v"
  shows "get_payload (k' @ ''='' @ v @ newline # s) k def = (if k = k' then v else get_payload s k def)"
proof -
  have "lines (k' @ ''='' @ v @ newline # s) = (k' @ ''='' @ v) # lines s"
    using lines_cons [of "k' @ ''='' @ v" s] assms by (simp add: plain_key_def)
  then show ?thesis
    using prefix_key [OF assms(1,2)] by (simp add: get_payload_def find_line_lines)
qed

lemma get_payload_last:
  assumes "plain_key k" and "plain_key k'" and "newline \<notin> set v"
  shows "get_payload (k' @ ''='' @ v) k def = (if k = k' then v else def)"
proof -
  have "lines (k' @ ''='' @ v) = [k' @ ''='' @ v]"
    using lines_last [of "k' @ ''='' @ v"] assms by (simp add: plain_key_def)
  then show ?thesis
    using prefix_key [OF assms(1,2)] by (simp add: get_payload_def find_line_lines)
qed

lemma get_payload_Nil: "get_payload [] k def = def"
  by (simp add: get_payload_def find_line_lines has_prefix_def)

text \<open>A payload built entry by entry.\<close>

definition payload_of :: "(string \<times> string) list \<Rightarrow> string" where
  "payload_of kvs = foldl (\<lambda>s (k, v). set_payload s k v) [] kvs"

lemma foldl_set_payload:
  "foldl (\<lambda>s (k, v). set_payload s k v) s kvs = s @ concat (map (\<lambda>(k, v). k @ ''='' @ v @ [newline]) kvs)"
  by (induction kvs arbitrary: s) (auto simp: set_payload_def)

text \<open>
  The payload is a map: in a payload built with \<open>set_payload\<close> from keys without an equals
  sign and keys and values without a newline, \<open>get_payload\<close> finds the value first set for a key,
  and the default for a key that was not set.
\<close>

theorem payload_lookup:
  assumes "plain_key k" and "list_all (\<lambda>(k, v). plain_key k \<and> newline \<notin> set v) kvs"
  shows "get_payload (payload_of kvs) k def = (case map_of kvs k of None \<Rightarrow> def | Some v \<Rightarrow> v)"
  using assms(2)
proof (induction kvs)
  case Nil
  then show ?case by (simp add: payload_of_def get_payload_Nil)
next
  case (Cons kv kvs)
  obtain k' v where "kv = (k', v)" by force
  then show ?case
    using Cons get_payload_entry [OF assms(1), of k' v "payload_of kvs" def]
    by (simp add: payload_of_def foldl_set_payload)
qed

theorem payload_lookup_witness:
  "get_payload (payload_of [(''req'', ''7''), (''outcome'', ''1''), (''req'', ''8'')]) ''req'' ''?'' = ''7''"
  using payload_lookup [of "''req''" "[(''req'', ''7''), (''outcome'', ''1''), (''req'', ''8'')]" "''?''"]
  by (simp add: plain_key_def newline_def)

end
