(* ===== verification/Number_Text.thy ===== *)
theory Number_Text
  imports Identity
begin

text \<open>
  Numbers as text, as the C++ library converts them: \<open>std::to_string\<close> and the family of
  \<open>std::stoul\<close>. A conversion skips white space, takes a sign, in base sixteen a prefix \<open>0x\<close> that is
  followed by a digit, and as many digits as there are; no digit is an \<open>invalid_argument\<close>, a
  magnitude past the type's maximum an \<open>out_of_range\<close>, and a minus sign negates in the unsigned
  type. The transport is written for Winsock, so \<open>unsigned long\<close> has 32 bits.
\<close>

section \<open>Printing\<close>

definition dec_char :: "nat \<Rightarrow> char" where
  "dec_char d = char_of (48 + d)"

fun to_string_nat :: "nat \<Rightarrow> string" where
  "to_string_nat n = (if n < 10 then [dec_char n] else to_string_nat (n div 10) @ [dec_char (n mod 10)])"

declare to_string_nat.simps [simp del]

definition to_string_u64 :: "u64 \<Rightarrow> string" where
  "to_string_u64 w = to_string_nat (unat w)"

definition to_string_int :: "i32 \<Rightarrow> string" where
  "to_string_int w = (if sint w < 0 then CHR ''-'' # to_string_nat (nat (- sint w)) else to_string_nat (nat (sint w)))"

section \<open>Parsing\<close>

datatype std_exception = Invalid_argument | Out_of_range

definition is_space :: "char \<Rightarrow> bool" where
  "is_space c \<longleftrightarrow> c = CHR '' '' \<or> of_char c \<in> {9, 10, 11, 12, 13 :: nat}"

text \<open>The value of a digit in a base up to sixteen.\<close>

definition digit_value :: "char \<Rightarrow> nat option" where
  "digit_value c = (let n = of_char c :: nat in
     if 48 \<le> n \<and> n \<le> 57 then Some (n - 48)
     else if 97 \<le> n \<and> n \<le> 102 then Some (n - 87)
     else if 65 \<le> n \<and> n \<le> 70 then Some (n - 55)
     else None)"

definition is_digit :: "nat \<Rightarrow> char \<Rightarrow> bool" where
  "is_digit base c \<longleftrightarrow> (case digit_value c of None \<Rightarrow> False | Some d \<Rightarrow> d < base)"

definition digits_value :: "nat \<Rightarrow> string \<Rightarrow> nat" where
  "digits_value base ds = foldl (\<lambda>v c. v * base + the (digit_value c)) 0 ds"

definition skip_prefix :: "nat \<Rightarrow> string \<Rightarrow> string" where
  "skip_prefix base s =
     (case s of z # x # c # _ \<Rightarrow>
        if base = 16 \<and> z = CHR ''0'' \<and> (x = CHR ''x'' \<or> x = CHR ''X'') \<and> is_digit base c
        then drop 2 s else s
      | _ \<Rightarrow> s)"

definition take_sign :: "string \<Rightarrow> bool \<times> string" where
  "take_sign s = (case s of [] \<Rightarrow> (False, s)
     | c # cs \<Rightarrow> if c = CHR ''-'' then (True, cs) else if c = CHR ''+'' then (False, cs) else (False, s))"

definition strtoul :: "nat \<Rightarrow> string \<Rightarrow> std_exception + 'a::len word" where
  "strtoul base s =
     (let (neg, s) = take_sign (dropWhile is_space s);
          ds = takeWhile (is_digit base) (skip_prefix base s);
          v = digits_value base ds
      in if ds = [] then Inl Invalid_argument
         else if v \<ge> 2 ^ LENGTH('a) then Inl Out_of_range
         else Inr (if neg then - of_nat v else of_nat v))"

definition stoul :: "nat \<Rightarrow> string \<Rightarrow> std_exception + u32" where
  "stoul base s = strtoul base s"

definition stoull :: "nat \<Rightarrow> string \<Rightarrow> std_exception + u64" where
  "stoull base s = strtoul base s"

text \<open>\<open>stoi\<close>: the magnitude may reach \<open>2 ^ 31\<close> only with a minus sign.\<close>

definition stoi :: "string \<Rightarrow> std_exception + i32" where
  "stoi s =
     (let (neg, s) = take_sign (dropWhile is_space s);
          ds = takeWhile (is_digit 10) s;
          v = digits_value 10 ds
      in if ds = [] then Inl Invalid_argument
         else if (if neg then v > 2 ^ 31 else v \<ge> 2 ^ 31) then Inl Out_of_range
         else Inr (if neg then - of_nat v else of_nat v))"

section \<open>Printing and parsing\<close>

lemma of_dec_char: "d < 10 \<Longrightarrow> of_char (dec_char d) = 48 + d"
  by (simp add: dec_char_def)

lemma digit_value_dec: "d < 10 \<Longrightarrow> digit_value (dec_char d) = Some d"
  by (simp add: digit_value_def of_dec_char Let_def)

lemma is_digit_dec: "d < 10 \<Longrightarrow> is_digit 10 (dec_char d)"
  by (simp add: is_digit_def digit_value_dec)

lemma digits_value_snoc: "digits_value base (ds @ [c]) = digits_value base ds * base + the (digit_value c)"
  by (simp add: digits_value_def)

lemma digits_value_print: "digits_value 10 (to_string_nat n) = n"
proof (induction n rule: to_string_nat.induct)
  case (1 n)
  show ?case
  proof (cases "n < 10")
    case True
    then show ?thesis
      by (subst to_string_nat.simps) (simp add: digits_value_def digit_value_dec)
  next
    case False
    then show ?thesis
      using 1 by (subst to_string_nat.simps) (simp add: digits_value_snoc digit_value_dec)
  qed
qed

lemma print_digits: "to_string_nat n \<noteq> [] \<and> list_all (is_digit 10) (to_string_nat n)"
proof (induction n rule: to_string_nat.induct)
  case (1 n)
  then show ?case
    by (subst (1 2) to_string_nat.simps) (auto simp: is_digit_dec)
qed

lemma digit_not_space: "is_digit base c \<Longrightarrow> \<not> is_space c \<and> c \<noteq> CHR ''-'' \<and> c \<noteq> CHR ''+''"
  by (auto simp: is_digit_def digit_value_def is_space_def Let_def split: if_splits)

lemma strtoul_digits:
  assumes "ds \<noteq> []" and "list_all (is_digit 10) ds" and "rest = [] \<or> \<not> is_digit 10 (hd rest)"
  shows "strtoul 10 (ds @ rest) = (if digits_value 10 ds \<ge> 2 ^ LENGTH('a)
     then Inl Out_of_range else Inr (of_nat (digits_value 10 ds) :: 'a::len word))"
proof -
  obtain c cs where ds: "ds = c # cs" using assms(1) by (cases ds) auto
  then have "dropWhile is_space (ds @ rest) = ds @ rest" "take_sign (ds @ rest) = (False, ds @ rest)"
    using assms(2) digit_not_space [of 10 c] by (auto simp: take_sign_def)
  moreover have "skip_prefix 10 s = s" for s
    by (simp add: skip_prefix_def split: list.split)
  moreover have "takeWhile (is_digit 10) (ds @ rest) = ds"
    using assms(2,3) by (cases rest) (auto simp: takeWhile_append list_all_iff)
  ultimately show ?thesis
    using assms(1) by (simp add: strtoul_def Let_def)
qed

text \<open>
  A number that is printed reads back: \<open>stoull\<close> of \<open>to_string\<close> is the number, whatever follows
  the digits, and \<open>stoul\<close> raises \<open>out_of_range\<close> exactly on the numbers past 32 bits.
\<close>

theorem number_text_roundtrip:
  assumes "rest = [] \<or> \<not> is_digit 10 (hd rest)"
  shows "stoull 10 (to_string_u64 w @ rest) = Inr w \<and>
    stoul 10 (to_string_u64 w @ rest) = (if unat w \<ge> 2 ^ 32 then Inl Out_of_range else Inr (of_nat (unat w)))"
proof -
  have "unat w < 2 ^ 64" using unsigned_less [of w, where 'a = nat] by simp
  then show ?thesis
    using print_digits [of "unat w"] assms
    by (simp add: stoull_def stoul_def to_string_u64_def strtoul_digits digits_value_print)
qed

theorem number_text_roundtrip_witness:
  "stoull 10 (to_string_u64 4294967296 @ '' free bytes'') = Inr 4294967296 \<and>
   stoul 10 (to_string_u64 4294967296 @ '' free bytes'') = Inl Out_of_range"
  using number_text_roundtrip [of "'' free bytes''" 4294967296] by (simp add: is_digit_def digit_value_def)

end
