(* ===== verification/Transport.thy ===== *)
theory Transport
  imports Protocol Number_Text
begin

text \<open>
  The framed transport of \<open>distributed/transport.hpp\<close> and \<open>src/transport.cpp\<close>. The calls of the
  socket library are the record \<open>winsock\<close>, an argument of every operation, over a state of the
  operating system; \<open>TcpConnection\<close> is its socket. The sending loop ends only if the library
  makes progress, so it is a partial function whose \<open>None\<close> is not returning. What the proofs
  need of the library is stated as predicates on it (\<open>delivers\<close>, \<open>receives\<close>, \<open>in_order\<close>,
  \<open>tracks_sockets\<close>).
\<close>

section \<open>The socket library\<close>

type_synonym SOCKET = u64

definition INVALID_SOCKET :: SOCKET where "INVALID_SOCKET = - 1"

text \<open>
  \<open>ws_socket None\<close> is the socket of \<open>listen_on\<close>, \<open>ws_socket (Some ai)\<close> one for a resolved address.
  \<open>ws_send\<close> gets the bytes from the pointer on and the length, and returns \<open>None\<close> for
  \<open>SOCKET_ERROR\<close>; \<open>ws_recv\<close> gets the length and returns the bytes put into the buffer, none
  when the peer has closed.
\<close>

record ('s, 'ai) winsock =
  ws_startup :: "'s \<Rightarrow> bool \<times> 's"
  ws_cleanup :: "'s \<Rightarrow> 's"
  ws_getaddrinfo :: "string \<Rightarrow> string \<Rightarrow> 's \<Rightarrow> 'ai list option \<times> 's"
  ws_freeaddrinfo :: "'ai list \<Rightarrow> 's \<Rightarrow> 's"
  ws_socket :: "'ai option \<Rightarrow> 's \<Rightarrow> SOCKET \<times> 's"
  ws_connect :: "SOCKET \<Rightarrow> 'ai \<Rightarrow> 's \<Rightarrow> bool \<times> 's"
  ws_reuseaddr :: "SOCKET \<Rightarrow> 's \<Rightarrow> 's"
  ws_bind :: "SOCKET \<Rightarrow> u16 \<Rightarrow> 's \<Rightarrow> bool \<times> 's"
  ws_listen :: "SOCKET \<Rightarrow> 's \<Rightarrow> bool \<times> 's"
  ws_accept :: "SOCKET \<Rightarrow> 's \<Rightarrow> SOCKET \<times> 's"
  ws_timeout :: "SOCKET \<Rightarrow> u32 \<Rightarrow> 's \<Rightarrow> 's"
  ws_closesocket :: "SOCKET \<Rightarrow> 's \<Rightarrow> 's"
  ws_send :: "SOCKET \<Rightarrow> bytes \<Rightarrow> int \<Rightarrow> 's \<Rightarrow> nat option \<times> 's"
  ws_recv :: "SOCKET \<Rightarrow> int \<Rightarrow> 's \<Rightarrow> bytes option \<times> 's"

section \<open>Connections\<close>

text \<open>A connection is its member \<open>sock_\<close>; \<open>g_ws_init\<close> is the flag of the process.\<close>

record TcpConnection =
  tc_sock :: SOCKET

definition TcpConnection_default :: TcpConnection where
  "TcpConnection_default = \<lparr>tc_sock = INVALID_SOCKET\<rparr>"

definition conn_valid :: "TcpConnection \<Rightarrow> bool" where
  "conn_valid c \<longleftrightarrow> tc_sock c \<noteq> INVALID_SOCKET"

definition tcp_init :: "('s, 'ai) winsock \<Rightarrow> bool \<Rightarrow> 's \<Rightarrow> bool \<times> bool \<times> 's" where
  "tcp_init net g_ws_init s =
     (if g_ws_init then (True, g_ws_init, s)
      else let (ok, s) = ws_startup net s
           in if \<not> ok then (False, g_ws_init, s) else (True, True, s))"

definition tcp_shutdown :: "('s, 'ai) winsock \<Rightarrow> bool \<Rightarrow> 's \<Rightarrow> bool \<times> 's" where
  "tcp_shutdown net g_ws_init s = (if g_ws_init then (False, ws_cleanup net s) else (g_ws_init, s))"

definition conn_close :: "('s, 'ai) winsock \<Rightarrow> TcpConnection \<Rightarrow> 's \<Rightarrow> TcpConnection \<times> 's" where
  "conn_close net c s =
     (if conn_valid c then (c\<lparr>tc_sock := INVALID_SOCKET\<rparr>, ws_closesocket net (tc_sock c) s) else (c, s))"

text \<open>Moving: the new connection and what is left in the old one.\<close>

definition conn_move :: "TcpConnection \<Rightarrow> TcpConnection \<times> TcpConnection" where
  "conn_move other = (\<lparr>tc_sock = tc_sock other\<rparr>, other\<lparr>tc_sock := INVALID_SOCKET\<rparr>)"

definition conn_move_assign ::
  "('s, 'ai) winsock \<Rightarrow> TcpConnection \<Rightarrow> TcpConnection \<Rightarrow> 's \<Rightarrow> (TcpConnection \<times> TcpConnection) \<times> 's" where
  "conn_move_assign net self other s =
     (let (self, s) = conn_close net self s
      in ((self\<lparr>tc_sock := tc_sock other\<rparr>, other\<lparr>tc_sock := INVALID_SOCKET\<rparr>), s))"

definition set_timeout_ms :: "('s, 'ai) winsock \<Rightarrow> TcpConnection \<Rightarrow> i32 \<Rightarrow> 's \<Rightarrow> 's" where
  "set_timeout_ms net c ms s = (if \<not> conn_valid c then s else ws_timeout net (tc_sock c) ms s)"

text \<open>The loop of \<open>connect_to\<close> over the resolved addresses.\<close>

fun connect_loop :: "('s, 'ai) winsock \<Rightarrow> 'ai list \<Rightarrow> 's \<Rightarrow> SOCKET option \<times> 's" where
  "connect_loop net [] s = (None, s)"
| "connect_loop net (ai # ais) s =
     (let (sk, s) = ws_socket net (Some ai) s
      in if sk = INVALID_SOCKET then connect_loop net ais s
         else let (ok, s) = ws_connect net sk ai s
              in if ok then (Some sk, s)
                 else connect_loop net ais (ws_closesocket net sk s))"

definition connect_to ::
  "('s, 'ai) winsock \<Rightarrow> bool \<Rightarrow> TcpConnection \<Rightarrow> string \<Rightarrow> u16 \<Rightarrow> 's \<Rightarrow> bool \<times> TcpConnection \<times> bool \<times> 's" where
  "connect_to net g_ws_init c host port s =
     (let (ok, g_ws_init, s) = tcp_init net g_ws_init s
      in if \<not> ok then (False, c, g_ws_init, s)
         else let portstr = to_string_nat (unat port);
                  (result, s) = ws_getaddrinfo net host portstr s
              in case result of
                   None \<Rightarrow> (False, c, g_ws_init, s)
                 | Some ais \<Rightarrow>
                     (let (sk, s) = connect_loop net ais s;
                          s = ws_freeaddrinfo net ais s
                      in case sk of None \<Rightarrow> (False, c, g_ws_init, s)
                         | Some sk \<Rightarrow> (True, c\<lparr>tc_sock := sk\<rparr>, g_ws_init, s)))"

definition listen_on ::
  "('s, 'ai) winsock \<Rightarrow> bool \<Rightarrow> TcpConnection \<Rightarrow> u16 \<Rightarrow> 's \<Rightarrow> bool \<times> TcpConnection \<times> bool \<times> 's" where
  "listen_on net g_ws_init c port s =
     (let (ok, g_ws_init, s) = tcp_init net g_ws_init s
      in if \<not> ok then (False, c, g_ws_init, s)
         else let (sk, s) = ws_socket net None s
              in if sk = INVALID_SOCKET then (False, c, g_ws_init, s)
                 else let s = ws_reuseaddr net sk s;
                          (ok, s) = ws_bind net sk port s
                      in if \<not> ok then (False, c, g_ws_init, ws_closesocket net sk s)
                         else let (ok, s) = ws_listen net sk s
                              in if \<not> ok then (False, c, g_ws_init, ws_closesocket net sk s)
                                 else (True, c\<lparr>tc_sock := sk\<rparr>, g_ws_init, s))"

definition accept_one ::
  "('s, 'ai) winsock \<Rightarrow> TcpConnection \<Rightarrow> TcpConnection \<Rightarrow> 's \<Rightarrow> bool \<times> TcpConnection \<times> 's" where
  "accept_one net c out s =
     (if \<not> conn_valid c then (False, out, s)
      else let (sk, s) = ws_accept net (tc_sock c) s
           in if sk = INVALID_SOCKET then (False, out, s)
              else let (out, s) = conn_close net out s
                   in (True, out\<lparr>tc_sock := sk\<rparr>, s))"

section \<open>Sending and receiving\<close>

text \<open>The length of the next chunk: \<open>n - sent\<close> cast to \<open>int\<close> and capped at a mebibyte.\<close>

definition chunk_size :: "nat \<Rightarrow> int" where
  "chunk_size left = (let chunk = sint (of_nat left :: i32) in if chunk > 2 ^ 20 then 2 ^ 20 else chunk)"

partial_function (option) send_loop ::
  "('s, 'ai) winsock \<Rightarrow> SOCKET \<Rightarrow> bytes \<Rightarrow> nat \<Rightarrow> 's \<Rightarrow> (bool \<times> 's) option" where
  "send_loop net sk data sent s =
     (if sent < length data
      then case ws_send net sk (drop sent data) (chunk_size (length data - sent)) s of
             (None, s) \<Rightarrow> Some (False, s)
           | (Some r, s) \<Rightarrow> send_loop net sk data (sent + r) s
      else Some (True, s))"

definition send_all ::
  "('s, 'ai) winsock \<Rightarrow> TcpConnection \<Rightarrow> bytes \<Rightarrow> 's \<Rightarrow> (bool \<times> 's) option" where
  "send_all net c data s =
     (if \<not> conn_valid c then Some (False, s) else send_loop net (tc_sock c) data 0 s)"

text \<open>\<open>got\<close> is the length of what has been received.\<close>

function recv_loop ::
  "('s, 'ai) winsock \<Rightarrow> SOCKET \<Rightarrow> nat \<Rightarrow> bytes \<Rightarrow> 's \<Rightarrow> bytes option \<times> 's" where
  "recv_loop net sk n got s =
     (if length got < n
      then case ws_recv net sk (sint (of_nat (n - length got) :: i32)) s of
             (None, s) \<Rightarrow> (None, s)
           | (Some bs, s) \<Rightarrow> if bs = [] then (None, s) else recv_loop net sk n (got @ bs) s
      else (Some got, s))"
  by pat_completeness auto
termination
  by (relation "measure (\<lambda>(net, sk, n, got, s). n - length got)") (auto simp flip: length_greater_0_conv)

declare recv_loop.simps [simp del]

definition recv_exact ::
  "('s, 'ai) winsock \<Rightarrow> TcpConnection \<Rightarrow> nat \<Rightarrow> 's \<Rightarrow> bytes option \<times> 's" where
  "recv_exact net c n s = (if \<not> conn_valid c then (None, s) else recv_loop net (tc_sock c) n [] s)"

section \<open>Frames\<close>

definition kMaxFrame :: nat where "kMaxFrame = 16 * 1024 * 1024"

definition frame_header :: "u32 \<Rightarrow> bytes" where
  "frame_header len = [ucast (drop_bit 24 len AND 0xFF), ucast (drop_bit 16 len AND 0xFF),
     ucast (drop_bit 8 len AND 0xFF), ucast (len AND 0xFF)]"

definition frame_length :: "bytes \<Rightarrow> u32" where
  "frame_length hdr = push_bit 24 (ucast (hdr ! 0)) OR push_bit 16 (ucast (hdr ! 1)) OR
     push_bit 8 (ucast (hdr ! 2)) OR ucast (hdr ! 3)"

definition write_frame ::
  "('s, 'ai) winsock \<Rightarrow> TcpConnection \<Rightarrow> bytes \<Rightarrow> 's \<Rightarrow> (bool \<times> 's) option" where
  "write_frame net c payload s =
     (if length payload > kMaxFrame then Some (False, s)
      else case send_all net c (frame_header (of_nat (length payload))) s of
             None \<Rightarrow> None
           | Some (ok, s) \<Rightarrow>
               if \<not> ok then Some (False, s)
               else if payload \<noteq> []
               then (case send_all net c payload s of
                       None \<Rightarrow> None
                     | Some (ok, s) \<Rightarrow> if \<not> ok then Some (False, s) else Some (True, s))
               else Some (True, s))"

definition read_frame ::
  "('s, 'ai) winsock \<Rightarrow> TcpConnection \<Rightarrow> 's \<Rightarrow> bytes option \<times> 's" where
  "read_frame net c s =
     (case recv_exact net c 4 s of
        (None, s) \<Rightarrow> (None, s)
      | (Some hdr, s) \<Rightarrow>
          (let len = frame_length hdr
           in if unat len > kMaxFrame then (None, s)
              else if len > 0 then recv_exact net c (unat len) s
              else (Some [], s)))"

section \<open>What the socket library promises\<close>

text \<open>
  A call of \<open>send\<close> takes some of the bytes it is offered, at least one, and puts them on the
  wire in order; a call of \<open>recv\<close> with bytes pending gives some of them, at least one and not
  more than asked for.
\<close>

definition delivers :: "('s, 'ai) winsock \<Rightarrow> SOCKET \<Rightarrow> ('s \<Rightarrow> bytes) \<Rightarrow> bool" where
  "delivers net sk wire \<longleftrightarrow> (\<forall>data len s. 0 < len \<and> nat len \<le> length data \<longrightarrow>
     (\<exists>r s'. ws_send net sk data len s = (Some r, s') \<and> 0 < r \<and> r \<le> nat len \<and> wire s' = wire s @ take r data))"

definition receives :: "('s, 'ai) winsock \<Rightarrow> SOCKET \<Rightarrow> ('s \<Rightarrow> bytes) \<Rightarrow> bool" where
  "receives net sk pending \<longleftrightarrow> (\<forall>len s. 0 < len \<and> pending s \<noteq> [] \<longrightarrow>
     (\<exists>bs s'. ws_recv net sk len s = (Some bs, s') \<and> bs \<noteq> [] \<and> length bs \<le> nat len \<and> pending s = bs @ pending s'))"

text \<open>Whatever \<open>recv\<close> returns is the next part of the stream; it may fail at any time.\<close>

definition in_order :: "('s, 'ai) winsock \<Rightarrow> SOCKET \<Rightarrow> ('s \<Rightarrow> bytes) \<Rightarrow> bool" where
  "in_order net sk pending \<longleftrightarrow> (\<forall>len s bs s'. 0 < len \<and> ws_recv net sk len s = (Some bs, s') \<longrightarrow>
     length bs \<le> nat len \<and> pending s = bs @ pending s')"

text \<open>Every call of \<open>send\<close> makes progress or fails.\<close>

definition progresses :: "('s, 'ai) winsock \<Rightarrow> SOCKET \<Rightarrow> bool" where
  "progresses net sk \<longleftrightarrow> (\<forall>data len s r s'. ws_send net sk data len s = (Some r, s') \<longrightarrow> 0 < r)"

section \<open>The loops\<close>

lemma sint_small: "n < 2 ^ 31 \<Longrightarrow> sint (of_nat n :: i32) = int n"
  by (simp add: signed_of_nat signed_take_bit_int_eq_self)

lemma chunk_size_bounds: "0 < left \<Longrightarrow> left < 2 ^ 31 \<Longrightarrow> 0 < chunk_size left \<and> nat (chunk_size left) \<le> left"
  by (simp add: chunk_size_def sint_small Let_def)

lemma send_loop_delivers:
  assumes "delivers net sk wire" and "length data < 2 ^ 31" and "sent \<le> length data"
  shows "\<exists>s'. send_loop net sk data sent s = Some (True, s') \<and> wire s' = wire s @ drop sent data"
  using assms(3)
proof (induction "length data - sent" arbitrary: sent s rule: less_induct)
  case less
  show ?case
  proof (cases "sent < length data")
    case False
    then show ?thesis by (subst send_loop.simps) simp
  next
    case True
    let ?len = "chunk_size (length data - sent)"
    have len: "0 < ?len" "nat ?len \<le> length (drop sent data)"
      using chunk_size_bounds [of "length data - sent"] True assms(2) by simp_all
    then obtain r s' where r: "ws_send net sk (drop sent data) ?len s = (Some r, s')" "0 < r" "r \<le> nat ?len"
      "wire s' = wire s @ take r (drop sent data)"
      using assms(1) unfolding delivers_def by meson
    then have "sent + r \<le> length data" "length data - (sent + r) < length data - sent"
      using len True by simp_all
    from less(1) [OF this(2,1), of s'] r(1,4) True show ?thesis
      using take_drop_step [of r sent data] by (subst send_loop.simps) auto
  qed
qed

lemma send_loop_returns:
  assumes "progresses net sk"
  shows "\<exists>res. send_loop net sk data sent s = Some res"
proof (induction "length data - sent" arbitrary: sent s rule: less_induct)
  case less
  show ?case
  proof (cases "sent < length data")
    case True
    obtain r s' where r: "ws_send net sk (drop sent data) (chunk_size (length data - sent)) s = (r, s')"
      by force
    show ?thesis
    proof (cases r)
      case None
      then show ?thesis using r True by (subst send_loop.simps) auto
    next
      case (Some k)
      then have "0 < k" using assms r unfolding progresses_def by blast
      then have "\<exists>res. send_loop net sk data (sent + k) s' = Some res"
        using True by (intro less) simp
      then show ?thesis using r Some True by (subst send_loop.simps) simp
    qed
  qed (subst send_loop.simps, auto)
qed

lemma send_loop_stuck:
  assumes "send_loop net sk data sent s = Some y"
  shows "(\<forall>data len s. ws_send net sk data len s = (Some 0, s)) \<longrightarrow> \<not> sent < length data"
proof (rule send_loop.raw_induct [OF _ assms], intro impI notI)
  fix f :: "('a, 'b) winsock \<Rightarrow> SOCKET \<Rightarrow> bytes \<Rightarrow> nat \<Rightarrow> 'a \<Rightarrow> (bool \<times> 'a) option" and net sk data sent s y
  assume IH: "\<And>net sk data sent s y. f net sk data sent s = Some y \<Longrightarrow>
      (\<forall>data len s. ws_send net sk data len s = (Some 0, s)) \<longrightarrow> \<not> sent < length data"
    and eq: "(if sent < length data
      then case ws_send net sk (drop sent data) (chunk_size (length data - sent)) s of
             (None, s) \<Rightarrow> Some (False, s) | (Some r, s) \<Rightarrow> f net sk data (sent + r) s
      else Some (True, s)) = Some y"
    and none: "\<forall>data len s. ws_send net sk data len s = (Some 0, s)" and lt: "sent < length data"
  have "f net sk data sent s = Some y" using eq none lt by simp
  from IH [OF this] none lt show False by simp
qed

lemma recv_loop_receives:
  assumes "receives net sk pending" and "n < 2 ^ 31" and "length got \<le> n" and "n - length got \<le> length (pending s)"
  shows "\<exists>s'. recv_loop net sk n got s = (Some (got @ take (n - length got) (pending s)), s') \<and>
    pending s' = drop (n - length got) (pending s)"
  using assms(3,4)
proof (induction "n - length got" arbitrary: got s rule: less_induct)
  case less
  show ?case
  proof (cases "length got < n")
    case False
    then show ?thesis using less.prems by (subst recv_loop.simps) simp
  next
    case True
    let ?len = "sint (of_nat (n - length got) :: i32)"
    have len: "?len = int (n - length got)"
      using assms(2) True by (intro sint_small) simp
    then have "0 < ?len \<and> pending s \<noteq> []" using True less.prems by auto
    then obtain bs s' where bs: "ws_recv net sk ?len s = (Some bs, s')" "bs \<noteq> []" "length bs \<le> nat ?len"
      "pending s = bs @ pending s'"
      using assms(1) unfolding receives_def by meson
    have "n - length (got @ bs) < n - length got" "length (got @ bs) \<le> n"
      "n - length (got @ bs) \<le> length (pending s')"
      using bs len True less.prems(2) by (auto simp flip: length_greater_0_conv)
    from less(1) [OF this] bs len show ?thesis
      using True by (subst recv_loop.simps) (auto simp: diff_diff_left)
  qed
qed

lemma recv_loop_in_order:
  assumes "in_order net sk pending" and "n < 2 ^ 31" and "length got \<le> n"
    and "recv_loop net sk n got s = (Some r, s')"
  shows "length r = n \<and> (\<exists>bs. r = got @ bs \<and> pending s = bs @ pending s')"
  using assms(3,4)
proof (induction "n - length got" arbitrary: got s rule: less_induct)
  case less
  show ?case
  proof (cases "length got < n")
    case False
    then show ?thesis using less.prems by (simp add: recv_loop.simps)
  next
    case True
    let ?len = "sint (of_nat (n - length got) :: i32)"
    have len: "?len = int (n - length got)"
      using assms(2) True by (intro sint_small) simp
    obtain bs t where bs: "ws_recv net sk ?len s = (Some bs, t)" "bs \<noteq> []"
      and rest: "recv_loop net sk n (got @ bs) t = (Some r, s')"
      using less.prems(2) True by (subst (asm) recv_loop.simps) (auto split: prod.splits option.splits if_splits)
    have "0 < ?len" unfolding len using True by simp
    then have "length bs \<le> nat ?len" "pending s = bs @ pending t"
      using assms(1) bs(1) unfolding in_order_def by blast+
    moreover from this have "n - length (got @ bs) < n - length got" "length (got @ bs) \<le> n"
      using bs len True by (auto simp flip: length_greater_0_conv)
    ultimately show ?thesis
      using less(1) [OF _ _ rest] by auto
  qed
qed

section \<open>Frames\<close>

definition frame_bytes :: "bytes \<Rightarrow> bytes" where
  "frame_bytes p = frame_header (of_nat (length p)) @ p"

lemma length_frame_header [simp]: "length (frame_header w) = 4"
  by (simp add: frame_header_def)

lemma frame_length_header [simp]: "frame_length (frame_header w @ r) = w"
proof (rule bit_word_eqI)
  fix n assume "n < LENGTH(32)"
  then show "bit (frame_length (frame_header w @ r)) n = bit w n"
    by (cases "24 \<le> n"; cases "16 \<le> n"; cases "8 \<le> n")
       (auto simp: frame_length_def frame_header_def bit_simps and_ff)
qed

lemma frame_header_length:
  assumes "length h = 4"
  shows "frame_header (frame_length h) = h"
proof -
  have "h = [h ! 0, h ! 1, h ! 2, h ! 3]"
    using assms by (intro nth_equalityI) (auto simp: less_Suc_eq numeral_eq_Suc)
  moreover have "ucast (drop_bit k (frame_length h) AND 0xFF) = (b :: u8)"
    if "(k, b) \<in> {(24, h ! 0), (16, h ! 1), (8, h ! 2), (0, h ! 3)}" for k b
    using that by (intro bit_word_eqI) (auto simp: frame_length_def bit_simps and_ff dest: bit_imp_le_length)
  ultimately show ?thesis
    unfolding frame_header_def by (metis drop_bit_0 insertI1 insertI2 id_apply)
qed

lemma kMaxFrame_small: "n \<le> kMaxFrame \<Longrightarrow> n < 2 ^ 31"
  by (simp add: kMaxFrame_def)

lemma send_all_delivers:
  assumes "delivers net (tc_sock c) wire" and "conn_valid c" and "length data < 2 ^ 31"
  shows "\<exists>s'. send_all net c data s = Some (True, s') \<and> wire s' = wire s @ data"
  using send_loop_delivers [OF assms(1,3), of 0 s] assms(2) by (simp add: send_all_def)

lemma write_frame_delivers:
  assumes "delivers net (tc_sock c) wire" and "conn_valid c" and "length p \<le> kMaxFrame"
  shows "\<exists>s'. write_frame net c p s = Some (True, s') \<and> wire s' = wire s @ frame_bytes p"
proof -
  obtain s1 where s1: "send_all net c (frame_header (of_nat (length p))) s = Some (True, s1)"
    "wire s1 = wire s @ frame_header (of_nat (length p))"
    using send_all_delivers [OF assms(1,2), of "frame_header (of_nat (length p))" s] by auto
  obtain s2 where s2: "send_all net c p s1 = Some (True, s2)" "wire s2 = wire s1 @ p"
    using send_all_delivers [OF assms(1,2) kMaxFrame_small [OF assms(3)], of s1] by auto
  show ?thesis
    using s1 s2 assms(3) by (cases "p = []") (auto simp: write_frame_def frame_bytes_def)
qed

lemma recv_exact_receives:
  assumes "receives net (tc_sock c) pending" and "conn_valid c" and "n < 2 ^ 31"
    and "pending s = bs @ rest" and "length bs = n"
  shows "\<exists>s'. recv_exact net c n s = (Some bs, s') \<and> pending s' = rest"
  using recv_loop_receives [OF assms(1,3), of "[]" s] assms(2,4,5) by (simp add: recv_exact_def)

lemma read_frame_receives:
  assumes "receives net (tc_sock c) pending" and "conn_valid c" and "length p \<le> kMaxFrame"
    and "pending s = frame_bytes p @ rest"
  shows "\<exists>s'. read_frame net c s = (Some p, s') \<and> pending s' = rest"
proof -
  obtain s1 where s1: "recv_exact net c 4 s = (Some (frame_header (of_nat (length p))), s1)" "pending s1 = p @ rest"
    using recv_exact_receives [OF assms(1,2), of 4 s "frame_header (of_nat (length p))" "p @ rest"] assms(4)
    by (auto simp: frame_bytes_def)
  obtain s2 where s2: "recv_exact net c (length p) s1 = (Some p, s2)" "pending s2 = rest"
    using recv_exact_receives [OF assms(1,2) kMaxFrame_small [OF assms(3)] s1(2)] by auto
  have len: "unat (of_nat (length p) :: u32) = length p"
    using assms(3) by (intro u32_of_nat) (simp add: kMaxFrame_def)
  have "frame_length (frame_header (of_nat (length p))) = of_nat (length p)"
    using frame_length_header [of "of_nat (length p)" "[]"] by simp
  then show ?thesis
    using s1 s2 len assms(3) by (cases "p = []") (auto simp: read_frame_def Let_def word_gt_0_no word_less_nat_alt)
qed

section \<open>A stream of messages\<close>

primrec send_messages ::
  "('s, 'ai) winsock \<Rightarrow> TcpConnection \<Rightarrow> Message list \<Rightarrow> 's \<Rightarrow> (bool \<times> 's) option" where
  "send_messages net c [] s = Some (True, s)"
| "send_messages net c (m # ms) s =
     (case write_frame net c (encode_message m) s of
        None \<Rightarrow> None
      | Some (ok, s) \<Rightarrow> if ok then send_messages net c ms s else Some (False, s))"

primrec receive_messages ::
  "('s, 'ai) winsock \<Rightarrow> TcpConnection \<Rightarrow> nat \<Rightarrow> 's \<Rightarrow> decode_result list \<times> 's" where
  "receive_messages net c 0 s = ([], s)"
| "receive_messages net c (Suc n) s =
     (case read_frame net c s of
        (None, s) \<Rightarrow> ([], s)
      | (Some f, s) \<Rightarrow> let (ms, s) = receive_messages net c n s in (decode_message f Message_default # ms, s))"

definition message_bytes :: "Message list \<Rightarrow> bytes" where
  "message_bytes ms = concat (map (\<lambda>m. frame_bytes (encode_message m)) ms)"

definition sendable :: "Message \<Rightarrow> bool" where
  "sendable m \<longleftrightarrow> length (encode_message m) \<le> kMaxFrame"

lemma send_messages_delivers:
  assumes "delivers net (tc_sock c) wire" and "conn_valid c" and "list_all sendable ms"
  shows "\<exists>s'. send_messages net c ms s = Some (True, s') \<and> wire s' = wire s @ message_bytes ms"
  using assms(3)
proof (induction ms arbitrary: s)
  case (Cons m ms)
  obtain s1 where s1: "write_frame net c (encode_message m) s = Some (True, s1)"
    "wire s1 = wire s @ frame_bytes (encode_message m)"
    using write_frame_delivers [OF assms(1,2), of "encode_message m" s] Cons.prems by (auto simp: sendable_def)
  then show ?case
    using Cons.IH [of s1] Cons.prems by (auto simp: message_bytes_def)
qed (simp add: message_bytes_def)

lemma receive_messages_decodes:
  assumes "receives net (tc_sock c) pending" and "conn_valid c" and "list_all sendable ms"
    and "pending s = message_bytes ms @ rest"
  shows "\<exists>s'. receive_messages net c (length ms) s = (map Decoded ms, s') \<and> pending s' = rest"
  using assms(3,4)
proof (induction ms arbitrary: s)
  case (Cons m ms)
  obtain s1 where s1: "read_frame net c s = (Some (encode_message m), s1)" "pending s1 = message_bytes ms @ rest"
    using read_frame_receives [OF assms(1,2), of "encode_message m" s "message_bytes ms @ rest"] Cons.prems
    by (auto simp: sendable_def message_bytes_def)
  have "decode_message (encode_message m) Message_default = Decoded m"
    using Cons.prems decode_long [of "encode_message m"]
    by (simp add: sendable_def kMaxFrame_def encode_header header_of_bytes decode_payload_encoded)
  then show ?case
    using Cons.IH [OF _ s1(2)] Cons.prems s1(1) by auto
qed (simp add: message_bytes_def)

text \<open>
  C29. Messages arrive: over a socket that passes bytes on in whatever pieces it likes, sending
  messages (each within the frame limit) returns and puts exactly their frames on the wire; and
  from a stream that starts with those frames the receiver, however the stream is cut up,
  decodes the same messages in the same order and leaves what follows them.
\<close>

theorem message_stream_roundtrip:
  assumes "delivers snet (tc_sock sc) wire" and "conn_valid sc"
    and "receives rnet (tc_sock rc) pending" and "conn_valid rc" and "list_all sendable ms"
  shows "(\<exists>s'. send_messages snet sc ms s = Some (True, s') \<and> wire s' = wire s @ message_bytes ms) \<and>
    (pending r = message_bytes ms @ rest \<longrightarrow>
      (\<exists>r'. receive_messages rnet rc (length ms) r = (map Decoded ms, r') \<and> pending r' = rest))"
  using send_messages_delivers [OF assms(1,2,5)] receive_messages_decodes [OF assms(3,4,5)] by blast

lemma read_frame_prefix:
  assumes "in_order net (tc_sock c) pending" and "read_frame net c s = (Some p, s')"
  shows "length p \<le> kMaxFrame \<and> pending s = frame_bytes p @ pending s'"
proof -
  obtain hdr s1 where h: "recv_exact net c 4 s = (Some hdr, s1)" and small: "unat (frame_length hdr) \<le> kMaxFrame"
    and body: "if frame_length hdr > 0 then recv_exact net c (unat (frame_length hdr)) s1 = (Some p, s')
      else p = [] \<and> s' = s1"
    using assms(2) by (auto simp: read_frame_def Let_def not_less split: prod.splits option.splits if_splits)
  have got: "length r = n \<and> pending t = r @ pending t'"
    if "recv_exact net c n t = (Some r, t')" "n < 2 ^ 31" for n t r t'
    using recv_loop_in_order [OF assms(1) that(2), of "[]" t r t'] that(1)
    by (auto simp: recv_exact_def split: if_splits)
  have hdr: "length hdr = 4" "pending s = hdr @ pending s1"
    using got [OF h] by simp_all
  have p: "length p = unat (frame_length hdr)" "pending s1 = p @ pending s'"
    using body got [OF _ kMaxFrame_small [OF small]] by (auto simp: word_gt_0 split: if_splits)
  then have "of_nat (length p) = frame_length hdr" by simp
  then show ?thesis
    using hdr p small frame_header_length [OF hdr(1)] by (simp add: frame_bytes_def)
qed

text \<open>
  C30. Framing is exact. On a stream that may fail or end at any point, a payload is returned only
  if the stream's next bytes are its big-endian length and then exactly the payload, and only within
  the frame limit; nothing past it has been taken. While the library delivers what the stream has,
  every such payload is returned, up to and including the limit: the read fails exactly when the
  stream does not begin with a frame.
\<close>

theorem read_frame_strict:
  assumes "in_order net (tc_sock c) pending"
  shows "(read_frame net c s = (Some p, s') \<longrightarrow> length p \<le> kMaxFrame \<and> pending s = frame_bytes p @ pending s') \<and>
    (receives net (tc_sock c) pending \<and> conn_valid c \<longrightarrow>
       (fst (read_frame net c s) = Some p \<longleftrightarrow> length p \<le> kMaxFrame \<and> (\<exists>rest. pending s = frame_bytes p @ rest)))"
proof (intro conjI impI)
  show "length p \<le> kMaxFrame" "pending s = frame_bytes p @ pending s'" if "read_frame net c s = (Some p, s')"
    using read_frame_prefix [OF assms that] by blast+
  assume "receives net (tc_sock c) pending \<and> conn_valid c"
  then have full: "fst (read_frame net c s) = Some p" if "length p \<le> kMaxFrame" "pending s = frame_bytes p @ rest" for rest
    using read_frame_receives [of net c pending p s rest] that \<open>receives net (tc_sock c) pending \<and> conn_valid c\<close> by auto
  show "fst (read_frame net c s) = Some p \<longleftrightarrow> length p \<le> kMaxFrame \<and> (\<exists>rest. pending s = frame_bytes p @ rest)"
    using read_frame_prefix [OF assms, of s p "snd (read_frame net c s)"] full by (auto simp: prod_eq_iff)
qed

text \<open>
  C31. Sending ends: if every call of the library's \<open>send\<close> takes at least one byte or fails, then
  \<open>send_all\<close> and \<open>write_frame\<close> return; and a library that takes nothing without failing would
  keep \<open>send_all\<close> in its loop for ever.
\<close>

theorem sending_returns:
  shows "(progresses net (tc_sock c) \<longrightarrow>
      (\<exists>res. send_all net c data s = Some res) \<and> (\<exists>res. write_frame net c data s = Some res)) \<and>
    ((\<forall>data len s. ws_send net (tc_sock c) data len s = (Some 0, s)) \<and> conn_valid c \<and> data \<noteq> [] \<longrightarrow>
      send_all net c data s = None)"
proof (intro conjI impI)
  assume "progresses net (tc_sock c)"
  then have all: "send_all net c data s \<noteq> None" for data s
    using send_loop_returns [of net "tc_sock c" data 0 s] by (auto simp: send_all_def)
  then show "\<exists>res. send_all net c data s = Some res" by blast
  have "write_frame net c data s \<noteq> None"
    using all by (auto simp: write_frame_def simp del: not_None_eq split: option.split)
  then show "\<exists>res. write_frame net c data s = Some res" by blast
next
  assume *: "(\<forall>data len s. ws_send net (tc_sock c) data len s = (Some 0, s)) \<and> conn_valid c \<and> data \<noteq> []"
  then show "send_all net c data s = None"
    using send_loop_stuck [of net "tc_sock c" data 0 s]
    by (cases "send_loop net (tc_sock c) data 0 s") (auto simp: send_all_def)
qed

section \<open>Sockets\<close>

text \<open>The open sockets as the library's calls change them.\<close>

definition tracks_sockets :: "('s, 'ai) winsock \<Rightarrow> ('s \<Rightarrow> SOCKET set) \<Rightarrow> bool" where
  "tracks_sockets net opened \<longleftrightarrow>
     (\<forall>ai s sk s'. ws_socket net ai s = (sk, s') \<longrightarrow>
        (if sk = INVALID_SOCKET then opened s' = opened s
         else sk \<notin> opened s \<and> opened s' = insert sk (opened s))) \<and>
     (\<forall>sk s. opened (ws_closesocket net sk s) = opened s - {sk}) \<and>
     (\<forall>s ok s'. ws_startup net s = (ok, s') \<longrightarrow> opened s' = opened s) \<and>
     (\<forall>h p s r s'. ws_getaddrinfo net h p s = (r, s') \<longrightarrow> opened s' = opened s) \<and>
     (\<forall>ais s. opened (ws_freeaddrinfo net ais s) = opened s) \<and>
     (\<forall>sk ai s ok s'. ws_connect net sk ai s = (ok, s') \<longrightarrow> opened s' = opened s) \<and>
     (\<forall>sk s. opened (ws_reuseaddr net sk s) = opened s) \<and>
     (\<forall>sk p s ok s'. ws_bind net sk p s = (ok, s') \<longrightarrow> opened s' = opened s) \<and>
     (\<forall>sk s ok s'. ws_listen net sk s = (ok, s') \<longrightarrow> opened s' = opened s)"

lemma tracksD:
  assumes "tracks_sockets net opened"
  shows "ws_socket net ai s = (sk, s') \<Longrightarrow> if sk = INVALID_SOCKET then opened s' = opened s
      else sk \<notin> opened s \<and> opened s' = insert sk (opened s)"
    and "opened (ws_closesocket net sk s) = opened s - {sk}"
    and "ws_startup net s = (ok, s') \<Longrightarrow> opened s' = opened s"
    and "ws_getaddrinfo net h p s = (ais, s') \<Longrightarrow> opened s' = opened s"
    and "opened (ws_freeaddrinfo net l s) = opened s"
    and "ws_connect net sk a s = (ok, s') \<Longrightarrow> opened s' = opened s"
    and "opened (ws_reuseaddr net sk s) = opened s"
    and "ws_bind net sk port s = (ok, s') \<Longrightarrow> opened s' = opened s"
    and "ws_listen net sk s = (ok, s') \<Longrightarrow> opened s' = opened s"
  using assms unfolding tracks_sockets_def by presburger+

lemma tcp_init_opened:
  "tracks_sockets net opened \<Longrightarrow> tcp_init net g s = (ok, g', s') \<Longrightarrow> opened s' = opened s"
  by (auto simp: tcp_init_def tracksD(3) split: if_splits prod.splits)

lemma connect_loop_opened:
  assumes "tracks_sockets net opened" and "connect_loop net ais s = (r, s')"
  shows "case r of None \<Rightarrow> opened s' = opened s
    | Some sk \<Rightarrow> sk \<noteq> INVALID_SOCKET \<and> sk \<notin> opened s \<and> opened s' = insert sk (opened s)"
  using assms(2)
proof (induction ais arbitrary: s)
  case (Cons ai ais)
  obtain sk s1 where s1: "ws_socket net (Some ai) s = (sk, s1)" by force
  obtain ok s2 where s2: "ws_connect net sk ai s1 = (ok, s2)" by force
  note sock = tracksD(1) [OF assms(1) s1] and conn = tracksD(6) [OF assms(1) s2]
  show ?case
  proof (cases "sk = INVALID_SOCKET \<or> ok")
    case True
    then show ?thesis
      using Cons.IH [of s1] Cons.prems s1 s2 sock conn
      by (cases "sk = INVALID_SOCKET") (auto split: option.splits)
  next
    case False
    then have "opened (ws_closesocket net sk s2) = opened s"
      using sock conn tracksD(2) [OF assms(1)] by simp
    then show ?thesis
      using Cons.IH [of "ws_closesocket net sk s2"] Cons.prems s1 s2 False by (simp split: option.splits)
  qed
qed simp

text \<open>
  No socket leaks on the way up: a \<open>connect_to\<close> or \<open>listen_on\<close> that fails leaves the connection
  as it was and no socket open that was not open before; one that succeeds has opened exactly
  one new socket, and the connection holds it.
\<close>

theorem opening_leaks_nothing:
  assumes "tracks_sockets net opened"
    and "connect_to net g c host port s = (ok, c', g', s') \<or> listen_on net g c port s = (ok, c', g', s')"
  shows "if ok then conn_valid c' \<and> tc_sock c' \<notin> opened s \<and> opened s' = insert (tc_sock c') (opened s)
    else c' = c \<and> opened s' = opened s"
  using assms(2)
proof
  assume "connect_to net g c host port s = (ok, c', g', s')"
  then show ?thesis
    using tcp_init_opened [OF assms(1)] tracksD(4,5) [OF assms(1)] connect_loop_opened [OF assms(1)]
    by (fastforce simp: connect_to_def Let_def conn_valid_def split: prod.splits option.splits if_splits)
next
  assume l: "listen_on net g c port s = (ok, c', g', s')"
  obtain i g1 s1 where i: "tcp_init net g s = (i, g1, s1)" by (metis prod_cases3)
  obtain sk s2 where sk: "ws_socket net None s1 = (sk, s2)" by force
  obtain b s3 where b: "ws_bind net sk port (ws_reuseaddr net sk s2) = (b, s3)" by force
  obtain n s4 where n: "ws_listen net sk s3 = (n, s4)" by force
  show ?thesis
    using l tcp_init_opened [OF assms(1) i] tracksD(1) [OF assms(1) sk] tracksD(8) [OF assms(1) b]
      tracksD(9) [OF assms(1) n] tracksD(2,7) [OF assms(1)]
    by (auto simp: listen_on_def i sk b n Let_def conn_valid_def split: if_splits)
qed

section \<open>A concrete network\<close>

text \<open>
  A pipe in memory: the state is the bytes in transit; \<open>send\<close> takes at most three bytes at a
  time and \<open>recv\<close> gives at most two. Socket 7 is the only one and is never reported as open.
\<close>

definition pipe :: "(bytes, unit) winsock" where
  "pipe = \<lparr>ws_startup = (\<lambda>s. (True, s)), ws_cleanup = (\<lambda>s. s), ws_getaddrinfo = (\<lambda>h p s. (Some [()], s)),
     ws_freeaddrinfo = (\<lambda>l s. s), ws_socket = (\<lambda>ai s. (INVALID_SOCKET, s)), ws_connect = (\<lambda>sk ai s. (True, s)),
     ws_reuseaddr = (\<lambda>sk s. s), ws_bind = (\<lambda>sk p s. (True, s)), ws_listen = (\<lambda>sk s. (True, s)),
     ws_accept = (\<lambda>sk s. (7, s)), ws_timeout = (\<lambda>sk t s. s), ws_closesocket = (\<lambda>sk s. s),
     ws_send = (\<lambda>sk data len s. let r = min 3 (nat len) in (Some r, s @ take r data)),
     ws_recv = (\<lambda>sk len s. let r = min 2 (nat len) in (Some (take r s), drop r s))\<rparr>"

definition pipe_end :: TcpConnection where "pipe_end = \<lparr>tc_sock = 7\<rparr>"

lemma pipe_valid: "conn_valid pipe_end"
  by (simp add: conn_valid_def pipe_end_def INVALID_SOCKET_def)

lemma pipe_delivers: "delivers pipe sk (\<lambda>s. s)"
  by (auto simp: delivers_def pipe_def Let_def)

lemma pipe_receives: "receives pipe sk (\<lambda>s. s)"
  by (auto simp: receives_def pipe_def Let_def min_def)

lemma pipe_in_order: "in_order pipe sk (\<lambda>s. s)"
  by (auto simp: in_order_def pipe_def Let_def)

theorem message_stream_roundtrip_witness:
  "\<exists>r'. receive_messages pipe pipe_end (length [Message_default, Message_default\<lparr>m_kind := PING\<rparr>])
      (message_bytes [Message_default, Message_default\<lparr>m_kind := PING\<rparr>] @ [1, 2]) =
    (map Decoded [Message_default, Message_default\<lparr>m_kind := PING\<rparr>], r') \<and> r' = [1, 2]"
proof -
  have "list_all sendable [Message_default, Message_default\<lparr>m_kind := PING\<rparr>]"
    by (simp add: sendable_def kMaxFrame_def Message_default_def)
  from message_stream_roundtrip [OF pipe_delivers pipe_valid pipe_receives pipe_valid this, THEN conjunct2]
  show ?thesis by blast
qed

theorem read_frame_strict_witness:
  "fst (read_frame pipe pipe_end [0, 0, 0, 2, 9, 9, 5]) = Some [9, 9] \<and>
   fst (read_frame pipe pipe_end [0, 0, 0, 2, 9]) \<noteq> Some [9]"
proof -
  have "[0, 0, 0, 2, 9, 9, 5] = frame_bytes [9, 9] @ [5 :: u8]" "length [9 :: u8, 9] \<le> kMaxFrame"
    by (simp_all add: frame_bytes_def frame_header_def kMaxFrame_def)
  moreover have "\<nexists>rest. [0, 0, 0, 2, 9] = frame_bytes [9] @ (rest :: bytes)"
    by (simp add: frame_bytes_def frame_header_def)
  ultimately show ?thesis
    using read_frame_strict [OF pipe_in_order, of pipe_end] pipe_receives pipe_valid by blast
qed

theorem sending_returns_witness:
  "\<exists>res. write_frame (pipe\<lparr>ws_send := \<lambda>sk data len s. (None, s)\<rparr>) pipe_end [1] [] = Some res"
  using sending_returns [of "pipe\<lparr>ws_send := \<lambda>sk data len s. (None, s)\<rparr>" pipe_end "[1]" "[]"]
  by (simp add: progresses_def)

text \<open>A library with one socket to give, whose state is the set of open sockets; nobody answers.\<close>

definition one_socket :: "(SOCKET set, unit) winsock" where
  "one_socket = \<lparr>ws_startup = (\<lambda>s. (True, s)), ws_cleanup = (\<lambda>s. s), ws_getaddrinfo = (\<lambda>h p s. (Some [()], s)),
     ws_freeaddrinfo = (\<lambda>l s. s), ws_socket = (\<lambda>ai s. if 7 \<in> s then (INVALID_SOCKET, s) else (7, insert 7 s)),
     ws_connect = (\<lambda>sk ai s. (False, s)), ws_reuseaddr = (\<lambda>sk s. s), ws_bind = (\<lambda>sk p s. (True, s)),
     ws_listen = (\<lambda>sk s. (True, s)), ws_accept = (\<lambda>sk s. (INVALID_SOCKET, s)), ws_timeout = (\<lambda>sk t s. s),
     ws_closesocket = (\<lambda>sk s. s - {sk}), ws_send = (\<lambda>sk data len s. (None, s)), ws_recv = (\<lambda>sk len s. (None, s))\<rparr>"

lemma one_socket_tracks: "tracks_sockets one_socket (\<lambda>s. s)"
  by (auto simp: tracks_sockets_def one_socket_def INVALID_SOCKET_def split: if_splits)

theorem opening_leaks_nothing_witness:
  "conn_valid \<lparr>tc_sock = 7\<rparr> \<and> (\<exists>s'. snd (snd (snd (connect_to one_socket True TcpConnection_default ''h'' 80 {}))) = s' \<and> s' = {})"
proof -
  have "listen_on one_socket True TcpConnection_default 80 {} = (True, \<lparr>tc_sock = 7\<rparr>, True, {7})"
    by (simp add: listen_on_def tcp_init_def one_socket_def INVALID_SOCKET_def TcpConnection_default_def)
  then have 1: "conn_valid \<lparr>tc_sock = 7\<rparr>"
    using opening_leaks_nothing [OF one_socket_tracks, of True TcpConnection_default "''h''" 80 "{}" True "\<lparr>tc_sock = 7\<rparr>" True "{7}"]
    by simp
  obtain ok c' g' s' where r: "connect_to one_socket True TcpConnection_default ''h'' 80 {} = (ok, c', g', s')"
    by (metis prod_cases4)
  moreover have "\<not> ok"
    using r by (auto simp: connect_to_def tcp_init_def one_socket_def INVALID_SOCKET_def Let_def)
  ultimately have "s' = {}"
    using opening_leaks_nothing [OF one_socket_tracks, of True TcpConnection_default "''h''" 80 "{}" ok c' g' s'] by simp
  then show ?thesis using 1 r by simp
qed

end
