(* ===== verification/Process.thy ===== *)
theory Process
  imports Snapshot Transport
begin

text \<open>
  What the processes of \<open>apps/distributed\<close> share: the failures that end one (an exception nobody
  catches, a variable read without a value, a message decoded outside its buffer), text to
  identities and enumerators, and what happens to a handler's result afterwards.
\<close>

section \<open>Failures\<close>

datatype process_failure =
    Std_exception std_exception
  | Identity_exception IdentityParseError
  | Indeterminate_value
  | Out_of_bounds_read

definition ebind :: "'e + 'a \<Rightarrow> ('a \<Rightarrow> 'e + 'b) \<Rightarrow> 'e + 'b" where
  "ebind x f = (case x of Inl e \<Rightarrow> Inl e | Inr v \<Rightarrow> f v)"

lemma ebind_simps [simp]: "ebind (Inl e) f = Inl e" "ebind (Inr v) f = f v"
  by (simp_all add: ebind_def)

lemma ebind_Inr: "ebind x f = Inr y \<longleftrightarrow> (\<exists>v. x = Inr v \<and> f v = Inr y)"
  by (cases x) simp_all

definition raised :: "std_exception + 'a \<Rightarrow> process_failure + 'a" where
  "raised x = (case x of Inl e \<Rightarrow> Inl (Std_exception e) | Inr v \<Rightarrow> Inr v)"

definition parse_id :: "string \<Rightarrow> process_failure + 'tag Id" where
  "parse_id s = (case id_from_string s of Inl e \<Rightarrow> Inl (Identity_exception e) | Inr i \<Rightarrow> Inr i)"

text \<open>A variable that \<open>from_int\<close> may have left without a value, when it is read.\<close>

definition read_var :: "'e option \<Rightarrow> process_failure + 'e" where
  "read_var v = (case v of None \<Rightarrow> Inl Indeterminate_value | Some x \<Rightarrow> Inr x)"

lemma parse_id_str [simp]: "parse_id (id_str i) = Inr i"
proof -
  have "id_from_string (id_str i) = Inr i"
    by (simp add: id_from_string_eq filter_id_str id_str_hex lower_hex_id_str)
  then show ?thesis by (simp add: parse_id_def)
qed

lemmas number_simps = raised_def stoull_def stoul_def strtoul_def take_sign_def is_space_def
  skip_prefix_def is_digit_def digit_value_def digits_value_def

text \<open>The text of an identity has no newline, so it can stand in a payload.\<close>

lemma newline_not_in_id [simp]: "newline \<notin> set (id_str i)"
proof
  assume "newline \<in> set (id_str i)"
  then have "0 \<le> hex_digit newline" using id_str_hex by blast
  then show False by (simp add: newline_def hex_digit_def)
qed

lemmas newline_not_in_id_chr [simp] = newline_not_in_id [unfolded newline_def]

text \<open>Looking up a payload written line by line.\<close>

fun join_lines :: "string list \<Rightarrow> string" where
  "join_lines [] = []"
| "join_lines [l] = l"
| "join_lines (l # ls) = l @ newline # join_lines ls"

lemma lines_join: "ls \<noteq> [] \<Longrightarrow> list_all (\<lambda>l. newline \<notin> set l) ls \<Longrightarrow> lines (join_lines ls) = ls"
  by (induction ls rule: join_lines.induct) (simp_all add: lines_last lines_cons)

lemma get_payload_join:
  assumes "ls \<noteq> []" and "list_all (\<lambda>l. newline \<notin> set l) ls"
  shows "get_payload (join_lines ls) k def = (case find (has_prefix (k @ ''='')) ls of
     None \<Rightarrow> def | Some l \<Rightarrow> drop (Suc (length k)) l)"
  using lines_join [OF assms] by (simp add: get_payload_def find_line_lines split: option.split)

section \<open>Sequences of events\<close>

text \<open>A process handles one event after the other, and writes what each handler writes.\<close>

fun run_handlers :: "('e \<Rightarrow> 's \<Rightarrow> 'f + 's \<times> 'o list) \<Rightarrow> 'e list \<Rightarrow> 's \<Rightarrow> 'f + 's \<times> 'o list" where
  "run_handlers handle [] s = Inr (s, [])"
| "run_handlers handle (ev # evs) s =
     ebind (handle ev s) (\<lambda>(s, out). ebind (run_handlers handle evs s) (\<lambda>(s, out'). Inr (s, out @ out')))"

text \<open>
  What a handler promises of the state before and after it holds over every sequence of events, if
  it is reflexive and transitive.
\<close>

locale guarded_process =
  fixes handle :: "'e \<Rightarrow> 's \<Rightarrow> 'f + 's \<times> 'o list" and rel :: "'s \<Rightarrow> 's \<Rightarrow> bool"
  assumes rel_refl: "rel s s"
    and rel_trans: "rel s s' \<Longrightarrow> rel s' s'' \<Longrightarrow> rel s s''"
    and step_rel: "handle ev s = Inr (s', out) \<Longrightarrow> rel s s'"
begin

lemma run_rel: "run_handlers handle evs s = Inr (s', out) \<Longrightarrow> rel s s'"
proof (induction evs arbitrary: s out)
  case (Cons ev evs)
  then obtain s1 out1 out2 where "handle ev s = Inr (s1, out1)" "run_handlers handle evs s1 = Inr (s', out2)"
    by (auto simp: ebind_Inr)
  then show ?case
    using Cons.IH step_rel rel_trans by blast
qed (simp add: rel_refl)

end

section \<open>Command line arguments\<close>

text \<open>The worker's arguments, as they are parsed one after the other; a flag without a value is skipped.\<close>

type_synonym port = "16 word"

record worker_args =
  wa_port :: port
  wa_worker :: WorkerId
  wa_boot :: WorkerBootId
  wa_node :: NodeId

fun parse_worker_args :: "string list \<Rightarrow> worker_args \<Rightarrow> process_failure + worker_args" where
  "parse_worker_args (a # v # rest) wa =
     (if a = ''--port'' then ebind (raised (stoul 10 v)) (\<lambda>p. parse_worker_args rest (wa\<lparr>wa_port := ucast p\<rparr>))
      else if a = ''--worker'' then ebind (parse_id v) (\<lambda>i. parse_worker_args rest (wa\<lparr>wa_worker := i\<rparr>))
      else if a = ''--boot'' then ebind (parse_id v) (\<lambda>i. parse_worker_args rest (wa\<lparr>wa_boot := i\<rparr>))
      else if a = ''--node'' then ebind (parse_id v) (\<lambda>i. parse_worker_args rest (wa\<lparr>wa_node := i\<rparr>))
      else parse_worker_args (v # rest) wa)"
| "parse_worker_args _ wa = Inr wa"

text \<open>The exit code 2, or the arguments the worker runs with.\<close>

definition worker_arguments :: "string list \<Rightarrow> process_failure + (int + worker_args)" where
  "worker_arguments argv =
     ebind (parse_worker_args argv \<lparr>wa_port = 0, wa_worker = null_id, wa_boot = null_id, wa_node = null_id\<rparr>) (\<lambda>wa.
     Inr (if wa_port wa = 0 \<or> is_null (wa_worker wa) then Inl 2 else Inr wa))"

record coordinator_args =
  ca_port :: port
  ca_seed :: u64

fun parse_coordinator_args :: "string list \<Rightarrow> coordinator_args \<Rightarrow> process_failure + coordinator_args" where
  "parse_coordinator_args (a # v # rest) ca =
     (if a = ''--port'' then ebind (raised (stoul 10 v)) (\<lambda>p. parse_coordinator_args rest (ca\<lparr>ca_port := ucast p\<rparr>))
      else if a = ''--seed'' then ebind (raised (stoull 10 v)) (\<lambda>s. parse_coordinator_args rest (ca\<lparr>ca_seed := s\<rparr>))
      else parse_coordinator_args (v # rest) ca)"
| "parse_coordinator_args _ ca = Inr ca"

definition coordinator_arguments :: "string list \<Rightarrow> process_failure + (int + coordinator_args)" where
  "coordinator_arguments argv =
     ebind (parse_coordinator_args argv \<lparr>ca_port = 0, ca_seed = 0x1111\<rparr>) (\<lambda>ca.
     Inr (if ca_port ca = 0 then Inl 2 else Inr ca))"

end
