(* ===== verification/Coordinator.thy ===== *)
theory Coordinator
  imports Process
begin

text \<open>
  The coordinator process of \<open>apps/distributed/rf_coordinator.cpp\<close>. Its state is the controller,
  the epoch it drew at start, the connections of the workers, the last results, the engine for
  placements and the clocks (streams of readings). A connection is a number; \<open>up\<close>, an argument
  of the handlers, says on which connections a frame can be written. A handler returns the state and
  the messages it writes, or the failure that ends the process: an exception that leaves a
  detached thread, a variable read without a value, or a message decoded outside its buffer. Here a
  handler is one atomic step; the theory \<open>Threads\<close> splits it into the steps that can interleave.
\<close>

section \<open>Numbers in payloads\<close>

definition hexu :: "string \<Rightarrow> process_failure + u64" where
  "hexu s = raised (stoull 16 s)"

definition hexi :: "string \<Rightarrow> process_failure + i32" where
  "hexi s = raised (stoul 16 s)"

definition decu :: "string \<Rightarrow> process_failure + u32" where
  "decu s = raised (stoul 10 s)"

section \<open>Messages to records\<close>

definition build_set :: "Message \<Rightarrow> process_failure + ReplicaSetState" where
  "build_set m =
     (let p = m_payload m; s = ReplicaSetState_default\<lparr>s_id := m_set m\<rparr> in
      ebind (parse_id (get_payload p ''model'' [])) (\<lambda>model.
      ebind (parse_id (get_payload p ''workload'' [])) (\<lambda>workload.
      ebind (parse_id (get_payload p ''tenant'' [])) (\<lambda>tenant.
      ebind (decu (get_payload p ''desired'' ''2'')) (\<lambda>desired.
      ebind (decu (get_payload p ''min'' ''1'')) (\<lambda>min_healthy.
      ebind (decu (get_payload p ''max'' ''2'')) (\<lambda>max_replicas.
      ebind (parse_id (get_payload p ''artifact'' [])) (\<lambda>artifact.
      ebind (parse_id (get_payload p ''agen'' [])) (\<lambda>agen.
      ebind (parse_id (get_payload p ''sgen'' [])) (\<lambda>sgen.
      ebind (parse_id (get_payload p ''pgen'' [])) (\<lambda>pgen.
      ebind (hexi (get_payload p ''backend'' ''2'')) (\<lambda>backend.
      ebind (read_var (BackendKind_from_int (sint backend))) (\<lambda>bk.
      ebind (hexi (get_payload p ''ccmaj'' ''8'')) (\<lambda>ccmaj.
      ebind (hexi (get_payload p ''ccmin'' ''0'')) (\<lambda>ccmin.
      ebind (hexu (get_payload p ''mem'' ''0x1000000'')) (\<lambda>mem.
      ebind (decu (get_payload p ''accel'' ''1'')) (\<lambda>accel.
      (let runtime = get_payload p ''runtime'' ''triton-3'';
           min_compute = \<lparr>cc_major = ccmaj, cc_minor = ccmin\<rparr>
       in Inr (s\<lparr>s_model_id := model, s_workload_id := workload, s_tenant_id := tenant,
            s_desired_count := desired, s_min_healthy := min_healthy, s_max_replicas := max_replicas,
            s_artifact_id := artifact, s_artifact_generation := agen, s_generation := sgen,
            s_policy_generation := pgen, s_lifecycle := ReplicaSetLifecycle.CREATED,
            s_backend := bk, s_runtime_name := runtime, s_min_compute := min_compute,
            s_memory_requirement_bytes := mem, s_accelerator_requirement := accel,
            s_compatibility := (s_compatibility s)\<lparr>cq_artifact_generation := agen, cq_backend := bk,
              cq_runtime_name := runtime, cq_numeric_mode := NumericMode.FP16,
              cq_policy_fingerprint := ''fp-1'', cq_model_id := model,
              cq_architecture := get_payload p ''arch'' ''llama'', cq_min_compute := min_compute\<rparr>\<rparr>)))))))))))))))))))"

definition build_worker_reg :: "Message \<Rightarrow> process_failure + WorkerRegistration" where
  "build_worker_reg m =
     (let p = m_payload m in
      ebind (parse_id (get_payload p ''node_hex'' [])) (\<lambda>node.
      ebind (hexi (get_payload p ''backend'' ''2'')) (\<lambda>backend.
      ebind (hexu (get_payload p ''mem'' ''0x800000000'')) (\<lambda>mem.
      ebind (hexi (get_payload p ''ccmaj'' ''c'')) (\<lambda>ccmaj.
      ebind (hexu (get_payload p ''devmem'' ''0x800000000'')) (\<lambda>devmem.
      ebind (read_var (BackendKind_from_int (sint backend))) (\<lambda>bk.
      (let dc = DeviceCapability_default\<lparr>dv_kind := AcceleratorKind.CUDA,
             dv_device_id := get_payload p ''device'' ''cuda:0'',
             dv_compute := \<lparr>cc_major = ccmaj, cc_minor = 0\<rparr>, dv_memory_bytes := devmem\<rparr>;
           bc = \<lparr>bc_kind = bk, bc_name = ''triton-3'', bc_compute = dv_compute dc, bc_numeric = NumericMode.FP16\<rparr>
       in Inr (WorkerRegistration_default\<lparr>w_worker_id := m_worker m, w_boot_id := m_boot m, w_node_id := node,
            w_protocol_version := 1,
            w_inventory := \<lparr>ri_total_memory_bytes = mem, ri_free_memory_bytes = mem,
              ri_accelerator_count = 1, ri_devices = [dc], ri_backends = [bc]\<rparr>\<rparr>)))))))))"

definition warming_from :: "string \<Rightarrow> process_failure + WarmingRecord" where
  "warming_from payload =
     ebind (hexu (get_payload payload ''steps'' ''0'')) (\<lambda>steps.
     Inr (WarmingRecord_default\<lparr>wm_state := WarmthState.WARM, wm_steps_completed := steps, wm_steps_required := 4,
       wm_artifact_loading_done := True, wm_weights_resident := True, wm_adapters_active := True,
       wm_kernel_init_done := True, wm_graph_init_done := True, wm_allocator_init_done := True,
       wm_device_context_done := True, wm_warmup_execution_done := True, wm_endpoint_registered := True\<rparr>))"

section \<open>The state of the process\<close>

text \<open>
  \<open>co_threads\<close> has the connections whose thread has read its first frame: from then on the thread
  serves the worker it registered, serves a control client, or has returned.
\<close>

datatype conn_thread = Serves_worker WorkerId | Serves_control | Returned

record coordinator =
  co_ctrl :: controller
  co_epoch :: CoordinatorEpoch
  co_conns :: "(WorkerId, nat) omap"
  co_results :: "(ReplicaId, string) omap"
  co_placement_rng :: engine
  co_mono :: "u64 stream"
  co_wall :: "i64 stream"
  co_threads :: "(nat, conn_thread) omap"

text \<open>\<open>main\<close>: the epoch and the controller's engine come from engines with the same seed.\<close>

definition new_coordinator :: "engine \<Rightarrow> engine \<Rightarrow> u64 stream \<Rightarrow> i64 stream \<Rightarrow> coordinator" where
  "new_coordinator gen placement_rng mono_clock wall_clock =
     \<lparr>co_ctrl = new_controller gen, co_epoch = fst (random_id gen), co_conns = [], co_results = [],
      co_placement_rng = placement_rng, co_mono = mono_clock, co_wall = wall_clock, co_threads = []\<rparr>"

type_synonym out = "(nat \<times> Message) list"

definition monotonic_ns :: "coordinator \<Rightarrow> u64 \<times> coordinator" where
  "monotonic_ns co = (shd (co_mono co), co\<lparr>co_mono := stl (co_mono co)\<rparr>)"

definition wall_ns :: "coordinator \<Rightarrow> i64 \<times> coordinator" where
  "wall_ns co = (shd (co_wall co), co\<lparr>co_wall := stl (co_wall co)\<rparr>)"

definition stash_result :: "ReplicaId \<Rightarrow> string \<Rightarrow> coordinator \<Rightarrow> coordinator" where
  "stash_result i res co = co\<lparr>co_results := om_put i res (co_results co)\<rparr>"

definition peek_result :: "ReplicaId \<Rightarrow> coordinator \<Rightarrow> string" where
  "peek_result i co = (case om_find (co_results co) i of None \<Rightarrow> [] | Some r \<Rightarrow> r)"

definition send_to_worker :: "(nat \<Rightarrow> bool) \<Rightarrow> WorkerId \<Rightarrow> Message \<Rightarrow> coordinator \<Rightarrow> bool \<times> out" where
  "send_to_worker up w m co =
     (case om_find (co_conns co) w of
        None \<Rightarrow> (False, [])
      | Some n \<Rightarrow> if \<not> up n then (False, []) else (True, [(n, m)]))"

definition result_text :: "OpResult \<Rightarrow> string" where
  "result_text r = (if is_ok r then ''ok'' else ''err'') @ '' '' @ op_message r"

text \<open>The acknowledgement every control handler starts from.\<close>

definition ack_for :: "Message \<Rightarrow> coordinator \<Rightarrow> Message" where
  "ack_for m co = Message_default\<lparr>m_kind := MSG_ERROR, m_epoch := co_epoch co, m_seq := m_seq m\<rparr>"

section \<open>Control messages\<close>

type_synonym handled = "process_failure + coordinator \<times> out"

definition control_create_set :: "Message \<Rightarrow> nat \<Rightarrow> coordinator \<Rightarrow> handled" where
  "control_create_set m conn co =
     ebind (build_set m) (\<lambda>s.
     (let (r, c) = create_replica_set s (co_epoch co) (co_ctrl co)
      in Inr (co\<lparr>co_ctrl := c\<rparr>,
           [(conn, (ack_for m co)\<lparr>m_kind := CREATE_SET_ACK, m_payload := result_text r\<rparr>)])))"

definition compat_from_set :: "ReplicaSetState option \<Rightarrow> ReplicaCompatibility" where
  "compat_from_set proto =
     (case proto of
        None \<Rightarrow> ReplicaCompatibility_default
      | Some s \<Rightarrow> (let q = s_compatibility s in ReplicaCompatibility_default\<lparr>
          cp_model_id := cq_model_id q, cp_model_revision := cq_model_revision q,
          cp_tokenizer_vocab := cq_tokenizer_vocab q, cp_adapters := cq_required_adapters q,
          cp_backend := cq_backend q, cp_runtime_name := cq_runtime_name q,
          cp_architecture := cq_architecture q, cp_numeric_mode := cq_numeric_mode q,
          cp_artifact_generation := cq_artifact_generation q, cp_kernel_abi := cq_kernel_abi q,
          cp_policy_fingerprint := cq_policy_fingerprint q\<rparr>))"

definition control_provision :: "(nat \<Rightarrow> bool) \<Rightarrow> Message \<Rightarrow> nat \<Rightarrow> coordinator \<Rightarrow> handled" where
  "control_provision up m conn co =
     (let p = m_payload m; reid = m_replica m in
      ebind (parse_id (get_payload p ''worker'' [])) (\<lambda>w.
      ebind (hexi (get_payload p ''ccmaj'' ''c'')) (\<lambda>ccmaj.
      ebind (hexu (get_payload p ''devmem'' ''0x800000000'')) (\<lambda>devmem.
      ebind (hexu (get_payload p ''capacity'' ''0x1000000'')) (\<lambda>cap.
      (let compat = (compat_from_set (find_set (m_set m) (co_ctrl co)))\<lparr>cp_compute := \<lparr>cc_major = ccmaj, cc_minor = 0\<rparr>\<rparr>;
           dev = DeviceCapability_default\<lparr>dv_kind := AcceleratorKind.CUDA,
             dv_device_id := get_payload p ''device'' ''cuda:0'',
             dv_compute := (dv_compute DeviceCapability_default)\<lparr>cc_major := ccmaj\<rparr>, dv_memory_bytes := devmem\<rparr>;
           (t, co) = monotonic_ns co;
           (u, co) = wall_ns co;
           (r, c) = provision_replica reid (m_set m) w compat dev cap t u (co_ctrl co);
           co = co\<lparr>co_ctrl := c\<rparr>;
           ack = (conn, (ack_for m co)\<lparr>m_kind := PROVISION_ACK, m_payload := result_text r\<rparr>)
       in if is_ok r
          then (let (pid, g) = random_id (co_placement_rng co);
                    co = co\<lparr>co_placement_rng := g\<rparr>;
                    (t, co) = monotonic_ns co;
                    co = co\<lparr>co_ctrl := snd (set_allocating reid pid t (co_ctrl co))\<rparr>;
                    (t, co) = monotonic_ns co;
                    (u, co) = wall_ns co;
                    co = co\<lparr>co_ctrl := snd (set_starting reid t u (co_ctrl co))\<rparr>;
                    warm = Message_default\<lparr>m_kind := WARM, m_epoch := co_epoch co, m_worker := w,
                      m_replica := reid, m_set := m_set m, m_payload := ''steps=4''\<rparr>
                in Inr (co, ack # snd (send_to_worker up w warm co)))
          else Inr (co, [ack])))))))"

text \<open>The worker and boot a control message acts for: the replica's own, if it is known.\<close>

definition acting_worker :: "Message \<Rightarrow> coordinator \<Rightarrow> WorkerId \<times> WorkerBootId" where
  "acting_worker m co =
     (case find_replica (m_replica m) (co_ctrl co) of
        None \<Rightarrow> (m_worker m, m_boot m)
      | Some r \<Rightarrow> (r_worker_id r, current_boot_for (m_replica m) (co_ctrl co)))"

definition control_promote :: "Message \<Rightarrow> nat \<Rightarrow> coordinator \<Rightarrow> handled" where
  "control_promote m conn co =
     ebind (hexi (get_payload (m_payload m) ''target'' ''5'')) (\<lambda>tg.
     ebind (read_var (PromotionState_from_int (sint tg))) (\<lambda>target.
     (let (wkr, bkt) = acting_worker m co;
          (t, co) = monotonic_ns co;
          (u, co) = wall_ns co;
          (r, c) = promote_replica (m_replica m) target wkr bkt t u (co_ctrl co)
      in Inr (co\<lparr>co_ctrl := c\<rparr>,
           [(conn, (ack_for m co)\<lparr>m_kind := PROMOTE_ACK, m_payload := result_text r\<rparr>)]))))"

definition control_drain :: "Message \<Rightarrow> nat \<Rightarrow> coordinator \<Rightarrow> handled" where
  "control_drain m conn co =
     (let (wkr, bkt) = acting_worker m co;
          (t, co) = monotonic_ns co;
          (r, c) = drain_replica (m_replica m) wkr bkt t (co_ctrl co)
      in Inr (co\<lparr>co_ctrl := c\<rparr>,
           [(conn, (ack_for m co)\<lparr>m_kind := DRAIN_ACK, m_payload := result_text r\<rparr>)]))"

definition control_failover :: "Message \<Rightarrow> nat \<Rightarrow> coordinator \<Rightarrow> handled" where
  "control_failover m conn co =
     ebind (parse_id (get_payload (m_payload m) ''failed'' [])) (\<lambda>failed.
     (let (t, co) = monotonic_ns co;
          (u, co) = wall_ns co;
          (r, c) = trigger_failover (m_set m) failed (get_payload (m_payload m) ''reason'' ''failover'') t u (co_ctrl co)
      in Inr (co\<lparr>co_ctrl := c\<rparr>,
           [(conn, (ack_for m co)\<lparr>m_kind := FAILOVER_ACK, m_payload := result_text r\<rparr>)])))"

definition control_execute :: "(nat \<Rightarrow> bool) \<Rightarrow> Message \<Rightarrow> nat \<Rightarrow> coordinator \<Rightarrow> handled" where
  "control_execute up m conn co =
     (case find_replica (m_replica m) (co_ctrl co) of
        None \<Rightarrow> Inr (co, [(conn, (ack_for m co)\<lparr>m_payload := ''err unknown replica''\<rparr>)])
      | Some r \<Rightarrow>
          (let (sent, msgs) = send_to_worker up (r_worker_id r) (m\<lparr>m_epoch := co_epoch co\<rparr>) co
           in if \<not> sent
              then Inr (co, msgs @ [(conn, (ack_for m co)\<lparr>m_payload := ''err worker unreachable''\<rparr>)])
              else Inr (co, msgs @ [(conn, (ack_for m co)\<lparr>m_payload := ''ok forwarded''\<rparr>)])))"

definition state_text :: "ReplicaState \<Rightarrow> string" where
  "state_text r = ''lifecycle='' @ ReplicaLifecycle_to_string (r_lifecycle r) @
     '' serving='' @ (if r_serving_eligible r then ''1'' else ''0'') @
     '' role='' @ ReplicaRole_to_string (r_role r) @ '' boot='' @ id_str (r_boot_id r)"

definition control_query :: "Message \<Rightarrow> nat \<Rightarrow> coordinator \<Rightarrow> handled" where
  "control_query m conn co =
     (let q = get_payload (m_payload m) ''q'' ''?'';
          ack = (ack_for m co)\<lparr>m_kind := QUERY\<rparr>
      in if q = ''result''
         then Inr (co, [(conn, ack\<lparr>m_payload := ''result='' @ peek_result (m_replica m) co\<rparr>)])
         else if q = ''state''
         then (case find_replica (m_replica m) (co_ctrl co) of
                 None \<Rightarrow> Inr (co, [(conn, ack\<lparr>m_payload := ''err unknown replica''\<rparr>)])
               | Some r \<Rightarrow> Inr (co, [(conn, ack\<lparr>m_payload := state_text r\<rparr>)]))
         else Inr (co, [(conn, ack\<lparr>m_payload := ''err unknown query''\<rparr>)]))"

definition hex_text :: "bytes \<Rightarrow> string" where
  "hex_text bs = concat (map (\<lambda>b. [kHex ! unat (drop_bit 4 b), kHex ! unat (b AND 0xF)]) bs)"

definition control_snapshot :: "Message \<Rightarrow> nat \<Rightarrow> coordinator \<Rightarrow> handled" where
  "control_snapshot m conn co =
     (let bytes = make_snapshot (co_ctrl co)
      in Inr (co, [(conn, (ack_for m co)\<lparr>m_kind := SNAPSHOT,
           m_payload := ''len='' @ to_string_nat (length bytes) @ [newline] @ ''hex='' @ hex_text bytes\<rparr>)]))"

definition handle_control :: "(nat \<Rightarrow> bool) \<Rightarrow> Message \<Rightarrow> nat \<Rightarrow> coordinator \<Rightarrow> handled" where
  "handle_control up m conn co =
     (if m_kind m = CREATE_SET then control_create_set m conn co
      else if m_kind m = PROVISION then control_provision up m conn co
      else if m_kind m = PROMOTE then control_promote m conn co
      else if m_kind m = DRAIN then control_drain m conn co
      else if m_kind m = FAILOVER then control_failover m conn co
      else if m_kind m = EXECUTE then control_execute up m conn co
      else if m_kind m = QUERY then control_query m conn co
      else if m_kind m = SNAPSHOT then control_snapshot m conn co
      else Inr (co, [(conn, (ack_for m co)\<lparr>m_payload := ''err unknown control command''\<rparr>)]))"

section \<open>Worker messages\<close>

definition worker_register :: "Message \<Rightarrow> nat \<Rightarrow> coordinator \<Rightarrow> handled" where
  "worker_register m conn co =
     ebind (build_worker_reg m) (\<lambda>wr.
     (let (t, co) = monotonic_ns co;
          (u, co) = wall_ns co;
          (r, c) = register_worker wr t u (co_ctrl co);
          co = co\<lparr>co_ctrl := c, co_conns := om_put (w_worker_id wr) conn (co_conns co),
            co_threads := om_put conn (Serves_worker (w_worker_id wr)) (co_threads co)\<rparr>;
          ack = Message_default\<lparr>m_kind := REGISTER_ACK, m_epoch := co_epoch co, m_payload := result_text r\<rparr>
      in Inr (co, [(conn, ack)])))"

definition worker_warm_done :: "Message \<Rightarrow> coordinator \<Rightarrow> handled" where
  "worker_warm_done m co =
     ebind (warming_from (m_payload m)) (\<lambda>w.
     (let (t, co) = monotonic_ns co
      in Inr (co\<lparr>co_ctrl := snd (warm_replica (m_replica m) w (m_worker m) (m_boot m) t (co_ctrl co))\<rparr>, [])))"

text \<open>The double 0.99.\<close>

definition confidence_099 :: f64 where "confidence_099 = 0x3FEFAE147AE147AE"

definition worker_health :: "Message \<Rightarrow> coordinator \<Rightarrow> handled" where
  "worker_health m co =
     ebind (hexi (get_payload (m_payload m) ''state'' ''2'')) (\<lambda>st.
     (case HealthState_from_int (sint st) of
        None \<Rightarrow> Inr (co, [])
      | Some hs \<Rightarrow>
          (let ev = HealthEvidence_default\<lparr>he_state := hs, he_kind := HealthEvidenceKind.REPORTED,
                 he_source := get_payload (m_payload m) ''source'' ''worker'', he_confidence := confidence_099\<rparr>;
               ev = (case find_replica (m_replica m) (co_ctrl co) of
                       None \<Rightarrow> ev | Some r \<Rightarrow> ev\<lparr>he_generation := r_health_generation r\<rparr>);
               (u, co) = wall_ns co;
               ev = ev\<lparr>he_observed_at_wall := u\<rparr>;
               (t, co) = monotonic_ns co
           in Inr (co\<lparr>co_ctrl := snd (report_health (m_replica m) ev (m_worker m) (m_boot m) t (co_ctrl co))\<rparr>, []))))"

definition factors_of_mask :: "u64 \<Rightarrow> ReadinessFactors" where
  "factors_of_mask msk = \<lparr>rf_model_loaded = (msk AND 1 \<noteq> 0), rf_artifact_validated = (msk AND 2 \<noteq> 0),
     rf_adapters_present = (msk AND 4 \<noteq> 0), rf_kernel_prepared = (msk AND 8 \<noteq> 0),
     rf_graph_prepared = (msk AND 16 \<noteq> 0), rf_memory_available = (msk AND 32 \<noteq> 0),
     rf_device_context_initialized = (msk AND 64 \<noteq> 0), rf_warmup_complete = (msk AND 128 \<noteq> 0),
     rf_dependencies_ready = (msk AND 256 \<noteq> 0), rf_endpoint_registered = (msk AND 512 \<noteq> 0),
     rf_policy_current = (msk AND 1024 \<noteq> 0)\<rparr>"

definition worker_readiness :: "Message \<Rightarrow> coordinator \<Rightarrow> handled" where
  "worker_readiness m co =
     ebind (hexu (get_payload (m_payload m) ''mask'' ''0'')) (\<lambda>msk.
     (let rr = ReadinessRecord_default\<lparr>rr_factors := factors_of_mask msk, rr_state := ReadinessState.READY\<rparr>;
          (t, co) = monotonic_ns co
      in Inr (co\<lparr>co_ctrl := snd (report_readiness (m_replica m) rr (m_worker m) (m_boot m) t (co_ctrl co))\<rparr>, [])))"

definition pong :: "nat \<Rightarrow> out" where
  "pong conn = [(conn, Message_default\<lparr>m_kind := PONG\<rparr>)]"

text \<open>The case of \<open>EXECUTE_RESULT\<close> has no \<open>break\<close> and runs on into that of \<open>PING\<close>.\<close>

definition worker_result :: "Message \<Rightarrow> nat \<Rightarrow> coordinator \<Rightarrow> handled" where
  "worker_result m conn co =
     (let p = m_payload m
      in Inr (stash_result (m_replica m) (''req='' @ get_payload p ''req'' ''?'' @ [newline] @
           ''outcome='' @ get_payload p ''outcome'' ''?'' @ [newline] @
           ''result='' @ get_payload p ''result'' ''?'') co, pong conn))"

definition handle_worker :: "Message \<Rightarrow> nat \<Rightarrow> coordinator \<Rightarrow> handled" where
  "handle_worker m conn co =
     (if m_kind m = WARM_DONE then worker_warm_done m co
      else if m_kind m = HEALTH then worker_health m co
      else if m_kind m = READINESS then worker_readiness m co
      else if m_kind m = EXECUTE_RESULT then worker_result m conn co
      else if m_kind m = PING then Inr (co, pong conn)
      else Inr (co, []))"

section \<open>Connections\<close>

text \<open>
  What a connection's thread does with a frame, and when its connection ends. The first frame
  decides whether it serves a worker or a control client; a first frame that does not decode
  ends the thread, a later one is skipped.
\<close>

definition first_message :: "(nat \<Rightarrow> bool) \<Rightarrow> Message \<Rightarrow> nat \<Rightarrow> coordinator \<Rightarrow> handled" where
  "first_message up m conn co =
     (if m_kind m = REGISTER then worker_register m conn co
      else handle_control up m conn (co\<lparr>co_threads := om_put conn Serves_control (co_threads co)\<rparr>))"

definition receive_frame :: "(nat \<Rightarrow> bool) \<Rightarrow> nat \<Rightarrow> bytes \<Rightarrow> coordinator \<Rightarrow> handled" where
  "receive_frame up conn bs co =
     (if om_find (co_threads co) conn = Some Returned then Inr (co, [])
      else case decode_message bs Message_default of
        Out_of_bounds \<Rightarrow> Inl Out_of_bounds_read
      | Malformed _ \<Rightarrow>
          (case om_find (co_threads co) conn of
             None \<Rightarrow> Inr (co\<lparr>co_threads := om_put conn Returned (co_threads co)\<rparr>, [])
           | Some _ \<Rightarrow> Inr (co, []))
      | Decoded m \<Rightarrow>
          (case om_find (co_threads co) conn of
             None \<Rightarrow> first_message up m conn co
           | Some (Serves_worker w) \<Rightarrow> handle_worker m conn co
           | Some Serves_control \<Rightarrow> handle_control up m conn co
           | Some Returned \<Rightarrow> Inr (co, [])))"

definition connection_closed :: "nat \<Rightarrow> coordinator \<Rightarrow> coordinator" where
  "connection_closed conn co =
     (case om_find (co_threads co) conn of
        Some (Serves_worker w) \<Rightarrow> co\<lparr>co_ctrl := snd (unregister_worker w (co_ctrl co)),
          co_conns := om_erase w (co_conns co), co_threads := om_erase conn (co_threads co)\<rparr>
      | _ \<Rightarrow> co\<lparr>co_threads := om_erase conn (co_threads co)\<rparr>)"

datatype net_event = Frame nat bytes | Closed nat

definition coordinator_step :: "(nat \<Rightarrow> bool) \<Rightarrow> net_event \<Rightarrow> coordinator \<Rightarrow> handled" where
  "coordinator_step up ev co =
     (case ev of Frame conn bs \<Rightarrow> receive_frame up conn bs co
      | Closed conn \<Rightarrow> Inr (connection_closed conn co, []))"

definition run_events :: "(nat \<Rightarrow> bool) \<Rightarrow> net_event list \<Rightarrow> coordinator \<Rightarrow> handled" where
  "run_events up evs co = run_handlers (coordinator_step up) evs co"

end
