(* ===== verification/Coordinator_Safety.thy ===== *)
theory Coordinator_Safety
  imports Coordinator
begin

text \<open>
  What holds of the coordinator whatever arrives on its connections: its controller is driven by
  controller commands under one epoch, every command is answered, commands reach the worker they
  are for, and which frames end the process. A handler is followed with \<open>after\<close>, so that each
  fact is proved once per handler and carried over the events by induction.
\<close>

section \<open>What the coordinator does to its controller\<close>

text \<open>
  The commands the coordinator issues: it creates sets under its own epoch and never sets an
  epoch, completes a drain, fails or retires a replica or moves a set by itself.
\<close>

fun issued :: "CoordinatorEpoch \<Rightarrow> command \<Rightarrow> bool" where
  "issued e (CreateReplicaSet st e') \<longleftrightarrow> e' = e"
| "issued e (SetEpoch e') \<longleftrightarrow> False"
| "issued e (CompleteDrain _ _ _ _) \<longleftrightarrow> False"
| "issued e (FailReplica _ _ _ _ _) \<longleftrightarrow> False"
| "issued e (RetireReplica _ _) \<longleftrightarrow> False"
| "issued e (TransitionReplicaSet _ _) \<longleftrightarrow> False"
| "issued e _ \<longleftrightarrow> True"

definition drives :: "CoordinatorEpoch \<Rightarrow> controller \<Rightarrow> controller \<Rightarrow> bool" where
  "drives e c c' \<longleftrightarrow> (\<exists>cmds. list_all (issued e) cmds \<and> c' = run_commands cmds c)"

lemma drives_refl [simp]: "drives e c c"
  unfolding drives_def by (rule exI [of _ "[]"]) simp

lemma drives_trans [trans]: "drives e c c' \<Longrightarrow> drives e c' c'' \<Longrightarrow> drives e c c''"
  unfolding drives_def by (metis list_all_append run_commands_simps(3))

lemma drives_command: "issued e cmd \<Longrightarrow> drives e c (snd (run_command cmd c))"
  unfolding drives_def by (rule exI [of _ "[cmd]"]) simp

lemma drives_ops [simp]:
  "drives e c (snd (register_worker wr t u c))" "drives e c (snd (unregister_worker w c))"
  "drives e c (snd (create_replica_set st e c))" "drives e c (snd (provision_replica rid sid w cm dv cap t u c))"
  "drives e c (snd (set_allocating rid pid t c))" "drives e c (snd (set_starting rid t u c))"
  "drives e c (snd (warm_replica rid wm w b t c))" "drives e c (snd (report_health rid ev w b t c))"
  "drives e c (snd (report_readiness rid rr w b t c))" "drives e c (snd (promote_replica rid tg w b t u c))"
  "drives e c (snd (drain_replica rid w b t c))" "drives e c (snd (trigger_failover sid rid rs t u c))"
  using drives_command [of e "RegisterWorker wr t u" c] drives_command [of e "UnregisterWorker w" c]
    drives_command [of e "CreateReplicaSet st e" c] drives_command [of e "ProvisionReplica rid sid w cm dv cap t u" c]
    drives_command [of e "SetAllocating rid pid t" c] drives_command [of e "SetStarting rid t u" c]
    drives_command [of e "WarmReplica rid wm w b t" c] drives_command [of e "ReportHealth rid ev w b t" c]
    drives_command [of e "ReportReadiness rid rr w b t" c] drives_command [of e "PromoteReplica rid tg w b t u" c]
    drives_command [of e "DrainReplica rid w b t" c] drives_command [of e "TriggerFailover sid rid rs t u" c]
  by simp_all

lemma clock_simps [simp]:
  "co_ctrl (snd (monotonic_ns co)) = co_ctrl co" "co_ctrl (snd (wall_ns co)) = co_ctrl co"
  "co_epoch (snd (monotonic_ns co)) = co_epoch co" "co_epoch (snd (wall_ns co)) = co_epoch co"
  "co_conns (snd (monotonic_ns co)) = co_conns co" "co_conns (snd (wall_ns co)) = co_conns co"
  "co_threads (snd (monotonic_ns co)) = co_threads co" "co_threads (snd (wall_ns co)) = co_threads co"
  "co_placement_rng (snd (monotonic_ns co)) = co_placement_rng co"
  "co_placement_rng (snd (wall_ns co)) = co_placement_rng co"
  by (simp_all add: monotonic_ns_def wall_ns_def)

text \<open>\<open>after P h\<close>: if the handler returns, its state and messages satisfy \<open>P\<close>.\<close>

definition after :: "(coordinator \<Rightarrow> out \<Rightarrow> bool) \<Rightarrow> handled \<Rightarrow> bool" where
  "after P h \<longleftrightarrow> (case h of Inl _ \<Rightarrow> True | Inr (co', out) \<Rightarrow> P co' out)"

lemma after_simps [simp]: "after P (Inl f)" "after P (Inr (co', out)) \<longleftrightarrow> P co' out"
  by (simp_all add: after_def)

lemma afterD: "after P h \<Longrightarrow> h = Inr (co', out) \<Longrightarrow> P co' out"
  by simp

lemma after_bind: "(\<And>v. x = Inr v \<Longrightarrow> after P (f v)) \<Longrightarrow> after P (ebind x f)"
  by (cases x) simp_all

abbreviation steered :: "coordinator \<Rightarrow> handled \<Rightarrow> bool" where
  "steered co \<equiv> after (\<lambda>co' _. co_epoch co' = co_epoch co \<and> drives (co_epoch co) (co_ctrl co) (co_ctrl co'))"

lemmas handler_simps = Let_def case_prod_unfold

lemma drives_provisioning [simp]:
  "drives e c (snd (set_starting rid t3 u3 (snd (set_allocating rid pid t2
     (snd (provision_replica rid sid w cm dv cap t1 u1 c))))))"
  by (rule drives_trans [OF drives_trans]) (rule drives_ops)+

lemma provision_steered: "steered co (control_provision up m conn co)"
  unfolding control_provision_def Let_def
  by (intro after_bind) (auto simp: handler_simps)

lemma control_steered:
  "steered co (control_create_set m conn co)" "steered co (control_promote m conn co)"
  "steered co (control_drain m conn co)" "steered co (control_failover m conn co)"
  "steered co (control_execute up m conn co)" "steered co (control_query m conn co)"
  "steered co (control_snapshot m conn co)"
  unfolding control_create_set_def control_promote_def control_drain_def control_failover_def
    control_execute_def control_query_def control_snapshot_def
  by (auto simp: handler_simps intro!: after_bind split: option.split)

lemma handle_control_steered: "steered co (handle_control up m conn co)"
  unfolding handle_control_def by (auto simp: provision_steered control_steered)

lemma worker_steered:
  "steered co (worker_register m conn co)" "steered co (worker_warm_done m co)"
  "steered co (worker_health m co)" "steered co (worker_readiness m co)" "steered co (worker_result m conn co)"
  unfolding worker_register_def worker_warm_done_def worker_health_def worker_readiness_def worker_result_def
    stash_result_def
  by (auto simp: handler_simps intro!: after_bind split: option.split)

lemma handle_worker_steered: "steered co (handle_worker m conn co)"
  unfolding handle_worker_def by (auto simp: worker_steered)

lemma receive_steered: "steered co (receive_frame up conn bs co)"
proof -
  have "steered co (first_message up m conn co)" for m
    using handle_control_steered [of "co\<lparr>co_threads := om_put conn Serves_control (co_threads co)\<rparr>" up m conn]
    unfolding first_message_def by (auto simp: worker_steered)
  then show ?thesis
    unfolding receive_frame_def by (auto simp: handle_control_steered handle_worker_steered split: decode_result.split option.split conn_thread.split)
qed

lemma step_steered: "steered co (coordinator_step up ev co)"
  unfolding coordinator_step_def connection_closed_def
  by (auto simp: receive_steered split: net_event.split option.split conn_thread.split)

lemma run_events_simps [simp]:
  "run_events up [] co = Inr (co, [])"
  "run_events up (ev # evs) co = ebind (coordinator_step up ev co)
     (\<lambda>(co, out). ebind (run_events up evs co) (\<lambda>(co, out'). Inr (co, out @ out')))"
  by (simp_all add: run_events_def)

interpretation steering: guarded_process "coordinator_step up"
  "\<lambda>co co'. co_epoch co' = co_epoch co \<and> drives (co_epoch co) (co_ctrl co) (co_ctrl co')" for up
  by unfold_locales (use drives_trans afterD [OF step_steered] in auto)

section \<open>Epochs\<close>

text \<open>Before the first set the controller has no epoch; from then on it has the coordinator's.\<close>

definition epoch_ok :: "CoordinatorEpoch \<Rightarrow> controller \<Rightarrow> bool" where
  "epoch_ok e c \<longleftrightarrow> (ct_epoch c = e \<or> (\<forall>sid. om_find (ct_sets c) sid = None)) \<and>
     (\<forall>rid r. om_find (ct_replicas c) rid = Some r \<longrightarrow> r_coordinator_epoch r = e)"

lemma issued_keeps_epoch:
  assumes "issued e cmd" and "ct_epoch c = e"
  shows "ct_epoch (snd (run_command cmd c)) = e"
proof (cases "creates cmd")
  case True
  then obtain st where "cmd = CreateReplicaSet st e" using assms(1) by (auto simp: creates_def)
  then show ?thesis using assms(2) by (auto simp: create_replica_set_def Let_def)
next
  case False
  then show ?thesis using assms by (cases cmd) (auto simp: creates_def)
qed

lemma issued_first_set:
  assumes "issued e cmd" and "\<forall>sid. om_find (ct_sets c) sid = None"
  shows "ct_epoch (snd (run_command cmd c)) = e \<or> (\<forall>sid. om_find (ct_sets (snd (run_command cmd c))) sid = None)"
proof (cases "creates cmd")
  case True
  then obtain st where "cmd = CreateReplicaSet st e" using assms(1) by (auto simp: creates_def)
  then show ?thesis using assms(2) by (auto simp: create_replica_set_def Let_def)
next
  case False
  then show ?thesis
    using run_command_sets [of cmd c] assms(2) by (auto simp: sets_evolve_def)
qed

lemma epoch_ok_command:
  assumes "controller_ok c" and "epoch_ok e c" and "issued e cmd"
  shows "epoch_ok e (snd (run_command cmd c))"
proof -
  have "r_coordinator_epoch r' = e" if r': "om_find (ct_replicas (snd (run_command cmd c))) rid = Some r'" for rid r'
  proof (cases "provisions rid cmd")
    case True
    then obtain sid w cm dv cap t u where cmd: "cmd = ProvisionReplica rid sid w cm dv cap t u"
      by (auto simp: provisions_iff)
    show ?thesis
    proof (rule provision_result [of rid sid w cm dv cap t u c])
      fix st reg g gen hgen r
      assume *: "om_find (ct_sets c) sid = Some st"
        "r = new_replica rid sid w (opened_set st) reg cm dv cap t u (ct_epoch c) gen hgen"
        "provision_replica rid sid w cm dv cap t u c = (op_ok ''replica provisioned'',
           put_replica rid r ((put_set sid (opened_set st) c)\<lparr>ct_rng := g\<rparr>))"
      have "ct_epoch c = e" using assms(2) *(1) unfolding epoch_ok_def by fastforce
      then show ?thesis using r' by (auto simp: cmd *(2,3) new_replica_def)
    qed (use r' assms(2) cmd in \<open>auto simp: epoch_ok_def\<close>)
  next
    case False
    have "om_sorted (ct_replicas c)" using assms(1) unfolding controller_ok_def maps_sorted_def by blast
    from run_command_replica [OF this False] r'
    obtain r where r: "om_find (ct_replicas c) rid = Some r" "evolves r r'"
      by (auto simp: option_rel_Some2)
    have "authority_ok r" using replicas_okD [OF _ r(1)] assms(1) unfolding controller_ok_def by blast
    then have "r_coordinator_epoch r' = r_coordinator_epoch r"
      using r(2) by (simp add: evolves_def same_incarnation_def)
    then show ?thesis using assms(2) r(1) by (simp add: epoch_ok_def)
  qed
  moreover have "ct_epoch (snd (run_command cmd c)) = e \<or> (\<forall>sid. om_find (ct_sets (snd (run_command cmd c))) sid = None)"
    using assms(2,3) issued_keeps_epoch issued_first_set unfolding epoch_ok_def by blast
  ultimately show ?thesis
    unfolding epoch_ok_def by blast
qed

lemma epoch_ok_commands:
  "controller_ok c \<Longrightarrow> epoch_ok e c \<Longrightarrow> list_all (issued e) cmds \<Longrightarrow> epoch_ok e (run_commands cmds c)"
  by (induction cmds arbitrary: c) (auto simp: command_ok epoch_ok_command)

lemma new_epoch_ok: "epoch_ok e (new_controller g)"
  by (simp add: epoch_ok_def new_controller_def)

lemma driven_from_new:
  assumes "drives e (new_controller gen) c"
  shows "controller_ok c \<and> (\<forall>rid r. find_replica rid c = Some r \<longrightarrow> r_coordinator_epoch r = e)"
proof -
  from assms obtain cmds where cmds: "list_all (issued e) cmds" "c = run_commands cmds (new_controller gen)"
    unfolding drives_def by blast
  have "epoch_ok e c"
    unfolding cmds(2) by (rule epoch_ok_commands [OF new_controller_ok new_epoch_ok cmds(1)])
  then show ?thesis
    using commands_ok [OF new_controller_ok, of cmds gen] unfolding epoch_ok_def find_replica_def cmds(2) by blast
qed

text \<open>
  The coordinator refines the controller: whatever frames arrive on whatever connections, as
  long as the process runs its controller is what a sequence of controller commands makes of a
  new one, every set among them created under the epoch drawn at the start, and never another
  epoch set. So its controller is consistent, and every replica carries the coordinator's epoch.
\<close>

theorem coordinator_refines_controller:
  assumes "run_events up evs (new_coordinator gen prng mono_clock wall_clock) = Inr (co, out)"
  shows "co_epoch co = fst (random_id gen) \<and>
    (\<exists>cmds. list_all (issued (co_epoch co)) cmds \<and> co_ctrl co = run_commands cmds (new_controller gen)) \<and>
    controller_ok (co_ctrl co) \<and>
    (\<forall>rid r. find_replica rid (co_ctrl co) = Some r \<longrightarrow> r_coordinator_epoch r = co_epoch co)"
proof -
  have e: "co_epoch co = fst (random_id gen)" and d: "drives (co_epoch co) (new_controller gen) (co_ctrl co)"
    using steering.run_rel [OF assms [unfolded run_events_def]] by (simp_all add: new_coordinator_def)
  then show ?thesis
    using driven_from_new [OF d] unfolding drives_def by blast
qed

section \<open>Answers to control messages\<close>

definition reply_kind :: "MessageKind \<Rightarrow> MessageKind" where
  "reply_kind k =
     (if k = CREATE_SET then CREATE_SET_ACK else if k = PROVISION then PROVISION_ACK
      else if k = PROMOTE then PROMOTE_ACK else if k = DRAIN then DRAIN_ACK
      else if k = FAILOVER then FAILOVER_ACK else if k = QUERY then QUERY
      else if k = SNAPSHOT then SNAPSHOT else MSG_ERROR)"

definition answers :: "(nat \<Rightarrow> bool) \<Rightarrow> coordinator \<Rightarrow> Message \<Rightarrow> nat \<Rightarrow> out \<Rightarrow> Message \<Rightarrow> bool" where
  "answers up co m conn out a \<longleftrightarrow> (conn, a) \<in> set out \<and>
     m_kind a = reply_kind (m_kind m) \<and> m_seq a = m_seq m \<and> m_epoch a = co_epoch co \<and>
     list_all (\<lambda>(n, b). (n, b) = (conn, a) \<or> up n \<and> (\<exists>w. om_find (co_conns co) w = Some n)) out"

abbreviation answered :: "(nat \<Rightarrow> bool) \<Rightarrow> coordinator \<Rightarrow> Message \<Rightarrow> nat \<Rightarrow> handled \<Rightarrow> bool" where
  "answered up co m conn \<equiv> after (\<lambda>_ out. Ex (answers up co m conn out))"

lemma answers_single [simp]:
  "Ex (answers up co m conn [(conn, a)]) \<longleftrightarrow>
     m_kind a = reply_kind (m_kind m) \<and> m_seq a = m_seq m \<and> m_epoch a = co_epoch co"
  by (auto simp: answers_def)

lemma ack_for_simps [simp]:
  "m_kind (ack_for m co) = MSG_ERROR" "m_seq (ack_for m co) = m_seq m" "m_epoch (ack_for m co) = co_epoch co"
  by (simp_all add: ack_for_def)

text \<open>The answer beside what goes to a worker.\<close>

lemma answers_sent:
  assumes "co_conns co' = co_conns co" and "m_kind a = reply_kind (m_kind m)" "m_seq a = m_seq m" "m_epoch a = co_epoch co"
  shows "Ex (answers up co m conn ((conn, a) # snd (send_to_worker up w x co')))"
    and "Ex (answers up co m conn (snd (send_to_worker up w x co') @ [(conn, a)]))"
  using assms by (auto simp: answers_def send_to_worker_def intro!: exI [of _ a] split: option.split)

lemma provision_answered:
  "m_kind m = PROVISION \<Longrightarrow> answered up co m conn (control_provision up m conn co)"
  unfolding control_provision_def Let_def
  by (intro after_bind)
     (auto simp: handler_simps reply_kind_def message_kinds intro!: answers_sent(1))

lemma execute_answered:
  assumes "m_kind m = EXECUTE"
  shows "answered up co m conn (control_execute up m conn co)"
proof (cases "find_replica (m_replica m) (co_ctrl co)")
  case (Some r)
  then show ?thesis
    using assms unfolding control_execute_def
    by (auto simp: handler_simps reply_kind_def message_kinds intro!: answers_sent(2))
qed (use assms in \<open>simp add: control_execute_def reply_kind_def message_kinds\<close>)

lemma others_answered:
  "m_kind m = CREATE_SET \<Longrightarrow> answered up co m conn (control_create_set m conn co)"
  "m_kind m = PROMOTE \<Longrightarrow> answered up co m conn (control_promote m conn co)"
  "m_kind m = DRAIN \<Longrightarrow> answered up co m conn (control_drain m conn co)"
  "m_kind m = FAILOVER \<Longrightarrow> answered up co m conn (control_failover m conn co)"
  "m_kind m = QUERY \<Longrightarrow> answered up co m conn (control_query m conn co)"
  "m_kind m = SNAPSHOT \<Longrightarrow> answered up co m conn (control_snapshot m conn co)"
  unfolding control_create_set_def control_promote_def control_drain_def control_failover_def
    control_query_def control_snapshot_def
  by (auto simp: handler_simps reply_kind_def message_kinds intro!: after_bind split: option.split)

text \<open>
  Every control message that is handled is answered: among what the coordinator writes there is
  a message on the client's connection with the kind that belongs to the command, the sequence
  number of the command and the coordinator's epoch, and whatever else it writes goes to a
  registered worker's live connection. A command \<open>EXECUTE\<close> is answered with the kind \<open>MSG_ERROR\<close>
  even when it was forwarded.
\<close>

theorem control_answered:
  assumes "handle_control up m conn co = Inr (co', out)"
  shows "\<exists>a. answers up co m conn out a"
proof -
  have "answered up co m conn (handle_control up m conn co)"
    unfolding handle_control_def
    by (auto simp: provision_answered execute_answered others_answered) (simp add: reply_kind_def message_kinds)
  then show ?thesis using assms by simp
qed

section \<open>What ends the process\<close>

definition parses :: "process_failure + 'a \<Rightarrow> bool" where
  "parses x \<longleftrightarrow> \<not> isl x"

lemma parses_simps [simp]: "parses (Inl f) \<longleftrightarrow> False" "parses (Inr v)"
  by (simp_all add: parses_def)

lemma isl_ebind: "isl (ebind x f) \<longleftrightarrow> (parses x \<longrightarrow> isl (f (projr x)))"
  by (cases x) simp_all

definition hex_fields :: "(string \<times> string) list \<Rightarrow> string \<Rightarrow> bool" where
  "hex_fields fs p \<longleftrightarrow> list_all (\<lambda>(k, def). parses (hexu (get_payload p k def))) fs"

definition int_fields :: "(string \<times> string) list \<Rightarrow> string \<Rightarrow> bool" where
  "int_fields fs p \<longleftrightarrow> list_all (\<lambda>(k, def). parses (hexi (get_payload p k def))) fs"

definition dec_fields :: "(string \<times> string) list \<Rightarrow> string \<Rightarrow> bool" where
  "dec_fields fs p \<longleftrightarrow> list_all (\<lambda>(k, def). parses (decu (get_payload p k def))) fs"

text \<open>Whether an identity parses does not depend on its kind.\<close>

definition id_text :: "string \<Rightarrow> bool" where
  "id_text s \<longleftrightarrow> parses (parse_id s :: process_failure + unit Id)"

definition id_fields :: "string list \<Rightarrow> string \<Rightarrow> bool" where
  "id_fields ks p \<longleftrightarrow> list_all (\<lambda>k. id_text (get_payload p k [])) ks"

lemma parse_id_tag: "parses (parse_id s) \<longleftrightarrow> id_text s"
  unfolding id_text_def
  by (auto simp: parse_id_def id_from_string_def Let_def parses_def split: sum.split option.split)

definition enum_field :: "(int \<Rightarrow> 'e option) \<Rightarrow> string \<Rightarrow> bool" where
  "enum_field conv s \<longleftrightarrow> parses (hexi s) \<and> conv (sint (projr (hexi s))) \<noteq> None"

definition well_formed_control :: "Message \<Rightarrow> bool" where
  "well_formed_control m \<longleftrightarrow> (let p = m_payload m in
     if m_kind m = CREATE_SET then
       id_fields [''model'', ''workload'', ''tenant'', ''artifact'', ''agen'', ''sgen'', ''pgen''] p \<and>
       dec_fields [(''desired'', ''2''), (''min'', ''1''), (''max'', ''2''), (''accel'', ''1'')] p \<and>
       enum_field BackendKind_from_int (get_payload p ''backend'' ''2'') \<and>
       int_fields [(''ccmaj'', ''8''), (''ccmin'', ''0'')] p \<and> hex_fields [(''mem'', ''0x1000000'')] p
     else if m_kind m = PROVISION then
       id_fields [''worker''] p \<and> int_fields [(''ccmaj'', ''c'')] p \<and>
       hex_fields [(''devmem'', ''0x800000000''), (''capacity'', ''0x1000000'')] p
     else if m_kind m = PROMOTE then enum_field PromotionState_from_int (get_payload p ''target'' ''5'')
     else if m_kind m = FAILOVER then id_fields [''failed''] p
     else True)"

definition well_formed_register :: "Message \<Rightarrow> bool" where
  "well_formed_register m \<longleftrightarrow> (let p = m_payload m in
     id_fields [''node_hex''] p \<and> enum_field BackendKind_from_int (get_payload p ''backend'' ''2'') \<and>
     int_fields [(''ccmaj'', ''c'')] p \<and>
     hex_fields [(''mem'', ''0x800000000''), (''devmem'', ''0x800000000'')] p)"

definition well_formed_report :: "Message \<Rightarrow> bool" where
  "well_formed_report m \<longleftrightarrow> (let p = m_payload m in
     if m_kind m = WARM_DONE then hex_fields [(''steps'', ''0'')] p
     else if m_kind m = HEALTH then int_fields [(''state'', ''2'')] p
     else if m_kind m = READINESS then hex_fields [(''mask'', ''0'')] p
     else True)"

definition frame_well_formed :: "nat \<Rightarrow> bytes \<Rightarrow> coordinator \<Rightarrow> bool" where
  "frame_well_formed conn bs co \<longleftrightarrow>
     om_find (co_threads co) conn = Some Returned \<or>
     (case decode_message bs Message_default of
        Out_of_bounds \<Rightarrow> False
      | Malformed _ \<Rightarrow> True
      | Decoded m \<Rightarrow>
          (case om_find (co_threads co) conn of
             Some (Serves_worker w) \<Rightarrow> well_formed_report m
           | None \<Rightarrow> if m_kind m = REGISTER then well_formed_register m else well_formed_control m
           | _ \<Rightarrow> well_formed_control m))"

lemma parses_read [simp]: "parses (read_var v) \<longleftrightarrow> v \<noteq> None"
  by (simp add: read_var_def split: option.split)

lemma parses_ebind: "parses (ebind x f) \<longleftrightarrow> parses x \<and> parses (f (projr x))"
  by (cases x) simp_all

lemmas parsing_simps = id_fields_def hex_fields_def int_fields_def dec_fields_def enum_field_def
  parse_id_tag isl_ebind parses_ebind

lemma build_set_fails: "m_kind m = CREATE_SET \<Longrightarrow> isl (build_set m) \<longleftrightarrow> \<not> well_formed_control m"
  unfolding build_set_def well_formed_control_def Let_def by (auto simp: parsing_simps simp del: not_None_eq)

lemma provision_fails: "m_kind m = PROVISION \<Longrightarrow> isl (control_provision up m conn co) \<longleftrightarrow> \<not> well_formed_control m"
  unfolding control_provision_def well_formed_control_def Let_def
  by (auto simp: parsing_simps message_kinds case_prod_unfold)

lemma controls_fail:
  "isl (control_create_set m conn co) \<longleftrightarrow> isl (build_set m)"
  "isl (control_promote m conn co) \<longleftrightarrow> \<not> enum_field PromotionState_from_int (get_payload (m_payload m) ''target'' ''5'')"
  "isl (control_failover m conn co) \<longleftrightarrow> \<not> id_fields [''failed''] (m_payload m)"
  "\<not> isl (control_drain m conn co)" "\<not> isl (control_execute up m conn co)"
  "\<not> isl (control_query m conn co)" "\<not> isl (control_snapshot m conn co)"
  unfolding control_create_set_def control_promote_def control_drain_def
    control_failover_def control_execute_def control_query_def control_snapshot_def
  by (auto simp: parsing_simps case_prod_unfold Let_def parses_def [of "build_set m"] split: option.split)

lemma control_fails: "isl (handle_control up m conn co) \<longleftrightarrow> \<not> well_formed_control m"
proof (cases "m_kind m = CREATE_SET \<or> m_kind m = PROVISION")
  case True
  then show ?thesis
    by (auto simp: handle_control_def provision_fails controls_fail build_set_fails)
next
  case False
  then show ?thesis
    unfolding handle_control_def well_formed_control_def Let_def
    by (simp add: controls_fail) (simp add: message_kinds)
qed

lemma register_fails: "isl (worker_register m conn co) \<longleftrightarrow> \<not> well_formed_register m"
  unfolding worker_register_def build_worker_reg_def well_formed_register_def Let_def case_prod_unfold
  by (auto simp: parsing_simps)

lemma reports_fail:
  "isl (worker_warm_done m co) \<longleftrightarrow> \<not> hex_fields [(''steps'', ''0'')] (m_payload m)"
  "isl (worker_health m co) \<longleftrightarrow> \<not> int_fields [(''state'', ''2'')] (m_payload m)"
  "isl (worker_readiness m co) \<longleftrightarrow> \<not> hex_fields [(''mask'', ''0'')] (m_payload m)"
  "\<not> isl (worker_result m conn co)"
  unfolding worker_warm_done_def worker_health_def worker_readiness_def worker_result_def warming_from_def
  by (auto simp: parsing_simps case_prod_unfold Let_def parses_def split: option.split)

lemma report_fails: "isl (handle_worker m conn co) \<longleftrightarrow> \<not> well_formed_report m"
  unfolding handle_worker_def well_formed_report_def Let_def by (simp add: reports_fail)

text \<open>
  C20. What ends the coordinator: a frame ends the process exactly when it is 9 to 104 bytes long
  and the decoder reads past it, or when it decodes to a command, a registration or a report in
  which a field the handler reads is not a number or an identity, or an enumerator out of range.
  Every other frame, undecodable ones included, leaves it running.
\<close>

theorem coordinator_ends_iff:
  "isl (receive_frame up conn bs co) \<longleftrightarrow> \<not> frame_well_formed conn bs co"
  unfolding receive_frame_def frame_well_formed_def first_message_def
  by (auto simp: control_fails register_fails report_fails split: decode_result.split option.split conn_thread.split)

section \<open>Connections and workers\<close>



text \<open>A worker's messages go to a connection on which that worker registered.\<close>

definition coordinator_ok :: "coordinator \<Rightarrow> bool" where
  "coordinator_ok co \<longleftrightarrow> controller_ok (co_ctrl co) \<and> om_sorted (co_conns co) \<and> om_sorted (co_threads co) \<and>
     (\<forall>w n. om_find (co_conns co) w = Some n \<longrightarrow> om_find (co_threads co) n = Some (Serves_worker w))"

abbreviation wired :: "coordinator \<Rightarrow> handled \<Rightarrow> bool" where
  "wired co \<equiv> after (\<lambda>co' _. co_conns co' = co_conns co \<and> co_threads co' = co_threads co)"

lemma controls_wired:
  "wired co (control_create_set m conn co)" "wired co (control_promote m conn co)"
  "wired co (control_drain m conn co)" "wired co (control_failover m conn co)"
  "wired co (control_execute up m conn co)" "wired co (control_query m conn co)"
  "wired co (control_snapshot m conn co)"
  unfolding control_create_set_def control_promote_def control_drain_def control_failover_def
    control_execute_def control_query_def control_snapshot_def
  by (auto simp: handler_simps intro!: after_bind split: option.split)

lemma provision_wired: "wired co (control_provision up m conn co)"
  unfolding control_provision_def Let_def
  by (intro after_bind) (auto simp: handler_simps)

lemma control_wired: "wired co (handle_control up m conn co)"
  unfolding handle_control_def by (auto simp: provision_wired controls_wired)

lemma report_wired: "wired co (handle_worker m conn co)"
  unfolding handle_worker_def worker_warm_done_def worker_health_def worker_readiness_def worker_result_def
    stash_result_def
  by (auto simp: handler_simps intro!: after_bind split: option.split)

lemma drives_ok: "drives e c c' \<Longrightarrow> controller_ok c \<Longrightarrow> controller_ok c'"
  unfolding drives_def using commands_ok by blast

lemma coordinator_ok_wired:
  assumes "wired co h" and "steered co h" and "coordinator_ok co"
  shows "after (\<lambda>co' _. coordinator_ok co') h"
  using assms drives_ok by (auto simp: after_def coordinator_ok_def split: sum.splits)

lemma build_worker_reg_id: "build_worker_reg m = Inr wr \<Longrightarrow> w_worker_id wr = m_worker m"
  unfolding build_worker_reg_def by (auto simp: Let_def ebind_Inr)

lemma register_wiring:
  "after (\<lambda>co' _. co_conns co' = om_put (m_worker m) conn (co_conns co) \<and>
     co_threads co' = om_put conn (Serves_worker (m_worker m)) (co_threads co)) (worker_register m conn co)"
  unfolding worker_register_def
  by (auto simp: handler_simps build_worker_reg_id intro!: after_bind)

lemma register_known:
  "after (\<lambda>co' _. om_find (ct_workers (co_ctrl co')) (m_worker m) \<noteq> None) (worker_register m conn co)"
  unfolding worker_register_def
  by (auto simp: handler_simps build_worker_reg_id register_worker_def intro!: after_bind)

text \<open>Unregistering a worker strips its replicas of their authority.\<close>

lemma unregistered_not_eligible:
  assumes "om_find (ct_workers c) w \<noteq> None" and "om_find (ct_replicas (snd (unregister_worker w c))) rid = Some r"
    and "r_worker_id r = w"
  shows "\<not> r_serving_eligible r"
proof -
  from assms(1,2) obtain r0 where r: "r = (if r_worker_id r0 = w \<and> had_authority r0 then fail_on_disconnect r0 else r0)"
    by (auto simp: unregister_worker_def Let_def)
  then show ?thesis
    using assms(3) by (cases "had_authority r0") (simp_all add: fail_on_disconnect_def had_authority_def split: if_splits)
qed

lemma register_keeps_ok:
  assumes "coordinator_ok co" and "om_find (co_threads co) conn = None"
  shows "after (\<lambda>co' _. coordinator_ok co') (worker_register m conn co)"
  using assms register_wiring [of m conn co] worker_steered(1) [of co m conn] drives_ok
  by (auto simp: after_def coordinator_ok_def split: sum.splits if_splits)

lemma new_thread_ok:
  "coordinator_ok co \<Longrightarrow> om_find (co_threads co) conn = None \<Longrightarrow>
   coordinator_ok (co\<lparr>co_threads := om_put conn th (co_threads co)\<rparr>)"
  by (auto simp: coordinator_ok_def)

lemma receive_keeps_ok:
  assumes "coordinator_ok co"
  shows "after (\<lambda>co' _. coordinator_ok co') (receive_frame up conn bs co)"
proof -
  have control: "after (\<lambda>co' _. coordinator_ok co') (handle_control up m conn co)" if "coordinator_ok co" for m co
    by (rule coordinator_ok_wired [OF control_wired handle_control_steered that])
  have report: "after (\<lambda>co' _. coordinator_ok co') (handle_worker m conn co)" for m
    by (rule coordinator_ok_wired [OF report_wired handle_worker_steered assms])
  show ?thesis
    unfolding receive_frame_def first_message_def
    using assms register_keeps_ok new_thread_ok control report
    by (auto split: decode_result.split option.split conn_thread.split)
qed

lemma closed_keeps_ok: "coordinator_ok co \<Longrightarrow> coordinator_ok (connection_closed conn co)"
  unfolding connection_closed_def coordinator_ok_def
  using drives_ok [OF drives_ops(2)]
  by (auto simp: om_find_erase split: option.split conn_thread.split if_splits)

lemma step_keeps_ok: "coordinator_ok co \<Longrightarrow> after (\<lambda>co' _. coordinator_ok co') (coordinator_step up ev co)"
  unfolding coordinator_step_def by (auto simp: receive_keeps_ok closed_keeps_ok split: net_event.split)

interpretation wiring: guarded_process "coordinator_step up"
  "\<lambda>co co'. coordinator_ok co \<longrightarrow> coordinator_ok co'" for up
  by unfold_locales (use afterD [OF step_keeps_ok] in auto)

lemma new_coordinator_ok: "coordinator_ok (new_coordinator gen prng mono_clock wall_clock)"
  by (simp add: coordinator_ok_def new_coordinator_def new_controller_ok)

text \<open>
  Commands reach the worker they are for: whatever arrives, the connection the coordinator
  has for a worker is one whose thread registered that worker and is still serving it, so a
  command for a worker is never written to another worker's or a control client's connection.
\<close>

theorem worker_connections_current:
  assumes "run_events up evs (new_coordinator gen prng mono_clock wall_clock) = Inr (co, out)"
    and "(n, m) \<in> set (snd (send_to_worker up w m co))"
  shows "om_find (co_threads co) n = Some (Serves_worker w)"
proof -
  have "coordinator_ok co"
    using wiring.run_rel [OF assms(1) [unfolded run_events_def]] new_coordinator_ok by blast
  moreover have "om_find (co_conns co) w = Some n"
    using assms(2) by (auto simp: send_to_worker_def split: option.splits if_splits)
  ultimately show ?thesis
    by (simp add: coordinator_ok_def)
qed

text \<open>
  A worker that reconnects is lost: when a worker registers again on a new connection and then
  the coordinator sees the old connection close, it unregisters the worker although the new
  connection is open and its thread serves that worker. None of the worker's replicas can serve,
  and there is no connection left to send the worker a command.
\<close>

theorem reconnected_worker_lost:
  assumes "coordinator_ok co" and "om_find (co_threads co) old = None" and "om_find (co_threads co) new = None"
    and "old \<noteq> new" and "m_kind m = REGISTER" and "m_kind m' = REGISTER" and "m_worker m' = m_worker m"
    and "length (m_payload m) < 2 ^ 32" and "length (m_payload m') < 2 ^ 32"
    and "run_events up [Frame old (encode_message m), Frame new (encode_message m'), Closed old] co = Inr (co', out)"
  shows "om_find (co_threads co') new = Some (Serves_worker (m_worker m)) \<and>
    om_find (co_conns co') (m_worker m) = None \<and> find_worker (m_worker m) (co_ctrl co') = None \<and>
    (\<forall>rid r. find_replica rid (co_ctrl co') = Some r \<and> r_worker_id r = m_worker m \<longrightarrow>
       \<not> sa_eligible (servable rid (co_ctrl co')))"
proof -
  obtain co1 out1 where 1: "worker_register m old co = Inr (co1, out1)"
    using assms(2,5,8,10) by (auto simp: coordinator_step_def receive_frame_def decode_encoded first_message_def ebind_Inr)
  have co1: "om_find (co_threads co1) old = Some (Serves_worker (m_worker m))" "om_find (co_threads co1) new = None"
    using register_wiring [of m old co] assms(3,4) by (auto simp: 1)
  obtain co2 out2 where 2: "worker_register m' new co1 = Inr (co2, out2)" "co' = connection_closed old co2"
    using assms(2,5-10) 1 co1(2) by (auto simp: coordinator_step_def receive_frame_def decode_encoded first_message_def ebind_Inr)
  have ok: "coordinator_ok co2"
    using register_keeps_ok [OF assms(1,2), of m] register_keeps_ok [of co1 new m'] co1(2) 1 2(1) by simp
  have co2: "om_find (co_threads co2) old = Some (Serves_worker (m_worker m))"
      "om_find (co_threads co2) new = Some (Serves_worker (m_worker m))"
    using register_wiring [of m' new co1] assms(4,7) co1 by (auto simp: 2)
  have sorted: "om_sorted (ct_workers (co_ctrl co2))" "om_sorted (co_conns co2)" "om_sorted (co_threads co2)"
    using ok unfolding coordinator_ok_def controller_ok_def maps_sorted_def by blast+
  have known: "om_find (ct_workers (co_ctrl co2)) (m_worker m) \<noteq> None"
    using register_known [of m' new co1] assms(7) by (simp add: 2)
  have ctrl: "co_ctrl co' = snd (unregister_worker (m_worker m) (co_ctrl co2))"
    using co2(1) by (simp add: 2(2) connection_closed_def)
  have "om_find (ct_workers (co_ctrl co')) (m_worker m) = None"
    unfolding ctrl using known sorted(1) by (simp add: unregister_worker_def Let_def om_find_erase)
  moreover have "om_find (co_conns co') (m_worker m) = None" "om_find (co_threads co') new = Some (Serves_worker (m_worker m))"
    using co2 sorted(2,3) assms(4) by (simp_all add: 2(2) connection_closed_def om_find_erase)
  moreover have "\<not> sa_eligible (servable rid (co_ctrl co'))"
    if "find_replica rid (co_ctrl co') = Some r" "r_worker_id r = m_worker m" for rid r
    using unregistered_not_eligible [OF known, of rid r] not_servable [of "co_ctrl co'" rid r] that
    by (simp add: ctrl find_replica_def)
  ultimately show ?thesis
    by (simp add: find_worker_def)
qed
section \<open>Text that the handlers read\<close>

lemma hexu_text [simp]:
  "hexu ''0x800000000'' = Inr 0x800000000" "hexu ''0x1000000'' = Inr 0x1000000"
  "hexu ''0x7ff'' = Inr 0x7FF" "hexu ''4'' = Inr 4"
  by (simp_all add: hexu_def number_simps)

lemma hexi_text [simp]:
  "hexi ''c'' = Inr 12" "hexi ''2'' = Inr 2" "hexi ''5'' = Inr 5" "hexi ''8'' = Inr 8" "hexi ''0'' = Inr 0"
  "hexi ''1'' = Inr 1"
  by (simp_all add: hexi_def number_simps)

lemma decu_text [simp]: "decu ''1'' = Inr 1" "decu ''2'' = Inr 2"
  by (simp_all add: decu_def number_simps)

lemma enum_text [simp]:
  "BackendKind_from_int 1 = Some BackendKind.TRITON" "BackendKind_from_int 2 = Some BackendKind.TENSORRT"
  "PromotionState_from_int 5 = Some PromotionState.PRIMARY" "HealthState_from_int 2 = Some HealthState.HEALTHY"
  by (simp_all add: enum_simps)

lemma id_text_str [simp]: "id_text (id_str i)"
  by (metis parse_id_str parse_id_tag parses_simps(2))

section \<open>A run\<close>

definition demo_coordinator :: coordinator where
  "demo_coordinator = new_coordinator demo_rng demo_rng (sconst 0) (sconst 0)"

definition demo_register :: "WorkerBootId \<Rightarrow> Message" where
  "demo_register b = Message_default\<lparr>m_kind := REGISTER, m_worker := MkId 0 1, m_boot := b,
     m_payload := ''node_hex='' @ id_str (MkId 0 1 :: NodeId)\<rparr>"

lemma demo_register_payload:
  "get_payload (m_payload (demo_register b)) k def =
     (if has_prefix (k @ ''='') (''node_hex='' @ id_str (MkId 0 1 :: NodeId))
      then drop (Suc (length k)) (''node_hex='' @ id_str (MkId 0 1 :: NodeId)) else def)"
  using get_payload_join [of "[''node_hex='' @ id_str (MkId 0 1 :: NodeId)]" k def]
  by (simp add: demo_register_def newline_def)

lemma demo_register_ok: "well_formed_register (demo_register b)"
  unfolding well_formed_register_def
  by (simp add: demo_register_payload has_prefix_def parsing_simps Let_def)

lemma demo_register_fields [simp]:
  "m_kind (demo_register b) = REGISTER" "m_worker (demo_register b) = MkId 0 1"
  "length (m_payload (demo_register b)) = 41"
  by (simp_all add: demo_register_def)

text \<open>A registration on a fresh connection is carried out.\<close>

lemma register_event:
  assumes "om_find (co_threads co) conn = None" and "m_kind m = REGISTER" and "length (m_payload m) < 2 ^ 32"
    and "well_formed_register m"
  obtains co' out where "coordinator_step up (Frame conn (encode_message m)) co = Inr (co', out)"
    "worker_register m conn co = Inr (co', out)"
proof (cases "worker_register m conn co")
  case (Inr b)
  then show ?thesis
    using assms(1-3) that [of "fst b" "snd b"]
    by (simp add: coordinator_step_def receive_frame_def decode_encoded first_message_def)
qed (use register_fails [of m conn co] assms(4) in simp)

lemma demo_events:
  obtains co out where
    "run_events up [Frame 3 (encode_message (demo_register b)), Frame 5 (encode_message (demo_register b')), Closed 3]
       demo_coordinator = Inr (co, out)"
proof -
  let ?m = "demo_register b" and ?m' = "demo_register b'"
  obtain co1 out1 where 1: "coordinator_step up (Frame 3 (encode_message ?m)) demo_coordinator = Inr (co1, out1)"
      "worker_register ?m 3 demo_coordinator = Inr (co1, out1)"
    by (rule register_event [of demo_coordinator 3 ?m up])
       (simp_all add: demo_register_ok demo_coordinator_def new_coordinator_def)
  have "co_threads co1 = [(3, Serves_worker (MkId 0 1))]"
    using register_wiring [of ?m 3 demo_coordinator] 1(2) by (simp add: demo_coordinator_def new_coordinator_def)
  then obtain co2 out2 where 2: "coordinator_step up (Frame 5 (encode_message ?m')) co1 = Inr (co2, out2)"
    by (rule_tac register_event [of co1 5 ?m' up]) (simp_all add: demo_register_ok)
  show ?thesis
    by (rule that) (simp add: 1(1) 2 coordinator_step_def [of _ "Closed 3"])
qed

lemma demo_coordinator_ok: "coordinator_ok demo_coordinator"
  by (simp add: demo_coordinator_def new_coordinator_ok)

theorem coordinator_refines_controller_witness:
  "\<exists>co out cmds. run_events (\<lambda>_. True) [Frame 3 (encode_message (demo_register (MkId 0 11))),
       Frame 5 (encode_message (demo_register (MkId 0 12))), Closed 3] demo_coordinator = Inr (co, out) \<and>
     co_epoch co = MkId 7 7 \<and> list_all (issued (MkId 7 7)) cmds \<and>
     co_ctrl co = run_commands cmds (new_controller demo_rng) \<and> controller_ok (co_ctrl co)"
proof -
  obtain co out where run: "run_events (\<lambda>_. True) [Frame 3 (encode_message (demo_register (MkId 0 11))),
       Frame 5 (encode_message (demo_register (MkId 0 12))), Closed 3] demo_coordinator = Inr (co, out)"
    by (rule demo_events)
  from coordinator_refines_controller [OF run [unfolded demo_coordinator_def]] run
  show ?thesis by auto
qed

theorem control_answered_witness:
  "\<exists>a. answers (\<lambda>_. True) demo_coordinator (Message_default\<lparr>m_kind := QUERY, m_seq := 9\<rparr>) 4
     [(4, (ack_for (Message_default\<lparr>m_kind := QUERY, m_seq := 9\<rparr>) demo_coordinator)\<lparr>m_kind := QUERY,
        m_payload := ''err unknown query''\<rparr>)] a"
proof (rule control_answered)
  show "handle_control (\<lambda>_. True) (Message_default\<lparr>m_kind := QUERY, m_seq := 9\<rparr>) 4 demo_coordinator =
    Inr (demo_coordinator, [(4, (ack_for (Message_default\<lparr>m_kind := QUERY, m_seq := 9\<rparr>) demo_coordinator)\<lparr>m_kind := QUERY,
        m_payload := ''err unknown query''\<rparr>)])"
    by (simp add: handle_control_def message_kinds control_query_def Message_default_def get_payload_Nil Let_def)
qed

theorem worker_connections_current_witness:
  "\<exists>co out. run_events (\<lambda>_. True) [Frame 3 (encode_message (demo_register (MkId 0 11)))] demo_coordinator = Inr (co, out) \<and>
     (3, Message_default) \<in> set (snd (send_to_worker (\<lambda>_. True) (MkId 0 1) Message_default co)) \<and>
     om_find (co_threads co) 3 = Some (Serves_worker (MkId 0 1))"
proof -
  let ?m = "demo_register (MkId 0 11)"
  obtain co out where 1: "coordinator_step (\<lambda>_. True) (Frame 3 (encode_message ?m)) demo_coordinator = Inr (co, out)"
      "worker_register ?m 3 demo_coordinator = Inr (co, out)"
    by (rule register_event [of demo_coordinator 3 ?m "\<lambda>_. True"])
       (simp_all add: demo_register_ok demo_coordinator_def new_coordinator_def)
  have run: "run_events (\<lambda>_. True) [Frame 3 (encode_message ?m)] demo_coordinator = Inr (co, out)"
    by (simp add: 1)
  moreover have sent: "(3, Message_default) \<in> set (snd (send_to_worker (\<lambda>_. True) (MkId 0 1) Message_default co))"
    using register_wiring [of ?m 3 demo_coordinator] 1(2)
    by (simp add: send_to_worker_def demo_coordinator_def new_coordinator_def)
  ultimately show ?thesis
    using worker_connections_current [OF run [unfolded demo_coordinator_def] sent] by blast
qed

theorem reconnected_worker_lost_witness:
  "\<exists>co out. run_events (\<lambda>_. True) [Frame 3 (encode_message (demo_register (MkId 0 11))),
       Frame 5 (encode_message (demo_register (MkId 0 12))), Closed 3] demo_coordinator = Inr (co, out) \<and>
     om_find (co_threads co) 5 = Some (Serves_worker (MkId 0 1)) \<and> find_worker (MkId 0 1) (co_ctrl co) = None"
proof -
  obtain co out where run: "run_events (\<lambda>_. True) [Frame 3 (encode_message (demo_register (MkId 0 11))),
       Frame 5 (encode_message (demo_register (MkId 0 12))), Closed 3] demo_coordinator = Inr (co, out)"
    by (rule demo_events)
  have "om_find (co_threads demo_coordinator) n = None" for n
    by (simp add: demo_coordinator_def new_coordinator_def)
  with reconnected_worker_lost [OF demo_coordinator_ok, of 3 5, OF _ _ _ _ _ _ _ _ run] run
  show ?thesis by auto
qed

end
