(* ===== verification/Threads.thy ===== *)
theory Threads
  imports Coordinator_Safety
begin

text \<open>
  The threads of \<open>apps/distributed/rf_coordinator.cpp\<close>, statement by statement. Every connection
  has a thread; what one thread does between two others is a single call: a reading of a clock, an
  operation of the controller (under its mutex), a lookup or a change of the workers' connections
  (under \<open>conn_mu\<close>), a field read through a pointer that \<open>find_replica\<close> or \<open>find_set\<close> returned, or
  the writing of a frame. A \<open>thread\<close> is what is left of its handler; \<open>process\<close> has the shared state,
  the threads and what has arrived for them, and \<open>run_turns\<close> lets any thread take the next turn.
\<close>

section \<open>Threads\<close>

text \<open>
  A pointer whose record is gone is a failure of its own, beside the failures of the handlers.
\<close>

datatype thread_failure = Failed process_failure | Dangling_pointer

datatype thread =
    Waiting
  | Crashed thread_failure
  | Next "coordinator \<Rightarrow> coordinator \<times> out \<times> thread"

text \<open>A thread that nobody interrupts.\<close>

primrec solo :: "thread \<Rightarrow> coordinator \<Rightarrow> thread_failure + coordinator \<times> out" where
  "solo Waiting = (\<lambda>co. Inr (co, []))"
| "solo (Crashed x) = (\<lambda>co. Inl x)"
| "solo (Next f) = (\<lambda>co. case (map_prod id (map_prod id solo) \<circ> f) co of (co', out, rest) \<Rightarrow>
     ebind (rest co') (\<lambda>(co'', out'). Inr (co'', out @ out')))"

lemma thread_induct [case_names Waiting Crashed Next]:
  assumes "P Waiting" and "\<And>x. P (Crashed x)"
    and "\<And>f. (\<And>co co' out k. f co = (co', out, k) \<Longrightarrow> P k) \<Longrightarrow> P (Next f)"
  shows "P t"
proof (induction t)
  case (Next f)
  show ?case
  proof (rule assms(3))
    fix co co' out k
    assume "f co = (co', out, k)"
    then have "(co', out, k) \<in> range f" by (metis rangeI)
    then show "P k"
      by (rule Next [of _ "(out, k)" k]) simp_all
  qed
qed (rule assms(1,2))+

section \<open>Steps\<close>

definition attempt :: "process_failure + 'a \<Rightarrow> ('a \<Rightarrow> thread) \<Rightarrow> thread" where
  "attempt x k = (case x of Inl e \<Rightarrow> Crashed (Failed e) | Inr v \<Rightarrow> k v)"

definition call :: "(coordinator \<Rightarrow> 'a \<times> coordinator) \<Rightarrow> ('a \<Rightarrow> thread) \<Rightarrow> thread" where
  "call f k = Next (\<lambda>co. case f co of (x, co') \<Rightarrow> (co', [], k x))"

definition operate :: "(controller \<Rightarrow> 'a \<times> controller) \<Rightarrow> ('a \<Rightarrow> thread) \<Rightarrow> thread" where
  "operate f = call (\<lambda>co. case f (co_ctrl co) of (r, c) \<Rightarrow> (r, co\<lparr>co_ctrl := c\<rparr>))"

definition look :: "(coordinator \<Rightarrow> 'a) \<Rightarrow> ('a \<Rightarrow> thread) \<Rightarrow> thread" where
  "look f = call (\<lambda>co. (f co, co))"

definition modify :: "(coordinator \<Rightarrow> coordinator) \<Rightarrow> thread \<Rightarrow> thread" where
  "modify f k = call (\<lambda>co. ((), f co)) (\<lambda>_. k)"

definition write_frame_to :: "nat \<Rightarrow> Message \<Rightarrow> thread \<Rightarrow> thread" where
  "write_frame_to conn m k = Next (\<lambda>co. (co, [(conn, m)], k))"

definition send :: "(nat \<Rightarrow> bool) \<Rightarrow> WorkerId \<Rightarrow> Message \<Rightarrow> (bool \<Rightarrow> thread) \<Rightarrow> thread" where
  "send up w m k = Next (\<lambda>co. case send_to_worker up w m co of (sent, msgs) \<Rightarrow> (co, msgs, k sent))"

text \<open>
  \<open>find_replica\<close> and \<open>find_set\<close> return a pointer into the controller; the record is read through
  it later, without a lock.
\<close>

definition points :: "(controller \<Rightarrow> 'r option) \<Rightarrow> (bool \<Rightarrow> thread) \<Rightarrow> thread" where
  "points lookup = look (\<lambda>co. lookup (co_ctrl co) \<noteq> None)"

definition deref :: "(controller \<Rightarrow> 'r option) \<Rightarrow> ('r \<Rightarrow> 'a) \<Rightarrow> ('a \<Rightarrow> thread) \<Rightarrow> thread" where
  "deref lookup field k = Next (\<lambda>co. case lookup (co_ctrl co) of
     None \<Rightarrow> (co, [], Crashed Dangling_pointer) | Some r \<Rightarrow> (co, [], k (field r)))"

lemmas step_defs = operate_def look_def modify_def points_def call_def write_frame_to_def send_def deref_def

section \<open>Control messages\<close>

definition reply :: "CoordinatorEpoch \<Rightarrow> Message \<Rightarrow> Message" where
  "reply e m = Message_default\<lparr>m_kind := MSG_ERROR, m_epoch := e, m_seq := m_seq m\<rparr>"

definition thread_create_set :: "CoordinatorEpoch \<Rightarrow> Message \<Rightarrow> nat \<Rightarrow> thread" where
  "thread_create_set e m conn =
     attempt (build_set m) (\<lambda>s.
     operate (create_replica_set s e) (\<lambda>r.
     write_frame_to conn ((reply e m)\<lparr>m_kind := CREATE_SET_ACK, m_payload := result_text r\<rparr>) Waiting))"

text \<open>What follows a replica that was provisioned.\<close>

definition thread_start_replica ::
  "(nat \<Rightarrow> bool) \<Rightarrow> CoordinatorEpoch \<Rightarrow> Message \<Rightarrow> WorkerId \<Rightarrow> thread" where
  "thread_start_replica up e m w =
     call (\<lambda>co. case random_id (co_placement_rng co) of (pid, g) \<Rightarrow> (pid, co\<lparr>co_placement_rng := g\<rparr>)) (\<lambda>pid.
     call monotonic_ns (\<lambda>t.
     operate (set_allocating (m_replica m) pid t) (\<lambda>_.
     call monotonic_ns (\<lambda>t. call wall_ns (\<lambda>u.
     operate (set_starting (m_replica m) t u) (\<lambda>_.
     send up w (Message_default\<lparr>m_kind := WARM, m_epoch := e, m_worker := w,
       m_replica := m_replica m, m_set := m_set m, m_payload := ''steps=4''\<rparr>) (\<lambda>_. Waiting)))))))"

definition thread_provision :: "(nat \<Rightarrow> bool) \<Rightarrow> CoordinatorEpoch \<Rightarrow> Message \<Rightarrow> nat \<Rightarrow> thread" where
  "thread_provision up e m conn =
     (let p = m_payload m; reid = m_replica m;
          proceed = (\<lambda>w compat.
            attempt (hexi (get_payload p ''ccmaj'' ''c'')) (\<lambda>ccmaj.
            attempt (hexu (get_payload p ''devmem'' ''0x800000000'')) (\<lambda>devmem.
            attempt (hexu (get_payload p ''capacity'' ''0x1000000'')) (\<lambda>cap.
            (let dev = DeviceCapability_default\<lparr>dv_kind := AcceleratorKind.CUDA,
                   dv_device_id := get_payload p ''device'' ''cuda:0'',
                   dv_compute := (dv_compute DeviceCapability_default)\<lparr>cc_major := ccmaj\<rparr>, dv_memory_bytes := devmem\<rparr>
             in call monotonic_ns (\<lambda>t. call wall_ns (\<lambda>u.
                operate (provision_replica reid (m_set m) w
                  (compat\<lparr>cp_compute := \<lparr>cc_major = ccmaj, cc_minor = 0\<rparr>\<rparr>) dev cap t u) (\<lambda>r.
                write_frame_to conn ((reply e m)\<lparr>m_kind := PROVISION_ACK, m_payload := result_text r\<rparr>)
                  (if is_ok r then thread_start_replica up e m w else Waiting)))))))))
      in attempt (parse_id (get_payload p ''worker'' [])) (\<lambda>w.
         points (find_set (m_set m)) (\<lambda>found.
         if found then deref (find_set (m_set m)) (\<lambda>s. compat_from_set (Some s)) (proceed w)
         else proceed w (compat_from_set None))))"

text \<open>The worker is read through the pointer, its boot asked of the controller.\<close>

definition acting :: "Message \<Rightarrow> (WorkerId \<Rightarrow> WorkerBootId \<Rightarrow> thread) \<Rightarrow> thread" where
  "acting m k =
     points (find_replica (m_replica m)) (\<lambda>found.
     if found
     then deref (find_replica (m_replica m)) r_worker_id (\<lambda>w.
          look (\<lambda>co. current_boot_for (m_replica m) (co_ctrl co)) (\<lambda>b. k w b))
     else k (m_worker m) (m_boot m))"

definition thread_promote :: "CoordinatorEpoch \<Rightarrow> Message \<Rightarrow> nat \<Rightarrow> thread" where
  "thread_promote e m conn =
     attempt (hexi (get_payload (m_payload m) ''target'' ''5'')) (\<lambda>tg.
     attempt (read_var (PromotionState_from_int (sint tg))) (\<lambda>target.
     acting m (\<lambda>wkr bkt. call monotonic_ns (\<lambda>t. call wall_ns (\<lambda>u.
     operate (promote_replica (m_replica m) target wkr bkt t u) (\<lambda>r.
     write_frame_to conn ((reply e m)\<lparr>m_kind := PROMOTE_ACK, m_payload := result_text r\<rparr>) Waiting))))))"

definition thread_drain :: "CoordinatorEpoch \<Rightarrow> Message \<Rightarrow> nat \<Rightarrow> thread" where
  "thread_drain e m conn =
     acting m (\<lambda>wkr bkt. call monotonic_ns (\<lambda>t.
     operate (drain_replica (m_replica m) wkr bkt t) (\<lambda>r.
     write_frame_to conn ((reply e m)\<lparr>m_kind := DRAIN_ACK, m_payload := result_text r\<rparr>) Waiting)))"

definition thread_failover :: "CoordinatorEpoch \<Rightarrow> Message \<Rightarrow> nat \<Rightarrow> thread" where
  "thread_failover e m conn =
     attempt (parse_id (get_payload (m_payload m) ''failed'' [])) (\<lambda>failed.
     call monotonic_ns (\<lambda>t. call wall_ns (\<lambda>u.
     operate (trigger_failover (m_set m) failed (get_payload (m_payload m) ''reason'' ''failover'') t u) (\<lambda>r.
     write_frame_to conn ((reply e m)\<lparr>m_kind := FAILOVER_ACK, m_payload := result_text r\<rparr>) Waiting))))"

definition thread_execute :: "(nat \<Rightarrow> bool) \<Rightarrow> CoordinatorEpoch \<Rightarrow> Message \<Rightarrow> nat \<Rightarrow> thread" where
  "thread_execute up e m conn =
     points (find_replica (m_replica m)) (\<lambda>found.
     if \<not> found then write_frame_to conn ((reply e m)\<lparr>m_payload := ''err unknown replica''\<rparr>) Waiting
     else deref (find_replica (m_replica m)) r_worker_id (\<lambda>w.
       send up w (m\<lparr>m_epoch := e\<rparr>) (\<lambda>sent.
       if \<not> sent then write_frame_to conn ((reply e m)\<lparr>m_payload := ''err worker unreachable''\<rparr>) Waiting
       else write_frame_to conn ((reply e m)\<lparr>m_payload := ''ok forwarded''\<rparr>) Waiting)))"

definition thread_query :: "CoordinatorEpoch \<Rightarrow> Message \<Rightarrow> nat \<Rightarrow> thread" where
  "thread_query e m conn =
     (let q = get_payload (m_payload m) ''q'' ''?'';
          ack = (reply e m)\<lparr>m_kind := QUERY\<rparr>;
          rs = find_replica (m_replica m)
      in if q = ''result''
         then look (peek_result (m_replica m)) (\<lambda>res.
           write_frame_to conn (ack\<lparr>m_payload := ''result='' @ res\<rparr>) Waiting)
         else if q = ''state''
         then points rs (\<lambda>found.
           if \<not> found then write_frame_to conn (ack\<lparr>m_payload := ''err unknown replica''\<rparr>) Waiting
           else deref rs r_lifecycle (\<lambda>lc. deref rs r_serving_eligible (\<lambda>sv. deref rs r_role (\<lambda>ro. deref rs r_boot_id (\<lambda>bo.
             write_frame_to conn (ack\<lparr>m_payload := ''lifecycle='' @ ReplicaLifecycle_to_string lc @
               '' serving='' @ (if sv then ''1'' else ''0'') @
               '' role='' @ ReplicaRole_to_string ro @ '' boot='' @ id_str bo\<rparr>) Waiting)))))
         else write_frame_to conn (ack\<lparr>m_payload := ''err unknown query''\<rparr>) Waiting)"

definition thread_snapshot :: "CoordinatorEpoch \<Rightarrow> Message \<Rightarrow> nat \<Rightarrow> thread" where
  "thread_snapshot e m conn =
     look (\<lambda>co. make_snapshot (co_ctrl co)) (\<lambda>bytes.
     write_frame_to conn ((reply e m)\<lparr>m_kind := SNAPSHOT, m_payload := ''len='' @ to_string_nat (length bytes) @
       [newline] @ ''hex='' @ hex_text bytes\<rparr>) Waiting)"

definition thread_control :: "(nat \<Rightarrow> bool) \<Rightarrow> CoordinatorEpoch \<Rightarrow> Message \<Rightarrow> nat \<Rightarrow> thread" where
  "thread_control up e m conn =
     (if m_kind m = CREATE_SET then thread_create_set e m conn
      else if m_kind m = PROVISION then thread_provision up e m conn
      else if m_kind m = PROMOTE then thread_promote e m conn
      else if m_kind m = DRAIN then thread_drain e m conn
      else if m_kind m = FAILOVER then thread_failover e m conn
      else if m_kind m = EXECUTE then thread_execute up e m conn
      else if m_kind m = QUERY then thread_query e m conn
      else if m_kind m = SNAPSHOT then thread_snapshot e m conn
      else write_frame_to conn ((reply e m)\<lparr>m_payload := ''err unknown control command''\<rparr>) Waiting)"

section \<open>Worker messages\<close>

text \<open>The connection is entered for the worker before the acknowledgement is written.\<close>

definition thread_register :: "CoordinatorEpoch \<Rightarrow> Message \<Rightarrow> nat \<Rightarrow> thread" where
  "thread_register e m conn =
     attempt (build_worker_reg m) (\<lambda>wr.
     call monotonic_ns (\<lambda>t. call wall_ns (\<lambda>u.
     operate (register_worker wr t u) (\<lambda>r.
     modify (\<lambda>co. co\<lparr>co_conns := om_put (w_worker_id wr) conn (co_conns co),
       co_threads := om_put conn (Serves_worker (w_worker_id wr)) (co_threads co)\<rparr>)
     (write_frame_to conn (Message_default\<lparr>m_kind := REGISTER_ACK, m_epoch := e, m_payload := result_text r\<rparr>)
       Waiting)))))"

definition thread_warm_done :: "Message \<Rightarrow> thread" where
  "thread_warm_done m =
     attempt (warming_from (m_payload m)) (\<lambda>w.
     call monotonic_ns (\<lambda>t.
     operate (warm_replica (m_replica m) w (m_worker m) (m_boot m) t) (\<lambda>_. Waiting)))"

definition thread_health :: "Message \<Rightarrow> thread" where
  "thread_health m =
     attempt (hexi (get_payload (m_payload m) ''state'' ''2'')) (\<lambda>st.
     (case HealthState_from_int (sint st) of
        None \<Rightarrow> Waiting
      | Some hs \<Rightarrow>
          (let ev = HealthEvidence_default\<lparr>he_state := hs, he_kind := HealthEvidenceKind.REPORTED,
                 he_source := get_payload (m_payload m) ''source'' ''worker'', he_confidence := confidence_099\<rparr>;
               report = (\<lambda>ev. call wall_ns (\<lambda>u. call monotonic_ns (\<lambda>t.
                 operate (report_health (m_replica m) (ev\<lparr>he_observed_at_wall := u\<rparr>) (m_worker m) (m_boot m) t)
                   (\<lambda>_. Waiting))))
           in points (find_replica (m_replica m)) (\<lambda>found.
              if found then deref (find_replica (m_replica m)) r_health_generation
                (\<lambda>g. report (ev\<lparr>he_generation := g\<rparr>))
              else report ev))))"

definition thread_readiness :: "Message \<Rightarrow> thread" where
  "thread_readiness m =
     attempt (hexu (get_payload (m_payload m) ''mask'' ''0'')) (\<lambda>msk.
     call monotonic_ns (\<lambda>t.
     operate (report_readiness (m_replica m)
       (ReadinessRecord_default\<lparr>rr_factors := factors_of_mask msk, rr_state := ReadinessState.READY\<rparr>)
       (m_worker m) (m_boot m) t) (\<lambda>_. Waiting)))"

definition thread_pong :: "nat \<Rightarrow> thread" where
  "thread_pong conn = write_frame_to conn (Message_default\<lparr>m_kind := PONG\<rparr>) Waiting"

definition thread_result :: "Message \<Rightarrow> nat \<Rightarrow> thread" where
  "thread_result m conn =
     (let p = m_payload m
      in modify (stash_result (m_replica m) (''req='' @ get_payload p ''req'' ''?'' @ [newline] @
           ''outcome='' @ get_payload p ''outcome'' ''?'' @ [newline] @
           ''result='' @ get_payload p ''result'' ''?'')) (thread_pong conn))"

definition thread_worker :: "Message \<Rightarrow> nat \<Rightarrow> thread" where
  "thread_worker m conn =
     (if m_kind m = WARM_DONE then thread_warm_done m
      else if m_kind m = HEALTH then thread_health m
      else if m_kind m = READINESS then thread_readiness m
      else if m_kind m = EXECUTE_RESULT then thread_result m conn
      else if m_kind m = PING then thread_pong conn
      else Waiting)"

section \<open>A connection's thread\<close>

text \<open>What arrives on a connection: a frame, or its end. What the thread serves is its own.\<close>

datatype arrival = Arrived bytes | Ended

definition thread_frame :: "(nat \<Rightarrow> bool) \<Rightarrow> CoordinatorEpoch \<Rightarrow> nat \<Rightarrow> bytes \<Rightarrow> thread" where
  "thread_frame up e conn bs =
     look (\<lambda>co. om_find (co_threads co) conn) (\<lambda>role.
     if role = Some Returned then Waiting
     else case decode_message bs Message_default of
       Out_of_bounds \<Rightarrow> Crashed (Failed Out_of_bounds_read)
     | Malformed _ \<Rightarrow>
         (case role of
            None \<Rightarrow> modify (\<lambda>co. co\<lparr>co_threads := om_put conn Returned (co_threads co)\<rparr>) Waiting
          | Some _ \<Rightarrow> Waiting)
     | Decoded m \<Rightarrow>
         (case role of
            None \<Rightarrow>
              if m_kind m = REGISTER then thread_register e m conn
              else modify (\<lambda>co. co\<lparr>co_threads := om_put conn Serves_control (co_threads co)\<rparr>)
                     (thread_control up e m conn)
          | Some (Serves_worker w) \<Rightarrow> thread_worker m conn
          | Some Serves_control \<Rightarrow> thread_control up e m conn
          | Some Returned \<Rightarrow> Waiting))"

definition thread_closed :: "nat \<Rightarrow> thread" where
  "thread_closed conn =
     look (\<lambda>co. om_find (co_threads co) conn) (\<lambda>role.
     case role of
       Some (Serves_worker w) \<Rightarrow>
         operate (unregister_worker w) (\<lambda>_.
         modify (\<lambda>co. co\<lparr>co_conns := om_erase w (co_conns co), co_threads := om_erase conn (co_threads co)\<rparr>) Waiting)
     | _ \<Rightarrow> modify (\<lambda>co. co\<lparr>co_threads := om_erase conn (co_threads co)\<rparr>) Waiting)"

definition thread_of :: "(nat \<Rightarrow> bool) \<Rightarrow> CoordinatorEpoch \<Rightarrow> nat \<Rightarrow> arrival \<Rightarrow> thread" where
  "thread_of up e conn a = (case a of Arrived bs \<Rightarrow> thread_frame up e conn bs | Ended \<Rightarrow> thread_closed conn)"

section \<open>The process\<close>

text \<open>
  \<open>pr_inbox\<close> has what has arrived and was not read yet, in order; a thread that waits reads the next
  of it, any other thread takes its next step.
\<close>

record process =
  pr_shared :: coordinator
  pr_thread :: "nat \<Rightarrow> thread"
  pr_inbox :: "nat \<Rightarrow> arrival list"

datatype turn = Arrive nat arrival | Turn nat

definition take_turn :: "(nat \<Rightarrow> bool) \<Rightarrow> turn \<Rightarrow> process \<Rightarrow> thread_failure + process \<times> out" where
  "take_turn up tn p =
     (case tn of
        Arrive conn a \<Rightarrow> Inr (p\<lparr>pr_inbox := (pr_inbox p)(conn := pr_inbox p conn @ [a])\<rparr>, [])
      | Turn conn \<Rightarrow>
          (case pr_thread p conn of
             Crashed x \<Rightarrow> Inl x
           | Next f \<Rightarrow> (case f (pr_shared p) of (co, out, k) \<Rightarrow>
               Inr (p\<lparr>pr_shared := co, pr_thread := (pr_thread p)(conn := k)\<rparr>, out))
           | Waiting \<Rightarrow>
               (case pr_inbox p conn of
                  [] \<Rightarrow> Inr (p, [])
                | a # as \<Rightarrow> Inr (p\<lparr>pr_thread := (pr_thread p)(conn := thread_of up (co_epoch (pr_shared p)) conn a),
                    pr_inbox := (pr_inbox p)(conn := as)\<rparr>, []))))"

definition run_turns :: "(nat \<Rightarrow> bool) \<Rightarrow> turn list \<Rightarrow> process \<Rightarrow> thread_failure + process \<times> out" where
  "run_turns up = run_handlers (take_turn up)"

definition idle :: "coordinator \<Rightarrow> process" where
  "idle co = \<lparr>pr_shared = co, pr_thread = (\<lambda>_. Waiting), pr_inbox = (\<lambda>_. [])\<rparr>"

section \<open>A thread alone does what the handler does\<close>

definition as_thread :: "process_failure + 'a \<Rightarrow> thread_failure + 'a" where
  "as_thread x = (case x of Inl e \<Rightarrow> Inl (Failed e) | Inr v \<Rightarrow> Inr v)"

lemma as_thread_simps [simp]: "as_thread (Inl e) = Inl (Failed e)" "as_thread (Inr v) = Inr v"
  by (simp_all add: as_thread_def)

lemma as_thread_ebind: "as_thread (ebind x f) = ebind (as_thread x) (\<lambda>v. as_thread (f v))"
  by (cases x) simp_all

lemma ebind_unit [simp]: "ebind x (\<lambda>(co, out). Inr (co, out)) = x" "ebind x Inr = x"
  by (cases x; simp)+

lemma solo_attempt [simp]: "solo (attempt x k) co = ebind (as_thread x) (\<lambda>v. solo (k v) co)"
  by (cases x) (simp_all add: attempt_def)

lemma solo_next: "solo (Next f) co = (case f co of (co', out, k) \<Rightarrow>
  ebind (solo k co') (\<lambda>(co'', out'). Inr (co'', out @ out')))"
  by (simp add: split: prod.split)

lemma solo_call [simp]: "solo (call f k) co = solo (k (fst (f co))) (snd (f co))"
  by (simp add: call_def case_prod_unfold)

lemma solo_write [simp]: "solo (write_frame_to conn m k) co = ebind (solo k co) (\<lambda>(co, out). Inr (co, (conn, m) # out))"
  by (simp add: write_frame_to_def)

lemma solo_send [simp]: "solo (send up w m k) co = ebind (solo (k (fst (send_to_worker up w m co))) co)
  (\<lambda>(co', out). Inr (co', snd (send_to_worker up w m co) @ out))"
  by (simp add: send_def case_prod_unfold)

lemma solo_state [simp]:
  "solo (operate f k) co = solo (k (fst (f (co_ctrl co)))) (co\<lparr>co_ctrl := snd (f (co_ctrl co))\<rparr>)"
  "solo (look g k') co = solo (k' (g co)) co"
  "solo (modify h j) co = solo j (h co)"
  by (simp_all add: operate_def look_def modify_def case_prod_unfold)

lemma solo_points [simp]: "solo (points lookup k) co = solo (k (lookup (co_ctrl co) \<noteq> None)) co"
  by (simp add: points_def)

lemma solo_deref [simp]: "lookup (co_ctrl co) = Some r \<Longrightarrow> solo (deref lookup field k) co = solo (k (field r)) co"
  by (simp add: deref_def)

lemma reply_ack: "reply (co_epoch co) m = ack_for m co"
  by (simp add: reply_def ack_for_def)

lemma solo_simple_controls:
  "solo (thread_create_set (co_epoch co) m conn) co = as_thread (control_create_set m conn co)"
  "solo (thread_failover (co_epoch co) m conn) co = as_thread (control_failover m conn co)"
  "solo (thread_snapshot (co_epoch co) m conn) co = as_thread (control_snapshot m conn co)"
  unfolding thread_create_set_def control_create_set_def thread_failover_def control_failover_def
    thread_snapshot_def control_snapshot_def
  by (simp_all add: as_thread_ebind reply_ack case_prod_unfold Let_def ack_for_def)

lemma solo_acting:
  "solo (acting m k) co = solo (k (fst (acting_worker m co)) (snd (acting_worker m co))) co"
  by (cases "find_replica (m_replica m) (co_ctrl co)") (simp_all add: acting_def acting_worker_def)

lemma solo_acting_controls:
  "solo (thread_promote (co_epoch co) m conn) co = as_thread (control_promote m conn co)"
  "solo (thread_drain (co_epoch co) m conn) co = as_thread (control_drain m conn co)"
  unfolding thread_promote_def control_promote_def thread_drain_def control_drain_def
  by (simp_all add: solo_acting as_thread_ebind reply_ack case_prod_unfold Let_def ack_for_def)

lemma solo_lookups:
  "solo (thread_execute up (co_epoch co) m conn) co = as_thread (control_execute up m conn co)"
  "solo (thread_query (co_epoch co) m conn) co = as_thread (control_query m conn co)"
  unfolding thread_execute_def control_execute_def thread_query_def control_query_def
  by (cases "find_replica (m_replica m) (co_ctrl co)";
      simp add: reply_ack case_prod_unfold Let_def ack_for_def state_text_def)+

lemma solo_start_replica:
  "solo (thread_start_replica up e m w) co =
     (let (pid, g) = random_id (co_placement_rng co);
          co = co\<lparr>co_placement_rng := g\<rparr>;
          (t, co) = monotonic_ns co;
          co = co\<lparr>co_ctrl := snd (set_allocating (m_replica m) pid t (co_ctrl co))\<rparr>;
          (t, co) = monotonic_ns co;
          (u, co) = wall_ns co;
          co = co\<lparr>co_ctrl := snd (set_starting (m_replica m) t u (co_ctrl co))\<rparr>
      in Inr (co, snd (send_to_worker up w (Message_default\<lparr>m_kind := WARM, m_epoch := e, m_worker := w,
           m_replica := m_replica m, m_set := m_set m, m_payload := ''steps=4''\<rparr>) co)))"
  by (simp add: thread_start_replica_def case_prod_unfold Let_def)

lemma as_thread_fork: "as_thread (if b then x else y) = (if b then as_thread x else as_thread y)"
  by simp

lemma ebind_fork: "ebind (if b then x else y) f = (if b then ebind x f else ebind y f)"
  by simp

lemma solo_fork: "solo (if b then k else k') co = (if b then solo k co else solo k' co)"
  by simp

lemma solo_provision: "solo (thread_provision up (co_epoch co) m conn) co = as_thread (control_provision up m conn co)"
  by (cases "find_set (m_set m) (co_ctrl co)")
     (simp_all add: thread_provision_def control_provision_def as_thread_ebind as_thread_fork solo_fork
       ebind_fork solo_start_replica reply_ack case_prod_unfold Let_def ack_for_def cong: if_cong)

lemma solo_worker: "solo (thread_worker m conn) co = as_thread (handle_worker m conn co)"
proof -
  have "solo (thread_health m) co = as_thread (worker_health m co)"
    by (cases "find_replica (m_replica m) (co_ctrl co)")
       (auto simp: thread_health_def worker_health_def as_thread_ebind case_prod_unfold Let_def split: option.split
         intro!: arg_cong [where f = "ebind _"])
  moreover have "solo (thread_warm_done m) co = as_thread (worker_warm_done m co)"
    "solo (thread_readiness m) co = as_thread (worker_readiness m co)"
    "solo (thread_result m conn) co = as_thread (worker_result m conn co)"
    "solo (thread_pong conn) co = Inr (co, pong conn)"
    unfolding thread_warm_done_def worker_warm_done_def thread_readiness_def worker_readiness_def
      thread_result_def worker_result_def thread_pong_def pong_def
    by (simp_all add: as_thread_ebind case_prod_unfold Let_def)
  ultimately show ?thesis
    by (simp add: thread_worker_def handle_worker_def)
qed

lemma solo_register: "solo (thread_register (co_epoch co) m conn) co = as_thread (worker_register m conn co)"
  by (simp add: thread_register_def worker_register_def as_thread_ebind case_prod_unfold Let_def)

lemma solo_control: "co_epoch co = e \<Longrightarrow> solo (thread_control up e m conn) co = as_thread (handle_control up m conn co)"
  unfolding thread_control_def handle_control_def
  using solo_simple_controls solo_acting_controls solo_lookups solo_provision
  by (auto simp: reply_ack)

definition event_of :: "nat \<Rightarrow> arrival \<Rightarrow> net_event" where
  "event_of conn a = (case a of Arrived bs \<Rightarrow> Frame conn bs | Ended \<Rightarrow> Closed conn)"

text \<open>A thread that takes its steps one after the other does what the handler does in one step.\<close>

lemma thread_alone_fact:
  "solo (thread_of up (co_epoch co) conn a) co = as_thread (coordinator_step up (event_of conn a) co)"
  by (auto simp: thread_of_def event_of_def coordinator_step_def thread_frame_def receive_frame_def first_message_def
      solo_control solo_register solo_worker thread_closed_def connection_closed_def
      split: arrival.split decode_result.split option.split conn_thread.split)

section \<open>What the other threads may do meanwhile\<close>

text \<open>
  Between two steps of a thread the others may drive the controller by commands under the same epoch.
  \<open>tame e c t\<close>: from any such successor of the controller \<open>c\<close>, the steps of \<open>t\<close> do no more than
  that themselves, and no pointer dangles.
\<close>

inductive tame :: "CoordinatorEpoch \<Rightarrow> controller \<Rightarrow> thread \<Rightarrow> bool" for e where
  tame_waiting: "tame e c Waiting"
| tame_crashed: "tame e c (Crashed (Failed x))"
| tame_next: "(\<And>co co' out k. co_epoch co = e \<Longrightarrow> controller_ok (co_ctrl co) \<Longrightarrow> drives e c (co_ctrl co) \<Longrightarrow>
      f co = (co', out, k) \<Longrightarrow>
      co_epoch co' = e \<and> drives e (co_ctrl co) (co_ctrl co') \<and> tame e (co_ctrl co') k) \<Longrightarrow>
    tame e c (Next f)"

inductive_simps tame_simps [simp]: "tame e c Waiting" "tame e c (Crashed x)"
inductive_cases tame_nextE: "tame e c (Next f)"

lemma tame_later:
  assumes "drives e c c'" and "tame e c t"
  shows "tame e c' t"
proof (cases t)
  case (Next f)
  show ?thesis
    unfolding Next
    by (rule tame_next, rule tame_nextE [OF assms(2) [unfolded Next]]) (use assms(1) drives_trans in blast)
qed (use assms(2) in simp_all)

text \<open>A record the controller has once, it keeps: its pointer stays valid.\<close>

definition lasting :: "(controller \<Rightarrow> 'r option) \<Rightarrow> bool" where
  "lasting lookup \<longleftrightarrow> (\<forall>c cmd. controller_ok c \<longrightarrow> lookup c \<noteq> None \<longrightarrow> lookup (snd (run_command cmd c)) \<noteq> None)"

lemma lasting_commands:
  "lasting lookup \<Longrightarrow> controller_ok c \<Longrightarrow> lookup c \<noteq> None \<Longrightarrow> lookup (run_commands cmds c) \<noteq> None"
  by (induction cmds arbitrary: c) (simp_all add: lasting_def command_ok)

lemma lasting_drives: "lasting lookup \<Longrightarrow> controller_ok c \<Longrightarrow> drives e c c' \<Longrightarrow> lookup c \<noteq> None \<Longrightarrow> lookup c' \<noteq> None"
  unfolding drives_def using lasting_commands by blast

lemma replica_lasts: "lasting (find_replica rid)"
proof -
  have "om_find (ct_replicas (snd (run_command cmd c))) rid \<noteq> None"
    if "controller_ok c" and known: "om_find (ct_replicas c) rid \<noteq> None" for c cmd
  proof (cases "provisions rid cmd")
    case True
    then obtain sid w cm dv cap t u where "cmd = ProvisionReplica rid sid w cm dv cap t u"
      by (auto simp: provisions_iff)
    with known show ?thesis
      by (cases rule: provision_result [of rid sid w cm dv cap t u c]) auto
  next
    case False
    have "om_sorted (ct_replicas c)" using that(1) unfolding controller_ok_def maps_sorted_def by blast
    from run_command_replica [OF this False] known show ?thesis
      by (auto simp: option_rel_Some1)
  qed
  then show ?thesis
    by (simp add: lasting_def find_replica_def)
qed

lemma set_lasts: "lasting (find_set sid)"
proof -
  have "om_find (ct_sets (snd (run_command cmd c))) sid \<noteq> None"
    if known: "om_find (ct_sets c) sid \<noteq> None" for c cmd
  proof (cases "creates cmd")
    case True
    then obtain st e where "cmd = CreateReplicaSet st e" by (auto simp: creates_def)
    with known show ?thesis by (auto simp: create_replica_set_def Let_def)
  next
    case False
    with run_command_sets [OF False, of c] known show ?thesis
      by (auto simp: sets_evolve_def option_rel_Some1 dest!: spec [of _ sid])
  qed
  then show ?thesis
    by (simp add: lasting_def find_set_def)
qed

section \<open>The steps are tame\<close>

named_theorems tame_steps

lemma tame_attempt [tame_steps]: "(\<And>v. tame e c (k v)) \<Longrightarrow> tame e c (attempt x k)"
  by (cases x) (simp_all add: attempt_def)

lemma tame_quiet:
  assumes "\<And>co. co_epoch (fst (f co)) = co_epoch co \<and> co_ctrl (fst (f co)) = co_ctrl co" and "\<And>co. tame e c (snd (snd (f co)))"
  shows "tame e c (Next f)"
proof (rule tame_next)
  fix co co' out k
  assume "co_epoch co = e" "drives e c (co_ctrl co)" "f co = (co', out, k)"
  with assms [of co] show "co_epoch co' = e \<and> drives e (co_ctrl co) (co_ctrl co') \<and> tame e (co_ctrl co') k"
    by (auto intro: tame_later)
qed

lemma tame_write [tame_steps]: "tame e c k \<Longrightarrow> tame e c (write_frame_to conn m k)"
  and tame_send [tame_steps]: "(\<And>b. tame e c (k' b)) \<Longrightarrow> tame e c (send up w m k')"
  and tame_look [tame_steps]: "(\<And>x. tame e c (h x)) \<Longrightarrow> tame e c (look g h)"
  unfolding step_defs by (auto intro!: tame_quiet split: prod.split)

lemma tame_call:
  "(\<And>co. co_epoch (snd (f co)) = co_epoch co \<and> co_ctrl (snd (f co)) = co_ctrl co) \<Longrightarrow> (\<And>x. tame e c (k x)) \<Longrightarrow>
   tame e c (call f k)"
  unfolding step_defs by (rule tame_quiet) (auto simp: case_prod_unfold)

lemma tame_clocks [tame_steps]:
  "(\<And>t. tame e c (k t)) \<Longrightarrow> tame e c (call monotonic_ns k)" "(\<And>u. tame e c (k' u)) \<Longrightarrow> tame e c (call wall_ns k')"
  by (auto intro!: tame_call)

lemma tame_operate:
  assumes "\<And>c. drives e c (snd (f c))" and "\<And>x. tame e c (k x)"
  shows "tame e c (operate f k)"
  unfolding step_defs
proof (rule tame_next)
  fix co co' out k'
  assume "co_epoch co = e" "drives e c (co_ctrl co)"
    "(case case f (co_ctrl co) of (r, c) \<Rightarrow> (r, co\<lparr>co_ctrl := c\<rparr>) of (x, co') \<Rightarrow> (co', [], k x)) = (co', out, k')"
  with assms show "co_epoch co' = e \<and> drives e (co_ctrl co) (co_ctrl co') \<and> tame e (co_ctrl co') k'"
    by (auto simp: case_prod_unfold intro: tame_later [OF drives_trans])
qed

lemmas tame_operations [tame_steps] = tame_operate [OF drives_ops(1)] tame_operate [OF drives_ops(2)]
  tame_operate [OF drives_ops(3)] tame_operate [OF drives_ops(4)] tame_operate [OF drives_ops(5)]
  tame_operate [OF drives_ops(6)] tame_operate [OF drives_ops(7)] tame_operate [OF drives_ops(8)]
  tame_operate [OF drives_ops(9)] tame_operate [OF drives_ops(10)] tame_operate [OF drives_ops(11)]
  tame_operate [OF drives_ops(12)]

lemma tame_points:
  assumes "tame e c (k False)" and "\<And>c. controller_ok c \<Longrightarrow> lookup c \<noteq> None \<Longrightarrow> tame e c (k True)"
  shows "tame e c (points lookup k)"
  unfolding step_defs
proof (rule tame_next)
  fix co co' out k'
  assume co: "co_epoch co = e" "controller_ok (co_ctrl co)" "drives e c (co_ctrl co)"
    "(case (lookup (co_ctrl co) \<noteq> None, co) of (x, co') \<Rightarrow> (co', [], k x)) = (co', out, k')"
  then have "co' = co" "k' = k (lookup (co_ctrl co) \<noteq> None)" by auto
  then show "co_epoch co' = e \<and> drives e (co_ctrl co) (co_ctrl co') \<and> tame e (co_ctrl co') k'"
    using co(1) tame_later [OF co(3) assms(1)] assms(2) [OF co(2)]
    by (cases "lookup (co_ctrl co) = None") simp_all
qed

lemma tame_deref:
  assumes "lasting lookup" and "controller_ok c" and "lookup c \<noteq> None" and "\<And>x. tame e c (k x)"
  shows "tame e c (deref lookup field k)"
  unfolding deref_def
proof (rule tame_next)
  fix co co' out k'
  assume co: "co_epoch co = e" "drives e c (co_ctrl co)"
    "(case lookup (co_ctrl co) of None \<Rightarrow> (co, [], Crashed Dangling_pointer) | Some r \<Rightarrow> (co, [], k (field r))) = (co', out, k')"
  then have "lookup (co_ctrl co) \<noteq> None"
    using lasting_drives assms(1-3) by blast
  with co assms(4) show "co_epoch co' = e \<and> drives e (co_ctrl co) (co_ctrl co') \<and> tame e (co_ctrl co') k'"
    using tame_later [OF co(2)] by auto
qed

lemmas tame_found = tame_deref [OF replica_lasts] tame_deref [OF set_lasts]

lemma tame_modify [tame_steps]:
  "(\<And>co. co_epoch (h co) = co_epoch co \<and> co_ctrl (h co) = co_ctrl co) \<Longrightarrow> tame e c k \<Longrightarrow> tame e c (modify h k)"
  unfolding step_defs by (rule tame_quiet) auto

lemma tame_acting [tame_steps]: "(\<And>c w b. tame e c (k w b)) \<Longrightarrow> tame e c (acting m k)"
  unfolding acting_def by (rule tame_points) (auto intro!: tame_steps tame_found)

lemma tame_start_replica [tame_steps]: "tame e c (thread_start_replica up e m w)"
  unfolding thread_start_replica_def
  by (intro tame_call tame_steps) (simp_all add: case_prod_unfold)

lemma tame_controls [tame_steps]:
  "tame e c (thread_create_set e m conn)" "tame e c (thread_promote e m conn)" "tame e c (thread_drain e m conn)"
  "tame e c (thread_failover e m conn)" "tame e c (thread_snapshot e m conn)"
  unfolding thread_create_set_def thread_promote_def thread_drain_def thread_failover_def thread_snapshot_def
  by (intro tame_steps tame_waiting)+

lemma tame_execute [tame_steps]: "tame e c (thread_execute up e m conn)"
  unfolding thread_execute_def by (rule tame_points) (auto intro!: tame_steps tame_found)

lemma tame_query [tame_steps]: "tame e c (thread_query e m conn)"
  unfolding thread_query_def Let_def by (auto intro!: tame_points tame_steps tame_found)

lemma tame_provision [tame_steps]: "tame e c (thread_provision up e m conn)"
  unfolding thread_provision_def Let_def by (auto intro!: tame_points tame_steps tame_found)

lemma tame_control [tame_steps]: "tame e c (thread_control up e m conn)"
  unfolding thread_control_def by (auto intro!: tame_steps)

lemma tame_health [tame_steps]: "tame e c (thread_health m)"
  unfolding thread_health_def Let_def
  by (rule tame_steps) (auto intro!: tame_points tame_steps tame_found split: option.split)

lemma tame_worker [tame_steps]: "tame e c (thread_worker m conn)"
  unfolding thread_worker_def thread_warm_done_def thread_readiness_def thread_result_def thread_pong_def
  by (auto intro!: tame_steps simp: Let_def stash_result_def)

lemma tame_register [tame_steps]: "tame e c (thread_register e m conn)"
  unfolding thread_register_def by (auto intro!: tame_steps)

lemma tame_of: "tame e c (thread_of up e conn a)"
  unfolding thread_of_def thread_frame_def thread_closed_def
  by (auto intro!: tame_steps split: arrival.split decode_result.split option.split conn_thread.split)

section \<open>Every interleaving drives the controller\<close>

definition calm :: "process \<Rightarrow> bool" where
  "calm p \<longleftrightarrow> controller_ok (co_ctrl (pr_shared p)) \<and>
     (\<forall>conn. tame (co_epoch (pr_shared p)) (co_ctrl (pr_shared p)) (pr_thread p conn))"

definition steers :: "process \<Rightarrow> process \<Rightarrow> bool" where
  "steers p p' \<longleftrightarrow> co_epoch (pr_shared p') = co_epoch (pr_shared p) \<and>
     drives (co_epoch (pr_shared p)) (co_ctrl (pr_shared p)) (co_ctrl (pr_shared p'))"

lemma turn_calm:
  assumes "calm p" and "take_turn up tn p = Inr (p', out)"
  shows "calm p' \<and> steers p p'"
proof (cases tn)
  case (Arrive conn a)
  then show ?thesis using assms by (auto simp: take_turn_def calm_def steers_def)
next
  case (Turn conn)
  have t: "tame (co_epoch (pr_shared p)) (co_ctrl (pr_shared p)) (pr_thread p i)" for i
    using assms(1) by (simp add: calm_def)
  show ?thesis
  proof (cases "pr_thread p conn")
    case Waiting
    then show ?thesis
      using assms Turn by (auto simp: take_turn_def calm_def steers_def tame_of split: list.splits)
  next
    case (Next f)
    obtain co k where f: "f (pr_shared p) = (co, out, k)" "p' = p\<lparr>pr_shared := co, pr_thread := (pr_thread p)(conn := k)\<rparr>"
      using assms(2) Turn Next by (auto simp: take_turn_def split: prod.splits)
    have 1: "co_epoch co = co_epoch (pr_shared p) \<and>
        drives (co_epoch (pr_shared p)) (co_ctrl (pr_shared p)) (co_ctrl co) \<and> tame (co_epoch (pr_shared p)) (co_ctrl co) k"
      using t [of conn] assms(1) f(1) unfolding Next calm_def by (blast elim: tame_nextE intro: drives_refl)
    then show ?thesis
      using assms(1) t drives_ok unfolding calm_def steers_def f(2) by (auto intro: tame_later)
  qed (use assms Turn in \<open>simp add: take_turn_def\<close>)
qed

lemma turn_never_dangles: "calm p \<Longrightarrow> take_turn up tn p \<noteq> Inl Dangling_pointer"
  by (auto simp: take_turn_def calm_def split: turn.splits thread.splits list.splits prod.splits)
     (metis tame_simps(2) thread_failure.distinct(1))+

interpretation turning: guarded_process "take_turn up" "\<lambda>p p'. calm p \<longrightarrow> calm p' \<and> steers p p'" for up
  by unfold_locales (use turn_calm in \<open>auto simp: steers_def intro: drives_trans\<close>)

lemma run_never_dangles: "calm p \<Longrightarrow> run_turns up tns p \<noteq> Inl Dangling_pointer"
proof (induction tns arbitrary: p)
  case (Cons tn tns)
  then show ?case
    using turn_calm turn_never_dangles [OF Cons.prems]
    by (cases "take_turn up tn p") (auto simp: run_turns_def ebind_def split: sum.splits)
qed (simp add: run_turns_def)

lemma idle_calm: "controller_ok (co_ctrl co) \<Longrightarrow> calm (idle co)"
  by (simp add: calm_def idle_def)

text \<open>
  C3. The coordinator refines the controller even though its handlers are not atomic: in whatever
  order the threads take their steps, its controller is what a sequence of controller commands makes
  of a new one, every set created under the epoch drawn at the start, and never another epoch set.
  So its controller is consistent and every replica carries the coordinator's epoch.
\<close>

theorem interleaving_refines_controller:
  assumes "run_turns up tns (idle (new_coordinator gen prng mono_clock wall_clock)) = Inr (p, out)"
  shows "co_epoch (pr_shared p) = fst (random_id gen) \<and>
    (\<exists>cmds. list_all (issued (co_epoch (pr_shared p))) cmds \<and>
       co_ctrl (pr_shared p) = run_commands cmds (new_controller gen)) \<and>
    controller_ok (co_ctrl (pr_shared p)) \<and>
    (\<forall>rid r. find_replica rid (co_ctrl (pr_shared p)) = Some r \<longrightarrow> r_coordinator_epoch r = co_epoch (pr_shared p))"
proof -
  have "calm (idle (new_coordinator gen prng mono_clock wall_clock))"
    by (rule idle_calm) (simp add: new_coordinator_def new_controller_ok)
  then have "steers (idle (new_coordinator gen prng mono_clock wall_clock)) p"
    using turning.run_rel [OF assms [unfolded run_turns_def]] by blast
  then have "co_epoch (pr_shared p) = fst (random_id gen)"
      and d: "drives (co_epoch (pr_shared p)) (new_controller gen) (co_ctrl (pr_shared p))"
    by (auto simp: steers_def idle_def new_coordinator_def)
  then show ?thesis
    using driven_from_new [OF d] d unfolding drives_def by blast
qed

text \<open>
  C23. The pointers that \<open>find_replica\<close> and \<open>find_set\<close> return are read without the controller's
  mutex, after other threads may have changed the controller; whatever they did, the record is
  still there.
\<close>

theorem pointers_stay_valid:
  "run_turns up tns (idle (new_coordinator gen prng mono_clock wall_clock)) \<noteq> Inl Dangling_pointer"
  by (rule run_never_dangles [OF idle_calm]) (simp add: new_coordinator_def new_controller_ok)

section \<open>Connections under interleaving\<close>

text \<open>
  The connection kept for a worker is one whose thread serves that worker. What a thread serves is
  its own: no other thread changes it, so \<open>wired_as conn role t\<close> may rely on it between the steps.
\<close>

definition well_wired :: "coordinator \<Rightarrow> bool" where
  "well_wired co \<longleftrightarrow> om_sorted (co_conns co) \<and> om_sorted (co_threads co) \<and>
     (\<forall>w n. om_find (co_conns co) w = Some n \<longrightarrow> om_find (co_threads co) n = Some (Serves_worker w))"

inductive wired_as :: "nat \<Rightarrow> conn_thread option \<Rightarrow> thread \<Rightarrow> bool" for conn where
  wired_waiting: "wired_as conn role Waiting"
| wired_crashed: "wired_as conn role (Crashed x)"
| wired_next: "(\<And>co co' out k. well_wired co \<Longrightarrow> om_find (co_threads co) conn = role \<Longrightarrow> f co = (co', out, k) \<Longrightarrow>
      well_wired co' \<and> (\<forall>n. n \<noteq> conn \<longrightarrow> om_find (co_threads co') n = om_find (co_threads co) n) \<and>
      wired_as conn (om_find (co_threads co') conn) k) \<Longrightarrow>
    wired_as conn role (Next f)"

inductive_cases wired_nextE: "wired_as conn role (Next f)"

lemma wired_attempt: "(\<And>v. wired_as conn role (k v)) \<Longrightarrow> wired_as conn role (attempt x k)"
  by (cases x) (auto simp: attempt_def intro: wired_crashed)

lemma wired_quiet:
  assumes "\<And>co. co_conns (fst (f co)) = co_conns co \<and> co_threads (fst (f co)) = co_threads co"
    and "\<And>co. wired_as conn role (snd (snd (f co)))"
  shows "wired_as conn role (Next f)"
proof (rule wired_next)
  fix co co' out k
  assume "well_wired co" "om_find (co_threads co) conn = role" "f co = (co', out, k)"
  with assms [of co] show "well_wired co' \<and> (\<forall>n. n \<noteq> conn \<longrightarrow> om_find (co_threads co') n = om_find (co_threads co) n) \<and>
      wired_as conn (om_find (co_threads co') conn) k"
    by (simp add: well_wired_def)
qed

lemma wired_steps:
  "(\<And>t. wired_as conn role (k t)) \<Longrightarrow> wired_as conn role (call monotonic_ns k)"
  "(\<And>u. wired_as conn role (k1 u)) \<Longrightarrow> wired_as conn role (call wall_ns k1)"
  "(\<And>x. wired_as conn role (k2 x)) \<Longrightarrow> wired_as conn role (operate f2 k2)"
  "(\<And>x. wired_as conn role (k3 x)) \<Longrightarrow> wired_as conn role (look f3 k3)"
  "wired_as conn role k4 \<Longrightarrow> wired_as conn role (write_frame_to n m k4)"
  "(\<And>b. wired_as conn role (k5 b)) \<Longrightarrow> wired_as conn role (send up w m k5)"
  "(\<And>b. wired_as conn role (k6 b)) \<Longrightarrow> wired_as conn role (points lookup k6)"
  "(\<And>x. wired_as conn role (k7 x)) \<Longrightarrow> wired_as conn role (deref lookup field k7)"
  "(\<And>pid. wired_as conn role (k8 pid)) \<Longrightarrow> wired_as conn role
     (call (\<lambda>co. case random_id (co_placement_rng co) of (pid, g) \<Rightarrow> (pid, co\<lparr>co_placement_rng := g\<rparr>)) k8)"
  "wired_as conn role k9 \<Longrightarrow> wired_as conn role (modify (stash_result i r) k9)"
  unfolding step_defs
  by (rule wired_quiet; auto simp: case_prod_unfold stash_result_def intro: wired_crashed split: option.split)+

lemmas wired_rules = wired_attempt wired_steps wired_waiting wired_crashed

text \<open>What a thread reads of its own state is what it relied on.\<close>

lemma wired_own:
  "wired_as conn role (k role) \<Longrightarrow> wired_as conn role (look (\<lambda>co. om_find (co_threads co) conn) k)"
  unfolding step_defs by (rule wired_next) auto

lemma wired_modify:
  assumes "\<And>co. well_wired co \<Longrightarrow> om_find (co_threads co) conn = role \<Longrightarrow> well_wired (h co) \<and>
      (\<forall>n. n \<noteq> conn \<longrightarrow> om_find (co_threads (h co)) n = om_find (co_threads co) n) \<and>
      om_find (co_threads (h co)) conn = role'"
    and "wired_as conn role' k"
  shows "wired_as conn role (modify h k)"
  unfolding step_defs by (rule wired_next) (use assms in auto)

lemma wired_set_role:
  assumes "\<And>w. role \<noteq> Some (Serves_worker w)" and "wired_as conn (Some th) k"
  shows "wired_as conn role (modify (\<lambda>co. co\<lparr>co_threads := om_put conn th (co_threads co)\<rparr>) k)"
  by (rule wired_modify [OF _ assms(2)]) (use assms(1) in \<open>auto simp: well_wired_def\<close>)

lemma wired_enter:
  assumes "wired_as conn (Some (Serves_worker w)) k"
  shows "wired_as conn None (modify (\<lambda>co. co\<lparr>co_conns := om_put w conn (co_conns co),
    co_threads := om_put conn (Serves_worker w) (co_threads co)\<rparr>) k)"
  by (rule wired_modify [OF _ assms]) (auto simp: well_wired_def split: if_splits)

lemma wired_leave:
  "wired_as conn (Some (Serves_worker w)) (modify (\<lambda>co. co\<lparr>co_conns := om_erase w (co_conns co),
     co_threads := om_erase conn (co_threads co)\<rparr>) Waiting)"
  by (rule wired_modify [OF _ wired_waiting]) (auto simp: well_wired_def om_find_erase split: if_splits)

lemma wired_forget:
  assumes "\<And>w. role \<noteq> Some (Serves_worker w)"
  shows "wired_as conn role (modify (\<lambda>co. co\<lparr>co_threads := om_erase conn (co_threads co)\<rparr>) Waiting)"
  by (rule wired_modify [OF _ wired_waiting]) (use assms in \<open>auto simp: well_wired_def om_find_erase\<close>)

lemma wired_acting: "(\<And>w b. wired_as conn role (k w b)) \<Longrightarrow> wired_as conn role (acting m k)"
  unfolding acting_def by (auto intro!: wired_rules)

lemma wired_controls:
  "wired_as conn role (thread_create_set e m n)" "wired_as conn role (thread_promote e m n)"
  "wired_as conn role (thread_drain e m n)" "wired_as conn role (thread_failover e m n)"
  "wired_as conn role (thread_execute up e m n)" "wired_as conn role (thread_snapshot e m n)"
  "wired_as conn role (thread_start_replica up e m w)"
  unfolding thread_create_set_def thread_promote_def thread_drain_def thread_failover_def thread_execute_def
    thread_snapshot_def thread_start_replica_def
  by (auto intro!: wired_rules wired_acting)

lemma wired_query: "wired_as conn role (thread_query e m n)"
  unfolding thread_query_def Let_def by (auto intro!: wired_rules)

lemma wired_provision: "wired_as conn role (thread_provision up e m n)"
  unfolding thread_provision_def Let_def by (auto intro!: wired_rules wired_controls)

lemma wired_control: "wired_as conn role (thread_control up e m n)"
  unfolding thread_control_def by (auto intro!: wired_controls wired_query wired_provision wired_steps wired_waiting)

lemma wired_worker: "wired_as conn role (thread_worker m n)"
  unfolding thread_worker_def thread_warm_done_def thread_health_def thread_readiness_def thread_result_def
    thread_pong_def Let_def
  by (auto intro!: wired_rules split: option.split)

lemma wired_register: "wired_as conn None (thread_register e m conn)"
  unfolding thread_register_def by (auto intro!: wired_rules wired_enter)

lemma wired_of: "wired_as conn role (thread_of up e conn a)"
proof (cases a)
  case (Arrived bs)
  show ?thesis
    unfolding Arrived thread_of_def arrival.case thread_frame_def
    by (rule wired_own) (auto intro!: wired_control wired_worker wired_register wired_set_role wired_rules
      split: decode_result.split option.split conn_thread.split)
next
  case Ended
  show ?thesis
    unfolding Ended thread_of_def arrival.case thread_closed_def
    by (rule wired_own) (auto intro!: wired_leave wired_forget wired_rules split: option.split conn_thread.split)
qed

definition process_wired :: "process \<Rightarrow> bool" where
  "process_wired p \<longleftrightarrow> well_wired (pr_shared p) \<and>
     (\<forall>conn. wired_as conn (om_find (co_threads (pr_shared p)) conn) (pr_thread p conn))"

lemma turn_wired:
  assumes "process_wired p" and "take_turn up tn p = Inr (p', out)"
  shows "process_wired p'"
proof (cases tn)
  case (Turn conn)
  show ?thesis
  proof (cases "pr_thread p conn")
    case (Next f)
    obtain co k where f: "f (pr_shared p) = (co, out, k)" "p' = p\<lparr>pr_shared := co, pr_thread := (pr_thread p)(conn := k)\<rparr>"
      using assms(2) Turn Next by (auto simp: take_turn_def split: prod.splits)
    have w: "wired_as conn (om_find (co_threads (pr_shared p)) conn) (Next f)" "well_wired (pr_shared p)"
      using assms(1) Next unfolding process_wired_def by metis+
    have "well_wired co \<and> (\<forall>n. n \<noteq> conn \<longrightarrow> om_find (co_threads co) n = om_find (co_threads (pr_shared p)) n) \<and>
        wired_as conn (om_find (co_threads co) conn) k"
      by (rule wired_nextE [OF w(1)]) (use w(2) f(1) in blast)
    then show ?thesis
      using assms(1) by (auto simp: process_wired_def f(2))
  qed (use assms Turn in \<open>auto simp: take_turn_def process_wired_def wired_of split: list.splits\<close>)
qed (use assms in \<open>auto simp: take_turn_def process_wired_def\<close>)

interpretation wiring_turns: guarded_process "take_turn up" "\<lambda>p p'. process_wired p \<longrightarrow> process_wired p'" for up
  by unfold_locales (use turn_wired in auto)

text \<open>
  C21. Commands reach the worker they are for, in whatever order the threads take their steps: the
  connection the coordinator has for a worker is one whose thread registered that worker and still
  serves it, so a command is never written to another worker's or a control client's connection.
\<close>

theorem commands_reach_their_worker:
  assumes "run_turns up tns (idle (new_coordinator gen prng mono_clock wall_clock)) = Inr (p, out)"
    and "(n, m) \<in> set (snd (send_to_worker up w m (pr_shared p)))"
  shows "om_find (co_threads (pr_shared p)) n = Some (Serves_worker w)"
proof -
  have "process_wired (idle (new_coordinator gen prng mono_clock wall_clock))"
    by (simp add: process_wired_def idle_def well_wired_def new_coordinator_def wired_waiting)
  then have "well_wired (pr_shared p)"
    using wiring_turns.run_rel [OF assms(1) [unfolded run_turns_def]] by (simp add: process_wired_def)
  moreover have "om_find (co_conns (pr_shared p)) w = Some n"
    using assms(2) by (auto simp: send_to_worker_def split: option.splits if_splits)
  ultimately show ?thesis
    by (simp add: well_wired_def)
qed

section \<open>Runs of the handlers as interleavings\<close>

lemma run_turns_simps [simp]:
  "run_turns up [] p = Inr (p, [])"
  "run_turns up (tn # tns) p = ebind (take_turn up tn p)
     (\<lambda>(p, out). ebind (run_turns up tns p) (\<lambda>(p, out'). Inr (p, out @ out')))"
  by (simp_all add: run_turns_def)

lemma run_turns_append:
  "run_turns up (tns @ tns') p = ebind (run_turns up tns p)
     (\<lambda>(p, out). ebind (run_turns up tns' p) (\<lambda>(p, out'). Inr (p, out @ out')))"
proof (induction tns arbitrary: p)
  case (Cons tn tns)
  show ?case
  proof (cases "take_turn up tn p")
    case (Inr b)
    then show ?thesis
      by (cases b; cases "run_turns up tns (fst b)"; cases "run_turns up tns' (fst (projr (run_turns up tns (fst b))))")
         (auto simp: Cons.IH split: prod.splits)
  qed simp
qed simp

abbreviation running :: "process \<Rightarrow> coordinator \<Rightarrow> nat \<Rightarrow> thread \<Rightarrow> process" where
  "running p co conn t \<equiv> p\<lparr>pr_shared := co, pr_thread := (pr_thread p)(conn := t)\<rparr>"

text \<open>A thread that takes all its steps at once, while the others stand still.\<close>

lemma solo_turns:
  "\<exists>n. run_turns up (replicate n (Turn conn)) (running p co conn t) =
     ebind (solo t co) (\<lambda>(co', out). Inr (running p co' conn Waiting, out))"
proof (induction t arbitrary: co rule: thread_induct)
  case Waiting
  show ?case by (rule exI [of _ 0]) simp
next
  case (Crashed x)
  show ?case by (rule exI [of _ 1]) (simp add: take_turn_def)
next
  case (Next f)
  obtain co' o1 k where f: "f co = (co', o1, k)" by (cases "f co")
  obtain n where n: "run_turns up (replicate n (Turn conn)) (running p co' conn k) =
      ebind (solo k co') (\<lambda>(co', out). Inr (running p co' conn Waiting, out))"
    using Next [OF f] by blast
  have "take_turn up (Turn conn) (running p co conn (thread.Next f)) = Inr (running p co' conn k, o1)"
    by (simp add: take_turn_def f)
  then have "run_turns up (replicate (Suc n) (Turn conn)) (running p co conn (thread.Next f)) =
      ebind (solo (thread.Next f) co) (\<lambda>(co', out). Inr (running p co' conn Waiting, out))"
    by (cases "solo k co'") (auto simp: n f)
  then show ?case by blast
qed

text \<open>What arrives for a waiting thread, handled at once.\<close>

lemma handled_turns:
  assumes "pr_thread p conn = Waiting" and "pr_inbox p conn = []" and "e = co_epoch (pr_shared p)"
  shows "\<exists>n. run_turns up (Arrive conn a # Turn conn # replicate n (Turn conn)) p =
     ebind (as_thread (coordinator_step up (event_of conn a) (pr_shared p)))
       (\<lambda>(co', out). Inr (p\<lparr>pr_shared := co'\<rparr>, out))"
proof -
  have restored: "running p (pr_shared p) conn t = p\<lparr>pr_thread := (pr_thread p)(conn := t)\<rparr>"
    "running p co conn Waiting = p\<lparr>pr_shared := co\<rparr>" for t co
    using assms(1) by (simp_all add: fun_upd_idem)
  obtain n where n: "run_turns up (replicate n (Turn conn)) (running p (pr_shared p) conn (thread_of up e conn a)) =
      ebind (solo (thread_of up e conn a) (pr_shared p)) (\<lambda>(co', out). Inr (running p co' conn Waiting, out))"
    using solo_turns by blast
  have "take_turn up (Turn conn) (p\<lparr>pr_inbox := (pr_inbox p)(conn := [a])\<rparr>) =
      Inr (p\<lparr>pr_thread := (pr_thread p)(conn := thread_of up e conn a)\<rparr>, [])"
    using assms by (simp add: take_turn_def fun_upd_idem)
  then have "run_turns up (Arrive conn a # Turn conn # replicate n (Turn conn)) p =
      ebind (solo (thread_of up e conn a) (pr_shared p)) (\<lambda>(co', out). Inr (running p co' conn Waiting, out))"
    using assms(2) n by (simp add: take_turn_def [of _ "Arrive _ _"] restored)
  then show ?thesis
    using thread_alone_fact [of up "pr_shared p" conn a] unfolding assms(3) restored by auto
qed

lemma idle_simps [simp]:
  "pr_shared (idle co) = co" "pr_thread (idle co) conn = Waiting" "pr_inbox (idle co) conn = []"
  "(idle co)\<lparr>pr_shared := co'\<rparr> = idle co'"
  by (simp_all add: idle_def)

lemma event_of_surj: "\<exists>conn a. ev = event_of conn a"
proof (cases ev)
  case (Frame conn bs)
  then show ?thesis by (intro exI [of _ conn] exI [of _ "Arrived bs"]) (simp add: event_of_def)
next
  case (Closed conn)
  then show ?thesis by (intro exI [of _ conn] exI [of _ Ended]) (simp add: event_of_def)
qed

lemma as_thread_run: "as_thread (ebind x (\<lambda>(co, out). f co out)) = ebind (as_thread x) (\<lambda>(co, out). as_thread (f co out))"
  by (cases x) auto

lemma handled_run_turns:
  "\<exists>tns. run_turns up tns (idle co) =
     as_thread (ebind (run_events up evs co) (\<lambda>(co', out). Inr (idle co', out)))"
proof (induction evs arbitrary: co)
  case Nil
  show ?case by (rule exI [of _ "[]"]) simp
next
  case (Cons ev evs)
  obtain conn a where ev: "ev = event_of conn a" using event_of_surj by blast
  obtain tns1 where 1: "run_turns up tns1 (idle co) =
      ebind (as_thread (coordinator_step up ev co)) (\<lambda>(co', out). Inr (idle co', out))"
    using handled_turns [of "idle co" conn "co_epoch co" up a] unfolding ev by (auto simp del: run_turns_simps)
  show ?case
  proof (cases "coordinator_step up ev co")
    case (Inl x)
    then show ?thesis using 1 by auto
  next
    case (Inr b)
    then obtain co' out where b: "coordinator_step up ev co = Inr (co', out)" by (cases b) simp
    obtain tns2 where 2: "run_turns up tns2 (idle co') =
        as_thread (ebind (run_events up evs co') (\<lambda>(co', out). Inr (idle co', out)))"
      using Cons.IH by blast
    show ?thesis
      by (rule exI [of _ "tns1 @ tns2"], cases "run_events up evs co'") (auto simp: run_turns_append 1 2 b)
  qed
qed

text \<open>
  What the coordinator can do with atomic handlers is among what its threads can do: every run
  over events on the connections, one handled after the other, is a run of the threads with the same
  state, the same frames written and the same failure, if any.
\<close>

theorem handled_run_is_interleaving:
  "\<exists>tns. run_turns up tns (idle co) =
     as_thread (ebind (run_events up evs co) (\<lambda>(co', out). Inr (idle co', out)))"
  by (rule handled_run_turns)

section \<open>What a thread writes under interference\<close>

text \<open>
  \<open>path t out\<close>: \<open>t\<close> can come to its end with \<open>out\<close> written, when before each of its steps the others
  may have put the shared state into any state.
\<close>

inductive path :: "thread \<Rightarrow> out \<Rightarrow> bool" where
  path_end: "path Waiting []"
| path_next: "f co = (co', out, k) \<Longrightarrow> path k out' \<Longrightarrow> path (Next f) (out @ out')"

inductive_simps path_simps [simp]: "path Waiting out" "path (Crashed x) out"
inductive_cases path_nextE: "path (Next f) out"

lemma path_attempt [simp]: "path (attempt x k) out \<longleftrightarrow> (\<exists>v. x = Inr v \<and> path (k v) out)"
  by (cases x) (auto simp: attempt_def)

lemma path_quiet:
  "path (call f k) out \<Longrightarrow> \<exists>x. path (k x) out"
  "path (operate f1 k1) out \<Longrightarrow> \<exists>x. path (k1 x) out"
  "path (look f2 k2) out \<Longrightarrow> \<exists>x. path (k2 x) out"
  "path (modify f3 k3) out \<Longrightarrow> path k3 out"
  "path (points lookup k4) out \<Longrightarrow> \<exists>b. path (k4 b) out"
  "path (deref lookup field k5) out \<Longrightarrow> \<exists>x. path (k5 x) out"
  unfolding step_defs by (auto elim!: path_nextE split: prod.splits option.splits)

lemma path_write: "path (write_frame_to conn m k) out \<Longrightarrow> \<exists>out'. out = (conn, m) # out' \<and> path k out'"
  unfolding write_frame_to_def by (auto elim!: path_nextE)

lemma path_send:
  "path (send up w m k) out \<Longrightarrow>
   (\<exists>n out'. up n \<and> out = (n, m) # out' \<and> path (k True) out') \<or> path (k False) out"
  unfolding send_def send_to_worker_def
  by (auto elim!: path_nextE split: prod.splits option.splits if_splits)

lemmas path_dests = path_quiet path_write path_send

definition acknowledged :: "(nat \<Rightarrow> bool) \<Rightarrow> CoordinatorEpoch \<Rightarrow> Message \<Rightarrow> nat \<Rightarrow> out \<Rightarrow> bool" where
  "acknowledged up e m conn out \<longleftrightarrow> (\<exists>a. m_kind a = reply_kind (m_kind m) \<and> m_seq a = m_seq m \<and> m_epoch a = e \<and>
     (out = [(conn, a)] \<or> (\<exists>n b. up n \<and> (out = [(conn, a), (n, b)] \<or> out = [(n, b), (conn, a)]))))"

lemma reply_simps [simp]: "m_kind (reply e m) = MSG_ERROR" "m_seq (reply e m) = m_seq m" "m_epoch (reply e m) = e"
  by (simp_all add: reply_def)

lemma acting_path: "path (acting m k) out \<Longrightarrow> \<exists>w b. path (k w b) out"
  unfolding acting_def by (auto dest!: path_quiet split: if_splits) blast+

lemma start_path: "path (thread_start_replica up e m w) out \<Longrightarrow> out = [] \<or> (\<exists>n b. up n \<and> out = [(n, b)])"
  unfolding thread_start_replica_def by (auto dest!: path_dests)

lemma acknowledged_reply:
  "m_kind a = reply_kind (m_kind m) \<Longrightarrow> m_seq a = m_seq m \<Longrightarrow> m_epoch a = e \<Longrightarrow> acknowledged up e m conn [(conn, a)]"
  "m_kind a = reply_kind (m_kind m) \<Longrightarrow> m_seq a = m_seq m \<Longrightarrow> m_epoch a = e \<Longrightarrow> up n \<Longrightarrow>
   acknowledged up e m conn [(conn, a), (n, b)] \<and> acknowledged up e m conn [(n, b), (conn, a)]"
  unfolding acknowledged_def by blast+

lemma simple_paths:
  "m_kind m = CREATE_SET \<Longrightarrow> path (thread_create_set e m conn) out \<Longrightarrow> acknowledged up e m conn out"
  "m_kind m = FAILOVER \<Longrightarrow> path (thread_failover e m conn) out \<Longrightarrow> acknowledged up e m conn out"
  "m_kind m = SNAPSHOT \<Longrightarrow> path (thread_snapshot e m conn) out \<Longrightarrow> acknowledged up e m conn out"
  "m_kind m = PROMOTE \<Longrightarrow> path (thread_promote e m conn) out \<Longrightarrow> acknowledged up e m conn out"
  "m_kind m = DRAIN \<Longrightarrow> path (thread_drain e m conn) out \<Longrightarrow> acknowledged up e m conn out"
  unfolding thread_create_set_def thread_failover_def thread_snapshot_def thread_promote_def thread_drain_def
  by (auto dest!: path_dests acting_path simp: reply_kind_def message_kinds intro!: acknowledged_reply)

lemma query_path: "m_kind m = QUERY \<Longrightarrow> path (thread_query e m conn) out \<Longrightarrow> acknowledged up e m conn out"
  unfolding thread_query_def Let_def
  by (auto dest!: path_dests simp: reply_kind_def message_kinds intro!: acknowledged_reply split: if_splits)

lemma execute_path: "m_kind m = EXECUTE \<Longrightarrow> path (thread_execute up e m conn) out \<Longrightarrow> acknowledged up e m conn out"
  unfolding thread_execute_def
  by (auto dest!: path_dests simp: reply_kind_def message_kinds intro!: acknowledged_reply acknowledged_reply(2) [THEN conjunct2] split: if_splits)

lemma provision_path: "m_kind m = PROVISION \<Longrightarrow> path (thread_provision up e m conn) out \<Longrightarrow> acknowledged up e m conn out"
  unfolding thread_provision_def Let_def
  by (auto dest!: path_dests start_path simp: reply_kind_def message_kinds
      intro!: acknowledged_reply acknowledged_reply(2) [THEN conjunct1] split: if_splits)

text \<open>
  C22. Every control message that is handled is answered, whatever the other threads do between the
  steps: the thread writes exactly one message on the client's connection, with the kind that
  belongs to the command, the command's sequence number and the coordinator's epoch, and besides at
  most one message, on a connection that is up.
\<close>

theorem control_answered_under_interference:
  assumes "path (thread_control up e m conn) out"
  shows "acknowledged up e m conn out"
  using assms unfolding thread_control_def
  by (auto simp: simple_paths query_path execute_path provision_path reply_kind_def message_kinds
      dest!: path_write intro!: acknowledged_reply split: if_splits)

section \<open>Runs\<close>

theorem interleaving_refines_controller_witness:
  "\<exists>tns p out cmds. run_turns (\<lambda>_. True) tns (idle demo_coordinator) = Inr (p, out) \<and>
     co_epoch (pr_shared p) = MkId 7 7 \<and> list_all (issued (MkId 7 7)) cmds \<and>
     co_ctrl (pr_shared p) = run_commands cmds (new_controller demo_rng)"
proof -
  obtain co out where "run_events (\<lambda>_. True) [Frame 3 (encode_message (demo_register (MkId 0 11))),
       Frame 5 (encode_message (demo_register (MkId 0 12))), Closed 3] demo_coordinator = Inr (co, out)"
    by (rule demo_events)
  then obtain tns where run: "run_turns (\<lambda>_. True) tns (idle demo_coordinator) = Inr (idle co, out)"
    using handled_run_turns [of "\<lambda>_. True" demo_coordinator] by (metis (mono_tags, lifting) as_thread_simps(2) case_prod_conv ebind_simps(2))
  from interleaving_refines_controller [OF run [unfolded demo_coordinator_def]] run
  show ?thesis by (intro exI [of _ tns] exI [of _ "idle co"]) auto
qed

theorem control_answered_under_interference_witness:
  "\<exists>a. path (thread_control (\<lambda>_. True) (MkId 7 7) (Message_default\<lparr>m_kind := QUERY, m_seq := 9\<rparr>) 4) [(4, a)] \<and>
     acknowledged (\<lambda>_. True) (MkId 7 7) (Message_default\<lparr>m_kind := QUERY, m_seq := 9\<rparr>) 4 [(4, a)]"
proof -
  let ?m = "Message_default\<lparr>m_kind := QUERY, m_seq := 9\<rparr>"
  have "path (write_frame_to 4 a Waiting) ([(4, a)] @ [])" for a
    unfolding write_frame_to_def by (rule path_next) auto
  then have "\<exists>a. path (thread_control (\<lambda>_. True) (MkId 7 7) ?m 4) [(4, a)]"
    by (auto simp: thread_control_def message_kinds thread_query_def Message_default_def get_payload_Nil Let_def)
  then obtain a where "path (thread_control (\<lambda>_. True) (MkId 7 7) ?m 4) [(4, a)]" by blast
  with control_answered_under_interference [OF this] show ?thesis by blast
qed

theorem commands_reach_their_worker_witness:
  "\<exists>tns p out. run_turns (\<lambda>_. True) tns (idle demo_coordinator) = Inr (p, out) \<and>
     (3, Message_default) \<in> set (snd (send_to_worker (\<lambda>_. True) (MkId 0 1) Message_default (pr_shared p))) \<and>
     om_find (co_threads (pr_shared p)) 3 = Some (Serves_worker (MkId 0 1))"
proof -
  let ?m = "demo_register (MkId 0 11)"
  obtain co out where 1: "coordinator_step (\<lambda>_. True) (Frame 3 (encode_message ?m)) demo_coordinator = Inr (co, out)"
      "worker_register ?m 3 demo_coordinator = Inr (co, out)"
    by (rule register_event [of demo_coordinator 3 ?m "\<lambda>_. True"])
       (simp_all add: demo_register_ok demo_coordinator_def new_coordinator_def)
  obtain tns where run: "run_turns (\<lambda>_. True) tns (idle demo_coordinator) = Inr (idle co, out)"
    using handled_turns [of "idle demo_coordinator" 3 _ "\<lambda>_. True" "Arrived (encode_message ?m)", OF _ _ refl] 1(1)
    by (auto simp: event_of_def simp del: run_turns_simps)
  have sent: "(3, Message_default) \<in> set (snd (send_to_worker (\<lambda>_. True) (MkId 0 1) Message_default (pr_shared (idle co))))"
    using register_wiring [of ?m 3 demo_coordinator] 1(2)
    by (simp add: send_to_worker_def demo_coordinator_def new_coordinator_def)
  show ?thesis
    using commands_reach_their_worker [OF run [unfolded demo_coordinator_def] sent] run sent by blast
qed

end
