(* ===== verification/Worker.thy ===== *)
theory Worker
  imports Process
begin

text \<open>
  The worker process of \<open>apps/distributed/rf_worker.cpp\<close>: the registration it sends, the
  acknowledgement it waits for, and its answers to the coordinator's frames. Its state is its
  worker and boot identity, which never change.
\<close>

section \<open>Registration\<close>

text \<open>\<open>static_cast<int>(BackendKind::TRITON)\<close>.\<close>

definition triton_text :: string where
  "triton_text = to_string_int (ucast (BackendKind_u8 BackendKind.TRITON))"

definition registration :: "WorkerId \<Rightarrow> WorkerBootId \<Rightarrow> NodeId \<Rightarrow> Message" where
  "registration wid bid nid = Message_default\<lparr>m_kind := REGISTER, m_worker := wid, m_boot := bid,
     m_payload := ''node_hex='' @ id_str nid @ [newline] @ ''backend='' @ triton_text @ [newline] @
       ''mem=0x800000000'' @ [newline] @ ''device=cuda:0'' @ [newline] @ ''ccmaj=c'' @ [newline] @
       ''devmem=0x800000000''\<rparr>"

text \<open>
  Whether the worker goes on after the first frame it reads; what \<open>decode_message\<close> returns is
  not looked at, only the message it has filled in.
\<close>

definition registered :: "bytes \<Rightarrow> process_failure + bool" where
  "registered bs =
     (case decode_message bs Message_default of
        Out_of_bounds \<Rightarrow> Inl Out_of_bounds_read
      | Decoded am \<Rightarrow> Inr (\<not> (m_kind am \<noteq> REGISTER_ACK \<or> \<not> has_prefix ''ok'' (m_payload am)))
      | Malformed am \<Rightarrow> Inr (\<not> (m_kind am \<noteq> REGISTER_ACK \<or> \<not> has_prefix ''ok'' (m_payload am))))"

section \<open>Answers\<close>

text \<open>The loop of \<open>EXECUTE\<close>: \<open>i * 3\<close> is computed as an \<open>int\<close> and converted.\<close>

definition execute_sum :: "nat \<Rightarrow> u64" where
  "execute_sum n = foldl (\<lambda>acc i. acc + scast (of_nat i * 3 :: i32)) 0 [0..<n]"

definition reply_to :: "WorkerId \<Rightarrow> WorkerBootId \<Rightarrow> Message \<Rightarrow> MessageKind \<Rightarrow> string \<Rightarrow> Message" where
  "reply_to wid bid m k payload = Message_default\<lparr>m_kind := k, m_epoch := m_epoch m, m_worker := wid,
     m_boot := bid, m_replica := m_replica m, m_set := m_set m, m_payload := payload\<rparr>"

definition worker_warm :: "WorkerId \<Rightarrow> WorkerBootId \<Rightarrow> Message \<Rightarrow> Message list" where
  "worker_warm wid bid m =
     [reply_to wid bid m WARM_DONE ''steps=4'',
      reply_to wid bid m HEALTH (''state=2'' @ [newline] @ ''source=worker''),
      reply_to wid bid m READINESS ''mask=0x7ff'']"

definition worker_execute :: "WorkerId \<Rightarrow> WorkerBootId \<Rightarrow> Message \<Rightarrow> Message list" where
  "worker_execute wid bid m =
     (let acc = execute_sum 100000
      in [(reply_to wid bid m EXECUTE_RESULT (''req='' @ get_payload (m_payload m) ''req'' ''?'' @ [newline] @
            ''outcome=1'' @ [newline] @ ''result='' @ to_string_u64 acc))\<lparr>m_attempt := m_attempt m\<rparr>])"

definition worker_answer :: "WorkerId \<Rightarrow> WorkerBootId \<Rightarrow> Message \<Rightarrow> Message list" where
  "worker_answer wid bid m =
     (if m_kind m = WARM then worker_warm wid bid m
      else if m_kind m = EXECUTE then worker_execute wid bid m
      else if m_kind m = PING then [Message_default\<lparr>m_kind := PONG\<rparr>]
      else [])"

definition worker_frame :: "WorkerId \<Rightarrow> WorkerBootId \<Rightarrow> bytes \<Rightarrow> process_failure + Message list" where
  "worker_frame wid bid bs =
     (case decode_message bs Message_default of
        Out_of_bounds \<Rightarrow> Inl Out_of_bounds_read
      | Malformed _ \<Rightarrow> Inr []
      | Decoded m \<Rightarrow> Inr (worker_answer wid bid m))"

section \<open>What it computes and sends\<close>

lemma execute_sum_closed:
  assumes "n \<le> 100000"
  shows "execute_sum n = of_nat (3 * (n * (n - 1) div 2))"
  using assms
proof (induction n)
  case (Suc n)
  have "sint (word_of_int (int (3 * n)) :: i32) = int (3 * n)"
    using Suc(2) by (simp only: sint_sbintrunc') (simp add: signed_take_bit_int_eq_self)
  then have "sint (of_nat n * 3 :: i32) = int (3 * n)"
    by (simp add: mult.commute)
  then have scast: "scast (of_nat n * 3 :: i32) = (of_nat (3 * n) :: u64)"
    by (metis of_int_of_nat_eq scast_eq)
  have "Suc n * (Suc n - 1) = n * (n - 1) + n * 2"
    by (cases n) simp_all
  then have "3 * (Suc n * (Suc n - 1) div 2) = 3 * (n * (n - 1) div 2) + 3 * n"
    by presburger
  with scast show ?case
    using Suc by (simp add: execute_sum_def)
qed (simp add: execute_sum_def)

lemma execute_sum_value: "execute_sum 100000 = 14999850000"
  using execute_sum_closed [of 100000] by simp

lemma triton_text [simp]: "triton_text = ''1''"
proof -
  have "char_of (49 :: nat) = CHR ''1''" by code_simp
  then show ?thesis by (simp add: triton_text_def to_string_int_def to_string_nat.simps dec_char_def)
qed

lemma to_string_sum: "to_string_u64 14999850000 = ''14999850000''"
  unfolding to_string_u64_def by (simp add: to_string_nat.simps) code_simp

lemma registration_lines:
  "m_payload (registration wid bid nid) = join_lines [''node_hex='' @ id_str nid, ''backend=1'',
     ''mem=0x800000000'', ''device=cuda:0'', ''ccmaj=c'', ''devmem=0x800000000'']"
  by (simp add: registration_def)

lemma registration_payload:
  "get_payload (m_payload (registration wid bid nid)) ''node_hex'' [] = id_str nid"
  "get_payload (m_payload (registration wid bid nid)) ''backend'' ''2'' = ''1''"
  "get_payload (m_payload (registration wid bid nid)) ''mem'' ''0x800000000'' = ''0x800000000''"
  "get_payload (m_payload (registration wid bid nid)) ''device'' ''cuda:0'' = ''cuda:0''"
  "get_payload (m_payload (registration wid bid nid)) ''ccmaj'' ''c'' = ''c''"
  "get_payload (m_payload (registration wid bid nid)) ''devmem'' ''0x800000000'' = ''0x800000000''"
  unfolding registration_lines
  by (simp_all add: get_payload_join newline_def has_prefix_def del: join_lines.simps)

end
