(* ===== verification/Distributed.thy ===== *)
theory Distributed
  imports Coordinator_Safety Worker
begin

text \<open>
  The coordinator and a worker together: what the coordinator's handlers do with the messages a
  worker sends, and the two conversations they have, bringing a replica up to serving and
  executing a request. A conversation is a list of frames as they arrive at the coordinator; the
  worker's part of it is what \<open>worker_answer\<close> makes of the message it was sent.
\<close>

section \<open>The messages of a client\<close>

definition provision_message :: "ReplicaSetId \<Rightarrow> ReplicaId \<Rightarrow> WorkerId \<Rightarrow> Message" where
  "provision_message sid rid w = Message_default\<lparr>m_kind := PROVISION, m_set := sid, m_replica := rid,
     m_payload := ''worker='' @ id_str w\<rparr>"

definition promote_message :: "ReplicaId \<Rightarrow> Message" where
  "promote_message rid = Message_default\<lparr>m_kind := PROMOTE, m_replica := rid\<rparr>"

definition warm_message :: "CoordinatorEpoch \<Rightarrow> ReplicaSetId \<Rightarrow> ReplicaId \<Rightarrow> WorkerId \<Rightarrow> Message" where
  "warm_message e sid rid w = Message_default\<lparr>m_kind := WARM, m_epoch := e, m_worker := w,
     m_replica := rid, m_set := sid, m_payload := ''steps=4''\<rparr>"

lemmas client_messages = provision_message_def promote_message_def warm_message_def

section \<open>Frames from their messages\<close>

lemma control_event:
  assumes "om_find (co_threads co) k = Some Serves_control" and "length (m_payload m) < 2 ^ 32"
  shows "coordinator_step up (Frame k (encode_message m)) co = handle_control up m k co"
  using assms by (simp add: coordinator_step_def receive_frame_def decode_encoded)

lemma report_event:
  assumes "om_find (co_threads co) n = Some (Serves_worker w)" and "length (m_payload m) < 2 ^ 32"
  shows "coordinator_step up (Frame n (encode_message m)) co = handle_worker m n co"
  using assms by (simp add: coordinator_step_def receive_frame_def decode_encoded)

section \<open>Bringing a replica up\<close>

text \<open>What the coordinator offers for a replica of a set: the set's own requirements.\<close>

definition offered :: "ReplicaSetState \<Rightarrow> ReplicaCompatibility" where
  "offered s = (compat_from_set (Some s))\<lparr>cp_compute := \<lparr>cc_major = 12, cc_minor = 0\<rparr>\<rparr>"

definition offered_device :: DeviceCapability where
  "offered_device = DeviceCapability_default\<lparr>dv_kind := AcceleratorKind.CUDA, dv_device_id := ''cuda:0'',
     dv_compute := (dv_compute DeviceCapability_default)\<lparr>cc_major := 12\<rparr>, dv_memory_bytes := 0x800000000\<rparr>"

lemma offered_compatible:
  "cr_compatible (check_compatibility (s_compatibility s) (offered s)) \<longleftrightarrow>
     compute_le (cq_min_compute (s_compatibility s)) \<lparr>cc_major = 12, cc_minor = 0\<rparr>"
  by (simp add: check_compatibility_meets meets_def offered_def compat_from_set_def Let_def list_all_iff)

lemma provision_payload:
  "get_payload (m_payload (provision_message sid rid w)) ''worker'' [] = id_str w"
  "get_payload (m_payload (provision_message sid rid w)) ''ccmaj'' ''c'' = ''c''"
  "get_payload (m_payload (provision_message sid rid w)) ''devmem'' ''0x800000000'' = ''0x800000000''"
  "get_payload (m_payload (provision_message sid rid w)) ''capacity'' ''0x1000000'' = ''0x1000000''"
  "get_payload (m_payload (provision_message sid rid w)) ''device'' ''cuda:0'' = ''cuda:0''"
  using get_payload_join [of "[''worker='' @ id_str w]"]
  by (simp_all add: newline_def has_prefix_def provision_message_def)

lemma provision_step:
  assumes "find_set sid (co_ctrl co) = Some s" and "om_find (co_conns co) w = Some n" and "up n"
    and "\<And>t u. is_ok (fst (provision_replica rid sid w (offered s) offered_device 0x1000000 t u (co_ctrl co)))"
  obtains co' out t1 t2 t3 u1 u3 where
    "handle_control up (provision_message sid rid w) k co = Inr (co', out)"
    "co_ctrl co' = snd (set_starting rid t3 u3 (snd (set_allocating rid (fst (random_id (co_placement_rng co))) t2
       (snd (provision_replica rid sid w (offered s) offered_device 0x1000000 t1 u1 (co_ctrl co))))))"
    "(n, warm_message (co_epoch co) sid rid w) \<in> set out"
proof -
  let ?m = "provision_message sid rid w"
  have parts: "m_kind ?m = PROVISION" "m_set ?m = sid" "m_replica ?m = rid"
    by (simp_all add: provision_message_def)
  have handler: "handle_control up ?m k co = control_provision up ?m k co"
    by (simp add: handle_control_def parts message_kinds)
  have "after (\<lambda>co' out. (\<exists>t1 t2 t3 u1 u3. co_ctrl co' = snd (set_starting rid t3 u3 (snd (set_allocating rid
      (fst (random_id (co_placement_rng co))) t2
      (snd (provision_replica rid sid w (offered s) offered_device 0x1000000 t1 u1 (co_ctrl co))))))) \<and>
      (n, warm_message (co_epoch co) sid rid w) \<in> set out) (control_provision up ?m k co)"
    unfolding control_provision_def
    using assms by (simp add: provision_payload parts handler_simps send_to_worker_def warm_message_def
        offered_def [symmetric] offered_device_def [symmetric]) (intro exI, rule refl)
  then show ?thesis
    using that provision_fails [of ?m up k co] unfolding handler
    by (auto simp: after_def parts well_formed_control_def parsing_simps provision_payload message_kinds split: sum.splits)
qed

lemma single_line: "newline \<notin> set l \<Longrightarrow> get_payload l k def =
   (if has_prefix (k @ ''='') l then drop (Suc (length k)) l else def)"
  using get_payload_join [of "[l]" k def] by simp

lemma report_payload:
  "get_payload ''steps=4'' ''steps'' ''0'' = ''4''" "get_payload ''mask=0x7ff'' ''mask'' ''0'' = ''0x7ff''"
  "get_payload (''state=2'' @ [newline] @ ''source=worker'') ''state'' ''2'' = ''2''"
  "get_payload (''state=2'' @ [newline] @ ''source=worker'') ''source'' ''worker'' = ''worker''"
  using get_payload_join [of "[''state=2'', ''source=worker'']"]
  by (simp_all add: single_line newline_def has_prefix_def)

text \<open>What the coordinator makes of the worker's three reports.\<close>

definition reported_warming :: WarmingRecord where
  "reported_warming = projr (warming_from ''steps=4'')"

definition reported_health :: "HealthGeneration \<Rightarrow> i64 \<Rightarrow> HealthEvidence" where
  "reported_health hgen u = HealthEvidence_default\<lparr>he_state := HealthState.HEALTHY,
     he_kind := HealthEvidenceKind.REPORTED, he_source := ''worker'', he_confidence := confidence_099,
     he_generation := hgen, he_observed_at_wall := u\<rparr>"

definition reported_readiness :: ReadinessRecord where
  "reported_readiness = ReadinessRecord_default\<lparr>rr_factors := factors_of_mask 0x7FF,
     rr_state := ReadinessState.READY\<rparr>"

lemma reported_complete:
  "wm_warmup_execution_done reported_warming" "he_state (reported_health hgen u) = HealthState.HEALTHY"
  "he_generation (reported_health hgen u) = hgen" "all_set (rr_factors reported_readiness)"
  by (simp_all add: reported_warming_def warming_from_def report_payload reported_health_def
      reported_readiness_def factors_of_mask_def all_set_def)

lemma reply_to_fields [simp]:
  "m_kind (reply_to w b m k p) = k" "m_worker (reply_to w b m k p) = w" "m_boot (reply_to w b m k p) = b"
  "m_replica (reply_to w b m k p) = m_replica m" "m_payload (reply_to w b m k p) = p"
  by (simp_all add: reply_to_def)

lemma warm_done_step:
  obtains co' out t where "handle_worker (reply_to w b m WARM_DONE ''steps=4'') n co = Inr (co', out)"
    "co_ctrl co' = snd (warm_replica (m_replica m) reported_warming w b t (co_ctrl co))"
proof (rule that)
  show "handle_worker (reply_to w b m WARM_DONE ''steps=4'') n co =
      Inr ((snd (monotonic_ns co))\<lparr>co_ctrl := snd (warm_replica (m_replica m) reported_warming w b
        (fst (monotonic_ns co)) (co_ctrl co))\<rparr>, [])"
    by (simp add: handle_worker_def worker_warm_done_def warming_from_def report_payload
        reported_warming_def handler_simps)
qed simp

lemma health_step:
  assumes "find_replica (m_replica m) (co_ctrl co) = Some r"
  obtains co' out t u where
    "handle_worker (reply_to w b m HEALTH (''state=2'' @ [newline] @ ''source=worker'')) n co = Inr (co', out)"
    "co_ctrl co' = snd (report_health (m_replica m) (reported_health (r_health_generation r) u) w b t (co_ctrl co))"
proof (rule that)
  show "handle_worker (reply_to w b m HEALTH (''state=2'' @ [newline] @ ''source=worker'')) n co =
      Inr ((snd (monotonic_ns (snd (wall_ns co))))\<lparr>co_ctrl := snd (report_health (m_replica m)
        (reported_health (r_health_generation r) (fst (wall_ns co))) w b
        (fst (monotonic_ns (snd (wall_ns co)))) (co_ctrl co))\<rparr>, [])"
    using assms unfolding handle_worker_def worker_health_def reply_to_fields report_payload
    by (simp add: message_kinds reported_health_def handler_simps)
qed simp

lemma readiness_step:
  obtains co' out t where "handle_worker (reply_to w b m READINESS ''mask=0x7ff'') n co = Inr (co', out)"
    "co_ctrl co' = snd (report_readiness (m_replica m) reported_readiness w b t (co_ctrl co))"
proof (rule that)
  show "handle_worker (reply_to w b m READINESS ''mask=0x7ff'') n co =
      Inr ((snd (monotonic_ns co))\<lparr>co_ctrl := snd (report_readiness (m_replica m) reported_readiness w b
        (fst (monotonic_ns co)) (co_ctrl co))\<rparr>, [])"
    by (simp add: handle_worker_def message_kinds worker_readiness_def report_payload
        reported_readiness_def handler_simps)
qed simp

lemma promote_step:
  assumes "find_replica rid (co_ctrl co) = Some r" and "r_worker_id r = w" and "current_boot_for rid (co_ctrl co) = b"
  obtains co' out t u where "handle_control up (promote_message rid) k co = Inr (co', out)"
    "co_ctrl co' = snd (promote_replica rid PromotionState.PRIMARY w b t u (co_ctrl co))"
proof (rule that)
  show "handle_control up (promote_message rid) k co =
      Inr ((snd (wall_ns (snd (monotonic_ns co))))\<lparr>co_ctrl := snd (promote_replica rid PromotionState.PRIMARY w b
        (fst (monotonic_ns co)) (fst (wall_ns (snd (monotonic_ns co)))) (co_ctrl co))\<rparr>,
       [(k, (ack_for (promote_message rid) co)\<lparr>m_kind := PROMOTE_ACK, m_payload := result_text
          (fst (promote_replica rid PromotionState.PRIMARY w b
            (fst (monotonic_ns co)) (fst (wall_ns (snd (monotonic_ns co)))) (co_ctrl co)))\<rparr>)])"
    using assms
    by (simp add: promote_message_def handle_control_def message_kinds control_promote_def Message_default_def
        get_payload_Nil read_var_def acting_worker_def ack_for_def handler_simps)
qed simp

text \<open>The controller between the events: the replica just provisioned, and how it is found.\<close>

lemma provisioned_form:
  assumes "find_set sid c = Some s" and "find_worker w c = Some reg" and "next_generations c = (gen, hgen)"
    and "is_ok (fst (provision_replica rid sid w cm dv cap t u c))"
  obtains c1 where
    "snd (provision_replica rid sid w cm dv cap t u c) =
       put_replica rid (new_replica rid sid w (opened_set s) reg cm dv cap t u (ct_epoch c1) gen hgen) c1"
    "ct_workers c1 = ct_workers c"
proof (rule provision_result [of rid sid w cm dv cap t u c])
  fix msg assume "provision_replica rid sid w cm dv cap t u c = (op_rejected msg, c)"
  then show ?thesis using assms(4) by (simp add: op_rejected_def is_ok_def)
next
  fix st reg' g gen' hgen' r
  assume *: "om_find (ct_sets c) sid = Some st" "om_find (ct_workers c) w = Some reg'"
    "r = new_replica rid sid w (opened_set st) reg' cm dv cap t u (ct_epoch c) gen' hgen'"
    "next_generations c = (gen', hgen')"
    "provision_replica rid sid w cm dv cap t u c = (op_ok ''replica provisioned'',
       put_replica rid r ((put_set sid (opened_set st) c)\<lparr>ct_rng := g\<rparr>))"
  show ?thesis
    by (rule that [of "(put_set sid (opened_set st) c)\<lparr>ct_rng := g\<rparr>"])
       (use * assms(1-3) in \<open>simp_all add: find_set_def find_worker_def\<close>)
qed

lemma warmed_form:
  assumes "r0 = new_replica rid sid w st reg cm dv cap t u e gen hgen" and "pid \<noteq> null_id"
    and "wm_warmup_execution_done wm"
  obtains r where "snd (warm_replica rid wm w (w_boot_id reg) t4 (snd (set_starting rid t3 u3
      (snd (set_allocating rid pid t2 (put_replica rid r0 c)))))) = put_replica rid r c"
    "r_health_generation r = hgen"
proof -
  note fields = assms(1) new_replica_def worker_boot_matches_def
  have 1: "snd (set_allocating rid pid t2 (put_replica rid r0 c)) = put_replica rid
      (r0\<lparr>r_lifecycle := ReplicaLifecycle.ALLOCATING, r_placement_id := pid, r_placement := PlacementState.ASSIGNED,
       r_memory_residency := MemoryResidencyState.NOT_RESIDENT\<rparr>) c"
    by (rule set_allocating_put) (use assms(2) in \<open>simp_all add: fields\<close>)
  let ?r1 = "r0\<lparr>r_lifecycle := ReplicaLifecycle.ALLOCATING, r_placement_id := pid, r_placement := PlacementState.ASSIGNED,
       r_memory_residency := MemoryResidencyState.NOT_RESIDENT\<rparr>"
  let ?r2 = "?r1\<lparr>r_lifecycle := ReplicaLifecycle.STARTING, r_health := HealthState.STARTING,
       r_health_record := (r_health_record ?r1)\<lparr>hr_state := HealthState.STARTING,
         hr_updated_at_mono := t3, hr_updated_at_wall := u3\<rparr>\<rparr>"
  have 2: "snd (set_starting rid t3 u3 (put_replica rid ?r1 c)) = put_replica rid ?r2 c"
    by (rule set_starting_put) simp
  obtain wm' where "snd (warm_replica rid wm w (w_boot_id reg) t4 (put_replica rid ?r2 c)) =
     put_replica rid (?r2\<lparr>r_lifecycle := ReplicaLifecycle.WARMING, r_warmth := WarmthState.WARM,
       r_warming_record := wm'\<rparr>) c"
    by (rule warm_replica_put [of ?r2 w "w_boot_id reg" wm rid t4 c]) (use assms(3) in \<open>simp_all add: fields\<close>)
  then show ?thesis
    by (rule_tac that) (simp_all only: 1 2, simp add: fields)
qed

lemma provision_accepted:
  assumes "find_set sid c = Some s" and "find_worker w c = Some reg" and "replica_count sid c < s_max_replicas s"
    and "s_lifecycle s \<in> {ReplicaSetLifecycle.CREATED, ReplicaSetLifecycle.PROVISIONING,
           ReplicaSetLifecycle.AVAILABLE, ReplicaSetLifecycle.DEGRADED}"
  shows "is_ok (fst (provision_replica rid sid w cm dv cap t u c))"
  using assms by (auto simp: provision_replica_def find_set_def find_worker_def Let_def split: prod.splits)

text \<open>The frames of the conversation, in the order in which the coordinator receives them.\<close>

definition bring_up_frames :: "nat \<Rightarrow> nat \<Rightarrow> CoordinatorEpoch \<Rightarrow> ReplicaSetId \<Rightarrow> ReplicaId \<Rightarrow> WorkerId \<Rightarrow>
    WorkerBootId \<Rightarrow> net_event list" where
  "bring_up_frames k n e sid rid w b =
     Frame k (encode_message (provision_message sid rid w)) #
     map (\<lambda>r. Frame n (encode_message r)) (worker_answer w b (warm_message e sid rid w)) @
     [Frame k (encode_message (promote_message rid))]"

text \<open>What the coordinator needs for it: a client, the worker's connection, and a set with room.\<close>

definition can_bring_up :: "(nat \<Rightarrow> bool) \<Rightarrow> nat \<Rightarrow> nat \<Rightarrow> ReplicaSetId \<Rightarrow> WorkerId \<Rightarrow> ReplicaSetState \<Rightarrow>
    WorkerRegistration \<Rightarrow> coordinator \<Rightarrow> bool" where
  "can_bring_up up k n sid w s reg co \<longleftrightarrow> coordinator_ok co \<and>
     om_find (co_threads co) k = Some Serves_control \<and> om_find (co_conns co) w = Some n \<and> up n \<and>
     find_set sid (co_ctrl co) = Some s \<and> find_worker w (co_ctrl co) = Some reg \<and>
     s_lifecycle s \<in> {ReplicaSetLifecycle.CREATED, ReplicaSetLifecycle.PROVISIONING,
       ReplicaSetLifecycle.AVAILABLE, ReplicaSetLifecycle.DEGRADED} \<and>
     replica_count sid (co_ctrl co) < s_max_replicas s"

lemma can_bring_upD:
  assumes "can_bring_up up k n sid w s reg co"
  shows "om_find (co_threads co) k = Some Serves_control" "om_find (co_threads co) n = Some (Serves_worker w)"
    "om_find (co_conns co) w = Some n" "up n"
    "find_set sid (co_ctrl co) = Some s" "find_worker w (co_ctrl co) = Some reg"
    "is_ok (fst (provision_replica rid sid w cm dv cap t u (co_ctrl co)))"
  using assms provision_accepted [of sid "co_ctrl co" s w reg rid cm dv cap t u]
  unfolding can_bring_up_def coordinator_ok_def by blast+

text \<open>The first four frames take the replica to \<open>READY\<close>.\<close>

lemma prepare_frames_run:
  assumes ready: "can_bring_up up k n sid w s reg co"
    and gens: "next_generations (co_ctrl co) = (gen, hgen)"
    and pid: "pid = fst (random_id (co_placement_rng co))" "pid \<noteq> null_id"
  obtains co1 out1 co2 out2 co3 out3 co4 out4 t u u4 where
    "handle_control up (provision_message sid rid w) k co = Inr (co1, out1)"
    "(n, warm_message (co_epoch co) sid rid w) \<in> set out1"
    "handle_worker (reply_to w (w_boot_id reg) (warm_message (co_epoch co) sid rid w) WARM_DONE ''steps=4'') n co1 = Inr (co2, out2)"
    "handle_worker (reply_to w (w_boot_id reg) (warm_message (co_epoch co) sid rid w) HEALTH
       (''state=2'' @ [newline] @ ''source=worker'')) n co2 = Inr (co3, out3)"
    "handle_worker (reply_to w (w_boot_id reg) (warm_message (co_epoch co) sid rid w) READINESS ''mask=0x7ff'') n co3 = Inr (co4, out4)"
    "co_ctrl co4 = run_commands (prepare rid w (w_boot_id reg) pid reported_warming (reported_health hgen u4)
       reported_readiness t u) (snd (provision_replica rid sid w (offered s) offered_device 0x1000000 (t 1) (u 1) (co_ctrl co)))"
proof -
  let ?b = "w_boot_id reg" and ?wm = "warm_message (co_epoch co) sid rid w"
  note facts = can_bring_upD [OF ready]
  have rid: "m_replica ?wm = rid" by (simp add: warm_message_def)
  obtain co1 out1 t1 t2 t3 u1 u3 where 1: "handle_control up (provision_message sid rid w) k co = Inr (co1, out1)"
    "co_ctrl co1 = snd (set_starting rid t3 u3 (snd (set_allocating rid pid t2
       (snd (provision_replica rid sid w (offered s) offered_device 0x1000000 t1 u1 (co_ctrl co))))))"
    "(n, ?wm) \<in> set out1"
    unfolding pid(1) using provision_step [of sid co s w n up rid k] facts(3-7) by metis
  obtain c1 where c1: "snd (provision_replica rid sid w (offered s) offered_device 0x1000000 t1 u1 (co_ctrl co)) =
      put_replica rid (new_replica rid sid w (opened_set s) reg (offered s) offered_device 0x1000000 t1 u1
        (ct_epoch c1) gen hgen) c1"
    using provisioned_form [OF facts(5,6) gens facts(7)] by metis
  obtain co2 out2 t4 where 2: "handle_worker (reply_to w ?b ?wm WARM_DONE ''steps=4'') n co1 = Inr (co2, out2)"
    "co_ctrl co2 = snd (warm_replica rid reported_warming w ?b t4 (co_ctrl co1))"
    using warm_done_step [of w ?b ?wm n co1, unfolded rid] .
  obtain r3 where r3: "co_ctrl co2 = put_replica rid r3 c1" "r_health_generation r3 = hgen"
    unfolding 2(2) 1(2) c1 using warmed_form [OF refl pid(2) reported_complete(1)] by metis
  have found: "find_replica rid (co_ctrl co2) = Some r3" by (simp add: r3(1) find_replica_def)
  obtain co3 out3 t5 u4 where 3:
    "handle_worker (reply_to w ?b ?wm HEALTH (''state=2'' @ [newline] @ ''source=worker'')) n co2 = Inr (co3, out3)"
    "co_ctrl co3 = snd (report_health rid (reported_health hgen u4) w ?b t5 (co_ctrl co2))"
    using health_step [of ?wm co2 r3 w ?b n, unfolded rid r3(2), OF found] .
  obtain co4 out4 t6 where 4: "handle_worker (reply_to w ?b ?wm READINESS ''mask=0x7ff'') n co3 = Inr (co4, out4)"
    "co_ctrl co4 = snd (report_readiness rid reported_readiness w ?b t6 (co_ctrl co3))"
    using readiness_step [of w ?b ?wm n co3, unfolded rid] .
  define t where "t = (\<lambda>i :: nat. if i = 1 then t1 else if i = 2 then t2 else if i = 3 then t3 else if i = 4 then t4
      else if i = 5 then t5 else t6)"
  define u where "u = (\<lambda>i :: nat. if i = 1 then u1 else u3)"
  have times: "t 1 = t1" "t 2 = t2" "t 3 = t3" "t 4 = t4" "t 5 = t5" "t 6 = t6" "u 1 = u1" "u 3 = u3"
    by (simp_all add: t_def u_def)
  show ?thesis
    by (rule that [OF 1(1,3) 2(1) 3(1) 4(1), of u4 t u])
       (simp only: prepare_def run_commands_simps run_command.simps times 1(2) 2(2) 3(2) 4(2))
qed

text \<open>Then the promotion finds the replica with the worker and boot it was provisioned for.\<close>

lemma prepared_replica:
  assumes ready: "can_bring_up up k n sid w s reg co"
    and "next_generations (co_ctrl co) = (gen, hgen)" and "pid \<noteq> null_id"
    and "c = run_commands (prepare rid w (w_boot_id reg) pid reported_warming (reported_health hgen u4)
       reported_readiness t u) (snd (provision_replica rid sid w (offered s) offered_device 0x1000000 (t 1) (u 1) (co_ctrl co)))"
  obtains r where "find_replica rid c = Some r" "r_worker_id r = w" "current_boot_for rid c = w_boot_id reg"
proof -
  note facts = can_bring_upD [OF ready]
  obtain c1 where c1: "snd (provision_replica rid sid w (offered s) offered_device 0x1000000 (t 1) (u 1) (co_ctrl co)) =
      put_replica rid (new_replica rid sid w (opened_set s) reg (offered s) offered_device 0x1000000 (t 1) (u 1)
        (ct_epoch c1) gen hgen) c1" "ct_workers c1 = ct_workers (co_ctrl co)"
    using provisioned_form [OF facts(5,6) assms(2) facts(7)] by metis
  obtain r where r: "ready_form (new_replica rid sid w (opened_set s) reg (offered s) offered_device 0x1000000 (t 1) (u 1)
        (ct_epoch c1) gen hgen) r" "c = put_replica rid r c1"
    unfolding assms(4) c1(1)
    by (rule prepare_new_replica [OF refl refl assms(3) reported_complete(1-4)])
  have "r_worker_id r = w" using r(1) by (simp add: ready_form_def new_replica_def)
  then show ?thesis
    using that [of r] r(2) c1(2) facts(6)
    by (simp add: find_replica_def current_boot_for_def find_worker_def)
qed

lemma handled_threads:
  "handle_control up m k co = Inr (co', out) \<Longrightarrow> co_threads co' = co_threads co"
  "handle_worker m n co = Inr (co', out) \<Longrightarrow> co_threads co' = co_threads co"
  using control_wired [of co up m k] report_wired [of co m n] by simp_all

lemma worker_answers_warm:
  "worker_answer w b (warm_message e sid rid w) = worker_warm w b (warm_message e sid rid w)"
  by (simp add: worker_answer_def warm_message_def)

lemma small_messages:
  "length (m_payload (provision_message sid rid w)) < 2 ^ 32" "length (m_payload (promote_message rid)) < 2 ^ 32"
  by (simp_all add: provision_message_def promote_message_def Message_default_def)

text \<open>
  C4. A coordinator and a worker bring a replica up together: in every consistent coordinator state
  with a client, a live connection of a registered worker and a set with room whose minimum
  compute the device meets, a client's \<open>PROVISION\<close>, the worker's three answers to the \<open>WARM\<close> the
  coordinator sends it, and the client's \<open>PROMOTE\<close> leave the process running and the replica
  passing the serving-authority gate.
\<close>

theorem distributed_bring_up:
  assumes "can_bring_up up k n sid w s reg co"
    and "compute_le (cq_min_compute (s_compatibility s)) \<lparr>cc_major = 12, cc_minor = 0\<rparr>"
    and "fst (next_generations (co_ctrl co)) \<noteq> null_id"
    and "fst (random_id (co_placement_rng co) :: PlacementId \<times> engine) \<noteq> null_id"
  shows "\<exists>co' out. run_events up (bring_up_frames k n (co_epoch co) sid rid w (w_boot_id reg)) co = Inr (co', out) \<and>
    (n, warm_message (co_epoch co) sid rid w) \<in> set out \<and> sa_eligible (servable rid (co_ctrl co'))"
proof -
  let ?pid = "fst (random_id (co_placement_rng co)) :: PlacementId" and ?b = "w_boot_id reg"
  obtain gen hgen where gens: "next_generations (co_ctrl co) = (gen, hgen)" by fastforce
  note facts = can_bring_upD [OF assms(1)]
  obtain co1 out1 co2 out2 co3 out3 co4 out4 t u u4 where 1:
    "handle_control up (provision_message sid rid w) k co = Inr (co1, out1)"
    "(n, warm_message (co_epoch co) sid rid w) \<in> set out1"
    "handle_worker (reply_to w ?b (warm_message (co_epoch co) sid rid w) WARM_DONE ''steps=4'') n co1 = Inr (co2, out2)"
    "handle_worker (reply_to w ?b (warm_message (co_epoch co) sid rid w) HEALTH
       (''state=2'' @ [newline] @ ''source=worker'')) n co2 = Inr (co3, out3)"
    "handle_worker (reply_to w ?b (warm_message (co_epoch co) sid rid w) READINESS ''mask=0x7ff'') n co3 = Inr (co4, out4)"
    "co_ctrl co4 = run_commands (prepare rid w ?b ?pid reported_warming (reported_health hgen u4)
       reported_readiness t u) (snd (provision_replica rid sid w (offered s) offered_device 0x1000000 (t 1) (u 1) (co_ctrl co)))"
    by (rule prepare_frames_run [OF assms(1) gens refl assms(4)])
  obtain r where r: "find_replica rid (co_ctrl co4) = Some r" "r_worker_id r = w" "current_boot_for rid (co_ctrl co4) = ?b"
    by (rule prepared_replica [OF assms(1) gens assms(4) 1(6)])
  obtain co5 out5 t7 u7 where 5: "handle_control up (promote_message rid) k co4 = Inr (co5, out5)"
    "co_ctrl co5 = snd (promote_replica rid PromotionState.PRIMARY w ?b t7 u7 (co_ctrl co4))"
    by (rule promote_step [OF r])
  note th = handled_threads(1) [OF 1(1)] handled_threads(2) [OF 1(3)] handled_threads(2) [OF 1(4)] handled_threads(2) [OF 1(5)]
  have "run_events up (bring_up_frames k n (co_epoch co) sid rid w ?b) co =
      Inr (co5, out1 @ out2 @ out3 @ out4 @ out5)"
    using 1(1,3-5) 5(1) th facts(1,2) small_messages
    by (simp add: bring_up_frames_def worker_answers_warm worker_warm_def control_event report_event)
  moreover have "co_ctrl co5 = run_commands (bring_up rid sid w ?b (offered s) offered_device 0x1000000 ?pid
      reported_warming (reported_health hgen u4) reported_readiness (t(7 := t7)) (u(7 := u7))) (co_ctrl co)"
    by (simp add: bring_up_def prepare_def 5(2) 1(6))
  ultimately show ?thesis
    using 1(2) bring_up_eligible [of "co_ctrl co" sid s w reg "offered s" "0x1000000" ?pid reported_warming
        "reported_health hgen u4" gen reported_readiness rid offered_device "t(7 := t7)" "u(7 := u7)"]
      assms facts(5,6) gens reported_complete
    by (auto simp: can_bring_up_def coordinator_ok_def offered_compatible)
qed

definition demo_connected :: coordinator where
  "demo_connected = demo_coordinator\<lparr>co_ctrl := demo1, co_epoch := MkId 0 200, co_conns := [(MkId 0 1, 3)],
     co_threads := [(3, Serves_worker (MkId 0 1)), (4, Serves_control)]\<rparr>"

lemma demo_connected_ok: "coordinator_ok demo_connected"
proof -
  have "controller_ok demo1"
    unfolding demo1_def by (simp add: commands_ok new_controller_ok)
  then show ?thesis
    by (auto simp: coordinator_ok_def demo_connected_def om_sorted_def om_keys_def split: if_splits)
qed

theorem distributed_bring_up_witness:
  "\<exists>co' out. run_events (\<lambda>_. True) (bring_up_frames 4 3 (MkId 0 200) (MkId 0 100) (MkId 0 1000) (MkId 0 1) (MkId 0 11))
     demo_connected = Inr (co', out) \<and> sa_eligible (servable (MkId 0 1000) (co_ctrl co'))"
proof -
  have "can_bring_up (\<lambda>_. True) 4 3 (MkId 0 100) (MkId 0 1) demo_set demo_worker demo_connected"
    using demo_connected_ok
    by (simp add: can_bring_up_def) (simp add: demo_connected_def demo1 find_set_def find_worker_def
        replica_count_def demo_set_def ReplicaSetState_default_def)
  moreover have "compute_le (cq_min_compute (s_compatibility demo_set)) \<lparr>cc_major = 12, cc_minor = 0\<rparr>"
    by (simp add: demo_simps compute_le_def compute_less_def)
  moreover have "fst (next_generations (co_ctrl demo_connected)) \<noteq> null_id"
    "fst (random_id (co_placement_rng demo_connected) :: PlacementId \<times> engine) \<noteq> null_id"
    by (simp_all add: demo_connected_def demo1 next_generations_def null_id_def demo_coordinator_def new_coordinator_def)
  ultimately show ?thesis
    using distributed_bring_up [of "\<lambda>_. True" 4 3 "MkId 0 100" "MkId 0 1" demo_set demo_worker demo_connected "MkId 0 1000"]
    by (auto simp: demo_connected_def)
qed

section \<open>Executing a request\<close>

definition result_query :: "ReplicaId \<Rightarrow> Message" where
  "result_query rid = Message_default\<lparr>m_kind := QUERY, m_replica := rid, m_payload := ''q=result''\<rparr>"

text \<open>The value of a payload's key has no newline and is no longer than the payload.\<close>

lemma lines_no_newline: "l \<in> set (lines s) \<Longrightarrow> newline \<notin> set l \<and> length l \<le> length s"
  by (induction s arbitrary: l) (fastforce split: if_splits list.splits)+

lemma get_payload_value:
  assumes "newline \<notin> set def"
  shows "newline \<notin> set (get_payload s k def) \<and> length (get_payload s k def) \<le> max (length s) (length def)"
proof (cases "find (has_prefix (k @ ''='')) (lines s)")
  case (Some l)
  then have "l \<in> set (lines s)" by (auto simp: find_Some_iff)
  then have "newline \<notin> set l" "length l \<le> length s" using lines_no_newline by blast+
  then show ?thesis using Some by (auto simp: get_payload_def find_line_lines dest: in_set_dropD)
qed (use assms in \<open>simp add: get_payload_def find_line_lines\<close>)

definition executed_text :: "Message \<Rightarrow> string" where
  "executed_text m = ''req='' @ get_payload (m_payload m) ''req'' ''?'' @ [newline] @ ''outcome=1'' @ [newline] @
     ''result=14999850000''"

lemma worker_execute_text:
  "worker_execute w b m = [(reply_to w b m EXECUTE_RESULT (executed_text m))\<lparr>m_attempt := m_attempt m\<rparr>]"
  by (simp add: worker_execute_def execute_sum_value to_string_sum executed_text_def)

lemma executed_lines:
  "executed_text m = join_lines [''req='' @ get_payload (m_payload m) ''req'' ''?'', ''outcome=1'', ''result=14999850000'']"
  by (simp add: executed_text_def)

lemma executed_payload:
  "get_payload (executed_text m) ''req'' ''?'' = get_payload (m_payload m) ''req'' ''?''"
  "get_payload (executed_text m) ''outcome'' ''?'' = ''1''"
  "get_payload (executed_text m) ''result'' ''?'' = ''14999850000''"
  using get_payload_value [of "''?''" "m_payload m" "''req''"] unfolding executed_lines
  by (simp_all add: get_payload_join newline_def has_prefix_def del: join_lines.simps)

lemma result_step:
  "handle_worker ((reply_to w b m EXECUTE_RESULT (executed_text m))\<lparr>m_attempt := a\<rparr>) n co =
     Inr (stash_result (m_replica m) (executed_text m) co, pong n)"
  by (simp add: handle_worker_def message_kinds worker_result_def executed_payload Let_def) 
     (simp add: executed_text_def)

lemma execute_step:
  assumes "find_replica (m_replica m) (co_ctrl co) = Some r" and "om_find (co_conns co) (r_worker_id r) = Some n"
    and "up n" and "m_kind m = EXECUTE"
  obtains a where "handle_control up m k co = Inr (co, [(n, m\<lparr>m_epoch := co_epoch co\<rparr>), (k, a)])"
  using assms by (simp add: handle_control_def message_kinds control_execute_def send_to_worker_def)

lemma query_step:
  obtains a where "handle_control up (result_query rid) k co = Inr (co, [(k, a)])"
    "m_kind a = QUERY" "m_payload a = ''result='' @ peek_result rid co"
proof -
  have "get_payload ''q=result'' ''q'' ''?'' = ''result''"
    by (simp add: single_line newline_def has_prefix_def)
  then show ?thesis
    using that by (simp add: handle_control_def message_kinds control_query_def result_query_def Let_def)
qed

lemma executed_length:
  "length (m_payload m) < 2 ^ 31 \<Longrightarrow> length (executed_text m) < 2 ^ 32"
  using get_payload_value [of "''?''" "m_payload m" "''req''"]
  by (auto simp: executed_text_def newline_def)

text \<open>
  C26. A request is carried to the worker and its result back: when the replica is known and its
  worker's connection is live, a client's \<open>EXECUTE\<close> is forwarded under the coordinator's epoch, the
  worker's answer to it is stored, and a query of the client then returns the request's key, the
  outcome and the sum the worker computed. The controller does not change, and nothing in the
  exchange asks whether the replica may serve.
\<close>

theorem execute_conversation:
  assumes "coordinator_ok co" and "om_find (co_threads co) k = Some Serves_control"
    and "find_replica (m_replica m) (co_ctrl co) = Some r" and "om_find (co_conns co) (r_worker_id r) = Some n"
    and "up n" and "m_kind m = EXECUTE" and "length (m_payload m) < 2 ^ 31"
  shows "\<exists>co' out a. run_events up (Frame k (encode_message m) #
      map (\<lambda>x. Frame n (encode_message x)) (worker_answer (r_worker_id r) b (m\<lparr>m_epoch := co_epoch co\<rparr>)) @
      [Frame k (encode_message (result_query (m_replica m)))]) co = Inr (co', out) \<and>
    co_ctrl co' = co_ctrl co \<and> (n, m\<lparr>m_epoch := co_epoch co\<rparr>) \<in> set out \<and>
    (k, a) \<in> set out \<and> m_kind a = QUERY \<and> m_payload a = ''result='' @ executed_text m"
proof -
  let ?m = "m\<lparr>m_epoch := co_epoch co\<rparr>" and ?w = "r_worker_id r"
  let ?co = "stash_result (m_replica m) (executed_text m) co"
  let ?x = "(reply_to ?w b ?m EXECUTE_RESULT (executed_text ?m))\<lparr>m_attempt := m_attempt m\<rparr>"
  have worker: "om_find (co_threads co) n = Some (Serves_worker ?w)"
    using assms(1,4) by (simp add: coordinator_ok_def)
  have same: "executed_text ?m = executed_text m" by (simp add: executed_text_def)
  have answer: "worker_answer ?w b ?m = [?x]"
    using assms(6) by (simp add: worker_answer_def message_kinds worker_execute_text)
  obtain a where 1: "handle_control up m k co = Inr (co, [(n, ?m), (k, a)])"
    by (rule execute_step [where up = up and k = k and n = n and m = m and co = co]) (use assms(3-6) in simp_all)
  have 2: "handle_worker ?x n co = Inr (?co, pong n)"
    using result_step [where w = ?w and b = b and m = ?m and a = "m_attempt m" and n = n and co = co] by (simp add: same)
  obtain a' where 3: "handle_control up (result_query (m_replica m)) k ?co = Inr (?co, [(k, a')])"
    "m_kind a' = QUERY" "m_payload a' = ''result='' @ executed_text m"
    using query_step [of up "m_replica m" k ?co] by (auto simp: peek_result_def stash_result_def)
  have "run_events up [Frame k (encode_message m), Frame n (encode_message ?x),
      Frame k (encode_message (result_query (m_replica m)))] co =
      Inr (?co, [(n, ?m), (k, a)] @ pong n @ [(k, a')])"
    using control_event [of co k m up] report_event [of co n ?w ?x up]
      control_event [of ?co k "result_query (m_replica m)" up] assms(2,7) worker executed_length [OF assms(7)] 1 2 3(1)
    by (simp add: stash_result_def same result_query_def)
  then show ?thesis
    using 3(2,3) unfolding answer by (auto simp: stash_result_def)
qed

text \<open>It is forwarded to a replica that was only just provisioned and may not serve.\<close>

definition demo_declared :: coordinator where
  "demo_declared = demo_connected\<lparr>co_ctrl := snd (provision_replica (MkId 0 1000) (MkId 0 100) (MkId 0 1)
     ReplicaCompatibility_default DeviceCapability_default 8 1 1 demo1)\<rparr>"

lemma demo_declared_ok: "coordinator_ok demo_declared"
  using demo_connected_ok drives_ok [OF drives_ops(4)]
  by (auto simp: coordinator_ok_def demo_declared_def demo_connected_def)

lemma demo_declared_replica:
  obtains r where "find_replica (MkId 0 1000) (co_ctrl demo_declared) = Some r" "r_worker_id r = MkId 0 1"
    "\<not> r_serving_eligible r"
proof -
  have "is_ok (fst (provision_replica (MkId 0 1000) (MkId 0 100) (MkId 0 1) ReplicaCompatibility_default
      DeviceCapability_default 8 1 1 demo1))"
    by (rule provision_accepted [of _ _ demo_set _ demo_worker])
       (simp_all add: demo1 find_set_def find_worker_def replica_count_def demo_set_def ReplicaSetState_default_def)
  note accepted = this
  have found: "find_set (MkId 0 100) demo1 = Some demo_set" "find_worker (MkId 0 1) demo1 = Some demo_worker"
    "next_generations demo1 = (MkId 7 7, MkId 7 7)"
    by (simp_all add: demo1 find_set_def find_worker_def next_generations_def)
  obtain c1 where c1: "snd (provision_replica (MkId 0 1000) (MkId 0 100) (MkId 0 1) ReplicaCompatibility_default
      DeviceCapability_default 8 1 1 demo1) = put_replica (MkId 0 1000) (new_replica (MkId 0 1000) (MkId 0 100)
      (MkId 0 1) (opened_set demo_set) demo_worker ReplicaCompatibility_default DeviceCapability_default 8 1 1
      (ct_epoch c1) (MkId 7 7) (MkId 7 7)) c1"
    by (rule provisioned_form [OF found accepted])
  show ?thesis
    by (rule that) (simp add: demo_declared_def c1 find_replica_def, simp_all add: new_replica_def ReplicaState_default_def)
qed

theorem execute_conversation_witness:
  "\<not> sa_eligible (servable (MkId 0 1000) (co_ctrl demo_declared)) \<and>
   (\<exists>m co' out a. run_events (\<lambda>_. True) (Frame 4 (encode_message m) #
      map (\<lambda>x. Frame 3 (encode_message x)) (worker_answer (MkId 0 1) (MkId 0 11) (m\<lparr>m_epoch := MkId 0 200\<rparr>)) @
      [Frame 4 (encode_message (result_query (MkId 0 1000)))]) demo_declared = Inr (co', out) \<and>
    (4, a) \<in> set out \<and> m_payload a = ''result=req=7'' @ [newline] @ ''outcome=1'' @ [newline] @ ''result=14999850000'')"
proof -
  let ?m = "Message_default\<lparr>m_kind := EXECUTE, m_replica := MkId 0 1000, m_payload := ''req=7''\<rparr>"
  obtain r where r: "find_replica (MkId 0 1000) (co_ctrl demo_declared) = Some r" "r_worker_id r = MkId 0 1"
    "\<not> r_serving_eligible r"
    by (rule demo_declared_replica)
  have fields: "om_find (co_threads demo_declared) 4 = Some Serves_control" "om_find (co_conns demo_declared) (MkId 0 1) = Some 3"
    "co_epoch demo_declared = MkId 0 200"
    by (simp_all add: demo_declared_def demo_connected_def)
  have "executed_text ?m = ''req=7'' @ [newline] @ ''outcome=1'' @ [newline] @ ''result=14999850000''"
    using single_line [of "''req=7''" "''req''" "''?''"] by (simp add: executed_text_def newline_def has_prefix_def)
  with execute_conversation [OF demo_declared_ok, of 4 ?m r 3 "\<lambda>_. True" "MkId 0 11"] r fields
  have "\<exists>co' out a. run_events (\<lambda>_. True) (Frame 4 (encode_message ?m) #
      map (\<lambda>x. Frame 3 (encode_message x)) (worker_answer (MkId 0 1) (MkId 0 11) (?m\<lparr>m_epoch := MkId 0 200\<rparr>)) @
      [Frame 4 (encode_message (result_query (MkId 0 1000)))]) demo_declared = Inr (co', out) \<and>
    (4, a) \<in> set out \<and> m_payload a = ''result=req=7'' @ [newline] @ ''outcome=1'' @ [newline] @ ''result=14999850000''"
    by auto
  then show ?thesis
    using not_servable [of "co_ctrl demo_declared" "MkId 0 1000" r] r by (auto simp: find_replica_def)
qed

section \<open>What the two say to each other\<close>

text \<open>The messages a worker may send once it is registered, as the coordinator reads them.\<close>

definition worker_says :: "Message \<Rightarrow> bool" where
  "worker_says m \<longleftrightarrow> m_kind m \<in> {WARM_DONE, HEALTH, READINESS, EXECUTE_RESULT, PONG} \<and> length (m_payload m) < 2 ^ 32"

lemma worker_kind: "a \<in> set (worker_answer w b m) \<Longrightarrow> length (m_payload m) < 2 ^ 31 \<Longrightarrow> worker_says a"
  using executed_length [of m]
  by (auto simp: worker_answer_def worker_warm_def worker_execute_text worker_says_def Message_default_def split: if_splits)

lemma worker_handled:
  assumes "a \<in> set (worker_answer w b m)"
  obtains co' out where "handle_worker a n co = Inr (co', out)" "set out \<subseteq> set (pong n)"
proof -
  consider (warm) "a = reply_to w b m WARM_DONE ''steps=4''"
    | (health) "a = reply_to w b m HEALTH (''state=2'' @ [newline] @ ''source=worker'')"
    | (ready) "a = reply_to w b m READINESS ''mask=0x7ff''"
    | (result) "a = (reply_to w b m EXECUTE_RESULT (executed_text m))\<lparr>m_attempt := m_attempt m\<rparr>"
    | (pong) "a = Message_default\<lparr>m_kind := PONG\<rparr>"
    using assms by (auto simp: worker_answer_def worker_warm_def worker_execute_text split: if_splits)
  then show thesis
  proof cases
    case warm
    then show ?thesis
      by (intro that [of "(snd (monotonic_ns co))\<lparr>co_ctrl := snd (warm_replica (m_replica m) reported_warming w b
          (fst (monotonic_ns co)) (co_ctrl co))\<rparr>" "[]"])
        (simp_all add: handle_worker_def worker_warm_done_def warming_from_def report_payload reported_warming_def handler_simps)
  next
    case health
    obtain co' where "handle_worker a n co = Inr (co', [])"
      unfolding health handle_worker_def worker_health_def reply_to_fields report_payload
      by (simp add: message_kinds handler_simps)
    then show ?thesis using that by simp
  next
    case ready
    obtain co' where "handle_worker a n co = Inr (co', [])"
      unfolding ready by (simp add: handle_worker_def message_kinds worker_readiness_def report_payload handler_simps)
    then show ?thesis using that by simp
  next
    case result
    then show ?thesis
      by (intro that [of "stash_result (m_replica m) (executed_text m) co" "pong n"]) (simp_all add: result_step)
  next
    case pong
    then show ?thesis by (intro that [of co "[]"]) (simp_all add: handle_worker_def message_kinds)
  qed
qed

text \<open>
  The two sides are well-typed for each other. Whatever the coordinator sends a registered
  worker, each of the worker's answers is a message a registered worker may send, it is read back
  as it was written, it never ends the coordinator, and what the coordinator writes for it, if
  anything, is a \<open>PONG\<close> on that worker's connection, to which a worker has no answer: an exchange
  a command starts is over after three steps.
\<close>

theorem worker_traffic_typed:
  assumes "om_find (co_threads co) n = Some (Serves_worker w)" and "length (m_payload m) < 2 ^ 31"
    and "worker_frame w b (encode_message m) = Inr replies" and "a \<in> set replies"
  shows "worker_says a \<and> decode_message (encode_message a) Message_default = Decoded a \<and>
    (\<exists>co' out. coordinator_step up (Frame n (encode_message a)) co = Inr (co', out) \<and>
       (\<forall>x \<in> set out. x = (n, Message_default\<lparr>m_kind := PONG\<rparr>) \<and> worker_frame w b (encode_message (snd x)) = Inr []))"
proof -
  have a: "a \<in> set (worker_answer w b m)" using assms(2-4) by (simp add: worker_frame_def decode_encoded)
  then have says: "worker_says a" using assms(2) by (rule worker_kind)
  then have small: "length (m_payload a) < 2 ^ 32" by (simp add: worker_says_def)
  obtain co' out where "handle_worker a n co = Inr (co', out)" "set out \<subseteq> set (pong n)" by (rule worker_handled [OF a])
  moreover have "worker_frame w b (encode_message (Message_default\<lparr>m_kind := PONG\<rparr>)) = Inr []"
    by (simp add: worker_frame_def decode_encoded worker_answer_def message_kinds Message_default_def)
  ultimately show ?thesis
    using says decode_encoded [OF small] report_event [OF assms(1) small, of up] by (auto simp: pong_def)
qed

theorem worker_traffic_typed_witness:
  "worker_says (reply_to (MkId 0 1) (MkId 0 11) (warm_message (MkId 0 200) (MkId 0 100) (MkId 0 1000) (MkId 0 1)) WARM_DONE ''steps=4'')"
proof -
  let ?m = "warm_message (MkId 0 200) (MkId 0 100) (MkId 0 1000) (MkId 0 1)"
  have "om_find (co_threads demo_connected) 3 = Some (Serves_worker (MkId 0 1))"
    by (simp add: demo_connected_def)
  moreover have "worker_frame (MkId 0 1) (MkId 0 11) (encode_message ?m) = Inr (worker_warm (MkId 0 1) (MkId 0 11) ?m)"
    by (simp add: worker_frame_def decode_encoded worker_answer_def warm_message_def)
  ultimately show ?thesis
    using worker_traffic_typed [of demo_connected 3 "MkId 0 1" ?m "MkId 0 11" "worker_warm (MkId 0 1) (MkId 0 11) ?m"]
    by (simp add: worker_warm_def warm_message_def)
qed

end
