(* ===== verification/Races.thy ===== *)
theory Races
  imports Threads Distributed
begin

text \<open>
  What the order of the coordinator's steps in \<open>apps/distributed/rf_coordinator.cpp\<close> lets happen that
  no run of atomic handlers does: a worker registered without a connection, and a worker whose
  registration is overtaken by a command.
\<close>

section \<open>Interrupted handlers\<close>

lemma run_turns_then:
  "run_turns up tns p = Inr (q, out) \<Longrightarrow> run_turns up tns' q = Inr (r, out') \<Longrightarrow>
   run_turns up (tns @ tns') p = Inr (r, out @ out')"
  by (simp add: run_turns_append)

text \<open>The turns of one thread, step by step.\<close>

lemma begin_turns:
  "run_turns up (Arrive n a # Turn n # tns) (idle co) =
   run_turns up tns (running (idle co) co n (thread_of up (co_epoch co) n a))"
proof -
  have "((pr_inbox (idle co))(n := [a]))(n := []) = pr_inbox (idle co)"
    by (simp add: fun_upd_idem)
  then show ?thesis
    by (cases "run_turns up tns (running (idle co) co n (thread_of up (co_epoch co) n a))")
       (auto simp: take_turn_def)
qed

lemma next_turn:
  assumes "f co = (co', [], k)"
  shows "run_turns up (Turn n # tns) (running p co n (Next f)) = run_turns up tns (running p co' n k)"
  by (cases "run_turns up tns (running p co' n k)") (auto simp: take_turn_def assms)

lemma step_turns:
  "run_turns up (Turn n # tns) (running p co n (call f k)) = run_turns up tns (running p (snd (f co)) n (k (fst (f co))))"
  "run_turns up (Turn n # tns) (running p co n (look g h)) = run_turns up tns (running p co n (h (g co)))"
  "run_turns up (Turn n # tns) (running p co n (operate f' k')) =
     run_turns up tns (running p (co\<lparr>co_ctrl := snd (f' (co_ctrl co))\<rparr>) n (k' (fst (f' (co_ctrl co)))))"
  "run_turns up (Turn n # tns) (running p co n (modify h' k0)) = run_turns up tns (running p (h' co) n k0)"
  unfolding step_defs by (rule next_turn; simp add: case_prod_unfold)+

lemmas turn_rules = begin_turns step_turns

text \<open>A registration up to its acknowledgement.\<close>

lemma register_paused:
  assumes "om_find (co_threads co) n = None" and "m_kind m = REGISTER" and "length (m_payload m) < 2 ^ 32"
    and "worker_register m n co = Inr (co', out)"
  obtains a where "out = [(n, a)]" "m_kind a = REGISTER_ACK"
    "run_turns up (Arrive n (Arrived (encode_message m)) # replicate 6 (Turn n)) (idle co) =
       Inr (running (idle co) co' n (write_frame_to n a Waiting), [])"
proof -
  obtain wr where wr: "build_worker_reg m = Inr wr"
    using assms(4) by (auto simp: worker_register_def ebind_Inr)
  define r where "r = fst (register_worker wr (fst (monotonic_ns co)) (fst (wall_ns (snd (monotonic_ns co)))) (co_ctrl co))"
  define a where "a = Message_default\<lparr>m_kind := REGISTER_ACK, m_epoch := co_epoch co, m_payload := result_text r\<rparr>"
  have form: "worker_register m n co = Inr (co', [(n, a)])"
    using assms(4) wr by (simp add: worker_register_def a_def r_def case_prod_unfold Let_def)
  have "thread_of up (co_epoch co) n (Arrived (encode_message m)) =
      look (\<lambda>co. om_find (co_threads co) n) (\<lambda>role. case role of
        None \<Rightarrow> thread_register (co_epoch co) m n | Some Returned \<Rightarrow> Waiting
      | Some (Serves_worker w) \<Rightarrow> thread_worker m n | Some Serves_control \<Rightarrow> thread_control up (co_epoch co) m n)"
    using assms(2,3) by (auto simp: thread_of_def thread_frame_def decode_encoded intro!: arg_cong [where f = "look _"]
        split: option.split conn_thread.split)
  moreover have "run_turns up (replicate 4 (Turn n)) (running (idle co) co n (thread_register (co_epoch co) m n)) =
      Inr (running (idle co) co' n (write_frame_to n a Waiting), [])"
    using form wr
    by (simp add: eval_nat_numeral thread_register_def attempt_def turn_rules worker_register_def a_def r_def
        case_prod_unfold Let_def del: run_turns_simps(2) idle_simps(4))
  ultimately have "run_turns up (Arrive n (Arrived (encode_message m)) # replicate 6 (Turn n)) (idle co) =
       Inr (running (idle co) co' n (write_frame_to n a Waiting), [])"
    using assms(1) by (simp add: eval_nat_numeral turn_rules del: run_turns_simps(2) idle_simps(4))
  then show ?thesis
    using that [of a] form assms(4) by (simp add: a_def)
qed

text \<open>The end of a worker's connection up to the removal of the connection.\<close>

lemma closed_paused:
  assumes "om_find (co_threads co) n = Some (Serves_worker w)"
  shows "run_turns up (Arrive n Ended # replicate 3 (Turn n)) (idle co) =
    Inr (running (idle co) (co\<lparr>co_ctrl := snd (unregister_worker w (co_ctrl co))\<rparr>) n
      (modify (\<lambda>co. co\<lparr>co_conns := om_erase w (co_conns co), co_threads := om_erase n (co_threads co)\<rparr>) Waiting), [])"
  using assms
  by (simp add: eval_nat_numeral turn_rules thread_of_def thread_closed_def del: run_turns_simps(2) idle_simps(4))

text \<open>Another connection is served meanwhile.\<close>

lemma handled_beside:
  assumes "conn \<noteq> i" and "coordinator_step up (event_of conn a) co = Inr (co', out)"
  shows "\<exists>n. run_turns up (Arrive conn a # Turn conn # replicate n (Turn conn)) (running (idle co0) co i t) =
    Inr (running (idle co0) co' i t, out)"
proof -
  let ?p = "running (idle co0) co i t"
  have "pr_thread ?p conn = Waiting" "pr_inbox ?p conn = []" "co_epoch co = co_epoch (pr_shared ?p)"
    "coordinator_step up (event_of conn a) (pr_shared ?p) = Inr (co', out)" "?p\<lparr>pr_shared := co'\<rparr> = running (idle co0) co' i t"
    using assms by (simp_all del: idle_simps(4))
  then show ?thesis
    using handled_turns [of ?p conn "co_epoch co" up a] by (simp only: as_thread_simps ebind_simps prod.case)
qed

section \<open>A worker without a connection\<close>

text \<open>Every worker the controller knows has a connection.\<close>

definition all_connected :: "coordinator \<Rightarrow> bool" where
  "all_connected co \<longleftrightarrow> (\<forall>w. find_worker w (co_ctrl co) \<noteq> None \<longrightarrow> om_find (co_conns co) w \<noteq> None)"

abbreviation same_workers :: "coordinator \<Rightarrow> handled \<Rightarrow> bool" where
  "same_workers co \<equiv> after (\<lambda>co' _. ct_workers (co_ctrl co') = ct_workers (co_ctrl co))"

lemma controls_same_workers:
  "same_workers co (control_create_set m conn co)" "same_workers co (control_promote m conn co)"
  "same_workers co (control_drain m conn co)" "same_workers co (control_failover m conn co)"
  "same_workers co (control_execute up m conn co)" "same_workers co (control_query m conn co)"
  "same_workers co (control_snapshot m conn co)"
  unfolding control_create_set_def control_promote_def control_drain_def control_failover_def
    control_execute_def control_query_def control_snapshot_def
  by (auto simp: handler_simps intro!: after_bind split: option.split)

lemma provision_same_workers: "same_workers co (control_provision up m conn co)"
  unfolding control_provision_def Let_def
  by (intro after_bind) (auto simp: handler_simps)

lemma control_same_workers: "same_workers co (handle_control up m conn co)"
  unfolding handle_control_def by (auto simp: provision_same_workers controls_same_workers)

lemma report_same_workers: "same_workers co (handle_worker m conn co)"
  unfolding handle_worker_def worker_warm_done_def worker_health_def worker_readiness_def worker_result_def
    stash_result_def
  by (auto simp: handler_simps intro!: after_bind split: option.split)

lemma kept_connected:
  assumes "same_workers co h" and "wired co h" and "all_connected co"
  shows "after (\<lambda>co' _. all_connected co') h"
  using assms by (auto simp: after_def all_connected_def find_worker_def split: sum.splits)

lemma register_connected:
  assumes "all_connected co"
  shows "after (\<lambda>co' _. all_connected co') (worker_register m conn co)"
  unfolding worker_register_def
  using assms by (intro after_bind) (auto simp: handler_simps all_connected_def find_worker_def register_worker_def)

lemma closed_connected:
  assumes "coordinator_ok co" and "all_connected co"
  shows "all_connected (connection_closed conn co)"
proof -
  have "om_sorted (ct_workers (co_ctrl co))" "om_sorted (co_conns co)"
    using assms(1) unfolding coordinator_ok_def controller_ok_def maps_sorted_def by blast+
  then show ?thesis
    using assms(2) unfolding connection_closed_def all_connected_def find_worker_def unregister_worker_def
    by (auto simp: Let_def om_find_erase split: option.split conn_thread.split)
qed

lemma step_connected:
  assumes "coordinator_ok co" and "all_connected co"
  shows "after (\<lambda>co' _. all_connected co') (coordinator_step up ev co)"
proof -
  have control: "after (\<lambda>co' _. all_connected co') (handle_control up m conn x)" if "all_connected x" for m conn x
    by (rule kept_connected [OF control_same_workers control_wired that])
  have report: "after (\<lambda>co' _. all_connected co') (handle_worker m conn co)" for m conn
    by (rule kept_connected [OF report_same_workers report_wired assms(2)])
  have thread: "all_connected (co\<lparr>co_threads := th\<rparr>)" for th
    using assms(2) by (simp add: all_connected_def)
  show ?thesis
    unfolding coordinator_step_def receive_frame_def first_message_def
    by (auto simp: closed_connected assms register_connected control report thread
        split: net_event.split decode_result.split option.split conn_thread.split)
qed

interpretation connecting: guarded_process "coordinator_step up"
  "\<lambda>co co'. coordinator_ok co \<and> all_connected co \<longrightarrow> coordinator_ok co' \<and> all_connected co'" for up
  by unfold_locales (use afterD [OF step_keeps_ok] afterD [OF step_connected] in auto)

text \<open>
  C24. A worker that reconnects while its old connection ends can be registered without a connection:
  the old thread unregisters it, the new thread registers it and enters its connection, and then the
  old thread takes its next step, which erases the entry by the worker's id. The coordinator then
  serves the worker's new connection and takes the worker for registered, but can send it nothing.
  With atomic handlers that does not happen: if every known worker has a connection, it stays so.
\<close>

theorem reconnection_race:
  assumes "coordinator_ok co" and "all_connected co" and "om_find (co_threads co) old = Some (Serves_worker (m_worker m))"
    and "om_find (co_threads co) new = None" and "m_kind m = REGISTER" and "length (m_payload m) < 2 ^ 32"
    and "well_formed_register m"
  shows "(\<exists>tns co' out. run_turns up tns (idle co) = Inr (idle co', out) \<and>
      om_find (co_threads co') new = Some (Serves_worker (m_worker m)) \<and>
      find_worker (m_worker m) (co_ctrl co') \<noteq> None \<and>
      (\<forall>b. send_to_worker up (m_worker m) b co' = (False, []))) \<and>
    (\<forall>evs co' out. run_events up evs co = Inr (co', out) \<longrightarrow> all_connected co')"
proof -
  let ?co1 = "co\<lparr>co_ctrl := snd (unregister_worker (m_worker m) (co_ctrl co))\<rparr>"
  let ?last = "modify (\<lambda>co. co\<lparr>co_conns := om_erase (m_worker m) (co_conns co), co_threads := om_erase old (co_threads co)\<rparr>) Waiting"
  have differ: "old \<noteq> new" using assms(3,4) by auto
  obtain co2 out where 2: "coordinator_step up (Frame new (encode_message m)) ?co1 = Inr (co2, out)"
      "worker_register m new ?co1 = Inr (co2, out)"
    by (rule register_event [of ?co1 new m up]) (use assms(4-7) in simp_all)
  obtain n where "run_turns up (Arrive new (Arrived (encode_message m)) # Turn new # replicate n (Turn new))
      (running (idle co) ?co1 old ?last) = Inr (running (idle co) co2 old ?last, out)"
    using handled_beside [of new old up "Arrived (encode_message m)" ?co1 co2 out co ?last] differ 2(1)
    by (auto simp: event_of_def simp del: run_turns_simps idle_simps(4))
  note run = run_turns_then [OF closed_paused [OF assms(3)] run_turns_then [OF this]]
  let ?co3 = "co2\<lparr>co_conns := om_erase (m_worker m) (co_conns co2), co_threads := om_erase old (co_threads co2)\<rparr>"
  have "run_turns up [Turn old] (running (idle co) co2 old ?last) = Inr (idle ?co3, [])"
    by (simp add: take_turn_def step_defs fun_upd_idem) (simp add: idle_def fun_upd_idem)
  note run = run [OF this]
  have sorted: "om_sorted (co_conns co)" "om_sorted (co_threads co)"
    using assms(1) unfolding coordinator_ok_def by blast+
  have "co_conns co2 = om_put (m_worker m) new (co_conns co)"
      "co_threads co2 = om_put new (Serves_worker (m_worker m)) (co_threads co)"
    using register_wiring [of m new ?co1] by (simp_all add: 2)
  then have "om_find (co_conns ?co3) (m_worker m) = None" "om_find (co_threads ?co3) new = Some (Serves_worker (m_worker m))"
    using sorted differ by (simp_all add: om_find_erase)
  moreover have "find_worker (m_worker m) (co_ctrl ?co3) \<noteq> None"
    using register_known [of m new ?co1] by (simp add: 2 find_worker_def)
  ultimately have "\<exists>tns co' out. run_turns up tns (idle co) = Inr (idle co', out) \<and>
      om_find (co_threads co') new = Some (Serves_worker (m_worker m)) \<and>
      find_worker (m_worker m) (co_ctrl co') \<noteq> None \<and>
      (\<forall>b. send_to_worker up (m_worker m) b co' = (False, []))"
    using run by (fastforce simp: send_to_worker_def)
  then show ?thesis
    using connecting.run_rel [folded run_events_def] assms(1,2) by blast
qed

section \<open>A registration overtaken by a command\<close>

lemma provision_writes:
  assumes "handle_control up (provision_message sid rid w) k co = Inr (co', out)" and "x \<in> set out" and "fst x \<noteq> k"
  obtains a where "out = [(k, a), x]"
proof -
  let ?m = "provision_message sid rid w"
  have parts: "m_kind ?m = PROVISION" "m_set ?m = sid" "m_replica ?m = rid"
    by (simp_all add: provision_message_def)
  have "after (\<lambda>_ out. \<exists>a rest. out = (k, a) # rest \<and> length rest \<le> 1) (control_provision up ?m k co)"
    unfolding control_provision_def Let_def
    by (intro after_bind) (auto simp: handler_simps send_to_worker_def split: option.split)
  then obtain a rest where "out = (k, a) # rest" "length rest \<le> 1"
    using assms(1) by (auto simp: handle_control_def parts message_kinds)
  then show ?thesis
    using that assms(2,3) by (cases rest) auto
qed

lemma registered_state:
  assumes "coordinator_ok co" and "om_find (co_threads co) n = None" and "om_find (co_threads co) k = Some Serves_control"
    and "find_set sid (co_ctrl co) = Some s" and "replica_count sid (co_ctrl co) < s_max_replicas s"
    and "s_lifecycle s \<in> {ReplicaSetLifecycle.CREATED, ReplicaSetLifecycle.PROVISIONING,
      ReplicaSetLifecycle.AVAILABLE, ReplicaSetLifecycle.DEGRADED}"
    and "worker_register m n co = Inr (co1, out)" and "up n"
  shows "\<exists>reg. can_bring_up up k n sid (m_worker m) s reg co1" and "co_epoch co1 = co_epoch co"
proof -
  obtain wr where wr: "build_worker_reg m = Inr wr"
    using assms(7) by (auto simp: worker_register_def ebind_Inr)
  then have co1: "\<exists>t u. co_ctrl co1 = snd (register_worker wr t u (co_ctrl co))"
    using assms(7) by (auto simp: worker_register_def case_prod_unfold Let_def) (intro exI, rule refl)
  show "co_epoch co1 = co_epoch co"
    using worker_steered(1) [of co m n] by (simp add: assms(7))
  have "k \<noteq> n" using assms(2,3) by auto
  then have "om_find (co_threads co1) k = Some Serves_control" "om_find (co_conns co1) (m_worker m) = Some n"
      "coordinator_ok co1"
    using register_wiring [of m n co] register_keeps_ok [OF assms(1,2), of m] assms(3) by (simp_all add: assms(7))
  moreover have "find_set sid (co_ctrl co1) = Some s" "replica_count sid (co_ctrl co1) < s_max_replicas s"
    using co1 assms(4,5) by (auto simp: find_set_def register_replica_count)
  moreover have "\<exists>reg. find_worker (m_worker m) (co_ctrl co1) = Some reg"
    using register_known [of m n co] by (simp add: assms(7) find_worker_def)
  ultimately show "\<exists>reg. can_bring_up up k n sid (m_worker m) s reg co1"
    using assms(6,8) unfolding can_bring_up_def by blast
qed

text \<open>
  C25. A registration can be overtaken: the worker's connection is entered before its
  acknowledgement is written, so a client's \<open>PROVISION\<close> that is handled in between makes the
  coordinator write the \<open>WARM\<close> for the worker first. The worker takes the first frame it reads for
  the acknowledgement, finds that it is not one, and gives up, while the coordinator has it
  registered and a replica starting on it.
\<close>

theorem registration_overtaken:
  assumes "coordinator_ok co" and "om_find (co_threads co) n = None" and "om_find (co_threads co) k = Some Serves_control"
    and "find_set sid (co_ctrl co) = Some s" and "replica_count sid (co_ctrl co) < s_max_replicas s"
    and "s_lifecycle s \<in> {ReplicaSetLifecycle.CREATED, ReplicaSetLifecycle.PROVISIONING,
      ReplicaSetLifecycle.AVAILABLE, ReplicaSetLifecycle.DEGRADED}"
    and "m_kind m = REGISTER" and "length (m_payload m) < 2 ^ 32" and "well_formed_register m" and "up n"
  shows "\<exists>tns co' out a b. run_turns up tns (idle co) = Inr (idle co', out) \<and>
    filter (\<lambda>x. fst x = n) out = [(n, a), (n, b)] \<and>
    a = warm_message (co_epoch co) sid rid (m_worker m) \<and> m_kind b = REGISTER_ACK \<and>
    registered (encode_message a) = Inr False \<and>
    om_find (co_threads co') n = Some (Serves_worker (m_worker m))"
proof -
  let ?warm = "warm_message (co_epoch co) sid rid (m_worker m)" and ?prov = "provision_message sid rid (m_worker m)"
  obtain co1 out1 where 1: "worker_register m n co = Inr (co1, out1)"
    by (rule register_event [of co n m up]) (use assms(2,7-9) in simp_all)
  obtain reg where ready: "can_bring_up up k n sid (m_worker m) s reg co1" and epoch: "co_epoch co1 = co_epoch co"
    using registered_state [OF assms(1-6) 1] assms(10) by blast
  note facts = can_bring_upD [OF ready]
  obtain co2 out2 where 2: "handle_control up ?prov k co1 = Inr (co2, out2)" "(n, ?warm) \<in> set out2"
    using provision_step [of sid co1 s "m_worker m" n up rid k] facts(3-7) epoch by metis
  have differ: "k \<noteq> n" using assms(2,3) by auto
  obtain ack where ack: "out2 = [(k, ack), (n, ?warm)]"
    by (rule provision_writes [OF 2]) (use differ in auto)
  obtain b where b: "m_kind b = REGISTER_ACK" "run_turns up (Arrive n (Arrived (encode_message m)) # replicate 6 (Turn n))
      (idle co) = Inr (running (idle co) co1 n (write_frame_to n b Waiting), [])"
    by (rule register_paused [OF assms(2,7,8) 1])
  obtain i where "run_turns up (Arrive k (Arrived (encode_message ?prov)) # Turn k # replicate i (Turn k))
      (running (idle co) co1 n (write_frame_to n b Waiting)) =
      Inr (running (idle co) co2 n (write_frame_to n b Waiting), out2)"
    using handled_beside [of k n up "Arrived (encode_message ?prov)" co1 co2 out2 co "write_frame_to n b Waiting"]
      differ 2(1) control_event [OF facts(1) small_messages(1)]
    by (auto simp: event_of_def simp del: run_turns_simps idle_simps(4))
  note run = run_turns_then [OF b(2) run_turns_then [OF this]]
  have "run_turns up [Turn n] (running (idle co) co2 n (write_frame_to n b Waiting)) = Inr (idle co2, [(n, b)])"
    by (simp add: take_turn_def step_defs fun_upd_idem) (simp add: idle_def fun_upd_idem)
  note run = run [OF this]
  have "registered (encode_message ?warm) = Inr False"
    by (simp add: registered_def decode_encoded warm_message_def message_kinds Message_default_def)
  moreover have "om_find (co_threads co2) n = Some (Serves_worker (m_worker m))"
    using handled_threads(1) [OF 2(1)] facts(2) by simp
  moreover have "filter (\<lambda>x. fst x = n) ([] @ out2 @ [(n, b)]) = [(n, ?warm), (n, b)]"
    using differ by (simp add: ack)
  ultimately show ?thesis
    using run b(1) by blast
qed

section \<open>Runs\<close>

theorem reconnection_race_witness:
  "\<exists>tns co out. run_turns (\<lambda>_. True) tns (idle demo_connected) = Inr (idle co, out) \<and>
     om_find (co_threads co) 5 = Some (Serves_worker (MkId 0 1)) \<and> find_worker (MkId 0 1) (co_ctrl co) \<noteq> None \<and>
     send_to_worker (\<lambda>_. True) (MkId 0 1) Message_default co = (False, [])"
proof -
  have "all_connected demo_connected"
    by (simp add: all_connected_def demo_connected_def demo1 find_worker_def)
  moreover have "om_find (co_threads demo_connected) 3 = Some (Serves_worker (m_worker (demo_register (MkId 0 12))))"
    "om_find (co_threads demo_connected) 5 = None"
    by (simp_all add: demo_connected_def)
  ultimately show ?thesis
    using conjunct1 [OF reconnection_race [OF demo_connected_ok, of 3 "demo_register (MkId 0 12)" 5 "\<lambda>_. True"]]
      demo_register_ok by (simp del: not_None_eq) blast
qed

theorem registration_overtaken_witness:
  "\<exists>tns co out b. run_turns (\<lambda>_. True) tns (idle demo_connected) = Inr (idle co, out) \<and>
     filter (\<lambda>x. fst x = 5) out = [(5, warm_message (MkId 0 200) (MkId 0 100) (MkId 0 1000) (MkId 0 1)), (5, b)] \<and>
     registered (encode_message (warm_message (MkId 0 200) (MkId 0 100) (MkId 0 1000) (MkId 0 1))) = Inr False"
proof -
  have "om_find (co_threads demo_connected) 5 = None" "om_find (co_threads demo_connected) 4 = Some Serves_control"
    "find_set (MkId 0 100) (co_ctrl demo_connected) = Some demo_set"
    "replica_count (MkId 0 100) (co_ctrl demo_connected) < s_max_replicas demo_set"
    by (simp_all add: demo_connected_def demo1 find_set_def replica_count_def demo_set_def ReplicaSetState_default_def)
  moreover have "s_lifecycle demo_set = ReplicaSetLifecycle.CREATED"
    by (simp add: demo_set_def ReplicaSetState_default_def)
  moreover have "co_epoch demo_connected = MkId 0 200"
    by (simp add: demo_connected_def)
  ultimately show ?thesis
    using registration_overtaken [OF demo_connected_ok, of 5 4 "MkId 0 100" demo_set "demo_register (MkId 0 12)"
        "\<lambda>_. True" "MkId 0 1000"] demo_register_ok
    by auto
qed

end
