(* ===== verification/Mains.thy ===== *)
theory Mains
  imports Coordinator_Safety Worker
begin

text \<open>
  The \<open>main\<close> functions of \<open>apps/distributed\<close>, over the socket library. \<open>rf_worker\<close>, from its
  arguments to its exit code: it connects, registers, reads the acknowledgement and answers frames
  until the connection ends; it is proved to return and to be a function of the bytes it is sent.
  \<open>rf_coordinator\<close>: how it comes to listen, and the bytes of a connection as the events of its
  thread.
\<close>

section \<open>The worker\<close>

text \<open>Messages written one after the other; nobody looks at what \<open>write_frame\<close> returns.\<close>

primrec write_each ::
  "('s, 'ai) winsock \<Rightarrow> TcpConnection \<Rightarrow> Message list \<Rightarrow> 's \<Rightarrow> 's option" where
  "write_each net c [] s = Some s"
| "write_each net c (m # ms) s =
     (case write_frame net c (encode_message m) s of
        None \<Rightarrow> None
      | Some (_, s) \<Rightarrow> write_each net c ms s)"

text \<open>The loop over the frames, until \<open>read_frame\<close> fails.\<close>

partial_function (option) worker_loop ::
  "('s, 'ai) winsock \<Rightarrow> TcpConnection \<Rightarrow> WorkerId \<Rightarrow> WorkerBootId \<Rightarrow> 's \<Rightarrow> (process_failure option \<times> 's) option" where
  "worker_loop net c wid bid s =
     (case read_frame net c s of
        (None, s) \<Rightarrow> Some (None, s)
      | (Some f, s) \<Rightarrow>
          (case worker_frame wid bid f of
             Inl e \<Rightarrow> Some (Some e, s)
           | Inr replies \<Rightarrow>
               (case write_each net c replies s of
                  None \<Rightarrow> None
                | Some s \<Rightarrow> worker_loop net c wid bid s)))"

text \<open>How a process ends: it returns an exit code, or it fails.\<close>

type_synonym ending = "process_failure + int"

text \<open>Returning from \<open>main\<close> destroys the connection; a failure that ends the process does not.\<close>

definition return_from ::
  "('s, 'ai) winsock \<Rightarrow> TcpConnection \<Rightarrow> int \<Rightarrow> 's \<Rightarrow> ending \<times> 's" where
  "return_from net c code s = (Inr code, snd (conn_close net c s))"

definition worker_session ::
  "('s, 'ai) winsock \<Rightarrow> TcpConnection \<Rightarrow> worker_args \<Rightarrow> 's \<Rightarrow> (ending \<times> 's) option" where
  "worker_session net c wa s =
     (case write_frame net c (encode_message (registration (wa_worker wa) (wa_boot wa) (wa_node wa))) s of
        None \<Rightarrow> None
      | Some (_, s) \<Rightarrow>
          (case read_frame net c s of
             (None, s) \<Rightarrow> Some (return_from net c 4 s)
           | (Some ack, s) \<Rightarrow>
               (case registered ack of
                  Inl e \<Rightarrow> Some (Inl e, s)
                | Inr ok \<Rightarrow>
                    if \<not> ok then Some (return_from net c 5 s)
                    else (case worker_loop net c (wa_worker wa) (wa_boot wa) s of
                            None \<Rightarrow> None
                          | Some (Some e, s) \<Rightarrow> Some (Inl e, s)
                          | Some (None, s) \<Rightarrow> Some (return_from net c 0 s)))))"

definition worker_main :: "('s, 'ai) winsock \<Rightarrow> string list \<Rightarrow> 's \<Rightarrow> (ending \<times> 's) option" where
  "worker_main net argv s =
     (case worker_arguments argv of
        Inl e \<Rightarrow> Some (Inl e, s)
      | Inr (Inl code) \<Rightarrow> Some (Inr code, s)
      | Inr (Inr wa) \<Rightarrow>
          (let (ok, c, _, s) = connect_to net False TcpConnection_default ''127.0.0.1'' (wa_port wa) s
           in if \<not> ok then Some (return_from net c 3 s) else worker_session net c wa s))"

section \<open>A stream cut into frames\<close>

text \<open>The first frame of a stream and what follows it, if it is there and within the limit.\<close>

definition next_frame :: "bytes \<Rightarrow> (bytes \<times> bytes) option" where
  "next_frame bs =
     (if length bs < 4 then None
      else let len = unat (frame_length (take 4 bs))
           in if kMaxFrame < len \<or> length bs < 4 + len then None
              else Some (take len (drop 4 bs), drop (4 + len) bs))"

lemma next_frame_shorter: "next_frame bs = Some (f, rest) \<Longrightarrow> length rest < length bs"
  by (auto simp: next_frame_def Let_def split: if_splits)

function all_frames :: "bytes \<Rightarrow> bytes list" where
  "all_frames bs = (case next_frame bs of None \<Rightarrow> [] | Some (f, rest) \<Rightarrow> f # all_frames rest)"
  by pat_completeness auto
termination
  by (relation "measure length") (auto dest: next_frame_shorter)

declare all_frames.simps [simp del]

text \<open>What the worker answers to the frames it gets, and the failure that ends it, if one does.\<close>

fun answers_to :: "WorkerId \<Rightarrow> WorkerBootId \<Rightarrow> bytes list \<Rightarrow> process_failure option \<times> Message list" where
  "answers_to wid bid [] = (None, [])"
| "answers_to wid bid (f # fs) =
     (case worker_frame wid bid f of
        Inl e \<Rightarrow> (Some e, [])
      | Inr replies \<Rightarrow> let (e, out) = answers_to wid bid fs in (e, replies @ out))"

text \<open>The process as a function of the bytes it is sent: how it ends and the messages it writes.\<close>

definition transcript :: "worker_args \<Rightarrow> bytes \<Rightarrow> ending \<times> Message list" where
  "transcript wa bs =
     (let reg = registration (wa_worker wa) (wa_boot wa) (wa_node wa)
      in case all_frames bs of
           [] \<Rightarrow> (Inr 4, [reg])
         | ack # fs \<Rightarrow>
             (case registered ack of
                Inl e \<Rightarrow> (Inl e, [reg])
              | Inr ok \<Rightarrow>
                  if \<not> ok then (Inr 5, [reg])
                  else (case answers_to (wa_worker wa) (wa_boot wa) fs of
                          (None, out) \<Rightarrow> (Inr 0, reg # out)
                        | (Some e, out) \<Rightarrow> (Inl e, reg # out))))"

section \<open>A connection with two directions\<close>

text \<open>
  \<open>sent\<close> is what has been put on the wire and \<open>pending\<close> what the peer will have sent before it
  closes: \<open>send\<close> takes some of the bytes it is offered, at least one; \<open>recv\<close> gives some of those
  pending, and fails or gives none when there are none left. Neither touches the other direction,
  and closing a socket touches none.
\<close>

definition duplex :: "('s, 'ai) winsock \<Rightarrow> SOCKET \<Rightarrow> ('s \<Rightarrow> bytes) \<Rightarrow> ('s \<Rightarrow> bytes) \<Rightarrow> bool" where
  "duplex net sk sent pending \<longleftrightarrow>
     (\<forall>data len s. 0 < len \<and> nat len \<le> length data \<longrightarrow>
        (\<exists>r s'. ws_send net sk data len s = (Some r, s') \<and> 0 < r \<and> r \<le> nat len \<and>
           sent s' = sent s @ take r data \<and> pending s' = pending s)) \<and>
     (\<forall>len s. 0 < len \<longrightarrow>
        (\<exists>r s'. ws_recv net sk len s = (r, s') \<and> sent s' = sent s \<and>
           (if pending s = [] then r \<in> {None, Some []}
            else \<exists>bs. r = Some bs \<and> bs \<noteq> [] \<and> length bs \<le> nat len \<and> pending s = bs @ pending s'))) \<and>
     (\<forall>s. sent (ws_closesocket net sk s) = sent s)"

lemma duplex_send:
  assumes "duplex net sk sent pending" and "0 < len" and "nat len \<le> length data"
  obtains r s' where "ws_send net sk data len s = (Some r, s')" "0 < r" "r \<le> nat len"
    "sent s' = sent s @ take r data" "pending s' = pending s"
  using assms unfolding duplex_def by meson

lemma duplex_recv:
  assumes "duplex net sk sent pending" and "0 < len"
  obtains r s' where "ws_recv net sk len s = (r, s')" "sent s' = sent s"
    "if pending s = [] then r \<in> {None, Some []}
     else \<exists>bs. r = Some bs \<and> bs \<noteq> [] \<and> length bs \<le> nat len \<and> pending s = bs @ pending s'"
  using assms unfolding duplex_def by meson

lemma duplex_close: "duplex net (tc_sock c) sent pending \<Longrightarrow> sent (snd (conn_close net c s)) = sent s"
  by (simp add: duplex_def conn_close_def)

lemma send_loop_duplex:
  assumes "duplex net sk sent pending" and "length data < 2 ^ 31" and "k \<le> length data"
  shows "\<exists>s'. send_loop net sk data k s = Some (True, s') \<and> sent s' = sent s @ drop k data \<and> pending s' = pending s"
  using assms(3)
proof (induction "length data - k" arbitrary: k s rule: less_induct)
  case less
  show ?case
  proof (cases "k < length data")
    case False
    then show ?thesis by (subst send_loop.simps) simp
  next
    case True
    let ?len = "chunk_size (length data - k)"
    have len: "0 < ?len" "nat ?len \<le> length (drop k data)"
      using chunk_size_bounds [of "length data - k"] True assms(2) by simp_all
    obtain r s' where r: "ws_send net sk (drop k data) ?len s = (Some r, s')" "0 < r" "r \<le> nat ?len"
      "sent s' = sent s @ take r (drop k data)" "pending s' = pending s"
      by (rule duplex_send [OF assms(1) len])
    then have "k + r \<le> length data" "length data - (k + r) < length data - k"
      using len True by simp_all
    from less(1) [OF this(2,1), of s'] r(1,4,5) True show ?thesis
      using take_drop_step [of r k data] by (subst send_loop.simps) auto
  qed
qed

lemma write_frame_duplex:
  assumes "duplex net (tc_sock c) sent pending" and "conn_valid c"
  shows "\<exists>ok s'. write_frame net c (encode_message m) s = Some (ok, s') \<and>
    sent s' = sent s @ message_bytes (filter sendable [m]) \<and> pending s' = pending s"
proof (cases "sendable m")
  case False
  then show ?thesis
    by (intro exI [of _ False] exI [of _ s]) (simp add: write_frame_def sendable_def message_bytes_def)
next
  case True
  let ?p = "encode_message m"
  have all: "\<exists>s'. send_all net c data s = Some (True, s') \<and> sent s' = sent s @ data \<and> pending s' = pending s"
    if "length data < 2 ^ 31" for data s
    using send_loop_duplex [OF assms(1) that, of 0 s] assms(2) by (simp add: send_all_def)
  obtain s1 where s1: "send_all net c (frame_header (of_nat (length ?p))) s = Some (True, s1)"
    "sent s1 = sent s @ frame_header (of_nat (length ?p))" "pending s1 = pending s"
    using all [of "frame_header (of_nat (length ?p))" s] by auto
  obtain s2 where s2: "send_all net c ?p s1 = Some (True, s2)" "sent s2 = sent s1 @ ?p" "pending s2 = pending s1"
    using all [OF kMaxFrame_small, of ?p s1] True unfolding sendable_def by blast
  show ?thesis
    using s1 s2 True by (auto simp: write_frame_def sendable_def frame_bytes_def message_bytes_def)
qed

lemma write_each_duplex:
  assumes "duplex net (tc_sock c) sent pending" and "conn_valid c"
  shows "\<exists>s'. write_each net c ms s = Some s' \<and>
    sent s' = sent s @ message_bytes (filter sendable ms) \<and> pending s' = pending s"
proof (induction ms arbitrary: s)
  case (Cons m ms)
  obtain ok s1 where s1: "write_frame net c (encode_message m) s = Some (ok, s1)"
      "sent s1 = sent s @ message_bytes (filter sendable [m])" "pending s1 = pending s"
    using write_frame_duplex [OF assms] by blast
  then show ?case using Cons [of s1] by (auto simp: message_bytes_def)
qed (simp add: message_bytes_def)

lemma recv_loop_duplex:
  assumes "duplex net sk sent pending" and "n < 2 ^ 31" and "length got \<le> n"
  shows "sent (snd (recv_loop net sk n got s)) = sent s \<and>
    (if n - length got \<le> length (pending s)
     then fst (recv_loop net sk n got s) = Some (got @ take (n - length got) (pending s)) \<and>
       pending (snd (recv_loop net sk n got s)) = drop (n - length got) (pending s)
     else fst (recv_loop net sk n got s) = None)"
  using assms(3)
proof (induction "n - length got" arbitrary: got s rule: less_induct)
  case less
  show ?case
  proof (cases "length got < n")
    case False
    then show ?thesis using less.prems by (simp add: recv_loop.simps)
  next
    case True
    let ?len = "sint (of_nat (n - length got) :: i32)"
    have len: "?len = int (n - length got)"
      using assms(2) True by (intro sint_small) simp
    then have "0 < ?len" using True by simp
    then obtain r s' where r: "ws_recv net sk ?len s = (r, s')" "sent s' = sent s"
      "if pending s = [] then r \<in> {None, Some []}
       else \<exists>bs. r = Some bs \<and> bs \<noteq> [] \<and> length bs \<le> nat ?len \<and> pending s = bs @ pending s'"
      by (rule duplex_recv [OF assms(1)])
    show ?thesis
    proof (cases "pending s = []")
      case True
      then show ?thesis
        using r \<open>length got < n\<close> by (auto simp: recv_loop.simps [of net sk n got s])
    next
      case False
      then obtain bs where bs: "r = Some bs" "bs \<noteq> []" "length bs \<le> n - length got" "pending s = bs @ pending s'"
        using r(3) len by auto
      then have "n - length (got @ bs) < n - length got" "length (got @ bs) \<le> n"
        using True by (auto simp flip: length_greater_0_conv)
      moreover have "recv_loop net sk n got s = recv_loop net sk n (got @ bs) s'"
        using r(1) bs(1,2) True by (subst recv_loop.simps) simp
      ultimately show ?thesis
        using less(1) [of "got @ bs" s'] r(2) bs(3,4) True by simp
    qed
  qed
qed

lemma recv_exact_duplex:
  assumes "duplex net (tc_sock c) sent pending" and "conn_valid c" and "n < 2 ^ 31"
  obtains s' where "sent s' = sent s" "pending s' = drop n (pending s)"
      "recv_exact net c n s = (Some (take n (pending s)), s')" "n \<le> length (pending s)"
  | s' where "sent s' = sent s" "recv_exact net c n s = (None, s')" "length (pending s) < n"
  using recv_loop_duplex [OF assms(1,3), of "[]" s] assms(2)
  by (cases "recv_loop net (tc_sock c) n [] s") (auto simp: recv_exact_def not_le split: if_splits)

lemma read_frame_duplex:
  assumes "duplex net (tc_sock c) sent pending" and "conn_valid c"
  obtains s' where "sent s' = sent s" "read_frame net c s = (None, s')" "next_frame (pending s) = None"
  | f s' where "sent s' = sent s" "read_frame net c s = (Some f, s')" "next_frame (pending s) = Some (f, pending s')"
proof (rule recv_exact_duplex [OF assms, of 4 s])
  fix s1
  assume "sent s1 = sent s" and h: "recv_exact net c 4 s = (None, s1)" "length (pending s) < 4"
  then show thesis
    using that(1) [of s1] by (simp add: read_frame_def next_frame_def)
next
  fix s1
  assume s1: "sent s1 = sent s" "pending s1 = drop 4 (pending s)"
    and h: "recv_exact net c 4 s = (Some (take 4 (pending s)), s1)" "4 \<le> length (pending s)"
  define len where "len = frame_length (take 4 (pending s))"
  have read: "read_frame net c s = (if kMaxFrame < unat len then (None, s1)
      else if 0 < len then recv_exact net c (unat len) s1 else (Some [], s1))"
    by (simp add: read_frame_def h len_def Let_def)
  have cut: "next_frame (pending s) = (if kMaxFrame < unat len \<or> length (pending s1) < unat len then None
      else Some (take (unat len) (pending s1), drop (unat len) (pending s1)))"
    using h(2) by (auto simp: next_frame_def s1 len_def Let_def add.commute)
  show thesis
  proof (cases "kMaxFrame < unat len \<or> len = 0")
    case True
    then show ?thesis using that read cut s1(1) by (auto simp: kMaxFrame_def)
  next
    case False
    then have "0 < len" "unat len < 2 ^ 31" using kMaxFrame_small [of "unat len"] by (simp_all add: word_gt_0)
    then show ?thesis
      using recv_exact_duplex [OF assms \<open>unat len < 2 ^ 31\<close>, of s1] that read cut s1(1) False by (smt (verit) not_le)
  qed
qed simp

section \<open>The process is its transcript\<close>

lemma message_bytes_simps [simp]:
  "message_bytes [] = []" "message_bytes (m # ms) = frame_bytes (encode_message m) @ message_bytes ms"
  by (simp_all add: message_bytes_def)

lemma message_bytes_append [simp]: "message_bytes (ms @ ms') = message_bytes ms @ message_bytes ms'"
  by (simp add: message_bytes_def)

lemma worker_loop_duplex:
  assumes "duplex net (tc_sock c) sent pending" and "conn_valid c"
  shows "\<exists>s'. worker_loop net c w b s = Some (fst (answers_to w b (all_frames (pending s))), s') \<and>
    sent s' = sent s @ message_bytes (filter sendable (snd (answers_to w b (all_frames (pending s)))))"
proof (induction "length (pending s)" arbitrary: s rule: less_induct)
  case less
  show ?case
  proof (rule read_frame_duplex [OF assms, of s])
    fix s1
    assume "sent s1 = sent s" "read_frame net c s = (None, s1)" "next_frame (pending s) = None"
    then show ?thesis
      by (subst worker_loop.simps) (simp add: all_frames.simps [of "pending s"] message_bytes_def)
  next
    fix f s1
    assume s1: "sent s1 = sent s" "read_frame net c s = (Some f, s1)" "next_frame (pending s) = Some (f, pending s1)"
    have frames: "all_frames (pending s) = f # all_frames (pending s1)"
      by (simp add: all_frames.simps [of "pending s"] s1(3))
    show ?thesis
    proof (cases "worker_frame w b f")
      case (Inl e)
      then show ?thesis by (subst worker_loop.simps) (simp add: s1 frames message_bytes_def)
    next
      case (Inr replies)
      obtain s2 where s2: "write_each net c replies s1 = Some s2"
          "sent s2 = sent s @ message_bytes (filter sendable replies)" "pending s2 = pending s1"
        using write_each_duplex [OF assms, of replies s1] s1(1) by auto
      then have "length (pending s2) < length (pending s)"
        using next_frame_shorter [OF s1(3)] by simp
      from less [OF this] show ?thesis
        using s2 Inr by (subst worker_loop.simps) (auto simp: s1(2) frames case_prod_unfold Let_def)
    qed
  qed
qed

lemma worker_session_duplex:
  assumes "duplex net (tc_sock c) sent pending" and "conn_valid c"
  shows "\<exists>s'. worker_session net c wa s = Some (fst (transcript wa (pending s)), s') \<and>
    sent s' = sent s @ message_bytes (filter sendable (snd (transcript wa (pending s))))"
proof -
  define reg where "reg = registration (wa_worker wa) (wa_boot wa) (wa_node wa)"
  have closed: "\<exists>s'. return_from net c code s = (Inr code, s') \<and> sent s' = sent s" for code s
    using duplex_close [OF assms(1)] by (simp add: return_from_def)
  obtain ok s1 where s1: "write_frame net c (encode_message reg) s = Some (ok, s1)"
      "sent s1 = sent s @ message_bytes (filter sendable [reg])" "pending s1 = pending s"
    using write_frame_duplex [OF assms] by blast
  show ?thesis
  proof (rule read_frame_duplex [OF assms, of s1])
    fix s2
    assume "sent s2 = sent s1" "read_frame net c s1 = (None, s2)" "next_frame (pending s1) = None"
    then show ?thesis
      using s1 closed [of 4 s2] by (simp add: worker_session_def transcript_def all_frames.simps flip: reg_def)
  next
    fix ack s2
    assume s2: "sent s2 = sent s1" "read_frame net c s1 = (Some ack, s2)" "next_frame (pending s1) = Some (ack, pending s2)"
    then have frames: "all_frames (pending s) = ack # all_frames (pending s2)"
      by (simp add: all_frames.simps [of "pending s"] s1(3))
    obtain s3 where s3: "worker_loop net c (wa_worker wa) (wa_boot wa) s2 =
          Some (fst (answers_to (wa_worker wa) (wa_boot wa) (all_frames (pending s2))), s3)"
        "sent s3 = sent s2 @ message_bytes (filter sendable (snd (answers_to (wa_worker wa) (wa_boot wa) (all_frames (pending s2)))))"
      using worker_loop_duplex [OF assms] by blast
    show ?thesis
      using s1 s2(1,2) s3 closed [of 5 s2] closed [of 0 s3]
      by (cases "answers_to (wa_worker wa) (wa_boot wa) (all_frames (pending s2))")
         (auto simp: worker_session_def transcript_def frames Let_def simp flip: reg_def
           split: sum.split option.split)
  qed
qed

lemma connect_loop_valid: "connect_loop net ais s = (Some sk, s') \<Longrightarrow> sk \<noteq> INVALID_SOCKET"
  by (induction net ais s rule: connect_loop.induct) (auto simp: Let_def split: prod.splits if_splits)

lemma connect_to_valid: "connect_to net g c h p s = (True, c', g', s') \<Longrightarrow> conn_valid c'"
  by (auto simp: connect_to_def conn_valid_def Let_def split: prod.splits option.splits if_splits dest: connect_loop_valid)

section \<open>A stream of messages\<close>

lemma next_frame_message:
  assumes "sendable m"
  shows "next_frame (frame_bytes (encode_message m) @ rest) = Some (encode_message m, rest)"
proof -
  have len: "unat (of_nat (length (encode_message m)) :: u32) = length (encode_message m)"
    using assms by (intro u32_of_nat) (simp add: sendable_def kMaxFrame_def)
  show ?thesis
    using frame_length_header [of "of_nat (length (encode_message m))" "[]"] len assms
    unfolding next_frame_def frame_bytes_def sendable_def Let_def by simp
qed

lemma all_frames_messages:
  "list_all sendable ms \<Longrightarrow> all_frames (message_bytes ms @ rest) = map encode_message ms @ all_frames rest"
  by (induction ms) (simp_all add: next_frame_message all_frames.simps [of "frame_bytes p @ q" for p q])

lemma answers_to_messages:
  "list_all sendable ms \<Longrightarrow> answers_to w b (map encode_message ms) = (None, concat (map (worker_answer w b) ms))"
proof (induction ms)
  case (Cons m ms)
  then have "length (m_payload m) < 2 ^ 32" by (simp add: sendable_def kMaxFrame_def)
  then show ?case using Cons by (simp add: worker_frame_def decode_encoded)
qed simp

text \<open>
  C28. \<open>rf_worker\<close> is a function of what it is sent. Once connected it always returns, however the
  bytes are cut up: how it ends and everything it writes are its transcript over the frames of the
  stream, the messages too long for a frame left out. On a stream that starts with an
  acknowledgement it accepts and then holds any messages and less than one more header, it exits
  with 0 after its registration and exactly the answers to each message, in order.
\<close>

theorem worker_main_is_transcript:
  assumes "worker_arguments argv = Inr (Inr wa)"
    and "connect_to net False TcpConnection_default ''127.0.0.1'' (wa_port wa) s = (True, c, g, s1)"
    and "duplex net (tc_sock c) sent pending"
  shows "(\<exists>s'. worker_main net argv s = Some (fst (transcript wa (pending s1)), s') \<and>
      sent s' = sent s1 @ message_bytes (filter sendable (snd (transcript wa (pending s1))))) \<and>
    (\<forall>ack ms rest. pending s1 = message_bytes (ack # ms) @ rest \<and> list_all sendable (ack # ms) \<and> length rest < 4 \<and>
       m_kind ack = REGISTER_ACK \<and> has_prefix ''ok'' (m_payload ack) \<longrightarrow>
       transcript wa (pending s1) = (Inr 0, registration (wa_worker wa) (wa_boot wa) (wa_node wa) #
         concat (map (worker_answer (wa_worker wa) (wa_boot wa)) ms)))"
proof (intro conjI allI impI)
  have "conn_valid c" by (rule connect_to_valid [OF assms(2)])
  then show "\<exists>s'. worker_main net argv s = Some (fst (transcript wa (pending s1)), s') \<and>
      sent s' = sent s1 @ message_bytes (filter sendable (snd (transcript wa (pending s1))))"
    using worker_session_duplex [OF assms(3), of wa s1] assms(1,2) by (simp add: worker_main_def)
next
  fix ack ms rest
  assume *: "pending s1 = message_bytes (ack # ms) @ rest \<and> list_all sendable (ack # ms) \<and> length rest < 4 \<and>
       m_kind ack = REGISTER_ACK \<and> has_prefix ''ok'' (m_payload ack)"
  then have "all_frames rest = []" by (simp add: all_frames.simps next_frame_def)
  then have "all_frames (pending s1) = encode_message ack # map encode_message ms"
    using * all_frames_messages [of "ack # ms" rest] by simp
  moreover have "registered (encode_message ack) = Inr True"
    using * by (simp add: registered_def decode_encoded sendable_def kMaxFrame_def)
  ultimately show "transcript wa (pending s1) = (Inr 0, registration (wa_worker wa) (wa_boot wa) (wa_node wa) #
         concat (map (worker_answer (wa_worker wa) (wa_boot wa)) ms))"
    using * by (simp add: transcript_def answers_to_messages)
qed

section \<open>The coordinator\<close>

text \<open>
  \<open>main\<close> up to its accept loop: the exit code, or the coordinator and the connection it listens on.
  \<open>mt\<close> gives the outputs of \<open>std::mt19937_64\<close> for a seed.
\<close>

definition coordinator_start :: "('s, 'ai) winsock \<Rightarrow> (u64 \<Rightarrow> engine) \<Rightarrow> u64 stream \<Rightarrow> i64 stream \<Rightarrow> string list \<Rightarrow> 's \<Rightarrow>
    process_failure + (int + coordinator \<times> TcpConnection \<times> bool) \<times> 's" where
  "coordinator_start net mt mono_clock wall_clock argv s =
     ebind (coordinator_arguments argv) (\<lambda>args.
       case args of
         Inl code \<Rightarrow> Inr (Inl code, s)
       | Inr ca \<Rightarrow>
           (let co = new_coordinator (mt (ca_seed ca)) (mt 7) mono_clock wall_clock;
                (ok, listener, ws_init, s) = listen_on net False TcpConnection_default (ca_port ca) s
            in if \<not> ok then Inr (Inl 3, s) else Inr (Inr (co, listener, ws_init), s)))"

text \<open>
  The accept loop has ended: \<open>tcp_shutdown\<close>, then the listener is destroyed. The connections of the
  workers stay with their threads, which are detached.
\<close>

definition coordinator_stop :: "('s, 'ai) winsock \<Rightarrow> TcpConnection \<Rightarrow> bool \<Rightarrow> 's \<Rightarrow> int \<times> 's" where
  "coordinator_stop net listener ws_init s =
     (let (ws_init, s) = tcp_shutdown net ws_init s;
          (_, s) = conn_close net listener s
      in (0, s))"

text \<open>A connection's bytes, as the events of its thread.\<close>

definition connection_events :: "nat \<Rightarrow> bytes \<Rightarrow> net_event list" where
  "connection_events n bs = map (Frame n) (all_frames bs) @ [Closed n]"

lemma listen_on_opened:
  assumes "tracks_sockets net opened" and "listen_on net g c p s = (ok, c', g', s')"
  shows "if ok then conn_valid c' \<and> tc_sock c' \<notin> opened s \<and> opened s' = insert (tc_sock c') (opened s)
    else opened s' = opened s"
  using opening_leaks_nothing [OF assms(1), of g c undefined p s ok c' g' s'] assms(2) by presburger

lemma coordinator_starts:
  assumes "tracks_sockets net opened"
    and "coordinator_start net mt mono_clock wall_clock argv s = Inr (res, s')"
  shows "case res of
     Inl code \<Rightarrow> code \<in> {2, 3} \<and> opened s' = opened s
   | Inr (co, listener, ws_init) \<Rightarrow> coordinator_ok co \<and> conn_valid listener \<and> ws_init \<and>
       opened s' = insert (tc_sock listener) (opened s)"
proof -
  obtain args where args: "coordinator_arguments argv = Inr args"
    using assms(2) by (auto simp: coordinator_start_def ebind_Inr)
  show ?thesis
  proof (cases args)
    case (Inl code)
    then have "code = 2" using args by (auto simp: coordinator_arguments_def ebind_Inr split: if_splits)
    then show ?thesis using assms(2) by (auto simp: coordinator_start_def args Inl)
  next
    case (Inr ca)
    obtain ok c g s1 where l: "listen_on net False TcpConnection_default (ca_port ca) s = (ok, c, g, s1)"
      by (metis prod_cases4)
    then have "ok \<Longrightarrow> g"
      by (auto simp: listen_on_def tcp_init_def Let_def split: prod.splits if_splits)
    then show ?thesis
      using assms(2) listen_on_opened [OF assms(1) l]
      by (auto simp: coordinator_start_def args Inr l new_coordinator_ok split: if_splits)
  qed
qed

section \<open>A concrete run\<close>

text \<open>
  A library whose state is what has been sent and what is pending; every address is reachable, and
  at most three bytes go out and two come in at a time.
\<close>

definition two_way :: "(bytes \<times> bytes, unit) winsock" where
  "two_way = \<lparr>ws_startup = (\<lambda>s. (True, s)), ws_cleanup = (\<lambda>s. s), ws_getaddrinfo = (\<lambda>h p s. (Some [()], s)),
     ws_freeaddrinfo = (\<lambda>l s. s), ws_socket = (\<lambda>ai s. (7, s)), ws_connect = (\<lambda>sk ai s. (True, s)),
     ws_reuseaddr = (\<lambda>sk s. s), ws_bind = (\<lambda>sk p s. (True, s)), ws_listen = (\<lambda>sk s. (True, s)),
     ws_accept = (\<lambda>sk s. (7, s)), ws_timeout = (\<lambda>sk t s. s), ws_closesocket = (\<lambda>sk s. s),
     ws_send = (\<lambda>sk data len (out, inp). let r = min 3 (nat len) in (Some r, out @ take r data, inp)),
     ws_recv = (\<lambda>sk len (out, inp). let r = min 2 (nat len) in (Some (take r inp), out, drop r inp))\<rparr>"

lemma two_way_duplex: "duplex two_way sk fst snd"
  by (auto simp: duplex_def two_way_def Let_def min_def)

definition demo_ack :: Message where
  "demo_ack = Message_default\<lparr>m_kind := REGISTER_ACK, m_payload := ''ok worker registered''\<rparr>"

lemma demo_worker_arguments:
  "worker_arguments [''--port'', ''9'', ''--worker'', id_str (MkId 0 1 :: WorkerId)] =
     Inr (Inr \<lparr>wa_port = 9, wa_worker = MkId 0 1, wa_boot = null_id, wa_node = null_id\<rparr>)"
  by (simp add: worker_arguments_def number_simps is_null_def null_id_def)

theorem worker_main_is_transcript_witness:
  "\<exists>s'. worker_main two_way [''--port'', ''9'', ''--worker'', id_str (MkId 0 1 :: WorkerId)]
      ([], message_bytes [demo_ack, Message_default\<lparr>m_kind := PING\<rparr>] @ [0, 0]) = Some (Inr 0, s') \<and>
    fst s' = message_bytes (filter sendable [registration (MkId 0 1) null_id null_id, Message_default\<lparr>m_kind := PONG\<rparr>])"
proof -
  let ?wa = "\<lparr>wa_port = 9, wa_worker = MkId 0 1, wa_boot = null_id, wa_node = null_id\<rparr> :: worker_args"
  let ?ms = "[Message_default\<lparr>m_kind := PING\<rparr>]"
  let ?in = "message_bytes (demo_ack # ?ms) @ [0, 0]"
  have "connect_to two_way False TcpConnection_default ''127.0.0.1'' (wa_port ?wa) ([], ?in) = (True, \<lparr>tc_sock = 7\<rparr>, True, ([], ?in))"
    by (simp add: connect_to_def tcp_init_def two_way_def Let_def INVALID_SOCKET_def TcpConnection_default_def)
  note main = worker_main_is_transcript [OF demo_worker_arguments this two_way_duplex]
  have ack: "list_all sendable (demo_ack # ?ms)" "m_kind demo_ack = REGISTER_ACK" "has_prefix ''ok'' (m_payload demo_ack)"
    by (simp_all add: demo_ack_def sendable_def kMaxFrame_def Message_default_def has_prefix_def)
  have "transcript ?wa ?in = (Inr 0, [registration (MkId 0 1) null_id null_id, Message_default\<lparr>m_kind := PONG\<rparr>])"
    using main [THEN conjunct2, rule_format, of demo_ack ?ms "[0, 0]"] ack
    by (simp add: worker_answer_def message_kinds)
  then show ?thesis
    using main [THEN conjunct1] by auto
qed

end
