(* ===== verification/Deployment.thy ===== *)
theory Deployment
  imports Races Mains
begin

text \<open>
  A deployment: the coordinator of \<open>apps/distributed/rf_coordinator.cpp\<close>, any number of workers of
  \<open>apps/distributed/rf_worker.cpp\<close> and any number of clients, over the connections between them. The
  coordinator takes single steps of its threads (\<open>Threads\<close>), in any order; a worker takes one frame at a
  time. A connection carries frames whole and in order and loses none until its peer hangs up; a
  message that is too long for a frame is never written (\<open>write_frame\<close> refuses it before its first
  byte). What two threads that write to one connection at once do to a frame is in \<open>Writers\<close>.
\<close>

section \<open>Peers and connections\<close>

text \<open>A worker that has connected waits for its acknowledgement, then serves.\<close>

datatype worker_phase = Joining | Joined

datatype peer = Nobody | Worker_peer WorkerId WorkerBootId worker_phase | Client_peer

text \<open>
  \<open>dp_proc\<close> is the coordinator process, whose \<open>pr_inbox\<close> has what is under way to it; \<open>dp_out\<close> has the
  frames under way to a peer; \<open>dp_open\<close> says whether the peer still has its end of the connection.
\<close>

record deployment =
  dp_proc :: process
  dp_peer :: "nat \<Rightarrow> peer"
  dp_open :: "nat \<Rightarrow> bool"
  dp_out :: "nat \<Rightarrow> bytes list"

definition deploy :: "coordinator \<Rightarrow> deployment" where
  "deploy co = \<lparr>dp_proc = idle co, dp_peer = (\<lambda>_. Nobody), dp_open = (\<lambda>_. False), dp_out = (\<lambda>_. [])\<rparr>"

text \<open>
  What can happen next: a worker or a client connects, a client sends a command, the thread of a
  connection takes its next step (and the function says to which connections a write would succeed
  then), a peer takes the next frame it was sent, a peer hangs up. An action whose moment has not come
  changes nothing.
\<close>

datatype action =
    Start_worker nat WorkerId WorkerBootId NodeId
  | Dial nat
  | Command nat Message
  | Coordinator_turn "nat \<Rightarrow> bool" nat
  | Peer_reads nat
  | Hang_up nat

section \<open>One action\<close>

definition written :: "Message list \<Rightarrow> bytes list" where
  "written ms = map encode_message (filter sendable ms)"

definition frames_to :: "nat \<Rightarrow> out \<Rightarrow> bytes list" where
  "frames_to n out = written (map snd (filter (\<lambda>(k, _). k = n) out))"

definition arrive :: "nat \<Rightarrow> arrival list \<Rightarrow> process \<Rightarrow> process" where
  "arrive n as p = p\<lparr>pr_inbox := (pr_inbox p)(n := pr_inbox p n @ as)\<rparr>"

definition connect_peer :: "nat \<Rightarrow> peer \<Rightarrow> bytes list \<Rightarrow> deployment \<Rightarrow> deployment" where
  "connect_peer n p fs d =
     (if dp_peer d n \<noteq> Nobody then d
      else d\<lparr>dp_proc := arrive n (map Arrived fs) (dp_proc d),
             dp_peer := (dp_peer d)(n := p), dp_open := (dp_open d)(n := True)\<rparr>)"

definition hang_up :: "nat \<Rightarrow> deployment \<Rightarrow> deployment" where
  "hang_up n d = (if dp_open d n
     then d\<lparr>dp_proc := arrive n [Ended] (dp_proc d), dp_open := (dp_open d)(n := False)\<rparr> else d)"

definition coordinate :: "(nat \<Rightarrow> bool) \<Rightarrow> nat \<Rightarrow> deployment \<Rightarrow> thread_failure + deployment" where
  "coordinate up n d = ebind (take_turn up (Turn n) (dp_proc d)) (\<lambda>(p, out).
     Inr (d\<lparr>dp_proc := p, dp_out := (\<lambda>k. dp_out d k @ frames_to k out)\<rparr>))"

text \<open>
  The worker takes the first frame it reads for its acknowledgement; if it is not one, the worker
  ends. A client looks at nothing it is sent.
\<close>

definition peer_reads :: "nat \<Rightarrow> deployment \<Rightarrow> thread_failure + deployment" where
  "peer_reads n d =
     (case dp_out d n of
        [] \<Rightarrow> Inr d
      | f # fs \<Rightarrow>
          (if \<not> dp_open d n then Inr d
           else let d' = d\<lparr>dp_out := (dp_out d)(n := fs)\<rparr> in
             case dp_peer d n of
               Worker_peer w b Joining \<Rightarrow> ebind (as_thread (registered f)) (\<lambda>ok.
                 Inr (if ok then d'\<lparr>dp_peer := (dp_peer d)(n := Worker_peer w b Joined)\<rparr> else hang_up n d'))
             | Worker_peer w b Joined \<Rightarrow> ebind (as_thread (worker_frame w b f)) (\<lambda>replies.
                 Inr (d'\<lparr>dp_proc := arrive n (map Arrived (written replies)) (dp_proc d)\<rparr>))
             | _ \<Rightarrow> Inr d'))"

definition act :: "action \<Rightarrow> deployment \<Rightarrow> thread_failure + deployment" where
  "act ac d =
     (case ac of
        Start_worker n w b nid \<Rightarrow> Inr (connect_peer n (Worker_peer w b Joining) (written [registration w b nid]) d)
      | Dial n \<Rightarrow> Inr (connect_peer n Client_peer [] d)
      | Command n m \<Rightarrow> Inr (if dp_peer d n = Client_peer \<and> dp_open d n
          then d\<lparr>dp_proc := arrive n (map Arrived (written [m])) (dp_proc d)\<rparr> else d)
      | Coordinator_turn up n \<Rightarrow> coordinate up n d
      | Peer_reads n \<Rightarrow> peer_reads n d
      | Hang_up n \<Rightarrow> Inr (hang_up n d))"

fun run_actions :: "action list \<Rightarrow> deployment \<Rightarrow> thread_failure + deployment" where
  "run_actions [] d = Inr d"
| "run_actions (ac # acs) d = ebind (act ac d) (run_actions acs)"

section \<open>Messages\<close>

text \<open>A command as \<open>rf_coordinator\<close> expects it.\<close>

definition proper_command :: "Message \<Rightarrow> bool" where
  "proper_command m \<longleftrightarrow> m_kind m \<noteq> REGISTER \<and> well_formed_control m"

definition is_answer :: "Message \<Rightarrow> bool" where
  "is_answer a \<longleftrightarrow> (\<exists>w b m. a \<in> set (worker_answer w b m))"

text \<open>A frame that carries a message with \<open>P\<close>.\<close>

definition carries :: "(Message \<Rightarrow> bool) \<Rightarrow> bytes \<Rightarrow> bool" where
  "carries P f \<longleftrightarrow> (\<exists>m. f = encode_message m \<and> sendable m \<and> P m)"

abbreviation any_frame :: "bytes \<Rightarrow> bool" where
  "any_frame \<equiv> carries (\<lambda>_. True)"

lemma sendable_length: "sendable m \<Longrightarrow> length (m_payload m) < 2 ^ 31"
  by (simp add: sendable_def kMaxFrame_def)

lemma written_carries: "list_all P ms \<Longrightarrow> list_all (carries P) (written ms)"
  by (auto simp: written_def carries_def list_all_iff)

lemma written_any [simp]: "list_all any_frame (written ms)"
  by (rule written_carries) (simp add: list_all_iff)

lemma frames_any [simp]: "list_all any_frame (frames_to n out)"
  by (simp add: frames_to_def)

lemma written_Nil [simp]: "written [] = []" "frames_to n [] = []"
  by (simp_all add: written_def frames_to_def)

lemma frames_to_append: "frames_to n (out @ out') = frames_to n out @ frames_to n out'"
  by (simp add: frames_to_def written_def)

lemma frames_to_message: "frames_to n out \<noteq> [] \<Longrightarrow> \<exists>m. (n, m) \<in> set out"
  by (auto simp: frames_to_def written_def filter_empty_conv)

text \<open>What a worker sends is what the coordinator can read.\<close>

lemma registration_proper:
  "m_kind (registration w b nid) = REGISTER" "length (m_payload (registration w b nid)) < 2 ^ 32"
  "m_worker (registration w b nid) = w" "well_formed_register (registration w b nid)"
  "written [registration w b nid] = [encode_message (registration w b nid)]"
proof -
  show "well_formed_register (registration w b nid)"
    unfolding well_formed_register_def Let_def
    by (simp add: registration_payload parsing_simps)
qed (simp_all add: registration_def Message_default_def written_def sendable_def kMaxFrame_def)

lemma answer_proper: "is_answer a \<Longrightarrow> well_formed_report a"
  unfolding is_answer_def using report_fails worker_handled by (metis isl_def sum.disc(2))

section \<open>What a thread does to its connection and to others\<close>

text \<open>
  \<open>safely n s ends role t\<close>: whatever the other threads do between its steps, as long as the connections
  stay in order, the thread \<open>t\<close> of connection \<open>n\<close>, which now serves \<open>role\<close>, fails at nothing it reads; it
  serves nothing or \<open>s\<close> all the way and \<open>ends\<close> holds of what it serves when it waits again, and once it
  holds it stays; and it writes to its own connection only while it serves, else only to connections
  on which a worker is served.
\<close>

definition directed :: "nat \<Rightarrow> conn_thread option \<Rightarrow> coordinator \<Rightarrow> out \<Rightarrow> bool" where
  "directed n role co out \<longleftrightarrow> (\<forall>(i, m) \<in> set out. i = n \<and> role \<noteq> None \<or>
     (\<exists>w. om_find (co_threads co) i = Some (Serves_worker w)))"

inductive safely :: "nat \<Rightarrow> conn_thread \<Rightarrow> (conn_thread option \<Rightarrow> bool) \<Rightarrow> conn_thread option \<Rightarrow> thread \<Rightarrow> bool"
  for n s ends where
  safely_waiting: "ends role \<Longrightarrow> safely n s ends role Waiting"
| safely_dangling: "safely n s ends role (Crashed Dangling_pointer)"
| safely_next: "(\<And>co co' out k. well_wired co \<Longrightarrow> om_find (co_threads co) n = role \<Longrightarrow> f co = (co', out, k) \<Longrightarrow>
      directed n role co out \<and> om_find (co_threads co') n \<in> {None, Some s} \<and>
      (ends role \<longrightarrow> ends (om_find (co_threads co') n)) \<and>
      safely n s ends (om_find (co_threads co') n) k) \<Longrightarrow>
    role \<in> {None, Some s} \<Longrightarrow> safely n s ends role (Next f)"

inductive_cases safely_nextE: "safely n s ends role (Next f)"
inductive_simps safely_simps [simp]: "safely n s ends role Waiting" "safely n s ends role (Crashed x)"

text \<open>A step that leaves the connections alone and writes nothing.\<close>

abbreviation role_ok :: "conn_thread \<Rightarrow> conn_thread option \<Rightarrow> bool" where
  "role_ok s role \<equiv> role \<in> {None, Some s}"

lemma safely_quiet:
  assumes "role_ok s role"
    and "\<And>co. co_threads (fst (f co)) = co_threads co \<and> fst (snd (f co)) = [] \<and> safely n s ends role (snd (snd (f co)))"
  shows "safely n s ends role (Next f)"
proof (rule safely_next)
  fix co co' out k
  assume "om_find (co_threads co) n = role" "f co = (co', out, k)"
  with assms(2) [of co] assms(1)
  show "directed n role co out \<and> role_ok s (om_find (co_threads co') n) \<and>
      (ends role \<longrightarrow> ends (om_find (co_threads co') n)) \<and> safely n s ends (om_find (co_threads co') n) k"
    by (simp add: directed_def)
qed (rule assms(1))

lemma safely_attempt: "parses x \<Longrightarrow> (\<And>v. x = Inr v \<Longrightarrow> safely n s ends role (k v)) \<Longrightarrow> safely n s ends role (attempt x k)"
  by (cases x) (simp_all add: attempt_def)

lemma safely_steps:
  "role_ok s role \<Longrightarrow> (\<And>t. safely n s ends role (k t)) \<Longrightarrow> safely n s ends role (call monotonic_ns k)"
  "role_ok s role \<Longrightarrow> (\<And>u. safely n s ends role (k1 u)) \<Longrightarrow> safely n s ends role (call wall_ns k1)"
  "role_ok s role \<Longrightarrow> (\<And>x. safely n s ends role (k2 x)) \<Longrightarrow> safely n s ends role (operate f2 k2)"
  "role_ok s role \<Longrightarrow> (\<And>x. safely n s ends role (k3 x)) \<Longrightarrow> safely n s ends role (look f3 k3)"
  "role_ok s role \<Longrightarrow> (\<And>b. safely n s ends role (k4 b)) \<Longrightarrow> safely n s ends role (points lookup k4)"
  "role_ok s role \<Longrightarrow> (\<And>x. safely n s ends role (k5 x)) \<Longrightarrow> safely n s ends role (deref lookup field k5)"
  "role_ok s role \<Longrightarrow> (\<And>pid. safely n s ends role (k6 pid)) \<Longrightarrow> safely n s ends role
     (call (\<lambda>co. case random_id (co_placement_rng co) of (pid, g) \<Rightarrow> (pid, co\<lparr>co_placement_rng := g\<rparr>)) k6)"
  "role_ok s role \<Longrightarrow> safely n s ends role k7 \<Longrightarrow> safely n s ends role (modify (stash_result i r) k7)"
  unfolding step_defs
  by (rule safely_quiet; auto simp: case_prod_unfold stash_result_def split: option.split)+

lemma safely_write:
  "safely n s ends (Some s) k \<Longrightarrow> safely n s ends (Some s) (write_frame_to n m k)"
  unfolding write_frame_to_def by (rule safely_next) (auto simp: directed_def)

lemma safely_send:
  "role_ok s role \<Longrightarrow> (\<And>b. safely n s ends role (k b)) \<Longrightarrow> safely n s ends role (send up w m k)"
  unfolding send_def send_to_worker_def
  by (rule safely_next) (auto simp: directed_def well_wired_def split: option.splits if_splits)

lemma safely_own:
  "role_ok s role \<Longrightarrow> safely n s ends role (k role) \<Longrightarrow>
   safely n s ends role (look (\<lambda>co. om_find (co_threads co) n) k)"
  unfolding look_def call_def by (rule safely_next) (auto simp: directed_def)

text \<open>The steps that change what a thread serves.\<close>

lemma safely_modify:
  assumes "\<And>co. well_wired co \<Longrightarrow> om_find (co_threads (h co)) n = role'" and "role_ok s role" and "role_ok s role'"
    and "ends role \<Longrightarrow> ends role'" and "safely n s ends role' k"
  shows "safely n s ends role (modify h k)"
  unfolding modify_def call_def by (rule safely_next) (use assms in \<open>auto simp: directed_def\<close>)

lemmas safely_rules = safely_attempt safely_steps safely_send

section \<open>The handlers\<close>

abbreviation client_thread :: "nat \<Rightarrow> conn_thread option \<Rightarrow> thread \<Rightarrow> bool" where
  "client_thread n \<equiv> safely n Serves_control (\<lambda>_. True)"

abbreviation serving :: "nat \<Rightarrow> thread \<Rightarrow> bool" where
  "serving n \<equiv> client_thread n (Some Serves_control)"

lemma safely_acting:
  "role_ok s role \<Longrightarrow> (\<And>w b. safely n s ends role (k w b)) \<Longrightarrow> safely n s ends role (acting m k)"
  unfolding acting_def by (auto intro!: safely_steps)

lemma serving_start_replica: "serving n (thread_start_replica up e m w)"
  unfolding thread_start_replica_def by (auto intro!: safely_rules)

lemma serving_set_and_provision:
  "m_kind m = CREATE_SET \<Longrightarrow> well_formed_control m \<Longrightarrow> serving n (thread_create_set e m n)"
  "m_kind m = PROVISION \<Longrightarrow> well_formed_control m \<Longrightarrow> serving n (thread_provision up e m n)"
proof -
  assume "m_kind m = CREATE_SET" "well_formed_control m"
  then have "parses (build_set m)" using build_set_fails [of m] by (simp add: parses_def)
  then show "serving n (thread_create_set e m n)"
    unfolding thread_create_set_def by (auto intro!: safely_rules safely_write)
next
  assume "m_kind m = PROVISION" "well_formed_control m"
  then show "serving n (thread_provision up e m n)"
    unfolding thread_provision_def well_formed_control_def Let_def
    by (auto simp: parsing_simps message_kinds intro!: safely_rules safely_write serving_start_replica)
qed

lemma serving_promote_and_failover:
  "m_kind m = PROMOTE \<Longrightarrow> well_formed_control m \<Longrightarrow> serving n (thread_promote e m n)"
  "m_kind m = FAILOVER \<Longrightarrow> well_formed_control m \<Longrightarrow> serving n (thread_failover e m n)"
  unfolding thread_promote_def thread_failover_def well_formed_control_def Let_def
  by (auto simp: parsing_simps message_kinds intro!: safely_rules safely_write safely_acting)

lemma serving_others:
  "serving n (thread_drain e m n)" "serving n (thread_execute up e m n)" "serving n (thread_query e m n)"
  "serving n (thread_snapshot e m n)"
  unfolding thread_drain_def thread_execute_def thread_query_def thread_snapshot_def Let_def
  by (auto intro!: safely_rules safely_write safely_acting)

lemma serving_control: "well_formed_control m \<Longrightarrow> serving n (thread_control up e m n)"
  unfolding thread_control_def
  by (auto intro!: serving_set_and_provision serving_promote_and_failover serving_others safely_write)

definition served :: "conn_thread option \<Rightarrow> bool" where
  "served role \<longleftrightarrow> role \<noteq> None"

definition unserved :: "conn_thread option \<Rightarrow> bool" where
  "unserved role \<longleftrightarrow> role = None"

lemma served_simps [simp]: "served (Some s)" "\<not> served None" "unserved None" "\<not> unserved (Some s)"
  by (simp_all add: served_def unserved_def)

lemma reporting:
  assumes "well_formed_report m"
  shows "safely n (Serves_worker w) served (Some (Serves_worker w)) (thread_worker m n)"
  using assms
  unfolding thread_worker_def thread_warm_done_def thread_health_def thread_readiness_def thread_result_def
    thread_pong_def well_formed_report_def Let_def warming_from_def
  by (auto simp: parsing_simps message_kinds intro!: safely_rules safely_write split: option.split)

lemma registering:
  assumes "well_formed_register m"
  shows "safely n (Serves_worker (m_worker m)) served None (thread_register e m n)"
proof -
  have enter: "safely n (Serves_worker w) served None (modify (\<lambda>co. co\<lparr>co_conns := om_put w n (co_conns co),
      co_threads := om_put n (Serves_worker w) (co_threads co)\<rparr>) k)"
    if "safely n (Serves_worker w) served (Some (Serves_worker w)) k" for w k
    by (rule safely_modify [where role' = "Some (Serves_worker w)"]) (use that in \<open>auto simp: well_wired_def\<close>)
  have "parses (build_worker_reg m)"
    using assms unfolding build_worker_reg_def well_formed_register_def Let_def by (auto simp: parsing_simps)
  then show ?thesis
    unfolding thread_register_def
    by (auto simp: build_worker_reg_id intro!: safely_rules safely_write enter)
qed

lemma leaving:
  assumes "role_ok s role" and "ends None"
  shows "safely n s ends role (thread_closed n)"
  unfolding thread_closed_def
  by (rule safely_own [OF assms(1)])
     (use assms in \<open>auto simp: well_wired_def om_find_erase intro!: safely_rules safely_modify split: conn_thread.split\<close>)

section \<open>What arrives\<close>

lemma registration_arrives:
  "safely n (Serves_worker w) served None (thread_of up e n (Arrived (encode_message (registration w b nid))))"
  using registration_proper(1,2) registering [OF registration_proper(4) [of w b nid], of n e]
  by (auto simp: thread_of_def thread_frame_def decode_encoded registration_proper(3) intro!: safely_own)

lemma answer_arrives:
  assumes "carries is_answer f"
  shows "safely n (Serves_worker w) served (Some (Serves_worker w)) (thread_of up e n (Arrived f))"
proof -
  obtain a where a: "f = encode_message a" "sendable a" "is_answer a" using assms by (auto simp: carries_def)
  then have "length (m_payload a) < 2 ^ 32" using sendable_length by fastforce
  then show ?thesis
    using reporting [OF answer_proper [OF a(3)]] 
    by (auto simp: a(1) thread_of_def thread_frame_def decode_encoded intro!: safely_own)
qed

lemma command_arrives:
  assumes "carries proper_command f" and "role_ok Serves_control role"
  shows "client_thread n role (thread_of up e n (Arrived f))"
proof -
  obtain m where m: "f = encode_message m" "sendable m" "proper_command m" using assms(1) by (auto simp: carries_def)
  then have "length (m_payload m) < 2 ^ 32" using sendable_length by fastforce
  moreover have "serving n (thread_control up e m n)" "m_kind m \<noteq> REGISTER"
    using m(3) serving_control by (simp_all add: proper_command_def)
  ultimately show ?thesis
    using assms(2) by (auto simp: m(1) thread_of_def thread_frame_def decode_encoded well_wired_def
       intro!: safely_own safely_modify)
qed

section \<open>The invariant\<close>

fun command_arrival :: "arrival \<Rightarrow> bool" where
  "command_arrival (Arrived f) \<longleftrightarrow> carries proper_command f"
| "command_arrival Ended \<longleftrightarrow> True"

text \<open>What is left of a connection's input when its peer has hung up.\<close>

definition hung :: "bool \<Rightarrow> arrival list" where
  "hung is_open = (if is_open then [] else [Ended])"

text \<open>
  What a worker's connection looks like: the registration has not been read; or it was read and only
  answers follow; or the end was read.
\<close>

definition worker_stage :: "nat \<Rightarrow> WorkerId \<Rightarrow> WorkerBootId \<Rightarrow> conn_thread option \<Rightarrow> thread \<Rightarrow> bool \<Rightarrow> arrival list \<Rightarrow> bool" where
  "worker_stage n w b role t is_open inbox \<longleftrightarrow>
     role = None \<and> t = Waiting \<and>
       (\<exists>nid. inbox = Arrived (encode_message (registration w b nid)) # hung is_open) \<or>
     safely n (Serves_worker w) served role t \<and>
       (\<exists>fs. list_all (carries is_answer) fs \<and> inbox = map Arrived fs @ hung is_open) \<or>
     safely n (Serves_worker w) unserved role t \<and> \<not> is_open \<and> inbox = []"

fun connection_ok :: "nat \<Rightarrow> conn_thread option \<Rightarrow> thread \<Rightarrow> peer \<Rightarrow> bool \<Rightarrow> arrival list \<Rightarrow> bytes list \<Rightarrow> bool" where
  "connection_ok n role t Nobody is_open inbox outs \<longleftrightarrow>
     role = None \<and> t = Waiting \<and> \<not> is_open \<and> inbox = [] \<and> outs = []"
| "connection_ok n role t Client_peer is_open inbox outs \<longleftrightarrow>
     role_ok Serves_control role \<and> client_thread n role t \<and> list_all command_arrival inbox"
| "connection_ok n role t (Worker_peer w b ph) is_open inbox outs \<longleftrightarrow>
     role_ok (Serves_worker w) role \<and> worker_stage n w b role t is_open inbox \<and> list_all any_frame outs \<and>
     (is_open \<and> role = None \<longrightarrow> outs = [] \<and> ph = Joining)"

abbreviation role_of :: "process \<Rightarrow> nat \<Rightarrow> conn_thread option" where
  "role_of p n \<equiv> om_find (co_threads (pr_shared p)) n"

definition deployment_ok :: "deployment \<Rightarrow> bool" where
  "deployment_ok d \<longleftrightarrow> calm (dp_proc d) \<and> process_wired (dp_proc d) \<and>
     (\<forall>n. connection_ok n (role_of (dp_proc d) n) (pr_thread (dp_proc d) n) (dp_peer d n) (dp_open d n)
        (pr_inbox (dp_proc d) n) (dp_out d n))"

lemma deploy_ok: "deployment_ok (deploy (new_coordinator gen prng mono_clock wall_clock))"
proof -
  let ?co = "new_coordinator gen prng mono_clock wall_clock"
  have "calm (idle ?co)" by (rule idle_calm) (simp add: new_coordinator_def new_controller_ok)
  moreover have "process_wired (idle ?co)"
    by (simp add: process_wired_def well_wired_def new_coordinator_def wired_waiting)
  ultimately show ?thesis by (simp add: deployment_ok_def deploy_def) (simp add: new_coordinator_def)
qed

text \<open>A thread that waits takes what has arrived.\<close>

lemma stage_taken:
  assumes "worker_stage n w b role Waiting is_open (a # inbox)" and "role_ok (Serves_worker w) role"
  shows "worker_stage n w b role (thread_of up e n a) is_open inbox"
proof -
  consider nid where "role = None" "a = Arrived (encode_message (registration w b nid))" "inbox = hung is_open"
    | fs where "served role" "list_all (carries is_answer) fs" "a # inbox = map Arrived fs @ hung is_open"
    using assms(1) unfolding worker_stage_def by auto
  then show ?thesis
  proof cases
    case 1
    then show ?thesis
      using registration_arrives [of n w up e b nid] unfolding worker_stage_def by (auto intro!: exI [of _ "[]"])
  next
    case 2
    then have role: "role = Some (Serves_worker w)" using assms(2) by auto
    show ?thesis
    proof (cases fs)
      case Nil
      then have "a = Ended" "inbox = []" "\<not> is_open" using 2(3) by (auto simp: hung_def split: if_splits)
      then show ?thesis
        using leaving [of role "Serves_worker w" unserved n] role by (simp add: worker_stage_def thread_of_def)
    next
      case (Cons f fs')
      then show ?thesis
        using 2(2,3) answer_arrives [of f n w up e] unfolding worker_stage_def role by auto
    qed
  qed
qed

lemma arrival_taken:
  assumes "connection_ok n role Waiting p is_open (a # inbox) outs"
  shows "connection_ok n role (thread_of up e n a) p is_open inbox outs"
proof (cases p)
  case Client_peer
  then show ?thesis
    using assms command_arrives [of _ role n up e] leaving [of role Serves_control "\<lambda>_. True" n]
    by (cases a) (auto simp: thread_of_def)
next
  case (Worker_peer w b ph)
  then show ?thesis using assms stage_taken [of n w b role is_open a inbox up e] by simp
qed (use assms in simp)

text \<open>A thread takes a step.\<close>

lemma unserved_silent:
  assumes "directed n None co out" and "om_find (co_threads co) n = None"
  shows "frames_to n out = []"
  using assms frames_to_message [of n out] by (fastforce simp: directed_def)

lemma step_taken:
  assumes "connection_ok n role (Next f) p is_open inbox outs" and "well_wired co" and "om_find (co_threads co) n = role"
    and "f co = (co', out, k)"
  shows "connection_ok n (om_find (co_threads co') n) k p is_open inbox (outs @ frames_to n out)" and "directed n role co out"
proof -
  let ?role' = "om_find (co_threads co') n"
  have follows: "directed n role co out \<and> role_ok s ?role' \<and> (ends role \<longrightarrow> ends ?role') \<and> safely n s ends ?role' k"
    if "safely n s ends role (thread.Next f)" for s ends
    by (rule safely_nextE [OF that]) (use assms(2-4) in blast)
  have "connection_ok n ?role' k p is_open inbox (outs @ frames_to n out) \<and> directed n role co out"
  proof (cases p)
    case (Worker_peer w b ph)
    note ok = assms(1) [unfolded Worker_peer connection_ok.simps]
    have stage: "worker_stage n w b ?role' k is_open inbox \<and> role_ok (Serves_worker w) ?role' \<and> directed n role co out \<and>
        (is_open \<and> ?role' = None \<longrightarrow> role = None)"
      using ok follows [of "Serves_worker w" served] follows [of "Serves_worker w" unserved]
      unfolding worker_stage_def by (auto simp: served_def)
    moreover have "is_open \<and> ?role' = None \<longrightarrow> outs @ frames_to n out = [] \<and> ph = Joining"
      using stage ok unserved_silent [of n co out] assms(3) by auto
    ultimately show ?thesis using ok by (simp add: Worker_peer)
  qed (use assms(1) follows in auto)
  then show "connection_ok n ?role' k p is_open inbox (outs @ frames_to n out)" "directed n role co out"
    by blast+
qed

text \<open>Further frames for a connection on which a worker is served change nothing about it.\<close>

lemma connection_further:
  assumes "connection_ok n role t p is_open inbox outs" and "new \<noteq> [] \<Longrightarrow> \<exists>w. role = Some (Serves_worker w)"
    and "list_all any_frame new"
  shows "connection_ok n role t p is_open inbox (outs @ new)"
  using assms by (cases p; cases "new = []") auto

lemma not_crashed:
  assumes "deployment_ok d"
  shows "pr_thread (dp_proc d) n \<noteq> Crashed x"
proof
  assume t: "pr_thread (dp_proc d) n = Crashed x"
  have "tame (co_epoch (pr_shared (dp_proc d))) (co_ctrl (pr_shared (dp_proc d))) (Crashed x)"
    using assms t unfolding deployment_ok_def calm_def by metis
  moreover have "connection_ok n (role_of (dp_proc d) n) (Crashed x) (dp_peer d n) (dp_open d n) (pr_inbox (dp_proc d) n) (dp_out d n)"
    using assms t unfolding deployment_ok_def by metis
  then have "x = Dangling_pointer" by (cases "dp_peer d n") (auto simp: worker_stage_def)
  ultimately show False by simp
qed

lemma coordinate_ok:
  assumes "deployment_ok d"
  shows "\<exists>d'. coordinate up n d = Inr d' \<and> deployment_ok d'"
proof -
  define p where "p = dp_proc d"
  have calm: "calm p" and wired: "process_wired p"
    and conns: "\<And>i. connection_ok i (role_of p i) (pr_thread p i) (dp_peer d i) (dp_open d i) (pr_inbox p i) (dp_out d i)"
    using assms unfolding deployment_ok_def p_def by blast+
  have good: "\<exists>d'. coordinate up n d = Inr d' \<and> deployment_ok d'"
    if turn: "take_turn up (Turn n) p = Inr (p', out)" and after: "\<And>i. connection_ok i (role_of p' i) (pr_thread p' i)
        (dp_peer d i) (dp_open d i) (pr_inbox p' i) (dp_out d i @ frames_to i out)" for p' out
    using turn_calm [OF calm turn] turn_wired [OF wired turn] turn after
    by (simp add: coordinate_def deployment_ok_def p_def)
  show ?thesis
  proof (cases "pr_thread p n")
    case Waiting
    show ?thesis
    proof (cases "pr_inbox p n")
      case Nil
      then show ?thesis using good [of p "[]"] conns Waiting by (simp add: take_turn_def)
    next
      case (Cons a inbox)
      have "connection_ok n (role_of p n) (thread_of up (co_epoch (pr_shared p)) n a) (dp_peer d n) (dp_open d n) inbox (dp_out d n)"
        using arrival_taken conns [of n] unfolding Waiting Cons by blast
      then show ?thesis
        using good [of "p\<lparr>pr_thread := (pr_thread p)(n := thread_of up (co_epoch (pr_shared p)) n a), pr_inbox := (pr_inbox p)(n := inbox)\<rparr>" "[]"]
          conns Waiting Cons by (simp add: take_turn_def)
    qed
  next
    case (Crashed x)
    then show ?thesis using not_crashed [OF assms] by (simp add: p_def)
  next
    case (Next f)
    obtain co out k where f: "f (pr_shared p) = (co, out, k)" by (cases "f (pr_shared p)")
    then have turn: "take_turn up (Turn n) p = Inr (running p co n k, out)" by (simp add: take_turn_def Next)
    have ww: "well_wired (pr_shared p)" using wired by (simp add: process_wired_def)
    have wn: "wired_as n (role_of p n) (thread.Next f)" using wired Next unfolding process_wired_def by metis
    have others: "\<forall>i. i \<noteq> n \<longrightarrow> om_find (co_threads co) i = role_of p i"
      by (rule wired_nextE [OF wn]) (use ww f in blast)
    note own = step_taken [OF conns [of n, unfolded Next] ww refl f]
    have "connection_ok i (role_of p i) (pr_thread p i) (dp_peer d i) (dp_open d i) (pr_inbox p i) (dp_out d i @ frames_to i out)"
      if "i \<noteq> n" for i
      using conns [of i] own(2) frames_to_message [of i out] that
      by (intro connection_further) (auto simp: directed_def)
    then show ?thesis
      using good [OF turn] own(1) others by auto
  qed
qed

section \<open>The peers\<close>

definition changed :: "nat \<Rightarrow> arrival list \<Rightarrow> peer \<Rightarrow> bool \<Rightarrow> bytes list \<Rightarrow> deployment \<Rightarrow> deployment" where
  "changed n as p is_open outs d = \<lparr>dp_proc = arrive n as (dp_proc d), dp_peer = (dp_peer d)(n := p),
     dp_open = (dp_open d)(n := is_open), dp_out = (dp_out d)(n := outs)\<rparr>"

lemma changed_ok:
  assumes "deployment_ok d"
    and "connection_ok n (role_of (dp_proc d) n) (pr_thread (dp_proc d) n) p is_open (pr_inbox (dp_proc d) n @ as) outs"
  shows "deployment_ok (changed n as p is_open outs d)"
  using assms by (simp add: deployment_ok_def changed_def arrive_def calm_def process_wired_def)

lemma arrive_nothing: "arrive n [] p = p"
  by (simp add: arrive_def fun_upd_idem)

lemma stage_hangs_up:
  "worker_stage n w b role t True inbox \<Longrightarrow> worker_stage n w b role t False (inbox @ [Ended])"
  unfolding worker_stage_def hung_def by auto

lemma stage_answers:
  assumes "worker_stage n w b (Some s) t True inbox" and "list_all (carries is_answer) fs"
  shows "worker_stage n w b (Some s) t True (inbox @ map Arrived fs)"
proof -
  obtain gs where "safely n (Serves_worker w) served (Some s) t" "list_all (carries is_answer) gs" "inbox = map Arrived gs"
    using assms(1) unfolding worker_stage_def hung_def by auto
  then show ?thesis
    using assms(2) unfolding worker_stage_def hung_def by (intro disjI2 disjI1) (auto intro!: exI [of _ "gs @ fs"])
qed

lemma connection_hangs_up:
  "connection_ok n role t p True inbox outs \<Longrightarrow> connection_ok n role t p False (inbox @ [Ended]) outs"
  by (cases p) (simp_all add: stage_hangs_up)

lemma hang_up_ok:
  assumes "deployment_ok d"
  shows "deployment_ok (hang_up n d)"
proof (cases "dp_open d n")
  case True
  have "hang_up n d = changed n [Ended] (dp_peer d n) False (dp_out d n) d"
    by (simp add: hang_up_def changed_def True)
  moreover have "connection_ok n (role_of (dp_proc d) n) (pr_thread (dp_proc d) n) (dp_peer d n) True (pr_inbox (dp_proc d) n) (dp_out d n)"
    using assms True unfolding deployment_ok_def by metis
  ultimately show ?thesis using changed_ok [OF assms connection_hangs_up] by simp
qed (use assms in \<open>simp add: hang_up_def\<close>)

text \<open>A worker takes what was written to it.\<close>

lemma worker_takes:
  assumes "connection_ok n role t (Worker_peer w b ph) True inbox (f # outs)"
  shows "role = Some (Serves_worker w)" and "\<exists>ok. registered f = Inr ok"
    and "\<exists>replies. worker_frame w b f = Inr replies \<and> list_all is_answer replies"
    and "connection_ok n role t (Worker_peer w b ph') True inbox outs"
proof -
  show role: "role = Some (Serves_worker w)" using assms by auto
  obtain m where m: "f = encode_message m" "length (m_payload m) < 2 ^ 32"
    using assms sendable_length by (fastforce simp: carries_def)
  then show "\<exists>ok. registered f = Inr ok" "\<exists>replies. worker_frame w b f = Inr replies \<and> list_all is_answer replies"
    by (auto simp: registered_def worker_frame_def decode_encoded is_answer_def list_all_iff)
  show "connection_ok n role t (Worker_peer w b ph') True inbox outs" using assms by (simp add: role)
qed

lemma peer_reads_ok:
  assumes "deployment_ok d"
  shows "\<exists>d'. peer_reads n d = Inr d' \<and> deployment_ok d'"
proof (cases "dp_out d n = [] \<or> \<not> dp_open d n")
  case True
  then show ?thesis using assms by (auto simp: peer_reads_def split: list.split)
next
  case False
  then obtain f outs where f: "dp_out d n = f # outs" and open': "dp_open d n" by (cases "dp_out d n") auto
  let ?role = "role_of (dp_proc d) n" and ?t = "pr_thread (dp_proc d) n" and ?inbox = "pr_inbox (dp_proc d) n"
  have conn: "connection_ok n ?role ?t (dp_peer d n) True ?inbox (f # outs)"
    using assms f open' unfolding deployment_ok_def by metis
  have read: "d\<lparr>dp_out := (dp_out d)(n := outs)\<rparr> = changed n [] (dp_peer d n) True outs d"
    using open' by (simp add: changed_def arrive_nothing fun_upd_idem)
  show ?thesis
  proof (cases "dp_peer d n")
    case (Worker_peer w b ph)
    note takes = worker_takes [OF conn [unfolded Worker_peer]]
    show ?thesis
    proof (cases ph)
      case Joining
      obtain ok where ok: "registered f = Inr ok" using takes(2) by blast
      have "deployment_ok (changed n [] (Worker_peer w b ph') True outs d)" for ph'
        using changed_ok [OF assms, of n "Worker_peer w b ph'" True "[]" outs] takes(4) by simp
      moreover have "d\<lparr>dp_out := (dp_out d)(n := outs), dp_peer := (dp_peer d)(n := Worker_peer w b Joined)\<rparr> =
          changed n [] (Worker_peer w b Joined) True outs d"
        using open' by (simp add: changed_def arrive_nothing fun_upd_idem)
      ultimately show ?thesis
        using hang_up_ok by (auto simp: peer_reads_def f open' Worker_peer Joining ok read Let_def)
    next
      case Joined
      obtain replies where r: "worker_frame w b f = Inr replies" "list_all is_answer replies" using takes(3) by blast
      have "connection_ok n ?role ?t (Worker_peer w b Joined) True (?inbox @ map Arrived (written replies)) outs"
        using takes(1) takes(4) [of Joined] stage_answers [OF _ written_carries [OF r(2)]] by simp
      note sent = changed_ok [OF assms this]
      have "d\<lparr>dp_out := (dp_out d)(n := outs), dp_proc := arrive n (map Arrived (written replies)) (dp_proc d)\<rparr> =
          changed n (map Arrived (written replies)) (Worker_peer w b Joined) True outs d"
        using open' Worker_peer Joined by (simp add: changed_def fun_upd_idem)
      then show ?thesis using sent by (simp add: peer_reads_def f open' Worker_peer Joined r(1))
    qed
  next
    case Client_peer
    then have "deployment_ok (changed n [] Client_peer True outs d)"
      using changed_ok [OF assms, of n Client_peer True "[]" outs] conn by simp
    then show ?thesis by (simp add: peer_reads_def f open' Client_peer read)
  qed (use conn in simp)
qed

section \<open>Every run\<close>

text \<open>What is asked of the clients, and of them alone: they send proper commands.\<close>

definition proper :: "action \<Rightarrow> bool" where
  "proper ac \<longleftrightarrow> (case ac of Command _ m \<Rightarrow> proper_command m | _ \<Rightarrow> True)"

lemma connect_peer_ok:
  assumes "deployment_ok d" and "dp_peer d n = Nobody \<Longrightarrow> connection_ok n None Waiting p True (map Arrived fs) []"
  shows "deployment_ok (connect_peer n p fs d)"
proof (cases "dp_peer d n = Nobody")
  case True
  have "connection_ok n (role_of (dp_proc d) n) (pr_thread (dp_proc d) n) Nobody (dp_open d n) (pr_inbox (dp_proc d) n) (dp_out d n)"
    using assms(1) True unfolding deployment_ok_def by metis
  then have nobody: "role_of (dp_proc d) n = None" "pr_thread (dp_proc d) n = Waiting" "pr_inbox (dp_proc d) n = []" "dp_out d n = []"
    by simp_all
  have "connect_peer n p fs d = changed n (map Arrived fs) p True [] d"
    using True nobody(4) by (simp add: connect_peer_def changed_def fun_upd_idem)
  then show ?thesis using changed_ok [OF assms(1), of n p True "map Arrived fs" "[]"] assms(2) [OF True] nobody by simp
qed (use assms(1) in \<open>simp add: connect_peer_def\<close>)

lemma act_ok:
  assumes "deployment_ok d" and "proper ac"
  shows "\<exists>d'. act ac d = Inr d' \<and> deployment_ok d'"
proof (cases ac)
  case (Start_worker n w b nid)
  have "connection_ok n None Waiting (Worker_peer w b Joining) True (map Arrived (written [registration w b nid])) []"
    by (auto simp: worker_stage_def hung_def registration_proper(5))
  then show ?thesis using connect_peer_ok [OF assms(1)] by (simp add: act_def Start_worker)
next
  case (Dial n)
  have "connection_ok n None Waiting Client_peer True (map Arrived []) []" by simp
  then show ?thesis using connect_peer_ok [OF assms(1), of n Client_peer "[]"] by (simp add: act_def Dial)
next
  case (Command n m)
  show ?thesis
  proof (cases "dp_peer d n = Client_peer \<and> dp_open d n")
    case True
    have "list_all (carries proper_command) (written [m])"
      using assms(2) written_carries [of proper_command "[m]"] by (simp add: Command proper_def)
    then have sent: "list_all command_arrival (map Arrived (written [m]))" by (simp add: list_all_iff)
    have "connection_ok n (role_of (dp_proc d) n) (pr_thread (dp_proc d) n) Client_peer True (pr_inbox (dp_proc d) n) (dp_out d n)"
      using assms(1) True unfolding deployment_ok_def by metis
    then have "deployment_ok (changed n (map Arrived (written [m])) Client_peer True (dp_out d n) d)"
      using changed_ok [OF assms(1), of n Client_peer True "map Arrived (written [m])" "dp_out d n"] sent by simp
    moreover have "changed n (map Arrived (written [m])) Client_peer True (dp_out d n) d =
        d\<lparr>dp_proc := arrive n (map Arrived (written [m])) (dp_proc d)\<rparr>"
      using True by (simp add: changed_def fun_upd_idem)
    ultimately show ?thesis using True by (simp add: act_def Command)
  qed (use assms(1) in \<open>auto simp: act_def Command\<close>)
qed (use assms(1) coordinate_ok peer_reads_ok hang_up_ok in \<open>simp_all add: act_def\<close>)

lemma run_actions_ok:
  assumes "deployment_ok d" and "list_all proper acs"
  shows "\<exists>d'. run_actions acs d = Inr d' \<and> deployment_ok d'"
  using assms
proof (induction acs arbitrary: d)
  case (Cons ac acs)
  obtain d1 where "act ac d = Inr d1" "deployment_ok d1"
    using act_ok [of d ac] Cons.prems by auto
  then show ?case using Cons.IH [of d1] Cons.prems(2) by simp
qed simp

text \<open>
  C5. Coordinator, workers and clients fit together, though the coordinator's handlers are not atomic:
  from a new coordinator, whatever workers and clients connect, hang up or are slow, in whatever order
  the threads of the coordinator take their single steps and frames are taken, no thread and no
  worker ever fails, as long as the clients send proper commands and every frame is written whole. A
  worker that has been written anything, or has read what it accepted as its acknowledgement, and is
  still there has a thread of the coordinator that serves it under its own identity. (That the first
  frame it reads is the acknowledgement is not so, see \<open>registration_overtaken\<close>: a worker that reads
  a command first ends, and the coordinator takes its end.)
\<close>

theorem deployment_never_fails:
  assumes "list_all proper acs"
  shows "\<exists>d. run_actions acs (deploy (new_coordinator gen prng mono_clock wall_clock)) = Inr d \<and>
    (\<forall>n w b ph. dp_peer d n = Worker_peer w b ph \<and> dp_open d n \<and> (ph = Joined \<or> dp_out d n \<noteq> []) \<longrightarrow>
       om_find (co_threads (pr_shared (dp_proc d))) n = Some (Serves_worker w))"
proof -
  obtain d where d: "run_actions acs (deploy (new_coordinator gen prng mono_clock wall_clock)) = Inr d" "deployment_ok d"
    using run_actions_ok [OF deploy_ok assms] by blast
  have "role_of (dp_proc d) n = Some (Serves_worker w)"
    if "dp_peer d n = Worker_peer w b ph" "dp_open d n" "ph = Joined \<or> dp_out d n \<noteq> []" for n w b ph
  proof -
    have "connection_ok n (role_of (dp_proc d) n) (pr_thread (dp_proc d) n) (Worker_peer w b ph) True
        (pr_inbox (dp_proc d) n) (dp_out d n)"
      using d(2) that(1,2) unfolding deployment_ok_def by metis
    then show ?thesis using that(3) by auto
  qed
  then show ?thesis using d(1) by blast
qed

section \<open>One worker's bytes\<close>

lemma answers_are_answers: "list_all is_answer (snd (answers_to w b fs))"
proof (induction fs)
  case (Cons f fs)
  have "list_all is_answer replies" if "worker_frame w b f = Inr replies" for replies
    using that by (auto simp: worker_frame_def is_answer_def list_all_iff split: decode_result.splits)
  then show ?case using Cons by (auto simp: case_prod_unfold Let_def split: sum.split)
qed simp

lemma transcript_messages:
  "\<exists>out. snd (transcript wa bs) = registration (wa_worker wa) (wa_boot wa) (wa_node wa) # out \<and> list_all is_answer out"
proof -
  have "list_all is_answer out" if "answers_to w b fs = (e, out)" for w b fs e out
    using answers_are_answers [of w b fs] that by simp
  then show ?thesis
    by (auto simp: transcript_def Let_def split: list.split sum.split prod.split option.split)
qed

lemma run_events_append:
  "run_events up (evs @ evs') co = ebind (run_events up evs co) (\<lambda>(co, out).
     ebind (run_events up evs' co) (\<lambda>(co, out'). Inr (co, out @ out')))"
proof (induction evs arbitrary: co)
  case (Cons ev evs)
  then show ?case
    by (auto simp: ebind_def split: sum.split)
qed (simp add: ebind_def split: sum.split)

lemma unregistered_unknown:
  "om_sorted (ct_workers c) \<Longrightarrow> find_worker w (snd (unregister_worker w c)) = None"
  by (simp add: unregister_worker_def find_worker_def Let_def om_find_erase)

lemma registration_taken:
  assumes "om_find (co_threads co) n = None"
  shows "\<exists>co' out. coordinator_step up (Frame n (encode_message (registration w b nid))) co = Inr (co', out) \<and>
    om_find (co_threads co') n = Some (Serves_worker w)"
proof -
  obtain co' out where 1: "coordinator_step up (Frame n (encode_message (registration w b nid))) co = Inr (co', out)"
      "worker_register (registration w b nid) n co = Inr (co', out)"
    by (rule register_event [OF assms registration_proper(1,2,4)])
  have "co_threads co' = om_put n (Serves_worker w) (co_threads co)"
    using register_wiring [of "registration w b nid" n co] by (simp add: 1(2) registration_proper(3))
  then show ?thesis using 1(1) by simp
qed

lemma answer_taken:
  assumes "om_find (co_threads co) n = Some (Serves_worker w)" and "is_answer a" and "sendable a"
  shows "\<exists>co' out. coordinator_step up (Frame n (encode_message a)) co = Inr (co', out) \<and>
    om_find (co_threads co') n = Some (Serves_worker w)"
proof -
  have small: "length (m_payload a) < 2 ^ 32" using sendable_length [OF assms(3)] by simp
  obtain w' b m where a: "a \<in> set (worker_answer w' b m)" using assms(2) by (auto simp: is_answer_def)
  obtain co' out where h: "handle_worker a n co = Inr (co', out)"
    by (rule worker_handled [OF a])
  then show ?thesis
    using report_event [OF assms(1) small] assms(1) handled_threads(2) [OF h] by auto
qed

lemma answers_served:
  assumes "om_find (co_threads co) n = Some (Serves_worker w)" and "list_all is_answer ms" and "list_all sendable ms"
  shows "\<exists>co' out. run_events up (map (Frame n) (map encode_message ms)) co = Inr (co', out) \<and>
    om_find (co_threads co') n = Some (Serves_worker w)"
  using assms
proof (induction ms arbitrary: co)
  case (Cons m ms)
  obtain co1 out1 where 1: "coordinator_step up (Frame n (encode_message m)) co = Inr (co1, out1)"
      "om_find (co_threads co1) n = Some (Serves_worker w)"
    using answer_taken [OF Cons.prems(1), of m up] Cons.prems(2,3) by auto
  obtain co2 out2 where "run_events up (map (Frame n) (map encode_message ms)) co1 = Inr (co2, out2)"
      "om_find (co_threads co2) n = Some (Serves_worker w)"
    using Cons.IH [OF 1(2)] Cons.prems(2,3) by auto
  then show ?case using 1 by simp
qed simp

text \<open>
  C35. A worker cannot bring the coordinator down, whatever it is sent: take any worker's arguments
  and any bytes that reach it. What it writes, read by a coordinator on a new connection up to the
  connection's end, is handled to the end without a failure, and afterwards the coordinator has no
  thread for that connection, no connection for that worker and no registration of it.
\<close>

theorem worker_never_ends_coordinator:
  assumes "coordinator_ok co" and "om_find (co_threads co) n = None"
  shows "\<exists>co' out. run_events up (connection_events n (message_bytes (filter sendable (snd (transcript wa bs))))) co = Inr (co', out) \<and>
    coordinator_ok co' \<and> om_find (co_threads co') n = None \<and> om_find (co_conns co') (wa_worker wa) = None \<and>
    find_worker (wa_worker wa) (co_ctrl co') = None"
proof -
  let ?reg = "registration (wa_worker wa) (wa_boot wa) (wa_node wa)"
  obtain ans where ans: "snd (transcript wa bs) = ?reg # ans" "list_all is_answer ans"
    using transcript_messages by blast
  have "sendable ?reg"
    using registration_proper(5) [of "wa_worker wa" "wa_boot wa" "wa_node wa"] by (auto simp: written_def split: if_splits)
  then have events: "connection_events n (message_bytes (filter sendable (snd (transcript wa bs)))) =
      Frame n (encode_message ?reg) # map (Frame n) (map encode_message (filter sendable ans)) @ [Closed n]"
    using all_frames_messages [of "?reg # filter sendable ans" "[]"]
    by (simp add: connection_events_def ans(1) list_all_iff all_frames.simps [of "[]"] next_frame_def)
  obtain co1 out1 where 1: "coordinator_step up (Frame n (encode_message ?reg)) co = Inr (co1, out1)"
      "om_find (co_threads co1) n = Some (Serves_worker (wa_worker wa))"
    using registration_taken [OF assms(2)] by blast
  obtain co2 out2 where 2: "run_events up (map (Frame n) (map encode_message (filter sendable ans))) co1 = Inr (co2, out2)"
      "om_find (co_threads co2) n = Some (Serves_worker (wa_worker wa))"
    using answers_served [OF 1(2), of "filter sendable ans" up] ans(2) by (auto simp: list_all_iff)
  have ok: "coordinator_ok co2"
    using wiring.run_rel [OF 2(1) [unfolded run_events_def]] afterD [OF step_keeps_ok [OF assms(1)] 1(1)] by blast
  have "coordinator_step up (Closed n) co2 = Inr (connection_closed n co2, [])"
    by (simp add: coordinator_step_def)
  then have "run_events up (connection_events n (message_bytes (filter sendable (snd (transcript wa bs))))) co =
      Inr (connection_closed n co2, out1 @ out2)"
    unfolding events by (simp add: 1(1) run_events_append 2(1) del: map_map)
  moreover have "om_sorted (ct_workers (co_ctrl co2))" "om_sorted (co_conns co2)" "om_sorted (co_threads co2)"
    using ok unfolding coordinator_ok_def controller_ok_def maps_sorted_def by blast+
  ultimately show ?thesis
    using closed_keeps_ok [OF ok, of n]
    by (simp add: connection_closed_def 2(2) om_find_erase unregistered_unknown)
qed

section \<open>A deployment\<close>

text \<open>Turns of one thread, as actions.\<close>

lemma turns_as_actions:
  "run_turns up (replicate k (Turn n)) (dp_proc d) = Inr (p, out) \<Longrightarrow>
   run_actions (replicate k (Coordinator_turn up n) @ acs) d =
     run_actions acs (d\<lparr>dp_proc := p, dp_out := (\<lambda>i. dp_out d i @ frames_to i out)\<rparr>)"
proof (induction k arbitrary: d out)
  case 0
  then have "d\<lparr>dp_proc := p, dp_out := (\<lambda>i. dp_out d i @ frames_to i out)\<rparr> = d" by (cases d) simp
  then show ?case by simp
next
  case (Suc k)
  obtain p1 o1 o2 where 1: "take_turn up (Turn n) (dp_proc d) = Inr (p1, o1)"
      "run_turns up (replicate k (Turn n)) p1 = Inr (p, o2)" "out = o1 @ o2"
    using Suc.prems by (auto simp: ebind_Inr)
  show ?case
    using Suc.IH [of "d\<lparr>dp_proc := p1, dp_out := (\<lambda>i. dp_out d i @ frames_to i o1)\<rparr>" o2] 1
    by (simp add: act_def coordinate_def frames_to_append)
qed

lemma arrive_turns: "run_turns up (Arrive n a # tns) p = run_turns up tns (arrive n [a] p)"
  by (simp add: take_turn_def arrive_def)

text \<open>The acknowledgement of a registration is one the worker accepts.\<close>

lemma register_acknowledged:
  assumes "worker_register m n co = Inr (co', out)"
  obtains f where "frames_to n out = [f]" "registered f = Inr True" "any_frame f" "\<And>k. k \<noteq> n \<Longrightarrow> frames_to k out = []"
proof -
  obtain wr where wr: "build_worker_reg m = Inr wr"
    using assms by (auto simp: worker_register_def ebind_Inr)
  define a where "a = Message_default\<lparr>m_kind := REGISTER_ACK, m_epoch := co_epoch co,
    m_payload := ''ok worker registered (boot '' @ id_str (w_boot_id wr) @ '')''\<rparr>"
  have "fst (register_worker wr t u c) = op_ok (''worker registered (boot '' @ id_str (w_boot_id wr) @ '')'')" for t u c
    by (simp add: register_worker_def Let_def)
  then have out: "out = [(n, a)]"
    using assms wr by (auto simp: worker_register_def a_def case_prod_unfold Let_def result_text_def op_ok_def is_ok_def)
  have "sendable a" "m_kind a = REGISTER_ACK" "has_prefix ''ok'' (m_payload a)"
    by (simp_all add: a_def has_prefix_def sendable_def kMaxFrame_def)
  then have "registered (encode_message a) = Inr True" "any_frame (encode_message a)" "written [a] = [encode_message a]"
    by (auto simp: registered_def decode_encoded carries_def written_def dest: sendable_length)
  then show ?thesis
    using that [of "encode_message a"] by (simp add: out frames_to_def)
qed

text \<open>
  A worker and a client that connect at once; the client sends a query, the worker's registration is
  handled first, step by step, and the worker reads its acknowledgement.
\<close>

definition demo_query :: Message where
  "demo_query = Message_default\<lparr>m_kind := QUERY, m_seq := 9, m_payload := ''q=sets''\<rparr>"

definition demo_actions :: "nat \<Rightarrow> action list" where
  "demo_actions k = [Start_worker 3 (MkId 0 1) (MkId 0 11) (MkId 0 5), Dial 4, Command 4 demo_query] @
     replicate k (Coordinator_turn (\<lambda>_. True) 3) @ [Peer_reads 3]"

lemma demo_proper: "list_all proper (demo_actions k)" "written [demo_query] = [encode_message demo_query]"
  by (simp_all add: written_def demo_actions_def proper_def proper_command_def demo_query_def well_formed_control_def
    message_kinds sendable_def kMaxFrame_def list_all_iff)

definition demo_waiting :: process where
  "demo_waiting = arrive 4 [Arrived (encode_message demo_query)] (idle demo_coordinator)"

lemma demo_registers:
  "\<exists>k p out f. run_turns (\<lambda>_. True) (replicate k (Turn 3)) (arrive 3 (map Arrived
      (written [registration (MkId 0 1) (MkId 0 11) (MkId 0 5)])) demo_waiting) = Inr (p, out) \<and>
     frames_to 3 out = [f] \<and> registered f = Inr True"
proof -
  let ?m = "registration (MkId 0 1) (MkId 0 11) (MkId 0 5)"
  have none: "om_find (co_threads demo_coordinator) 3 = None"
    by (simp add: demo_coordinator_def new_coordinator_def)
  obtain co out where 1: "coordinator_step (\<lambda>_. True) (Frame 3 (encode_message ?m)) demo_coordinator = Inr (co, out)"
      "worker_register ?m 3 demo_coordinator = Inr (co, out)"
    by (rule register_event [OF none registration_proper(1,2,4)])
  obtain f where f: "frames_to 3 out = [f]" "registered f = Inr True"
    by (rule register_acknowledged [OF 1(2)]) blast
  have waits: "pr_shared demo_waiting = demo_coordinator" "pr_thread demo_waiting 3 = Waiting" "pr_inbox demo_waiting 3 = []"
    by (simp_all add: demo_waiting_def arrive_def)
  obtain k where "run_turns (\<lambda>_. True) (Arrive 3 (Arrived (encode_message ?m)) # Turn 3 # replicate k (Turn 3)) demo_waiting =
      Inr (demo_waiting\<lparr>pr_shared := co\<rparr>, out)"
    using handled_turns [OF waits(2,3) refl, of "\<lambda>_. True" "Arrived (encode_message ?m)"] 1(1)
    by (auto simp: event_of_def waits simp del: run_turns_simps)
  then have "run_turns (\<lambda>_. True) (replicate (Suc k) (Turn 3)) (arrive 3 (map Arrived (written [?m])) demo_waiting) =
      Inr (demo_waiting\<lparr>pr_shared := co\<rparr>, out)"
    by (simp only: arrive_turns replicate_Suc registration_proper(5) list.map)
  then show ?thesis using f by blast
qed

lemma demo_joins:
  "\<exists>k d. run_actions (demo_actions k) (deploy demo_coordinator) = Inr d \<and>
     dp_peer d 3 = Worker_peer (MkId 0 1) (MkId 0 11) Joined \<and> dp_open d 3"
proof -
  let ?frames = "written [registration (MkId 0 1) (MkId 0 11) (MkId 0 5)]"
  obtain k p out f where k: "run_turns (\<lambda>_. True) (replicate k (Turn 3)) (arrive 3 (map Arrived ?frames) demo_waiting) = Inr (p, out)"
      "frames_to 3 out = [f]" "registered f = Inr True"
    using demo_registers by blast
  define d where "d = \<lparr>dp_proc = arrive 3 (map Arrived ?frames) demo_waiting,
     dp_peer = (\<lambda>_. Nobody)(3 := Worker_peer (MkId 0 1) (MkId 0 11) Joining, 4 := Client_peer),
     dp_open = (\<lambda>_. False)(3 := True, 4 := True), dp_out = (\<lambda>_. [])\<rparr>"
  have "run_actions (demo_actions k) (deploy demo_coordinator) =
      run_actions (replicate k (Coordinator_turn (\<lambda>_. True) 3) @ [Peer_reads 3]) d"
    by (simp add: demo_actions_def act_def connect_peer_def deploy_def d_def demo_proper(2) demo_waiting_def arrive_def fun_upd_twist)
  also have "\<dots> = run_actions [Peer_reads 3] (d\<lparr>dp_proc := p, dp_out := (\<lambda>i. dp_out d i @ frames_to i out)\<rparr>)"
    by (rule turns_as_actions) (use k(1) in \<open>simp add: d_def\<close>)
  finally show ?thesis
    using k(2,3) by (intro exI [of _ k]) (simp add: act_def peer_reads_def d_def)
qed

theorem deployment_never_fails_witness:
  "\<exists>acs d. run_actions acs (deploy demo_coordinator) = Inr d \<and>
     dp_peer d 3 = Worker_peer (MkId 0 1) (MkId 0 11) Joined \<and>
     om_find (co_threads (pr_shared (dp_proc d))) 3 = Some (Serves_worker (MkId 0 1))"
proof -
  obtain k d where d: "run_actions (demo_actions k) (deploy demo_coordinator) = Inr d"
      "dp_peer d 3 = Worker_peer (MkId 0 1) (MkId 0 11) Joined" "dp_open d 3"
    using demo_joins by blast
  show ?thesis
    using deployment_never_fails [OF demo_proper(1), of k demo_rng demo_rng "sconst 0" "sconst 0"] d
    unfolding demo_coordinator_def by (metis Inr_inject)
qed

theorem worker_never_ends_coordinator_witness:
  "\<exists>co out. run_events (\<lambda>_. True) (connection_events 3 (message_bytes (filter sendable (snd (transcript
      \<lparr>wa_port = 9000, wa_worker = MkId 0 1, wa_boot = MkId 0 11, wa_node = MkId 0 5\<rparr> [0, 0, 0, 1, 7]))))) demo_coordinator =
      Inr (co, out) \<and> find_worker (MkId 0 1) (co_ctrl co) = None"
proof -
  have "om_find (co_threads demo_coordinator) 3 = None"
    by (simp add: demo_coordinator_def new_coordinator_def)
  from worker_never_ends_coordinator [OF demo_coordinator_ok this, of "\<lambda>_. True"
      "\<lparr>wa_port = 9000, wa_worker = MkId 0 1, wa_boot = MkId 0 11, wa_node = MkId 0 5\<rparr>" "[0, 0, 0, 1, 7]"]
  show ?thesis by auto
qed

end
