(* ===== verification/Writers.thy ===== *)
theory Writers
  imports Mains
begin

text \<open>
  Two threads that write to one connection. \<open>write_frame\<close> is two calls of \<open>send_all\<close>, and
  \<open>rf_coordinator.cpp\<close> writes a \<open>PONG\<close> and its acknowledgements without the lock that guards
  \<open>send_to_worker\<close>; so the calls of two frames can come in any order that keeps those of each.
\<close>

text \<open>What \<open>write_frame\<close> hands to \<open>send_all\<close>, call by call.\<close>

definition frame_writes :: "bytes \<Rightarrow> bytes list" where
  "frame_writes p = (if kMaxFrame < length p then []
     else frame_header (of_nat (length p)) # (if p \<noteq> [] then [p] else []))"

lemma write_frame_writes:
  assumes "duplex net (tc_sock c) sent pending" and "conn_valid c"
  shows "\<exists>ok s'. write_frame net c (encode_message m) s = Some (ok, s') \<and>
    sent s' = sent s @ concat (frame_writes (encode_message m))"
proof -
  have "message_bytes (filter sendable [m]) = concat (frame_writes (encode_message m))"
    by (auto simp: frame_writes_def sendable_def frame_bytes_def simp flip: length_greater_0_conv)
  then show ?thesis using write_frame_duplex [OF assms, of m s] by auto
qed

text \<open>The length that goes before a message, and a message below the frame limit: its length starts with a 0.\<close>

definition frame_head :: "Message \<Rightarrow> bytes" where
  "frame_head m = frame_header (of_nat (length (encode_message m)))"

definition below_limit :: "Message \<Rightarrow> bool" where
  "below_limit m \<longleftrightarrow> length (encode_message m) < kMaxFrame"

lemma below_sendable: "below_limit m \<Longrightarrow> sendable m"
  by (simp add: below_limit_def sendable_def)

lemma writes_below: "below_limit m \<Longrightarrow> frame_writes (encode_message m) = [frame_head m, encode_message m]"
  by (auto simp: below_limit_def frame_writes_def frame_head_def simp flip: length_greater_0_conv)

lemma unat_below: "below_limit m \<Longrightarrow> unat (of_nat (length (encode_message m)) :: u32) = length (encode_message m)"
  by (intro u32_of_nat) (simp add: below_limit_def kMaxFrame_def)

lemma head_below:
  assumes "below_limit m"
  shows "\<exists>s. frame_head m = 0 # s"
proof -
  have "unat (drop_bit 24 (of_nat (length (encode_message m)) :: u32)) = 0"
    unfolding unsigned_drop_bit_eq unat_below [OF assms]
    using assms by (simp add: drop_bit_eq_div below_limit_def kMaxFrame_def take_bit_nat_eq_self)
  then have "drop_bit 24 (of_nat (length (encode_message m)) :: u32) = 0" by (simp only: unat_eq_zero)
  then show ?thesis by (simp add: frame_head_def frame_header_def del: length_encode)
qed

lemma encode_kind: "\<exists>s. encode_message m = m_kind m # s"
  by (simp add: encode_message_def write_u8_def)

lemma next_frame_head:
  assumes "below_limit m"
  shows "next_frame (frame_head m @ s) =
    (if length s < length (encode_message m) then None
     else Some (take (length (encode_message m)) s, drop (length (encode_message m)) s))"
  using frame_length_header [of "of_nat (length (encode_message m))" "[]"] unat_below [OF assms] assms
  unfolding next_frame_def below_limit_def frame_head_def Let_def by simp

lemma mixed_head:
  assumes "below_limit m" and "below_limit m'" and "all_frames (frame_head m @ frame_head m' @ s) = x # xs"
  shows "\<exists>y. x = 0 # y"
proof -
  have "x = take (length (encode_message m)) (frame_head m' @ s)"
    using assms(3) by (subst (asm) all_frames.simps) (auto simp: next_frame_head [OF assms(1)] split: if_splits)
  moreover obtain y where "frame_head m' = 0 # y" using head_below [OF assms(2)] by blast
  ultimately show ?thesis by (simp add: take_Cons')
qed

lemma calls_of_two:
  assumes "calls \<in> shuffles [h, p] [h', p']"
  shows "calls = [h, p, h', p'] \<or> calls = [h', p', h, p] \<or> (\<exists>s. calls = h # h' # s) \<or> (\<exists>s. calls = h' # h # s)"
  using assms by auto

text \<open>
  Frames of two threads arrive exactly if one is written before the other: of the ways in which the
  calls for two messages can come, those that are read back as the two frames, in either order,
  are the two in which neither thread writes between the other's length and its frame.
\<close>

theorem mixed_frames_lost:
  assumes "below_limit a" and "below_limit b" and "m_kind a \<noteq> 0" and "m_kind b \<noteq> 0"
    and "calls \<in> shuffles (frame_writes (encode_message a)) (frame_writes (encode_message b))"
  shows "all_frames (concat calls) \<in> {[encode_message a, encode_message b], [encode_message b, encode_message a]} \<longleftrightarrow>
    calls \<in> {frame_writes (encode_message a) @ frame_writes (encode_message b),
      frame_writes (encode_message b) @ frame_writes (encode_message a)}"
proof
  assume "calls \<in> {frame_writes (encode_message a) @ frame_writes (encode_message b),
      frame_writes (encode_message b) @ frame_writes (encode_message a)}"
  moreover have "all_frames (concat (frame_writes (encode_message m) @ frame_writes (encode_message m'))) =
      [encode_message m, encode_message m']" if "below_limit m" "below_limit m'" for m m'
    using that all_frames_messages [of "[m, m']" "[]"]
    by (simp add: writes_below below_sendable frame_bytes_def frame_head_def all_frames.simps [of "[]"] next_frame_def)
  ultimately show "all_frames (concat calls) \<in> {[encode_message a, encode_message b], [encode_message b, encode_message a]}"
    using assms(1,2) by auto
next
  assume frames: "all_frames (concat calls) \<in> {[encode_message a, encode_message b], [encode_message b, encode_message a]}"
  have mixed: "concat calls \<noteq> frame_head m @ frame_head m' @ s" if "below_limit m" "below_limit m'" for m m' s
    using mixed_head [OF that, of s] frames encode_kind [of a] encode_kind [of b] assms(3,4) by fastforce
  have "calls \<in> shuffles [frame_head a, encode_message a] [frame_head b, encode_message b]"
    using assms(5) by (simp add: writes_below assms(1,2))
  then show "calls \<in> {frame_writes (encode_message a) @ frame_writes (encode_message b),
      frame_writes (encode_message b) @ frame_writes (encode_message a)}"
    using mixed [OF assms(1,2)] mixed [OF assms(2,1)] calls_of_two
    unfolding writes_below [OF assms(1)] writes_below [OF assms(2)] by (metis append_Cons append_Nil concat.simps(2) insertCI)
qed

text \<open>A frame whose first byte is 0 and that is long enough to decode is nothing a worker answers.\<close>

lemma worker_ignores_zero:
  assumes "105 \<le> length f" and "f ! 0 = 0"
  shows "worker_frame w b f = Inr []"
proof -
  have "decode_message f Message_default = decode_payload f 105 (header_of f Message_default)"
    using assms(1) by (rule decode_long)
  moreover have "decode_payload f 105 out \<noteq> Out_of_bounds" for out
    by (simp add: decode_payload_def Let_def)
  moreover have "m_kind m = 0" if "decode_payload f 105 (header_of f Message_default) = Decoded m" for m
    using that assms(2) by (auto simp: decode_payload_def header_of_def Let_def split: if_splits)
  ultimately show ?thesis
    by (auto simp: worker_frame_def worker_answer_def message_kinds split: decode_result.split)
qed

lemma next_frame_wild:
  assumes "2 \<le> k" and "3 \<le> length s"
  shows "next_frame (k # s) = None"
proof -
  let ?len = "frame_length (take 4 (k # s))"
  have "drop_bit 24 ?len = ucast k"
    by (intro bit_word_eqI) (auto simp: frame_length_def bit_simps dest: bit_imp_le_length)
  then have "unat (drop_bit 24 ?len) = unat k"
    by (simp add: unsigned_ucast_eq take_bit_nat_eq_self order.strict_trans [OF unsigned_less])
  then have "unat ?len div 2 ^ 24 = unat k"
    by (simp add: drop_bit_eq_div unat_div)
  then have "2 \<le> unat ?len div 2 ^ 24"
    using assms(1) by (simp add: word_le_nat_alt)
  then have "kMaxFrame < unat ?len"
    by (simp add: kMaxFrame_def)
  then show ?thesis using assms(2) by (simp add: next_frame_def Let_def)
qed

text \<open>
  What that does to a worker. The coordinator answers a result with a \<open>PONG\<close>; if another thread
  writes the length of a message between the two calls for it, the worker answers nothing that
  comes after, whatever it is, and its loop ends as if the connection had been closed.
\<close>

theorem mixed_pong_ends_worker:
  assumes "below_limit m" and "2 \<le> m_kind m"
  defines "p \<equiv> Message_default\<lparr>m_kind := PONG\<rparr>"
  shows "answers_to w b (all_frames (frame_head p @ frame_head m @ encode_message p @ encode_message m @ rest)) = (None, [])"
proof -
  have p: "below_limit p" "length (encode_message p) = 109" "drop 105 (encode_message p) = [0, 0, 0, 0]"
    by (simp_all add: p_def below_limit_def kMaxFrame_def Message_default_def encode_header le_bytes_def upt_rec of_string_def)
  obtain x where x: "frame_head m = 0 # x" using head_below [OF assms(1)] by blast
  have len: "length (frame_head m) = 4" by (simp add: frame_head_def)
  let ?f = "frame_head m @ take 105 (encode_message p)"
  obtain y where y: "encode_message m = m_kind m # y" using encode_kind by blast
  have "length y = 108 + length (m_payload m)" using arg_cong [OF y, of length] by simp
  then have "next_frame (encode_message m @ rest) = None"
    unfolding y using next_frame_wild [OF assms(2), of "y @ rest"] by simp
  then have "all_frames (encode_message m @ rest) = []" by (simp add: all_frames.simps)
  moreover have "next_frame ([0, 0, 0, 0] @ s) = Some ([], s)" for s
    by (simp add: next_frame_def frame_length_def)
  moreover have "next_frame (frame_head p @ frame_head m @ encode_message p @ encode_message m @ rest) =
      Some (?f, [0, 0, 0, 0] @ encode_message m @ rest)"
    using next_frame_head [OF p(1), of "frame_head m @ encode_message p @ encode_message m @ rest"] p(2,3) len by simp
  ultimately have "all_frames (frame_head p @ frame_head m @ encode_message p @ encode_message m @ rest) = [?f, []]"
    by (simp add: all_frames.simps)
  moreover have "worker_frame w b ?f = Inr []"
    using p(2) x len by (intro worker_ignores_zero) simp_all
  moreover have "worker_frame w b [] = Inr []"
    by (simp add: worker_frame_def decode_message_def msg_read_u8_def)
  ultimately show ?thesis by simp
qed

end
