(* ===== verification/Scenario.thy ===== *)
theory Scenario
  imports Controller_Failover
begin

text \<open>
  Reasoning about scenarios: what is known of one replica (its set is open, its worker is
  registered under its boot, everything it was provisioned under is current) is kept by the
  commands that are not about it, and each step of its life takes it to the next. From these a
  program that uses the controller is followed command by command.
\<close>

section \<open>A replica that stands\<close>

definition open_set :: "ReplicaSetState \<Rightarrow> bool" where
  "open_set s \<longleftrightarrow> s_lifecycle s \<in> {ReplicaSetLifecycle.PROVISIONING, ReplicaSetLifecycle.AVAILABLE,
     ReplicaSetLifecycle.DEGRADED}"

definition contract :: "ReplicaState \<Rightarrow> ReplicaSetState \<Rightarrow> CoordinatorEpoch \<Rightarrow> bool" where
  "contract r s e \<longleftrightarrow> r_coordinator_epoch r = e \<and> r_set_generation r = s_generation s \<and>
     r_generation r \<noteq> null_id \<and> r_artifact_generation r = s_artifact_generation s \<and>
     r_policy_generation r = s_policy_generation s \<and>
     r_policy_fingerprint r = cq_policy_fingerprint (s_compatibility s) \<and>
     meets (s_compatibility s) (r_compatibility r)"

definition stands :: "controller \<Rightarrow> ReplicaSetId \<Rightarrow> ReplicaId \<Rightarrow> WorkerId \<Rightarrow> WorkerBootId \<Rightarrow> (ReplicaState \<Rightarrow> bool) \<Rightarrow> bool" where
  "stands c sid rid w b P \<longleftrightarrow> (\<exists>r s reg. om_find (ct_replicas c) rid = Some r \<and> om_find (ct_sets c) sid = Some s \<and>
     om_find (ct_workers c) w = Some reg \<and> w_boot_id reg = b \<and> r_set_id r = sid \<and> worker_boot_matches r w b \<and>
     open_set s \<and> contract r s (ct_epoch c) \<and> P r)"

text \<open>The stages of its life, as far as the steps below need them.\<close>

definition resourced :: "ReplicaState \<Rightarrow> bool" where
  "resourced r \<longleftrightarrow> \<not> r_serving_eligible r \<and> r_placement r = PlacementState.ASSIGNED \<and> r_capacity_total r \<noteq> 0 \<and>
     r_active_requests r = 0"

definition cold :: "ReplicaState \<Rightarrow> bool" where
  "cold r \<longleftrightarrow> resourced r \<and> r_lifecycle r = ReplicaLifecycle.STARTING"

definition ready :: "ReplicaState \<Rightarrow> bool" where
  "ready r \<longleftrightarrow> resourced r \<and> r_lifecycle r = ReplicaLifecycle.READY \<and> r_readiness r = ReadinessState.READY \<and>
     r_health r = HealthState.HEALTHY \<and> r_warmth r = WarmthState.WARM"

definition serving :: "ReplicaState \<Rightarrow> bool" where
  "serving r \<longleftrightarrow> r_serving_eligible r \<and> r_placement r = PlacementState.ASSIGNED \<and>
     r_lifecycle r = ReplicaLifecycle.SERVING \<and> r_readiness r = ReadinessState.READY \<and>
     r_health r = HealthState.HEALTHY \<and> r_warmth r = WarmthState.WARM \<and> r_promotion r = PromotionState.PRIMARY \<and>
     r_active_requests r = 0"

lemma stands_mono: "stands c sid rid w b P \<Longrightarrow> (\<And>r. P r \<Longrightarrow> Q r) \<Longrightarrow> stands c sid rid w b Q"
  unfolding stands_def by blast

definition active :: "controller \<Rightarrow> ReplicaSetId \<Rightarrow> bool" where
  "active c sid \<longleftrightarrow> (\<exists>s. om_find (ct_sets c) sid = Some s \<and>
     s_lifecycle s \<in> {ReplicaSetLifecycle.AVAILABLE, ReplicaSetLifecycle.DEGRADED})"

lemma stands_servable: "stands c sid rid w b serving \<Longrightarrow> active c sid \<Longrightarrow> sa_eligible (servable rid c)"
  unfolding stands_def servable_iff
  by (auto simp: contract_def serving_def current_boot_for_def worker_boot_matches_def active_def)

lemma stands_not_servable: "stands c sid rid w b resourced \<Longrightarrow> \<not> sa_eligible (servable rid c)"
  unfolding stands_def servable_iff by (auto simp: resourced_def)

section \<open>Commands that are not about it\<close>

definition calm :: "ReplicaId \<Rightarrow> WorkerId \<Rightarrow> command \<Rightarrow> bool" where
  "calm rid w cmd \<longleftrightarrow> (case cmd of
     RegisterWorker wr _ _ \<Rightarrow> w_worker_id wr \<noteq> w
   | UnregisterWorker w' \<Rightarrow> w' \<noteq> w
   | CreateReplicaSet _ _ \<Rightarrow> False
   | TransitionReplicaSet _ _ \<Rightarrow> False
   | SetEpoch _ \<Rightarrow> False
   | ProvisionReplica rid' _ _ _ _ _ _ _ \<Rightarrow> rid' \<noteq> rid
   | _ \<Rightarrow> True)"

lemma derive_open: "open_set s \<Longrightarrow> open_set (derive_set_lifecycle n s)"
  using derive_serving [of s n] by (auto simp: open_set_def)

lemma opened_open: "open_set s \<Longrightarrow> opened_set s = s"
  by (auto simp: open_set_def opened_set_def)

lemma calm_sets:
  assumes "calm rid w cmd" and "om_find (ct_sets c) sid = Some s" and "open_set s"
  obtains s' where "om_find (ct_sets (snd (run_command cmd c))) sid = Some s'" "open_set s'" "set_evolves s s'"
proof -
  obtain s' where s': "om_find (ct_sets (snd (run_command cmd c))) sid = Some s'" "set_evolves s s'"
    using command_keeps_set [OF assms(2)] by blast
  have "open_set s'"
  proof (cases cmd)
    case (ProvisionReplica rid' sid' w' cm dv cap t u)
    then show ?thesis
      using s'(1) assms(2,3) opened_open
      by (rule_tac provision_result [of rid' sid' w' cm dv cap t u c]) (auto split: if_splits)
  qed (use s'(1) assms in \<open>auto simp: calm_def promote_replica_def trigger_failover_def Let_def derive_open
      split: option.splits prod.splits list.splits if_splits\<close>)
  then show thesis using that s' by blast
qed

lemma calm_worker:
  assumes "controller_ok c" and "calm rid w cmd"
  shows "om_find (ct_workers (snd (run_command cmd c))) w = om_find (ct_workers c) w"
proof -
  have "om_sorted (ct_workers c)" using assms(1) unfolding controller_ok_def maps_sorted_def by blast
  then show ?thesis
    using assms(2)
    by (cases cmd) (auto simp: calm_def register_worker_def unregister_worker_def om_find_erase Let_def)
qed

lemma calm_epoch: "calm rid w cmd \<Longrightarrow> ct_epoch (snd (run_command cmd c)) = ct_epoch c"
  by (cases cmd) (auto simp: calm_def)

lemma contract_evolves: "contract r s e \<Longrightarrow> same_incarnation r r' \<Longrightarrow> set_evolves s s' \<Longrightarrow> contract r' s' e"
  using set_evolves_same [of s s'] by (auto simp: contract_def same_incarnation_def)

text \<open>A command keeps a replica standing; what it does to the replica itself is left to show.\<close>

lemma stands_command:
  assumes "controller_ok c" and "stands c sid rid w b P" and "calm rid w cmd"
    and "\<And>r r'. om_find (ct_replicas c) rid = Some r \<Longrightarrow> P r \<Longrightarrow> worker_boot_matches r w b \<Longrightarrow>
      r_coordinator_epoch r = ct_epoch c \<Longrightarrow>
      om_find (ct_replicas (snd (run_command cmd c))) rid = Some r' \<Longrightarrow> Q r'"
  shows "stands (snd (run_command cmd c)) sid rid w b Q"
proof -
  obtain r s reg where c: "om_find (ct_replicas c) rid = Some r" "om_find (ct_sets c) sid = Some s"
    "om_find (ct_workers c) w = Some reg" "w_boot_id reg = b" "r_set_id r = sid" "worker_boot_matches r w b"
    "open_set s" "contract r s (ct_epoch c)" "P r"
    using assms(2) unfolding stands_def by blast
  have "\<not> provisions rid cmd" using assms(3) by (auto simp: provisions_iff calm_def)
  with c(1) obtain r' where r': "om_find (ct_replicas (snd (run_command cmd c))) rid = Some r'" "same_incarnation r r'"
    using command_follows [OF assms(1)] by blast
  obtain s' where s': "om_find (ct_sets (snd (run_command cmd c))) sid = Some s'" "open_set s'" "set_evolves s s'"
    using calm_sets [OF assms(3) c(2,7)] by blast
  have "r_coordinator_epoch r = ct_epoch c" using c(8) by (simp add: contract_def)
  then have "Q r'" using assms(4) [OF c(1,9,6) _ r'(1)] by blast
  moreover have "contract r' s' (ct_epoch (snd (run_command cmd c)))"
    using contract_evolves [OF c(8) r'(2) s'(3)] calm_epoch [OF assms(3)] by simp
  ultimately show ?thesis
    unfolding stands_def using r' s' c calm_worker [OF assms(1,3)]
    by (intro exI [of _ r'] exI [of _ s'] exI [of _ reg]) (auto simp: same_incarnation_def worker_boot_matches_def)
qed

text \<open>Commands for another replica, and those of another worker, leave it exactly as it was.\<close>

definition elsewhere :: "ReplicaId \<Rightarrow> WorkerId \<Rightarrow> command \<Rightarrow> bool" where
  "elsewhere rid w cmd \<longleftrightarrow> calm rid w cmd \<and> (case cmd of
     RegisterWorker _ _ _ \<Rightarrow> True | UnregisterWorker _ \<Rightarrow> True
   | _ \<Rightarrow> (\<exists>rid'. target cmd = Some rid' \<and> rid' \<noteq> rid))"

lemma elsewhere_same:
  assumes "elsewhere rid w cmd" and "om_find (ct_replicas c) rid = Some r" and "r_worker_id r = w"
  shows "om_find (ct_replicas (snd (run_command cmd c))) rid = Some r"
proof (cases "\<exists>rid'. target cmd = Some rid' \<and> rid' \<noteq> rid")
  case True
  then show ?thesis using target_frame assms(2) by metis
next
  case False
  with assms show ?thesis
    by (cases cmd) (auto simp: elsewhere_def calm_def register_worker_def unregister_worker_def Let_def)
qed

lemma stands_elsewhere:
  assumes "controller_ok c" and "stands c sid rid w b P" and "elsewhere rid w cmd"
  shows "stands (snd (run_command cmd c)) sid rid w b P"
proof (rule stands_command [OF assms(1,2)])
  show "calm rid w cmd" using assms(3) by (simp add: elsewhere_def)
  fix r r'
  assume "om_find (ct_replicas c) rid = Some r" "P r" "worker_boot_matches r w b"
    "om_find (ct_replicas (snd (run_command cmd c))) rid = Some r'"
  then show "P r'" using elsewhere_same [OF assms(3), of c r] by (simp add: worker_boot_matches_def)
qed

lemma stands_elsewheres:
  "controller_ok c \<Longrightarrow> stands c sid rid w b P \<Longrightarrow> list_all (elsewhere rid w) cmds \<Longrightarrow>
   controller_ok (run_commands cmds c) \<and> stands (run_commands cmds c) sid rid w b P"
  by (induction cmds arbitrary: c) (auto simp: command_ok stands_elsewhere)

section \<open>Steps of its life\<close>

definition evidence :: "ReplicaId \<Rightarrow> WorkerId \<Rightarrow> WorkerBootId \<Rightarrow> WarmingRecord \<Rightarrow> HealthEvidence \<Rightarrow> ReadinessRecord \<Rightarrow> command list" where
  "evidence rid w b wm ev rr = [WarmReplica rid wm w b 0, ReportHealth rid ev w b 0, ReportReadiness rid rr w b 0]"

lemma stands_ready:
  assumes "controller_ok c" and "stands c sid rid w b cold"
    and "wm_warmup_execution_done wm" and "he_state ev = HealthState.HEALTHY" and "all_set (rr_factors rr)"
    and "\<And>r. find_replica rid (snd (warm_replica rid wm w b 0 c)) = Some r \<Longrightarrow> he_generation ev = r_health_generation r"
  shows "stands (run_commands (evidence rid w b wm ev rr) c) sid rid w b ready"
proof -
  let ?c1 = "snd (run_command (WarmReplica rid wm w b 0) c)"
  let ?c2 = "snd (run_command (ReportHealth rid ev w b 0) ?c1)"
  let ?warming = "\<lambda>r. resourced r \<and> r_lifecycle r = ReplicaLifecycle.WARMING \<and> r_warmth r = WarmthState.WARM"
  have c1: "stands ?c1 sid rid w b ?warming"
    using assms(1,2)
  proof (rule stands_command)
    fix r r'
    assume "om_find (ct_replicas c) rid = Some r" "cold r" "worker_boot_matches r w b"
      "om_find (ct_replicas ?c1) rid = Some r'"
    then show "?warming r'"
      using assms(3)
      by (cases "wm_started_warming_mono wm = 0")
         (auto simp: warm_replica_def can_transition_def cold_def resourced_def Let_def)
  qed (simp add: calm_def)
  have c2: "stands ?c2 sid rid w b (\<lambda>r. ?warming r \<and> r_health r = HealthState.HEALTHY)"
    using command_ok [OF assms(1)] c1
  proof (rule stands_command)
    fix r r'
    assume "om_find (ct_replicas ?c1) rid = Some r" "?warming r"
      "worker_boot_matches r w b" "r_coordinator_epoch r = ct_epoch ?c1" "om_find (ct_replicas ?c2) rid = Some r'"
    then show "?warming r' \<and> r_health r' = HealthState.HEALTHY"
      using assms(4) assms(6) [of r] by (auto simp: find_replica_def report_health_def is_terminated_def resourced_def Let_def)
  qed (simp add: calm_def)
  have "stands (snd (run_command (ReportReadiness rid rr w b 0) ?c2)) sid rid w b ready"
    using command_ok [OF command_ok [OF assms(1)]] c2
  proof (rule stands_command)
    fix r r'
    assume "om_find (ct_replicas ?c2) rid = Some r" "?warming r \<and> r_health r = HealthState.HEALTHY"
      "worker_boot_matches r w b" "r_coordinator_epoch r = ct_epoch ?c2"
      "om_find (ct_replicas (snd (run_command (ReportReadiness rid rr w b 0) ?c2))) rid = Some r'"
    then show "ready r'"
      using assms(5) by (auto simp: report_readiness_def is_terminated_def can_transition_def ready_def resourced_def Let_def)
  qed (simp add: calm_def)
  then show ?thesis by (simp add: evidence_def)
qed

lemma stands_primary:
  assumes "controller_ok c" and "stands c sid rid w b ready"
  shows "is_ok (fst (promote_replica rid PromotionState.PRIMARY w b t u c)) \<and>
    stands (snd (promote_replica rid PromotionState.PRIMARY w b t u c)) sid rid w b serving \<and>
    active (snd (promote_replica rid PromotionState.PRIMARY w b t u c)) sid"
proof (intro conjI)
  obtain r s where rs: "om_find (ct_replicas c) rid = Some r" "om_find (ct_sets c) sid = Some s" "r_set_id r = sid"
    "worker_boot_matches r w b" "open_set s" "contract r s (ct_epoch c)" "ready r"
    using assms(2) unfolding stands_def by blast
  have "promote_refusal r s (ct_epoch c) = None" "ready_to_promote r"
    using rs by (simp_all add: promote_refusal_None contract_def ready_def resourced_def ready_to_promote_def)
  then obtain hgen r' g ps n where pr: "r' = (make_primary hgen r)\<lparr>r_health := r_health r\<rparr>"
    "is_ok (fst (promote_replica rid PromotionState.PRIMARY w b t u c))"
    "snd (promote_replica rid PromotionState.PRIMARY w b t u c) =
      put_set sid (derive_set_lifecycle n s) ((put_replica rid r' c)\<lparr>ct_rng := g, ct_promotions := ps\<rparr>)"
    by (rule_tac promote_primary_result [of c rid r s w b t u]) (use rs in \<open>auto simp: ready_def\<close>)
  then show "is_ok (fst (promote_replica rid PromotionState.PRIMARY w b t u c))" by blast
  from pr show "active (snd (promote_replica rid PromotionState.PRIMARY w b t u c)) sid"
    using rs(5) derive_serving [of s n] by (auto simp: active_def open_set_def)
  have "stands (snd (run_command (PromoteReplica rid PromotionState.PRIMARY w b t u) c)) sid rid w b serving"
    by (rule stands_command [OF assms])
       (use rs(1,7) in \<open>auto simp: calm_def pr serving_def ready_def resourced_def make_primary_def\<close>)
  then show "stands (snd (promote_replica rid PromotionState.PRIMARY w b t u c)) sid rid w b serving" by simp
qed

lemma stands_standby:
  assumes "controller_ok c" and "stands c sid rid w b ready"
  shows "stands (snd (promote_replica rid PromotionState.STANDBY w b t u c)) sid rid w b ready"
proof -
  have "stands (snd (run_command (PromoteReplica rid PromotionState.STANDBY w b t u) c)) sid rid w b ready"
    by (rule stands_command [OF assms])
       (auto simp: calm_def promote_replica_def ready_def resourced_def Let_def split: option.splits prod.splits if_splits)
  then show ?thesis by simp
qed

text \<open>An active set stays active.\<close>

lemma active_command:
  assumes "calm rid w cmd" and "active c sid"
  shows "active (snd (run_command cmd c)) sid"
proof -
  obtain s where s: "om_find (ct_sets c) sid = Some s"
    "s_lifecycle s \<in> {ReplicaSetLifecycle.AVAILABLE, ReplicaSetLifecycle.DEGRADED}"
    using assms(2) unfolding active_def by blast
  then have "open_set s" by (auto simp: open_set_def)
  from calm_sets [OF assms(1) s(1) this] obtain s' where
    s': "om_find (ct_sets (snd (run_command cmd c))) sid = Some s'" "open_set s'" "set_evolves s s'" by blast
  then show ?thesis
    using s(2) by (auto simp: active_def open_set_def set_evolves_def set_can_transition_def)
qed

section \<open>Provisioning\<close>

text \<open>The members of a set, as far as they are known.\<close>

definition only :: "controller \<Rightarrow> ReplicaSetId \<Rightarrow> ReplicaId set \<Rightarrow> bool" where
  "only c sid rids \<longleftrightarrow> (\<forall>rid r. om_find (ct_replicas c) rid = Some r \<longrightarrow> r_set_id r = sid \<longrightarrow> rid \<in> rids)"

lemma only_command:
  assumes "controller_ok c" and "only c sid rids" and "\<And>rid. provisions rid cmd \<Longrightarrow> rid \<in> rids"
  shows "only (snd (run_command cmd c)) sid rids"
  unfolding only_def
proof (intro allI impI)
  fix rid r'
  assume r': "om_find (ct_replicas (snd (run_command cmd c))) rid = Some r'" "r_set_id r' = sid"
  show "rid \<in> rids"
  proof (cases "provisions rid cmd")
    case False
    have "om_sorted (ct_replicas c)" using assms(1) unfolding controller_ok_def maps_sorted_def by blast
    from run_command_replica [OF this False] r'(1) obtain r where r: "om_find (ct_replicas c) rid = Some r" "evolves r r'"
      by (auto simp: option_rel_Some2)
    then have "r_set_id r = sid"
      using ok_replica [OF assms(1) r(1)] r'(2) by (auto simp: evolves_def same_incarnation_def)
    then show ?thesis using assms(2) r(1) unfolding only_def by blast
  qed (rule assms(3))
qed

lemma only_commands:
  "controller_ok c \<Longrightarrow> only c sid rids \<Longrightarrow> list_all (\<lambda>cmd. \<forall>rid. provisions rid cmd \<longrightarrow> rid \<in> rids) cmds \<Longrightarrow>
   only (run_commands cmds c) sid rids"
  by (induction cmds arbitrary: c) (auto simp: command_ok only_command)

lemma only_count:
  assumes "controller_ok c" and "only c sid rids" and "finite rids" and "card rids < 2 ^ 32"
  shows "unat (replica_count sid c) \<le> card rids"
proof -
  have "om_sorted (ct_replicas c)" using assms(1) unfolding controller_ok_def maps_sorted_def by blast
  then have "om_count (\<lambda>rid r. r_set_id r = sid) (ct_replicas c) =
      card {rid. \<exists>r. om_find (ct_replicas c) rid = Some r \<and> r_set_id r = sid}"
    by (rule om_count_card)
  also have "\<dots> \<le> card rids"
    using assms(2,3) by (intro card_mono) (auto simp: only_def)
  finally have "om_count (\<lambda>rid r. r_set_id r = sid) (ct_replicas c) \<le> card rids" .
  then show ?thesis
    using assms(4) by (simp add: replica_count_def unat_of_nat)
qed

definition place_replica :: "ReplicaId \<Rightarrow> ReplicaSetId \<Rightarrow> WorkerId \<Rightarrow> ReplicaCompatibility \<Rightarrow> DeviceCapability \<Rightarrow> u64 \<Rightarrow>
    PlacementId \<Rightarrow> command list" where
  "place_replica rid sid w cm dv cap pid =
     [ProvisionReplica rid sid w cm dv cap 0 0, SetAllocating rid pid 0, SetStarting rid 0 0]"

lemma provision_is_accepted:
  assumes "om_find (ct_sets c) sid = Some s" and "s_lifecycle s = ReplicaSetLifecycle.CREATED \<or> open_set s"
    and "om_find (ct_workers c) w = Some reg" and "replica_count sid c < s_max_replicas s"
  shows "is_ok (fst (provision_replica rid sid w cm dv cap t u c))"
proof -
  have "s_lifecycle s \<noteq> ReplicaSetLifecycle.RETIRED" "s_lifecycle s \<noteq> ReplicaSetLifecycle.FAILED"
    using assms(2) by (auto simp: open_set_def)
  then show ?thesis using assms by (auto simp: provision_replica_def Let_def split: prod.splits)
qed

text \<open>
  A replica that is provisioned, allocated and started stands cold, if its set accepts it.
\<close>

lemma stands_cold:
  assumes "controller_ok c" and "om_find (ct_sets c) sid = Some s"
    and "s_lifecycle s = ReplicaSetLifecycle.CREATED \<or> open_set s"
    and "om_find (ct_workers c) w = Some reg" and "replica_count sid c < s_max_replicas s"
    and "meets (s_compatibility s) cm" and "cap \<noteq> 0" and "pid \<noteq> null_id"
    and "fst (random_id (ct_rng c) :: ReplicaGeneration \<times> engine) \<noteq> null_id"
  shows "stands (run_commands (place_replica rid sid w cm dv cap pid) c) sid rid w (w_boot_id reg) cold"
proof -
  let ?c1 = "snd (run_command (ProvisionReplica rid sid w cm dv cap 0 0) c)"
  let ?c2 = "snd (run_command (SetAllocating rid pid 0) ?c1)"
  obtain gen hgen where g: "next_generations c = (gen, hgen)" "gen \<noteq> null_id"
    using assms(9) by (simp add: next_generations_def case_prod_unfold Let_def)
  let ?r = "new_replica rid sid w (opened_set s) reg cm dv cap 0 0 (ct_epoch c) gen hgen"
  have "is_ok (fst (provision_replica rid sid w cm dv cap 0 0 c))"
    by (rule provision_is_accepted [OF assms(2-5)])
  then obtain g' where c1: "snd (provision_replica rid sid w cm dv cap 0 0 c) =
      put_replica rid ?r ((put_set sid (opened_set s) c)\<lparr>ct_rng := g'\<rparr>)"
    using assms(2,4) g(1) by (rule_tac provision_result [of rid sid w cm dv cap 0 0 c]) auto
  have "open_set (opened_set s)" using assms(3) by (auto simp: open_set_def opened_set_def)
  then have s1: "stands ?c1 sid rid w (w_boot_id reg) (\<lambda>r. r = ?r)"
    unfolding stands_def using assms(4,6) g(2)
    by (simp add: c1) (simp add: contract_def new_replica_def worker_boot_matches_def)
  have s2: "stands ?c2 sid rid w (w_boot_id reg) (\<lambda>r. resourced r \<and> r_lifecycle r = ReplicaLifecycle.ALLOCATING)"
    by (rule stands_command [OF command_ok [OF assms(1)] s1])
       (use assms(7,8) in \<open>auto simp: calm_def set_allocating_def can_transition_def resourced_def new_replica_def Let_def
          split: option.splits if_splits\<close>)
  have "stands (snd (run_command (SetStarting rid 0 0) ?c2)) sid rid w (w_boot_id reg) cold"
    by (rule stands_command [OF command_ok [OF command_ok [OF assms(1)]] s2])
       (auto simp: calm_def set_starting_def can_transition_def cold_def resourced_def Let_def)
  then show ?thesis by (simp add: place_replica_def)
qed

section \<open>Takeover\<close>

text \<open>
  The worker of one replica dies and the set fails over: of the two replicas of a set the other
  one, when it stands ready on its own worker, is the one candidate. It serves, the first does not.
\<close>

definition member :: "controller \<Rightarrow> ReplicaSetId \<Rightarrow> ReplicaId \<Rightarrow> bool" where
  "member c sid rid \<longleftrightarrow> (\<exists>r. om_find (ct_replicas c) rid = Some r \<and> r_set_id r = sid)"

lemma stands_failover:
  assumes "controller_ok c" and "member c sid ra" and "stands c sid rb wb bb ready"
    and "only c sid {ra, rb}" and "ra \<noteq> rb"
  shows "sa_eligible (servable rb (snd (trigger_failover sid ra why t u c)))"
    and "\<not> sa_eligible (servable ra (snd (trigger_failover sid ra why t u c)))"
proof -
  let ?c = "snd (trigger_failover sid ra why t u c)"
  obtain fr where fr: "om_find (ct_replicas c) ra = Some fr" "r_set_id fr = sid"
    using assms(2) unfolding member_def by blast
  obtain st r reg where a: "om_find (ct_sets c) sid = Some st" and b: "om_find (ct_replicas c) rb = Some r" "om_find (ct_workers c) wb = Some reg"
    "w_boot_id reg = bb" "r_set_id r = sid" "worker_boot_matches r wb bb" "open_set st" "contract r st (ct_epoch c)" "ready r"
    using assms(3) unfolding stands_def by blast
  have two: "rid = rb \<and> x = r" if "om_find (ct_replicas c) rid = Some x" "r_set_id x = sid" "rid \<noteq> ra" for rid x
    using assms(4) that b(1) unfolding only_def by fastforce
  have "eligible_replacement sid ra st (rb, r)"
    using assms(5) b(4,7,8) by (simp add: eligible_replacement_def ready_def resourced_def contract_def)
  then have mem: "(rb, r) \<in> candidates sid ra st c" using b(1) by (simp add: candidates_def)
  have one: "x = (rb, r)" if "x \<in> candidates sid ra st c" for x
  proof -
    have "om_find (ct_replicas c) (fst x) = Some (snd x)" "r_set_id (snd x) = sid" "fst x \<noteq> ra"
      using that by (simp_all add: candidates_def eligible_replacement_def case_prod_unfold)
    from two [OF this] show ?thesis by (simp add: prod_eq_iff)
  qed
  from mem have some: "candidates sid ra st c \<noteq> {}" by blast
  obtain hgen n f p g where run: "?c = put_set sid (derive_set_lifecycle n st)
        ((put_replica rb (make_primary hgen r) (put_replica ra (obsolete_failed why fr) c))
          \<lparr>ct_rng := g, ct_failovers := ct_failovers c @ [f], ct_promotions := ct_promotions c @ [p]\<rparr>)"
  proof (rule failover_some [OF assms(1) a fr some, of why t u])
    fix rid x hgen n f p g
    assume "(rid, x) \<in> candidates sid ra st c"
      and run: "trigger_failover sid ra why t u c = (op_ok (''failover completed; promoted '' @ id_str rid),
        put_set sid (derive_set_lifecycle n st) ((put_replica rid (make_primary hgen x) (put_replica ra (obsolete_failed why fr) c))
          \<lparr>ct_rng := g, ct_failovers := ct_failovers c @ [f], ct_promotions := ct_promotions c @ [p]\<rparr>))"
    then have "rid = rb" "x = r" using one by blast+
    then show thesis using that run by simp
  qed
  have "s_lifecycle (derive_set_lifecycle n st) \<in> {ReplicaSetLifecycle.AVAILABLE, ReplicaSetLifecycle.DEGRADED}"
    using b(6) derive_serving [of st n] by (auto simp: open_set_def)
  then show "sa_eligible (servable rb ?c)"
    unfolding servable_iff using b assms(5)
    by (auto simp: run current_boot_for_def worker_boot_matches_def contract_def ready_def resourced_def)
  have "om_find (ct_replicas ?c) ra = Some (obsolete_failed why fr)"
    using fr assms(5) by (simp add: run)
  then show "\<not> sa_eligible (servable ra ?c)" by (rule not_servable) simp
qed

lemma member_command:
  assumes "controller_ok c" and "member c sid rid" and "\<not> provisions rid cmd"
  shows "member (snd (run_command cmd c)) sid rid"
proof -
  obtain r where r: "om_find (ct_replicas c) rid = Some r" "r_set_id r = sid"
    using assms(2) unfolding member_def by blast
  obtain r' where "om_find (ct_replicas (snd (run_command cmd c))) rid = Some r'" "same_incarnation r r'"
    using command_follows [OF assms(1) r(1) assms(3)] by blast
  then show ?thesis using r(2) by (auto simp: member_def same_incarnation_def)
qed

lemma stands_member: "stands c sid rid w b P \<Longrightarrow> member c sid rid"
  unfolding stands_def member_def by blast

text \<open>
  Two replicas of a set on two workers stand ready. One is promoted, the other is its standby:
  the first serves and the second does not. The worker of the first is lost and the set fails
  over: the second serves and the first does not.
\<close>

lemma takeover:
  fixes ra rb :: ReplicaId and sid :: ReplicaSetId and wa wb :: WorkerId and ba bb :: WorkerBootId
    and why :: string and c :: controller
  defines "c1 \<equiv> snd (promote_replica ra PromotionState.PRIMARY wa ba 0 0 c)"
  defines "c2 \<equiv> snd (promote_replica rb PromotionState.STANDBY wb bb 0 0 c1)"
  defines "c3 \<equiv> snd (unregister_worker wa c2)"
  defines "c4 \<equiv> snd (trigger_failover sid ra why 0 0 c3)"
  assumes "controller_ok c" and "stands c sid ra wa ba ready" and "stands c sid rb wb bb ready"
    and "only c sid {ra, rb}" and "ra \<noteq> rb" and "wa \<noteq> wb"
  shows "sa_eligible (servable ra c2)" and "\<not> sa_eligible (servable rb c2)"
    and "sa_eligible (servable rb c4)" and "\<not> sa_eligible (servable ra c4)"
proof -
  let ?a = "PromoteReplica ra PromotionState.PRIMARY wa ba 0 0"
  let ?b = "PromoteReplica rb PromotionState.STANDBY wb bb 0 0"
  have c: "c1 = snd (run_command ?a c)" "c2 = snd (run_command ?b c1)" "c3 = snd (run_command (UnregisterWorker wa) c2)"
    by (simp_all add: c1_def c2_def c3_def)
  have ok: "controller_ok c1" "controller_ok c2" "controller_ok c3" using assms(5) command_ok unfolding c by blast+
  have a1: "stands c1 sid ra wa ba serving" "active c1 sid"
    using stands_primary [OF assms(5,6)] by (simp_all add: c1_def)
  have b1: "stands c1 sid rb wb bb ready"
    unfolding c using assms(9) by (intro stands_elsewhere [OF assms(5,7)]) (simp add: elsewhere_def calm_def)
  have a2: "stands c2 sid ra wa ba serving"
    unfolding c(2) using assms(9) by (intro stands_elsewhere [OF ok(1) a1(1)]) (simp add: elsewhere_def calm_def)
  have "active c2 sid" unfolding c(2) by (rule active_command [OF _ a1(2), of rb wb]) (simp add: calm_def)
  then show "sa_eligible (servable ra c2)" by (rule stands_servable [OF a2])
  have b2: "stands c2 sid rb wb bb ready" unfolding c2_def by (rule stands_standby [OF ok(1) b1])
  then have "stands c2 sid rb wb bb resourced" by (rule stands_mono) (simp add: ready_def)
  then show "\<not> sa_eligible (servable rb c2)" by (rule stands_not_servable)
  have b3: "stands c3 sid rb wb bb ready"
    unfolding c(3) using assms(10) by (intro stands_elsewhere [OF ok(2) b2]) (simp add: elsewhere_def calm_def)
  have a3: "member c3 sid ra"
    unfolding c(3) by (rule member_command [OF ok(2) stands_member [OF a2]]) (simp add: provisions_iff)
  have "only (run_commands [?a, ?b, UnregisterWorker wa] c) sid {ra, rb}"
    by (rule only_commands [OF assms(5,8)]) (simp add: provisions_iff)
  then have "only c3 sid {ra, rb}" by (simp add: c)
  from stands_failover [OF ok(3) a3 b3 this assms(9)]
  show "sa_eligible (servable rb c4)" and "\<not> sa_eligible (servable ra c4)" by (simp_all add: c4_def)
qed

section \<open>Draining\<close>

text \<open>A serving replica without requests in flight is drained, quiesced and retired.\<close>

lemma drain_serving:
  assumes "stands c sid rid w b serving"
  shows "\<exists>r g d. om_find (ct_replicas c) rid = Some r \<and> serving r \<and>
    drain_replica rid w b t c = (op_ok ''replica draining (reject new work)'',
      (put_replica rid (r\<lparr>r_serving_eligible := False, r_role := ReplicaRole.SECONDARY,
         r_promotion := PromotionState.STANDBY, r_lifecycle := ReplicaLifecycle.DRAINING\<rparr>) c)
        \<lparr>ct_rng := g, ct_drains := ct_drains c @ [d]\<rparr>)"
proof -
  obtain r where r: "om_find (ct_replicas c) rid = Some r" "worker_boot_matches r w b" "r_coordinator_epoch r = ct_epoch c"
    "serving r"
    using assms unfolding stands_def contract_def by blast
  then show ?thesis
    by (auto simp: drain_replica_def serving_def can_transition_def Let_def split: prod.splits)
qed

section \<open>What the steps draw\<close>

text \<open>Provisioning draws two generations; the other steps of bringing a replica up draw none.\<close>

lemma steps_rng [simp]:
  "ct_rng (snd (register_worker wr t u c)) = ct_rng c"
  "ct_rng (snd (unregister_worker w c)) = ct_rng c"
  "ct_rng (snd (create_replica_set st e c)) = ct_rng c"
  "ct_rng (snd (set_allocating rid pid t c)) = ct_rng c"
  "ct_rng (snd (set_starting rid t u c)) = ct_rng c"
  "ct_rng (snd (warm_replica rid wm w b t c)) = ct_rng c"
  "ct_rng (snd (report_health rid ev w b t c)) = ct_rng c"
  "ct_rng (snd (report_readiness rid rr w b t c)) = ct_rng c"
  by (auto simp: register_worker_def unregister_worker_def create_replica_set_def set_allocating_def set_starting_def
      warm_replica_def report_health_def report_readiness_def Let_def put_replica_def put_set_def split: option.splits)

lemma provision_rng:
  "is_ok (fst (provision_replica rid sid w cm dv cap t u c)) \<Longrightarrow>
   ct_rng (snd (provision_replica rid sid w cm dv cap t u c)) =
     snd (random_id (snd (random_id (ct_rng c) :: ReplicaGeneration \<times> engine)) :: HealthGeneration \<times> engine)"
  by (auto simp: provision_replica_def fresh_generation_def Let_def case_prod_unfold random_id_def split: option.splits if_splits)

section \<open>Bringing a replica up\<close>

text \<open>
  What the programs do to bring a replica up on a worker of its own: register the worker,
  provision, allocate and start the replica, warm it and report it healthy and ready.
\<close>

definition start_up :: "WorkerRegistration \<Rightarrow> ReplicaId \<Rightarrow> ReplicaSetId \<Rightarrow> ReplicaCompatibility \<Rightarrow> DeviceCapability \<Rightarrow>
    u64 \<Rightarrow> PlacementId \<Rightarrow> command list" where
  "start_up wr rid sid cm dv cap pid = RegisterWorker wr 0 0 # place_replica rid sid (w_worker_id wr) cm dv cap pid"

lemma registered:
  "om_find (ct_workers (snd (register_worker wr t u c))) (w_worker_id wr) = Some wr"
  "ct_sets (snd (register_worker wr t u c)) = ct_sets c"
  "replica_count sid (snd (register_worker wr t u c)) = replica_count sid c"
  by (simp_all add: register_replica_count) (simp_all add: register_worker_def Let_def)

lemma start_up_cold:
  assumes "controller_ok c" and "om_find (ct_sets c) sid = Some s"
    and "s_lifecycle s = ReplicaSetLifecycle.CREATED \<or> open_set s"
    and "replica_count sid c < s_max_replicas s"
    and "meets (s_compatibility s) cm" and "cap \<noteq> 0" and "pid \<noteq> null_id"
    and "fst (random_id (ct_rng c) :: ReplicaGeneration \<times> engine) \<noteq> null_id"
  shows "stands (run_commands (start_up wr rid sid cm dv cap pid) c) sid rid (w_worker_id wr) (w_boot_id wr) cold"
  using stands_cold [OF command_ok [OF assms(1)], of "RegisterWorker wr 0 0" sid s "w_worker_id wr" wr cm cap pid rid dv] assms
  by (simp add: start_up_def registered)

lemma start_up_ready:
  assumes "controller_ok c" and "om_find (ct_sets c) sid = Some s"
    and "s_lifecycle s = ReplicaSetLifecycle.CREATED \<or> open_set s"
    and "replica_count sid c < s_max_replicas s"
    and "meets (s_compatibility s) cm" and "cap \<noteq> 0" and "pid \<noteq> null_id"
    and "fst (random_id (ct_rng c) :: ReplicaGeneration \<times> engine) \<noteq> null_id"
    and "wm_warmup_execution_done wm" and "he_state ev = HealthState.HEALTHY" and "all_set (rr_factors rr)"
    and "\<And>r. find_replica rid (run_commands (start_up wr rid sid cm dv cap pid @
           [WarmReplica rid wm (w_worker_id wr) (w_boot_id wr) 0]) c) = Some r \<Longrightarrow> he_generation ev = r_health_generation r"
  shows "stands (run_commands (start_up wr rid sid cm dv cap pid @ evidence rid (w_worker_id wr) (w_boot_id wr) wm ev rr) c)
    sid rid (w_worker_id wr) (w_boot_id wr) ready"
  using stands_ready [OF _ start_up_cold [OF assms(1-8)] assms(9-11)] assms(1,12)
  by (simp add: commands_ok)

lemma start_up_rng:
  assumes "om_find (ct_sets c) sid = Some s" and "s_lifecycle s = ReplicaSetLifecycle.CREATED \<or> open_set s"
    and "replica_count sid c < s_max_replicas s"
  shows "ct_rng (run_commands (start_up wr rid sid cm dv cap pid) c) = sdrop 4 (ct_rng c)"
  using provision_is_accepted [of "snd (register_worker wr 0 0 c)" sid s "w_worker_id wr" wr rid cm dv cap 0 0] assms
  by (simp add: start_up_def place_replica_def registered provision_rng random_id_def numeral_eq_Suc)

section \<open>A set just created\<close>

lemma created_set:
  assumes "s_lifecycle s = ReplicaSetLifecycle.CREATED"
    and "0 < s_min_healthy s" and "s_min_healthy s \<le> s_desired_count s" and "s_desired_count s \<le> s_max_replicas s"
  shows "om_find (ct_sets (snd (create_replica_set s e (new_controller g)))) (s_id s) = Some s"
    and "only (snd (create_replica_set s e (new_controller g))) sid {}"
    and "replica_count sid (snd (create_replica_set s e (new_controller g))) = 0"
  using assms
  by (auto simp: create_replica_set_def new_controller_def Let_def put_set_def only_def replica_count_def om_count_def
      dest: order.strict_trans2 split: if_splits)

text \<open>A set stays what it was but for its lifecycle.\<close>

lemma commands_keep_set:
  assumes "om_find (ct_sets c) sid = Some s"
  shows "\<exists>l. om_find (ct_sets (run_commands cmds c)) sid = Some (s\<lparr>s_lifecycle := l\<rparr>)"
  using assms
proof (induction cmds arbitrary: c s)
  case Nil
  then show ?case by (intro exI [of _ "s_lifecycle s"]) simp
next
  case (Cons cmd cmds)
  obtain s1 where s1: "om_find (ct_sets (snd (run_command cmd c))) sid = Some s1" "set_evolves s s1"
    using command_keeps_set [OF Cons.prems] by blast
  have "s1\<lparr>s_lifecycle := l\<rparr> = s\<lparr>s_lifecycle := l\<rparr>" for l
    using s1(2) by (cases s; cases s1) (auto simp: set_evolves_def)
  then show ?case using Cons.IH [OF s1(1)] by simp
qed

section \<open>What an engine draws\<close>

definition nth_id :: "nat \<Rightarrow> engine \<Rightarrow> 'tag Id" where
  "nth_id k g = MkId (g !! (2 * k)) (g !! (2 * k + 1))"

definition later :: "nat \<Rightarrow> engine \<Rightarrow> engine" where
  "later k g = sdrop (2 * k) g"

lemma later_later: "later j (later k g) = later (k + j) g"
  by (simp add: later_def add_mult_distrib2)

lemma nth_id_later: "nth_id j (later k g) = nth_id (k + j) g"
  by (simp add: later_def nth_id_def sdrop_snth add_mult_distrib2 add.assoc)

lemma random_id_later: "random_id g = (nth_id 0 g, later (Suc 0) g)"
  by (simp add: random_id_def nth_id_def later_def numeral_eq_Suc)

text \<open>The draws of a program, numbered.\<close>

lemma draws [simp]:
  "later (Suc 0) (later (Suc 0) g) = later 2 g"
  "later (Suc 0) (later (numeral k) g) = later (numeral (k + num.One)) g"
  "later (numeral j) (later (Suc 0) g) = later (numeral (num.One + j)) g"
  "later (numeral j) (later (numeral k) g) = later (numeral (k + j)) g"
  "nth_id 0 (later k' g) = nth_id k' g"
  "nth_id (Suc 0) (later (Suc 0) g) = nth_id 2 g"
  "nth_id (Suc 0) (later (numeral k) g) = nth_id (numeral (k + num.One)) g"
  "nth_id (numeral j) (later (Suc 0) g) = nth_id (numeral (num.One + j)) g"
  "nth_id (numeral j) (later (numeral k) g) = nth_id (numeral (k + j)) g"
  by (simp_all only: later_later nth_id_later One_nat_def [symmetric] numeral_One [symmetric] numeral_plus_numeral)
     (simp_all)

end
