(* ===== verification/Double.thy ===== *)
theory Double
  imports RF_Prelude "HOL-Library.Log_Nat"
begin

text \<open>
  The arithmetic of \<open>double\<close>, as far as the placement scores need it: a value is a rational, and
  an operation rounds its exact result to 53 significant bits, to nearest with ties to even. The
  scores are zero or lie between \<open>2 ^ -70\<close> and \<open>2 ^ 70\<close> in magnitude, far inside the range of the
  normal numbers, so that the exponent needs no bound here.
\<close>

section \<open>Rounding\<close>

definition round_even :: "rat \<Rightarrow> int" where
  "round_even x = (let f = \<lfloor>x\<rfloor>; r = x - of_int f in
     if r < 1 / 2 then f else if r > 1 / 2 then f + 1 else if even f then f else f + 1)"

text \<open>The exponent \<open>e\<close> with \<open>2 ^ e \<le> x < 2 ^ (e + 1)\<close>, for a positive \<open>x\<close>.\<close>

definition exponent :: "rat \<Rightarrow> int" where
  "exponent x = (let (n, d) = quotient_of x;
      k = int (floorlog 2 (nat n)) - int (floorlog 2 (nat d))
    in if 2 powi k \<le> x then k else k - 1)"

definition round_pos :: "rat \<Rightarrow> rat" where
  "round_pos x = (let e = exponent x in of_int (round_even (x * 2 powi (52 - e))) * 2 powi (e - 52))"

definition rnd :: "rat \<Rightarrow> rat" where
  "rnd x = (if x = 0 then 0 else if 0 < x then round_pos x else - round_pos (- x))"

section \<open>Operations\<close>

definition dadd :: "rat \<Rightarrow> rat \<Rightarrow> rat" where "dadd x y = rnd (x + y)"
definition dmul :: "rat \<Rightarrow> rat \<Rightarrow> rat" where "dmul x y = rnd (x * y)"
definition ddiv :: "rat \<Rightarrow> rat \<Rightarrow> rat" where "ddiv x y = rnd (x / y)"

text \<open>Conversions from \<open>uint64_t\<close>, which round, and from \<open>int\<close>, which are exact.\<close>

definition of_u64 :: "u64 \<Rightarrow> rat" where "of_u64 w = rnd (of_nat (unat w))"
definition of_i32 :: "i32 \<Rightarrow> rat" where "of_i32 w = of_int (sint w)"

section \<open>Rounding is monotone\<close>

lemma round_even_bounds: "\<lfloor>x\<rfloor> \<le> round_even x" "round_even x \<le> \<lfloor>x\<rfloor> + 1"
  by (auto simp: round_even_def Let_def)

lemma round_even_int [simp]: "round_even (of_int i) = i"
  by (simp add: round_even_def)

lemma round_even_mono:
  assumes "x \<le> y"
  shows "round_even x \<le> round_even y"
proof (cases "\<lfloor>x\<rfloor> = \<lfloor>y\<rfloor>")
  case True
  then show ?thesis using assms by (auto simp: round_even_def Let_def)
next
  case False
  then have "\<lfloor>x\<rfloor> + 1 \<le> \<lfloor>y\<rfloor>" using floor_mono [OF assms] by simp
  then show ?thesis using round_even_bounds [of x] round_even_bounds [of y] by linarith
qed

lemma powi_two_pos [simp]: "0 < (2 :: rat) powi k"
  by (simp add: power_int_def)

lemma powi_two_mono: "k \<le> l \<Longrightarrow> (2 :: rat) powi k \<le> 2 powi l"
  by (rule power_int_increasing) simp_all

lemma powi_two_add: "(2 :: rat) powi (k + l) = 2 powi k * 2 powi l"
  by (rule power_int_add) simp

lemma floorlog_rat:
  assumes "0 < n"
  shows "2 powi (int (floorlog 2 (nat n)) - 1) \<le> (of_int n :: rat)" "(of_int n :: rat) < 2 powi int (floorlog 2 (nat n))"
proof -
  let ?a = "floorlog 2 (nat n)"
  have a: "0 < ?a" using assms by (simp add: floorlog_def)
  have lo: "2 ^ (?a - 1) \<le> nat n" and hi: "nat n < 2 ^ ?a"
    using floorlog_bounds [of "nat n" 2] assms by auto
  have n: "(of_int n :: rat) = of_nat (nat n)" using assms by simp
  have "(2 :: rat) powi (int ?a - 1) = of_nat (2 ^ (?a - 1))"
    using a by (simp add: power_int_def nat_diff_distrib flip: of_nat_diff)
  then show "2 powi (int ?a - 1) \<le> (of_int n :: rat)"
    unfolding n using lo by (simp only: of_nat_le_iff)
  have "(2 :: rat) powi int ?a = of_nat (2 ^ ?a)" by simp
  then show "(of_int n :: rat) < 2 powi int ?a"
    unfolding n using hi by (simp only: of_nat_less_iff)
qed

lemma exponent_bounds:
  assumes "0 < x"
  shows "2 powi exponent x \<le> x \<and> x < 2 powi (exponent x + 1)"
proof -
  obtain n d where q: "quotient_of x = (n, d)" by fastforce
  have d: "0 < d" using quotient_of_denom_pos [OF q] .
  have x: "x = of_int n / of_int d" using quotient_of_div [OF q] .
  have n: "0 < n" using assms d by (simp add: x zero_less_divide_iff)
  let ?a = "int (floorlog 2 (nat n))" and ?b = "int (floorlog 2 (nat d))"
  have D: "0 < (of_int d :: rat)" using d by simp
  have "x < 2 powi ?a / of_int d"
    unfolding x using floorlog_rat(2) [OF n] D by (rule divide_strict_right_mono)
  also have "\<dots> \<le> 2 powi ?a / 2 powi (?b - 1)"
    using floorlog_rat(1) [OF d] D by (intro divide_left_mono) simp_all
  also have "\<dots> = 2 powi (?a - ?b + 1)"
    by (simp add: power_int_diff power_int_add)
  finally have hi: "x < 2 powi (?a - ?b + 1)" .
  have "2 powi (?a - ?b - 1) = 2 powi (?a - 1) / (2 powi ?b :: rat)"
    by (simp add: power_int_diff)
  also have "\<dots> \<le> 2 powi (?a - 1) / of_int d"
    using floorlog_rat(2) [OF d] D by (intro divide_left_mono) simp_all
  also have "\<dots> \<le> x"
    unfolding x using floorlog_rat(1) [OF n] D by (intro divide_right_mono) simp_all
  finally have lo: "2 powi (?a - ?b - 1) \<le> x" .
  show ?thesis
    using hi lo by (simp add: exponent_def q Let_def)
qed

lemma exponent_unique:
  assumes "2 powi e \<le> x" and "x < 2 powi (e + 1)"
  shows "exponent x = e"
proof -
  have x: "0 < x" using assms(1) powi_two_pos [of e] by linarith
  note b = exponent_bounds [OF x]
  have "\<not> exponent x + 1 \<le> e" using powi_two_mono [of "exponent x + 1" e] b assms by linarith
  moreover have "\<not> e + 1 \<le> exponent x" using powi_two_mono [of "e + 1" "exponent x"] b assms by linarith
  ultimately show ?thesis by linarith
qed

text \<open>A rounded value stays within the binade of its argument, and a value with 53 bits is kept.\<close>

lemma round_pos_exact:
  assumes "2 powi e \<le> x" and "x < 2 powi (e + 1)" and "x = of_int i * 2 powi (e - 52)"
  shows "round_pos x = x"
proof -
  have "x * 2 powi (52 - e) = of_int i"
    using assms(3) powi_two_add [of "e - 52" "52 - e"] by (simp add: mult.assoc)
  then have "round_even (x * 2 powi (52 - e)) = i" by (simp only: round_even_int)
  then show ?thesis
    unfolding round_pos_def Let_def exponent_unique [OF assms(1,2)] assms(3) [symmetric] by (simp only: assms(3))
qed

lemma round_pos_bounds:
  assumes "0 < x"
  shows "2 powi exponent x \<le> round_pos x \<and> round_pos x \<le> 2 powi (exponent x + 1)"
proof -
  let ?e = "exponent x" and ?y = "x * 2 powi (52 - exponent x)"
  have p: "(2 :: rat) powi ?e * 2 powi (52 - ?e) = of_int (2 ^ 52)" "(2 :: rat) powi (?e + 1) * 2 powi (52 - ?e) = of_int (2 ^ 53)"
    by (simp_all flip: powi_two_add)
  have "of_int (2 ^ 52) \<le> ?y" "?y \<le> of_int (2 ^ 53)"
    using exponent_bounds [OF assms] unfolding p [symmetric] by (auto intro!: mult_right_mono order_less_imp_le)
  then have "2 ^ 52 \<le> round_even ?y" "round_even ?y \<le> 2 ^ 53"
    using round_even_mono [of "of_int (2 ^ 52)" ?y] round_even_mono [of ?y "of_int (2 ^ 53)"] by (simp_all only: round_even_int)
  then have "of_int (2 ^ 52) * 2 powi (?e - 52) \<le> round_pos x" "round_pos x \<le> of_int (2 ^ 53) * 2 powi (?e - 52)"
    unfolding round_pos_def Let_def by (intro mult_right_mono; simp only: of_int_le_iff; simp)+
  moreover have "(of_int (2 ^ 52) :: rat) * 2 powi (?e - 52) = 2 powi ?e" "(of_int (2 ^ 53) :: rat) * 2 powi (?e - 52) = 2 powi (?e + 1)"
    using powi_two_add [of 52 "?e - 52"] powi_two_add [of 53 "?e - 52"] by (simp_all add: add.commute)
  ultimately show ?thesis by simp
qed

lemma round_pos_mono:
  assumes "0 < x" and "x \<le> y"
  shows "round_pos x \<le> round_pos y"
proof (cases "exponent x = exponent y")
  case True
  have "round_even (x * 2 powi (52 - exponent y)) \<le> round_even (y * 2 powi (52 - exponent y))"
    using assms(2) by (intro round_even_mono mult_right_mono) simp_all
  then show ?thesis
    unfolding round_pos_def Let_def True by (intro mult_right_mono) simp_all
next
  case False
  have y: "0 < y" using assms by simp
  have "\<not> exponent y + 1 \<le> exponent x"
    using powi_two_mono [of "exponent y + 1" "exponent x"] exponent_bounds [OF assms(1)] exponent_bounds [OF y] assms(2)
    by linarith
  then have "(2 :: rat) powi (exponent x + 1) \<le> 2 powi exponent y"
    using False by (intro powi_two_mono) simp
  then show ?thesis
    using round_pos_bounds [OF assms(1)] round_pos_bounds [OF y] by linarith
qed

lemma round_pos_positive: "0 < x \<Longrightarrow> 0 < round_pos x"
  using round_pos_bounds [of x] powi_two_pos [of "exponent x"] by linarith

lemma rnd_mono: "x \<le> y \<Longrightarrow> rnd x \<le> rnd y"
  using round_pos_mono [of x y] round_pos_mono [of "- y" "- x"] round_pos_positive [of y] round_pos_positive [of "- x"]
  by (auto simp: rnd_def)

lemma rnd_0 [simp]: "rnd 0 = 0"
  by (simp add: rnd_def)

lemma rnd_nonneg: "0 \<le> x \<Longrightarrow> 0 \<le> rnd x"
  using rnd_mono [of 0 x] by simp

lemma rnd_exact:
  assumes "2 powi e \<le> x" and "x < 2 powi (e + 1)" and "x = of_int i * 2 powi (e - 52)"
  shows "rnd x = x"
proof -
  have "0 < x" using assms(1) powi_two_pos [of e] by linarith
  then show ?thesis using round_pos_exact [OF assms] by (simp add: rnd_def)
qed

text \<open>Small multiples of one quarter are exact.\<close>

lemma rnd_quarter:
  assumes "1 \<le> m" and "m < 2 ^ 20"
  shows "rnd (of_int m / 4) = of_int m / 4"
proof -
  let ?x = "of_int m / 4 :: rat" and ?e = "exponent (of_int m / 4)"
  have x: "0 < ?x" using assms(1) by simp
  note b = exponent_bounds [OF x]
  have "\<not> 18 \<le> ?e"
  proof
    assume "18 \<le> ?e"
    from powi_two_mono [OF this] b have "(2 :: rat) powi 18 \<le> ?x" by linarith
    moreover have "(of_int m :: rat) < of_int (2 ^ 20)" using assms(2) by (simp only: of_int_less_iff)
    ultimately show False by simp
  qed
  then have "(of_int (m * 2 ^ nat (50 - ?e)) :: rat) = of_int m * 2 powi (50 - ?e)"
    by (simp add: power_int_def)
  moreover have "(2 :: rat) powi (50 - ?e) * 2 powi (?e - 52) = 1 / 4"
  proof -
    have "(2 :: rat) powi - 2 = 1 / 4" by (simp add: power_int_def power2_eq_square)
    then show ?thesis using powi_two_add [of "50 - ?e" "?e - 52"] by simp
  qed
  ultimately have "?x = of_int (m * 2 ^ nat (50 - ?e)) * 2 powi (?e - 52)"
    by (simp only: mult.assoc)
  from rnd_exact [OF conjunct1 [OF b] conjunct2 [OF b] this] show ?thesis .
qed

lemma rnd_constants [simp]:
  "rnd 1 = 1" "rnd 2 = 2" "rnd 3 = 3" "rnd 4 = 4" "rnd 5 = 5" "rnd 7 = 7" "rnd 9 = 9" "rnd 13 = 13" "rnd 14 = 14"
  "rnd (1 / 2) = 1 / 2" "rnd (3 / 2) = 3 / 2" "rnd (5 / 2) = 5 / 2" "rnd (11 / 2) = 11 / 2" "rnd (15 / 2) = 15 / 2"
  "rnd (3 / 4) = 3 / 4" "rnd (19 / 4) = 19 / 4" "rnd (23 / 4) = 23 / 4"
  using rnd_quarter [of 4] rnd_quarter [of 8] rnd_quarter [of 12] rnd_quarter [of 16] rnd_quarter [of 20]
    rnd_quarter [of 28] rnd_quarter [of 36] rnd_quarter [of 52] rnd_quarter [of 56] rnd_quarter [of 2]
    rnd_quarter [of 6] rnd_quarter [of 10] rnd_quarter [of 22] rnd_quarter [of 30] rnd_quarter [of 3]
    rnd_quarter [of 19] rnd_quarter [of 23]
  by simp_all

end
