(* ===== verification/Placement.thy ===== *)
theory Placement
  imports Model Double Number_Text "HOL-Library.List_Lexorder" "HOL-Library.Char_ord" "HOL-Library.Multiset"
begin

text \<open>
  The placement engine of \<open>placement/placement.hpp\<close> and \<open>src/placement.cpp\<close>: every host becomes a
  candidate, hard constraints reject one, the others get weighted factors and a total, and the
  best total wins with the host's key as tie break. Scores are rounded as \<open>double\<close> rounds them.
  \<open>std::sort\<close> leaves the order of equal keys open; the model keeps their order, and what depends
  on the order is stated for distinct keys.
\<close>

section \<open>Data\<close>

record PlacementHost =
  ph_worker_id :: WorkerId
  ph_boot_id :: WorkerBootId
  ph_node_id :: NodeId
  ph_host :: string
  ph_numa :: string
  ph_rack :: string
  ph_failure_domain_labels :: "string list"
  ph_device :: DeviceCapability
  ph_inventory :: ResourceInventory
  ph_artifact_distance :: u64
  ph_has_warm_model :: bool

definition PlacementHost_default :: PlacementHost where
  "PlacementHost_default = \<lparr>ph_worker_id = null_id, ph_boot_id = null_id, ph_node_id = null_id, ph_host = [],
     ph_numa = [], ph_rack = [], ph_failure_domain_labels = [], ph_device = DeviceCapability_default,
     ph_inventory = ResourceInventory_default, ph_artifact_distance = 0, ph_has_warm_model = False\<rparr>"

record PlacedReplica =
  pr_id :: ReplicaId
  pr_host :: string
  pr_numa :: string
  pr_device_id :: string
  pr_failure_domain_labels :: "string list"

record PlacementFactor =
  pf_name :: string
  pf_weight :: rat
  pf_score :: rat
  pf_contribution :: rat
  pf_detail :: string

record PlacementCandidate =
  pc_host :: PlacementHost
  pc_eligible :: bool
  pc_rejection :: string
  pc_factors :: "PlacementFactor list"
  pc_total :: rat
  pc_summary :: string

record PlacementDecision =
  pd_placed :: bool
  pd_chosen :: PlacementHost
  pd_candidates :: "PlacementCandidate list"
  pd_note :: string

definition find_candidate :: "WorkerId \<Rightarrow> PlacementDecision \<Rightarrow> PlacementCandidate option" where
  "find_candidate w d = find (\<lambda>c. ph_worker_id (pc_host c) = w) (pd_candidates d)"

section \<open>Helpers\<close>

definition normalize_mem :: "u64 \<Rightarrow> u64 \<Rightarrow> rat" where
  "normalize_mem free tot = (if tot = 0 then 0 else ddiv (of_u64 free) (of_u64 tot))"

definition has_backend :: "PlacementHost \<Rightarrow> BackendKind \<Rightarrow> bool" where
  "has_backend h kind \<longleftrightarrow> (if kind = BackendKind.NONE then True
     else list_ex (\<lambda>b. bc_kind b = kind) (ri_backends (ph_inventory h)))"

definition occupied :: "PlacedReplica list \<Rightarrow> PlacementHost \<Rightarrow> string \<Rightarrow> bool" where
  "occupied existing h domain \<longleftrightarrow> list_ex (\<lambda>e.
     domain = ''host'' \<and> pr_host e = ph_host h \<and> pr_host e \<noteq> [] \<or>
     domain = ''numa'' \<and> pr_numa e = ph_numa h \<and> pr_numa e \<noteq> [] \<or>
     domain = ''device'' \<and> pr_device_id e = dv_device_id (ph_device h) \<and> pr_device_id e \<noteq> [] \<or>
     domain = ''rack'' \<and> list_ex (\<lambda>lbl. list_ex (\<lambda>hl. lbl = hl) (ph_failure_domain_labels h))
       (pr_failure_domain_labels e) \<or>
     list_ex (\<lambda>hd'. list_ex (\<lambda>edm. domain = edm \<and> hd' = edm) (pr_failure_domain_labels e))
       (ph_failure_domain_labels h)) existing"

text \<open>The key hosts are sorted by, which is also the candidate's summary.\<close>

definition host_key :: "PlacementHost \<Rightarrow> string" where
  "host_key h = id_str (ph_worker_id h) @ ''|'' @ dv_device_id (ph_device h)"

section \<open>Candidates\<close>

text \<open>The reason a host is rejected for; empty if it is not.\<close>

definition hard_reject :: "ReplicaSetState \<Rightarrow> PlacementHost \<Rightarrow> string" where
  "hard_reject st h =
     (if \<not> has_backend h (s_backend st)
      then ''missing required backend '' @ BackendKind_to_string (s_backend st)
      else if compute_less (dv_compute (ph_device h)) (s_min_compute st) then ''compute capability too low''
      else if ri_free_memory_bytes (ph_inventory h) < s_memory_requirement_bytes st then ''insufficient free memory''
      else if sint (ri_accelerator_count (ph_inventory h)) < sint (s_accelerator_requirement st)
      then ''insufficient accelerators''
      else [])"

definition factor :: "string \<Rightarrow> rat \<Rightarrow> rat \<Rightarrow> string \<Rightarrow> PlacementFactor" where
  "factor name weight score detail = \<lparr>pf_name = name, pf_weight = weight, pf_score = score,
     pf_contribution = dmul weight score, pf_detail = detail\<rparr>"

definition compute_capability_str :: "ComputeCapability \<Rightarrow> string" where
  "compute_capability_str c = to_string_int (cc_major c) @ ''.'' @ to_string_int (cc_minor c)"

definition compute_score :: "ComputeCapability \<Rightarrow> rat" where
  "compute_score c = ddiv (dadd (dmul (of_i32 (cc_major c)) 10) (of_i32 (cc_minor c))) 200"

definition locality_score :: "u64 \<Rightarrow> rat" where
  "locality_score away = (if away = 0 then 1 else ddiv 1 (dadd 1 (of_u64 away)))"

definition diversity :: "ReplicaSetState \<Rightarrow> PlacedReplica list \<Rightarrow> PlacementHost \<Rightarrow> rat \<times> string" where
  "diversity st existing h =
     (case find (occupied existing h) (pl_anti_affinity_domains (s_placement_policy st)) of
        None \<Rightarrow> (1, ''unique across affinity domains'')
      | Some d \<Rightarrow> (0, ''shares '' @ d @ '' domain with an existing replica''))"

definition preference :: "PlacementPolicy \<Rightarrow> PlacementHost \<Rightarrow> rat" where
  "preference pol h =
     (let pref = 0;
          pref = (if pl_preferred_host pol \<noteq> [] \<and> ph_host h = pl_preferred_host pol then dadd pref (1 / 2) else pref);
          pref = (if pl_preferred_device pol \<noteq> [] \<and> dv_device_id (ph_device h) = pl_preferred_device pol
                  then dadd pref (1 / 2) else pref);
          pref = (if pl_preferred_failure_domain pol \<noteq> [] \<and>
                     list_ex (\<lambda>lbl. lbl = pl_preferred_failure_domain pol) (ph_failure_domain_labels h)
                  then dadd pref (1 / 2) else pref)
      in pref)"

definition factors_of :: "ReplicaSetState \<Rightarrow> PlacedReplica list \<Rightarrow> PlacementHost \<Rightarrow> PlacementFactor list" where
  "factors_of st existing h =
     (let inv = ph_inventory h; cc = dv_compute (ph_device h)
      in [factor ''free_memory'' 3 (normalize_mem (ri_free_memory_bytes inv) (ri_total_memory_bytes inv))
            (to_string_u64 (ri_free_memory_bytes inv) @ '' free bytes''),
          factor ''accelerator_capability'' 2 (min 1 (compute_score cc))
            (''compute '' @ to_string_int (cc_major cc) @ ''.'' @ to_string_int (cc_minor cc)),
          factor ''warm_state'' (5 / 2) (if ph_has_warm_model h then 1 else 0)
            (if ph_has_warm_model h then ''warm model resident'' else ''cold model''),
          factor ''artifact_locality'' (3 / 2) (locality_score (ph_artifact_distance h))
            (''artifact distance '' @ to_string_u64 (ph_artifact_distance h)),
          factor ''failure_domain_diversity'' 4 (fst (diversity st existing h)) (snd (diversity st existing h)),
          factor ''preference'' 1 (min 1 (preference (s_placement_policy st) h)) ''placement preference bonus''])"

definition total_of :: "PlacementFactor list \<Rightarrow> rat" where
  "total_of fs = foldl (\<lambda>tot f. dadd tot (pf_contribution f)) 0 fs"

definition candidate_of :: "ReplicaSetState \<Rightarrow> PlacedReplica list \<Rightarrow> PlacementHost \<Rightarrow> PlacementCandidate" where
  "candidate_of st existing h =
     (if hard_reject st h \<noteq> []
      then \<lparr>pc_host = h, pc_eligible = False, pc_rejection = hard_reject st h, pc_factors = [], pc_total = 0, pc_summary = []\<rparr>
      else \<lparr>pc_host = h, pc_eligible = True, pc_rejection = [], pc_factors = factors_of st existing h,
             pc_total = total_of (factors_of st existing h), pc_summary = host_key h\<rparr>)"

section \<open>The decision\<close>

definition better :: "PlacementCandidate \<Rightarrow> PlacementCandidate option \<Rightarrow> bool" where
  "better c best \<longleftrightarrow> (case best of None \<Rightarrow> True
     | Some b \<Rightarrow> pc_total c > pc_total b \<or> pc_total c = pc_total b \<and> pc_summary c < pc_summary b)"

definition select_best :: "PlacementCandidate list \<Rightarrow> PlacementCandidate option" where
  "select_best cs = foldl (\<lambda>best c. if \<not> pc_eligible c then best else if better c best then Some c else best) None cs"

definition place :: "ReplicaSetState \<Rightarrow> PlacementHost list \<Rightarrow> PlacedReplica list \<Rightarrow> PlacementDecision" where
  "place st hosts existing =
     (let ordered = sort_key host_key hosts;
          candidates = map (candidate_of st existing) ordered
      in case select_best candidates of
           None \<Rightarrow> \<lparr>pd_placed = False, pd_chosen = PlacementHost_default, pd_candidates = candidates,
             pd_note = ''no eligible placement: all candidates failed hard constraints''\<rparr>
         | Some best \<Rightarrow> \<lparr>pd_placed = True, pd_chosen = pc_host best, pd_candidates = candidates,
             pd_note = ''chosen host '' @ id_str (ph_worker_id (pc_host best))\<rparr>)"

section \<open>The best candidate\<close>

definition admissible :: "ReplicaSetState \<Rightarrow> PlacementHost \<Rightarrow> bool" where
  "admissible st h \<longleftrightarrow>
     (s_backend st = BackendKind.NONE \<or> list_ex (\<lambda>b. bc_kind b = s_backend st) (ri_backends (ph_inventory h))) \<and>
     compute_le (s_min_compute st) (dv_compute (ph_device h)) \<and>
     s_memory_requirement_bytes st \<le> ri_free_memory_bytes (ph_inventory h) \<and>
     sint (s_accelerator_requirement st) \<le> sint (ri_accelerator_count (ph_inventory h))"

lemma hard_reject_iff: "hard_reject st h = [] \<longleftrightarrow> admissible st h"
  by (auto simp: hard_reject_def admissible_def has_backend_def compute_le_def not_less)

definition score :: "ReplicaSetState \<Rightarrow> PlacedReplica list \<Rightarrow> PlacementHost \<Rightarrow> rat" where
  "score st existing h = total_of (factors_of st existing h)"

lemma candidate_fields [simp]:
  "pc_host (candidate_of st existing h) = h" "pc_eligible (candidate_of st existing h) \<longleftrightarrow> admissible st h"
  "admissible st h \<Longrightarrow> pc_total (candidate_of st existing h) = score st existing h"
  "admissible st h \<Longrightarrow> pc_summary (candidate_of st existing h) = host_key h"
  by (simp_all add: candidate_of_def score_def hard_reject_iff flip: hard_reject_iff)

definition at_least :: "PlacementCandidate \<Rightarrow> PlacementCandidate \<Rightarrow> bool" where
  "at_least b c \<longleftrightarrow> pc_total c < pc_total b \<or> pc_total c = pc_total b \<and> pc_summary b \<le> pc_summary c"

lemma better_Some: "better c (Some b) \<longleftrightarrow> \<not> at_least b c"
  by (auto simp: better_def at_least_def)

lemma at_least_trans: "at_least a b \<Longrightarrow> at_least b c \<Longrightarrow> at_least a c"
  by (auto simp: at_least_def)

lemma at_least_total: "\<not> at_least a b \<Longrightarrow> at_least b a"
  by (auto simp: at_least_def)

lemma select_best_None: "select_best cs = None \<longleftrightarrow> (\<forall>c \<in> set cs. \<not> pc_eligible c)"
  by (induction cs rule: rev_induct) (auto simp: select_best_def better_def)

lemma select_best_Some:
  "select_best cs = Some b \<Longrightarrow> b \<in> set cs \<and> pc_eligible b \<and> (\<forall>c \<in> set cs. pc_eligible c \<longrightarrow> at_least b c)"
proof (induction cs arbitrary: b rule: rev_induct)
  case (snoc c cs)
  have step: "select_best (cs @ [c]) = (if \<not> pc_eligible c then select_best cs
      else if better c (select_best cs) then Some c else select_best cs)"
    by (simp add: select_best_def)
  have refl: "at_least c c" by (simp add: at_least_def)
  show ?case
  proof (cases "select_best cs")
    case None
    then show ?thesis
      using snoc.prems refl select_best_None [of cs] by (auto simp: step better_def split: if_splits)
  next
    case (Some b')
    note IH = snoc.IH [OF Some]
    show ?thesis
    proof (cases "pc_eligible c \<and> \<not> at_least b' c")
      case True
      then have b: "b = c" using snoc.prems by (simp add: step Some better_Some)
      have "at_least c b'" using True at_least_total by blast
      then have "at_least c c'" if "c' \<in> set cs" "pc_eligible c'" for c'
        using IH that at_least_trans by blast
      then show ?thesis using True refl by (auto simp: b)
    next
      case False
      then have "b = b'" using snoc.prems by (auto simp: step Some better_Some split: if_splits)
      then show ?thesis using IH False by auto
    qed
  qed
qed (simp add: select_best_def)

lemma placed_iff: "pd_placed (place st hosts existing) \<longleftrightarrow> list_ex (admissible st) hosts"
proof -
  let ?cs = "map (candidate_of st existing) (sort_key host_key hosts)"
  have "select_best ?cs = None \<longleftrightarrow> \<not> list_ex (admissible st) hosts"
    by (auto simp: select_best_None list_ex_iff)
  then show ?thesis by (auto simp: place_def Let_def split: option.split)
qed

text \<open>
  Placement finds a place exactly when there is one: the decision is positive if and only if
  some host has the backend, the compute capability, the free memory and the accelerators the set
  asks for (the two counts compared as signed numbers), and every host is among the candidates.
\<close>

theorem placed_iff_admissible:
  "(pd_placed (place st hosts existing) \<longleftrightarrow> list_ex (admissible st) hosts) \<and>
   mset (map pc_host (pd_candidates (place st hosts existing))) = mset hosts"
proof -
  let ?cs = "map (candidate_of st existing) (sort_key host_key hosts)"
  have "pd_candidates (place st hosts existing) = ?cs"
    by (simp add: place_def Let_def split: option.split)
  moreover have "map pc_host ?cs = sort_key host_key hosts"
    by (simp add: comp_def)
  ultimately show ?thesis
    using placed_iff by (simp only: mset_sort)
qed

lemma place_best:
  assumes "pd_placed (place st hosts existing)"
  shows "pd_chosen (place st hosts existing) \<in> set hosts \<and> admissible st (pd_chosen (place st hosts existing)) \<and>
    (\<forall>h \<in> set hosts. admissible st h \<longrightarrow>
       score st existing h < score st existing (pd_chosen (place st hosts existing)) \<or>
       score st existing h = score st existing (pd_chosen (place st hosts existing)) \<and>
       host_key (pd_chosen (place st hosts existing)) \<le> host_key h)"
proof -
  let ?cs = "map (candidate_of st existing) (sort_key host_key hosts)"
  obtain b where b: "select_best ?cs = Some b"
    using assms by (auto simp: place_def Let_def split: option.splits)
  then have chosen: "pd_chosen (place st hosts existing) = pc_host b"
    by (simp add: place_def Let_def)
  obtain h where h: "h \<in> set hosts" "b = candidate_of st existing h" "admissible st h"
    using select_best_Some [OF b] by auto
  have "at_least b (candidate_of st existing h')" if "h' \<in> set hosts" "admissible st h'" for h'
    using select_best_Some [OF b] that by auto
  then show ?thesis
    unfolding chosen using h by (auto simp: at_least_def)
qed

text \<open>
  C33. Placement chooses the best host: the chosen host is one of those offered and satisfies the
  hard constraints, and every other admissible host has a smaller total, or the same total and a
  key that is not smaller.
\<close>

theorem place_chooses_best:
  assumes "pd_placed (place st hosts existing)"
  shows "pd_chosen (place st hosts existing) \<in> set hosts \<and> admissible st (pd_chosen (place st hosts existing)) \<and>
    (\<forall>h \<in> set hosts. admissible st h \<longrightarrow>
       score st existing h < score st existing (pd_chosen (place st hosts existing)) \<or>
       score st existing h = score st existing (pd_chosen (place st hosts existing)) \<and>
       host_key (pd_chosen (place st hosts existing)) \<le> host_key h)"
  by (rule place_best [OF assms])

lemma sort_key_perm:
  assumes "distinct (map f xs)" and "mset xs = mset ys"
  shows "sort_key f xs = sort_key f ys"
proof -
  have sets: "set xs = set ys" using assms(2) by (rule mset_eq_setD)
  have d: "distinct (map f ys)"
    using assms(1) mset_eq_imp_distinct_iff [of "map f xs" "map f ys"] assms(2) by simp
  have inj: "inj_on f (set xs)" using assms(1) by (simp add: distinct_map)
  show ?thesis
  proof (rule map_sorted_distinct_set_unique [of f])
    show "inj_on f (set (sort_key f xs) \<union> set (sort_key f ys))"
      using inj sets by simp
    show "distinct (map f (sort_key f xs))" "distinct (map f (sort_key f ys))"
      using assms(1) d by (simp_all add: distinct_map)
    show "set (sort_key f xs) = set (sort_key f ys)"
      using sets by simp
  qed (rule sorted_sort_key)+
qed

lemma candidate_existing: "set existing = set existing' \<Longrightarrow> candidate_of st existing h = candidate_of st existing' h"
proof -
  assume "set existing = set existing'"
  then have "occupied existing h = occupied existing' h"
    by (intro ext) (simp add: occupied_def list_ex_iff)
  then show ?thesis
    by (simp add: candidate_of_def factors_of_def diversity_def)
qed

text \<open>
  Placement does not depend on the order of its input: for hosts with distinct keys the whole
  decision is the same in whatever order the hosts and the existing replicas are given.
\<close>

theorem place_order_independent:
  assumes "distinct (map host_key hosts)" and "mset hosts = mset hosts'" and "set existing = set existing'"
  shows "place st hosts existing = place st hosts' existing'"
proof -
  have "candidate_of st existing = candidate_of st existing'"
    using candidate_existing [OF assms(3)] by blast
  then show ?thesis
    by (simp only: place_def sort_key_perm [OF assms(1,2)])
qed

section \<open>Normalised scores\<close>

definition normal_host :: "PlacementHost \<Rightarrow> bool" where
  "normal_host h \<longleftrightarrow> ri_free_memory_bytes (ph_inventory h) \<le> ri_total_memory_bytes (ph_inventory h) \<and>
     0 \<le> sint (cc_major (dv_compute (ph_device h))) \<and> 0 \<le> sint (cc_minor (dv_compute (ph_device h)))"

definition unit_score :: "rat \<Rightarrow> bool" where
  "unit_score x \<longleftrightarrow> 0 \<le> x \<and> x \<le> 1"

lemma rnd_le: "x \<le> y \<Longrightarrow> rnd y = y \<Longrightarrow> rnd x \<le> y"
  using rnd_mono [of x y] by simp

lemma rnd_ge: "y \<le> x \<Longrightarrow> rnd y = y \<Longrightarrow> y \<le> rnd x"
  using rnd_mono [of y x] by simp

lemma ddiv_unit: "0 \<le> a \<Longrightarrow> a \<le> b \<Longrightarrow> unit_score (ddiv a b)"
  unfolding unit_score_def ddiv_def
  by (intro conjI rnd_nonneg rnd_le) (auto simp: divide_le_eq_1)

lemma of_u64_nonneg: "0 \<le> of_u64 w"
  unfolding of_u64_def by (intro rnd_nonneg of_nat_0_le_iff)

lemma of_u64_mono: "v \<le> w \<Longrightarrow> of_u64 v \<le> of_u64 w"
  unfolding of_u64_def word_le_nat_alt by (intro rnd_mono of_nat_mono)

lemma of_i32_nonneg: "0 \<le> sint w \<Longrightarrow> 0 \<le> of_i32 w"
  by (simp only: of_i32_def of_int_0_le_iff)

lemma mem_unit: "free \<le> tot \<Longrightarrow> unit_score (normalize_mem free tot)"
  using ddiv_unit [OF of_u64_nonneg of_u64_mono] by (simp add: normalize_mem_def) (simp add: unit_score_def)

lemma locality_unit: "unit_score (locality_score away)"
proof -
  have "1 \<le> dadd 1 (of_u64 away)"
    unfolding dadd_def using of_u64_nonneg [of away] by (intro rnd_ge) simp_all
  then show ?thesis
    using ddiv_unit [of 1] by (simp add: locality_score_def) (simp add: unit_score_def)
qed

lemma compute_unit:
  assumes "0 \<le> sint (cc_major c)" and "0 \<le> sint (cc_minor c)"
  shows "unit_score (min 1 (compute_score c))"
proof -
  have "0 \<le> dmul (of_i32 (cc_major c)) 10"
    using of_i32_nonneg [OF assms(1)] by (simp add: dmul_def rnd_nonneg)
  then have "0 \<le> dadd (dmul (of_i32 (cc_major c)) 10) (of_i32 (cc_minor c))"
    using of_i32_nonneg [OF assms(2)] by (simp add: dadd_def rnd_nonneg)
  then show ?thesis
    by (simp add: unit_score_def compute_score_def ddiv_def rnd_nonneg)
qed

lemma preference_unit: "unit_score (min 1 (preference pol h))"
proof -
  have step: "0 \<le> p \<Longrightarrow> 0 \<le> (if b then dadd p (1 / 2) else p)" for p b
    by (simp add: dadd_def rnd_nonneg)
  have "0 \<le> preference pol h"
    unfolding preference_def Let_def by (intro step) simp
  then show ?thesis by (simp add: unit_score_def)
qed

lemma factor_bounds:
  "unit_score sc \<Longrightarrow> 0 \<le> w \<Longrightarrow> rnd w = w \<Longrightarrow> 0 \<le> dmul w sc \<and> dmul w sc \<le> w"
  unfolding dmul_def unit_score_def by (auto intro!: rnd_nonneg rnd_le simp: mult_left_le)

lemma dadd_bounds:
  "0 \<le> t \<and> t \<le> a \<Longrightarrow> 0 \<le> c \<and> c \<le> b \<Longrightarrow> rnd (a + b) = a + b \<Longrightarrow> 0 \<le> dadd t c \<and> dadd t c \<le> a + b"
  unfolding dadd_def by (auto intro!: rnd_nonneg rnd_le)

text \<open>
  Scores are normalised: for a host that reports no more free than total memory and no negative
  compute capability, every factor's score is between 0 and 1, its contribution between 0 and its
  weight, and the total between 0 and 14, with all roundings of \<open>double\<close> arithmetic taken into
  account.
\<close>

theorem scores_normalised:
  assumes "normal_host h"
  shows "list_all (\<lambda>f. unit_score (pf_score f) \<and> 0 \<le> pf_contribution f \<and> pf_contribution f \<le> pf_weight f)
      (factors_of st existing h) \<and> 0 \<le> score st existing h \<and> score st existing h \<le> 14"
proof -
  let ?inv = "ph_inventory h" and ?cc = "dv_compute (ph_device h)"
  define scs where "scs = [normalize_mem (ri_free_memory_bytes ?inv) (ri_total_memory_bytes ?inv),
    min 1 (compute_score ?cc), if ph_has_warm_model h then 1 else 0, locality_score (ph_artifact_distance h),
    fst (diversity st existing h), min 1 (preference (s_placement_policy st) h)]"
  have unit: "list_all unit_score scs"
    using assms mem_unit locality_unit compute_unit [of ?cc] preference_unit
    by (auto simp: scs_def normal_host_def diversity_def unit_score_def [of 0] unit_score_def [of 1] split: option.split)
  have "unit_score (scs ! i)" if "i < 6" for i
    using unit that by (simp add: list_all_length scs_def)
  then have w: "0 \<le> dmul 3 (scs ! 0) \<and> dmul 3 (scs ! 0) \<le> 3" "0 \<le> dmul 2 (scs ! 1) \<and> dmul 2 (scs ! 1) \<le> 2"
    "0 \<le> dmul (5 / 2) (scs ! 2) \<and> dmul (5 / 2) (scs ! 2) \<le> 5 / 2"
    "0 \<le> dmul (3 / 2) (scs ! 3) \<and> dmul (3 / 2) (scs ! 3) \<le> 3 / 2"
    "0 \<le> dmul 4 (scs ! 4) \<and> dmul 4 (scs ! 4) \<le> 4" "0 \<le> dmul 1 (scs ! 5) \<and> dmul 1 (scs ! 5) \<le> 1"
    by (intro factor_bounds; simp)+
  have total: "score st existing h = dadd (dadd (dadd (dadd (dadd (dadd 0 (dmul 3 (scs ! 0))) (dmul 2 (scs ! 1)))
      (dmul (5 / 2) (scs ! 2))) (dmul (3 / 2) (scs ! 3))) (dmul 4 (scs ! 4))) (dmul 1 (scs ! 5))"
    by (simp add: score_def total_of_def factors_of_def factor_def scs_def Let_def)
  have "0 \<le> score st existing h \<and> score st existing h \<le> 0 + 3 + 2 + 5 / 2 + 3 / 2 + 4 + 1"
    unfolding total by (intro dadd_bounds w) simp_all
  moreover have "list_all (\<lambda>f. unit_score (pf_score f) \<and> 0 \<le> pf_contribution f \<and> pf_contribution f \<le> pf_weight f)
      (factors_of st existing h)"
    using unit w by (simp add: factors_of_def factor_def scs_def Let_def)
  ultimately show ?thesis by simp
qed

section \<open>What the weights decide\<close>

lemma chosen_unique:
  assumes "h \<in> set hosts" and "admissible st h"
    and "\<forall>h' \<in> set hosts. h' = h \<or> score st existing h' < score st existing h"
  shows "pd_placed (place st hosts existing) \<and> pd_chosen (place st hosts existing) = h"
proof -
  let ?cs = "map (candidate_of st existing) (sort_key host_key hosts)"
  have "select_best ?cs \<noteq> None"
    using assms(1,2) by (auto simp: select_best_None)
  then have placed: "pd_placed (place st hosts existing)"
    by (auto simp: place_def Let_def)
  show ?thesis
    using placed place_best [OF placed] assms by fastforce
qed

text \<open>A host that is also its device, with its memory, warmth and distance.\<close>

definition demo_host :: "u64 \<Rightarrow> string \<Rightarrow> u64 \<Rightarrow> bool \<Rightarrow> u64 \<Rightarrow> PlacementHost" where
  "demo_host i host free warm away = PlacementHost_default\<lparr>ph_worker_id := MkId 0 i, ph_host := host,
     ph_device := DeviceCapability_default\<lparr>dv_device_id := host\<rparr>,
     ph_inventory := ResourceInventory_default\<lparr>ri_total_memory_bytes := 1, ri_free_memory_bytes := free,
       ri_accelerator_count := 1\<rparr>, ph_artifact_distance := away, ph_has_warm_model := warm\<rparr>"

definition demo_placed :: PlacedReplica where
  "demo_placed = \<lparr>pr_id = MkId 0 1, pr_host = ''node-a'', pr_numa = [], pr_device_id = [], pr_failure_domain_labels = []\<rparr>"

definition spread_set :: "string \<Rightarrow> ReplicaSetState" where
  "spread_set preferred = ReplicaSetState_default\<lparr>s_placement_policy := PlacementPolicy_default\<lparr>
     pl_anti_affinity_domains := [''host''], pl_require_diversity := True, pl_preferred_host := preferred,
     pl_preferred_device := preferred\<rparr>\<rparr>"

lemmas demo_placement = demo_host_def demo_placed_def spread_set_def PlacementHost_default_def
  ResourceInventory_default_def ReplicaSetState_default_def PlacementPolicy_default_def
  DeviceCapability_default_def ComputeCapability_default_def

lemma demo_admissible: "admissible (spread_set p) (demo_host i host free warm away)"
  by (simp add: admissible_def demo_placement compute_le_def)

lemmas demo_score_simps = score_def total_of_def factors_of_def factor_def normalize_mem_def of_u64_def
  compute_score_def of_i32_def dmul_def dadd_def ddiv_def locality_score_def diversity_def occupied_def
  preference_def demo_placement Let_def

lemma demo_scores:
  "score (spread_set []) [demo_placed] (demo_host 1 ''node-a'' 1 True 0) = 7"
  "score (spread_set []) [demo_placed] (demo_host 2 ''node-b'' 0 False 0) = 11 / 2"
  "score (spread_set []) [] (demo_host 1 ''node-a'' 0 False 0) = 11 / 2"
  "score (spread_set ''node-b'') [] (demo_host 1 ''node-a'' 0 False 0) = 11 / 2"
  "score (spread_set []) [] (demo_host 2 ''node-b'' 0 False 1) = 19 / 4"
  "score (spread_set ''node-b'') [] (demo_host 2 ''node-b'' 0 False 1) = 23 / 4"
  by (simp_all add: demo_score_simps)

text \<open>
  Anti-affinity is a preference, not a constraint: a set that spreads over hosts and requires
  diversity is placed on the host that already has one of its replicas, warm and with free memory,
  while another host satisfies the hard constraints and shares no domain.
\<close>

theorem anti_affinity_is_soft:
  "(let st = spread_set []; used = demo_host 1 ''node-a'' 1 True 0; fresh = demo_host 2 ''node-b'' 0 False 0;
        d = place st [used, fresh] [demo_placed]
    in pd_placed d \<and> pd_chosen d = used \<and> occupied [demo_placed] used ''host'' \<and>
       admissible st fresh \<and> \<not> occupied [demo_placed] fresh ''host'')"
  using chosen_unique [of "demo_host 1 ''node-a'' 1 True 0" "[demo_host 1 ''node-a'' 1 True 0, demo_host 2 ''node-b'' 0 False 0]"
      "spread_set []" "[demo_placed]"]
  by (simp add: Let_def demo_admissible demo_scores) (simp add: occupied_def demo_placement)

text \<open>
  A preferred host wins over a better one: of two admissible hosts the one nearer to the
  artifact is chosen when the policy has no preference, and the other when the policy prefers its
  host and device, so that a preference does more than break ties.
\<close>

theorem preference_overrides_locality:
  "(let near = demo_host 1 ''node-a'' 0 False 0; far = demo_host 2 ''node-b'' 0 False 1
    in pd_chosen (place (spread_set []) [near, far] []) = near \<and>
       pd_chosen (place (spread_set ''node-b'') [near, far] []) = far)"
  using chosen_unique [of "demo_host 1 ''node-a'' 0 False 0" "[demo_host 1 ''node-a'' 0 False 0, demo_host 2 ''node-b'' 0 False 1]"
      "spread_set []" "[]"]
    chosen_unique [of "demo_host 2 ''node-b'' 0 False 1" "[demo_host 1 ''node-a'' 0 False 0, demo_host 2 ''node-b'' 0 False 1]"
      "spread_set ''node-b''" "[]"]
  by (simp add: Let_def demo_admissible demo_scores)

section \<open>Witnesses\<close>

theorem place_chooses_best_witness:
  "score (spread_set []) [] (pd_chosen (place (spread_set []) [demo_host 2 ''node-b'' 0 False 1, demo_host 1 ''node-a'' 0 False 0] [])) \<ge> 11 / 2"
proof -
  let ?hs = "[demo_host 2 ''node-b'' 0 False 1, demo_host 1 ''node-a'' 0 False 0]"
  have "pd_placed (place (spread_set []) ?hs [])"
    using chosen_unique [of "demo_host 1 ''node-a'' 0 False 0" ?hs "spread_set []" "[]"]
    by (simp add: demo_admissible demo_scores)
  from place_chooses_best [OF this] show ?thesis
    by (auto simp: demo_admissible demo_scores)
qed

theorem place_order_independent_witness:
  "place (spread_set []) [demo_host 2 ''node-b'' 0 False 1, demo_host 1 ''node-a'' 0 False 0] [] =
   place (spread_set []) [demo_host 1 ''node-a'' 0 False 0, demo_host 2 ''node-b'' 0 False 1] []"
  by (rule place_order_independent) (simp_all add: host_key_def demo_placement)

theorem scores_normalised_witness:
  "score (spread_set []) [demo_placed] (demo_host 1 ''node-a'' 1 True 0) \<le> 14"
  using scores_normalised [of "demo_host 1 ''node-a'' 1 True 0" "spread_set []" "[demo_placed]"]
  by (simp add: normal_host_def demo_placement)

end
