(* ===== verification/Command_Line.thy ===== *)
theory Command_Line
  imports Process Placement
begin

text \<open>
  The command line tool of \<open>apps/cli/rf_cli.cpp\<close>. Its state is a controller, the engine it draws
  identities from, the files by name and what it has printed; a command returns the exit code and
  the new state, or the failure that ends the process (an exception nobody catches, an argument
  read past the end of the list, a variable read without a value). \<open>writable\<close> says which files
  can be opened for writing. Where C++ leaves the order of evaluation of a call's arguments open,
  identities are drawn from left to right.
\<close>

section \<open>State and output\<close>

record cli =
  cl_json :: bool
  cl_state_in :: string
  cl_state_out :: string
  cl_ctrl :: controller
  cl_rng :: engine
  cl_files :: "string \<Rightarrow> bytes option"
  cl_out :: string

type_synonym cli_result = "process_failure + int \<times> cli"

fun jesc :: "string \<Rightarrow> string" where
  "jesc [] = []"
| "jesc (c # s) =
     (if c = CHR 0x22 \<or> c = CHR 0x5C then CHR 0x5C # c # jesc s
      else if c = newline then CHR 0x5C # CHR ''n'' # jesc s
      else c # jesc s)"

definition quote :: string where "quote = [CHR 0x22]"

definition say :: "string \<Rightarrow> cli \<Rightarrow> cli" where
  "say t s = s\<lparr>cl_out := cl_out s @ t\<rparr>"

definition say_json :: "string \<Rightarrow> cli \<Rightarrow> cli" where
  "say_json t s = (if cl_json s then say t s else s)"

definition out_line :: "string \<Rightarrow> string \<Rightarrow> cli \<Rightarrow> cli" where
  "out_line k v s = say (if cl_json s then quote @ k @ quote @ '':'' @ quote @ jesc v @ quote @ '','' @ [newline]
     else k @ '': '' @ v @ [newline]) s"

definition say_line :: "string \<Rightarrow> cli \<Rightarrow> cli" where
  "say_line t s = say (t @ [newline]) s"

text \<open>\<open>args[i]\<close>, which is not checked against the length.\<close>

definition arg :: "string list \<Rightarrow> nat \<Rightarrow> process_failure + string" where
  "arg args i = (if i < length args then Inr (args ! i) else Inl Out_of_bounds_read)"

definition id_arg :: "string list \<Rightarrow> nat \<Rightarrow> process_failure + 'tag Id" where
  "id_arg args i = ebind (arg args i) parse_id"

definition draw :: "cli \<Rightarrow> 'tag Id \<times> cli" where
  "draw s = (let (i, g) = random_id (cl_rng s) in (i, s\<lparr>cl_rng := g\<rparr>))"

section \<open>Loading and saving\<close>

definition relink_replica :: "controller \<Rightarrow> ReplicaState \<Rightarrow> ReplicaState" where
  "relink_replica c r = (case om_find (ct_workers c) (r_worker_id r) of
     None \<Rightarrow> r | Some w \<Rightarrow> r\<lparr>r_boot_id := w_boot_id w\<rparr>)"

definition relink_authority :: "controller \<Rightarrow> controller" where
  "relink_authority c =
     (let c' = c\<lparr>ct_replicas := om_map (\<lambda>_. relink_replica c) (ct_replicas c)\<rparr>
      in case ct_replicas c of
           [] \<Rightarrow> c'
         | (_, r) # _ \<Rightarrow> set_epoch (r_coordinator_epoch r) c')"

definition load_state :: "cli \<Rightarrow> bool \<times> cli" where
  "load_state s =
     (if cl_state_in s = [] then (True, s)
      else case cl_files s (cl_state_in s) of
             None \<Rightarrow> (False, s)
           | Some bytes \<Rightarrow>
               (case recover_into bytes (cl_ctrl s) of
                  (Inl _, c) \<Rightarrow> (False, s\<lparr>cl_ctrl := c\<rparr>)
                | (Inr _, c) \<Rightarrow> (True, s\<lparr>cl_ctrl := relink_authority c\<rparr>)))"

definition save_state :: "(string \<Rightarrow> bool) \<Rightarrow> cli \<Rightarrow> cli" where
  "save_state writable s =
     (if cl_state_out s = [] then s
      else if \<not> writable (cl_state_out s) then s
      else s\<lparr>cl_files := (cl_files s)(cl_state_out s \<mapsto> make_snapshot (cl_ctrl s))\<rparr>)"

section \<open>Building blocks\<close>

definition mk_set :: "ReplicaSetId \<Rightarrow> ModelId \<Rightarrow> ArtifactId \<Rightarrow> ArtifactGeneration \<Rightarrow> ReplicaSetGeneration \<Rightarrow>
    PolicyGeneration \<Rightarrow> i32 \<Rightarrow> cli \<Rightarrow> ReplicaSetState \<times> cli" where
  "mk_set i model art ag sg pg mx s =
     (let (workload, s) = draw s; (tenant, s) = draw s; d = ReplicaSetState_default
      in (d\<lparr>s_id := i, s_model_id := model, s_artifact_id := art, s_artifact_generation := ag,
            s_generation := sg, s_policy_generation := pg, s_workload_id := workload, s_tenant_id := tenant,
            s_desired_count := mx, s_min_healthy := 1, s_max_replicas := mx,
            s_lifecycle := ReplicaSetLifecycle.CREATED,
            s_compatibility := (s_compatibility d)\<lparr>cq_model_id := model, cq_backend := BackendKind.TRITON,
              cq_runtime_name := ''triton-3'', cq_architecture := ''llama'',
              cq_min_compute := \<lparr>cc_major = 8, cc_minor = 0\<rparr>, cq_numeric_mode := NumericMode.FP16,
              cq_artifact_generation := ag, cq_policy_fingerprint := ''fp-1''\<rparr>,
            s_backend := BackendKind.TRITON, s_runtime_name := ''triton-3'',
            s_min_compute := \<lparr>cc_major = 8, cc_minor = 0\<rparr>,
            s_memory_requirement_bytes := 16 * 1024 * 1024, s_accelerator_requirement := 1,
            s_placement_policy := (s_placement_policy d)\<lparr>pl_anti_affinity_domains := [''host''],
              pl_require_diversity := True,
              pl_synthetic_domains := [\<lparr>sd_label = ''rack-A'', sd_kind = ''rack''\<rparr>, \<lparr>sd_label = ''rack-B'', sd_kind = ''rack''\<rparr>]\<rparr>\<rparr>, s))"

definition cli_device :: DeviceCapability where
  "cli_device = \<lparr>dv_kind = AcceleratorKind.CUDA, dv_device_id = ''cuda:0'',
     dv_compute = \<lparr>cc_major = 12, cc_minor = 0\<rparr>, dv_memory_bytes = 32 * 1024 * 1024 * 1024\<rparr>"

definition cli_worker :: "WorkerId \<Rightarrow> WorkerBootId \<Rightarrow> NodeId \<Rightarrow> WorkerRegistration" where
  "cli_worker w b n = WorkerRegistration_default\<lparr>w_worker_id := w, w_boot_id := b, w_node_id := n, w_protocol_version := 1,
     w_inventory := \<lparr>ri_total_memory_bytes = 64 * 1024 * 1024 * 1024, ri_free_memory_bytes = 64 * 1024 * 1024 * 1024,
       ri_accelerator_count = 1, ri_devices = [cli_device],
       ri_backends = [\<lparr>bc_kind = BackendKind.TRITON, bc_name = ''triton-3'',
         bc_compute = \<lparr>cc_major = 12, cc_minor = 0\<rparr>, bc_numeric = NumericMode.FP16\<rparr>]\<rparr>\<rparr>"

definition cli_compat :: "ReplicaSetState option \<Rightarrow> ReplicaCompatibility" where
  "cli_compat setp =
     (case setp of
        None \<Rightarrow> ReplicaCompatibility_default
      | Some st \<Rightarrow> (let q = s_compatibility st in ReplicaCompatibility_default\<lparr>
          cp_model_id := cq_model_id q, cp_backend := cq_backend q, cp_runtime_name := cq_runtime_name q,
          cp_architecture := cq_architecture q, cp_numeric_mode := cq_numeric_mode q,
          cp_artifact_generation := cq_artifact_generation q,
          cp_policy_fingerprint := cq_policy_fingerprint q, cp_compute := cq_min_compute q\<rparr>))"

definition setup_replica :: "ReplicaSetId \<Rightarrow> ReplicaId \<Rightarrow> cli \<Rightarrow> (WorkerId \<times> WorkerBootId \<times> NodeId) \<times> cli" where
  "setup_replica sid rid s =
     (let (w, s) = draw s; (b, s) = draw s; (n, s) = draw s;
          setp = find_set sid (cl_ctrl s);
          c = snd (register_worker (cli_worker w b n) 0 0 (cl_ctrl s));
          c = snd (provision_replica rid sid w (cli_compat setp) cli_device (8 * 1024 * 1024) 0 0 c);
          (pid, s) = draw s;
          c = snd (set_allocating rid pid 0 c);
          c = snd (set_starting rid 0 0 c)
      in ((w, b, n), s\<lparr>cl_ctrl := c\<rparr>))"

definition cli_warming :: WarmingRecord where
  "cli_warming = WarmingRecord_default\<lparr>wm_state := WarmthState.WARM, wm_artifact_loading_done := True,
     wm_weights_resident := True, wm_adapters_active := True, wm_kernel_init_done := True,
     wm_graph_init_done := True, wm_allocator_init_done := True, wm_device_context_done := True,
     wm_warmup_execution_done := True, wm_endpoint_registered := True, wm_steps_required := 4,
     wm_steps_completed := 4\<rparr>"

definition cli_health :: "ReplicaState option \<Rightarrow> HealthEvidence" where
  "cli_health r2 = (let he = HealthEvidence_default\<lparr>he_state := HealthState.HEALTHY,
       he_kind := HealthEvidenceKind.REPORTED, he_source := ''cli''\<rparr>
     in (case r2 of None \<Rightarrow> he | Some r \<Rightarrow> he\<lparr>he_generation := r_health_generation r\<rparr>)\<lparr>he_observed_at_mono := 0\<rparr>)"

definition cli_readiness :: ReadinessRecord where
  "cli_readiness = ReadinessRecord_default\<lparr>rr_factors := \<lparr>rf_model_loaded = True, rf_artifact_validated = True,
     rf_adapters_present = True, rf_kernel_prepared = True, rf_graph_prepared = True, rf_memory_available = True,
     rf_device_context_initialized = True, rf_warmup_complete = True, rf_dependencies_ready = True,
     rf_endpoint_registered = True, rf_policy_current = True\<rparr>, rr_state := ReadinessState.READY\<rparr>"

text \<open>Warming, health and readiness in turn, with the three results.\<close>

definition warm_ready :: "ReplicaId \<Rightarrow> WorkerId \<Rightarrow> WorkerBootId \<Rightarrow> controller \<Rightarrow>
    (OpResult \<times> OpResult \<times> OpResult) \<times> controller" where
  "warm_ready rid w b c =
     (let (wr, c) = warm_replica rid cli_warming w b 0 c;
          (hr, c) = report_health rid (cli_health (find_replica rid c)) w b 0 c;
          (qr, c) = report_readiness rid cli_readiness w b 0 c
      in ((wr, hr, qr), c))"

definition is_ready :: "ReplicaState \<Rightarrow> bool" where
  "is_ready r \<longleftrightarrow> r_readiness r = ReadinessState.READY \<and> r_health r = HealthState.HEALTHY"

definition ensure_ready :: "ReplicaId \<Rightarrow> WorkerId \<Rightarrow> WorkerBootId \<Rightarrow> controller \<Rightarrow> bool \<times> controller" where
  "ensure_ready rid w b c =
     (case find_replica rid c of
        None \<Rightarrow> (False, c)
      | Some cur \<Rightarrow>
          (let need = (r_readiness cur \<noteq> ReadinessState.READY \<or> r_health cur \<noteq> HealthState.HEALTHY);
               c = (if need then snd (warm_ready rid w b c) else c)
           in ((case find_replica rid c of None \<Rightarrow> False | Some r \<Rightarrow> is_ready r), c)))"

section \<open>Commands that change the state\<close>

definition result_code :: "OpResult \<Rightarrow> int" where
  "result_code r = (if is_ok r then 0 else 1)"

definition count_arg :: "string list \<Rightarrow> nat \<Rightarrow> process_failure + i32" where
  "count_arg args i = (if i < length args then raised (stoi (args ! i)) else Inr 2)"

definition cmd_create_set :: "(string \<Rightarrow> bool) \<Rightarrow> string list \<Rightarrow> cli \<Rightarrow> cli_result" where
  "cmd_create_set writable args s =
     ebind (id_arg args 1) (\<lambda>i. ebind (id_arg args 2) (\<lambda>model. ebind (id_arg args 3) (\<lambda>art.
     ebind (id_arg args 4) (\<lambda>ag. ebind (id_arg args 5) (\<lambda>sg. ebind (id_arg args 6) (\<lambda>pg.
     ebind (count_arg args 7) (\<lambda>mx.
     (let (st, s) = mk_set i model art ag sg pg mx s;
          (epoch, s) = draw s;
          (r, c) = create_replica_set st epoch (cl_ctrl s);
          s = say_line (if is_ok r then ''ok'' else op_message r) (s\<lparr>cl_ctrl := c\<rparr>)
      in Inr (result_code r, save_state writable s)))))))))"

definition setup_one :: "ReplicaSetId \<Rightarrow> nat \<Rightarrow> cli \<Rightarrow> cli" where
  "setup_one sid i s =
     (let (rid, s) = draw s;
          ((w, b, n), s) = setup_replica sid rid s
      in if cl_json s
         then (let s = say (quote @ ''replica'' @ to_string_nat i @ quote @ '':{'') s;
                   s = out_line ''id'' (id_str rid) s;
                   s = out_line ''worker'' (id_str w) s;
                   s = out_line ''boot'' (id_str b) s
               in say (quote @ ''node'' @ quote @ '':'' @ quote @ id_str n @ quote @ ''},'' @ [newline]) s)
         else say_line (''replica'' @ to_string_nat i @ '': '' @ id_str rid @ '' (worker '' @ id_str w @
           '' boot '' @ id_str b @ '')'') s)"

text \<open>Drawing the identities of a new set and creating it, as \<open>setup\<close> and \<open>demo\<close> begin.\<close>

definition fresh_set :: "i32 \<Rightarrow> cli \<Rightarrow> (ReplicaSetId \<times> OpResult) \<times> cli" where
  "fresh_set mx s =
     (let (sid, s) = draw s; (model, s) = draw s; (art, s) = draw s; (ag, s) = draw s;
          (sg, s) = draw s; (pg, s) = draw s;
          (st, s) = mk_set sid model art ag sg pg mx s;
          (epoch, s) = draw s;
          (r, c) = create_replica_set st epoch (cl_ctrl s)
      in ((sid, r), s\<lparr>cl_ctrl := c\<rparr>))"

definition cmd_setup :: "(string \<Rightarrow> bool) \<Rightarrow> string list \<Rightarrow> cli \<Rightarrow> cli_result" where
  "cmd_setup writable args s =
     ebind (count_arg args 1) (\<lambda>mx.
     (let ((sid, r), s) = fresh_set mx s
      in if \<not> is_ok r then Inr (1, say_line (''setup failed: '' @ op_message r) s)
         else (let s = say_json (''{'' @ [newline]) s;
                   s = out_line ''set'' (id_str sid) s;
                   s = foldl (\<lambda>s i. setup_one sid i s) s [0..<min 2 (nat (sint mx))];
                   s = say_json (''}'' @ [newline]) s
               in Inr (0, save_state writable s))))"

definition result_or_ok :: "OpResult \<Rightarrow> string" where
  "result_or_ok r = (if is_ok r then ''ok'' else op_message r)"

definition cmd_warm :: "(string \<Rightarrow> bool) \<Rightarrow> string list \<Rightarrow> cli \<Rightarrow> cli_result" where
  "cmd_warm writable args s =
     ebind (id_arg args 1) (\<lambda>rid. ebind (id_arg args 2) (\<lambda>w. ebind (id_arg args 3) (\<lambda>b.
     (if find_replica rid (cl_ctrl s) = None then Inr (1, say_line ''unknown replica'' s)
      else (let ((wr, hr, qr), c) = warm_ready rid w b (cl_ctrl s);
                s = say_line (''warm='' @ result_or_ok wr @ '' health='' @ result_or_ok hr @
                  '' readiness='' @ result_or_ok qr @ '' -> lifecycle='' @
                  (case find_replica rid c of None \<Rightarrow> ''?'' | Some r \<Rightarrow> ReplicaLifecycle_to_string (r_lifecycle r)))
                  (s\<lparr>cl_ctrl := c\<rparr>)
            in Inr (0, save_state writable s))))))"

text \<open>\<open>target\<close> is read only after the replica was made ready.\<close>

definition cmd_promote :: "(string \<Rightarrow> bool) \<Rightarrow> string list \<Rightarrow> cli \<Rightarrow> cli_result" where
  "cmd_promote writable args s =
     ebind (id_arg args 1) (\<lambda>rid. ebind (id_arg args 2) (\<lambda>w. ebind (id_arg args 3) (\<lambda>b.
     ebind (ebind (arg args 4) (\<lambda>t. raised (stoi t))) (\<lambda>tg.
     (let (ready, c) = ensure_ready rid w b (cl_ctrl s);
          s = s\<lparr>cl_ctrl := c\<rparr>
      in if \<not> ready then Inr (1, say_line ''cannot make replica ready for promotion'' s)
         else ebind (read_var (PromotionState_from_int (sint tg))) (\<lambda>target.
           (let (r, c) = promote_replica rid target w b 0 0 c;
                s = say_line (result_or_ok r) (s\<lparr>cl_ctrl := c\<rparr>)
            in Inr (result_code r, save_state writable s))))))))"

definition cmd_drain :: "(string \<Rightarrow> bool) \<Rightarrow> string list \<Rightarrow> cli \<Rightarrow> cli_result" where
  "cmd_drain writable args s =
     ebind (id_arg args 1) (\<lambda>rid. ebind (id_arg args 2) (\<lambda>w. ebind (id_arg args 3) (\<lambda>b.
     (let (r, c) = drain_replica rid w b 0 (cl_ctrl s);
          s = say_line (result_or_ok r) (s\<lparr>cl_ctrl := c\<rparr>)
      in Inr (result_code r, save_state writable s)))))"

definition ready_candidate :: "ReplicaId \<Rightarrow> controller \<Rightarrow> ReplicaId \<Rightarrow> controller" where
  "ready_candidate failed c rid =
     (if rid = failed then c
      else case find_replica rid c of
             None \<Rightarrow> c
           | Some r \<Rightarrow> (case om_find (ct_workers c) (r_worker_id r) of
                 None \<Rightarrow> c
               | Some wr \<Rightarrow> snd (ensure_ready rid (w_worker_id wr) (w_boot_id wr) c)))"

definition cmd_failover :: "(string \<Rightarrow> bool) \<Rightarrow> string list \<Rightarrow> cli \<Rightarrow> cli_result" where
  "cmd_failover writable args s =
     ebind (id_arg args 1) (\<lambda>sid. ebind (id_arg args 2) (\<lambda>failed.
     (let reason = (if 3 < length args then args ! 3 else ''failover'');
          c = foldl (ready_candidate failed) (cl_ctrl s) (list_replicas sid (cl_ctrl s));
          (r, c) = trigger_failover sid failed reason 0 0 c;
          s = say_line (result_or_ok r) (s\<lparr>cl_ctrl := c\<rparr>)
      in Inr (result_code r, save_state writable s))))"

definition cmd_snapshot_save :: "(string \<Rightarrow> bool) \<Rightarrow> string list \<Rightarrow> cli \<Rightarrow> cli_result" where
  "cmd_snapshot_save writable args s =
     ebind (arg args 1) (\<lambda>path.
     (let bytes = make_snapshot (cl_ctrl s)
      in if \<not> writable path then Inr (1, say_line ''cannot open'' s)
         else Inr (0, say_line (''saved '' @ to_string_nat (length bytes) @ '' bytes to '' @ path)
           (s\<lparr>cl_files := (cl_files s)(path \<mapsto> bytes)\<rparr>))))"

definition cmd_snapshot_recover :: "string list \<Rightarrow> cli \<Rightarrow> cli_result" where
  "cmd_snapshot_recover args s =
     ebind (arg args 1) (\<lambda>path.
     (case cl_files s path of
        None \<Rightarrow> Inr (1, say_line ''cannot open'' s)
      | Some bytes \<Rightarrow>
          (case recover_into bytes (cl_ctrl s) of
             (Inr _, c) \<Rightarrow> Inr (0, say_line ''recovered'' (s\<lparr>cl_ctrl := c\<rparr>))
           | (Inl err, c) \<Rightarrow> Inr (1, say_line (''recover failed: '' @ err) (s\<lparr>cl_ctrl := c\<rparr>)))))"

section \<open>Commands that show the state\<close>

definition flag :: "bool \<Rightarrow> string" where
  "flag b = (if b then ''1'' else ''0'')"

definition quoted :: "string \<Rightarrow> string" where
  "quoted t = quote @ t @ quote"

text \<open>The elements of a JSON array, separated by commas.\<close>

fun commas :: "string list \<Rightarrow> string" where
  "commas [] = []"
| "commas [x] = x"
| "commas (x # xs) = x @ '','' @ commas xs"

definition say_ids :: "string \<Rightarrow> string list \<Rightarrow> cli \<Rightarrow> cli" where
  "say_ids what ids s =
     say (if cl_json s then ''{'' @ quoted what @ '':['' @ commas (map quoted ids) @ '']}'' @ [newline]
          else concat (map (\<lambda>i. i @ [newline]) ids)) s"

definition cmd_list_sets :: "cli \<Rightarrow> cli_result" where
  "cmd_list_sets s = Inr (0, say_ids ''sets'' (map id_str (list_sets (cl_ctrl s))) s)"

definition cmd_list_replicas :: "string list \<Rightarrow> cli \<Rightarrow> cli_result" where
  "cmd_list_replicas args s =
     ebind (id_arg args 1) (\<lambda>sid. Inr (0, say_ids ''replicas'' (map id_str (list_replicas sid (cl_ctrl s))) s))"

definition inspect_lines :: "ReplicaState \<Rightarrow> (string \<times> string) list" where
  "inspect_lines r =
     [(''id'', id_str (r_id r)), (''set'', id_str (r_set_id r)),
      (''lifecycle'', ReplicaLifecycle_to_string (r_lifecycle r)),
      (''health'', HealthState_to_string (r_health r)), (''readiness'', ReadinessState_to_string (r_readiness r)),
      (''warmth'', WarmthState_to_string (r_warmth r)), (''promotion'', PromotionState_to_string (r_promotion r)),
      (''role'', ReplicaRole_to_string (r_role r)), (''serving'', flag (r_serving_eligible r)),
      (''boot'', id_str (r_boot_id r)), (''worker'', id_str (r_worker_id r))]"

definition cmd_inspect :: "string list \<Rightarrow> cli \<Rightarrow> cli_result" where
  "cmd_inspect args s =
     ebind (id_arg args 1) (\<lambda>rid.
     (case find_replica rid (cl_ctrl s) of
        None \<Rightarrow> Inr (1, say_line ''unknown replica'' s)
      | Some r \<Rightarrow>
          (let s = say_json (''{'' @ [newline]) s;
               s = foldl (\<lambda>s (k, v). out_line k v s) s (inspect_lines r)
           in Inr (0, say_json (''}'' @ [newline]) s))))"

definition factor_json :: "AuthorityFactor \<Rightarrow> string" where
  "factor_json f = ''{'' @ quoted ''name'' @ '':'' @ quoted (jesc (af_name f)) @ '','' @ quoted ''ok'' @ '':'' @
     flag (af_satisfied f) @ '','' @ quoted ''detail'' @ '':'' @ quoted (jesc (af_detail f)) @ ''}''"

definition factor_line :: "AuthorityFactor \<Rightarrow> string" where
  "factor_line f = ''  '' @ af_name f @ '': '' @ (if af_satisfied f then ''OK'' else ''FAIL'') @ '' :: '' @
     af_detail f @ [newline]"

definition cmd_explain_servable :: "string list \<Rightarrow> cli \<Rightarrow> cli_result" where
  "cmd_explain_servable args s =
     ebind (id_arg args 1) (\<lambda>rid.
     (let d = servable rid (cl_ctrl s);
          s = say_json (''{'' @ [newline]) s;
          s = out_line ''replica'' (id_str rid) s;
          s = out_line ''eligible'' (flag (sa_eligible d)) s;
          s = out_line ''rejection'' (sa_rejection d) s;
          s = say (if cl_json s then quoted ''factors'' @ '':['' @ commas (map factor_json (sa_factors d)) @ '']}'' @ [newline]
                   else concat (map factor_line (sa_factors d))) s
      in Inr (0, s)))"

text \<open>
  A \<open>double\<close> written to a stream: six significant digits, without trailing zeros, in exponent
  notation below \<open>10 ^ -4\<close> and from \<open>10 ^ 6\<close>.
\<close>

definition decimal_exponent :: "rat \<Rightarrow> int" where
  "decimal_exponent x = (let (n, d) = quotient_of x;
      k = int (floorlog 10 (nat n)) - int (floorlog 10 (nat d))
    in if 10 powi k \<le> x then k else k - 1)"

definition six_digits :: "rat \<Rightarrow> nat \<times> int" where
  "six_digits x = (let e = decimal_exponent x; m = round_even (x * 10 powi (5 - e))
     in if m = 1000000 then (100000, e + 1) else (nat m, e))"

definition with_fraction :: "string \<Rightarrow> string \<Rightarrow> string" where
  "with_fraction whole places = (let f = rev (dropWhile (\<lambda>c. c = CHR ''0'') (rev places))
     in if f = [] then whole else whole @ ''.'' @ f)"

definition show_positive :: "rat \<Rightarrow> string" where
  "show_positive x = (let (m, e) = six_digits x; ds = to_string_nat m in
     if - 4 \<le> e \<and> e < 6
     then (if 0 \<le> e then with_fraction (take (nat e + 1) ds) (drop (nat e + 1) ds)
           else with_fraction ''0'' (replicate (nat (- e) - 1) (CHR ''0'') @ ds))
     else with_fraction (take 1 ds) (drop 1 ds) @ ''e'' @ (if e < 0 then ''-'' else ''+'') @
       (let k = to_string_nat (nat \<bar>e\<bar>) in if length k < 2 then CHR ''0'' # k else k))"

definition show_double :: "rat \<Rightarrow> string" where
  "show_double x = (if x = 0 then ''0'' else if 0 < x then show_positive x else CHR ''-'' # show_positive (- x))"

definition cli_host :: "WorkerId \<Rightarrow> WorkerRegistration \<Rightarrow> PlacementHost" where
  "cli_host wid wr = PlacementHost_default\<lparr>ph_worker_id := wid, ph_boot_id := w_boot_id wr, ph_node_id := w_node_id wr,
     ph_host := ''host-'' @ take 8 (id_str wid), ph_numa := ''numa-0'',
     ph_device := (case ri_devices (w_inventory wr) of [] \<Rightarrow> ph_device PlacementHost_default | d # _ \<Rightarrow> d),
     ph_inventory := w_inventory wr,
     ph_failure_domain_labels := [''rack-'' @ (if even (id_hi wid) then ''A'' else ''B'')]\<rparr>"

definition candidate_json :: "PlacementCandidate \<Rightarrow> string" where
  "candidate_json c = ''{'' @ quoted ''worker'' @ '':'' @ quoted (jesc (id_str (ph_worker_id (pc_host c)))) @ '','' @
     quoted ''eligible'' @ '':'' @ flag (pc_eligible c) @ '','' @ quoted ''score'' @ '':'' @ show_double (pc_total c) @ '','' @
     quoted ''rejection'' @ '':'' @ quoted (jesc (pc_rejection c)) @ ''}''"

definition candidate_line :: "PlacementCandidate \<Rightarrow> string" where
  "candidate_line c = ''  '' @ id_str (ph_worker_id (pc_host c)) @ '' score='' @ show_double (pc_total c) @
     (if pc_eligible c then '' (eligible)'' else '' rejected: '' @ pc_rejection c) @ [newline]"

definition cmd_explain_placement :: "string list \<Rightarrow> cli \<Rightarrow> cli_result" where
  "cmd_explain_placement args s =
     ebind (id_arg args 1) (\<lambda>sid.
     (case find_set sid (cl_ctrl s) of
        None \<Rightarrow> Inr (1, say_line ''unknown set'' s)
      | Some st \<Rightarrow>
          (let d = place st (map (\<lambda>(wid, wr). cli_host wid wr) (ct_workers (cl_ctrl s))) [];
               s = say_json (''{'' @ [newline]) s;
               s = out_line ''placed'' (flag (pd_placed d)) s;
               s = out_line ''note'' (pd_note d) s
           in if \<not> pd_placed d then Inr (1, say_json (''}'' @ [newline]) s)
              else (let s = out_line ''chosen_worker'' (id_str (ph_worker_id (pd_chosen d))) s;
                        s = out_line ''chosen_host'' (ph_host (pd_chosen d)) s
                    in Inr (0, say (if cl_json s
                         then quoted ''candidates'' @ '':['' @ commas (map candidate_json (pd_candidates d)) @ '']}'' @ [newline]
                         else concat (map candidate_line (pd_candidates d))) s)))))"

section \<open>The demonstration\<close>

text \<open>
  The identities drawn for the two workers are overwritten by those \<open>setup_replica\<close> draws.
\<close>

definition demo_scenario :: "ReplicaSetId \<Rightarrow> ReplicaId \<Rightarrow> WorkerId \<Rightarrow> WorkerBootId \<Rightarrow>
    ReplicaId \<Rightarrow> WorkerId \<Rightarrow> WorkerBootId \<Rightarrow> cli \<Rightarrow> cli" where
  "demo_scenario sid ra wa ba rb wb bb s =
     (let c = snd (warm_ready ra wa ba (cl_ctrl s));
          c = snd (warm_ready rb wb bb c);
          c = snd (promote_replica ra PromotionState.PRIMARY wa ba 0 0 c);
          c = snd (promote_replica rb PromotionState.STANDBY wb bb 0 0 c);
          s = say_line (if sa_eligible (servable ra c) then ''A serving as PRIMARY'' else ''A NOT serving'') s;
          s = say_line (if sa_eligible (servable rb c) then ''B serving (BAD - double serve)''
                        else ''B standby (correct, not serving)'') s;
          c = snd (unregister_worker wa c);
          c = snd (trigger_failover sid ra ''demo: worker A died'' 0 0 c);
          s = say_line (if sa_eligible (servable rb c) then ''B failed over and serving as PRIMARY''
                        else ''B failover FAILED'') s;
          s = say_line (''snapshot bytes='' @ to_string_nat (length (make_snapshot c))) s
      in s\<lparr>cl_ctrl := c\<rparr>)"

definition cmd_demo :: "cli \<Rightarrow> cli_result" where
  "cmd_demo s =
     (let ((sid, _), s) = fresh_set 2 s;
          (_ :: WorkerId, s) = draw s; (_ :: WorkerBootId, s) = draw s; (_ :: NodeId, s) = draw s;
          (_ :: WorkerId, s) = draw s; (_ :: WorkerBootId, s) = draw s; (_ :: NodeId, s) = draw s;
          (ra, s) = draw s; (rb, s) = draw s;
          ((wa, ba, _), s) = setup_replica sid ra s;
          ((wb, bb, _), s) = setup_replica sid rb s
      in Inr (0, demo_scenario sid ra wa ba rb wb bb s))"

section \<open>The program\<close>

text \<open>The options are taken out wherever they stand; one without its value is an argument.\<close>

fun parse_options :: "string list \<Rightarrow> cli \<Rightarrow> string list \<times> cli" where
  "parse_options (a # v # rest) s =
     (if a = ''--json'' then parse_options (v # rest) (s\<lparr>cl_json := True\<rparr>)
      else if a = ''--state'' then parse_options rest (s\<lparr>cl_state_in := v\<rparr>)
      else if a = ''--save'' then parse_options rest (s\<lparr>cl_state_out := v\<rparr>)
      else (let (args, s) = parse_options (v # rest) s in (a # args, s)))"
| "parse_options [a] s = (if a = ''--json'' then ([], s\<lparr>cl_json := True\<rparr>) else ([a], s))"
| "parse_options [] s = ([], s)"

definition usage :: string where
  "usage = ''Replica Fabric 1.0.0 CLI'' @ [newline] @
     ''options: --json | --state <file> | --save <file>'' @ [newline] @
     ''commands: version | create-set | setup | list-sets | list-replicas | inspect | '' @
     ''warm | promote | drain | failover | explain-servable | explain-placement | '' @
     ''snapshot-save | snapshot-recover | demo'' @ [newline]"

definition cli_start :: "engine \<Rightarrow> engine \<Rightarrow> (string \<Rightarrow> bytes option) \<Rightarrow> cli" where
  "cli_start ctrl_engine g files = \<lparr>cl_json = False, cl_state_in = [], cl_state_out = [],
     cl_ctrl = new_controller ctrl_engine, cl_rng = g, cl_files = files, cl_out = []\<rparr>"

definition run_cli :: "(string \<Rightarrow> bool) \<Rightarrow> string list \<Rightarrow> cli \<Rightarrow> cli_result" where
  "run_cli writable args s =
     (let cmd = hd args in
      if cmd = ''version''
      then Inr (0, say_line (if cl_json s then ''{'' @ quoted ''version'' @ '':'' @ quoted ''1.0.0'' @ ''}''
                             else ''Replica Fabric 1.0.0'') s)
      else if cmd = ''create-set'' then cmd_create_set writable args s
      else if cmd = ''setup'' then cmd_setup writable args s
      else if cmd = ''list-sets'' then cmd_list_sets s
      else if cmd = ''list-replicas'' then cmd_list_replicas args s
      else if cmd = ''inspect'' then cmd_inspect args s
      else if cmd = ''warm'' then cmd_warm writable args s
      else if cmd = ''promote'' then cmd_promote writable args s
      else if cmd = ''drain'' then cmd_drain writable args s
      else if cmd = ''failover'' then cmd_failover writable args s
      else if cmd = ''explain-servable'' then cmd_explain_servable args s
      else if cmd = ''explain-placement'' then cmd_explain_placement args s
      else if cmd = ''demo'' then cmd_demo s
      else if cmd = ''snapshot-save'' then cmd_snapshot_save writable args s
      else if cmd = ''snapshot-recover'' then cmd_snapshot_recover args s
      else Inr (1, say_line (''unknown command: '' @ cmd) s))"

definition cli_main :: "(string \<Rightarrow> bool) \<Rightarrow> string list \<Rightarrow> cli \<Rightarrow> cli_result" where
  "cli_main writable argv s =
     (let (args, s) = parse_options argv s in
      if args = [] then Inr (0, say usage s)
      else (let (loaded, s) = load_state s in
            if \<not> loaded then Inr (1, s) else run_cli writable args s))"

section \<open>The tool drives the controller by its commands\<close>

definition commanded :: "(command \<Rightarrow> bool) \<Rightarrow> controller \<Rightarrow> controller \<Rightarrow> bool" where
  "commanded P c c' \<longleftrightarrow> (\<exists>cmds. list_all P cmds \<and> c' = run_commands cmds c)"

lemma commanded_refl [simp]: "commanded P c c"
  unfolding commanded_def by (intro exI [of _ "[]"]) simp

lemma commanded_trans:
  assumes "commanded P c c'" and "commanded P c' c''"
  shows "commanded P c c''"
proof -
  obtain xs ys where "list_all P xs" "c' = run_commands xs c" "list_all P ys" "c'' = run_commands ys c'"
    using assms unfolding commanded_def by blast
  then show ?thesis unfolding commanded_def by (intro exI [of _ "xs @ ys"]) simp
qed

lemma commanded_command: "commanded P c c' \<Longrightarrow> P cmd \<Longrightarrow> commanded P c (snd (run_command cmd c'))"
  by (rule commanded_trans, assumption) (unfold commanded_def, rule exI [of _ "[cmd]"], simp)

lemmas commanded_ops = commanded_command [where cmd = "RegisterWorker x y z" for x y z, simplified]
  commanded_command [where cmd = "UnregisterWorker x" for x, simplified]
  commanded_command [where cmd = "CreateReplicaSet x y" for x y, simplified]
  commanded_command [where cmd = "ProvisionReplica x y z u v w s t" for x y z u v w s t, simplified]
  commanded_command [where cmd = "SetAllocating x y z" for x y z, simplified]
  commanded_command [where cmd = "SetStarting x y z" for x y z, simplified]
  commanded_command [where cmd = "WarmReplica x y z u v" for x y z u v, simplified]
  commanded_command [where cmd = "ReportHealth x y z u v" for x y z u v, simplified]
  commanded_command [where cmd = "ReportReadiness x y z u v" for x y z u v, simplified]
  commanded_command [where cmd = "PromoteReplica x y z u v w" for x y z u v w, simplified]
  commanded_command [where cmd = "DrainReplica x y z u" for x y z u, simplified]
  commanded_command [where cmd = "TriggerFailover x y z u v" for x y z u v, simplified]

text \<open>
  Which controller commands a command of the tool may issue: those of its kind, on the replica, the
  worker and the boot, or on the set, that its arguments name. The commands that only show issue none.
\<close>

definition sets_up :: "command \<Rightarrow> bool" where
  "sets_up cmd = (case cmd of
     CreateReplicaSet _ _ \<Rightarrow> True | RegisterWorker _ _ _ \<Rightarrow> True | ProvisionReplica _ _ _ _ _ _ _ _ \<Rightarrow> True
   | SetAllocating _ _ _ \<Rightarrow> True | SetStarting _ _ _ \<Rightarrow> True | _ \<Rightarrow> False)"

definition warms :: "ReplicaId \<Rightarrow> WorkerId \<Rightarrow> WorkerBootId \<Rightarrow> command \<Rightarrow> bool" where
  "warms rid w b cmd = (case cmd of
     WarmReplica rid' _ w' b' _ \<Rightarrow> rid' = rid \<and> w' = w \<and> b' = b
   | ReportHealth rid' _ w' b' _ \<Rightarrow> rid' = rid \<and> w' = w \<and> b' = b
   | ReportReadiness rid' _ w' b' _ \<Rightarrow> rid' = rid \<and> w' = w \<and> b' = b
   | _ \<Rightarrow> False)"

definition names_replica :: "string list \<Rightarrow> ReplicaId \<Rightarrow> WorkerId \<Rightarrow> WorkerBootId \<Rightarrow> bool" where
  "names_replica args rid w b \<longleftrightarrow> id_arg args 1 = Inr rid \<and> id_arg args 2 = Inr w \<and> id_arg args 3 = Inr b"

definition issues :: "string list \<Rightarrow> command \<Rightarrow> bool" where
  "issues args cmd =
     (let tool = hd args in
      if tool = ''create-set'' then (\<exists>st e. cmd = CreateReplicaSet st e \<and> id_arg args 1 = Inr (s_id st))
      else if tool = ''setup'' then sets_up cmd
      else if tool = ''warm'' then (\<exists>rid w b. names_replica args rid w b \<and> warms rid w b cmd)
      else if tool = ''promote'' then (\<exists>rid w b. names_replica args rid w b \<and>
        (warms rid w b cmd \<or> (\<exists>tg. cmd = PromoteReplica rid tg w b 0 0)))
      else if tool = ''drain'' then (\<exists>rid w b. names_replica args rid w b \<and> cmd = DrainReplica rid w b 0)
      else if tool = ''failover'' then (\<exists>sid failed. id_arg args 1 = Inr sid \<and> id_arg args 2 = Inr failed \<and>
        ((\<exists>rid w b. rid \<noteq> failed \<and> warms rid w b cmd) \<or> (\<exists>why. cmd = TriggerFailover sid failed why 0 0)))
      else if tool = ''demo'' then sets_up cmd \<or> (\<exists>rid w b. warms rid w b cmd) \<or>
        (case cmd of PromoteReplica _ _ _ _ _ _ \<Rightarrow> True | UnregisterWorker _ \<Rightarrow> True
         | TriggerFailover _ _ _ _ _ \<Rightarrow> True | _ \<Rightarrow> False)
      else False)"

lemma sets_up_simps [simp]:
  "sets_up (CreateReplicaSet st e)" "sets_up (RegisterWorker wr t u)" "sets_up (ProvisionReplica rid sid w cm dv cap t u)"
  "sets_up (SetAllocating rid pid t)" "sets_up (SetStarting rid t u)"
  by (simp_all add: sets_up_def)

lemma warms_simps [simp]:
  "warms rid w b (WarmReplica rid wm w b t)" "warms rid w b (ReportHealth rid ev w b t)"
  "warms rid w b (ReportReadiness rid rr w b t)"
  by (simp_all add: warms_def)

lemma commanded_warm_ready:
  assumes "commanded P c c'" and "\<And>cmd. warms rid w b cmd \<Longrightarrow> P cmd"
  shows "commanded P c (snd (warm_ready rid w b c'))"
  unfolding warm_ready_def case_prod_unfold Let_def snd_conv fst_conv
  by (intro commanded_ops assms) simp_all

lemma commanded_ensure_ready:
  "commanded P c c' \<Longrightarrow> (\<And>cmd. warms rid w b cmd \<Longrightarrow> P cmd) \<Longrightarrow> commanded P c (snd (ensure_ready rid w b c'))"
  by (simp add: ensure_ready_def Let_def commanded_warm_ready split: option.split)

lemma commanded_candidates:
  assumes "commanded P c c'" and "\<And>rid w b cmd. rid \<noteq> failed \<Longrightarrow> warms rid w b cmd \<Longrightarrow> P cmd"
  shows "commanded P c (foldl (ready_candidate failed) c' rids)"
  using assms(1)
proof (induction rids arbitrary: c')
  case (Cons rid rids)
  have "commanded P c (ready_candidate failed c' rid)"
    using Cons.prems assms(2) by (auto simp: ready_candidate_def intro!: commanded_ensure_ready split: option.split)
  then show ?case using Cons.IH by simp
qed simp

section \<open>What a command leaves alone\<close>

text \<open>A step of a command: the files and the file to save to stay, the controller is driven by commands.\<close>

definition worked :: "(command \<Rightarrow> bool) \<Rightarrow> cli \<Rightarrow> cli \<Rightarrow> bool" where
  "worked P s s' \<longleftrightarrow> cl_files s' = cl_files s \<and> cl_state_out s' = cl_state_out s \<and> commanded P (cl_ctrl s) (cl_ctrl s')"

lemma worked_refl [simp]: "worked P s s"
  by (simp add: worked_def)

lemma worked_trans: "worked P s s' \<Longrightarrow> worked P s' s'' \<Longrightarrow> worked P s s''"
  using commanded_trans unfolding worked_def by metis

lemma worked_print [simp]:
  "worked P s (say t s') \<longleftrightarrow> worked P s s'" "worked P s (say_json t s') \<longleftrightarrow> worked P s s'"
  "worked P s (say_line t s') \<longleftrightarrow> worked P s s'" "worked P s (out_line k v s') \<longleftrightarrow> worked P s s'"
  "worked P s (say_ids k ids s') \<longleftrightarrow> worked P s s'" "worked P s (snd (draw s')) \<longleftrightarrow> worked P s s'"
  "worked P s (snd (mk_set i model art ag sg pg mx s')) \<longleftrightarrow> worked P s s'"
  by (simp_all add: worked_def say_def say_json_def say_line_def out_line_def say_ids_def draw_def mk_set_def
      case_prod_unfold Let_def)

lemma ctrl_print [simp]:
  "cl_ctrl (say t s) = cl_ctrl s" "cl_ctrl (say_json t s) = cl_ctrl s" "cl_ctrl (say_line t s) = cl_ctrl s"
  "cl_ctrl (out_line k v s) = cl_ctrl s" "cl_ctrl (snd (draw s)) = cl_ctrl s"
  "cl_ctrl (snd (mk_set i model art ag sg pg mx s)) = cl_ctrl s"
  by (simp_all add: say_def say_json_def say_line_def out_line_def draw_def mk_set_def case_prod_unfold Let_def)

lemma worked_ctrl: "worked P s s' \<Longrightarrow> commanded P (cl_ctrl s') c \<Longrightarrow> worked P s (s'\<lparr>cl_ctrl := c\<rparr>)"
  using commanded_trans by (auto simp: worked_def)

lemma worked_lines: "worked P s s' \<Longrightarrow> worked P s (foldl (\<lambda>s p. out_line (fst p) (snd p) s) s' kvs)"
  by (induction kvs arbitrary: s') auto

lemma worked_fresh_set: "worked P s s' \<Longrightarrow> (\<And>cmd. sets_up cmd \<Longrightarrow> P cmd) \<Longrightarrow> worked P s (snd (fresh_set mx s'))"
  by (auto simp: fresh_set_def case_prod_unfold Let_def commanded_ops intro!: worked_ctrl)

lemma worked_setup_replica: "worked P s s' \<Longrightarrow> (\<And>cmd. sets_up cmd \<Longrightarrow> P cmd) \<Longrightarrow> worked P s (snd (setup_replica sid rid s'))"
  by (auto simp: setup_replica_def case_prod_unfold Let_def commanded_ops intro!: worked_ctrl)

lemma worked_setup_one: "worked P s s' \<Longrightarrow> (\<And>cmd. sets_up cmd \<Longrightarrow> P cmd) \<Longrightarrow> worked P s (setup_one sid i s')"
  by (simp add: setup_one_def case_prod_unfold Let_def worked_setup_replica)

lemma worked_setups: "worked P s s' \<Longrightarrow> (\<And>cmd. sets_up cmd \<Longrightarrow> P cmd) \<Longrightarrow> worked P s (foldl (\<lambda>s i. setup_one sid i s) s' is)"
  by (induction "is" arbitrary: s') (auto simp: worked_setup_one)

lemma worked_demo:
  assumes "worked P s s'" and "\<And>cmd. issues [''demo''] cmd \<Longrightarrow> P cmd"
  shows "worked P s (demo_scenario sid ra wa ba rb wb bb s')"
proof -
  have "P cmd" if "warms rid w b cmd" for rid w b cmd
    using that assms(2) [of cmd] by (auto simp: issues_def)
  moreover have "P (PromoteReplica rid tg w b t u)" "P (UnregisterWorker w)" "P (TriggerFailover sid rid why t u)"
    for rid tg w b t u why sid
    using assms(2) by (simp_all add: issues_def)
  ultimately show ?thesis
    using assms(1) unfolding demo_scenario_def Let_def
    by (intro worked_ctrl worked_print [THEN iffD2])
       (simp_all only: ctrl_print commanded_ops commanded_warm_ready commanded_refl)
qed

lemmas worked_intros = worked_ctrl worked_lines worked_setup_replica worked_setups worked_fresh_set worked_demo commanded_ops
  commanded_warm_ready commanded_ensure_ready commanded_candidates

text \<open>
  The end of a command: nothing is written, or one file that can be written, to which the snapshot
  of the controller goes.
\<close>

definition wrote :: "(command \<Rightarrow> bool) \<Rightarrow> (string \<Rightarrow> bool) \<Rightarrow> cli \<Rightarrow> string \<Rightarrow> cli \<Rightarrow> bool" where
  "wrote P writable s p s' \<longleftrightarrow> commanded P (cl_ctrl s) (cl_ctrl s') \<and>
     (cl_files s' = cl_files s \<or>
      writable p \<and> cl_files s' = (cl_files s)(p \<mapsto> make_snapshot (cl_ctrl s')))"

lemma worked_wrote: "worked P s s' \<Longrightarrow> wrote P writable s p s'"
  by (simp add: worked_def wrote_def)

lemma saved_wrote: "worked P s s' \<Longrightarrow> wrote P writable s (cl_state_out s) (save_state writable s')"
  by (auto simp: worked_def wrote_def save_state_def)

lemma ctrl_save [simp]: "cl_ctrl (save_state writable s) = cl_ctrl s"
  by (simp add: save_state_def)

lemma said_wrote: "worked P s s' \<Longrightarrow> wrote P writable s p (say_line t s')"
  by (simp add: worked_wrote)

lemmas cmd_simps = ebind_Inr case_prod_unfold Let_def

lemma mk_set_id [simp]: "s_id (fst (mk_set i model art ag sg pg mx s)) = i"
  by (simp add: mk_set_def case_prod_unfold Let_def)

lemma issues_simps:
  "hd args = ''create-set'' \<Longrightarrow> id_arg args (Suc 0) = Inr (s_id st) \<Longrightarrow> issues args (CreateReplicaSet st e)"
  "hd args = ''setup'' \<Longrightarrow> sets_up cmd \<Longrightarrow> issues args cmd"
  "hd args = ''demo'' \<Longrightarrow> sets_up cmd \<Longrightarrow> issues args cmd"
  "hd args = ''demo'' \<Longrightarrow> issues [''demo''] cmd \<Longrightarrow> issues args cmd"
  unfolding issues_def One_nat_def by auto

lemma issues_replica:
  assumes "id_arg args (Suc 0) = Inr rid" and "id_arg args 2 = Inr w" and "id_arg args 3 = Inr b"
  shows "hd args = ''warm'' \<Longrightarrow> warms rid w b cmd \<Longrightarrow> issues args cmd"
    and "hd args = ''promote'' \<Longrightarrow> warms rid w b cmd \<Longrightarrow> issues args cmd"
    and "hd args = ''promote'' \<Longrightarrow> issues args (PromoteReplica rid tg w b 0 0)"
    and "hd args = ''drain'' \<Longrightarrow> issues args (DrainReplica rid w b 0)"
  using assms by (simp_all add: issues_def names_replica_def)

lemma issues_failover:
  assumes "id_arg args (Suc 0) = Inr sid" and "id_arg args 2 = Inr failed" and "hd args = ''failover''"
  shows "issues args (TriggerFailover sid failed why 0 0)"
    and "rid \<noteq> failed \<Longrightarrow> warms rid w b cmd \<Longrightarrow> issues args cmd"
  using assms by (auto simp: issues_def)

lemma create_set_wrote:
  "cmd_create_set writable args s = Inr (code, s') \<Longrightarrow> hd args = ''create-set'' \<Longrightarrow> wrote (issues args) writable s (cl_state_out s) s'"
  by (auto simp: cmd_create_set_def cmd_simps intro!: saved_wrote worked_intros issues_simps(1))

lemma setup_wrote:
  "cmd_setup writable args s = Inr (code, s') \<Longrightarrow> hd args = ''setup'' \<Longrightarrow> wrote (issues args) writable s (cl_state_out s) s'"
  by (auto simp: cmd_setup_def cmd_simps intro!: saved_wrote said_wrote worked_intros issues_simps(2) split: if_splits)

lemma warm_wrote:
  "cmd_warm writable args s = Inr (code, s') \<Longrightarrow> hd args = ''warm'' \<Longrightarrow> wrote (issues args) writable s (cl_state_out s) s'"
  by (auto simp: cmd_warm_def cmd_simps intro!: saved_wrote said_wrote worked_intros
      intro: issues_replica(1) split: if_splits)

lemma promote_wrote:
  "cmd_promote writable args s = Inr (code, s') \<Longrightarrow> hd args = ''promote'' \<Longrightarrow> wrote (issues args) writable s (cl_state_out s) s'"
  by (auto simp: cmd_promote_def cmd_simps intro!: saved_wrote said_wrote worked_intros
      intro: issues_replica(2,3) split: if_splits)

lemma drain_wrote:
  "cmd_drain writable args s = Inr (code, s') \<Longrightarrow> hd args = ''drain'' \<Longrightarrow> wrote (issues args) writable s (cl_state_out s) s'"
  by (auto simp: cmd_drain_def cmd_simps intro!: saved_wrote worked_intros issues_replica(4))

lemma failover_wrote:
  "cmd_failover writable args s = Inr (code, s') \<Longrightarrow> hd args = ''failover'' \<Longrightarrow> wrote (issues args) writable s (cl_state_out s) s'"
  by (auto simp: cmd_failover_def cmd_simps intro!: saved_wrote worked_intros issues_failover(1) intro: issues_failover(2))

lemma demo_worked:
  assumes "cmd_demo s = Inr (code, s')" and "hd args = ''demo''"
  shows "worked (issues args) s s'"
proof -
  have issued: "sets_up cmd \<or> issues [''demo''] cmd \<Longrightarrow> issues args cmd" for cmd
    using issues_simps(3,4) [OF assms(2)] by blast+
  show ?thesis
    using assms(1) by (auto simp: cmd_demo_def Let_def case_prod_unfold intro!: worked_intros issued)
qed

lemma show_worked:
  "cmd_list_sets s = Inr (code, s') \<Longrightarrow> worked P s s'"
  "cmd_list_replicas args s = Inr (code, s') \<Longrightarrow> worked P s s'"
  "cmd_inspect args s = Inr (code, s') \<Longrightarrow> worked P s s'"
  "cmd_explain_servable args s = Inr (code, s') \<Longrightarrow> worked P s s'"
  "cmd_explain_placement args s = Inr (code, s') \<Longrightarrow> worked P s s'"
  by (auto simp: cmd_list_sets_def cmd_list_replicas_def cmd_inspect_def cmd_explain_servable_def
      cmd_explain_placement_def cmd_simps intro!: worked_intros split: option.splits if_splits)

lemma snapshot_save_wrote:
  assumes "cmd_snapshot_save writable args s = Inr (code, s')"
  shows "1 < length args \<and> wrote P writable s (args ! 1) s'"
  using assms by (auto simp: cmd_snapshot_save_def cmd_simps arg_def wrote_def say_line_def say_def split: if_splits)

lemma snapshot_recover_effect:
  assumes "cmd_snapshot_recover args s = Inr (code, s')"
  shows "cl_files s' = cl_files s \<and> (cl_ctrl s' = cl_ctrl s \<or>
    (\<exists>p bytes. cl_files s p = Some bytes \<and> cl_ctrl s' = snd (recover_into bytes (cl_ctrl s))))"
proof -
  obtain p where p: "arg args 1 = Inr p" using assms by (auto simp: cmd_snapshot_recover_def ebind_Inr)
  show ?thesis
  proof (cases "cl_files s p")
    case (Some bytes)
    obtain res c where "recover_into bytes (cl_ctrl s) = (res, c)" by fastforce
    with assms p Some show ?thesis
      by (cases res) (auto simp: cmd_snapshot_recover_def say_line_def say_def intro!: exI [of _ p])
  qed (use assms p in \<open>auto simp: cmd_snapshot_recover_def say_line_def say_def\<close>)
qed

text \<open>The path a command may write.\<close>

definition target_path :: "string list \<Rightarrow> cli \<Rightarrow> string" where
  "target_path args s = (if hd args = ''snapshot-save'' then args ! 1 else cl_state_out s)"

lemma run_cli_wrote:
  assumes "run_cli writable args s = Inr (code, s')" and "hd args \<noteq> ''snapshot-recover''"
  shows "wrote (issues args) writable s (target_path args s) s'"
  using assms snapshot_save_wrote [of writable args s code s']
  by (auto simp: run_cli_def target_path_def Let_def
      intro: create_set_wrote setup_wrote warm_wrote promote_wrote drain_wrote failover_wrote
        worked_wrote [OF demo_worked] show_worked [THEN worked_wrote] worked_wrote split: if_splits)

section \<open>Loading a state\<close>

lemma load_state_cases:
  assumes "load_state s = (loaded, s')"
  obtains "cl_state_in s = []" "loaded" "s' = s"
  | "cl_state_in s \<noteq> []" "\<not> loaded" "cl_files s (cl_state_in s) = None" "s' = s"
  | bytes e c where "cl_state_in s \<noteq> []" "\<not> loaded" "cl_files s (cl_state_in s) = Some bytes"
      "recover_into bytes (cl_ctrl s) = (Inl e, c)" "s' = s\<lparr>cl_ctrl := c\<rparr>"
  | bytes c where "cl_state_in s \<noteq> []" "loaded" "cl_files s (cl_state_in s) = Some bytes"
      "recover_into bytes (cl_ctrl s) = (Inr (), c)" "s' = s\<lparr>cl_ctrl := relink_authority c\<rparr>"
  using assms by (auto simp: load_state_def split: if_splits option.splits prod.splits sum.splits)

lemma relink_fields [simp]:
  "r_id (relink_replica c r) = r_id r" "r_set_id (relink_replica c r) = r_set_id r"
  "r_worker_id (relink_replica c r) = r_worker_id r" "r_serving_eligible (relink_replica c r) = r_serving_eligible r"
  "r_coordinator_epoch (relink_replica c r) = r_coordinator_epoch r"
  "authority_ok (relink_replica c r) = authority_ok r"
  by (simp_all add: relink_replica_def authority_ok_def split: option.split)

lemma relink_boot [simp]:
  "om_find (ct_workers c) (r_worker_id r) = Some w \<Longrightarrow> r_boot_id (relink_replica c r) = w_boot_id w"
  by (simp add: relink_replica_def)

lemma relinked [simp]:
  "ct_replicas (relink_authority c) = om_map (\<lambda>_. relink_replica c) (ct_replicas c)"
  "ct_sets (relink_authority c) = ct_sets c" "ct_workers (relink_authority c) = ct_workers c"
  by (simp_all add: relink_authority_def set_epoch_def Let_def split: list.split)

lemma relinked_epoch:
  "ct_replicas c = (rid, r) # m \<Longrightarrow> ct_epoch (relink_authority c) = r_coordinator_epoch r"
  by (simp add: relink_authority_def set_epoch_def)

lemma loaded_files [simp]: "load_state s = (loaded, s') \<Longrightarrow> cl_files s' = cl_files s \<and> cl_state_out s' = cl_state_out s"
  by (erule load_state_cases) simp_all

text \<open>
  Loading a state grants nothing and reads only: after \<open>--state\<close> was loaded no replica has the
  serving flag or passes the serving gate, every replica whose worker is registered carries the boot
  under which the worker is registered now, whatever its own boot was, and the epoch is that of
  the first replica.
\<close>

theorem loading_grants_nothing:
  assumes "load_state s = (True, s')" and "cl_state_in s \<noteq> []"
  shows "cl_files s' = cl_files s \<and>
    (\<forall>rid r. find_replica rid (cl_ctrl s') = Some r \<longrightarrow>
       \<not> r_serving_eligible r \<and> \<not> sa_eligible (servable rid (cl_ctrl s')) \<and>
       (\<forall>w. find_worker (r_worker_id r) (cl_ctrl s') = Some w \<longrightarrow> r_boot_id r = w_boot_id w)) \<and>
    (\<forall>rid r m. ct_replicas (cl_ctrl s') = (rid, r) # m \<longrightarrow> ct_epoch (cl_ctrl s') = r_coordinator_epoch r)"
proof -
  obtain bytes c where c: "recover_into bytes (cl_ctrl s) = (Inr (), c)" and s': "s' = s\<lparr>cl_ctrl := relink_authority c\<rparr>"
    using assms by (auto elim: load_state_cases)
  have flag: "\<not> r_serving_eligible r" if "om_find (ct_replicas c) rid = Some r" for rid r
    using recovered_replica [OF c that] by auto
  have replica: "\<not> r_serving_eligible r \<and> \<not> sa_eligible (servable rid (relink_authority c)) \<and>
      (\<forall>w. find_worker (r_worker_id r) (relink_authority c) = Some w \<longrightarrow> r_boot_id r = w_boot_id w)"
    if r: "find_replica rid (relink_authority c) = Some r" for rid r
  proof -
    from r obtain r0 where r0: "om_find (ct_replicas c) rid = Some r0" "r = relink_replica c r0"
      by (auto simp: find_replica_def)
    have "\<not> r_serving_eligible r" using flag [OF r0(1)] by (simp add: r0(2))
    then show ?thesis
      using not_servable [of "relink_authority c" rid r] r
      by (simp add: find_replica_def find_worker_def r0(2))
  qed
  have "ct_epoch (relink_authority c) = r_coordinator_epoch r"
    if "om_map (\<lambda>_. relink_replica c) (ct_replicas c) = (rid, r) # m" for rid r m
    using that by (cases "ct_replicas c") (auto simp: om_map_def relinked_epoch)
  then show ?thesis
    using replica by (simp add: s')
qed

section \<open>The whole tool\<close>

lemma parse_options_kept:
  "parse_options argv s = (args, s') \<Longrightarrow> cl_ctrl s' = cl_ctrl s \<and> cl_files s' = cl_files s"
  by (induction argv s arbitrary: args s' rule: parse_options.induct) (auto split: if_splits prod.splits)

lemma main_cases:
  assumes "cli_main writable argv s = Inr (code, s')" and "parse_options argv s = (args, s1)"
    and "load_state s1 = (loaded, s2)"
  shows "args = [] \<and> s' = say usage s1 \<or> args \<noteq> [] \<and> \<not> loaded \<and> s' = s2 \<or>
    args \<noteq> [] \<and> loaded \<and> run_cli writable args s2 = Inr (code, s')"
  using assms by (auto simp: cli_main_def split: if_splits)

text \<open>
  C27. The tool refines the controller. Whatever command other than \<open>snapshot-recover\<close> runs on a loaded
  state, if the process reaches its exit code then the controller is what a sequence of controller
  commands makes of the loaded one, and these are commands the tool's command may issue: a \<open>drain\<close>
  only drains, a \<open>warm\<close> only warms and reports, a \<open>promote\<close> also promotes, all of them on the replica,
  worker and boot that the arguments name; a \<open>failover\<close> makes other replicas than the failed one ready
  and fails over the named set; a \<open>create-set\<close> creates the named set; a command that only shows changes
  nothing. Either no file changed or one file that can be written, the argument of \<open>snapshot-save\<close> or
  the value of \<open>--save\<close>, holds that controller's snapshot.
\<close>

theorem tool_refines_controller:
  assumes "cli_main writable argv s = Inr (code, s')" and "parse_options argv s = (args, s1)"
    and "args \<noteq> []" and "load_state s1 = (True, s2)" and "hd args \<noteq> ''snapshot-recover''"
  shows "(\<exists>cmds. list_all (issues args) cmds \<and> cl_ctrl s' = run_commands cmds (cl_ctrl s2)) \<and>
    (cl_files s' = cl_files s \<or>
     writable (target_path args s1) \<and>
     cl_files s' = (cl_files s)(target_path args s1 \<mapsto> make_snapshot (cl_ctrl s')))"
proof -
  have "run_cli writable args s2 = Inr (code, s')"
    using main_cases [OF assms(1,2,4)] assms(3) by simp
  then have "wrote (issues args) writable s2 (target_path args s2) s'" using assms(5) by (rule run_cli_wrote)
  then show ?thesis
    using loaded_files [OF assms(4)] parse_options_kept [OF assms(2)]
    by (auto simp: wrote_def commanded_def target_path_def)
qed

text \<open>A controller as commands leave it, and files that hold snapshots of such controllers.\<close>

definition sound :: "controller \<Rightarrow> bool" where
  "sound c \<longleftrightarrow> controller_ok c \<and> keyed w_worker_id (ct_workers c)"

definition holds_snapshots :: "(string \<Rightarrow> bytes option) \<Rightarrow> bool" where
  "holds_snapshots files \<longleftrightarrow>
     (\<forall>p bytes. files p = Some bytes \<longrightarrow> (\<exists>c. sound c \<and> snapshot_ok c \<and> bytes = make_snapshot c))"

lemma sound_commanded: "commanded P c c' \<Longrightarrow> sound c \<Longrightarrow> sound c'"
proof -
  have "keyed w_worker_id (ct_workers (run_commands cmds c))" if "keyed w_worker_id (ct_workers c)" for cmds
    using that by (induction cmds arbitrary: c) (simp_all add: command_workers_keyed)
  then show "commanded P c c' \<Longrightarrow> sound c \<Longrightarrow> sound c'"
    by (auto simp: commanded_def sound_def commands_ok)
qed

lemma new_sound [simp]: "sound (new_controller g)"
  by (simp add: sound_def new_controller_ok) (simp add: new_controller_def keyed_def)

lemma relink_sound: "sound c \<Longrightarrow> sound (relink_authority c)"
proof -
  assume c: "sound c"
  have "members sid (relink_authority c) = members sid c" for sid
    by (simp add: members_def om_count_map)
  then show ?thesis
    using c unfolding sound_def controller_ok_def maps_sorted_def replicas_ok_def sets_ok_def by auto
qed

lemma recover_sound:
  assumes "sound c0" and "snapshot_ok c0" and "sound c"
  shows "sound (snd (recover_into (make_snapshot c0) c))"
proof -
  have k: "maps_keyed c0" using assms(1) controller_keyed unfolding sound_def by blast
  have "sound (restored c0 c)"
    using assms(1) restored_ok [of c0 c] by (simp add: sound_def restored_def)
  then show ?thesis
    using assms(3) by (simp add: recover_into_def decode_make [OF k assms(2)] install_recovered [OF k]
        split: option.split)
qed

lemma recover_held_sound:
  "holds_snapshots files \<Longrightarrow> files p = Some bytes \<Longrightarrow> sound c \<Longrightarrow> sound (snd (recover_into bytes c))"
  using recover_sound unfolding holds_snapshots_def by blast

lemma load_sound:
  assumes "load_state s = (loaded, s')" and "holds_snapshots (cl_files s)" and "sound (cl_ctrl s)"
  shows "sound (cl_ctrl s')"
  using assms(1)
proof (cases rule: load_state_cases)
  case (3 bytes e c)
  then show ?thesis using recover_held_sound [OF assms(2) 3(3) assms(3)] by simp
next
  case (4 bytes c)
  then show ?thesis using recover_held_sound [OF assms(2) 4(3) assms(3)] by (simp add: relink_sound)
qed (use assms(3) in simp_all)

lemma run_cli_sound:
  assumes "run_cli writable args s = Inr (code, s')" and "holds_snapshots (cl_files s)" and "sound (cl_ctrl s)"
  shows "sound (cl_ctrl s') \<and> (cl_files s' = cl_files s \<or> (\<exists>p. cl_files s' = (cl_files s)(p \<mapsto> make_snapshot (cl_ctrl s'))))"
proof (cases "hd args = ''snapshot-recover''")
  case True
  then have "cmd_snapshot_recover args s = Inr (code, s')" using assms(1) by (simp add: run_cli_def)
  from snapshot_recover_effect [OF this] show ?thesis
    using recover_held_sound [OF assms(2) _ assms(3)] assms(3) by auto
next
  case False
  from run_cli_wrote [OF assms(1) this] show ?thesis
    using sound_commanded [OF _ assms(3)] by (auto simp: wrote_def)
qed

text \<open>
  The tool keeps the controller's invariant from one run to the next: if the files it may read
  hold snapshots it wrote, then whatever the arguments, a run that reaches its exit code leaves a
  controller that satisfies the invariant, and a file it changed holds a snapshot of such a
  controller again.
\<close>

theorem tool_keeps_invariant:
  assumes "cli_main writable argv (cli_start g prng files) = Inr (code, s')" and "holds_snapshots files"
  shows "controller_ok (cl_ctrl s') \<and>
    (\<forall>p. cl_files s' p \<noteq> files p \<longrightarrow> (\<exists>c. controller_ok c \<and> cl_files s' p = Some (make_snapshot c)))"
proof -
  let ?s = "cli_start g prng files"
  obtain args s1 where s1: "parse_options argv ?s = (args, s1)" by fastforce
  obtain loaded s2 where s2: "load_state s1 = (loaded, s2)" by fastforce
  have start: "sound (cl_ctrl s1)" "cl_files s1 = files"
    using parse_options_kept [OF s1] by (simp_all add: cli_start_def)
  have loaded: "sound (cl_ctrl s2)" "cl_files s2 = files"
    using load_sound [OF s2] loaded_files [OF s2] start assms(2) by simp_all
  have "sound (cl_ctrl s') \<and> (cl_files s' = files \<or> (\<exists>p. cl_files s' = files(p \<mapsto> make_snapshot (cl_ctrl s'))))"
    using main_cases [OF assms(1) s1 s2] run_cli_sound [of writable args s2 code s'] start loaded assms(2)
    by (auto simp: say_def)
  then show ?thesis
    by (auto simp: sound_def split: if_splits)
qed

section \<open>Making a replica ready\<close>

text \<open>
  \<open>ensure_ready\<close> succeeds exactly on a known replica that is ready and healthy already, or
  that belongs to the given worker and boot, carries the current epoch and is not terminated; its
  evidence is made up by the tool, so nothing else can keep the replica from becoming ready.
\<close>

theorem ensure_ready_exact:
  "fst (ensure_ready rid w b c) \<longleftrightarrow>
     (\<exists>r. find_replica rid c = Some r \<and>
        (is_ready r \<or> worker_boot_matches r w b \<and> r_coordinator_epoch r = ct_epoch c \<and> \<not> is_terminated r))"
proof (cases "find_replica rid c")
  case None
  then show ?thesis by (simp add: ensure_ready_def)
next
  case (Some r)
  then show ?thesis
    by (auto simp: ensure_ready_def is_ready_def find_replica_def warm_ready_def warm_replica_def
       report_health_def report_readiness_def put_replica_def worker_boot_matches_def is_terminated_def
       can_transition_def cli_health_def cli_readiness_def HealthEvidence_default_def ReadinessRecord_default_def all_set_def Let_def)
qed

section \<open>Applied to a saved state\<close>

definition demo_cli :: cli where
  "demo_cli = cli_start demo_rng demo_rng [''f'' \<mapsto> make_snapshot demo]"

definition demo_args :: "string list" where
  "demo_args = [''--state'', ''f'', ''snapshot-save'', ''g'']"

definition demo_loaded :: controller where
  "demo_loaded = relink_authority (restored demo (new_controller demo_rng))"

lemma demo_load: "load_state (demo_cli\<lparr>cl_state_in := ''f''\<rparr>) =
    (True, demo_cli\<lparr>cl_state_in := ''f'', cl_ctrl := demo_loaded\<rparr>)"
  by (simp add: load_state_def demo_cli_def cli_start_def demo_recovers demo_loaded_def)

definition demo_after :: cli where
  "demo_after = say_line (''saved '' @ to_string_nat (length (make_snapshot demo_loaded)) @ '' bytes to '' @ ''g'')
     (demo_cli\<lparr>cl_state_in := ''f'', cl_ctrl := demo_loaded,
        cl_files := (cl_files demo_cli)(''g'' \<mapsto> make_snapshot demo_loaded)\<rparr>)"

lemma demo_after [simp]:
  "cl_ctrl demo_after = demo_loaded"
  "cl_files demo_after = [''f'' \<mapsto> make_snapshot demo, ''g'' \<mapsto> make_snapshot demo_loaded]"
  by (simp_all add: demo_after_def say_line_def say_def demo_cli_def cli_start_def)

lemma demo_options:
  "parse_options demo_args demo_cli = ([''snapshot-save'', ''g''], demo_cli\<lparr>cl_state_in := ''f''\<rparr>)"
  by (simp add: demo_args_def)

lemma demo_main: "cli_main (\<lambda>p. p = ''g'') demo_args demo_cli = Inr (0, demo_after)"
  by (simp add: cli_main_def demo_options demo_load run_cli_def cmd_snapshot_save_def arg_def demo_after_def
      Let_def)

lemma demo_holds: "holds_snapshots [''f'' \<mapsto> make_snapshot demo]"
proof -
  have "sound demo" using demo_ok demo_keyed by (simp add: sound_def maps_keyed_def)
  then show ?thesis using demo_snapshot_ok by (auto simp: holds_snapshots_def)
qed

theorem loading_grants_nothing_witness: "\<not> sa_eligible (servable (MkId 0 1000) demo_loaded)"
proof -
  have "find_replica (MkId 0 1000) demo_loaded \<noteq> None"
    by (simp add: find_replica_def demo_loaded_def restored_def)
  then show ?thesis
    using loading_grants_nothing [OF demo_load] by (auto simp: demo_cli_def cli_start_def)
qed

text \<open>A drain of the replica in the saved state, which stands in lifecycle \<open>SERVING\<close> without the flag.\<close>

definition drain_line :: "string list" where
  "drain_line = [''drain'', id_str (MkId 0 1000 :: ReplicaId), id_str (MkId 0 1 :: WorkerId), id_str (MkId 0 11 :: WorkerBootId)]"

lemma id_no_option: "id_str i \<noteq> ''--json''" "id_str i \<noteq> ''--state''" "id_str i \<noteq> ''--save''"
  using length_id_str [of i] by (auto simp del: length_id_str)

lemma drain_options:
  "parse_options ([''--state'', ''f'', ''--save'', ''g''] @ drain_line) demo_cli =
     (drain_line, demo_cli\<lparr>cl_state_in := ''f'', cl_state_out := ''g''\<rparr>)"
  by (simp add: drain_line_def id_no_option)

lemma drain_load: "load_state (demo_cli\<lparr>cl_state_in := ''f'', cl_state_out := ''g''\<rparr>) =
    (True, demo_cli\<lparr>cl_state_in := ''f'', cl_state_out := ''g'', cl_ctrl := demo_loaded\<rparr>)"
  by (simp add: load_state_def demo_cli_def cli_start_def demo_recovers demo_loaded_def)

lemma drain_main:
  obtains s' where "cli_main (\<lambda>p. p = ''g'') ([''--state'', ''f'', ''--save'', ''g''] @ drain_line) demo_cli = Inr (0, s')"
    "cl_ctrl s' \<noteq> demo_loaded"
proof -
  let ?drain = "drain_replica (MkId 0 1000) (MkId 0 1) (MkId 0 11) 0 demo_loaded"
  have "ct_epoch demo_loaded = MkId 0 200"
    using relinked_epoch [of "restored demo (new_controller demo_rng)" "MkId 0 1000" "forget_authority (live_replica (MkId 0 1000))" "[]"]
    by (simp add: demo_loaded_def restored_def demo_eq om_map_def forget_authority_def)
  moreover obtain r where r: "om_find (ct_replicas demo_loaded) (MkId 0 1000) = Some r" "worker_boot_matches r (MkId 0 1) (MkId 0 11)"
      "r_lifecycle r = ReplicaLifecycle.SERVING" "r_coordinator_epoch r = MkId 0 200"
    by (simp add: demo_loaded_def restored_def worker_boot_matches_def relink_replica_def forget_authority_def)
  ultimately have drained: "is_ok (fst ?drain)"
      "map_option r_lifecycle (om_find (ct_replicas (snd ?drain)) (MkId 0 1000)) = Some ReplicaLifecycle.DRAINING"
    by (auto simp: drain_replica_def Let_def can_transition_def split: prod.split)
  then have "snd ?drain \<noteq> demo_loaded" using r(1,3) by auto
  moreover obtain s' where "run_cli (\<lambda>p. p = ''g'') drain_line
      (demo_cli\<lparr>cl_state_in := ''f'', cl_state_out := ''g'', cl_ctrl := demo_loaded\<rparr>) = Inr (0, s')"
      "cl_ctrl s' = snd ?drain"
    using drained(1)
    by (simp add: run_cli_def cmd_drain_def id_arg_def arg_def result_code_def case_prod_unfold Let_def drain_line_def)
  moreover have "drain_line \<noteq> []" by (simp add: drain_line_def)
  ultimately show ?thesis
    using that [of s'] by (simp add: cli_main_def drain_options [simplified] drain_load)
qed

theorem tool_refines_controller_witness:
  "\<exists>s' cmds. cli_main (\<lambda>p. p = ''g'') ([''--state'', ''f'', ''--save'', ''g''] @ drain_line) demo_cli = Inr (0, s') \<and>
     cmds \<noteq> [] \<and> list_all (issues drain_line) cmds \<and> cl_ctrl s' = run_commands cmds demo_loaded \<and>
     (cl_files s' = cl_files demo_cli \<or> cl_files s' = (cl_files demo_cli)(''g'' \<mapsto> make_snapshot (cl_ctrl s')))"
proof -
  obtain s' where s': "cli_main (\<lambda>p. p = ''g'') ([''--state'', ''f'', ''--save'', ''g''] @ drain_line) demo_cli = Inr (0, s')"
      "cl_ctrl s' \<noteq> demo_loaded"
    by (rule drain_main)
  from tool_refines_controller [OF s'(1) drain_options _ drain_load]
  obtain cmds where "list_all (issues drain_line) cmds" "cl_ctrl s' = run_commands cmds demo_loaded"
      "cl_files s' = cl_files demo_cli \<or> cl_files s' = (cl_files demo_cli)(''g'' \<mapsto> make_snapshot (cl_ctrl s'))"
    by (auto simp: drain_line_def target_path_def demo_cli_def)
  then show ?thesis using s' by (intro exI [of _ s'] exI [of _ cmds]) auto
qed

theorem tool_keeps_invariant_witness:
  "controller_ok demo_loaded \<and> (\<exists>c. controller_ok c \<and> cl_files demo_after ''g'' = Some (make_snapshot c))"
  using tool_keeps_invariant [OF demo_main [unfolded demo_cli_def] demo_holds] by auto

end
