(* ===== verification/Examples.thy ===== *)
theory Examples
  imports Scenario Command_Line
begin

text \<open>
  The example programs of \<open>examples/\<close>, each a function of the engines it seeds (its own and that of
  its controller) to its exit code and what it prints. The theorems show that each of them, and the
  demo of the command line tool, does what it demonstrates whatever its engines draw, as long as
  the identities that must differ differ and those that must not be null are not.
\<close>

section \<open>Scaffolding\<close>

definition gib :: "u64 \<Rightarrow> u64" where "gib n = n * 1024 * 1024 * 1024"

definition example_device :: DeviceCapability where
  "example_device = \<lparr>dv_kind = AcceleratorKind.CUDA, dv_device_id = ''cuda:0'',
     dv_compute = \<lparr>cc_major = 12, cc_minor = 0\<rparr>, dv_memory_bytes = gib 32\<rparr>"

definition example_worker :: "WorkerId \<Rightarrow> WorkerBootId \<Rightarrow> NodeId \<Rightarrow> WorkerRegistration" where
  "example_worker w b n = WorkerRegistration_default\<lparr>w_worker_id := w, w_boot_id := b, w_node_id := n,
     w_protocol_version := 1,
     w_inventory := \<lparr>ri_total_memory_bytes = gib 64, ri_free_memory_bytes = gib 64, ri_accelerator_count = 1,
       ri_devices = [example_device],
       ri_backends = [\<lparr>bc_kind = BackendKind.TRITON, bc_name = ''triton-3'',
         bc_compute = \<lparr>cc_major = 12, cc_minor = 0\<rparr>, bc_numeric = NumericMode.FP16\<rparr>]\<rparr>\<rparr>"

text \<open>What a replica offers: what the set asks for, on a newer device.\<close>

definition example_compat :: "ReplicaSetState option \<Rightarrow> ReplicaCompatibility" where
  "example_compat setp =
     (case setp of
        None \<Rightarrow> ReplicaCompatibility_default
      | Some st \<Rightarrow> (let q = s_compatibility st in ReplicaCompatibility_default\<lparr>
          cp_model_id := cq_model_id q, cp_backend := cq_backend q, cp_runtime_name := cq_runtime_name q,
          cp_architecture := cq_architecture q, cp_compute := \<lparr>cc_major = 12, cc_minor = 0\<rparr>,
          cp_numeric_mode := cq_numeric_mode q, cp_artifact_generation := cq_artifact_generation q,
          cp_policy_fingerprint := cq_policy_fingerprint q\<rparr>))"

definition example_warming :: "WarmingRecord \<Rightarrow> WarmingRecord" where
  "example_warming wm = wm\<lparr>wm_state := WarmthState.WARM, wm_artifact_loading_done := True,
     wm_weights_resident := True, wm_adapters_active := True, wm_kernel_init_done := True,
     wm_graph_init_done := True, wm_allocator_init_done := True, wm_device_context_done := True,
     wm_warmup_execution_done := True, wm_endpoint_registered := True\<rparr>"

definition probe :: "string \<Rightarrow> ReplicaState option \<Rightarrow> HealthEvidence" where
  "probe source rs = (let he = HealthEvidence_default\<lparr>he_state := HealthState.HEALTHY,
       he_kind := HealthEvidenceKind.REPORTED, he_source := source\<rparr>
     in (case rs of None \<Rightarrow> he | Some r \<Rightarrow> he\<lparr>he_generation := r_health_generation r\<rparr>)\<lparr>he_observed_at_mono := 0\<rparr>)"

definition example_readiness :: ReadinessRecord where
  "example_readiness = ReadinessRecord_default\<lparr>rr_factors := \<lparr>rf_model_loaded = True, rf_artifact_validated = True,
     rf_adapters_present = True, rf_kernel_prepared = True, rf_graph_prepared = True, rf_memory_available = True,
     rf_device_context_initialized = True, rf_warmup_complete = True, rf_dependencies_ready = True,
     rf_endpoint_registered = True, rf_policy_current = True\<rparr>, rr_state := ReadinessState.READY\<rparr>"

text \<open>
  The steps all the programs share: a worker is registered, a replica provisioned on it, allocated
  and started, and proved ready.
\<close>

definition allocate_start :: "ReplicaId \<Rightarrow> PlacementId \<Rightarrow> controller \<Rightarrow> controller" where
  "allocate_start rid pid c = snd (set_starting rid 0 0 (snd (set_allocating rid pid 0 c)))"

definition prove_ready :: "WarmingRecord \<Rightarrow> string \<Rightarrow> ReplicaId \<Rightarrow> WorkerId \<Rightarrow> WorkerBootId \<Rightarrow> controller \<Rightarrow> controller" where
  "prove_ready wm source rid w b c =
     (let c = snd (warm_replica rid (example_warming wm) w b 0 c);
          c = snd (report_health rid (probe source (find_replica rid c)) w b 0 c)
      in snd (report_readiness rid example_readiness w b 0 c))"

definition raise_replica :: "(ReplicaSetState option \<Rightarrow> ReplicaCompatibility) \<Rightarrow> WarmingRecord \<Rightarrow> string \<Rightarrow>
    ReplicaId \<Rightarrow> ReplicaSetId \<Rightarrow> WorkerId \<Rightarrow> WorkerBootId \<Rightarrow> NodeId \<Rightarrow> PlacementId \<Rightarrow> controller \<Rightarrow> controller" where
  "raise_replica offer wm source rid sid w b n pid c =
     (let c = snd (register_worker (example_worker w b n) 0 0 c);
          c = snd (provision_replica rid sid w (offer (find_set sid c)) example_device (8 * 1024 * 1024) 0 0 c);
          c = allocate_start rid pid c
      in prove_ready wm source rid w b c)"

definition make_set :: "i32 \<Rightarrow> engine \<Rightarrow> ReplicaSetState \<times> engine" where
  "make_set mx g =
     (let (i, g) = random_id g; (model, g) = random_id g; (art, g) = random_id g; (ag, g) = random_id g;
          (sg, g) = random_id g; (pg, g) = random_id g; (workload, g) = random_id g; (tenant, g) = random_id g;
          d = ReplicaSetState_default
      in (d\<lparr>s_id := i, s_model_id := model, s_artifact_id := art, s_artifact_generation := ag,
            s_generation := sg, s_policy_generation := pg, s_workload_id := workload, s_tenant_id := tenant,
            s_desired_count := mx, s_min_healthy := 1, s_max_replicas := mx,
            s_lifecycle := ReplicaSetLifecycle.CREATED,
            s_compatibility := (s_compatibility d)\<lparr>cq_model_id := model, cq_backend := BackendKind.TRITON,
              cq_runtime_name := ''triton-3'', cq_architecture := ''llama'',
              cq_min_compute := \<lparr>cc_major = 8, cc_minor = 0\<rparr>, cq_numeric_mode := NumericMode.FP16,
              cq_artifact_generation := ag, cq_policy_fingerprint := ''fp-1''\<rparr>,
            s_backend := BackendKind.TRITON, s_runtime_name := ''triton-3'',
            s_min_compute := \<lparr>cc_major = 8, cc_minor = 0\<rparr>,
            s_memory_requirement_bytes := 16 * 1024 * 1024, s_accelerator_requirement := 1,
            s_placement_policy := (s_placement_policy d)\<lparr>pl_anti_affinity_domains := [''host''],
              pl_require_diversity := True,
              pl_synthetic_domains := [\<lparr>sd_label = ''rack-A'', sd_kind = ''rack''\<rparr>, \<lparr>sd_label = ''rack-B'', sd_kind = ''rack''\<rparr>]\<rparr>\<rparr>, g))"

record ReplicaHandle =
  h_id :: ReplicaId
  h_worker :: WorkerId
  h_boot :: WorkerBootId
  h_node :: NodeId

definition provision_ready :: "ReplicaSetId \<Rightarrow> controller \<Rightarrow> engine \<Rightarrow> ReplicaHandle \<times> controller \<times> engine" where
  "provision_ready sid c g =
     (let (rid, g) = random_id g; (w, g) = random_id g; (b, g) = random_id g; (n, g) = random_id g;
          (pid, g) = random_id g;
          wm = WarmingRecord_default\<lparr>wm_steps_required := 4, wm_steps_completed := 4\<rparr>;
          c = raise_replica example_compat wm ''example'' rid sid w b n pid c
      in (\<lparr>h_id = rid, h_worker = w, h_boot = b, h_node = n\<rparr>, c, g))"

definition shown :: "('a \<Rightarrow> string) \<Rightarrow> 'a option \<Rightarrow> string" where
  "shown f x = (case x of None \<Rightarrow> ''?'' | Some y \<Rightarrow> f y)"

definition yes_no :: "bool \<Rightarrow> string" where "yes_no b = (if b then ''yes'' else ''no'')"
definition one_zero :: "bool \<Rightarrow> string" where "one_zero b = (if b then ''1'' else ''0'')"
definition passed :: "bool \<Rightarrow> string" where "passed b = (if b then ''PASSED'' else ''FAILED'') @ [newline]"

section \<open>Basic lifecycle\<close>

definition basic_set :: "engine \<Rightarrow> ReplicaSetState \<times> engine" where
  "basic_set g =
     (let (i, g) = random_id g; (model, g) = random_id g; (art, g) = random_id g; (ag, g) = random_id g;
          (sg, g) = random_id g; (pg, g) = random_id g; d = ReplicaSetState_default
      in (d\<lparr>s_id := i, s_model_id := model, s_artifact_id := art, s_artifact_generation := ag,
            s_generation := sg, s_policy_generation := pg,
            s_desired_count := 1, s_min_healthy := 1, s_max_replicas := 1, s_lifecycle := ReplicaSetLifecycle.CREATED,
            s_compatibility := (s_compatibility d)\<lparr>cq_model_id := model, cq_backend := BackendKind.TRITON,
              cq_runtime_name := ''triton-3'', cq_architecture := ''llama'',
              cq_min_compute := \<lparr>cc_major = 8, cc_minor = 0\<rparr>, cq_numeric_mode := NumericMode.FP16,
              cq_artifact_generation := ag, cq_policy_fingerprint := ''fp-1''\<rparr>,
            s_backend := BackendKind.TRITON, s_min_compute := \<lparr>cc_major = 8, cc_minor = 0\<rparr>\<rparr>, g))"

definition basic_compat :: "ReplicaSetState \<Rightarrow> ReplicaCompatibility" where
  "basic_compat st = ReplicaCompatibility_default\<lparr>cp_model_id := cq_model_id (s_compatibility st),
     cp_backend := BackendKind.TRITON, cp_runtime_name := ''triton-3'', cp_architecture := ''llama'',
     cp_compute := \<lparr>cc_major = 12, cc_minor = 0\<rparr>, cp_numeric_mode := NumericMode.FP16,
     cp_artifact_generation := s_artifact_generation st, cp_policy_fingerprint := ''fp-1''\<rparr>"

definition basic_main :: "engine \<Rightarrow> engine \<Rightarrow> int \<times> string" where
  "basic_main g ctrl_engine =
     (let (st, g) = basic_set g; (epoch, g) = random_id g;
          c = snd (create_replica_set st epoch (new_controller ctrl_engine));
          (w, g) = random_id g; (b, g) = random_id g; (n, g) = random_id g;
          (rid, g) = random_id g; (pid, g) = random_id g;
          c = raise_replica (\<lambda>_. basic_compat st) WarmingRecord_default ''probe'' rid (s_id st) w b n pid c;
          c = snd (promote_replica rid PromotionState.PRIMARY w b 0 0 c);
          final = find_replica rid c;
          ok = (case final of None \<Rightarrow> False | Some r \<Rightarrow> r_serving_eligible r)
      in (if ok then 0 else 1,
          ''replica lifecycle='' @ shown (ReplicaLifecycle_to_string \<circ> r_lifecycle) final @
          '' health='' @ shown (HealthState_to_string \<circ> r_health) final @
          '' serving='' @ shown (yes_no \<circ> r_serving_eligible) final @ [newline] @
          ''basic lifecycle example: '' @ passed ok))"

section \<open>Warming and promotion\<close>

definition result_text :: "OpResult \<Rightarrow> string" where
  "result_text r = (if is_ok r then ''ok'' else op_message r)"

definition warm_promote_main :: "engine \<Rightarrow> engine \<Rightarrow> int \<times> string" where
  "warm_promote_main g ctrl_engine =
     (let (st, g) = make_set 2 g; (epoch, g) = random_id g;
          c = snd (create_replica_set st epoch (new_controller ctrl_engine));
          (h, c, g) = provision_ready (s_id st) c g;
          r = find_replica (h_id h) c;
          (pr, c) = promote_replica (h_id h) PromotionState.PRIMARY (h_worker h) (h_boot h) 0 0 c;
          fin = find_replica (h_id h) c;
          ok = ((case fin of None \<Rightarrow> False | Some r \<Rightarrow> r_serving_eligible r) \<and> sa_eligible (servable (h_id h) c))
      in (if ok then 0 else 1,
          ''after warm/ready: lifecycle='' @ shown (ReplicaLifecycle_to_string \<circ> r_lifecycle) r @
          '' readiness='' @ shown (ReadinessState_to_string \<circ> r_readiness) r @
          '' health='' @ shown (HealthState_to_string \<circ> r_health) r @ [newline] @
          ''promote: '' @ result_text pr @ [newline] @
          ''serving as PRIMARY='' @ yes_no ok @
          '' lifecycle='' @ shown (ReplicaLifecycle_to_string \<circ> r_lifecycle) fin @
          '' promotion='' @ shown (PromotionState_to_string \<circ> r_promotion) fin @ [newline] @
          ''warm/promote example: '' @ passed ok))"

section \<open>Draining\<close>

definition drain_main :: "engine \<Rightarrow> engine \<Rightarrow> int \<times> string" where
  "drain_main g ctrl_engine =
     (let (st, g) = make_set 1 g; (epoch, g) = random_id g;
          c = snd (create_replica_set st epoch (new_controller ctrl_engine));
          (h, c, g) = provision_ready (s_id st) c g;
          c = snd (promote_replica (h_id h) PromotionState.PRIMARY (h_worker h) (h_boot h) 0 0 c);
          before = find_replica (h_id h) c;
          (dr, c) = drain_replica (h_id h) (h_worker h) (h_boot h) 0 c;
          draining = find_replica (h_id h) c;
          (cr, c) = complete_drain (h_id h) 0 False 0 c;
          quiesced = find_replica (h_id h) c;
          (rt, c) = retire_replica (h_id h) 0 c;
          retired = find_replica (h_id h) c;
          ok = (case retired of None \<Rightarrow> False
                | Some r \<Rightarrow> r_lifecycle r = ReplicaLifecycle.RETIRED \<and> \<not> r_serving_eligible r)
      in (if ok then 0 else 1,
          ''serving before drain='' @ yes_no (case before of None \<Rightarrow> False | Some r \<Rightarrow> r_serving_eligible r) @ [newline] @
          ''drain: '' @ result_text dr @
          '' serving_eligible='' @ shown (one_zero \<circ> r_serving_eligible) draining @
          '' lifecycle='' @ shown (ReplicaLifecycle_to_string \<circ> r_lifecycle) draining @ [newline] @
          ''complete_drain(quiesce): '' @ result_text cr @
          '' lifecycle='' @ shown (ReplicaLifecycle_to_string \<circ> r_lifecycle) quiesced @ [newline] @
          ''retire: '' @ result_text rt @
          '' lifecycle='' @ shown (ReplicaLifecycle_to_string \<circ> r_lifecycle) retired @
          '' serving_eligible='' @ shown (one_zero \<circ> r_serving_eligible) retired @ [newline] @
          ''drain example: '' @ passed ok))"

section \<open>Failover\<close>

definition failover_set :: "engine \<Rightarrow> ReplicaSetState \<times> engine" where
  "failover_set g =
     (let (i, g) = random_id g; (model, g) = random_id g; (art, g) = random_id g; (ag, g) = random_id g;
          (sg, g) = random_id g; (pg, g) = random_id g; (workload, g) = random_id g; (tenant, g) = random_id g;
          d = ReplicaSetState_default
      in (d\<lparr>s_id := i, s_model_id := model, s_artifact_id := art, s_artifact_generation := ag,
            s_generation := sg, s_policy_generation := pg, s_workload_id := workload, s_tenant_id := tenant,
            s_desired_count := 2, s_min_healthy := 1, s_max_replicas := 2, s_lifecycle := ReplicaSetLifecycle.CREATED,
            s_compatibility := (s_compatibility d)\<lparr>cq_model_id := model, cq_backend := BackendKind.TRITON,
              cq_runtime_name := ''triton-3'', cq_architecture := ''llama'',
              cq_min_compute := \<lparr>cc_major = 8, cc_minor = 0\<rparr>, cq_numeric_mode := NumericMode.FP16,
              cq_artifact_generation := ag, cq_policy_fingerprint := ''fp-1''\<rparr>,
            s_backend := BackendKind.TRITON, s_min_compute := \<lparr>cc_major = 8, cc_minor = 0\<rparr>,
            s_placement_policy := (s_placement_policy d)\<lparr>pl_anti_affinity_domains := [''host''],
              pl_require_diversity := True\<rparr>\<rparr>, g))"

text \<open>\<open>full\<close>; \<open>g9\<close> is the engine it makes anew each time for the placement.\<close>

definition full_replica :: "engine \<Rightarrow> ReplicaId \<Rightarrow> ReplicaSetId \<Rightarrow> WorkerId \<Rightarrow> WorkerBootId \<Rightarrow> NodeId \<Rightarrow> controller \<Rightarrow> controller" where
  "full_replica g9 rid sid w b n c =
     raise_replica example_compat WarmingRecord_default ''probe'' rid sid w b n (fst (random_id g9)) c"

definition failover_main :: "engine \<Rightarrow> engine \<Rightarrow> engine \<Rightarrow> int \<times> string" where
  "failover_main g ctrl_engine g9 =
     (let (st, g) = failover_set g; (epoch, g) = random_id g;
          c = snd (create_replica_set st epoch (new_controller ctrl_engine));
          (wa, g) = random_id g; (ba, g) = random_id g; (na, g) = random_id g;
          (wb, g) = random_id g; (bb, g) = random_id g; (nb, g) = random_id g;
          (ra, g) = random_id g; (rb, g) = random_id g;
          c = full_replica g9 ra (s_id st) wa ba na c;
          c = full_replica g9 rb (s_id st) wb bb nb c;
          c = snd (promote_replica ra PromotionState.PRIMARY wa ba 0 0 c);
          c = snd (promote_replica rb PromotionState.STANDBY wb bb 0 0 c);
          a = sa_eligible (servable ra c); b = sa_eligible (servable rb c);
          c = snd (unregister_worker wa c);
          c = snd (trigger_failover (s_id st) ra ''worker A died'' 0 0 c);
          ok = sa_eligible (servable rb c)
      in (if ok then 0 else 1,
          ''A serving='' @ one_zero a @ '' B serving='' @ one_zero b @ [newline] @
          ''after failover, B serving='' @ one_zero ok @ '' A serving='' @ one_zero (sa_eligible (servable ra c)) @ [newline] @
          ''two-replica failover example: '' @ passed ok))"

section \<open>A replica raised is ready\<close>

lemma readiness_all [simp]: "all_set (rr_factors example_readiness)"
  by (simp add: example_readiness_def all_set_def)

lemma example_warmed [simp]: "wm_warmup_execution_done (example_warming wm)"
  by (simp add: example_warming_def)

lemma probe_healthy [simp]: "he_state (probe source rs) = HealthState.HEALTHY"
  by (simp add: probe_def Let_def split: option.split)

lemma probe_generation: "rs = Some r \<Longrightarrow> he_generation (probe source rs) = r_health_generation r"
  by (simp add: probe_def Let_def)

lemma example_worker_ids [simp]: "w_worker_id (example_worker w b n) = w" "w_boot_id (example_worker w b n) = b"
  by (simp_all add: example_worker_def)

text \<open>Raising a replica is a sequence of commands about that replica and its worker alone.\<close>

definition raising :: "(ReplicaSetState option \<Rightarrow> ReplicaCompatibility) \<Rightarrow> WarmingRecord \<Rightarrow> string \<Rightarrow>
    ReplicaId \<Rightarrow> ReplicaSetId \<Rightarrow> WorkerId \<Rightarrow> WorkerBootId \<Rightarrow> NodeId \<Rightarrow> PlacementId \<Rightarrow> controller \<Rightarrow> command list" where
  "raising offer wm source rid sid w b n pid c =
     (let start = start_up (example_worker w b n) rid sid
            (offer (find_set sid c)) example_device (8 * 1024 * 1024) pid;
          warm = WarmReplica rid (example_warming wm) w b 0
      in start @ evidence rid w b (example_warming wm)
           (probe source (find_replica rid (run_commands (start @ [warm]) c))) example_readiness)"

lemma raise_replica_run:
  "raise_replica offer wm source rid sid w b n pid c = run_commands (raising offer wm source rid sid w b n pid c) c"
  by (simp add: raise_replica_def raising_def Let_def start_up_def place_replica_def evidence_def prove_ready_def
      allocate_start_def find_set_def registered)

lemma raising_elsewhere:
  "rid' \<noteq> rid \<Longrightarrow> w' \<noteq> w \<Longrightarrow> list_all (elsewhere rid' w') (raising offer wm source rid sid w b n pid c)"
  by (simp add: raising_def Let_def start_up_def place_replica_def evidence_def elsewhere_def calm_def)

lemma raising_only:
  "list_all (\<lambda>cmd. \<forall>x. provisions x cmd \<longrightarrow> x \<in> insert rid rids) (raising offer wm source rid sid w b n pid c)"
  by (simp add: raising_def Let_def start_up_def place_replica_def evidence_def provisions_iff)

lemma raise_ready:
  assumes "controller_ok c" and "om_find (ct_sets c) sid = Some s"
    and "s_lifecycle s = ReplicaSetLifecycle.CREATED \<or> open_set s"
    and "replica_count sid c < s_max_replicas s"
    and "meets (s_compatibility s) (offer (Some s))" and "pid \<noteq> null_id"
    and "fst (random_id (ct_rng c) :: ReplicaGeneration \<times> engine) \<noteq> null_id"
  shows "stands (raise_replica offer wm source rid sid w b n pid c) sid rid w b ready"
    and "ct_rng (raise_replica offer wm source rid sid w b n pid c) = later 2 (ct_rng c)"
proof -
  show "stands (raise_replica offer wm source rid sid w b n pid c) sid rid w b ready"
    unfolding raise_replica_run raising_def Let_def
    using start_up_ready [of c sid s "offer (find_set sid c)" "8 * 1024 * 1024" pid "example_warming wm"
        _ example_readiness rid "example_worker w b n" example_device] assms
    by (simp add: find_set_def probe_generation)
  show "ct_rng (raise_replica offer wm source rid sid w b n pid c) = later 2 (ct_rng c)"
    using start_up_rng [OF assms(2-4), of "example_worker w b n" rid "offer (find_set sid c)" example_device "8 * 1024 * 1024" pid]
    by (simp add: raise_replica_run raising_def Let_def evidence_def later_def)
qed

section \<open>The sets\<close>

text \<open>What the programs need of a set they create.\<close>

definition fresh_for :: "nat \<Rightarrow> (ReplicaSetState option \<Rightarrow> ReplicaCompatibility) \<Rightarrow> ReplicaSetState \<Rightarrow> bool" where
  "fresh_for n offer s \<longleftrightarrow> s_lifecycle s = ReplicaSetLifecycle.CREATED \<and> s_min_healthy s = 1 \<and>
     s_desired_count s = s_max_replicas s \<and> s_max_replicas s = of_nat n \<and>
     (\<forall>l. meets (s_compatibility s) (offer (Some (s\<lparr>s_lifecycle := l\<rparr>))))"

lemmas set_simps = random_id_later Let_def fresh_for_def meets_def example_compat_def basic_compat_def compute_le_def compute_less_def
  ReplicaSetState_default_def CompatibilityRequirements_default_def ReplicaCompatibility_default_def

lemma sets_fresh:
  "fresh_for 1 (\<lambda>_. basic_compat (fst (basic_set g))) (fst (basic_set g))" "snd (basic_set g) = later 6 g"
  "fresh_for n example_compat (fst (make_set (of_nat n) g))" "snd (make_set m g) = later 8 g"
  "fresh_for 2 example_compat (fst (failover_set g))" "snd (failover_set g) = later 8 g"
  by (simp_all add: basic_set_def make_set_def failover_set_def set_simps)

lemma basic_set_fresh:
  obtains s where "basic_set g = (s, later 6 g)" "fresh_for 1 (\<lambda>_. basic_compat s) s"
  using sets_fresh(1,2) [of g] by (cases "basic_set g") auto

lemma make_set_fresh:
  obtains s where "make_set (of_nat n) g = (s, later 8 g)" "fresh_for n example_compat s"
  using sets_fresh(3) [of n g] sets_fresh(4) [of "of_nat n" g] by (cases "make_set (of_nat n) g") auto

lemma failover_set_fresh:
  obtains s where "failover_set g = (s, later 8 g)" "fresh_for 2 example_compat s"
  using sets_fresh(5,6) [of g] by (cases "failover_set g") auto

text \<open>A set is created on a new controller and one replica is raised in it.\<close>

lemma first_ready:
  fixes s :: ReplicaSetState and e :: CoordinatorEpoch and cg :: engine
  assumes "fresh_for n offer s" and "0 < n" and "n < 2 ^ 32" and "pid \<noteq> null_id" and "nth_id 0 cg \<noteq> (null_id :: ReplicaGeneration)"
  defines "c \<equiv> snd (create_replica_set s e (new_controller cg))"
  shows "controller_ok c" and "om_find (ct_sets c) (s_id s) = Some s" and "ct_rng c = cg" and "only c (s_id s) {}"
    and "stands (raise_replica offer wm source rid (s_id s) w b i pid c) (s_id s) rid w b ready"
    and "ct_rng (raise_replica offer wm source rid (s_id s) w b i pid c) = later 2 cg"
proof -
  have n: "s_max_replicas s = of_nat n" "unat (of_nat n :: u32) = n"
    using assms(1,3) by (simp_all add: fresh_for_def unat_of_nat)
  have counts: "s_lifecycle s = ReplicaSetLifecycle.CREATED" "0 < s_min_healthy s" "s_min_healthy s \<le> s_desired_count s"
    "s_desired_count s \<le> s_max_replicas s"
    using assms(1,2) n by (simp_all add: fresh_for_def word_le_nat_alt)
  have c: "c = snd (run_command (CreateReplicaSet s e) (new_controller cg))" by (simp add: c_def)
  show ok: "controller_ok c" unfolding c by (rule command_ok [OF new_controller_ok])
  show find: "om_find (ct_sets c) (s_id s) = Some s" and "only c (s_id s) {}"
    unfolding c_def by (rule created_set [OF counts])+
  show rng: "ct_rng c = cg" by (simp add: c_def new_controller_def)
  have "replica_count (s_id s) c < s_max_replicas s"
    unfolding c_def created_set(3) [OF counts] using assms(2) n by (simp add: word_less_nat_alt)
  moreover have "s\<lparr>s_lifecycle := s_lifecycle s\<rparr> = s" by (cases s) simp
  then have "meets (s_compatibility s) (offer (Some s))"
    using assms(1) unfolding fresh_for_def by metis
  ultimately show "stands (raise_replica offer wm source rid (s_id s) w b i pid c) (s_id s) rid w b ready"
    and "ct_rng (raise_replica offer wm source rid (s_id s) w b i pid c) = later 2 cg"
    using raise_ready [OF ok find disjI1, of offer pid wm source rid w b i] counts(1) assms(4,5)
    by (simp_all add: rng random_id_later)
qed

section \<open>The programs pass\<close>

text \<open>An engine to apply the theorems to: it counts.\<close>

definition counting :: engine where "counting = siterate (\<lambda>x. x + 1) 1"

lemma counting_nth: "counting !! n = of_nat n + 1"
proof -
  have "((\<lambda>x. x + 1) ^^ n) 1 = (of_nat n + 1 :: u64)" by (induction n) simp_all
  then show ?thesis by (simp add: counting_def)
qed

lemma counting_id: "nth_id k counting = MkId (of_nat (2 * k) + 1) (of_nat (2 * k) + 2)"
  by (simp only: nth_id_def counting_nth) simp

lemma counting_ids [simp]:
  "nth_id (numeral k) counting = MkId (2 * numeral k + 1) (2 * numeral k + 2)" "nth_id 0 counting = MkId 1 2"
  by (simp_all add: counting_id)

lemma state_names [simp]:
  "ReplicaLifecycle_to_string ReplicaLifecycle.READY = ''READY''"
  "ReplicaLifecycle_to_string ReplicaLifecycle.SERVING = ''SERVING''"
  "ReplicaLifecycle_to_string ReplicaLifecycle.DRAINING = ''DRAINING''"
  "ReplicaLifecycle_to_string ReplicaLifecycle.QUIESCED = ''QUIESCED''"
  "ReplicaLifecycle_to_string ReplicaLifecycle.RETIRED = ''RETIRED''"
  "HealthState_to_string HealthState.HEALTHY = ''HEALTHY''"
  "ReadinessState_to_string ReadinessState.READY = ''READY''"
  "PromotionState_to_string PromotionState.PRIMARY = ''PRIMARY''"
  by (simp_all add: ReplicaLifecycle_to_string_def HealthState_to_string_def ReadinessState_to_string_def
      PromotionState_to_string_def kReplicaLifecycleTable_def kHealthStateTable_def
      kReadinessStateTable_def kPromotionStateTable_def)

lemmas program_simps = random_id_later Let_def shown_def yes_no_def one_zero_def passed_def result_text_def
  serving_def ready_def resourced_def

lemma stands_found: "stands c sid rid w b P \<Longrightarrow> \<exists>r. find_replica rid c = Some r \<and> P r"
  unfolding stands_def find_replica_def by blast

text \<open>
  The basic example brings its replica to serving: whatever it draws, it exits with 0 and
  prints that the replica is serving, healthy and serves, unless the placement id it draws or the
  generation its controller draws is the null id.
\<close>

theorem basic_passes:
  assumes "nth_id 11 g \<noteq> (null_id :: PlacementId)" and "nth_id 0 cg \<noteq> (null_id :: ReplicaGeneration)"
  shows "basic_main g cg = (0, ''replica lifecycle=SERVING health=HEALTHY serving=yes'' @ [newline] @
    ''basic lifecycle example: PASSED'' @ [newline])"
proof -
  obtain s where s: "basic_set g = (s, later 6 g)" "fresh_for 1 (\<lambda>_. basic_compat s) s" by (rule basic_set_fresh)
  let ?c = "raise_replica (\<lambda>_. basic_compat s) WarmingRecord_default ''probe'' (nth_id 10 g) (s_id s)
    (nth_id 7 g) (nth_id 8 g) (nth_id 9 g) (nth_id 11 g) (snd (create_replica_set s (nth_id 6 g) (new_controller cg)))"
  have c: "controller_ok ?c" "stands ?c (s_id s) (nth_id 10 g) (nth_id 7 g) (nth_id 8 g) ready"
    using first_ready [OF s(2) _ _ assms] by (simp_all add: raise_replica_run commands_ok)
  obtain r where
    "find_replica (nth_id 10 g) (snd (promote_replica (nth_id 10 g) PromotionState.PRIMARY (nth_id 7 g) (nth_id 8 g) 0 0 ?c)) = Some r"
    "serving r" using stands_primary [OF c] stands_found by blast
  then show ?thesis by (simp add: basic_main_def s program_simps)
qed

theorem basic_passes_witness: "fst (basic_main counting counting) = 0"
  using basic_passes [of counting counting] by (simp add: null_id_def)

text \<open>What the helper raises.\<close>

lemma provision_ready_result:
  assumes "fresh_for n example_compat s" and "0 < n" and "n < 2 ^ 32"
    and "nth_id (k + 4) g \<noteq> (null_id :: PlacementId)" and "nth_id 0 cg \<noteq> (null_id :: ReplicaGeneration)"
  obtains h c g' where "provision_ready (s_id s) (snd (create_replica_set s e (new_controller cg))) (later k g) = (h, c, g')"
    "controller_ok c" "stands c (s_id s) (h_id h) (h_worker h) (h_boot h) ready"
proof -
  have "nth_id 4 (later k g) \<noteq> (null_id :: PlacementId)" using assms(4) by (simp add: nth_id_later)
  note up = first_ready [OF assms(1-3) this assms(5), where e = e]
  show thesis
    by (rule that, simp add: provision_ready_def random_id_later Let_def)
       (use up in \<open>simp_all add: raise_replica_run commands_ok\<close>)
qed

text \<open>
  The promotion example promotes its replica: whatever it draws, it exits with 0, having shown
  the replica ready and healthy, then promoted and serving as primary.
\<close>

theorem warm_promote_passes:
  assumes "nth_id 13 g \<noteq> (null_id :: PlacementId)" and "nth_id 0 cg \<noteq> (null_id :: ReplicaGeneration)"
  shows "warm_promote_main g cg = (0, ''after warm/ready: lifecycle=READY readiness=READY health=HEALTHY'' @ [newline] @
    ''promote: ok'' @ [newline] @ ''serving as PRIMARY=yes lifecycle=SERVING promotion=PRIMARY'' @ [newline] @
    ''warm/promote example: PASSED'' @ [newline])"
proof -
  obtain s where s: "make_set 2 g = (s, later 8 g)" "fresh_for 2 example_compat s"
    using make_set_fresh [of 2 g] by auto
  obtain h c g' where up: "provision_ready (s_id s) (snd (create_replica_set s (nth_id 8 g) (new_controller cg))) (later 9 g) = (h, c, g')"
    "controller_ok c" "stands c (s_id s) (h_id h) (h_worker h) (h_boot h) ready"
    by (rule provision_ready_result [OF s(2) _ _ _ assms(2), of 9 g]) (use assms(1) in simp_all)
  obtain pr c' where pr: "promote_replica (h_id h) PromotionState.PRIMARY (h_worker h) (h_boot h) 0 0 c = (pr, c')" by fastforce
  have c': "is_ok pr" "stands c' (s_id s) (h_id h) (h_worker h) (h_boot h) serving" "active c' (s_id s)"
    using stands_primary [OF up(2,3), of 0 0] by (simp_all add: pr)
  obtain r r' where "find_replica (h_id h) c = Some r" "ready r" "find_replica (h_id h) c' = Some r'" "serving r'"
    using stands_found [OF up(3)] stands_found [OF c'(2)] by blast
  then show ?thesis
    using stands_servable [OF c'(2,3)] c'(1) by (simp add: warm_promote_main_def s up(1) pr program_simps)
qed

theorem warm_promote_passes_witness: "fst (warm_promote_main counting counting) = 0"
  using warm_promote_passes [of counting counting] by (simp add: null_id_def)

text \<open>
  The drain example takes its primary out of service: it exits with 0, having drained,
  quiesced and retired the replica, which was serving before and serves no more from the drain on.
\<close>

theorem drain_passes:
  assumes "nth_id 13 g \<noteq> (null_id :: PlacementId)" and "nth_id 0 cg \<noteq> (null_id :: ReplicaGeneration)"
  shows "drain_main g cg = (0, ''serving before drain=yes'' @ [newline] @
    ''drain: ok serving_eligible=0 lifecycle=DRAINING'' @ [newline] @
    ''complete_drain(quiesce): ok lifecycle=QUIESCED'' @ [newline] @
    ''retire: ok lifecycle=RETIRED serving_eligible=0'' @ [newline] @ ''drain example: PASSED'' @ [newline])"
proof -
  obtain s where s: "make_set 1 g = (s, later 8 g)" "fresh_for 1 example_compat s"
    using make_set_fresh [of 1 g] by auto
  obtain h c g' where up: "provision_ready (s_id s) (snd (create_replica_set s (nth_id 8 g) (new_controller cg))) (later 9 g) = (h, c, g')"
    "controller_ok c" "stands c (s_id s) (h_id h) (h_worker h) (h_boot h) ready"
    by (rule provision_ready_result [OF s(2) _ _ _ assms(2), of 9 g]) (use assms(1) in simp_all)
  obtain pr c' where pr: "promote_replica (h_id h) PromotionState.PRIMARY (h_worker h) (h_boot h) 0 0 c = (pr, c')" by fastforce
  have "stands c' (s_id s) (h_id h) (h_worker h) (h_boot h) serving"
    using stands_primary [OF up(2,3), of 0 0] by (simp add: pr)
  from drain_serving [OF this, of 0] obtain r g'' d where r: "om_find (ct_replicas c') (h_id h) = Some r" "serving r"
    "drain_replica (h_id h) (h_worker h) (h_boot h) 0 c' = (op_ok ''replica draining (reject new work)'',
      (put_replica (h_id h) (r\<lparr>r_serving_eligible := False, r_role := ReplicaRole.SECONDARY,
         r_promotion := PromotionState.STANDBY, r_lifecycle := ReplicaLifecycle.DRAINING\<rparr>) c')
        \<lparr>ct_rng := g'', ct_drains := ct_drains c' @ [d]\<rparr>)" by blast
  then show ?thesis
    by (simp add: drain_main_def s up(1) pr program_simps find_replica_def complete_drain_def retire_replica_def can_transition_def)
qed

theorem drain_passes_witness: "fst (drain_main counting counting) = 0"
  using drain_passes [of counting counting] by (simp add: null_id_def)

text \<open>A second replica is raised beside the first, on another worker.\<close>

lemma room_beside:
  assumes "controller_ok c" and "om_find (ct_sets c) sid = Some s" and "s_max_replicas s = 2" and "only c sid {ra}"
  shows "replica_count sid c < s_max_replicas s"
  using only_count [OF assms(1,4)] assms(3) by (simp add: word_less_nat_alt)

lemma pair_ready:
  fixes s :: ReplicaSetState and e :: CoordinatorEpoch and cg :: engine and offer and wm :: WarmingRecord
    and source :: string and ra rb :: ReplicaId and wa wb :: WorkerId and ba bb :: WorkerBootId and na nb :: NodeId
    and pid :: PlacementId
  assumes "fresh_for 2 offer s" and "pid \<noteq> null_id" and "nth_id 0 cg \<noteq> (null_id :: ReplicaGeneration)"
    and "nth_id 2 cg \<noteq> (null_id :: ReplicaGeneration)" and "ra \<noteq> rb" and "wa \<noteq> wb"
  defines "c \<equiv> raise_replica offer wm source rb (s_id s) wb bb nb pid
    (raise_replica offer wm source ra (s_id s) wa ba na pid (snd (create_replica_set s e (new_controller cg))))"
  shows "controller_ok c" and "stands c (s_id s) ra wa ba ready" and "stands c (s_id s) rb wb bb ready"
    and "only c (s_id s) {ra, rb}"
proof -
  let ?c0 = "snd (create_replica_set s e (new_controller cg))"
  let ?c1 = "raise_replica offer wm source ra (s_id s) wa ba na pid ?c0"
  note up = first_ready [OF assms(1) _ _ assms(2,3), where e = e, simplified]
  have ok: "controller_ok ?c1" using up(1) by (simp add: raise_replica_run commands_ok)
  obtain l where l: "om_find (ct_sets ?c1) (s_id s) = Some (s\<lparr>s_lifecycle := l\<rparr>)"
    unfolding raise_replica_run using commands_keep_set [OF up(2)] by blast
  have a: "stands ?c1 (s_id s) ra wa ba ready" "ct_rng ?c1 = later 2 cg" by (rule up(5,6))+
  have only: "only ?c1 (s_id s) {ra}"
    unfolding raise_replica_run
    by (rule only_commands [OF up(1)]) (use up(4) raising_only [of ra "{}"] in \<open>simp_all add: only_def\<close>)
  have "open_set (s\<lparr>s_lifecycle := l\<rparr>)" using a(1) l unfolding stands_def by auto
  moreover have "s_max_replicas s = 2" "meets (s_compatibility s) (offer (Some (s\<lparr>s_lifecycle := l\<rparr>)))"
    using assms(1) by (simp_all add: fresh_for_def)
  ultimately show "stands c (s_id s) rb wb bb ready"
    unfolding c_def using assms(2,4) room_beside [OF ok l _ only] a(2)
    by (intro raise_ready(1) [OF ok l]) (simp_all add: random_id_later)
  show "stands c (s_id s) ra wa ba ready"
    unfolding c_def raise_replica_run [of _ _ _ rb]
    using stands_elsewheres [OF ok a(1) raising_elsewhere] assms(5,6) by blast
  show "only c (s_id s) {ra, rb}"
    unfolding c_def raise_replica_run [of _ _ _ rb]
    by (rule only_commands [OF ok]) (use only raising_only [of rb "{ra}"] in \<open>auto simp: only_def insert_commute\<close>)
  show "controller_ok c" unfolding c_def raise_replica_run [of _ _ _ rb] by (rule commands_ok [OF ok])
qed

text \<open>
  C40. The failover example fails over: whatever its engines draw, provided the two workers and the two
  replicas differ and three identities are not null (the placement id and the generations of the two
  replicas), it exits with 0, having shown that before the worker of A dies A serves and B does not,
  and afterwards B serves and A does not.
\<close>

theorem failover_passes:
  assumes "nth_id 9 g \<noteq> (nth_id 12 g :: WorkerId)" and "nth_id 15 g \<noteq> (nth_id 16 g :: ReplicaId)"
    and "nth_id 0 g9 \<noteq> (null_id :: PlacementId)"
    and "nth_id 0 cg \<noteq> (null_id :: ReplicaGeneration)" and "nth_id 2 cg \<noteq> (null_id :: ReplicaGeneration)"
  shows "failover_main g cg g9 = (0, ''A serving=1 B serving=0'' @ [newline] @
    ''after failover, B serving=1 A serving=0'' @ [newline] @ ''two-replica failover example: PASSED'' @ [newline])"
proof -
  obtain s where s: "failover_set g = (s, later 8 g)" "fresh_for 2 example_compat s" by (rule failover_set_fresh)
  note pair = pair_ready [OF s(2) assms(3-5,2,1), where e = "nth_id 8 g" and wm = WarmingRecord_default
      and source = "''probe''" and ba = "nth_id 10 g" and na = "nth_id 11 g" and bb = "nth_id 13 g" and nb = "nth_id 14 g"]
  note over = takeover(1,2) [OF pair assms(2,1)] takeover(3,4) [OF pair assms(2,1), where why = "''worker A died''"]
  show ?thesis
    by (simp add: failover_main_def full_replica_def s program_simps over)
qed

theorem failover_passes_witness: "fst (failover_main counting counting counting) = 0"
  using failover_passes [of counting counting counting] by (simp add: null_id_def)

section \<open>The demo of the tool\<close>

lemma draw_later: "draw s = (nth_id 0 (cl_rng s), s\<lparr>cl_rng := later (Suc 0) (cl_rng s)\<rparr>)"
  by (simp add: draw_def random_id_later)

lemma cli_worker_ids [simp]: "w_worker_id (cli_worker w b n) = w" "w_boot_id (cli_worker w b n) = b"
  by (simp_all add: cli_worker_def)

lemma mk_set_fresh:
  "fresh_for n cli_compat (fst (mk_set i m a ag sg pg (of_nat n) s))"
  "s_id (fst (mk_set i m a ag sg pg x s)) = i"
  "snd (mk_set i m a ag sg pg x s) = s\<lparr>cl_rng := later 2 (cl_rng s)\<rparr>"
  by (simp_all add: mk_set_def draw_later Let_def fresh_for_def meets_def cli_compat_def compute_le_def compute_less_def
      ReplicaSetState_default_def CompatibilityRequirements_default_def ReplicaCompatibility_default_def)

lemma fresh_set_new:
  obtains st r where "fresh_for 2 cli_compat st" "s_id st = nth_id 0 (cl_rng s)"
    "fresh_set 2 s = ((nth_id 0 (cl_rng s), r), s\<lparr>cl_rng := later 9 (cl_rng s),
       cl_ctrl := snd (create_replica_set st (nth_id 8 (cl_rng s)) (cl_ctrl s))\<rparr>)"
proof -
  let ?m = "mk_set (nth_id 0 (cl_rng s)) (nth_id (Suc 0) (cl_rng s)) (nth_id 2 (cl_rng s)) (nth_id 3 (cl_rng s))
      (nth_id 4 (cl_rng s)) (nth_id 5 (cl_rng s)) 2 (s\<lparr>cl_rng := later 6 (cl_rng s)\<rparr>)"
  obtain st s' where m: "?m = (st, s')" by fastforce
  have "fresh_for 2 cli_compat (fst ?m)" using mk_set_fresh(1) [of 2] by simp
  moreover have "s_id (fst ?m) = nth_id 0 (cl_rng s)" by (rule mk_set_fresh(2))
  moreover have s': "s' = s\<lparr>cl_rng := later 8 (cl_rng s)\<rparr>" using mk_set_fresh(3) [of "nth_id 0 (cl_rng s)"] m by (simp add: prod_eq_iff)
  ultimately show thesis
    using m by (intro that [of st "fst (create_replica_set st (nth_id 8 (cl_rng s)) (cl_ctrl s))"])
      (simp_all add: fresh_set_def draw_later Let_def case_prod_unfold)
qed

text \<open>Setting a replica up is the first half of raising it, proving it ready the second.\<close>

definition setting_up :: "ReplicaSetId \<Rightarrow> ReplicaId \<Rightarrow> engine \<Rightarrow> controller \<Rightarrow> command list" where
  "setting_up sid rid g c = start_up (cli_worker (nth_id 0 g) (nth_id 1 g) (nth_id 2 g)) rid sid
     (cli_compat (find_set sid c)) cli_device (8 * 1024 * 1024) (nth_id 3 g)"

lemma setup_replica_run:
  "setup_replica sid rid s = ((nth_id 0 (cl_rng s), nth_id 1 (cl_rng s), nth_id 2 (cl_rng s)),
     s\<lparr>cl_rng := later 4 (cl_rng s), cl_ctrl := run_commands (setting_up sid rid (cl_rng s) (cl_ctrl s)) (cl_ctrl s)\<rparr>)"
  by (simp add: setup_replica_def setting_up_def start_up_def place_replica_def draw_later Let_def)

definition proving :: "ReplicaId \<Rightarrow> WorkerId \<Rightarrow> WorkerBootId \<Rightarrow> controller \<Rightarrow> command list" where
  "proving rid w b c = evidence rid w b cli_warming
     (cli_health (find_replica rid (snd (warm_replica rid cli_warming w b 0 c)))) cli_readiness"

lemma warm_ready_run: "snd (warm_ready rid w b c) = run_commands (proving rid w b c) c"
  by (simp add: warm_ready_def proving_def evidence_def Let_def case_prod_unfold)

lemma cli_halves_elsewhere:
  "rid' \<noteq> rid \<Longrightarrow> w' \<noteq> nth_id 0 g \<Longrightarrow> list_all (elsewhere rid' w') (setting_up sid rid g c)"
  "rid' \<noteq> rid \<Longrightarrow> list_all (elsewhere rid' w') (proving rid w b c)"
  by (simp_all add: setting_up_def proving_def start_up_def place_replica_def evidence_def elsewhere_def calm_def)

lemma cli_halves_only:
  "list_all (\<lambda>cmd. \<forall>x. provisions x cmd \<longrightarrow> x \<in> insert rid rids) (setting_up sid rid g c)"
  "list_all (\<lambda>cmd. \<forall>x. provisions x cmd \<longrightarrow> x \<in> rids) (proving rid w b c)"
  by (simp_all add: setting_up_def proving_def start_up_def place_replica_def evidence_def provisions_iff)

lemma proving_ready:
  assumes "controller_ok c" and "stands c sid rid w b cold"
  shows "stands (run_commands (proving rid w b c) c) sid rid w b ready"
  unfolding proving_def
  by (rule stands_ready [OF assms])
     (simp_all add: cli_warming_def cli_health_def cli_readiness_def all_set_def Let_def split: option.split)

lemma setting_up_cold:
  assumes "controller_ok c" and "om_find (ct_sets c) sid = Some s"
    and "s_lifecycle s = ReplicaSetLifecycle.CREATED \<or> open_set s"
    and "replica_count sid c < s_max_replicas s" and "meets (s_compatibility s) (cli_compat (Some s))"
    and "nth_id 3 g \<noteq> (null_id :: PlacementId)" and "nth_id 0 (ct_rng c) \<noteq> (null_id :: ReplicaGeneration)"
  shows "stands (run_commands (setting_up sid rid g c) c) sid rid (nth_id 0 g) (nth_id 1 g) cold"
    and "ct_rng (run_commands (setting_up sid rid g c) c) = later 2 (ct_rng c)"
  using start_up_cold [OF assms(1-5), where cap = "8 * 1024 * 1024" and pid = "nth_id 3 g"
      and wr = "cli_worker (nth_id 0 g) (nth_id 1 g) (nth_id 2 g)"]
    start_up_rng [OF assms(2-4)] assms(2,6,7)
  by (simp_all add: setting_up_def find_set_def random_id_later later_def)

text \<open>Both replicas of the demo are set up, then both are proved ready.\<close>

lemma demo_pair_cold:
  fixes s :: ReplicaSetState and e :: CoordinatorEpoch and cg ga gb :: engine and ra rb :: ReplicaId
  assumes "fresh_for 2 cli_compat s" and "nth_id 3 ga \<noteq> (null_id :: PlacementId)" and "nth_id 3 gb \<noteq> (null_id :: PlacementId)"
    and "nth_id 0 cg \<noteq> (null_id :: ReplicaGeneration)" and "nth_id 2 cg \<noteq> (null_id :: ReplicaGeneration)"
    and "ra \<noteq> rb" and "nth_id 0 ga \<noteq> (nth_id 0 gb :: WorkerId)"
  defines "c0 \<equiv> snd (create_replica_set s e (new_controller cg))"
  defines "c1 \<equiv> run_commands (setting_up (s_id s) ra ga c0) c0"
  defines "c2 \<equiv> run_commands (setting_up (s_id s) rb gb c1) c1"
  shows "controller_ok c2" and "stands c2 (s_id s) ra (nth_id 0 ga) (nth_id 1 ga) cold"
    and "stands c2 (s_id s) rb (nth_id 0 gb) (nth_id 1 gb) cold" and "only c2 (s_id s) {ra, rb}"
proof -
  have new: "controller_ok c0" "om_find (ct_sets c0) (s_id s) = Some s" "ct_rng c0 = cg" "only c0 (s_id s) {}"
    unfolding c0_def by (rule first_ready(1-4) [OF assms(1) _ _ assms(2,4)]; simp)+
  have compat: "meets (s_compatibility s) (cli_compat (Some (s\<lparr>s_lifecycle := l\<rparr>)))" "s_lifecycle s = ReplicaSetLifecycle.CREATED"
    "s_max_replicas s = 2" for l using assms(1) by (simp_all add: fresh_for_def)
  have counts: "0 < s_min_healthy s" "s_min_healthy s \<le> s_desired_count s" "s_desired_count s \<le> s_max_replicas s"
    using assms(1) by (simp_all add: fresh_for_def word_le_nat_alt)
  have "s\<lparr>s_lifecycle := s_lifecycle s\<rparr> = s" by (cases s) simp
  with compat(1) have meets: "meets (s_compatibility s) (cli_compat (Some s))" by metis
  have "replica_count (s_id s) c0 < s_max_replicas s"
    unfolding c0_def created_set(3) [OF compat(2) counts] by (simp add: compat(3))
  note a = setting_up_cold [OF new(1,2) disjI1 [OF compat(2)] this meets assms(2), of ra, folded c1_def]
  have ok: "controller_ok c1" unfolding c1_def by (rule commands_ok [OF new(1)])
  obtain l where l: "om_find (ct_sets c1) (s_id s) = Some (s\<lparr>s_lifecycle := l\<rparr>)"
    unfolding c1_def using commands_keep_set [OF new(2)] by blast
  have only: "only c1 (s_id s) {ra}"
    unfolding c1_def by (rule only_commands [OF new(1)]) (use new(4) cli_halves_only(1) [of ra "{}"] in \<open>simp_all add: only_def\<close>)
  have A: "stands c1 (s_id s) ra (nth_id 0 ga) (nth_id 1 ga) cold" "ct_rng c1 = later 2 cg"
    using a assms(4) by (simp_all add: new(3))
  then have "open_set (s\<lparr>s_lifecycle := l\<rparr>)" using l unfolding stands_def by auto
  then show "stands c2 (s_id s) rb (nth_id 0 gb) (nth_id 1 gb) cold"
    unfolding c2_def using compat(1,3) assms(3,5) room_beside [OF ok l _ only] A(2)
    by (intro setting_up_cold(1) [OF ok l]) simp_all
  show "stands c2 (s_id s) ra (nth_id 0 ga) (nth_id 1 ga) cold"
    unfolding c2_def using stands_elsewheres [OF ok A(1) cli_halves_elsewhere(1)] assms(6,7) by blast
  show "only c2 (s_id s) {ra, rb}"
    unfolding c2_def
    by (rule only_commands [OF ok]) (use only cli_halves_only(1) [of rb "{ra}"] in \<open>auto simp: only_def insert_commute\<close>)
  show "controller_ok c2" unfolding c2_def by (rule commands_ok [OF ok])
qed

lemma pair_proved:
  fixes c :: controller and sid :: ReplicaSetId and ra rb :: ReplicaId and wa wb :: WorkerId and ba bb :: WorkerBootId
  assumes "controller_ok c" and "stands c sid ra wa ba cold" and "stands c sid rb wb bb cold" and "only c sid {ra, rb}"
    and "ra \<noteq> rb"
  defines "c' \<equiv> snd (warm_ready rb wb bb (snd (warm_ready ra wa ba c)))"
  shows "controller_ok c'" and "stands c' sid ra wa ba ready" and "stands c' sid rb wb bb ready" and "only c' sid {ra, rb}"
proof -
  let ?c1 = "run_commands (proving ra wa ba c) c"
  have c': "c' = run_commands (proving rb wb bb ?c1) ?c1" by (simp add: c'_def warm_ready_run)
  note ok = commands_ok [OF assms(1), of "proving ra wa ba c"]
  show "controller_ok c'" unfolding c' by (rule commands_ok [OF ok])
  show "stands c' sid rb wb bb ready"
    unfolding c' using stands_elsewheres [OF assms(1,3) cli_halves_elsewhere(2)] assms(5) by (intro proving_ready [OF ok]) auto
  show "stands c' sid ra wa ba ready"
    unfolding c' using stands_elsewheres [OF ok proving_ready [OF assms(1,2)] cli_halves_elsewhere(2)] assms(5) by blast
  show "only c' sid {ra, rb}"
    unfolding c' by (intro only_commands [OF ok] only_commands [OF assms(1,4)] cli_halves_only(2))
qed

text \<open>
  The demo of the tool fails over: \<open>rf_cli demo\<close>, started on a new controller, exits with 0 and
  prints that A serves and B does not while A's worker lives, that B took over when it died, and
  the size of the snapshot, if the workers and the replicas it draws differ and no placement id
  and no generation it needs is null.
\<close>

theorem demo_fails_over:
  assumes "nth_id 17 g \<noteq> (nth_id 21 g :: WorkerId)" and "nth_id 15 g \<noteq> (nth_id 16 g :: ReplicaId)"
    and "nth_id 20 g \<noteq> (null_id :: PlacementId)" and "nth_id 24 g \<noteq> (null_id :: PlacementId)"
    and "nth_id 0 cg \<noteq> (null_id :: ReplicaGeneration)" and "nth_id 2 cg \<noteq> (null_id :: ReplicaGeneration)"
  shows "\<exists>s. cli_main writable [''demo''] (cli_start cg g files) = Inr (0, s) \<and>
    cl_out s = ''A serving as PRIMARY'' @ [newline] @ ''B standby (correct, not serving)'' @ [newline] @
      ''B failed over and serving as PRIMARY'' @ [newline] @
      ''snapshot bytes='' @ to_string_nat (length (make_snapshot (cl_ctrl s))) @ [newline]"
proof -
  let ?s = "cli_start cg g files"
  have s0: "cl_rng ?s = g" "cl_ctrl ?s = new_controller cg" "cl_out ?s = []" "cl_state_in ?s = []" by (simp_all add: cli_start_def)
  obtain st r where st: "fresh_for 2 cli_compat st" "s_id st = nth_id 0 g"
    "fresh_set 2 ?s = ((nth_id 0 g, r), ?s\<lparr>cl_rng := later 9 g, cl_ctrl := snd (create_replica_set st (nth_id 8 g) (new_controller cg))\<rparr>)"
    by (rule fresh_set_new [of ?s]) (simp add: s0)
  have d: "nth_id 3 (later 17 g) \<noteq> (null_id :: PlacementId)" "nth_id 3 (later 21 g) \<noteq> (null_id :: PlacementId)"
    "nth_id 0 (later 17 g) \<noteq> (nth_id 0 (later 21 g) :: WorkerId)" using assms(1,3,4) by simp_all
  note cold = demo_pair_cold [OF st(1) d(1,2) assms(5,6,2) d(3), where e = "nth_id 8 g", unfolded st(2)]
  note pair = pair_proved [OF cold assms(2)]
  note over = takeover(1,2) [OF pair assms(2) d(3)] takeover(3,4) [OF pair assms(2) d(3), where why = "''demo: worker A died''"]
  have "cli_main writable [''demo''] ?s = cmd_demo ?s"
    by (simp add: cli_main_def load_state_def s0 run_cli_def)
  then show ?thesis
    using over by (simp add: cmd_demo_def st(3) draw_later setup_replica_run demo_scenario_def Let_def say_line_def say_def s0)
qed

theorem demo_fails_over_witness:
  "\<exists>s. cli_main (\<lambda>_. True) [''demo''] (cli_start counting counting (\<lambda>_. None)) = Inr (0, s) \<and>
     take 20 (cl_out s) = ''A serving as PRIMARY''"
  using demo_fails_over [of counting counting "\<lambda>_. True" "\<lambda>_. None"] by (fastforce simp: null_id_def)

end
