(* ===== verification/Benchmarks.thy ===== *)
theory Benchmarks
  imports Examples
begin

text \<open>
  The benchmarks of \<open>benchmarks/rf_bench.cpp\<close> without their timings, and the program that tries the
  installed library. The threads of the first benchmark run in any interleaving. The third one is
  shown not to do what its report says: it allocates and starts only the replicas whose id is
  greater than every id before.
\<close>

section \<open>Transitions by several threads\<close>

definition bench_set :: "i32 \<Rightarrow> engine \<Rightarrow> ReplicaSetState \<times> engine" where
  "bench_set = make_set"

text \<open>The set before the threads start, and what a thread does.\<close>

definition lifecycle_start :: "ReplicaSetState \<Rightarrow> CoordinatorEpoch \<Rightarrow> engine \<Rightarrow> controller" where
  "lifecycle_start st epoch ctrl_engine =
     (let c = snd (create_replica_set st epoch (new_controller ctrl_engine));
          c = snd (transition_replica_set (s_id st) ReplicaSetLifecycle.PROVISIONING c)
      in snd (transition_replica_set (s_id st) ReplicaSetLifecycle.AVAILABLE c))"

definition lifecycle_thread :: "ReplicaSetId \<Rightarrow> nat \<Rightarrow> command list" where
  "lifecycle_thread sid iters = concat (replicate iters
     [TransitionReplicaSet sid ReplicaSetLifecycle.DEGRADED, TransitionReplicaSet sid ReplicaSetLifecycle.AVAILABLE])"

text \<open>An order in which threads run their steps.\<close>

inductive interleaving :: "'a list list \<Rightarrow> 'a list \<Rightarrow> bool" where
  finished: "(\<forall>t \<in> set ts. t = []) \<Longrightarrow> interleaving ts []"
| advance: "i < length ts \<Longrightarrow> ts ! i = x # xs \<Longrightarrow> interleaving (ts[i := xs]) ys \<Longrightarrow> interleaving ts (x # ys)"

inductive_cases interleaving_Cons: "interleaving ts (x # ys)"

definition run_lifecycle :: "nat \<Rightarrow> nat \<Rightarrow> engine \<Rightarrow> engine \<Rightarrow> controller \<Rightarrow> bool" where
  "run_lifecycle threads iters g ctrl_engine c' \<longleftrightarrow>
     (let (st, g) = bench_set 8 g; (epoch, g) = random_id g; c = lifecycle_start st epoch ctrl_engine
      in \<exists>order. interleaving (replicate threads (lifecycle_thread (s_id st) iters)) order \<and> c' = run_commands order c)"

definition lifecycle_ops :: "nat \<Rightarrow> nat \<Rightarrow> nat" where
  "lifecycle_ops threads iters = threads * (iters * 2)"

section \<open>Placements\<close>

fun bench_hosts :: "nat list \<Rightarrow> engine \<Rightarrow> PlacementHost list \<times> engine" where
  "bench_hosts [] g = ([], g)"
| "bench_hosts (i # is) g =
     (let (w, g) = random_id g; (b, g) = random_id g; (n, g) = random_id g;
          h = PlacementHost_default\<lparr>ph_worker_id := w, ph_boot_id := b, ph_node_id := n,
            ph_host := ''host-'' @ to_string_nat i, ph_numa := ''numa-0'',
            ph_device := \<lparr>dv_kind = AcceleratorKind.CUDA, dv_device_id = ''cuda:'' @ to_string_nat i,
              dv_compute = \<lparr>cc_major = 12, cc_minor = 0\<rparr>, dv_memory_bytes = gib 32\<rparr>,
            ph_inventory := ResourceInventory_default\<lparr>ri_total_memory_bytes := gib 64, ri_free_memory_bytes := gib 64,
              ri_accelerator_count := 1, ri_backends := [\<lparr>bc_kind = BackendKind.TRITON, bc_name = ''triton-3'',
                bc_compute = \<lparr>cc_major = 12, cc_minor = 0\<rparr>, bc_numeric = NumericMode.FP16\<rparr>]\<rparr>,
            ph_failure_domain_labels := [''rack-'' @ to_string_nat (i mod 2)]\<rparr>;
          (hs, g) = bench_hosts is g
      in (h # hs, g))"

text \<open>The placements counted: placing reads nothing that another thread writes.\<close>

definition run_placement :: "nat \<Rightarrow> nat \<Rightarrow> engine \<Rightarrow> nat" where
  "run_placement threads iters g =
     (let (st, g) = bench_set 2 g; (hosts, g) = bench_hosts [0..<16] g
      in sum_list (map (\<lambda>_. sum_list (map (\<lambda>_. if pd_placed (place st hosts []) then 1 else 0) [0..<iters])) [0..<threads]))"

section \<open>A pool of replicas\<close>

definition pool_device :: "nat \<Rightarrow> DeviceCapability" where
  "pool_device i = \<lparr>dv_kind = AcceleratorKind.CUDA, dv_device_id = ''cuda:'' @ to_string_nat i,
     dv_compute = \<lparr>cc_major = 12, cc_minor = 0\<rparr>, dv_memory_bytes = gib 32\<rparr>"

definition pool_worker :: "WorkerId \<Rightarrow> WorkerBootId \<Rightarrow> NodeId \<Rightarrow> WorkerRegistration" where
  "pool_worker w b n = WorkerRegistration_default\<lparr>w_worker_id := w, w_boot_id := b, w_node_id := n, w_protocol_version := 1,
     w_inventory := \<lparr>ri_total_memory_bytes = gib 1024, ri_free_memory_bytes = gib 1024, ri_accelerator_count = 16,
       ri_devices = map pool_device [0..<16],
       ri_backends = [\<lparr>bc_kind = BackendKind.TRITON, bc_name = ''triton-3'',
         bc_compute = \<lparr>cc_major = 12, cc_minor = 0\<rparr>, bc_numeric = NumericMode.FP16\<rparr>]\<rparr>\<rparr>"

text \<open>\<open>list_replicas(set).back()\<close>, which has no value when the list is empty.\<close>

definition last_listed :: "ReplicaSetId \<Rightarrow> controller \<Rightarrow> ReplicaId option" where
  "last_listed sid c = (case list_replicas sid c of [] \<Rightarrow> None | rid # rids \<Rightarrow> Some (last (rid # rids)))"

definition pool_step :: "ReplicaSetId \<Rightarrow> WorkerId \<Rightarrow> ReplicaCompatibility \<Rightarrow> nat \<Rightarrow> controller \<Rightarrow> engine \<Rightarrow> (controller \<times> engine) option" where
  "pool_step sid w cm i c g =
     (let (rid, g) = random_id g;
          c = snd (provision_replica rid sid w cm (pool_device (i mod 16)) (8 * 1024 * 1024) 0 0 c);
          (pid, g) = random_id g
      in case last_listed sid c of None \<Rightarrow> None
         | Some r \<Rightarrow>
             (let c = snd (set_allocating r pid 0 c)
              in case last_listed sid c of None \<Rightarrow> None
                 | Some r \<Rightarrow> Some (snd (set_starting r 0 0 c), g)))"

fun pool_steps :: "ReplicaSetId \<Rightarrow> WorkerId \<Rightarrow> ReplicaCompatibility \<Rightarrow> nat list \<Rightarrow> controller \<Rightarrow> engine \<Rightarrow> (controller \<times> engine) option" where
  "pool_steps sid w cm [] c g = Some (c, g)"
| "pool_steps sid w cm (i # is) c g =
     (case pool_step sid w cm i c g of None \<Rightarrow> None | Some (c, g) \<Rightarrow> pool_steps sid w cm is c g)"

definition run_pool :: "nat \<Rightarrow> engine \<Rightarrow> engine \<Rightarrow> (controller \<times> engine) option" where
  "run_pool n g ctrl_engine =
     (let (st, g) = bench_set (of_nat n) g; (epoch, g) = random_id g;
          c = snd (create_replica_set st epoch (new_controller ctrl_engine));
          (w, g) = random_id g; (b, g) = random_id g; (nd, g) = random_id g;
          c = snd (register_worker (pool_worker w b nd) 0 0 c)
      in pool_steps (s_id st) w (example_compat (find_set (s_id st) c)) [0..<n] c g)"

section \<open>The consumer of the installed library\<close>

definition consumer_main :: "engine \<Rightarrow> int \<times> string" where
  "consumer_main ctrl_engine =
     (let c = new_controller ctrl_engine
      in (0, ''consumer: Replica Fabric linked; ctrl empty='' @ one_zero (controller_empty c) @ [newline] @
          ''consumer: ReplicaId example='' @ id_str (null_id :: ReplicaId) @ [newline]))"

section \<open>What the benchmarks do\<close>

lemma interleaving_steps:
  assumes "interleaving ts ys"
  shows "set ys = (\<Union>t \<in> set ts. set t) \<and> (ys \<noteq> [] \<longrightarrow> (\<exists>t \<in> set ts. t \<noteq> [] \<and> last ys = last t))"
  using assms
proof induction
  case (finished ts)
  then show ?case by simp
next
  case (advance i ts x xs ys)
  let ?ts = "ts[i := xs]"
  have ts: "set ts = insert (x # xs) (set (take i ts) \<union> set (drop (Suc i) ts))"
    "set ?ts = insert xs (set (take i ts) \<union> set (drop (Suc i) ts))"
    using advance(1,2) id_take_nth_drop [OF advance(1)] upd_conv_take_nth_drop [OF advance(1), of xs]
    by (metis Un_insert_right list.simps(15) set_append)+
  have "\<exists>t \<in> set ts. t \<noteq> [] \<and> last (x # ys) = last t"
  proof (cases "ys = []")
    case True
    then have "xs = []" using advance.IH ts(2) by auto
    then show ?thesis using True ts(1) by auto
  next
    case False
    then obtain t where "t \<in> set ?ts" "t \<noteq> []" "last ys = last t" using advance.IH by blast
    then show ?thesis using False ts by (cases "t = xs") auto
  qed
  then show ?case using advance.IH ts by auto
qed

lemma thread_steps:
  "set (lifecycle_thread sid iters) \<subseteq> {TransitionReplicaSet sid ReplicaSetLifecycle.DEGRADED, TransitionReplicaSet sid ReplicaSetLifecycle.AVAILABLE}"
  "lifecycle_thread sid iters \<noteq> [] \<Longrightarrow> last (lifecycle_thread sid iters) = TransitionReplicaSet sid ReplicaSetLifecycle.AVAILABLE"
proof -
  show "set (lifecycle_thread sid iters) \<subseteq> {TransitionReplicaSet sid ReplicaSetLifecycle.DEGRADED, TransitionReplicaSet sid ReplicaSetLifecycle.AVAILABLE}"
    by (auto simp: lifecycle_thread_def)
  show "last (lifecycle_thread sid iters) = TransitionReplicaSet sid ReplicaSetLifecycle.AVAILABLE" if "lifecycle_thread sid iters \<noteq> []"
    using that by (induction iters) (auto simp: lifecycle_thread_def)
qed

text \<open>A transition between the two states of an active set leads where it says, or the set is there.\<close>

lemma toggle:
  assumes "om_find (ct_sets c) sid = Some (s\<lparr>s_lifecycle := l\<rparr>)"
    and "l \<in> {ReplicaSetLifecycle.AVAILABLE, ReplicaSetLifecycle.DEGRADED}" and "l' \<in> {ReplicaSetLifecycle.AVAILABLE, ReplicaSetLifecycle.DEGRADED}"
  shows "om_find (ct_sets (snd (run_command (TransitionReplicaSet sid l') c))) sid = Some (s\<lparr>s_lifecycle := l'\<rparr>)"
  using assms by (auto simp: transition_replica_set_def set_can_transition_def)

lemma toggles:
  assumes "om_find (ct_sets c) sid = Some (s\<lparr>s_lifecycle := l\<rparr>)" and "l \<in> {ReplicaSetLifecycle.AVAILABLE, ReplicaSetLifecycle.DEGRADED}"
    and "set cmds \<subseteq> {TransitionReplicaSet sid ReplicaSetLifecycle.DEGRADED, TransitionReplicaSet sid ReplicaSetLifecycle.AVAILABLE}"
    and "last (TransitionReplicaSet sid l # cmds) = TransitionReplicaSet sid l'"
  shows "om_find (ct_sets (run_commands cmds c)) sid = Some (s\<lparr>s_lifecycle := l'\<rparr>)"
  using assms
proof (induction cmds arbitrary: c l)
  case (Cons cmd cmds)
  then obtain l1 where l1: "cmd = TransitionReplicaSet sid l1" "l1 \<in> {ReplicaSetLifecycle.AVAILABLE, ReplicaSetLifecycle.DEGRADED}"
    by auto
  have "om_find (ct_sets (snd (run_command cmd c))) sid = Some (s\<lparr>s_lifecycle := l1\<rparr>)"
    unfolding l1(1) by (rule toggle [OF Cons.prems(1,2) l1(2)])
  from Cons.IH [OF this l1(2)] show ?case using Cons.prems(3,4) l1(1) by auto
qed simp

text \<open>
  The threads of the first benchmark leave the set available: in whatever order their
  transitions are run, some of them refused, the set is at the end what it was created as, in
  lifecycle \<open>AVAILABLE\<close>.
\<close>

theorem lifecycle_bench_available:
  assumes "run_lifecycle threads iters g cg c'"
  shows "find_set (nth_id 0 g) c' = Some ((fst (bench_set 8 g))\<lparr>s_lifecycle := ReplicaSetLifecycle.AVAILABLE\<rparr>)"
proof -
  obtain s where s: "bench_set 8 g = (s, later 8 g)" "fresh_for 8 example_compat s"
    using make_set_fresh [of 8 g] by (auto simp: bench_set_def)
  have sid: "s_id s = nth_id 0 g" using s(1) by (auto simp: bench_set_def make_set_def random_id_later Let_def)
  let ?c = "lifecycle_start s (nth_id 8 g) cg"
  let ?thread = "lifecycle_thread (s_id s) iters"
  obtain order where o: "interleaving (replicate threads ?thread) order" "c' = run_commands order ?c"
    using assms by (auto simp: run_lifecycle_def s(1) random_id_later Let_def)
  have "om_find (ct_sets ?c) (s_id s) = Some (s\<lparr>s_lifecycle := ReplicaSetLifecycle.AVAILABLE\<rparr>)"
    using created_set(1) [of s "nth_id 8 g" cg] s(2)
    by (simp add: lifecycle_start_def Let_def transition_replica_set_def set_can_transition_def fresh_for_def)
  moreover have "set order \<subseteq> {TransitionReplicaSet (s_id s) ReplicaSetLifecycle.DEGRADED, TransitionReplicaSet (s_id s) ReplicaSetLifecycle.AVAILABLE}"
    using interleaving_steps [OF o(1)] thread_steps(1) [of "s_id s" iters] by auto
  moreover have "last (TransitionReplicaSet (s_id s) ReplicaSetLifecycle.AVAILABLE # order) = TransitionReplicaSet (s_id s) ReplicaSetLifecycle.AVAILABLE"
    using interleaving_steps [OF o(1)] thread_steps(2) [of "s_id s" iters] by auto
  ultimately show ?thesis
    unfolding o(2) find_set_def sid [symmetric] s(1) fst_conv by (intro toggles) simp_all
qed

text \<open>
  The number it reports is that of the attempts. Two threads that run their steps in turn have two
  of their four transitions refused.
\<close>

lemma half_refused:
  "interleaving (replicate 2 (lifecycle_thread sid 1))
     [TransitionReplicaSet sid ReplicaSetLifecycle.DEGRADED, TransitionReplicaSet sid ReplicaSetLifecycle.DEGRADED,
      TransitionReplicaSet sid ReplicaSetLifecycle.AVAILABLE, TransitionReplicaSet sid ReplicaSetLifecycle.AVAILABLE] \<and>
   (om_find (ct_sets c) sid = Some s \<and> s_lifecycle s = ReplicaSetLifecycle.DEGRADED \<longrightarrow>
      \<not> is_ok (fst (transition_replica_set sid ReplicaSetLifecycle.DEGRADED c)))"
proof -
  let ?d = "TransitionReplicaSet sid ReplicaSetLifecycle.DEGRADED" and ?a = "TransitionReplicaSet sid ReplicaSetLifecycle.AVAILABLE"
  have "interleaving [[?d, ?a], [?d, ?a]] [?d, ?d, ?a, ?a]"
    by (rule advance [of 0], simp, simp, rule advance [of 1], simp, simp, rule advance [of 0], simp, simp,
        rule advance [of 1], simp, simp, rule finished, simp)
  then show ?thesis
    by (simp add: lifecycle_thread_def numeral_2_eq_2 transition_replica_set_def set_can_transition_def)
qed

lemma bench_hosts_admissible:
  assumes "s_backend s = BackendKind.TRITON" and "s_min_compute s = \<lparr>cc_major = 8, cc_minor = 0\<rparr>"
    and "s_memory_requirement_bytes s = 16 * 1024 * 1024" and "s_accelerator_requirement s = 1"
  shows "list_all (admissible s) (fst (bench_hosts is g)) \<and> length (fst (bench_hosts is g)) = length is"
  using assms
  by (induction "is" arbitrary: g)
     (simp_all add: random_id_later Let_def case_prod_unfold PlacementHost_default_def ResourceInventory_default_def
       admissible_def compute_le_def compute_less_def gib_def)

text \<open>
  The second benchmark places every time: what it counts is the number of its iterations.
\<close>

theorem placement_bench_places: "run_placement threads iters g = threads * iters"
proof -
  obtain s where s: "bench_set 2 g = (s, later 8 g)"
    using make_set_fresh [of 2 g] by (auto simp: bench_set_def)
  have s': "s_backend s = BackendKind.TRITON" "s_min_compute s = \<lparr>cc_major = 8, cc_minor = 0\<rparr>"
    "s_memory_requirement_bytes s = 16 * 1024 * 1024" "s_accelerator_requirement s = 1"
    using s by (auto simp: bench_set_def make_set_def random_id_later Let_def)
  obtain hs g' where hs: "bench_hosts [0..<16] (later 8 g) = (hs, g')" by fastforce
  have "list_all (admissible s) hs \<and> length hs = 16"
    using bench_hosts_admissible [OF s', of "[0..<16]" "later 8 g"] by (simp add: hs)
  then have "pd_placed (place s hs [])"
    unfolding placed_iff by (cases hs) auto
  then show ?thesis
    by (simp add: run_placement_def s hs sum_list_triv)
qed

section \<open>What the pool starts\<close>

text \<open>The elements of a list that are greater than all before them.\<close>

fun records :: "'a::linorder list \<Rightarrow> 'a list" where
  "records [] = []"
| "records (x # xs) = x # records (filter (\<lambda>y. x < y) xs)"

lemma records_snoc: "records (xs @ [x]) = records xs @ (if \<forall>y \<in> set xs. y < x then [x] else [])"
  by (induction xs rule: records.induct) (auto dest: less_trans)

lemma records_subset: "set (records xs) \<subseteq> set xs"
  by (induction xs rule: records.induct) auto

lemma Max_in_records: "xs \<noteq> [] \<Longrightarrow> Max (set xs) \<in> set (records xs)"
proof (induction xs rule: rev_induct)
  case (snoc x xs)
  show ?case
  proof (cases "\<forall>y \<in> set xs. y < x")
    case True
    then have "Max (set (xs @ [x])) = x" by (intro Max_eqI) (auto intro: less_imp_le)
    then show ?thesis using True by (simp add: records_snoc)
  next
    case False
    then obtain y where y: "y \<in> set xs" "x \<le> y" by (auto simp: not_less)
    moreover from y(1) have "Max (set xs) \<in> set xs" by (intro Max_in) auto
    ultimately have "Max (set (xs @ [x])) = Max (set xs)"
      by (intro Max_eqI) (auto intro: order.trans [OF _ Max_ge])
    moreover have "Max (set xs) \<in> set (records xs)" using y(1) by (intro snoc.IH) auto
    ultimately show ?thesis by (simp only: records_snoc set_append UnI1)
  qed
qed simp

text \<open>The replicas of the set after the ids \<open>ids\<close> were drawn: those that were greatest are started.\<close>

definition pooled :: "ReplicaSetState \<Rightarrow> WorkerId \<Rightarrow> controller \<Rightarrow> ReplicaId list \<Rightarrow> bool" where
  "pooled s w c ids \<longleftrightarrow> controller_ok c \<and> om_find (ct_workers c) w \<noteq> None \<and>
     (\<exists>l. om_find (ct_sets c) (s_id s) = Some (s\<lparr>s_lifecycle := l\<rparr>) \<and>
        l \<in> {ReplicaSetLifecycle.CREATED, ReplicaSetLifecycle.PROVISIONING}) \<and>
     (\<forall>rid. (\<exists>r. om_find (ct_replicas c) rid = Some r \<and> r_set_id r = s_id s) \<longleftrightarrow> rid \<in> set ids) \<and>
     (\<forall>rid r. om_find (ct_replicas c) rid = Some r \<longrightarrow> rid \<in> set ids \<longrightarrow>
        r_lifecycle r = (if rid \<in> set (records ids) then ReplicaLifecycle.STARTING else ReplicaLifecycle.DECLARED))"

lemma list_replicas_set:
  assumes "controller_ok c"
  shows "set (list_replicas sid c) = {rid. \<exists>r. om_find (ct_replicas c) rid = Some r \<and> r_set_id r = sid}"
    and "sorted (list_replicas sid c)"
proof -
  have m: "om_sorted (ct_replicas c)" using assms by simp
  show "set (list_replicas sid c) = {rid. \<exists>r. om_find (ct_replicas c) rid = Some r \<and> r_set_id r = sid}"
    using om_find_in [OF m] by (force simp: list_replicas_def)
qed (simp add: list_replicas_def)

lemma last_listed_Max:
  assumes "controller_ok c" and "\<forall>rid. (\<exists>r. om_find (ct_replicas c) rid = Some r \<and> r_set_id r = sid) \<longleftrightarrow> rid \<in> set ids" and "ids \<noteq> []"
  shows "last_listed sid c = Some (Max (set ids))"
proof -
  have l: "set (list_replicas sid c) = set ids" "sorted (list_replicas sid c)"
    using list_replicas_set [OF assms(1)] assms(2) by auto
  then have ne: "list_replicas sid c \<noteq> []" using assms(3) by auto
  have "Max (set (list_replicas sid c)) = last (list_replicas sid c)"
    using ne l(2) by (cases "list_replicas sid c" rule: rev_cases) (auto simp: sorted_append intro!: Max_eqI)
  then show ?thesis using ne l(1) by (auto simp: last_listed_def split: list.split)
qed

text \<open>Allocating and starting the greatest replica starts it if it was declared, and else changes nothing.\<close>

lemma allocate_start_result:
  assumes "om_find (ct_replicas c) m = Some r" and "r_lifecycle r \<in> {ReplicaLifecycle.DECLARED, ReplicaLifecycle.STARTING}"
  shows "\<exists>r'. om_find (ct_replicas (allocate_start m pid c)) m = Some r' \<and> r_set_id r' = r_set_id r \<and>
      r_lifecycle r' = ReplicaLifecycle.STARTING"
    and "\<And>rid. rid \<noteq> m \<Longrightarrow> om_find (ct_replicas (allocate_start m pid c)) rid = om_find (ct_replicas c) rid"
    and "ct_sets (allocate_start m pid c) = ct_sets c" and "ct_workers (allocate_start m pid c) = ct_workers c"
  using assms
  by (auto simp: allocate_start_def set_allocating_def set_starting_def can_transition_def Let_def split: option.splits)

lemma allocate_start_ok: "controller_ok c \<Longrightarrow> controller_ok (allocate_start m pid c)"
  using commands_ok [of c "[SetAllocating m pid 0, SetStarting m 0 0]"] by (simp add: allocate_start_def)

text \<open>What provisioning one more leaves.\<close>

lemma pool_provisioned:
  fixes s :: ReplicaSetState and rid :: ReplicaId and w :: WorkerId and cm :: ReplicaCompatibility and dv :: DeviceCapability
    and cap :: u64 and c :: controller and ids :: "ReplicaId list"
  assumes "pooled s w c ids" and "length ids < unat (s_max_replicas s)"
  defines "c1 \<equiv> snd (provision_replica rid (s_id s) w cm dv cap 0 0 c)"
  shows "controller_ok c1" and "om_find (ct_workers c1) w \<noteq> None"
    and "\<exists>r. om_find (ct_replicas c1) rid = Some r \<and> r_set_id r = s_id s \<and> r_lifecycle r = ReplicaLifecycle.DECLARED"
    and "\<And>x. x \<noteq> rid \<Longrightarrow> om_find (ct_replicas c1) x = om_find (ct_replicas c) x"
    and "om_find (ct_sets c1) (s_id s) = Some (s\<lparr>s_lifecycle := ReplicaSetLifecycle.PROVISIONING\<rparr>)"
proof -
  obtain l reg where c: "controller_ok c" "om_find (ct_workers c) w = Some reg"
    "om_find (ct_sets c) (s_id s) = Some (s\<lparr>s_lifecycle := l\<rparr>)" "l \<in> {ReplicaSetLifecycle.CREATED, ReplicaSetLifecycle.PROVISIONING}"
    "\<And>rid. (\<exists>r. om_find (ct_replicas c) rid = Some r \<and> r_set_id r = s_id s) \<longleftrightarrow> rid \<in> set ids"
    using assms(1) unfolding pooled_def by blast
  have "only c (s_id s) (set ids)" using c(5) by (auto simp: only_def)
  moreover have "card (set ids) \<le> length ids" by (rule card_length)
  moreover have "unat (s_max_replicas s) < 2 ^ 32" using unsigned_less [of "s_max_replicas s", where 'a = nat] by simp
  ultimately have "unat (replica_count (s_id s) c) < unat (s_max_replicas s)"
    using only_count [OF c(1), of "s_id s" "set ids"] assms(2) by simp
  then have "is_ok (fst (provision_replica rid (s_id s) w cm dv cap 0 0 c))"
    using c(4) by (intro provision_is_accepted [OF c(3) _ c(2)]) (auto simp: open_set_def word_less_nat_alt)
  then obtain gen hgen h where c1: "c1 = put_replica rid (new_replica rid (s_id s) w (opened_set (s\<lparr>s_lifecycle := l\<rparr>)) reg cm
      dv cap 0 0 (ct_epoch c) gen hgen) ((put_set (s_id s) (opened_set (s\<lparr>s_lifecycle := l\<rparr>)) c)\<lparr>ct_rng := h\<rparr>)"
    unfolding c1_def using c(2,3) by (rule_tac provision_result [of rid "s_id s" w cm dv cap 0 0 c]) auto
  show "controller_ok c1" using command_ok [OF c(1), of "ProvisionReplica rid (s_id s) w cm dv cap 0 0"] by (simp add: c1_def)
  show "om_find (ct_workers c1) w \<noteq> None" and "\<And>x. x \<noteq> rid \<Longrightarrow> om_find (ct_replicas c1) x = om_find (ct_replicas c) x"
    using c(2) by (simp_all add: c1)
  show "\<exists>r. om_find (ct_replicas c1) rid = Some r \<and> r_set_id r = s_id s \<and> r_lifecycle r = ReplicaLifecycle.DECLARED"
    by (simp add: c1 new_replica_def ReplicaState_default_def)
  show "om_find (ct_sets c1) (s_id s) = Some (s\<lparr>s_lifecycle := ReplicaSetLifecycle.PROVISIONING\<rparr>)"
    using c(4) by (auto simp: c1 opened_set_def)
qed

lemma pool_step_runs:
  assumes "random_id g = (rid, g1)" and "random_id g1 = (pid :: PlacementId, g2)"
    and "c1 = snd (provision_replica rid sid w cm (pool_device (i mod 16)) (8 * 1024 * 1024) 0 0 c)"
    and "controller_ok c1" and "\<forall>x. (\<exists>r. om_find (ct_replicas c1) x = Some r \<and> r_set_id r = sid) \<longleftrightarrow> x \<in> set ids"
    and "ids \<noteq> []"
  shows "pool_step sid w cm i c g = Some (allocate_start (Max (set ids)) pid c1, g2)"
proof -
  let ?m = "Max (set ids)"
  let ?c2 = "snd (set_allocating ?m pid 0 c1)"
  have "controller_ok ?c2" using command_ok [OF assms(4), of "SetAllocating ?m pid 0"] by simp
  moreover have "(\<exists>r. om_find (ct_replicas ?c2) x = Some r \<and> r_set_id r = sid) \<longleftrightarrow> (\<exists>r. om_find (ct_replicas c1) x = Some r \<and> r_set_id r = sid)" for x
    by (auto simp: set_allocating_def Let_def split: option.splits if_splits)
  ultimately have "last_listed sid ?c2 = Some ?m" using assms(5,6) by (intro last_listed_Max) simp_all
  moreover have "last_listed sid c1 = Some ?m" using assms(4-6) by (rule last_listed_Max)
  ultimately show ?thesis
    unfolding pool_step_def assms(1,2) Let_def split_conv assms(3) [symmetric] by (simp add: allocate_start_def)
qed

lemma pooled_step:
  assumes "pooled s w c ids" and "rid \<notin> set ids" and "length ids < unat (s_max_replicas s)"
    and "random_id g = (rid, g1)" and "random_id g1 = (pid :: PlacementId, g2)"
  obtains c' where "pool_step (s_id s) w cm i c g = Some (c', g2)" "pooled s w c' (ids @ [rid])"
proof -
  let ?ids = "ids @ [rid]" and ?m = "Max (set (ids @ [rid]))"
  define c1 where "c1 = snd (provision_replica rid (s_id s) w cm (pool_device (i mod 16)) (8 * 1024 * 1024) 0 0 c)"
  note c1 = pool_provisioned [OF assms(1,3), where rid = rid and cm = cm and dv = "pool_device (i mod 16)" and cap = "8 * 1024 * 1024",
    folded c1_def]
  have c: "(\<exists>r. om_find (ct_replicas c) x = Some r \<and> r_set_id r = s_id s) \<longleftrightarrow> x \<in> set ids"
    "om_find (ct_replicas c) x = Some r \<Longrightarrow> x \<in> set ids \<Longrightarrow>
        r_lifecycle r = (if x \<in> set (records ids) then ReplicaLifecycle.STARTING else ReplicaLifecycle.DECLARED)" for x r
    using assms(1) unfolding pooled_def by blast+
  have members: "(\<exists>r. om_find (ct_replicas c1) x = Some r \<and> r_set_id r = s_id s) \<longleftrightarrow> x \<in> set ?ids" for x
    using c(1) [of x] c1(3,4) by (cases "x = rid") auto
  have stage: "r_lifecycle r = (if x \<in> set (records ids) then ReplicaLifecycle.STARTING else ReplicaLifecycle.DECLARED)"
    if "om_find (ct_replicas c1) x = Some r" "x \<in> set ?ids" for x r
  proof (cases "x = rid")
    case True
    then show ?thesis using that c1(3) assms(2) records_subset [of ids] by auto
  next
    case False
    then show ?thesis using that c1(4) c(2) by auto
  qed
  have "?m \<in> set ?ids" by (intro Max_in) auto
  then obtain r where r: "om_find (ct_replicas c1) ?m = Some r" "r_set_id r = s_id s" using members by blast
  have "r_lifecycle r \<in> {ReplicaLifecycle.DECLARED, ReplicaLifecycle.STARTING}" using stage [OF r(1) \<open>?m \<in> set ?ids\<close>] by auto
  note c2 = allocate_start_result [OF r(1) this, where pid = pid]
  have records: "set (records ?ids) = insert ?m (set (records ids))"
  proof (cases "\<forall>y \<in> set ids. y < rid")
    case True
    then have "?m = rid" by (intro Max_eqI) (auto intro: less_imp_le)
    then show ?thesis using True by (simp add: records_snoc)
  next
    case False
    then show ?thesis using Max_in_records [of ?ids] by (auto simp: records_snoc)
  qed
  have "pooled s w (allocate_start ?m pid c1) ?ids"
    unfolding pooled_def
  proof (intro conjI allI impI)
    show "controller_ok (allocate_start ?m pid c1)" by (rule allocate_start_ok [OF c1(1)])
    show "om_find (ct_workers (allocate_start ?m pid c1)) w \<noteq> None" unfolding c2(4) by (rule c1(2))
    show "\<exists>l. om_find (ct_sets (allocate_start ?m pid c1)) (s_id s) = Some (s\<lparr>s_lifecycle := l\<rparr>) \<and>
        l \<in> {ReplicaSetLifecycle.CREATED, ReplicaSetLifecycle.PROVISIONING}"
      unfolding c2(3) c1(5) by blast
    show "(\<exists>r. om_find (ct_replicas (allocate_start ?m pid c1)) x = Some r \<and> r_set_id r = s_id s) \<longleftrightarrow> x \<in> set ?ids" for x
      using members [of x] c2(1) c2(2) [of x] r by (cases "x = ?m") auto
    show "r_lifecycle r' = (if x \<in> set (records ?ids) then ReplicaLifecycle.STARTING else ReplicaLifecycle.DECLARED)"
      if "om_find (ct_replicas (allocate_start ?m pid c1)) x = Some r'" "x \<in> set ?ids" for x r'
      unfolding records using that c2(1) c2(2) [of x] stage [of x r'] by (cases "x = ?m") auto
  qed
  then show thesis
    using that pool_step_runs [OF assms(4,5) c1_def c1(1), of ?ids] members by blast
qed

lemma pooled_steps:
  assumes "pooled s w c ids" and "distinct (ids @ map (\<lambda>j. nth_id (2 * j) g) [0..<length is])"
    and "length ids + length is \<le> unat (s_max_replicas s)"
  shows "\<exists>c' g'. pool_steps (s_id s) w cm is c g = Some (c', g') \<and> pooled s w c' (ids @ map (\<lambda>j. nth_id (2 * j) g) [0..<length is])"
  using assms
proof (induction "is" arbitrary: c g ids)
  case (Cons i "is")
  let ?rid = "nth_id 0 g :: ReplicaId"
  have drawn: "map (\<lambda>j. nth_id (2 * j) g) [0..<length (i # is)] = ?rid # map (\<lambda>j. nth_id (2 * j) (later 2 g)) [0..<length is]"
    by (simp add: upt_conv_Cons map_Suc_upt [symmetric] nth_id_later del: upt_Suc)
  have rid: "?rid \<notin> set ids" "length ids < unat (s_max_replicas s)" using Cons.prems(2,3) unfolding drawn by auto
  obtain c1 where c1: "pool_step (s_id s) w cm i c g = Some (c1, later 2 g)" "pooled s w c1 (ids @ [?rid])"
    by (rule pooled_step [OF Cons.prems(1) rid, of g "later (Suc 0) g" "nth_id (Suc 0) g" "later 2 g" cm i])
      (simp_all add: random_id_later)
  show ?case
    using Cons.IH [OF c1(2), of "later 2 g"] Cons.prems(2,3) unfolding drawn by (simp add: c1(1))
qed simp

definition pool_ids :: "nat \<Rightarrow> engine \<Rightarrow> ReplicaId list" where
  "pool_ids n g = map (\<lambda>j. nth_id (2 * j) (later 12 g)) [0..<n]"

text \<open>
  The pool benchmark does not start its replicas: of the \<open>n\<close> replicas it provisions, in the order
  their ids were drawn, only those whose id is greater than every id before come to \<open>STARTING\<close>; all
  others stay \<open>DECLARED\<close>. It takes the last replica listed for the one just provisioned, and the
  list is ordered by id.
\<close>

theorem pool_starts_records:
  assumes "0 < n" and "n < 2 ^ 32" and "distinct (pool_ids n g)"
  shows "\<exists>c g'. run_pool n g cg = Some (c, g') \<and>
    set (list_replicas (nth_id 0 g) c) = set (pool_ids n g) \<and>
    (\<forall>rid \<in> set (pool_ids n g). \<exists>r. find_replica rid c = Some r \<and>
       r_lifecycle r = (if rid \<in> set (records (pool_ids n g)) then ReplicaLifecycle.STARTING else ReplicaLifecycle.DECLARED))"
proof -
  obtain s where s: "bench_set (of_nat n) g = (s, later 8 g)" "fresh_for n example_compat s"
    using make_set_fresh [of n g] by (auto simp: bench_set_def)
  have sid: "s_id s = nth_id 0 g" using s(1) by (auto simp: bench_set_def make_set_def random_id_later Let_def)
  have max: "unat (s_max_replicas s) = n" and counts: "s_lifecycle s = ReplicaSetLifecycle.CREATED" "0 < s_min_healthy s"
      "s_min_healthy s \<le> s_desired_count s" "s_desired_count s \<le> s_max_replicas s"
    using s(2) assms(1,2) by (simp_all add: fresh_for_def unat_of_nat word_le_nat_alt)
  let ?fresh = "snd (create_replica_set s (nth_id 8 g) (new_controller cg))"
  let ?w = "pool_worker (nth_id 9 g) (nth_id 10 g) (nth_id 11 g)"
  let ?c = "snd (register_worker ?w 0 0 ?fresh)"
  note new = created_set [OF counts, where e = "nth_id 8 g" and g = cg]
  have w: "w_worker_id ?w = nth_id 9 g" by (simp add: pool_worker_def)
  have runs: "?fresh = snd (run_command (CreateReplicaSet s (nth_id 8 g)) (new_controller cg))"
    "?c = snd (run_command (RegisterWorker ?w 0 0) ?fresh)" by simp_all
  have ok0: "controller_ok ?fresh" unfolding runs(1) by (rule command_ok [OF new_controller_ok])
  have ok: "controller_ok ?c" unfolding runs(2) by (rule command_ok [OF ok0])
  from only_command [OF ok0 new(2), of "RegisterWorker ?w 0 0"] have "only ?c (s_id s) {}" by (simp add: provisions_iff)
  then have none: "om_find (ct_replicas ?c) rid = Some r \<Longrightarrow> r_set_id r \<noteq> s_id s" for rid r by (auto simp: only_def)
  have "s\<lparr>s_lifecycle := ReplicaSetLifecycle.CREATED\<rparr> = s" using counts(1) by (cases s) simp
  with ok none have start: "pooled s (nth_id 9 g) ?c []"
    unfolding pooled_def using registered(1,2) [of ?w 0 0 ?fresh] new(1) w by (auto intro!: exI [of _ ReplicaSetLifecycle.CREATED])
  obtain c' g' where run: "pool_steps (s_id s) (nth_id 9 g) (example_compat (find_set (s_id s) ?c)) [0..<n] ?c (later 12 g) = Some (c', g')"
    and c': "pooled s (nth_id 9 g) c' (pool_ids n g)"
    using pooled_steps [OF start, of "later 12 g" "[0..<n]"] assms(3) max by (fastforce simp: pool_ids_def)
  have "run_pool n g cg = Some (c', g')" using run by (simp add: run_pool_def s(1) random_id_later Let_def)
  moreover have "set (list_replicas (s_id s) c') = set (pool_ids n g)"
    using c' list_replicas_set(1) unfolding pooled_def by blast
  ultimately show ?thesis using c' unfolding sid [symmetric] pooled_def find_replica_def by blast
qed

text \<open>An engine that draws the id \<open>2:0\<close> for the first replica and \<open>1:0\<close> for the second.\<close>

definition descending :: engine where
  "descending = replicate 24 1 @- [2, 0, 1, 1, 1, 0] @- sconst 1"

lemma descending_ids: "pool_ids 2 descending = [MkId 2 0, MkId 1 0]"
proof -
  have "later 12 descending = [2, 0, 1, 1, 1, 0] @- sconst 1" by (simp add: later_def descending_def sdrop_shift)
  then show ?thesis by (simp add: pool_ids_def nth_id_def numeral_eq_Suc)
qed

theorem pool_starts_records_witness:
  "\<exists>c g'. run_pool 2 descending counting = Some (c, g') \<and>
     (\<exists>r. find_replica (MkId 1 0) c = Some r \<and> r_lifecycle r = ReplicaLifecycle.DECLARED)"
proof -
  have "\<not> (MkId 2 0 :: ReplicaId) < MkId 1 0" by (simp add: less_Id_def id_less_def)
  then have "records (pool_ids 2 descending) = [MkId 2 0]" by (simp add: descending_ids)
  then show ?thesis
    using pool_starts_records [of 2 descending counting] unfolding descending_ids by auto
qed

end
