(* ===== verification/Cuda_Replica.thy ===== *)
theory Cuda_Replica
  imports Double
begin

text \<open>
  The CUDA path of a replica, \<open>cuda/cuda_replica.hpp\<close> and \<open>src/cuda/cuda_replica.cu\<close>. The calls of
  the CUDA runtime are the record \<open>cuda_runtime\<close>, an argument of every operation, over a state of
  the device; the kernel is a definition of one thread, handed to the launch. A \<open>float\<close> is a
  rational of 24 significant bits, as the scores of placement are rationals of 53. What the proofs
  need of the runtime is stated as predicates on it (\<open>tracks_memory\<close>, \<open>computes\<close>). A launch may be
  refused without a later synchronization telling; \<open>refusing_device\<close> is such a runtime.
\<close>

section \<open>The runtime\<close>

type_synonym device_ptr = u64
type_synonym cudaError = u32
type_synonym device_memory = "device_ptr \<Rightarrow> rat list"

definition cudaSuccess :: cudaError where "cudaSuccess = 0"

text \<open>
  A call that writes through a pointer returns what it writes, or the error and then writes
  nothing; \<open>cu_properties\<close> returns what the call leaves in a zeroed structure, its result is not
  looked at. A launch gets the number of blocks, the threads of a block, and what a thread
  (its block and its number) does to the memory.
\<close>

record 'g cuda_runtime =
  cu_error_string :: "cudaError \<Rightarrow> string"
  cu_device_count :: "'g \<Rightarrow> (cudaError + i32) \<times> 'g"
  cu_properties :: "i32 \<Rightarrow> 'g \<Rightarrow> (i32 \<times> i32) \<times> 'g"
  cu_mem_info :: "'g \<Rightarrow> (cudaError + u64 \<times> u64) \<times> 'g"
  cu_set_device :: "i32 \<Rightarrow> 'g \<Rightarrow> cudaError \<times> 'g"
  cu_malloc :: "u64 \<Rightarrow> 'g \<Rightarrow> (cudaError + device_ptr) \<times> 'g"
  cu_free :: "device_ptr \<Rightarrow> 'g \<Rightarrow> 'g"
  cu_to_device :: "device_ptr \<Rightarrow> rat list \<Rightarrow> 'g \<Rightarrow> cudaError \<times> 'g"
  cu_to_host :: "device_ptr \<Rightarrow> nat \<Rightarrow> 'g \<Rightarrow> (cudaError + rat list) \<times> 'g"
  cu_launch :: "i32 \<Rightarrow> nat \<Rightarrow> (nat \<Rightarrow> nat \<Rightarrow> device_memory \<Rightarrow> device_memory) \<Rightarrow> 'g \<Rightarrow> 'g"
  cu_synchronize :: "'g \<Rightarrow> cudaError \<times> 'g"
  cu_reset :: "'g \<Rightarrow> cudaError \<times> 'g"

section \<open>Single precision\<close>

definition single :: "rat \<Rightarrow> rat" where
  "single x = (let r = (\<lambda>x. let e = exponent x in of_int (round_even (x * 2 powi (23 - e))) * 2 powi (e - 23))
     in if x = 0 then 0 else if 0 < x then r x else - r (- x))"

text \<open>\<open>x * 2.0f + 1.0f\<close>, on the host and on the device: doubling is exact, so fusing changes nothing.\<close>

definition scale_add :: "rat \<Rightarrow> rat" where
  "scale_add x = single (single (x * 2) + 1)"

section \<open>Results and state\<close>

record CudaDeviceInfo =
  di_count :: i32
  di_total_memory :: u64
  di_free_memory :: u64
  di_compute_major :: i32
  di_compute_minor :: i32

definition CudaDeviceInfo_default :: CudaDeviceInfo where
  "CudaDeviceInfo_default = \<lparr>di_count = 0, di_total_memory = 0, di_free_memory = 0,
     di_compute_major = 0, di_compute_minor = 0\<rparr>"

record CudaPathResult =
  pr_ok :: bool
  pr_error :: string
  pr_kernel_checksum :: rat
  pr_cpu_checksum :: rat
  pr_bytes_allocated :: u64

definition CudaPathResult_default :: CudaPathResult where
  "CudaPathResult_default = \<lparr>pr_ok = False, pr_error = [], pr_kernel_checksum = 0,
     pr_cpu_checksum = 0, pr_bytes_allocated = 0\<rparr>"

definition path_error :: "string \<Rightarrow> CudaPathResult" where
  "path_error e = CudaPathResult_default\<lparr>pr_error := e\<rparr>"

text \<open>The variables of the module; a null pointer is 0.\<close>

record gpu =
  g_d_in :: device_ptr
  g_d_out :: device_ptr
  g_allocated :: u64
  g_pre_start_free :: u64

definition gpu_initial :: gpu where
  "gpu_initial = \<lparr>g_d_in = 0, g_d_out = 0, g_allocated = 0, g_pre_start_free = 0\<rparr>"

section \<open>The kernel\<close>

text \<open>One thread; the index is computed in 32 bits and read as an \<open>int\<close>.\<close>

definition rf_scale_add ::
  "device_ptr \<Rightarrow> device_ptr \<Rightarrow> i32 \<Rightarrow> nat \<Rightarrow> nat \<Rightarrow> nat \<Rightarrow> device_memory \<Rightarrow> device_memory" where
  "rf_scale_add inp outp n block_dim block thread m =
     (let i = sint (of_nat (block * block_dim + thread) :: i32)
      in if i < sint n then m(outp := (m outp)[nat i := scale_add (m inp ! nat i)]) else m)"

section \<open>Operations\<close>

definition free_mem :: "'g cuda_runtime \<Rightarrow> 'g \<Rightarrow> u64 \<times> 'g" where
  "free_mem cu s = (case cu_mem_info cu s of (Inl _, s) \<Rightarrow> (0, s) | (Inr (free_b, _), s) \<Rightarrow> (free_b, s))"

definition cuda_device_info :: "'g cuda_runtime \<Rightarrow> 'g \<Rightarrow> CudaDeviceInfo \<times> 'g" where
  "cuda_device_info cu s =
     (case cu_device_count cu s of
        (Inl _, s) \<Rightarrow> (CudaDeviceInfo_default, s)
      | (Inr count, s) \<Rightarrow>
          (let info = CudaDeviceInfo_default\<lparr>di_count := count\<rparr>
           in if sint count < 1 then (info, s)
              else let ((major, minor), s) = cu_properties cu 0 s;
                       info = info\<lparr>di_compute_major := major, di_compute_minor := minor\<rparr>
                   in case cu_mem_info cu s of
                        (Inl _, s) \<Rightarrow> (info, s)
                      | (Inr (free_b, total_b), s) \<Rightarrow>
                          (info\<lparr>di_free_memory := free_b, di_total_memory := total_b\<rparr>, s)))"

text \<open>The allocations of a start.\<close>

definition allocate_buffers :: "'g cuda_runtime \<Rightarrow> u64 \<Rightarrow> gpu \<Rightarrow> 'g \<Rightarrow> CudaPathResult \<times> gpu \<times> 'g" where
  "allocate_buffers cu bytes v s =
     (case cu_malloc cu bytes s of
        (Inl _, s) \<Rightarrow> (path_error ''cudaMalloc d_in failed'', v, s)
      | (Inr d_in, s) \<Rightarrow>
          (let v = v\<lparr>g_d_in := d_in\<rparr>
           in case cu_malloc cu bytes s of
                (Inl _, s) \<Rightarrow> (path_error ''cudaMalloc d_out failed'', v\<lparr>g_d_in := 0\<rparr>, cu_free cu d_in s)
              | (Inr d_out, s) \<Rightarrow>
                  (let v = v\<lparr>g_d_out := d_out, g_allocated := bytes\<rparr>;
                       (e, s) = cu_synchronize cu s
                   in if e \<noteq> cudaSuccess then (path_error ''device sync failed'', v, s)
                      else (CudaPathResult_default\<lparr>pr_ok := True, pr_bytes_allocated := bytes,
                        pr_error := ''cold start ok''\<rparr>, v, s))))"

definition cuda_replica_start ::
  "'g cuda_runtime \<Rightarrow> u64 \<Rightarrow> i32 \<Rightarrow> gpu \<Rightarrow> 'g \<Rightarrow> CudaPathResult \<times> gpu \<times> 'g" where
  "cuda_replica_start cu max_bytes device v s =
     (let (de, s) = cu_set_device cu device s
      in if de \<noteq> cudaSuccess then (path_error (''cudaSetDevice failed: '' @ cu_error_string cu de), v, s)
         else let (before, s) = free_mem cu s; v = v\<lparr>g_pre_start_free := before\<rparr>
              in case cu_mem_info cu s of
                   (Inl _, s) \<Rightarrow> (path_error ''cudaMemGetInfo failed'', v, s)
                 | (Inr (free_b, _), s) \<Rightarrow> allocate_buffers cu (min max_bytes (free_b div 2)) v s)"

text \<open>
  \<open>n * 4\<close> and \<open>n * 4 + 255\<close> are computed in \<open>int\<close>: an overflow is undefined, a negative length of
  the host array an exception. That the host runs out of memory is not modelled.
\<close>

datatype cuda_failure = Signed_overflow | Bad_array_new_length | Host_read_past_end

definition warm_length :: "u64 \<Rightarrow> int" where
  "warm_length bytes = sint (ucast (bytes div 4 div 4) :: i32) * 4"

definition cuda_replica_warm ::
  "'g cuda_runtime \<Rightarrow> u64 \<Rightarrow> gpu \<Rightarrow> 'g \<Rightarrow> cuda_failure + CudaPathResult \<times> 'g" where
  "cuda_replica_warm cu bytes v s =
     (let (e, s) = cu_set_device cu 0 s; len = warm_length bytes
      in if e \<noteq> cudaSuccess then Inr (path_error ''device reset needed'', s)
         else if len < - (2 ^ 31) \<or> 2 ^ 31 \<le> len then Inl Signed_overflow
         else if len < 0 then Inl Bad_array_new_length
         else let h = map (\<lambda>i. of_nat (i mod 7)) [0..<nat len]; size = of_int len * 4
              in case cu_malloc cu size s of
                   (Inl _, s) \<Rightarrow> Inr (path_error ''warm alloc failed'', s)
                 | (Inr d, s) \<Rightarrow>
                     (let (e, s) = cu_to_device cu d h s
                      in if e \<noteq> cudaSuccess then Inr (path_error ''warm memcpy failed'', cu_free cu d s)
                         else case cu_malloc cu size s of
                                (Inl _, s) \<Rightarrow> Inr (path_error ''warm out alloc failed'', cu_free cu d s)
                              | (Inr d2, s) \<Rightarrow>
                                  (if 2 ^ 31 \<le> len + 255 then Inl Signed_overflow
                                   else let s = cu_launch cu (of_int ((len + 255) div 256)) 256
                                                  (rf_scale_add d d2 (of_int len) 256) s;
                                            (k, s) = cu_synchronize cu s;
                                            s = cu_free cu d s; s = cu_free cu d2 s
                                        in if k \<noteq> cudaSuccess
                                           then Inr (path_error (''warmup kernel failed: '' @ cu_error_string cu k), s)
                                           else Inr (CudaPathResult_default\<lparr>pr_ok := True,
                                             pr_bytes_allocated := g_allocated v, pr_error := ''warm ok''\<rparr>, s))))"

text \<open>A sum of floats in \<open>double\<close>, and the test of the two sums.\<close>

definition sum_floats :: "rat list \<Rightarrow> rat" where
  "sum_floats xs = foldl dadd 0 xs"

definition verifies :: "u64 \<Rightarrow> rat \<Rightarrow> rat \<Rightarrow> bool" where
  "verifies n kern cpu \<longleftrightarrow> \<not> dmul (rnd (1 / 1000)) (of_u64 n) < \<bar>dadd kern (- cpu)\<bar>"

text \<open>\<open>host_in\<close> and \<open>host_out\<close> are what the pointers give access to; reading past them is a failure.\<close>

definition cuda_replica_execute ::
  "'g cuda_runtime \<Rightarrow> rat list \<Rightarrow> rat list \<Rightarrow> u64 \<Rightarrow> gpu \<Rightarrow> 'g \<Rightarrow> cuda_failure + CudaPathResult \<times> rat list \<times> 'g" where
  "cuda_replica_execute cu host_in host_out n v s =
     (if g_d_in v = 0 \<or> g_d_out v = 0 then Inr (path_error ''replica not started'', host_out, s)
      else let need = n * 4; count = unat (need div 4)
           in if need > g_allocated v then Inr (path_error ''buffer too small'', host_out, s)
              else if length host_in < unat n \<or> length host_out < unat n then Inl Host_read_past_end
              else let (e, s) = cu_to_device cu (g_d_in v) (take count host_in) s
                   in if e \<noteq> cudaSuccess then Inr (path_error ''H2D failed'', host_out, s)
                      else let s = cu_launch cu (ucast ((n + 255) div 256)) 256
                                     (rf_scale_add (g_d_in v) (g_d_out v) (ucast n) 256) s;
                               (e, s) = cu_synchronize cu s
                           in if e \<noteq> cudaSuccess then Inr (path_error ''kernel sync failed'', host_out, s)
                              else case cu_to_host cu (g_d_out v) count s of
                                     (Inl _, s) \<Rightarrow> Inr (path_error ''D2H failed'', host_out, s)
                                   | (Inr got, s) \<Rightarrow>
                                       (let host_out = got @ drop (length got) host_out;
                                            kern = sum_floats (take (unat n) host_out);
                                            cpu = sum_floats (map scale_add (take (unat n) host_in))
                                        in if \<not> verifies n kern cpu
                                           then Inr (path_error ''CPU reference verification failed'', host_out, s)
                                           else Inr (\<lparr>pr_ok = True, pr_error = ''execute ok'', pr_kernel_checksum = kern,
                                             pr_cpu_checksum = cpu, pr_bytes_allocated = g_allocated v\<rparr>, host_out, s)))"

definition release_buffers :: "'g cuda_runtime \<Rightarrow> gpu \<Rightarrow> 'g \<Rightarrow> gpu \<times> 'g" where
  "release_buffers cu v s =
     (let (v, s) = (if g_d_in v \<noteq> 0 then (v\<lparr>g_d_in := 0\<rparr>, cu_free cu (g_d_in v) s) else (v, s))
      in if g_d_out v \<noteq> 0 then (v\<lparr>g_d_out := 0\<rparr>, cu_free cu (g_d_out v) s) else (v, s))"

definition cuda_replica_teardown :: "'g cuda_runtime \<Rightarrow> gpu \<Rightarrow> 'g \<Rightarrow> CudaPathResult \<times> gpu \<times> 'g" where
  "cuda_replica_teardown cu v s =
     (let (v, s) = release_buffers cu v s;
          (e, s) = cu_synchronize cu s
      in if e \<noteq> cudaSuccess then (path_error ''teardown sync failed'', v, s)
         else let (e, s) = cu_reset cu s
              in if e \<noteq> cudaSuccess then (path_error ''device reset failed'', v, s)
                 else let (now, s) = free_mem cu s; recovered = (g_pre_start_free v \<le> now)
                      in (CudaPathResult_default\<lparr>pr_ok := recovered, pr_error :=
                           (if recovered then ''teardown ok; memory recovered''
                            else ''teardown: memory not fully recovered'')\<rparr>, v, s))"

section \<open>What the runtime promises of memory\<close>

text \<open>
  \<open>live\<close> is the set of allocated pointers. An allocation gives a pointer that is not in use, of
  no bytes perhaps the null pointer; what is freed is no longer allocated; a reset frees all; no
  other call allocates or frees.
\<close>

definition tracks_memory :: "'g cuda_runtime \<Rightarrow> ('g \<Rightarrow> device_ptr set) \<Rightarrow> bool" where
  "tracks_memory cu live \<longleftrightarrow> (\<forall>s. 0 \<notin> live s \<and>
     live (snd (cu_mem_info cu s)) = live s \<and> live (snd (cu_synchronize cu s)) = live s \<and>
     live (snd (cu_device_count cu s)) = live s \<and> (\<forall>d. live (snd (cu_properties cu d s)) = live s) \<and>
     (\<forall>d. live (snd (cu_set_device cu d s)) = live s) \<and>
     (\<forall>p xs. live (snd (cu_to_device cu p xs s)) = live s) \<and>
     (\<forall>p k. live (snd (cu_to_host cu p k s)) = live s) \<and>
     (\<forall>b t k. live (cu_launch cu b t k s) = live s) \<and>
     (\<forall>n e. fst (cu_malloc cu n s) = Inl e \<longrightarrow> live (snd (cu_malloc cu n s)) = live s) \<and>
     (\<forall>n p. fst (cu_malloc cu n s) = Inr p \<longrightarrow> p \<notin> live s \<and>
        live (snd (cu_malloc cu n s)) = (if p = 0 then live s else insert p (live s))) \<and>
     (\<forall>p. p = 0 \<or> p \<in> live s \<longrightarrow> live (cu_free cu p s) = live s - {p}) \<and>
     (fst (cu_reset cu s) = cudaSuccess \<longrightarrow> live (snd (cu_reset cu s)) = {}))"

text \<open>The buffers the module holds.\<close>

definition buffers :: "gpu \<Rightarrow> device_ptr set" where
  "buffers v = {g_d_in v, g_d_out v} - {0}"

lemma memory_tracked:
  assumes "tracks_memory cu live"
  shows "0 \<notin> live s"
    and "cu_mem_info cu s = (i, s') \<Longrightarrow> live s' = live s" and "cu_synchronize cu s = (e, s') \<Longrightarrow> live s' = live s"
    and "cu_set_device cu d s = (e, s') \<Longrightarrow> live s' = live s" and "cu_to_device cu p xs s = (e, s') \<Longrightarrow> live s' = live s"
    and "cu_to_host cu p k s = (x, s') \<Longrightarrow> live s' = live s" and "live (cu_launch cu b t kn s) = live s"
    and "cu_malloc cu n s = (Inl err, s') \<Longrightarrow> live s' = live s"
    and "cu_malloc cu n s = (Inr q, s') \<Longrightarrow> q \<notin> live s \<and> live s' = (if q = 0 then live s else insert q (live s))"
    and "p = 0 \<or> p \<in> live s \<Longrightarrow> live (cu_free cu p s) = live s - {p}"
    and "cu_reset cu s = (0, s') \<Longrightarrow> live s' = {}"
  using assms unfolding tracks_memory_def cudaSuccess_def
  by (metis snd_conv, metis snd_conv, metis snd_conv, metis snd_conv, metis snd_conv, metis snd_conv, metis,
      metis fst_conv snd_conv, metis fst_conv snd_conv, metis, metis fst_conv snd_conv)

lemma device_info_live:
  assumes "tracks_memory cu live" and "cuda_device_info cu s = (info, s')"
  shows "live s' = live s"
proof -
  have "cu_device_count cu t = (x, t') \<Longrightarrow> live t' = live t" "cu_properties cu d t = (y, t') \<Longrightarrow> live t' = live t" for t t' d x y
    using assms(1) unfolding tracks_memory_def by (metis snd_conv)+
  then show ?thesis
    using assms(2) by (auto simp: cuda_device_info_def Let_def memory_tracked(2) [OF assms(1)] split: prod.splits sum.splits if_splits)
qed

lemma free_mem_live: "tracks_memory cu live \<Longrightarrow> free_mem cu s = (n, s') \<Longrightarrow> live s' = live s"
  by (auto simp: free_mem_def memory_tracked(2) split: prod.splits sum.splits)

lemma warm_live:
  assumes "tracks_memory cu live" and "cuda_replica_warm cu bytes v s = Inr (r, s')"
  shows "live s' = live s"
proof -
  note t = memory_tracked [OF assms(1)]
  show ?thesis
    using assms(2)
    by (auto simp: cuda_replica_warm_def Let_def t(1-8,10,11) dest!: t(9) split: prod.splits if_splits sum.splits)
qed

text \<open>
  Warming leaks nothing: whichever call fails, when \<open>cuda_replica_warm\<close> returns the same
  device memory is allocated as before.
\<close>

theorem warm_leaks_nothing:
  assumes "tracks_memory cu live" and "cuda_replica_warm cu bytes v s = Inr (r, s')"
  shows "live s' = live s"
  by (rule warm_live [OF assms])

lemma path_error_fields [simp]: "\<not> pr_ok (path_error e)" "pr_error (path_error e) = e"
  by (simp_all add: path_error_def CudaPathResult_default_def)

text \<open>What an attempt to start holds, relative to the module and the device before it.\<close>

definition holds_new :: "('g \<Rightarrow> device_ptr set) \<Rightarrow> u64 \<Rightarrow> 'g \<Rightarrow> CudaPathResult \<Rightarrow> gpu \<Rightarrow> 'g \<Rightarrow> bool" where
  "holds_new live max_bytes s r v' s' \<longleftrightarrow> live s' = live s \<union> buffers v' \<and>
     (pr_ok r \<longrightarrow> buffers v' \<inter> live s = {} \<and> pr_bytes_allocated r = g_allocated v' \<and> g_allocated v' \<le> max_bytes)"

lemma holds_refused: "live s' = live s \<Longrightarrow> buffers v' \<subseteq> live s \<Longrightarrow> holds_new live m s (path_error e) v' s'"
  by (auto simp: holds_new_def)

lemma allocate_holds:
  assumes "tracks_memory cu live" and "buffers v \<subseteq> live s" and "allocate_buffers cu n v s = (r, v', s')"
  shows "holds_new live n s r v' s'"
proof -
  note t = memory_tracked [OF assms(1)]
  note alloc = assms(3) [unfolded allocate_buffers_def Let_def]
  obtain x s4 where s4: "cu_malloc cu n s = (x, s4)" by fastforce
  obtain y s5 where s5: "cu_malloc cu n s4 = (y, s5)" by fastforce
  obtain e s6 where s6: "cu_synchronize cu s5 = (e, s6)" by fastforce
  note alloc = alloc [unfolded s4 split_conv s5 s6]
  consider e1 where "x = Inl e1" | p e2 where "x = Inr p" "y = Inl e2" | p q where "x = Inr p" "y = Inr q"
    by (cases x; cases y) auto
  then show ?thesis
  proof cases
    case 1
    then show ?thesis using alloc t(8) [OF s4 [unfolded 1]] assms(2) by (auto intro: holds_refused)
  next
    case 2
    have "live (cu_free cu p s5) = live s"
      using t(10) [of p s5] t(1) [of s] t(9) [OF s4 [unfolded 2]] t(8) [OF s5 [unfolded 2]] by (auto split: if_splits)
    then show ?thesis
      using alloc 2 assms(2) by (auto simp: buffers_def intro!: holds_refused)
  next
    case 3
    have "live s6 = live s \<union> ({p, q} - {0}) \<and> ({p, q} - {0}) \<inter> live s = {}"
      using t(9) [OF s4 [unfolded 3]] t(9) [OF s5 [unfolded 3]] t(3) [OF s6] by (auto split: if_splits)
    moreover have "s' = s6 \<and> buffers v' = {p, q} - {0} \<and> g_allocated v' = n \<and> (pr_ok r \<longrightarrow> pr_bytes_allocated r = n)"
      using alloc 3 by (auto simp: buffers_def CudaPathResult_default_def split: if_splits)
    ultimately show ?thesis by (simp add: holds_new_def)
  qed
qed

lemma start_holds:
  assumes "tracks_memory cu live" and "buffers v \<subseteq> live s" and "cuda_replica_start cu max_bytes dev v s = (r, v', s')"
  shows "holds_new live max_bytes s r v' s'"
proof -
  note t = memory_tracked [OF assms(1)]
  note start = assms(3) [unfolded cuda_replica_start_def Let_def]
  obtain de s1 where s1: "cu_set_device cu dev s = (de, s1)" by fastforce
  obtain before s2 where s2: "free_mem cu s1 = (before, s2)" by fastforce
  obtain i s3 where s3: "cu_mem_info cu s2 = (i, s3)" by fastforce
  have live: "live s1 = live s" "live s3 = live s"
    using t(4) [OF s1] free_mem_live [OF assms(1) s2] t(2) [OF s3] by simp_all
  let ?v = "v\<lparr>g_pre_start_free := before\<rparr>"
  have bs: "buffers ?v = buffers v" by (simp add: buffers_def)
  show ?thesis
  proof (cases "de \<noteq> cudaSuccess \<or> isl i")
    case True
    then show ?thesis
      using start live bs assms(2) by (auto simp: s1 s2 s3 isl_def intro!: holds_refused split: if_splits sum.splits)
  next
    case False
    then obtain free_b total_b where "i = Inr (free_b, total_b)" by (cases i) auto
    then have "allocate_buffers cu (min max_bytes (free_b div 2)) ?v s3 = (r, v', s')"
      using start False by (simp add: s1 s2 s3)
    from allocate_holds [OF assms(1) _ this] show ?thesis
      using live bs assms(2) by (auto simp: holds_new_def)
  qed
qed

text \<open>
  What a start holds: every buffer allocated by \<open>cuda_replica_start\<close> is held by the module,
  whichever call fails, and nothing else is freed or allocated. A start that succeeds holds two new
  buffers of the same size, at most \<open>max_bytes\<close>; so buffers held before, by a start without a
  teardown, stay allocated and nothing points to them any more.
\<close>

theorem start_holds_what_it_allocates:
  assumes "tracks_memory cu live" and "buffers v \<subseteq> live s" and "cuda_replica_start cu max_bytes dev v s = (r, v', s')"
  shows "live s' = live s \<union> buffers v' \<and>
    (pr_ok r \<longrightarrow> buffers v' \<inter> live s = {} \<and> pr_bytes_allocated r = g_allocated v' \<and> g_allocated v' \<le> max_bytes)"
  using start_holds [OF assms] unfolding holds_new_def .

text \<open>
  Teardown gives back what the module holds, also when it fails, and holds nothing afterwards;
  when it succeeds no device memory is allocated at all.
\<close>

theorem teardown_gives_back:
  assumes "tracks_memory cu live" and "buffers v \<subseteq> live s" and "g_d_in v \<noteq> g_d_out v"
    and "cuda_replica_teardown cu v s = (r, v', s')"
  shows "buffers v' = {} \<and> (pr_ok r \<longrightarrow> live s' = {}) \<and>
    (pr_error r = ''teardown sync failed'' \<longrightarrow> live s' = live s - buffers v)"
proof -
  note t = memory_tracked [OF assms(1)]
  obtain v1 s1 where rel: "release_buffers cu v s = (v1, s1)" by fastforce
  have v1: "v1 = v\<lparr>g_d_in := 0, g_d_out := 0\<rparr>"
    using rel by (auto simp: release_buffers_def Let_def split: if_splits)
  have s1: "live s1 = live s - buffers v"
    using rel assms(2,3) by (auto simp: release_buffers_def Let_def t(10) buffers_def split: if_splits)
  have "buffers v1 = {}" by (simp add: v1 buffers_def)
  then show ?thesis
    using assms(4) s1 unfolding cuda_replica_teardown_def rel
    by (auto simp: Let_def CudaPathResult_default_def cudaSuccess_def t(3) free_mem_live [OF assms(1)]
        dest!: t(11) split: prod.splits if_splits)
qed

section \<open>What the kernel computes\<close>

definition run_threads :: "(nat \<Rightarrow> nat \<Rightarrow> device_memory \<Rightarrow> device_memory) \<Rightarrow> (nat \<times> nat) list \<Rightarrow> device_memory \<Rightarrow> device_memory" where
  "run_threads k order m = foldl (\<lambda>m (block, thread). k block thread m) m order"






section \<open>What an execution returns\<close>

text \<open>
  Copying to the device writes a prefix of the buffer, copying to the host reads one. A launch may be
  refused (an invalid configuration, no resources): only \<open>cudaGetLastError\<close> would tell, which the code
  never calls, and a synchronization after it succeeds. So after a launch and a synchronization that
  succeeds either every thread of the grid has run, in some order, or none and the memory is as before.
\<close>

definition computes :: "'g cuda_runtime \<Rightarrow> ('g \<Rightarrow> device_memory) \<Rightarrow> bool" where
  "computes cu mem \<longleftrightarrow> (\<forall>s.
     (\<forall>p xs s'. cu_to_device cu p xs s = (cudaSuccess, s') \<longrightarrow>
        mem s' = (mem s)(p := xs @ drop (length xs) (mem s p))) \<and>
     (\<forall>p n xs s'. cu_to_host cu p n s = (Inr xs, s') \<longrightarrow> xs = take n (mem s p)) \<and>
     (\<forall>b t k s'. cu_synchronize cu (cu_launch cu b t k s) = (cudaSuccess, s') \<longrightarrow>
        (\<exists>order. set order = {0..<nat (sint b)} \<times> {0..<t} \<and> mem s' = run_threads k order (mem s)) \<or>
        mem s' = mem s))"

lemma verifies_same: "verifies n x x"
proof -
  have "0 \<le> rnd (1 / 1000) * of_u64 n"
    by (intro mult_nonneg_nonneg) (simp_all only: of_u64_def rnd_nonneg of_nat_0_le_iff zero_le_divide_1_iff zero_le_numeral)
  then show ?thesis using rnd_nonneg by (simp add: verifies_def dadd_def dmul_def not_less)
qed




section \<open>Applied to a small device\<close>

text \<open>A device with room for three buffers, which it numbers; its state is the numbers in use and the contents.\<close>

type_synonym small = "device_ptr list \<times> device_memory"

definition grid :: "i32 \<Rightarrow> nat \<Rightarrow> (nat \<times> nat) list" where
  "grid b t = List.product [0..<nat (sint b)] [0..<t]"

definition small_malloc :: "u64 \<Rightarrow> small \<Rightarrow> (cudaError + device_ptr) \<times> small" where
  "small_malloc n s = (case find (\<lambda>p. p \<notin> set (fst s)) [1, 2, 3] of None \<Rightarrow> (Inl 2, s)
     | Some p \<Rightarrow> (Inr p, p # fst s, (snd s)(p := replicate (unat n div 4) 0)))"

definition small_device :: "small cuda_runtime" where
  "small_device = \<lparr>cu_error_string = (\<lambda>e. ''error''), cu_device_count = (\<lambda>s. (Inr 1, s)),
     cu_properties = (\<lambda>d s. ((12, 0), s)), cu_mem_info = (\<lambda>s. (Inr (1024, 1024), s)),
     cu_set_device = (\<lambda>d s. (0, s)), cu_malloc = small_malloc,
     cu_free = (\<lambda>p s. (removeAll p (fst s), snd s)),
     cu_to_device = (\<lambda>p xs s. (0, fst s, (snd s)(p := xs @ drop (length xs) (snd s p)))),
     cu_to_host = (\<lambda>p n s. (Inr (take n (snd s p)), s)),
     cu_launch = (\<lambda>b t k s. (fst s, run_threads k (grid b t) (snd s))),
     cu_synchronize = (\<lambda>s. (0, s)), cu_reset = (\<lambda>s. (0, [], snd s))\<rparr>"

definition small_live :: "small \<Rightarrow> device_ptr set" where
  "small_live s = set (fst s) - {0}"

lemma small_tracks: "tracks_memory small_device small_live"
  by (auto simp: tracks_memory_def small_device_def small_live_def small_malloc_def cudaSuccess_def
      split: if_splits)

lemma small_computes: "computes small_device snd"
proof -
  have "set (grid b t) = {0..<nat (sint b)} \<times> {0..<t}" for b t by (simp add: grid_def)
  then show ?thesis by (auto simp: computes_def small_device_def cudaSuccess_def)
qed

text \<open>The same device when every launch is refused.\<close>

definition refusing_device :: "small cuda_runtime" where
  "refusing_device = small_device\<lparr>cu_launch := (\<lambda>b t k s. s)\<rparr>"

lemma refusing_computes: "computes refusing_device snd"
  using small_computes by (auto simp: computes_def refusing_device_def small_device_def cudaSuccess_def)

definition small_gpu :: gpu where
  "small_gpu = \<lparr>g_d_in = 1, g_d_out = 2, g_allocated = 4, g_pre_start_free = 0\<rparr>"

definition small_state :: small where
  "small_state = ([1, 2], (\<lambda>p. [0]))"

theorem warm_leaks_nothing_witness:
  "\<exists>r s'. cuda_replica_warm small_device 0 small_gpu ([], \<lambda>p. []) = Inr (r, s') \<and> pr_ok r \<and> small_live s' = {}"
proof -
  obtain r s' where "cuda_replica_warm small_device 0 small_gpu ([], \<lambda>p. []) = Inr (r, s')" "pr_ok r"
    by (simp add: cuda_replica_warm_def warm_length_def small_device_def small_malloc_def cudaSuccess_def Let_def)
  with warm_leaks_nothing [OF small_tracks this(1)] show ?thesis by (auto simp: small_live_def)
qed

theorem start_holds_what_it_allocates_witness:
  "\<exists>r v' s'. cuda_replica_start small_device 8 0 gpu_initial ([], \<lambda>p. []) = (r, v', s') \<and> pr_ok r \<and>
     small_live s' = buffers v' \<and> g_allocated v' \<le> 8"
proof -
  obtain r v' s' where s: "cuda_replica_start small_device 8 0 gpu_initial ([], \<lambda>p. []) = (r, v', s')"
    by (metis prod_cases3)
  have "pr_ok (fst (cuda_replica_start small_device 8 0 gpu_initial ([], \<lambda>p. [])))"
    by (simp add: cuda_replica_start_def allocate_buffers_def free_mem_def small_device_def small_malloc_def cudaSuccess_def Let_def)
  with start_holds_what_it_allocates [OF small_tracks _ s] s show ?thesis
    by (auto simp: small_live_def buffers_def gpu_initial_def)
qed

theorem teardown_gives_back_witness:
  "small_live (snd (snd (cuda_replica_teardown small_device small_gpu small_state))) = {}"
proof -
  obtain r v' s' where s: "cuda_replica_teardown small_device small_gpu small_state = (r, v', s')"
    by (metis prod_cases3)
  have "pr_ok (fst (cuda_replica_teardown small_device small_gpu small_state))"
    by (simp add: cuda_replica_teardown_def release_buffers_def free_mem_def small_device_def small_gpu_def
        small_state_def cudaSuccess_def Let_def)
  with teardown_gives_back [OF small_tracks _ _ s] s show ?thesis
    by (simp add: small_live_def buffers_def small_gpu_def small_state_def)
qed





text \<open>
  A refused launch passes for a computation: the buffer still holds what an earlier execution left,
  other elements with the same sum, and the execution is reported as successful.
\<close>

definition stale_gpu :: gpu where
  "stale_gpu = \<lparr>g_d_in = 1, g_d_out = 2, g_allocated = 8, g_pre_start_free = 0\<rparr>"

theorem refused_launch_accepted:
  "\<exists>r s'. cuda_replica_execute refusing_device [1, 2] [0, 0] 2 stale_gpu ([1, 2], (\<lambda>p. [5, 3])) = Inr (r, [5, 3], s') \<and>
     pr_ok r \<and> map scale_add [1, 2] = [3, 5]"
proof -
  have "scale_add 1 = 3" "scale_add 2 = 5" "dadd 0 3 = 3" "dadd 0 5 = 5" "dadd 3 5 = 8" "dadd 5 3 = 8"
    by code_simp+
  then show ?thesis
    by (simp add: cuda_replica_execute_def refusing_device_def small_device_def stale_gpu_def cudaSuccess_def Let_def
        sum_floats_def verifies_same)
qed

end
