(* ===== verification/Cuda_Demo.thy ===== *)
theory Cuda_Demo
  imports Cuda_Replica
begin

text \<open>
  The CUDA example, \<open>examples/cuda_demo.cpp\<close>: a replica is started, warmed, executed and torn down
  on a device. What it prints is left out but for the exit code: 2 without a device, 1 when a step
  fails, 0 otherwise.
\<close>

definition demo_bytes :: u64 where "demo_bytes = 64 * 1024 * 1024"
definition demo_count :: nat where "demo_count = 2 ^ 20"

definition demo_input :: "rat list" where
  "demo_input = map (\<lambda>i. single (of_nat (i mod 101) / 7)) [0..<demo_count]"

text \<open>\<open>std::fabs(out[i] - expected) > 1e-4f\<close>, at every 4099th element.\<close>

definition off :: "rat \<Rightarrow> rat \<Rightarrow> bool" where
  "off got x \<longleftrightarrow> single (1 / 10000) < \<bar>single (got - scale_add x)\<bar>"

definition spot_check :: "rat list \<Rightarrow> rat list \<Rightarrow> bool" where
  "spot_check inp out \<longleftrightarrow> (\<forall>j \<in> {0..<(length inp + 4098) div 4099}. \<not> off (out ! (j * 4099)) (inp ! (j * 4099)))"

definition cuda_demo_main :: "'g cuda_runtime \<Rightarrow> gpu \<Rightarrow> 'g \<Rightarrow> cuda_failure + int \<times> gpu \<times> 'g" where
  "cuda_demo_main cu v s =
     (let (info, s) = cuda_device_info cu s
      in if sint (di_count info) < 1 then Inr (2, v, s)
         else let (start, v, s) = cuda_replica_start cu demo_bytes 0 v s
              in if \<not> pr_ok start then Inr (1, v, s)
                 else case cuda_replica_warm cu (demo_bytes div 4) v s of
                        Inl f \<Rightarrow> Inl f
                      | Inr (warm, s) \<Rightarrow>
                          (if \<not> pr_ok warm then Inr (1, v, s)
                           else case cuda_replica_execute cu demo_input (replicate demo_count 0) (of_nat demo_count) v s of
                                  Inl f \<Rightarrow> Inl f
                                | Inr (ex, out, s) \<Rightarrow>
                                    (if \<not> pr_ok ex \<or> \<not> spot_check demo_input out then Inr (1, v, s)
                                     else let (teardown, v, s) = cuda_replica_teardown cu v s
                                          in Inr (if pr_ok teardown then 0 else 1, v, s))))"

section \<open>It never runs into undefined behaviour\<close>

lemma demo_count_simps [simp]: "length demo_input = demo_count" "unat (of_nat demo_count :: u64) = demo_count"
  by (simp_all add: demo_input_def demo_count_def)

lemma warm_defined: "cuda_replica_warm cu (demo_bytes div 4) v s \<noteq> Inl f"
  by (simp add: cuda_replica_warm_def warm_length_def demo_bytes_def Let_def split: prod.split sum.split)

lemma execute_defined:
  "cuda_replica_execute cu demo_input (replicate demo_count 0) (of_nat demo_count) v s \<noteq> Inl f"
  by (simp add: cuda_replica_execute_def Let_def split: prod.split sum.split)

text \<open>
  The CUDA example runs into no undefined behaviour, whatever the runtime answers: no
  arithmetic overflows and no read goes past its arrays. It exits with 0, 1 or 2.
\<close>

theorem cuda_demo_defined:
  "\<exists>code v' s'. cuda_demo_main cu v s = Inr (code, v', s') \<and> code \<in> {0, 1, 2}"
proof -
  obtain info s1 where d: "cuda_device_info cu s = (info, s1)" by fastforce
  obtain r1 v1 s2 where st: "cuda_replica_start cu demo_bytes 0 v s1 = (r1, v1, s2)" by (metis prod_cases3)
  obtain r2 s3 where w: "cuda_replica_warm cu (demo_bytes div 4) v1 s2 = Inr (r2, s3)"
    using warm_defined by (metis sum.exhaust surj_pair)
  obtain r3 out s4 where ex: "cuda_replica_execute cu demo_input (replicate demo_count 0) (of_nat demo_count) v1 s3 = Inr (r3, out, s4)"
    using execute_defined by (metis sum.exhaust prod_cases3)
  obtain r4 v5 s5 where t: "cuda_replica_teardown cu v1 s4 = (r4, v5, s5)" by (metis prod_cases3)
  show ?thesis by (simp add: cuda_demo_main_def d st w ex t)
qed

text \<open>The spot check accepts what \<open>execute\<close> computes.\<close>

lemma spot_check_exact: "spot_check inp (map scale_add inp)"
proof -
  have "\<not> off (scale_add x) x" for x
    by (simp add: off_def single_def Let_def exponent_def round_even_def not_less)
  moreover have "j * 4099 < length inp" if "j < (length inp + 4098) div 4099" for j using that by linarith
  ultimately show ?thesis by (simp add: spot_check_def)
qed

section \<open>It leaves nothing allocated\<close>

lemma execute_live:
  assumes "tracks_memory cu live" and "cuda_replica_execute cu inp out n v s = Inr (r, out', s')"
  shows "live s' = live s"
proof -
  note t = memory_tracked [OF assms(1)]
  show ?thesis
    using assms(2)
    by (auto simp: cuda_replica_execute_def Let_def t(3,5-7) split: prod.splits if_splits sum.splits)
qed

lemma allocate_distinct:
  assumes "tracks_memory cu live" and "allocate_buffers cu n v s = (r, v', s')" and "pr_ok r"
  shows "g_d_in v' \<noteq> g_d_out v' \<or> g_d_in v' = 0"
proof -
  obtain x s4 where s4: "cu_malloc cu n s = (x, s4)" by fastforce
  obtain y s5 where s5: "cu_malloc cu n s4 = (y, s5)" by fastforce
  note alloc = assms(2,3) [unfolded allocate_buffers_def Let_def s4 split_conv]
  obtain p q where x: "x = Inr p" "y = Inr q" and v': "g_d_in v' = p" "g_d_out v' = q"
    using alloc by (cases x; cases y) (auto simp: s5 split: prod.splits if_splits)
  then show ?thesis
    using memory_tracked(9) [OF assms(1) s4 [unfolded x]] memory_tracked(9) [OF assms(1) s5 [unfolded x]] by (auto split: if_splits)
qed

lemma start_distinct:
  assumes "tracks_memory cu live" and "cuda_replica_start cu n d v s = (r, v', s')" and "pr_ok r"
  shows "g_d_in v' \<noteq> g_d_out v' \<or> g_d_in v' = 0"
proof -
  obtain m w t where "allocate_buffers cu m w t = (r, v', s')"
    using assms(2,3) by (auto simp: cuda_replica_start_def Let_def split: prod.splits if_splits sum.splits)
  from allocate_distinct [OF assms(1) this assms(3)] show ?thesis .
qed

text \<open>
  The CUDA example leaves nothing allocated: started on a device where nothing is allocated,
  when it finds no device or exits with 0, nothing is allocated at the end.
\<close>

theorem cuda_demo_leaves_nothing:
  assumes "tracks_memory cu live" and "live s = {}" and "cuda_demo_main cu gpu_initial s = Inr (code, v', s')" and "code \<noteq> 1"
  shows "live s' = {}"
proof -
  obtain info s1 where d: "cuda_device_info cu s = (info, s1)" by fastforce
  have l1: "live s1 = {}" using device_info_live [OF assms(1) d] assms(2) by simp
  show ?thesis
  proof (cases "sint (di_count info) < 1")
    case True
    then show ?thesis using assms(3) l1 by (simp add: cuda_demo_main_def d)
  next
    case False
    obtain r1 v1 s2 where st: "cuda_replica_start cu demo_bytes 0 gpu_initial s1 = (r1, v1, s2)" by (metis prod_cases3)
    obtain r2 s3 where w: "cuda_replica_warm cu (demo_bytes div 4) v1 s2 = Inr (r2, s3)"
      using warm_defined by (metis sum.exhaust surj_pair)
    obtain r3 out s4 where ex: "cuda_replica_execute cu demo_input (replicate demo_count 0) (of_nat demo_count) v1 s3 = Inr (r3, out, s4)"
      using execute_defined by (metis sum.exhaust prod_cases3)
    obtain r4 v5 s5 where t: "cuda_replica_teardown cu v1 s4 = (r4, v5, s5)" by (metis prod_cases3)
    have ok: "pr_ok r1" "pr_ok r4" "s' = s5" "pr_ok r3"
      using assms(3,4) False by (auto simp: cuda_demo_main_def d st w ex t split: if_splits)
    have "live s2 = buffers v1"
      using start_holds [OF assms(1) _ st] l1 by (simp add: holds_new_def buffers_def gpu_initial_def)
    then have l4: "live s4 = buffers v1"
      using warm_live [OF assms(1) w] execute_live [OF assms(1) ex] by simp
    have "g_d_in v1 \<noteq> 0" using ex ok(4) by (auto simp: cuda_replica_execute_def split: if_splits)
    then have "g_d_in v1 \<noteq> g_d_out v1" using start_distinct [OF assms(1) st ok(1)] by simp
    with teardown_gives_back [OF assms(1) _ _ t] l4 ok show ?thesis by simp
  qed
qed

text \<open>A device that answers every call, without keeping any memory.\<close>

definition no_device :: "unit cuda_runtime" where
  "no_device = \<lparr>cu_error_string = (\<lambda>e. ''no device''), cu_device_count = (\<lambda>s. (Inl 100, s)),
     cu_properties = (\<lambda>d s. ((0, 0), s)), cu_mem_info = (\<lambda>s. (Inl 100, s)),
     cu_set_device = (\<lambda>d s. (100, s)), cu_malloc = (\<lambda>n s. (Inl 100, s)), cu_free = (\<lambda>p s. s),
     cu_to_device = (\<lambda>p xs s. (100, s)), cu_to_host = (\<lambda>p n s. (Inl 100, s)),
     cu_launch = (\<lambda>b t k s. s), cu_synchronize = (\<lambda>s. (100, s)), cu_reset = (\<lambda>s. (100, s))\<rparr>"

theorem cuda_demo_leaves_nothing_witness:
  "cuda_demo_main no_device gpu_initial () = Inr (2, gpu_initial, ()) \<and> (\<lambda>s. {} :: device_ptr set) () = {}"
proof
  show run: "cuda_demo_main no_device gpu_initial () = Inr (2, gpu_initial, ())"
    by (simp add: cuda_demo_main_def cuda_device_info_def no_device_def CudaDeviceInfo_default_def)
  have "tracks_memory no_device (\<lambda>s. {})" by (simp add: tracks_memory_def no_device_def cudaSuccess_def)
  from cuda_demo_leaves_nothing [OF this _ run] show "(\<lambda>s. {} :: device_ptr set) () = {}" by simp
qed

end
