(* ===== verification/Spec2Isabelle.thy ===== *)
theory Spec2Isabelle
  imports Deployment Writers Benchmarks Cuda_Demo
begin

text \<open>
  \<^bold>\<open>Replica Fabric\<close> keeps replica sets of model servers. A coordinator owns one
  \<open>ReplicaSetController\<close>; workers register with it and report warming, health and readiness of
  the replicas they host; the controller decides which replica may serve. The gate of the
  serving authority is recomputed from current identities (epoch, generations, worker boot)
  so that late, duplicate or forged messages grant nothing. State is persisted as a
  checksummed snapshot, from which a coordinator recovers without any serving authority.
  Coordinator, workers and control clients exchange framed messages over TCP; a placement
  engine scores hosts for a replica.

  \<^bold>\<open>Theories and the code they model\<close> (paths under \<open>src/\<close>):

  \<^item> \<open>RF_Prelude\<close>: machine integers, bytes, rule collections, words built from digits.
  \<^item> \<open>Identity\<close>: \<open>core/identity.hpp\<close>, \<open>core/identity_kinds.hpp\<close>. A 128-bit \<open>Id\<close> with a phantom
    tag; order, bytes, text, lenient and strict parsing, hash, random identities drawn from a
    stream of engine outputs.
  \<^item> \<open>Enums\<close>: \<open>core/enums.hpp\<close>. Each enumeration with its table; locale \<open>enum_table\<close>.
  \<^item> \<open>Capability\<close>, \<open>Compatibility\<close>, \<open>Policies\<close>, \<open>Model\<close>: \<open>core/capability.hpp\<close>,
    \<open>core/compatibility.hpp\<close>, \<open>core/policies.hpp\<close>, \<open>model/*.hpp\<close>. The structures as records with
    their member initialisers; the compatibility check.
  \<^item> \<open>Transition\<close>: \<open>authority/transition.hpp\<close>, \<open>core/error.hpp\<close>. The two lifecycle tables, the
    throwing guards, the exception classes.
  \<^item> \<open>Serving_Authority\<close>: \<open>authority/serving_authority.hpp\<close>. The sixteen factors.
  \<^item> \<open>Ordered_Map\<close>: \<open>std::map\<close> as the code uses it; locale \<open>ordered_map\<close>.
  \<^item> \<open>Controller\<close>: \<open>core/replica_set_controller.hpp\<close>, \<open>src/replica_set_controller.cpp\<close>. The record
    \<open>controller\<close> holds the three maps, the three logs, the epoch and the random engine; every
    public operation is a definition from arguments and state to result and state, all its
    branches included.
  \<^item> \<open>Controller_Lemmas\<close>, \<open>Controller_System\<close>, \<open>Controller_Demo\<close>, \<open>Controller_Safety\<close>,
    \<open>Controller_Liveness\<close>, \<open>Controller_Effects\<close>, \<open>Controller_Failover\<close>: the theorems on the
    controller. \<open>command\<close> has one constructor per operation, \<open>run_commands\<close> runs a sequence.
  \<^item> \<open>Codec\<close>, \<open>Snapshot_Codec\<close>, \<open>Crc64\<close>, \<open>Snapshot\<close>: \<open>src/snapshot.cpp\<close>,
    \<open>persistence/snapshot.hpp\<close>. Writer and reader (locale \<open>codec\<close>), the pair of every persisted
    structure, the checksum, and capture, decoding, validation and recovery.
  \<^item> \<open>Protocol\<close>: \<open>distributed/protocol.hpp\<close>, \<open>src/protocol.cpp\<close>. Message kinds, encoding and
    decoding, payload text; a read past the buffer is an outcome of its own.
  \<^item> \<open>Number_Text\<close>: \<open>std::to_string\<close>, \<open>std::stoul\<close> and \<open>std::stoull\<close>.
  \<^item> \<open>Transport\<close>: \<open>distributed/transport.hpp\<close>, \<open>src/transport.cpp\<close>. Connections and framing over
    the socket calls, which are the fields of a parameter \<open>winsock\<close>.
  \<^item> \<open>Process\<close>, \<open>Worker\<close>, \<open>Coordinator\<close>: \<open>apps/distributed/rf_worker.cpp\<close> and
    \<open>rf_coordinator.cpp\<close>. The record \<open>coordinator\<close> holds the controller, the epoch, the
    connections of the workers, the results, the placement engine, the clocks and the state of
    every connection's thread; a handler maps a message and the state to the new state and the
    messages written, or to the failure that ends the process. Locale \<open>guarded_process\<close> carries
    a relation over every sequence of events.
  \<^item> \<open>Coordinator_Safety\<close>, \<open>Distributed\<close>: the theorems on the coordinator, and on the
    coordinator and a worker together.
  \<^item> \<open>Threads\<close>, \<open>Races\<close>: the same coordinator step by step. A \<open>thread\<close> is what is left of a
    connection's handler, each of its steps one reading of a clock, one operation of the
    controller, one lookup or change of the workers' connections, one field read through a
    pointer, or one frame written; \<open>thread_of\<close> gives the thread for what arrives, \<open>process\<close> holds
    the shared state, the threads and what has arrived, and \<open>run_turns\<close> lets any thread step.
  \<^item> \<open>Mains\<close>: the \<open>main\<close> functions of the two processes over \<open>winsock\<close>: the worker from its
    arguments to its exit code, with \<open>transcript\<close> as the function of the received bytes it is proved
    to be; the coordinator until it listens and after its accept loop.
  \<^item> \<open>Deployment\<close>: both processes and any number of clients together. The record \<open>deployment\<close> holds
    the \<open>process\<close> of the coordinator with what is under way to it, who is at the other end of each
    connection, and the frames under way to it; an \<open>action\<close> is a peer that connects, sends, reads or
    hangs up, or one step of one thread of the coordinator. \<open>safely\<close> says what a thread does to its own
    connection and to others in any interleaving, \<open>deployment_ok\<close> what every connection looks like.
  \<^item> \<open>Writers\<close>: two threads that write to one connection, call by call of \<open>send_all\<close>.
  \<^item> \<open>Double\<close>, \<open>Placement\<close>: \<open>placement/placement.hpp\<close>, \<open>src/placement.cpp\<close>. Hard constraints,
    weighted factors in \<open>double\<close> arithmetic, selection.
  \<^item> \<open>Command_Line\<close>: \<open>apps/cli/rf_cli.cpp\<close>. The record \<open>cli\<close> holds the options, the controller, the
    random engine, the files and the text printed; one definition per command, \<open>cli_main\<close> for the
    program. The function that decides which files can be written is a parameter.
  \<^item> \<open>Cuda_Replica\<close>: \<open>cuda/cuda_replica.hpp\<close>, \<open>src/cuda/cuda_replica.cu\<close>. The record \<open>gpu\<close> is the
    module's variables, the kernel a definition of one thread; the calls of the CUDA runtime are
    the fields of a parameter \<open>cuda_runtime\<close>.
  \<^item> \<open>Scenario\<close>, \<open>Examples\<close>, \<open>Cuda_Demo\<close>, \<open>Benchmarks\<close>: \<open>examples/\<close>, \<open>benchmarks/rf_bench.cpp\<close> and
    \<open>tools/consumer/main.cpp\<close>. A program is a function of the engines it seeds to its exit code and
    its output. \<open>Scenario\<close> follows a program command by command: \<open>stands\<close> says what is known of one
    replica, each step of its life takes it to the next stage, and commands that are not about it
    keep it.

  \<^bold>\<open>What the theorems show.\<close>

  \<^item> Safety of the controller over all sequences of commands: the invariant
    \<open>controller_ok\<close>; each command refines one step of the abstract machine \<open>view_step\<close> of
    lifecycle and serving flag; the flag is only held by a serving primary; a drained, failed
    or retired replica, a replica of an old boot (that is not the null identity, which is shown to be
    an exception) or of an old epoch never serves; a set never exceeds its maximum; refusals change nothing (with the two operations that are exceptions
    named).
  \<^item> Liveness: a replica can be brought from provisioning to serving in every consistent
    state with room for it.
  \<^item> Exact conditions and effects of promotion, evidence, draining, failure, loss and restart of
    a worker, and failover (which candidate, by an eligibility and a preference stated apart from the
    code, what it gains, what the failed replica loses).
  \<^item> Persistence: the decoder accepts exactly the encodings (of records in which sets and replicas,
    but not the others, have distinct ids); capture and recovery are a
    round trip up to authority; recovery grants nothing, now or later; damage of a byte,
    truncation and extension are detected.
  \<^item> Messages: the codec is exact and where it reads out of bounds is characterised; a
    sequence of messages arrives as it was written; a frame is read exactly when the
    stream begins with one; sending returns
    when the socket makes progress; opening a connection leaks no socket.
  \<^item> Processes: the coordinator refines the controller under one epoch; every command is
    answered; exactly which frames end the process; what a reconnecting worker loses; a replica is
    brought up, and a request executed, by the messages of client, coordinator and worker; a worker's answers are
    well-typed for the coordinator and the coordinator's for the worker. A connected worker returns
    whatever bytes it is sent, and neither they nor a hanging up of anybody can make it end the
    coordinator; a deployment whose clients send proper commands never fails, in any order of the
    steps of the coordinator's threads and of what the peers do.
  \<^item> Interleavings of the coordinator's threads: a thread alone does what the atomic handler does,
    and every run of handlers is an interleaving; every interleaving drives the controller by its
    commands under one epoch, answers its clients, sends a command to the worker it is for
    and never reads through a dangling pointer.
    Two races that atomic handlers do not have: a reconnecting worker that is registered without
    a connection, and a registration that a command overtakes, so that the worker gives up. Frames
    that two threads write to one connection arrive exactly if one is written before the other; a
    \<open>PONG\<close> that another frame gets into ends the worker's loop.
  \<^item> Placement: it succeeds exactly when an admissible host exists, chooses the best one, does
    not depend on the order of its input, and its scores are bounded; anti-affinity and
    preferences are weights.
  \<^item> Command line tool: each command (but \<open>snapshot-recover\<close>) drives the controller by operations of its
    kind on what its arguments name and writes at most one file; runs keep the invariant from snapshot to snapshot; loading grants nothing;
    exactly which replicas the tool can make ready.
  \<^item> CUDA path: a start holds what it allocates, warming leaks nothing, teardown gives everything
    back; a grid computes the map in any order of its threads; an execution reported as successful
    has computed it, or its launch was refused unnoticed and old elements passed the comparison of
    sums, as one run shows.
  \<^item> Programs: the four controller examples and the demo of the tool succeed whatever their engines
    draw, where the identities that have to differ do and those that must not be null are not; the CUDA example runs into no undefined behaviour and leaves nothing allocated; the
    placement benchmark always places, the lifecycle benchmark leaves its set available in every
    interleaving, and the pool benchmark starts only the replicas of record ids.
  \<^item> Foundations: texts and bytes of identities and enumerations round trip; the compatibility
    check is sound and complete; the table-driven checksum is the bit-serial one.

  \<^bold>\<open>Choices.\<close> The mutex of the controller makes each operation atomic, so an
  interleaving of callers is a sequence of commands. Clock readings are arguments of the
  operations. The random engine is a stream in the state; only the theorems on the programs assume some of its outputs to be
  distinct or not null, and say which. A \<open>double\<close> that is stored or copied is its 64 bits; where
  the code computes with it, it is a rational that every operation rounds to 53 bits. Integers
  keep their width (\<open>active_requests\<close>, counts and lengths are words, and wrap as in the code);
  the transport is written for Windows, so \<open>unsigned long\<close> has 32 bits. In
  \<open>Coordinator\<close> a handler is one atomic step, the events of one connection in order and those of
  different connections in any order; \<open>Threads\<close> splits the handlers into their steps and relates the two.
  There a frame is still written as a whole, and a field read through a pointer has one of the
  values the field had. Whether a frame can be written to a connection is an
  argument of the handlers. \<open>Deployment\<close> is over the threads of \<open>Threads\<close>; frames that
  were written arrive whole and in order, and clients look at nothing they are sent. The loop that sends may run forever when the socket takes nothing,
  so it is a \<open>partial_function\<close> and its return a theorem, and so is the worker's loop over the frames
  it reads, which ends when the bytes pending do; every other loop is bounded by a list
  or a number it reads, and no definition needs fuel. Writers produce lists; a length beyond 64
  bits is excluded by the \<open>X_ok\<close> predicates.

  \<^bold>\<open>Not modelled\<close>: the accept loop, signals and log lines of the processes, frames of two threads
  mixed within a call of \<open>send_all\<close>, the error
  messages of the command line tool, the CUDA runtime, the clocks themselves, the timings of the
  benchmarks, what the CUDA example prints, and the tests.
\<close>

end
